(* ===== verification/Prelude.thy ===== *)
theory Prelude
  imports Main "HOL-Library.List_Lexorder" "HOL-Library.Char_ord" "HOL-Library.Multiset"
begin

text \<open>
  Shared vocabulary of the development. A Go map is an association list with
  distinct keys, in the order one \<open>range\<close> over it happens to visit (\<open>gomap\<close>);
  Go promises no order, so whatever a function does with a map is proved
  independent of that order where the code relies on it. Strings are lists of
  bytes and are compared lexicographically, as Go compares them. The sections
  below hold the generic lemmas on maps, sorting and joining that the component
  theories share.
\<close>

section \<open>Go maps\<close>

type_synonym gomap = "(string \<times> string) list"

definition gm_keys :: "('k \<times> 'v) list \<Rightarrow> 'k list" where
  "gm_keys m = map fst m"

definition gm_wf :: "('k \<times> 'v) list \<Rightarrow> bool" where
  "gm_wf m = distinct (map fst m)"

definition gm_get :: "gomap \<Rightarrow> string \<Rightarrow> string" where
  "gm_get m k = (case map_of m k of None \<Rightarrow> [] | Some v \<Rightarrow> v)"

fun gm_set :: "'k \<Rightarrow> 'v \<Rightarrow> ('k \<times> 'v) list \<Rightarrow> ('k \<times> 'v) list" where
  "gm_set k v [] = [(k, v)]"
| "gm_set k v ((k', v') # m) = (if k = k' then (k, v) # m else (k', v') # gm_set k v m)"

definition gm_del :: "'k \<Rightarrow> ('k \<times> 'v) list \<Rightarrow> ('k \<times> 'v) list" where
  "gm_del k m = filter (\<lambda>p. fst p \<noteq> k) m"

lemma map_of_gm_set [simp]: "map_of (gm_set k v m) = (map_of m)(k \<mapsto> v)"
  by (induction k v m rule: gm_set.induct) (auto simp: fun_eq_iff)

lemma map_of_gm_del [simp]: "map_of (gm_del k m) = (map_of m)(k := None)"
  unfolding gm_del_def by (induction m) (auto simp: fun_eq_iff)

lemma set_keys_gm_set [simp]: "fst ` set (gm_set k v m) = insert k (fst ` set m)"
  by (induction k v m rule: gm_set.induct) auto

lemma set_keys_gm_del [simp]: "fst ` set (gm_del k m) = fst ` set m - {k}"
  unfolding gm_del_def by auto

lemma gm_wf_set [intro, simp]: "gm_wf m \<Longrightarrow> gm_wf (gm_set k v m)"
  unfolding gm_wf_def
proof (induction k v m rule: gm_set.induct)
  case (2 k v k' v' m)
  then show ?case using set_keys_gm_set [of k v m] by auto
qed simp

lemma gm_wf_del [intro, simp]: "gm_wf m \<Longrightarrow> gm_wf (gm_del k m)"
  unfolding gm_wf_def gm_del_def by (induction m) auto

lemma gm_wf_Nil [simp]: "gm_wf []"
  by (simp add: gm_wf_def)

lemma gm_wf_Cons [simp]: "gm_wf ((k, v) # m) \<longleftrightarrow> k \<notin> fst ` set m \<and> gm_wf m"
  by (simp add: gm_wf_def)

lemma gm_wf_map_of: "gm_wf m \<Longrightarrow> map_of m k = Some v \<longleftrightarrow> (k, v) \<in> set m"
  by (simp add: gm_wf_def)

lemma gm_wf_tl: "gm_wf (e # m) \<Longrightarrow> fst e \<notin> fst ` set m \<and> gm_wf m"
  by (cases e) simp

lemma map_of_perm:
  assumes "gm_wf m" and "mset m = mset m'"
  shows "map_of m = map_of m'"
proof -
  have "mset (map fst m) = mset (map fst m')" using assms(2) by simp
  then have "distinct (map fst m')"
    using assms(1) unfolding gm_wf_def by (metis distinct_count_atmost_1 set_mset_mset)
  moreover have "set m = set m'" using assms(2) by (metis set_mset_mset)
  ultimately show ?thesis
    using assms(1) map_of_inject_set [of m m'] by (simp add: gm_wf_def)
qed

section \<open>Sorting, joining and deduplicating\<close>

definition join :: "string \<Rightarrow> string list \<Rightarrow> string" where
  "join sep xs = concat (case xs of [] \<Rightarrow> [] | y # ys \<Rightarrow> y # map (\<lambda>z. sep @ z) ys)"

text \<open>\<open>slices.Contains\<close> guarded append: the accumulating loop of \<open>targetsOf\<close>.\<close>

definition append_new :: "'a \<Rightarrow> 'a list \<Rightarrow> 'a list" where
  "append_new x xs = (if x \<in> set xs then xs else xs @ [x])"

lemma set_append_new [simp]: "set (append_new x xs) = insert x (set xs)"
  by (auto simp: append_new_def)

lemma distinct_append_new [simp]: "distinct (append_new x xs) = distinct xs"
  by (auto simp: append_new_def)

lemma sort_perm: "mset xs = mset ys \<Longrightarrow> sort xs = sort (ys :: 'a :: linorder list)"
  by (metis properties_for_sort sorted_sort mset_sort)

lemma sort_key_Nil_iff [simp]: "sort_key f xs = [] \<longleftrightarrow> xs = []"
  by (simp flip: length_0_conv)

lemma mset_map_filter_cong:
  "mset xs = mset ys \<Longrightarrow> mset (map f (filter P xs)) = mset (map f (filter P ys))"
  by (metis mset_filter mset_map)

lemma mset_map_filter_split:
  "image_mset f (filter_mset P M) + image_mset f (filter_mset (\<lambda>x. \<not> P x) M) = image_mset f M"
  by (metis image_mset_union multiset_partition)

section \<open>Results\<close>

text \<open>A fallible Go function returns \<open>(T, error)\<close>; here \<open>Inl\<close> is the error.\<close>

type_synonym 'a result = "string + 'a"

fun bindE :: "'e + 'a \<Rightarrow> ('a \<Rightarrow> 'e + 'b) \<Rightarrow> 'e + 'b" where
  "bindE (Inl e) f = Inl e"
| "bindE (Inr a) f = f a"

text \<open>One element of an evaluated list, found in one evaluation.\<close>

lemma nth_of_drop: "case drop n xs of [] \<Rightarrow> False | e # rest \<Rightarrow> P e \<Longrightarrow> n < length xs \<and> P (xs ! n)"
  by (cases "n < length xs") (simp_all add: Cons_nth_drop_Suc [symmetric])

end
