(* ===== verification/GoText.thy ===== *)
theory GoText
  imports Prelude
begin

text \<open>
  The part of Go's \<open>strconv\<close>, \<open>strings\<close>, \<open>fmt\<close> and \<open>time\<close> the program uses
  to move values in and out of text: decimal integers with their width check,
  booleans, quoting, prefixes and suffixes, and \<open>RFC 3339\<close> instants. Text is
  bytes; \<open>%q\<close> copies bytes at or above 128 as they are.
\<close>

section \<open>Quoting\<close>

definition hex_char :: "nat \<Rightarrow> char" where
  "hex_char d = (if d < 10 then char_of (48 + d) else char_of (87 + d))"

definition quote_char :: "char \<Rightarrow> string" where
  "quote_char c =
     (let n = (of_char c :: nat) in
      if n = 34 then [CHR 0x5C, CHR 0x22]
      else if n = 92 then [CHR 0x5C, CHR 0x5C]
      else if n = 7 then [CHR 0x5C, CHR ''a'']
      else if n = 8 then [CHR 0x5C, CHR ''b'']
      else if n = 9 then [CHR 0x5C, CHR ''t'']
      else if n = 10 then [CHR 0x5C, CHR ''n'']
      else if n = 11 then [CHR 0x5C, CHR ''v'']
      else if n = 12 then [CHR 0x5C, CHR ''f'']
      else if n = 13 then [CHR 0x5C, CHR ''r'']
      else if n < 32 \<or> n = 127
           then [CHR 0x5C, CHR ''x'', hex_char (n div 16), hex_char (n mod 16)]
      else [c])"

definition quoted :: "string \<Rightarrow> string" where
  "quoted s = CHR 0x22 # concat (map quote_char s) @ [CHR 0x22]"

section \<open>Decimal numbers\<close>

definition digit_char :: "nat \<Rightarrow> char" where
  "digit_char d = char_of (48 + d)"

definition digit_val :: "char \<Rightarrow> nat option" where
  "digit_val c = (let n = of_char c in if (48::nat) \<le> n \<and> n \<le> 57 then Some (n - 48) else None)"

fun nat_dec :: "nat \<Rightarrow> string" where
  "nat_dec n = (if n < 10 then [digit_char n] else nat_dec (n div 10) @ [digit_char (n mod 10)])"

declare nat_dec.simps [simp del]

definition int_dec :: "int \<Rightarrow> string" where
  "int_dec i = (if i < 0 then CHR ''-'' # nat_dec (nat (- i)) else nat_dec (nat i))"

fun digits_val :: "nat \<Rightarrow> string \<Rightarrow> nat option" where
  "digits_val acc [] = Some acc"
| "digits_val acc (c # cs) =
     (case digit_val c of None \<Rightarrow> None | Some d \<Rightarrow> digits_val (10 * acc + d) cs)"

text \<open>
  \<open>strconv.ParseInt(raw, 10, w)\<close>: an optional sign and digits, read from the left until one
  is no digit or the magnitude leaves the \<open>w\<close> unsigned bits, whichever comes first, and
  then the signed range. \<open>Atoi\<close> is the same at 64 bits under its own name.
\<close>

fun magnitude :: "nat \<Rightarrow> int \<Rightarrow> string \<Rightarrow> int result" where
  "magnitude w acc [] = Inr acc"
| "magnitude w acc (c # cs) =
     (case digit_val c of
        None \<Rightarrow> Inl ''invalid syntax''
      | Some d \<Rightarrow> if 2 ^ w \<le> 10 * acc + int d then Inl ''value out of range''
                  else magnitude w (10 * acc + int d) cs)"

definition parse_failed :: "string \<Rightarrow> string \<Rightarrow> string \<Rightarrow> 'a result" where
  "parse_failed fn raw why = Inl (''strconv.'' @ fn @ '': parsing '' @ quoted raw @ '': '' @ why)"

definition cut_sign :: "string \<Rightarrow> bool \<times> string" where
  "cut_sign raw =
     (case raw of
        [] \<Rightarrow> (False, [])
      | c # cs \<Rightarrow> if c = CHR ''-'' then (True, cs) else if c = CHR ''+'' then (False, cs) else (False, raw))"

definition parse_signed :: "nat \<Rightarrow> string \<Rightarrow> string \<Rightarrow> int result" where
  "parse_signed w fn raw =
     (case cut_sign raw of (neg, body) \<Rightarrow>
        if body = [] then parse_failed fn raw ''invalid syntax''
        else case magnitude w 0 body of
          Inl why \<Rightarrow> parse_failed fn raw why
        | Inr n \<Rightarrow>
            if (if neg then 2 ^ (w - 1) < n else 2 ^ (w - 1) \<le> n)
            then parse_failed fn raw ''value out of range''
            else Inr (if neg then - n else n))"

definition parse_int32 :: "string \<Rightarrow> int result" where
  "parse_int32 = parse_signed 32 ''ParseInt''"

definition atoi :: "string \<Rightarrow> int result" where
  "atoi = parse_signed 64 ''Atoi''"

lemma digit_val_digit_char [simp]: "d < 10 \<Longrightarrow> digit_val (digit_char d) = Some d"
  by (simp add: digit_val_def digit_char_def Let_def)

lemma digits_val_append:
  "digits_val acc (xs @ ys) = Option.bind (digits_val acc xs) (\<lambda>a. digits_val a ys)"
  by (induction acc xs rule: digits_val.induct) (auto split: option.splits)

lemma digits_val_nat_dec: "digits_val 0 (nat_dec n) = Some n"
proof (induction n rule: nat_dec.induct)
  case (1 n)
  show ?case
  proof (cases "n < 10")
    case True
    then show ?thesis by (subst nat_dec.simps) simp
  next
    case False
    with 1 show ?thesis by (subst nat_dec.simps) (simp add: digits_val_append)
  qed
qed

lemma digits_val_mono: "digits_val acc s = Some n \<Longrightarrow> acc \<le> n"
  by (induction acc s rule: digits_val.induct) (fastforce split: option.splits)+

lemma magnitude_digits: "digits_val acc s = Some n \<Longrightarrow> int n < 2 ^ w \<Longrightarrow> magnitude w (int acc) s = Inr (int n)"
proof (induction acc s rule: digits_val.induct)
  case (2 acc c cs)
  then obtain d where d: "digit_val c = Some d" "digits_val (10 * acc + d) cs = Some n" by (auto split: option.splits)
  then have "10 * int acc + int d \<le> int n" using digits_val_mono [OF d(2)] by simp
  then have "10 * int acc + int d < 2 ^ w" using 2(3) by linarith
  then show ?case using 2 d by simp
qed simp

lemma nat_dec_not_Nil [simp]: "nat_dec n \<noteq> []"
  by (subst nat_dec.simps) simp

lemma nat_dec_digits: "c \<in> set (nat_dec n) \<Longrightarrow> digit_val c \<noteq> None"
proof (induction n rule: nat_dec.induct)
  case (1 n)
  then show ?case by (subst (asm) (2) nat_dec.simps) (auto split: if_splits)
qed

lemma digit_val_sign [simp]: "digit_val CHR ''-'' = None" "digit_val CHR ''+'' = None"
  by (simp_all add: digit_val_def)

lemma nat_dec_head: "hd (nat_dec n) \<noteq> CHR ''-'' \<and> hd (nat_dec n) \<noteq> CHR ''+''"
  using nat_dec_digits [of "hd (nat_dec n)" n] by auto

lemma int_dec_nonempty: "int_dec i \<noteq> []"
  by (simp add: int_dec_def)

lemma parse_signed_dec:
  assumes "- (2 ^ (w - 1)) \<le> i" and "i < 2 ^ (w - 1)" and "0 < w"
  shows "parse_signed w fn (int_dec i) = Inr i"
proof -
  have double: "(2::int) ^ w = 2 * 2 ^ (w - 1)" using assms(3) by (cases w) simp_all
  have "(0::int) < 2 ^ (w - 1)" by simp
  then have "int (nat \<bar>i\<bar>) < 2 ^ w" using assms(1,2) unfolding double by linarith
  note read = magnitude_digits [OF digits_val_nat_dec this]
  show ?thesis
  proof (cases "i < 0")
    case True
    then show ?thesis using assms read by (simp add: parse_signed_def cut_sign_def int_dec_def)
  next
    case False
    obtain c cs where c: "nat_dec (nat i) = c # cs" by (cases "nat_dec (nat i)") auto
    with nat_dec_head [of "nat i"] have "c \<noteq> CHR ''-''" "c \<noteq> CHR ''+''" by auto
    then show ?thesis using False assms c read by (simp add: parse_signed_def cut_sign_def int_dec_def)
  qed
qed

lemma magnitude_nonneg: "magnitude w acc s = Inr n \<Longrightarrow> 0 \<le> acc \<Longrightarrow> 0 \<le> n"
  by (induction w acc s rule: magnitude.induct) (auto split: option.splits if_splits)

lemma parse_signed_range:
  assumes "parse_signed w fn raw = Inr v"
  shows "- (2 ^ (w - 1)) \<le> v \<and> v < 2 ^ (w - 1)"
proof -
  obtain neg body where cut: "cut_sign raw = (neg, body)" by fastforce
  then obtain n where n: "magnitude w 0 body = Inr n" "v = (if neg then - n else n)"
    "\<not> (if neg then 2 ^ (w - 1) < n else 2 ^ (w - 1) \<le> n)"
    using assms by (auto simp: parse_signed_def parse_failed_def split: if_splits sum.splits)
  have "(0::int) < 2 ^ (w - 1)" by simp
  then show ?thesis using n magnitude_nonneg [OF n(1)] by (cases neg) (auto simp del: zero_less_power)
qed

lemma parse_int32_dec: "- (2 ^ 31) \<le> i \<Longrightarrow> i < 2 ^ 31 \<Longrightarrow> parse_int32 (int_dec i) = Inr i"
  using parse_signed_dec [of 32 i] by (simp add: parse_int32_def)

lemma parse_int32_range: "parse_int32 raw = Inr v \<Longrightarrow> - (2 ^ 31) \<le> v \<and> v < 2 ^ 31"
  using parse_signed_range [of 32] by (simp add: parse_int32_def)

section \<open>Booleans\<close>

definition format_bool :: "bool \<Rightarrow> string" where
  "format_bool b = (if b then ''true'' else ''false'')"

definition parse_bool :: "string \<Rightarrow> bool result" where
  "parse_bool raw =
     (if raw \<in> set [''1'', ''t'', ''T'', ''true'', ''TRUE'', ''True''] then Inr True
      else if raw \<in> set [''0'', ''f'', ''F'', ''false'', ''FALSE'', ''False''] then Inr False
      else Inl (''strconv.ParseBool: parsing '' @ quoted raw @ '': invalid syntax''))"

lemma parse_format_bool [simp]: "parse_bool (format_bool b) = Inr b"
  by (cases b) (simp_all add: parse_bool_def format_bool_def)

section \<open>Prefixes and suffixes\<close>

fun has_prefix :: "string \<Rightarrow> string \<Rightarrow> bool" where
  "has_prefix s [] = True"
| "has_prefix [] (p # ps) = False"
| "has_prefix (c # cs) (p # ps) = (c = p \<and> has_prefix cs ps)"

definition has_suffix :: "string \<Rightarrow> string \<Rightarrow> bool" where
  "has_suffix s suf = has_prefix (rev s) (rev suf)"

text \<open>\<open>strings.CutPrefix\<close>, \<open>strings.CutSuffix\<close>: the rest, and whether it was there.\<close>

definition cut_prefix :: "string \<Rightarrow> string \<Rightarrow> string option" where
  "cut_prefix s p = (if has_prefix s p then Some (drop (length p) s) else None)"

definition cut_suffix :: "string \<Rightarrow> string \<Rightarrow> string option" where
  "cut_suffix s p = (if has_suffix s p then Some (take (length s - length p) s) else None)"

text \<open>\<open>strings.Cut(s, "/")\<close>: what precedes the first slash, if there is one.\<close>

fun before_slash :: "string \<Rightarrow> string option" where
  "before_slash [] = None"
| "before_slash (c # cs) = (if c = CHR ''/'' then Some [] else map_option (\<lambda>r. c # r) (before_slash cs))"

fun contains_sub :: "string \<Rightarrow> string \<Rightarrow> bool" where
  "contains_sub [] sub = (sub = [])"
| "contains_sub (c # cs) sub = (has_prefix (c # cs) sub \<or> contains_sub cs sub)"

text \<open>
  \<open>strings.TrimSpace\<close>: the white space of Unicode is a list of byte sequences, none a
  suffix of a longer character, so it is cut from either end a sequence at a time.
\<close>

definition space_forms :: "string list" where
  "space_forms =
     map (\<lambda>n. [char_of n]) [0x20, 0x09, 0x0A, 0x0B, 0x0C, 0x0D :: nat] @
     map (\<lambda>n. [CHR 0xC2, char_of n]) [0x85, 0xA0 :: nat] @
     [[CHR 0xE1, CHR 0x9A, CHR 0x80]] @
     map (\<lambda>n. [CHR 0xE2, CHR 0x80, char_of (0x80 + n)]) [0..<11] @
     map (\<lambda>n. [CHR 0xE2, CHR 0x80, char_of n]) [0xA8, 0xA9, 0xAF :: nat] @
     [[CHR 0xE2, CHR 0x81, CHR 0x9F], [CHR 0xE3, CHR 0x80, CHR 0x80]]"

text \<open>How many bytes of white space stand at the front; every sequence has at least one.\<close>

definition space_width :: "string list \<Rightarrow> string \<Rightarrow> nat" where
  "space_width forms s = (case find (\<lambda>f. f \<noteq> [] \<and> has_prefix s f) forms of None \<Rightarrow> 0 | Some f \<Rightarrow> length f)"

function trim_front :: "string list \<Rightarrow> string \<Rightarrow> string" where
  "trim_front forms s =
     (if s = [] \<or> space_width forms s = 0 then s else trim_front forms (drop (space_width forms s) s))"
  by pat_completeness auto
termination by (relation "measure (length \<circ> snd)") auto

declare trim_front.simps [simp del]

definition trim_space :: "string \<Rightarrow> string" where
  "trim_space s = rev (trim_front (map rev space_forms) (rev (trim_front space_forms s)))"

lemma trim_front_suffix: "\<exists>pre. s = pre @ trim_front forms s"
proof (induction forms s rule: trim_front.induct)
  case (1 forms s)
  show ?case
  proof (cases "s = [] \<or> space_width forms s = 0")
    case True
    then show ?thesis by (subst trim_front.simps) auto
  next
    case False
    with 1 obtain pre where "drop (space_width forms s) s = pre @ trim_front forms (drop (space_width forms s) s)"
      by blast
    then have "s = (take (space_width forms s) s @ pre) @ trim_front forms (drop (space_width forms s) s)"
      by (metis append_assoc append_take_drop_id)
    moreover have "trim_front forms s = trim_front forms (drop (space_width forms s) s)"
      using False by (subst trim_front.simps) simp
    ultimately show ?thesis by metis
  qed
qed

lemma trim_space_infix: "\<exists>pre post. s = pre @ trim_space s @ post"
proof -
  obtain pre where pre: "s = pre @ trim_front space_forms s" using trim_front_suffix by blast
  obtain post where "rev (trim_front space_forms s) =
      post @ trim_front (map rev space_forms) (rev (trim_front space_forms s))"
    using trim_front_suffix by blast
  then have "trim_front space_forms s = trim_space s @ rev post"
    unfolding trim_space_def by (metis rev_append rev_rev_ident)
  with pre show ?thesis by metis
qed

lemma has_prefix_iff: "has_prefix s p \<longleftrightarrow> (\<exists>r. s = p @ r)"
  by (induction s p rule: has_prefix.induct) auto

lemma has_suffix_iff: "has_suffix s p \<longleftrightarrow> (\<exists>r. s = r @ p)"
proof -
  have "(\<exists>r. rev s = rev p @ r) \<longleftrightarrow> (\<exists>r. s = r @ p)"
    by (metis rev_append rev_rev_ident)
  then show ?thesis by (simp add: has_suffix_def has_prefix_iff)
qed

lemma cut_prefix_Some: "cut_prefix s p = Some r \<longleftrightarrow> s = p @ r"
  by (auto simp: cut_prefix_def has_prefix_iff)

lemma cut_suffix_Some: "cut_suffix s p = Some r \<longleftrightarrow> s = r @ p"
  by (auto simp: cut_suffix_def has_suffix_iff)

text \<open>The em dash of a message, as the three bytes of its encoding.\<close>

definition em_dash :: string where
  "em_dash = [CHR 0xE2, CHR 0x80, CHR 0x94]"

text \<open>\<open>strings.ToLower\<close>, \<open>strings.ToUpper\<close> on bytes: the letters of ASCII.\<close>

definition lower_char :: "char \<Rightarrow> char" where
  "lower_char c = (let n = (of_char c :: nat) in if 65 \<le> n \<and> n \<le> 90 then char_of (n + 32) else c)"

definition upper_char :: "char \<Rightarrow> char" where
  "upper_char c = (let n = (of_char c :: nat) in if 97 \<le> n \<and> n \<le> 122 then char_of (n - 32) else c)"

definition to_lower :: "string \<Rightarrow> string" where
  "to_lower s = map lower_char s"

text \<open>The index of the first and of the last occurrence of a byte.\<close>

fun index_of :: "char \<Rightarrow> string \<Rightarrow> nat option" where
  "index_of c [] = None"
| "index_of c (x # xs) = (if x = c then Some 0 else map_option Suc (index_of c xs))"

definition last_index_of :: "char \<Rightarrow> string \<Rightarrow> nat option" where
  "last_index_of c s = map_option (\<lambda>i. length s - 1 - i) (index_of c (rev s))"

section \<open>Instants\<close>

text \<open>
  A \<open>time.Time\<close> is the number of nanoseconds since the Unix epoch; the zero
  \<open>time.Time\<close> is the first instant of year 1. \<open>rfc3339\<close> is
  \<open>t.UTC().Format(time.RFC3339)\<close> for years 0 to 9999: the civil date of a day
  number in the proleptic Gregorian calendar, then the time of day.
\<close>

type_synonym instant = int
type_synonym duration = int

definition zero_time :: instant where
  "zero_time = - 62135596800 * 10 ^ 9"

definition second :: duration where
  "second = 10 ^ 9"

definition pad :: "nat \<Rightarrow> int \<Rightarrow> string" where
  "pad w i = (let s = int_dec i in replicate (w - length s) CHR ''0'' @ s)"

definition civil_of_days :: "int \<Rightarrow> int \<times> int \<times> int" where
  "civil_of_days d =
     (let z = d + 719468; era = z div 146097; doe = z mod 146097;
          yoe = (doe - doe div 1460 + doe div 36524 - doe div 146096) div 365;
          doy = doe - (365 * yoe + yoe div 4 - yoe div 100);
          mp = (5 * doy + 2) div 153;
          day = doy - (153 * mp + 2) div 5 + 1;
          month = (if mp < 10 then mp + 3 else mp - 9)
      in (yoe + era * 400 + (if month \<le> 2 then 1 else 0), month, day))"

definition rfc3339 :: "instant \<Rightarrow> string" where
  "rfc3339 t =
     (let s = t div second; sod = s mod 86400; (y, m, d) = civil_of_days (s div 86400)
      in pad 4 y @ ''-'' @ pad 2 m @ ''-'' @ pad 2 d @ ''T'' @
         pad 2 (sod div 3600) @ '':'' @ pad 2 (sod mod 3600 div 60) @ '':'' @
         pad 2 (sod mod 60) @ ''Z'')"

text \<open>
  \<open>Duration.String()\<close> for a duration of at least a second: hours, minutes and
  seconds, with the fraction of a second printed without trailing zeros.
\<close>

definition frac_digits :: "int \<Rightarrow> string" where
  "frac_digits ns = rev (dropWhile (\<lambda>c. c = CHR ''0'') (rev (pad 9 ns)))"

definition dur_string :: "duration \<Rightarrow> string" where
  "dur_string d =
     (let s = d div second; ns = d mod second; h = s div 3600; m = s mod 3600 div 60;
          frac = (if ns = 0 then [] else ''.'' @ frac_digits ns)
      in (if h > 0 then int_dec h @ ''h'' else []) @
         (if h > 0 \<or> m > 0 then int_dec m @ ''m'' else []) @
         int_dec (s mod 60) @ frac @ ''s'')"

section \<open>32-bit conversion\<close>

text \<open>\<open>int32(x)\<close> of an \<open>int64\<close> keeps the low 32 bits, read as two's complement.\<close>

definition int32 :: "int \<Rightarrow> int" where
  "int32 x = (x + 2 ^ 31) mod 2 ^ 32 - 2 ^ 31"

lemma int32_id: "- (2 ^ 31) \<le> x \<Longrightarrow> x < 2 ^ 31 \<Longrightarrow> int32 x = x"
  by (simp add: int32_def)

lemma int32_range: "- (2 ^ 31) \<le> int32 x \<and> int32 x < 2 ^ 31"
proof -
  have "0 \<le> (x + 2 ^ 31) mod 2 ^ 32" "(x + 2 ^ 31) mod (2 ^ 32) < (2 ^ 32 :: int)" by simp_all
  then show ?thesis by (simp add: int32_def)
qed

end
