(* ===== verification/Destination.thy ===== *)
theory Destination
  imports GoText "HOL-Library.Word"
begin

text \<open>
  \<open>internal/actions/destination.go\<close>: which destinations an install allows, how a
  request's URL is checked against them, and the floor of addresses the dialer
  refuses whatever the allowlist says. The parser of \<open>net/url\<close> and that of
  \<open>net/netip\<close> are arguments; what the code does with their answers is here.
\<close>

unbundle bit_operations_syntax

section \<open>What the parsers answer\<close>

record url =
  ur_scheme :: string
  ur_user :: bool
  ur_host :: string
  ur_path :: string
  ur_raw_query :: string
  ur_fragment :: string

record url_lib =
  ul_parse :: "string \<Rightarrow> string + url"
  ul_join :: "url \<Rightarrow> string list \<Rightarrow> string"

text \<open>An address: four bytes, or sixteen with the zone it may carry.\<close>

datatype addr = V4 "32 word" | V6 "128 word" string

section \<open>Policies\<close>

definition scheme_http :: string where "scheme_http = ''http''"
definition scheme_https :: string where "scheme_https = ''https''"
definition allow_any :: string where "allow_any = ''*''"
definition wildcard_prefix :: string where "wildcard_prefix = ''*.''"

record destination =
  de_scheme :: string
  de_host :: string
  de_port :: string
  de_wildcard :: bool
  de_any :: bool

record policy =
  po_allowed :: "destination list"
  po_loopback :: bool

definition default_port :: "string \<Rightarrow> string" where
  "default_port scheme = (if scheme = scheme_https then ''443'' else ''80'')"

text \<open>\<open>net.SplitHostPort\<close>, with the text of its error.\<close>

definition addr_err :: "string \<Rightarrow> string \<Rightarrow> string + string \<times> string" where
  "addr_err hp why = Inl ((if hp = [] then [] else ''address '' @ hp @ '': '') @ why)"

definition net_split_host_port :: "string \<Rightarrow> string + string \<times> string" where
  "net_split_host_port hp =
     (case last_index_of CHR '':'' hp of
        None \<Rightarrow> addr_err hp ''missing port in address''
      | Some i \<Rightarrow>
          if hd hp = CHR ''[''
          then (case index_of (CHR '']'') hp of
                  None \<Rightarrow> addr_err hp ''missing ']' in address''
                | Some close \<Rightarrow>
                    if Suc close = length hp then addr_err hp ''missing port in address''
                    else if Suc close \<noteq> i
                    then addr_err hp (if hp ! Suc close = CHR '':'' then ''too many colons in address''
                                      else ''missing port in address'')
                    else if CHR ''['' \<in> set (drop 1 hp) then addr_err hp ''unexpected '[' in address''
                    else if CHR '']'' \<in> set (drop (Suc close) hp) then addr_err hp ''unexpected ']' in address''
                    else Inr (take (close - 1) (drop 1 hp), drop (Suc i) hp))
          else if CHR '':'' \<in> set (take i hp) then addr_err hp ''too many colons in address''
          else if CHR ''['' \<in> set hp then addr_err hp ''unexpected '[' in address''
          else if CHR '']'' \<in> set hp then addr_err hp ''unexpected ']' in address''
          else Inr (take i hp, drop (Suc i) hp))"

definition is_bracket :: "char \<Rightarrow> bool" where
  "is_bracket c = (c = CHR ''['' \<or> c = CHR '']'')"

definition trim_brackets :: "string \<Rightarrow> string" where
  "trim_brackets s = rev (dropWhile is_bracket (rev (dropWhile is_bracket s)))"

definition split_host_port :: "string \<Rightarrow> string \<Rightarrow> string \<times> string" where
  "split_host_port hostport scheme =
     (let (host, port) = (case net_split_host_port hostport of
            Inl e \<Rightarrow> (hostport, default_port scheme) | Inr hp \<Rightarrow> hp)
      in (trim_brackets host, if port = [] then default_port scheme else port))"

definition parse_destination :: "url_lib \<Rightarrow> string \<Rightarrow> string + destination" where
  "parse_destination lib entry =
     (case ul_parse lib entry of
        Inl e \<Rightarrow> Inl (''allowed destination '' @ quoted entry @ '' is not a URL: '' @ e)
      | Inr u \<Rightarrow>
          if ur_scheme u \<noteq> scheme_http \<and> ur_scheme u \<noteq> scheme_https
          then Inl (''allowed destination '' @ quoted entry
                    @ '' needs an http or https scheme, e.g. https://ntfy.example.com'')
          else if ur_host u = [] then Inl (''allowed destination '' @ quoted entry @ '' names no host'')
          else if ur_path u \<noteq> [] \<and> ur_path u \<noteq> ''/''
          then Inl (''allowed destination '' @ quoted entry
                    @ '' has a path; destinations are matched on scheme, host and port only'')
          else (let (host0, port) = split_host_port (ur_host u) (ur_scheme u); host = to_lower host0 in
                case cut_prefix host wildcard_prefix of
                  Some suffix \<Rightarrow> Inr \<lparr>de_scheme = ur_scheme u, de_host = ''.'' @ suffix, de_port = port,
                                     de_wildcard = True, de_any = False\<rparr>
                | None \<Rightarrow>
                    if contains_sub host allow_any
                    then Inl (''allowed destination '' @ quoted entry @ '' may only use a wildcard as a leading ''
                              @ quoted wildcard_prefix @ '' label'')
                    else Inr \<lparr>de_scheme = ur_scheme u, de_host = host, de_port = port,
                             de_wildcard = False, de_any = False\<rparr>))"

fun parse_entries :: "url_lib \<Rightarrow> string list \<Rightarrow> destination list \<Rightarrow> string + destination list" where
  "parse_entries lib [] acc = Inr acc"
| "parse_entries lib (raw # rest) acc =
     (let entry = trim_space raw in
      if entry = [] then parse_entries lib rest acc
      else if entry = allow_any
      then parse_entries lib rest (acc @ [\<lparr>de_scheme = [], de_host = [], de_port = [], de_wildcard = False, de_any = True\<rparr>])
      else (case parse_destination lib entry of
              Inl e \<Rightarrow> Inl e
            | Inr d \<Rightarrow> parse_entries lib rest (acc @ [d])))"

definition parse_policy :: "url_lib \<Rightarrow> string list \<Rightarrow> string + policy" where
  "parse_policy lib entries = bindE (parse_entries lib entries []) (\<lambda>ds. Inr \<lparr>po_allowed = ds, po_loopback = False\<rparr>)"

definition policy_empty :: "policy \<Rightarrow> bool" where
  "policy_empty p = (length (po_allowed p) = 0)"

definition matches :: "destination \<Rightarrow> string \<Rightarrow> string \<Rightarrow> string \<Rightarrow> bool" where
  "matches d scheme host port =
     (if de_any d then True
      else if de_scheme d \<noteq> scheme \<or> de_port d \<noteq> port then False
      else if de_wildcard d then has_suffix host (de_host d) \<and> length host > length (de_host d)
      else de_host d = host)"

text \<open>\<open>Check\<close>: the parsed URL or the error, beside the origin, which both outcomes report.\<close>

definition origin_text :: "string \<Rightarrow> string \<Rightarrow> string \<Rightarrow> string" where
  "origin_text scheme host port = scheme @ ''://'' @ host @ '':'' @ port"

definition policy_check :: "url_lib \<Rightarrow> policy \<Rightarrow> string \<Rightarrow> (string + url) \<times> string" where
  "policy_check lib p raw =
     (case ul_parse lib raw of
        Inl e \<Rightarrow> (Inl ''destination is not a valid URL'', [])
      | Inr u \<Rightarrow>
          let scheme = to_lower (ur_scheme u) in
          if scheme \<noteq> scheme_http \<and> scheme \<noteq> scheme_https
          then (Inl (''destination scheme '' @ quoted scheme @ '' is not http or https''), [])
          else if ur_user u
          then (Inl ''destination carries user information in the URL; use the Secret's authorization key'', [])
          else if ur_host u = [] then (Inl ''destination names no host'', [])
          else (let (host, port) = split_host_port (ur_host u) scheme in
                if host = [] then (Inl ''destination names no host'', [])
                else (let origin = origin_text scheme host port in
                      if policy_empty p
                      then (Inl (''outbound actions are disabled on this install: no destination is allowed, so ''
                                 @ origin @ '' was refused''), origin)
                      else if list_ex (\<lambda>d. matches d scheme host port) (po_allowed p)
                      then (Inr u, origin)
                      else (Inl (''destination '' @ origin
                                 @ '' is not allowed by this install; add it to the operator's allowed destinations''),
                            origin))))"

definition endpoint_on :: "url_lib \<Rightarrow> string \<Rightarrow> string \<Rightarrow> string list \<Rightarrow> string + string" where
  "endpoint_on lib base service segments =
     (case ul_parse lib base of
        Inl e \<Rightarrow> Inl (''the '' @ service @ '' url is not a valid URL'')
      | Inr u \<Rightarrow>
          if ur_raw_query u \<noteq> [] \<or> ur_fragment u \<noteq> []
          then Inl (''the '' @ service @ '' url is the base address of the instance and takes no query or fragment; ''
                    @ ''Reactor appends the path itself'')
          else Inr (ul_join lib u segments))"

section \<open>The address floor\<close>

text \<open>\<open>netip.Addr.Unmap\<close> and the predicates of \<open>net/netip\<close>.\<close>

definition unmap :: "addr \<Rightarrow> addr" where
  "unmap a = (case a of
      V4 w \<Rightarrow> V4 w
    | V6 w z \<Rightarrow> if drop_bit 32 w = 0xFFFF then V4 (ucast w) else V6 w z)"

definition is_loopback :: "addr \<Rightarrow> bool" where
  "is_loopback a = (case a of V4 w \<Rightarrow> drop_bit 24 w = 127 | V6 w z \<Rightarrow> w = 1)"

definition is_link_local_unicast :: "addr \<Rightarrow> bool" where
  "is_link_local_unicast a = (case a of
      V4 w \<Rightarrow> drop_bit 16 w = 0xA9FE
    | V6 w z \<Rightarrow> drop_bit 112 w AND 0xFFC0 = 0xFE80)"

definition is_multicast :: "addr \<Rightarrow> bool" where
  "is_multicast a = (case a of V4 w \<Rightarrow> drop_bit 28 w = 0xE | V6 w z \<Rightarrow> drop_bit 120 w = 0xFF)"

definition is_link_local_multicast :: "addr \<Rightarrow> bool" where
  "is_link_local_multicast a = (case a of
      V4 w \<Rightarrow> drop_bit 8 w = 0xE00000
    | V6 w z \<Rightarrow> drop_bit 112 w AND 0xFF0F = 0xFF02)"

definition is_interface_local_multicast :: "addr \<Rightarrow> bool" where
  "is_interface_local_multicast a = (case a of V4 w \<Rightarrow> False | V6 w z \<Rightarrow> drop_bit 112 w AND 0xFF0F = 0xFF01)"

definition is_unspecified :: "addr \<Rightarrow> bool" where
  "is_unspecified a = (case a of V4 w \<Rightarrow> w = 0 | V6 w z \<Rightarrow> w = 0 \<and> z = [])"

definition blocked :: "string \<Rightarrow> string \<Rightarrow> string" where
  "blocked shown what = ''refusing to dial '' @ shown @ '': it is '' @ what"

text \<open>\<open>controlAddress\<close>: \<open>None\<close> lets the dial go on. \<open>show\<close> prints an address.\<close>

definition control_address ::
  "(string \<Rightarrow> addr option) \<Rightarrow> (addr \<Rightarrow> string) \<Rightarrow> policy \<Rightarrow> string \<Rightarrow> string option" where
  "control_address parse show p address =
     (case net_split_host_port address of
        Inl e \<Rightarrow> Some (''refusing to dial an unparsable address: '' @ e)
      | Inr (host, port) \<Rightarrow>
          (case parse host of
             None \<Rightarrow> Some (''refusing to dial '' @ quoted host @ '', which is not an IP address'')
           | Some raw \<Rightarrow>
               (let a = unmap raw in
                if is_loopback a
                then (if po_loopback p then None else Some (blocked (show a) ''the loopback interface''))
                else if is_link_local_unicast a \<or> is_link_local_multicast a
                then Some (blocked (show a) ''a link-local address, where instance metadata services live'')
                else if is_unspecified a then Some (blocked (show a) ''the unspecified address'')
                else if is_multicast a \<or> is_interface_local_multicast a
                then Some (blocked (show a) ''a multicast address'')
                else None)))"

end
