(* ===== verification/Api.thy ===== *)
theory Api
  imports GoText
begin

text \<open>
  The API objects of \<open>api/v1alpha1/automation_types.go\<close>: an Automation's spec, the
  actions it declares and the status the reconciler writes. A pointer field of
  the Go struct is an option; \<open>int32\<close> fields are integers the API server bounds to
  32 bits. The Kubernetes metadata an Automation carries is reduced to what the
  controller reads: namespace, name, generation, whether a deletion timestamp is
  set, and the finalizers.
\<close>

record state_trigger =
  st_provider :: string
  st_state :: gomap

record target_ref =
  tf_kind :: string
  tf_name :: string
  tf_namespace :: string

record http_header =
  hh_name :: string
  hh_value :: string

record http_request =
  hr_method :: string
  hr_url :: string
  hr_secret_ref :: "string option"
  hr_headers :: "http_header list"
  hr_body :: string
  hr_idempotent :: "bool option"

record home_assistant_service =
  ha_url :: string
  ha_secret_ref :: string
  ha_domain :: string
  ha_service :: string
  ha_data :: string
  ha_idempotent :: "bool option"

record qbittorrent =
  qb_url :: string
  qb_secret_ref :: string

record wlan =
  wl_name :: string

record poe_port =
  pp_device :: string
  pp_port :: int
  pp_port_name :: string

record outlet =
  ou_device :: string
  ou_index :: int
  ou_name :: string

record notification =
  nt_secret_ref :: string
  nt_title :: string
  nt_message :: string

record action =
  ac_type :: string
  ac_target :: "target_ref option"
  ac_replicas :: "int option"
  ac_suspended :: "bool option"
  ac_cordoned :: "bool option"
  ac_request :: "http_request option"
  ac_notification :: "notification option"
  ac_home_assistant :: "home_assistant_service option"
  ac_qbittorrent :: "qbittorrent option"
  ac_wlan :: "wlan option"
  ac_poe :: "poe_port option"
  ac_outlet :: "outlet option"
  ac_timeout_seconds :: "int option"

definition reversal_declared :: string where "reversal_declared = ''Declared''"
definition reversal_baseline :: string where "reversal_baseline = ''Baseline''"
definition reversal_none :: string where "reversal_none = ''None''"

record automation_spec =
  sp_when :: "state_trigger option"
  sp_actions :: "action list"
  sp_on_exit :: "action list"
  sp_reversal :: string
  sp_dry_run :: bool
  sp_suspend :: bool

definition effective_reversal :: "automation_spec \<Rightarrow> string" where
  "effective_reversal s =
     (if sp_reversal s \<noteq> [] then sp_reversal s
      else if length (sp_on_exit s) > 0 then reversal_declared
      else reversal_baseline)"

record state_transition =
  sx_key :: string
  sx_from :: string
  sx_to :: string
  sx_time :: instant

record execution_status =
  ex_status :: string
  ex_reason :: string
  ex_time :: instant
  ex_on_exit :: bool
  ex_attempts :: int

record edge_execution_status =
  ee_type :: string
  ee_status :: string
  ee_reason :: string
  ee_destination :: string
  ee_attempts :: int
  ee_on_exit :: bool
  ee_time :: instant

record reversal_intent =
  ri_claimant :: string
  ri_desired :: int
  ri_level :: string

record target_preview =
  pv_desired :: "int option"
  pv_effective :: "int option"
  pv_level :: string
  pv_deferred_by :: "string list"
  pv_would_defer :: "string list"
  pv_on_exit :: string

record target_status =
  ts_ref :: string
  ts_desired :: "int option"
  ts_effective :: "int option"
  ts_level :: string
  ts_deferred_by :: "string list"
  ts_preview :: "target_preview option"
  ts_reversal_disagreement :: "reversal_intent list"
  ts_managed_by :: string

record condition =
  cd_type :: string
  cd_status :: string
  cd_reason :: string
  cd_message :: string
  cd_observed_generation :: int
  cd_last_transition :: instant

record automation_status =
  au_conditions :: "condition list"
  au_matching :: "bool option"
  au_observed_state :: gomap
  au_observed_at :: "instant option"
  au_last_transition :: "state_transition option"
  au_last_execution :: "execution_status option"
  au_edge_actions :: "edge_execution_status list"
  au_targets :: "target_status list"
  au_release_attempts :: int

definition is_matching :: "automation_status \<Rightarrow> bool" where
  "is_matching s = (case au_matching s of None \<Rightarrow> False | Some m \<Rightarrow> m)"

record automation =
  am_namespace :: string
  am_name :: string
  am_generation :: int
  am_deleting :: bool
  am_finalizers :: "string list"
  am_spec :: automation_spec
  am_status :: automation_status

definition in_force :: "automation \<Rightarrow> bool" where
  "in_force a = (\<not> am_deleting a \<and> \<not> sp_suspend (am_spec a) \<and> \<not> sp_dry_run (am_spec a))"

text \<open>\<open>controllerutil\<close>: a finalizer is present at most once, and adding or removing says whether it changed.\<close>

definition add_finalizer :: "string \<Rightarrow> automation \<Rightarrow> automation \<times> bool" where
  "add_finalizer f a =
     (if f \<in> set (am_finalizers a) then (a, False)
      else (a\<lparr>am_finalizers := am_finalizers a @ [f]\<rparr>, True))"

definition remove_finalizer :: "string \<Rightarrow> automation \<Rightarrow> automation \<times> bool" where
  "remove_finalizer f a =
     (if f \<in> set (am_finalizers a)
      then (a\<lparr>am_finalizers := filter (\<lambda>g. g \<noteq> f) (am_finalizers a)\<rparr>, True) else (a, False))"

lemma remove_finalizer_gone: "f \<notin> set (am_finalizers (fst (remove_finalizer f a)))"
  by (auto simp: remove_finalizer_def)

lemma add_finalizer_present: "f \<in> set (am_finalizers (fst (add_finalizer f a)))"
  by (auto simp: add_finalizer_def)

lemma effective_reversal_nonempty: "effective_reversal s \<noteq> []"
  by (simp add: effective_reversal_def reversal_declared_def reversal_baseline_def)

end
