(* ===== verification/StateStore.thy ===== *)
theory StateStore
  imports GoText
begin

text \<open>
  \<open>internal/engine/state.go\<close> and the observation type of \<open>internal/events/event.go\<close>:
  the latest reported state per provider, the values still proving themselves
  against the debounce threshold, and the transitions between observations.
  The mutex of the Go store makes each operation atomic, so an operation is one
  function on the store. The operation on all keys is proved to act on every key
  as the one-key machine \<open>key_step\<close>, and the debounce guarantees are proved on
  that machine.
\<close>

record observation =
  ob_provider :: string
  ob_state :: gomap
  ob_at :: instant

record transition =
  tr_provider :: string
  tr_key :: string
  tr_from :: string
  tr_to :: string

record debounce_config =
  db_default :: int
  db_per_key :: "(string \<times> int) list"

record candidate =
  cand_value :: string
  cand_count :: int

record provider_state =
  ps_stable :: gomap
  ps_pending :: "(string \<times> candidate) list"
  ps_observed_at :: instant

record state_store =
  ss_current :: "(string \<times> provider_state) list"
  ss_debounce :: "(string \<times> debounce_config) list"
  ss_stale_after :: "(string \<times> duration) list"

section \<open>Construction\<close>

definition new_state_store :: "(state_store \<Rightarrow> state_store) list \<Rightarrow> state_store" where
  "new_state_store options =
     fold (\<lambda>option s. option s) options \<lparr>ss_current = [], ss_debounce = [], ss_stale_after = []\<rparr>"

definition with_debounce :: "string \<Rightarrow> debounce_config \<Rightarrow> state_store \<Rightarrow> state_store" where
  "with_debounce provider config s = s\<lparr>ss_debounce := gm_set provider config (ss_debounce s)\<rparr>"

definition with_stale_after :: "string \<Rightarrow> duration \<Rightarrow> state_store \<Rightarrow> state_store" where
  "with_stale_after provider bound s =
     (if bound > 0 then s\<lparr>ss_stale_after := gm_set provider bound (ss_stale_after s)\<rparr> else s)"

section \<open>Sample counts\<close>

text \<open>The longest \<open>prefix*\<close> entry that matches the key, by the loop's running best.\<close>

fun pattern_loop :: "string \<Rightarrow> (string \<times> int) list \<Rightarrow> int \<times> int \<Rightarrow> int \<times> int" where
  "pattern_loop key [] acc = acc"
| "pattern_loop key ((pattern, configured) # rest) (best, samples) =
     (case cut_suffix pattern ''*'' of
        None \<Rightarrow> pattern_loop key rest (best, samples)
      | Some prefix \<Rightarrow>
          if \<not> has_prefix key prefix \<or> int (length prefix) \<le> best
          then pattern_loop key rest (best, samples)
          else pattern_loop key rest (int (length prefix), configured))"

definition pattern_samples :: "debounce_config \<Rightarrow> string \<Rightarrow> int option" where
  "pattern_samples d key =
     (let (best, samples) = pattern_loop key (db_per_key d) (-1, 0)
      in if 0 \<le> best then Some samples else None)"

definition samples_for :: "state_store \<Rightarrow> string \<Rightarrow> string \<Rightarrow> int" where
  "samples_for s provider key =
     (case map_of (ss_debounce s) provider of
        None \<Rightarrow> 1
      | Some config \<Rightarrow>
          (case map_of (db_per_key config) key of
             Some samples \<Rightarrow> samples
           | None \<Rightarrow>
               (case pattern_samples config key of
                  Some samples \<Rightarrow> samples
                | None \<Rightarrow> if db_default config < 1 then 1 else db_default config)))"

section \<open>Observe\<close>

definition new_provider_state :: provider_state where
  "new_provider_state = \<lparr>ps_stable = [], ps_pending = [], ps_observed_at = zero_time\<rparr>"

definition promote :: "string \<Rightarrow> string \<Rightarrow> provider_state \<Rightarrow> provider_state" where
  "promote key to cur =
     cur\<lparr>ps_stable := gm_set key to (ps_stable cur), ps_pending := gm_del key (ps_pending cur)\<rparr>"

text \<open>One iteration of the loop over the observation's state.\<close>

fun observe_entry :: "state_store \<Rightarrow> string \<Rightarrow> string \<times> string \<Rightarrow>
    provider_state \<times> transition list \<Rightarrow> provider_state \<times> transition list" where
  "observe_entry s provider (key, to) (cur, ts) =
     (let from = gm_get (ps_stable cur) key; known = (map_of (ps_stable cur) key \<noteq> None);
          moved = \<lparr>tr_provider = provider, tr_key = key, tr_from = from, tr_to = to\<rparr>
      in if known \<and> from = to
         then (cur\<lparr>ps_pending := gm_del key (ps_pending cur)\<rparr>, ts)
         else (let samples = samples_for s provider key
               in if \<not> known \<or> samples \<le> 1
                  then (promote key to cur, ts @ [moved])
                  else (let seen = (case map_of (ps_pending cur) key of
                                      None \<Rightarrow> \<lparr>cand_value = [], cand_count = 0\<rparr> | Some c \<Rightarrow> c);
                            started = (if cand_value seen \<noteq> to
                                       then \<lparr>cand_value = to, cand_count = 0\<rparr> else seen);
                            proving = started\<lparr>cand_count := cand_count started + 1\<rparr>
                        in if cand_count proving < samples
                           then (cur\<lparr>ps_pending := gm_set key proving (ps_pending cur)\<rparr>, ts)
                           else (promote key to cur, ts @ [moved]))))"

fun observe_entries :: "state_store \<Rightarrow> string \<Rightarrow> gomap \<Rightarrow>
    provider_state \<times> transition list \<Rightarrow> provider_state \<times> transition list" where
  "observe_entries s provider [] acc = acc"
| "observe_entries s provider (e # es) acc =
     observe_entries s provider es (observe_entry s provider e acc)"

text \<open>
  The second loop runs over the stable state as it stands after the first and
  deletes only the key it is visiting, so it visits the entries it started with.
\<close>

fun drop_vanished :: "string \<Rightarrow> gomap \<Rightarrow> gomap \<Rightarrow>
    provider_state \<times> transition list \<Rightarrow> provider_state \<times> transition list" where
  "drop_vanished provider obs [] acc = acc"
| "drop_vanished provider obs ((key, from) # rest) (cur, ts) =
     (if map_of obs key \<noteq> None then drop_vanished provider obs rest (cur, ts)
      else drop_vanished provider obs rest
             (cur\<lparr>ps_stable := gm_del key (ps_stable cur), ps_pending := gm_del key (ps_pending cur)\<rparr>,
              ts @ [\<lparr>tr_provider = provider, tr_key = key, tr_from = from, tr_to = []\<rparr>]))"

definition provider_state_of :: "state_store \<Rightarrow> string \<Rightarrow> provider_state" where
  "provider_state_of s provider =
     (case map_of (ss_current s) provider of None \<Rightarrow> new_provider_state | Some cur \<Rightarrow> cur)"

definition observe :: "state_store \<Rightarrow> observation \<Rightarrow> state_store \<times> transition list" where
  "observe s ob =
     (let provider = ob_provider ob;
          cur = (provider_state_of s provider)\<lparr>ps_observed_at := ob_at ob\<rparr>;
          (cur1, ts1) = observe_entries s provider (ob_state ob) (cur, []);
          (cur2, ts2) = drop_vanished provider (ob_state ob) (ps_stable cur1) (cur1, ts1)
      in (s\<lparr>ss_current := gm_set provider cur2 (ss_current s)\<rparr>, ts2))"

section \<open>Reading the store\<close>

definition proving :: "state_store \<Rightarrow> string \<Rightarrow> bool" where
  "proving s provider =
     (case map_of (ss_current s) provider of None \<Rightarrow> False | Some cur \<Rightarrow> length (ps_pending cur) > 0)"

definition store_get :: "state_store \<Rightarrow> string \<Rightarrow> observation option" where
  "store_get s provider =
     (case map_of (ss_current s) provider of
        None \<Rightarrow> None
      | Some cur \<Rightarrow> Some \<lparr>ob_provider = provider, ob_state = ps_stable cur, ob_at = ps_observed_at cur\<rparr>)"

record freshness =
  fr_observed_at :: instant
  fr_age :: duration
  fr_bound :: duration
  fr_stale :: bool

definition store_freshness :: "state_store \<Rightarrow> string \<Rightarrow> instant \<Rightarrow> freshness option" where
  "store_freshness s provider now =
     (case map_of (ss_current s) provider of
        None \<Rightarrow> None
      | Some cur \<Rightarrow>
          (let age = now - ps_observed_at cur;
               bound = (case map_of (ss_stale_after s) provider of None \<Rightarrow> 0 | Some b \<Rightarrow> b)
           in Some \<lparr>fr_observed_at = ps_observed_at cur, fr_age = age, fr_bound = bound,
                    fr_stale = (bound > 0 \<and> age > bound)\<rparr>))"

section \<open>One key at a time\<close>

text \<open>
  What the store knows of one key: the reported value and the candidate proving
  itself. \<open>key_step n v w\<close> is the effect of one observation, where \<open>n\<close> is the
  configured sample count and \<open>w\<close> is the observed value, or \<open>None\<close> when the
  observation does not mention the key; \<open>key_emit\<close> says whether it reports a
  transition.
\<close>

record key_view =
  kv_stable :: "string option"
  kv_pending :: "candidate option"

definition view_of :: "provider_state \<Rightarrow> string \<Rightarrow> key_view" where
  "view_of cur key = \<lparr>kv_stable = map_of (ps_stable cur) key, kv_pending = map_of (ps_pending cur) key\<rparr>"

definition next_candidate :: "candidate option \<Rightarrow> string \<Rightarrow> candidate" where
  "next_candidate c to =
     (case c of
        Some c \<Rightarrow> if cand_value c = to then c\<lparr>cand_count := cand_count c + 1\<rparr>
                  else \<lparr>cand_value = to, cand_count = 1\<rparr>
      | None \<Rightarrow> \<lparr>cand_value = to, cand_count = 1\<rparr>)"

definition promotes :: "int \<Rightarrow> key_view \<Rightarrow> string \<Rightarrow> bool" where
  "promotes n v to =
     (case kv_stable v of
        None \<Rightarrow> True
      | Some from \<Rightarrow> from \<noteq> to \<and> (n \<le> 1 \<or> n \<le> cand_count (next_candidate (kv_pending v) to)))"

fun key_step :: "int \<Rightarrow> key_view \<Rightarrow> string option \<Rightarrow> key_view" where
  "key_step n v None =
     (if kv_stable v = None then v else \<lparr>kv_stable = None, kv_pending = None\<rparr>)"
| "key_step n v (Some to) =
     (if kv_stable v = Some to then v\<lparr>kv_pending := None\<rparr>
      else if promotes n v to then \<lparr>kv_stable = Some to, kv_pending = None\<rparr>
      else v\<lparr>kv_pending := Some (next_candidate (kv_pending v) to)\<rparr>)"

fun key_emit :: "int \<Rightarrow> string \<Rightarrow> string \<Rightarrow> key_view \<Rightarrow> string option \<Rightarrow> transition list" where
  "key_emit n provider key v None =
     (case kv_stable v of None \<Rightarrow> []
      | Some from \<Rightarrow> [\<lparr>tr_provider = provider, tr_key = key, tr_from = from, tr_to = []\<rparr>])"
| "key_emit n provider key v (Some to) =
     (if promotes n v to
      then [\<lparr>tr_provider = provider, tr_key = key,
             tr_from = (case kv_stable v of None \<Rightarrow> [] | Some from \<Rightarrow> from), tr_to = to\<rparr>]
      else [])"

lemma view_of_simps [simp]:
  "view_of (cur\<lparr>ps_observed_at := t\<rparr>) k = view_of cur k"
  "view_of (promote key to cur) k =
     (if k = key then \<lparr>kv_stable = Some to, kv_pending = None\<rparr> else view_of cur k)"
  "view_of (cur\<lparr>ps_pending := gm_del key (ps_pending cur)\<rparr>) k =
     (if k = key then (view_of cur k)\<lparr>kv_pending := None\<rparr> else view_of cur k)"
  "view_of (cur\<lparr>ps_pending := gm_set key c (ps_pending cur)\<rparr>) k =
     (if k = key then (view_of cur k)\<lparr>kv_pending := Some c\<rparr> else view_of cur k)"
  "view_of (cur\<lparr>ps_stable := gm_del key (ps_stable cur), ps_pending := gm_del key (ps_pending cur)\<rparr>) k =
     (if k = key then \<lparr>kv_stable = None, kv_pending = None\<rparr> else view_of cur k)"
  by (simp_all add: view_of_def promote_def)

lemma observe_entry_view:
  assumes "observe_entry s p (key, to) (cur, ts) = (cur', ts')"
  shows "view_of cur' k =
     (if k = key then key_step (samples_for s p key) (view_of cur key) (Some to) else view_of cur k)"
    and "ts' = ts @ key_emit (samples_for s p key) p key (view_of cur key) (Some to)"
  using assms
  by (auto simp: Let_def view_of_def promote_def promotes_def next_candidate_def gm_get_def
      split: if_splits option.splits)

lemma observe_entry_wf:
  assumes "observe_entry s p e (cur, ts) = (cur', ts')" and "gm_wf (ps_stable cur)" and "gm_wf (ps_pending cur)"
  shows "gm_wf (ps_stable cur') \<and> gm_wf (ps_pending cur')"
  using assms by (cases e) (auto simp: Let_def promote_def split: if_splits option.splits)

declare observe_entry.simps [simp del]

definition emits_of :: "state_store \<Rightarrow> string \<Rightarrow> provider_state \<Rightarrow> string \<times> string \<Rightarrow> transition list" where
  "emits_of s p cur e = key_emit (samples_for s p (fst e)) p (fst e) (view_of cur (fst e)) (Some (snd e))"

lemma emits_of_pair:
  "emits_of s p cur (k, to) = key_emit (samples_for s p k) p k (view_of cur k) (Some to)"
  by (simp add: emits_of_def)

lemma observe_entries_view:
  assumes "observe_entries s p es (cur, ts) = (cur', ts')" and "gm_wf es"
  shows "view_of cur' k =
       (case map_of es k of None \<Rightarrow> view_of cur k
        | Some to \<Rightarrow> key_step (samples_for s p k) (view_of cur k) (Some to))
     \<and> ts' = ts @ concat (map (emits_of s p cur) es)"
  using assms
proof (induction es arbitrary: cur ts)
  case Nil
  then show ?case by simp
next
  case (Cons e es)
  obtain key to where e: "e = (key, to)" by (cases e) auto
  obtain cur1 ts1 where step: "observe_entry s p (key, to) (cur, ts) = (cur1, ts1)"
    by (cases "observe_entry s p (key, to) (cur, ts)")
  have view1: "view_of cur1 j =
      (if j = key then key_step (samples_for s p key) (view_of cur key) (Some to) else view_of cur j)" for j
    using observe_entry_view(1) [OF step] .
  have fresh: "key \<notin> fst ` set es" and wf: "gm_wf es" using Cons.prems(2) e by auto
  from Cons.prems(1) e step have rest: "observe_entries s p es (cur1, ts1) = (cur', ts')" by simp
  have same: "emits_of s p cur1 x = emits_of s p cur x" if "x \<in> set es" for x
    using that fresh view1 by (auto simp: emits_of_def)
  have "map_of es key = None" using fresh by (simp add: map_of_eq_None_iff)
  moreover have "concat (map (emits_of s p cur1) es) = concat (map (emits_of s p cur) es)"
    using same by (metis (no_types, lifting) map_eq_conv)
  ultimately show ?case
    using Cons.IH [OF rest wf] observe_entry_view(2) [OF step] view1 [of k] e
    by (auto simp: emits_of_pair simp del: key_step.simps key_emit.simps split: option.splits)
qed

lemma observe_entries_wf:
  "observe_entries s p es (cur, ts) = (cur', ts') \<Longrightarrow> gm_wf (ps_stable cur) \<Longrightarrow> gm_wf (ps_pending cur) \<Longrightarrow>
   gm_wf (ps_stable cur') \<and> gm_wf (ps_pending cur')"
proof (induction es arbitrary: cur ts)
  case (Cons e es)
  obtain cur1 ts1 where step: "observe_entry s p e (cur, ts) = (cur1, ts1)"
    by (cases "observe_entry s p e (cur, ts)")
  with Cons show ?case using observe_entry_wf [OF step] by simp
qed simp

definition vanish_of :: "string \<Rightarrow> gomap \<Rightarrow> string \<times> string \<Rightarrow> transition list" where
  "vanish_of p obs e =
     (if map_of obs (fst e) = None
      then [\<lparr>tr_provider = p, tr_key = fst e, tr_from = snd e, tr_to = []\<rparr>] else [])"

lemma drop_vanished_view:
  assumes "drop_vanished p obs es (cur, ts) = (cur', ts')"
  shows "view_of cur' k =
       (if k \<in> fst ` set es \<and> map_of obs k = None then \<lparr>kv_stable = None, kv_pending = None\<rparr> else view_of cur k)
     \<and> ts' = ts @ concat (map (vanish_of p obs) es)"
  using assms
proof (induction es arbitrary: cur ts)
  case (Cons e es)
  obtain key old where e: "e = (key, old)" by (cases e) auto
  show ?case
  proof (cases "map_of obs key = None")
    case True
    with Cons.prems e have
      "drop_vanished p obs es
         (cur\<lparr>ps_stable := gm_del key (ps_stable cur), ps_pending := gm_del key (ps_pending cur)\<rparr>,
          ts @ [\<lparr>tr_provider = p, tr_key = key, tr_from = old, tr_to = []\<rparr>]) = (cur', ts')" by simp
    from Cons.IH [OF this] e True show ?thesis by (auto simp: vanish_of_def)
  next
    case False
    with Cons.prems e have "drop_vanished p obs es (cur, ts) = (cur', ts')" by auto
    from Cons.IH [OF this] e False show ?thesis by (auto simp: vanish_of_def)
  qed
qed simp

lemma drop_vanished_wf:
  "drop_vanished p obs es (cur, ts) = (cur', ts') \<Longrightarrow> gm_wf (ps_stable cur) \<Longrightarrow> gm_wf (ps_pending cur) \<Longrightarrow>
   gm_wf (ps_stable cur') \<and> gm_wf (ps_pending cur')"
proof (induction es arbitrary: cur ts)
  case (Cons e es)
  then show ?case by (cases e) (auto split: if_splits option.splits)
qed simp

section \<open>Every key moves as the one-key machine\<close>

definition provider_view :: "state_store \<Rightarrow> string \<Rightarrow> string \<Rightarrow> key_view" where
  "provider_view s p k = view_of (provider_state_of s p) k"

definition store_wf :: "state_store \<Rightarrow> bool" where
  "store_wf s = (\<forall>e \<in> set (ss_current s). gm_wf (ps_stable (snd e)) \<and> gm_wf (ps_pending (snd e)))"

lemma provider_state_wf:
  "store_wf s \<Longrightarrow> gm_wf (ps_stable (provider_state_of s p)) \<and> gm_wf (ps_pending (provider_state_of s p))"
  by (auto simp: provider_state_of_def store_wf_def new_provider_state_def split: option.splits
      dest!: map_of_SomeD)

lemma observe_unfold:
  obtains cur1 ts1 cur2 ts2 where
    "observe_entries s (ob_provider ob) (ob_state ob)
       ((provider_state_of s (ob_provider ob))\<lparr>ps_observed_at := ob_at ob\<rparr>, []) = (cur1, ts1)"
    and "drop_vanished (ob_provider ob) (ob_state ob) (ps_stable cur1) (cur1, ts1) = (cur2, ts2)"
    and "observe s ob = (s\<lparr>ss_current := gm_set (ob_provider ob) cur2 (ss_current s)\<rparr>, ts2)"
  by (force simp: observe_def Let_def split: prod.splits)

lemma observe_config [simp]:
  "ss_debounce (fst (observe s ob)) = ss_debounce s"
  "ss_stale_after (fst (observe s ob)) = ss_stale_after s"
  by (simp_all add: observe_def Let_def split: prod.splits)

lemma samples_for_observe [simp]: "samples_for (fst (observe s ob)) p k = samples_for s p k"
  by (simp add: samples_for_def)

lemma set_gm_set: "e \<in> set (gm_set k v m) \<Longrightarrow> e = (k, v) \<or> e \<in> set m"
  by (induction k v m rule: gm_set.induct) (auto split: if_splits)

lemma observe_wf: "store_wf s \<Longrightarrow> store_wf (fst (observe s ob))"
  by (rule observe_unfold [of s ob])
    (auto simp: store_wf_def dest!: set_gm_set observe_entries_wf drop_vanished_wf
      dest: provider_state_wf [unfolded store_wf_def])

lemma observe_view:
  assumes "gm_wf (ob_state ob)"
  shows "provider_view (fst (observe s ob)) p k =
    (if p = ob_provider ob
     then key_step (samples_for s p k) (provider_view s p k) (map_of (ob_state ob) k)
     else provider_view s p k)"
proof -
  obtain cur1 ts1 cur2 ts2 where
    e: "observe_entries s (ob_provider ob) (ob_state ob)
       ((provider_state_of s (ob_provider ob))\<lparr>ps_observed_at := ob_at ob\<rparr>, []) = (cur1, ts1)"
    and d: "drop_vanished (ob_provider ob) (ob_state ob) (ps_stable cur1) (cur1, ts1) = (cur2, ts2)"
    and o: "observe s ob = (s\<lparr>ss_current := gm_set (ob_provider ob) cur2 (ss_current s)\<rparr>, ts2)"
    by (rule observe_unfold)
  note v1 = observe_entries_view [OF e assms, THEN conjunct1, of k]
  note v2 = drop_vanished_view [OF d, THEN conjunct1, of k]
  have keys: "k \<in> fst ` set (ps_stable cur1) \<longleftrightarrow> kv_stable (view_of cur1 k) \<noteq> None"
    by (simp add: view_of_def map_of_eq_None_iff)
  show ?thesis
  proof (cases "p = ob_provider ob")
    case True
    have "view_of cur2 k =
        key_step (samples_for s p k) (provider_view s p k) (map_of (ob_state ob) k)"
      using v1 v2 keys True
      by (cases "map_of (ob_state ob) k") (auto simp: provider_view_def simp del: key_step.simps(2))
    then show ?thesis using o True by (simp add: provider_view_def provider_state_of_def)
  next
    case False
    then show ?thesis using o by (simp add: provider_view_def provider_state_of_def)
  qed
qed

lemma emits_mem:
  assumes "gm_wf es"
  shows "t \<in> set (concat (map (emits_of s p cur) es)) \<longleftrightarrow>
    (\<exists>k to. map_of es k = Some to \<and> t \<in> set (key_emit (samples_for s p k) p k (view_of cur k) (Some to)))"
proof -
  have "t \<in> set (concat (map (emits_of s p cur) es)) \<longleftrightarrow>
      (\<exists>k to. (k, to) \<in> set es \<and> t \<in> set (emits_of s p cur (k, to)))"
    by auto
  then show ?thesis by (simp add: gm_wf_map_of [OF assms] emits_of_pair del: key_emit.simps)
qed

lemma vanish_mem:
  assumes "gm_wf es"
  shows "t \<in> set (concat (map (vanish_of p obs) es)) \<longleftrightarrow>
    (\<exists>k v. map_of obs k = None \<and> map_of es k = Some v \<and>
       t = \<lparr>tr_provider = p, tr_key = k, tr_from = v, tr_to = []\<rparr>)"
proof -
  have "t \<in> set (concat (map (vanish_of p obs) es)) \<longleftrightarrow>
      (\<exists>k v. (k, v) \<in> set es \<and> t \<in> set (vanish_of p obs (k, v)))"
    by auto
  also have "\<dots> \<longleftrightarrow> (\<exists>k v. map_of obs k = None \<and> map_of es k = Some v \<and>
       t = \<lparr>tr_provider = p, tr_key = k, tr_from = v, tr_to = []\<rparr>)"
    unfolding gm_wf_map_of [OF assms] by (auto simp: vanish_of_def)
  finally show ?thesis .
qed

lemma emits_keys:
  "gm_wf es \<Longrightarrow> distinct (map tr_key (concat (map (emits_of s p cur) es))) \<and>
     set (map tr_key (concat (map (emits_of s p cur) es))) \<subseteq> fst ` set es"
proof (induction es)
  case (Cons a es)
  have "map tr_key (emits_of s p cur a) = (if emits_of s p cur a = [] then [] else [fst a])"
    by (simp add: emits_of_def)
  then show ?case using Cons.IH gm_wf_tl [OF Cons.prems] by (auto split: if_splits)
qed simp

lemma vanish_keys:
  "gm_wf es \<Longrightarrow> distinct (map tr_key (concat (map (vanish_of p obs) es))) \<and>
     set (map tr_key (concat (map (vanish_of p obs) es))) \<subseteq> fst ` set es - dom (map_of obs)"
proof (induction es)
  case (Cons a es)
  have "map tr_key (vanish_of p obs a) = (if map_of obs (fst a) = None then [fst a] else [])"
    by (simp add: vanish_of_def)
  then show ?case using Cons.IH gm_wf_tl [OF Cons.prems] by (auto split: if_splits)
qed simp

lemma observe_transitions_split:
  assumes "gm_wf (ob_state ob)" and "store_wf s"
  obtains stable where
    "gm_wf stable"
    and "\<And>k. map_of (ob_state ob) k = None \<Longrightarrow> map_of stable k = kv_stable (provider_view s (ob_provider ob) k)"
    and "snd (observe s ob) =
       concat (map (emits_of s (ob_provider ob) (provider_state_of s (ob_provider ob))) (ob_state ob)) @
       concat (map (vanish_of (ob_provider ob) (ob_state ob)) stable)"
proof -
  let ?p = "ob_provider ob"
  obtain cur1 ts1 cur2 ts2 where
    e: "observe_entries s ?p (ob_state ob)
       ((provider_state_of s ?p)\<lparr>ps_observed_at := ob_at ob\<rparr>, []) = (cur1, ts1)"
    and d: "drop_vanished ?p (ob_state ob) (ps_stable cur1) (cur1, ts1) = (cur2, ts2)"
    and o: "observe s ob = (s\<lparr>ss_current := gm_set ?p cur2 (ss_current s)\<rparr>, ts2)"
    by (rule observe_unfold)
  have "emits_of s ?p ((provider_state_of s ?p)\<lparr>ps_observed_at := ob_at ob\<rparr>) =
      emits_of s ?p (provider_state_of s ?p)"
    by (rule ext) (simp only: emits_of_def view_of_simps)
  then have "snd (observe s ob) = concat (map (emits_of s ?p (provider_state_of s ?p)) (ob_state ob)) @
       concat (map (vanish_of ?p (ob_state ob)) (ps_stable cur1))"
    using o observe_entries_view [OF e assms(1), THEN conjunct2] drop_vanished_view [OF d, THEN conjunct2]
    by simp
  moreover have "map_of (ps_stable cur1) k = kv_stable (provider_view s ?p k)"
    if "map_of (ob_state ob) k = None" for k
    using observe_entries_view [OF e assms(1), THEN conjunct1, of k] that
    by (simp add: provider_view_def) (simp add: view_of_def)
  moreover have "gm_wf (ps_stable cur1)"
    using observe_entries_wf [OF e] provider_state_wf [OF assms(2)] by simp
  ultimately show thesis using that by blast
qed

lemma observe_transitions:
  assumes "gm_wf (ob_state ob)" and "store_wf s"
  shows "t \<in> set (snd (observe s ob)) \<longleftrightarrow>
    (\<exists>k. t \<in> set (key_emit (samples_for s (ob_provider ob) k) (ob_provider ob) k
                    (provider_view s (ob_provider ob) k) (map_of (ob_state ob) k)))"
proof -
  let ?p = "ob_provider ob"
  obtain stable where st: "gm_wf stable"
    "\<And>k. map_of (ob_state ob) k = None \<Longrightarrow> map_of stable k = kv_stable (provider_view s ?p k)"
    "snd (observe s ob) = concat (map (emits_of s ?p (provider_state_of s ?p)) (ob_state ob)) @
       concat (map (vanish_of ?p (ob_state ob)) stable)"
    using observe_transitions_split [OF assms] by blast
  have "t \<in> set (snd (observe s ob)) \<longleftrightarrow>
      (\<exists>k to. map_of (ob_state ob) k = Some to \<and>
         t \<in> set (key_emit (samples_for s ?p k) ?p k (provider_view s ?p k) (Some to))) \<or>
      (\<exists>k. map_of (ob_state ob) k = None \<and>
         t \<in> set (key_emit (samples_for s ?p k) ?p k (provider_view s ?p k) None))"
    unfolding st(3) set_append Un_iff emits_mem [OF assms(1)] vanish_mem [OF st(1)]
    using st(2) by (auto simp: provider_view_def simp del: key_emit.simps(2) split: option.splits)
  then show ?thesis by (metis option.exhaust)
qed

lemma observe_reports_once:
  assumes "gm_wf (ob_state ob)" and "store_wf s"
  shows "distinct (map tr_key (snd (observe s ob)))"
proof -
  obtain stable where st: "gm_wf stable"
    "snd (observe s ob) = concat (map (emits_of s (ob_provider ob) (provider_state_of s (ob_provider ob))) (ob_state ob)) @
       concat (map (vanish_of (ob_provider ob) (ob_state ob)) stable)"
    using observe_transitions_split [OF assms] by blast
  have "set (map tr_key (concat (map (emits_of s (ob_provider ob) (provider_state_of s (ob_provider ob))) (ob_state ob)))) \<inter>
      set (map tr_key (concat (map (vanish_of (ob_provider ob) (ob_state ob)) stable))) = {}"
    using emits_keys [OF assms(1), of s "ob_provider ob" "provider_state_of s (ob_provider ob)"]
      vanish_keys [OF st(1), of "ob_provider ob" "ob_state ob"]
      dom_map_of_conv_image_fst [of "ob_state ob"] by blast
  then show ?thesis
    unfolding st(2) map_append distinct_append using emits_keys [OF assms(1)] vanish_keys [OF st(1)] by blast
qed

lemma map_eq_replicateD: "map f xs = replicate n y \<Longrightarrow> x \<in> set xs \<Longrightarrow> f x = y"
  by (induction xs arbitrary: n) (auto simp: Cons_replicate_eq)

lemma map_suffix_split: "map f xs = us @ ws \<Longrightarrow> \<exists>ys zs. xs = ys @ zs \<and> map f zs = ws"
  by (auto simp: map_eq_append_conv)

section \<open>What debouncing guarantees\<close>

text \<open>The one-key machine run over a sequence of observed values.\<close>

definition key_run :: "int \<Rightarrow> key_view \<Rightarrow> string option list \<Rightarrow> key_view" where
  "key_run n v ws = fold (\<lambda>w v. key_step n v w) ws v"

lemma key_run_simps [simp]:
  "key_run n v [] = v"
  "key_run n v (w # ws) = key_run n (key_step n v w) ws"
  "key_run n v (ws @ [w]) = key_step n (key_run n v ws) w"
  by (simp_all add: key_run_def)

text \<open>
  A pending candidate is backed by as many consecutive observations as it counts,
  is not the reported value, and has not reached the threshold.
\<close>

definition backed :: "int \<Rightarrow> key_view \<Rightarrow> string option list \<Rightarrow> bool" where
  "backed n v ws \<longleftrightarrow>
     (\<forall>c. kv_pending v = Some c \<longrightarrow>
        kv_stable v \<noteq> None \<and> kv_stable v \<noteq> Some (cand_value c) \<and>
        1 \<le> cand_count c \<and> cand_count c < n \<and>
        (\<exists>us. ws = us @ replicate (nat (cand_count c)) (Some (cand_value c))))"

lemma replicate_snoc: "us @ replicate k x @ [x] = us @ replicate (Suc k) x"
  by (simp add: replicate_append_same)

lemma next_candidate_backed:
  assumes "backed n v ws"
  shows "1 \<le> cand_count (next_candidate (kv_pending v) to) \<and> cand_value (next_candidate (kv_pending v) to) = to \<and>
    (\<exists>us. ws @ [Some to] = us @ replicate (nat (cand_count (next_candidate (kv_pending v) to))) (Some to))"
proof (cases "kv_pending v")
  case None
  then show ?thesis by (simp add: next_candidate_def)
next
  case (Some c)
  with assms obtain us where us: "1 \<le> cand_count c"
    "ws = us @ replicate (nat (cand_count c)) (Some (cand_value c))" by (auto simp: backed_def)
  show ?thesis
  proof (cases "cand_value c = to")
    case True
    have "nat (cand_count c + 1) = Suc (nat (cand_count c))" using us(1) by simp
    then have "ws @ [Some to] = us @ replicate (nat (cand_count c + 1)) (Some to)"
      using us(2) True by (simp add: replicate_append_same)
    then show ?thesis using Some True us(1) by (auto simp: next_candidate_def)
  next
    case False
    then show ?thesis using Some by (simp add: next_candidate_def)
  qed
qed

lemma backed_step: "backed n v ws \<Longrightarrow> backed n (key_step n v w) (ws @ [w])"
proof (cases w)
  case None
  then show "backed n v ws \<Longrightarrow> ?thesis" by (auto simp: backed_def)
next
  case (Some to)
  assume b: "backed n v ws"
  show ?thesis
  proof (cases "kv_stable v = Some to \<or> promotes n v to")
    case True
    then show ?thesis using Some by (auto simp: backed_def)
  next
    case False
    then have "kv_stable v \<noteq> None" "cand_count (next_candidate (kv_pending v) to) < n"
      by (auto simp: promotes_def split: option.splits)
    then show ?thesis using False Some next_candidate_backed [OF b, of to]
      by (auto simp: backed_def)
  qed
qed

lemma backed_run: "kv_pending v = None \<Longrightarrow> backed n (key_run n v ws) ws"
proof (induction ws rule: rev_induct)
  case Nil
  then show ?case by (simp add: backed_def)
next
  case (snoc w ws)
  then show ?case using backed_step by simp
qed

lemma change_is_backed:
  assumes "backed n v ws" and "kv_stable v = Some x" and "kv_stable (key_step n v w) = Some y" and "x \<noteq> y"
  shows "w = Some y \<and> (\<exists>us. ws @ [w] = us @ replicate (nat (max 1 n)) (Some y))"
proof -
  obtain to where w: "w = Some to" using assms(2,3) by (cases w) auto
  with assms have y: "to = y" and pr: "promotes n v y" by (auto split: if_splits)
  obtain us where us: "ws @ [Some y] = us @ replicate (nat (cand_count (next_candidate (kv_pending v) y))) (Some y)"
    and one: "1 \<le> cand_count (next_candidate (kv_pending v) y)"
    using next_candidate_backed [OF assms(1)] by blast
  let ?k = "nat (cand_count (next_candidate (kv_pending v) y))"
  have "nat (max 1 n) \<le> ?k" using pr assms(2) one by (auto simp: promotes_def)
  then have "replicate ?k (Some y) = replicate (?k - nat (max 1 n)) (Some y) @ replicate (nat (max 1 n)) (Some y)"
    by (metis le_add_diff_inverse2 replicate_add)
  then show ?thesis using us w y by (metis append.assoc)
qed

lemma held_value_settles_aux:
  "k \<ge> 1 \<Longrightarrow> kv_stable v = Some x \<Longrightarrow> x \<noteq> y \<Longrightarrow>
   (kv_pending v = None \<or> (\<exists>c. kv_pending v = Some c \<and> 0 \<le> cand_count c)) \<Longrightarrow>
   kv_stable (key_run n v (replicate k (Some y))) = Some y \<or>
   (\<exists>c. kv_pending (key_run n v (replicate k (Some y))) = Some c \<and> cand_value c = y \<and> int k \<le> cand_count c
      \<and> cand_count c < n \<and> kv_stable (key_run n v (replicate k (Some y))) = Some x)"
proof (induction k)
  case (Suc k)
  show ?case
  proof (cases "k = 0")
    case True
    then show ?thesis using Suc.prems
      by (auto simp: promotes_def next_candidate_def split: if_splits)
  next
    case False
    have "key_run n v (replicate (Suc k) (Some y)) = key_step n (key_run n v (replicate k (Some y))) (Some y)"
      by (metis key_run_simps(3) replicate_Suc replicate_append_same)
    then show ?thesis using Suc.IH Suc.prems False
      by (auto simp: promotes_def next_candidate_def split: if_splits)
  qed
qed simp

lemma held_value_settles:
  assumes "kv_stable v = Some x" and "kv_pending v = None" and "n \<le> int k" and "1 \<le> k"
  shows "kv_stable (key_run n v (replicate k (Some y))) = Some y"
proof (cases "x = y")
  case True
  have "key_step n v (Some y) = v" using assms(1,2) True by simp
  then have "key_run n v (replicate j (Some y)) = v" for j by (induction j) simp_all
  then show ?thesis using assms(1) True by simp
next
  case False
  show ?thesis using held_value_settles_aux [OF assms(4,1) False, of n] assms(2,3) by auto
qed

section \<open>Runs of observations\<close>

definition observe_all :: "state_store \<Rightarrow> observation list \<Rightarrow> state_store" where
  "observe_all s obs = fold (\<lambda>ob s. fst (observe s ob)) obs s"

definition reported :: "state_store \<Rightarrow> string \<Rightarrow> string \<Rightarrow> string option" where
  "reported s p k = kv_stable (provider_view s p k)"

definition polls_of :: "string \<Rightarrow> observation list \<Rightarrow> bool" where
  "polls_of p obs = list_all (\<lambda>ob. ob_provider ob = p \<and> gm_wf (ob_state ob)) obs"

lemma observe_all_view:
  "polls_of p obs \<Longrightarrow> provider_view (observe_all s obs) p k =
     key_run (samples_for s p k) (provider_view s p k) (map (\<lambda>ob. map_of (ob_state ob) k) obs)"
  by (induction obs arbitrary: s) (simp_all add: observe_all_def polls_of_def observe_view)

lemma store_get_reported:
  "store_get s p = Some ob \<Longrightarrow> map_of (ob_state ob) k = reported s p k"
  by (auto simp: store_get_def reported_def provider_view_def provider_state_of_def view_of_def split: option.splits)

text \<open>C5: A value needs its evidence. When the reported value of a key changes from one
  observed value to another, the last observations, as many in a row as the
  debounce configuration asks of that key (at least one), all carried the new
  value: no flap, burst or interleaving of other values promotes it sooner.\<close>

theorem debounce_needs_evidence:
  assumes "polls_of p (obs @ [ob])" and "kv_pending (provider_view s p k) = None"
    and "reported (observe_all s obs) p k = Some v"
    and "reported (observe_all s (obs @ [ob])) p k = Some w" and "v \<noteq> w"
  shows "\<exists>before held. obs @ [ob] = before @ held \<and>
    length held = nat (max 1 (samples_for s p k)) \<and> (\<forall>x \<in> set held. map_of (ob_state x) k = Some w)"
proof -
  let ?val = "\<lambda>x. map_of (ob_state x) k" and ?n = "samples_for s p k"
  have pre: "polls_of p obs" using assms(1) by (simp add: polls_of_def)
  note views = observe_all_view [OF pre, of s k] observe_all_view [OF assms(1), of s k]
  have backing: "backed ?n (provider_view (observe_all s obs) p k) (map ?val obs)"
    using views backed_run [OF assms(2)] by simp
  have after: "kv_stable (key_step ?n (provider_view (observe_all s obs) p k) (?val ob)) = Some w"
    using assms(4) views by (simp add: reported_def)
  obtain us where us: "map ?val obs @ [?val ob] = us @ replicate (nat (max 1 ?n)) (Some w)"
    using change_is_backed [OF backing assms(3) [unfolded reported_def] after assms(5)] by blast
  then have "map ?val (obs @ [ob]) = us @ replicate (nat (max 1 ?n)) (Some w)" by simp
  from map_suffix_split [OF this] obtain before held where
    "obs @ [ob] = before @ held" "map ?val held = replicate (nat (max 1 ?n)) (Some w)" by blast
  moreover from this(2) have "length held = nat (max 1 ?n)" by (metis length_map length_replicate)
  moreover have "\<forall>x \<in> set held. ?val x = Some w"
    using \<open>map ?val held = _\<close> by (auto dest: map_eq_replicateD)
  ultimately show ?thesis by blast
qed


text \<open>Iteration order is invisible. Two observations with the same entries, visited in any
  two orders, leave every key of every provider in the same state and report
  the same transitions, each key at most once.\<close>

theorem observe_order_independent:
  assumes "store_wf s" and "gm_wf (ob_state ob)" and "mset (ob_state ob) = mset es"
  shows "provider_view (fst (observe s (ob\<lparr>ob_state := es\<rparr>))) p k = provider_view (fst (observe s ob)) p k \<and>
    mset (snd (observe s (ob\<lparr>ob_state := es\<rparr>))) = mset (snd (observe s ob))"
proof -
  have maps: "map_of es = map_of (ob_state ob)" using map_of_perm [OF assms(2,3)] by simp
  have wf: "gm_wf es" using assms(2,3) by (metis gm_wf_def mset_map mset_eq_imp_distinct_iff)
  have "set (snd (observe s (ob\<lparr>ob_state := es\<rparr>))) = set (snd (observe s ob))"
    using observe_transitions [OF assms(2,1)] observe_transitions [of "ob\<lparr>ob_state := es\<rparr>", OF _ assms(1)] wf maps
    by (intro set_eqI) simp
  moreover have "distinct (snd (observe s (ob\<lparr>ob_state := es\<rparr>)))" "distinct (snd (observe s ob))"
    using observe_reports_once [OF assms(2,1)] observe_reports_once [of "ob\<lparr>ob_state := es\<rparr>", OF _ assms(1)] wf
    by (simp_all add: distinct_map)
  ultimately have "mset (snd (observe s (ob\<lparr>ob_state := es\<rparr>))) = mset (snd (observe s ob))"
    by (simp add: set_eq_iff_mset_eq_distinct)
  then show ?thesis using observe_view [OF assms(2)] observe_view [of "ob\<lparr>ob_state := es\<rparr>"] wf maps by simp
qed

end
