(* ===== verification/Cluster.thy ===== *)
theory Cluster
  imports Api StateStore
begin

text \<open>
  What the controller asks of the world. A handler of the code is a \<open>prog\<close>: a
  finished value, or one call to the Kubernetes API server, the state store, the
  clock, the event recorder or an executor, with a continuation for every
  answer. Nothing is assumed about the answers, so a theorem about a program
  holds against any server, any concurrent writer and any failure. \<open>run\<close> plays a
  program against a server given as a state machine, and \<open>calls\<close> is the property
  that every call a program can ever make satisfies a predicate.

  Not modelled: log lines and metrics, which no decision reads, and the
  deadline of a context, which an answer of the server stands for.
\<close>

section \<open>What travels over the API\<close>

record target_key =
  tk_kind :: string
  tk_namespace :: string
  tk_name :: string

datatype kerr_reason = NotFound | Forbidden | Conflict | OtherReason

record kerr =
  ke_reason :: kerr_reason
  ke_text :: string

text \<open>
  What \<open>unstructured.NestedX\<close> reports of a field: absent, present with the
  wanted type, or present with another type, which is an error.
\<close>

datatype 'a field = Absent | Present 'a | Malformed string

text \<open>
  A target read as an unstructured object, reduced to what the code touches: its
  identity, its resource version, its annotations, the boolean spec field of a
  kind whose level is a switch (\<open>spec.suspend\<close> of a CronJob,
  \<open>spec.unschedulable\<close> of a Node) and the pod template's annotations.
\<close>

record kobj =
  ko_key :: target_key
  ko_version :: nat
  ko_annotations :: "string \<rightharpoonup> string"
  ko_flag :: "bool field"
  ko_template :: "gomap field"

text \<open>A scale subresource: its resource version and \<open>spec.replicas\<close>.\<close>

record kscale =
  sc_version :: nat
  sc_replicas :: "int field"

text \<open>A HorizontalPodAutoscaler: its name and \<open>spec.scaleTargetRef\<close> as \<open>NestedStringMap\<close> reads it.\<close>

record khpa =
  hp_name :: string
  hp_ref :: "gomap field"

record kevent =
  ev_namespace :: string
  ev_name :: string
  ev_type :: string
  ev_reason :: string
  ev_action :: string
  ev_note :: string

text \<open>The operator's own Deployment: the replicas it asks for and the ones still there.\<close>

record deployment =
  dp_name :: string
  dp_namespace :: string
  dp_replicas :: "int option"
  dp_status_replicas :: int

text \<open>A resolved outbound request and what an executor reports of an attempt.\<close>

record action_result =
  ar_origin :: string
  ar_status :: int
  ar_attempts :: int

section \<open>Programs\<close>

datatype ('q, 'a) prog =
    Ret 'a
  | KGet target_key "kerr + kobj \<Rightarrow> ('q, 'a) prog"
  | KPatch kobj bool kobj "kerr + kobj \<Rightarrow> ('q, 'a) prog"
  | KGetScale kobj "kerr + kscale \<Rightarrow> ('q, 'a) prog"
  | KUpdateScale kobj kscale "kerr option \<Rightarrow> ('q, 'a) prog"
  | KGetAutomation string string "kerr + automation \<Rightarrow> ('q, 'a) prog"
  | KListAutomations "string option" "kerr + automation list \<Rightarrow> ('q, 'a) prog"
  | KUpdateAutomation automation "kerr + automation \<Rightarrow> ('q, 'a) prog"
  | KUpdateStatus automation "kerr + automation \<Rightarrow> ('q, 'a) prog"
  | KListHPAs string "kerr + khpa list \<Rightarrow> ('q, 'a) prog"
  | KStoreGet string "observation option \<Rightarrow> ('q, 'a) prog"
  | KStoreFreshness string "freshness option \<Rightarrow> ('q, 'a) prog"
  | KNow "instant \<Rightarrow> ('q, 'a) prog"
  | KEvent kevent "('q, 'a) prog"
  | KExpired "bool \<Rightarrow> ('q, 'a) prog"
  | KGetSecret string string "kerr + gomap \<Rightarrow> ('q, 'a) prog"
  | KOutbound 'q "action_result \<times> string option \<Rightarrow> ('q, 'a) prog"
  | KConsole action duration "action_result \<times> string option \<Rightarrow> ('q, 'a) prog"
  | KGetDeployment string string "kerr + deployment \<Rightarrow> ('q, 'a) prog"
  | KPatchDeployment deployment deployment "kerr option \<Rightarrow> ('q, 'a) prog"
  | KPollAgain duration "bool \<Rightarrow> ('q, 'a) prog"

primrec bind :: "('q, 'a) prog \<Rightarrow> ('a \<Rightarrow> ('q, 'b) prog) \<Rightarrow> ('q, 'b) prog" where
  "bind (Ret x) g = g x"
| "bind (KGet k f) g = KGet k (\<lambda>r. bind (f r) g)"
| "bind (KPatch o1 b o2 f) g = KPatch o1 b o2 (\<lambda>r. bind (f r) g)"
| "bind (KGetScale k f) g = KGetScale k (\<lambda>r. bind (f r) g)"
| "bind (KUpdateScale k s f) g = KUpdateScale k s (\<lambda>r. bind (f r) g)"
| "bind (KGetAutomation n m f) g = KGetAutomation n m (\<lambda>r. bind (f r) g)"
| "bind (KListAutomations n f) g = KListAutomations n (\<lambda>r. bind (f r) g)"
| "bind (KUpdateAutomation a f) g = KUpdateAutomation a (\<lambda>r. bind (f r) g)"
| "bind (KUpdateStatus a f) g = KUpdateStatus a (\<lambda>r. bind (f r) g)"
| "bind (KListHPAs n f) g = KListHPAs n (\<lambda>r. bind (f r) g)"
| "bind (KStoreGet p f) g = KStoreGet p (\<lambda>r. bind (f r) g)"
| "bind (KStoreFreshness p f) g = KStoreFreshness p (\<lambda>r. bind (f r) g)"
| "bind (KNow f) g = KNow (\<lambda>r. bind (f r) g)"
| "bind (KEvent e p) g = KEvent e (bind p g)"
| "bind (KExpired f) g = KExpired (\<lambda>r. bind (f r) g)"
| "bind (KGetSecret n m f) g = KGetSecret n m (\<lambda>r. bind (f r) g)"
| "bind (KOutbound q f) g = KOutbound q (\<lambda>r. bind (f r) g)"
| "bind (KConsole a d f) g = KConsole a d (\<lambda>r. bind (f r) g)"
| "bind (KGetDeployment n m f) g = KGetDeployment n m (\<lambda>r. bind (f r) g)"
| "bind (KPatchDeployment d1 d2 f) g = KPatchDeployment d1 d2 (\<lambda>r. bind (f r) g)"
| "bind (KPollAgain d f) g = KPollAgain d (\<lambda>r. bind (f r) g)"

lemma bind_assoc: "bind (bind m f) g = bind m (\<lambda>x. bind (f x) g)"
  by (induction m) auto

lemma bind_Ret [simp]: "bind m Ret = m"
  by (induction m) auto

section \<open>Every call a program can make\<close>

datatype 'q call =
    CGet target_key
  | CPatch kobj bool kobj
  | CGetScale kobj
  | CUpdateScale kobj kscale
  | CGetAutomation string string
  | CListAutomations "string option"
  | CUpdateAutomation automation
  | CUpdateStatus automation
  | CListHPAs string
  | CStoreGet string
  | CStoreFreshness string
  | CNow
  | CEvent kevent
  | CExpired
  | CGetSecret string string
  | COutbound 'q
  | CConsole action duration
  | CGetDeployment string string
  | CPatchDeployment deployment deployment
  | CPollAgain duration

primrec calls :: "('q call \<Rightarrow> bool) \<Rightarrow> ('q, 'a) prog \<Rightarrow> bool" where
  "calls P (Ret x) = True"
| "calls P (KGet k f) = (P (CGet k) \<and> (\<forall>r. calls P (f r)))"
| "calls P (KPatch o1 b o2 f) = (P (CPatch o1 b o2) \<and> (\<forall>r. calls P (f r)))"
| "calls P (KGetScale k f) = (P (CGetScale k) \<and> (\<forall>r. calls P (f r)))"
| "calls P (KUpdateScale k s f) = (P (CUpdateScale k s) \<and> (\<forall>r. calls P (f r)))"
| "calls P (KGetAutomation n m f) = (P (CGetAutomation n m) \<and> (\<forall>r. calls P (f r)))"
| "calls P (KListAutomations n f) = (P (CListAutomations n) \<and> (\<forall>r. calls P (f r)))"
| "calls P (KUpdateAutomation a f) = (P (CUpdateAutomation a) \<and> (\<forall>r. calls P (f r)))"
| "calls P (KUpdateStatus a f) = (P (CUpdateStatus a) \<and> (\<forall>r. calls P (f r)))"
| "calls P (KListHPAs n f) = (P (CListHPAs n) \<and> (\<forall>r. calls P (f r)))"
| "calls P (KStoreGet p f) = (P (CStoreGet p) \<and> (\<forall>r. calls P (f r)))"
| "calls P (KStoreFreshness p f) = (P (CStoreFreshness p) \<and> (\<forall>r. calls P (f r)))"
| "calls P (KNow f) = (P CNow \<and> (\<forall>r. calls P (f r)))"
| "calls P (KEvent e p) = (P (CEvent e) \<and> calls P p)"
| "calls P (KExpired f) = (P CExpired \<and> (\<forall>r. calls P (f r)))"
| "calls P (KGetSecret n m f) = (P (CGetSecret n m) \<and> (\<forall>r. calls P (f r)))"
| "calls P (KOutbound q f) = (P (COutbound q) \<and> (\<forall>r. calls P (f r)))"
| "calls P (KConsole a d f) = (P (CConsole a d) \<and> (\<forall>r. calls P (f r)))"
| "calls P (KGetDeployment n m f) = (P (CGetDeployment n m) \<and> (\<forall>r. calls P (f r)))"
| "calls P (KPatchDeployment d1 d2 f) = (P (CPatchDeployment d1 d2) \<and> (\<forall>r. calls P (f r)))"
| "calls P (KPollAgain d f) = (P (CPollAgain d) \<and> (\<forall>r. calls P (f r)))"

lemma calls_bind: "calls P m \<Longrightarrow> (\<And>x. calls P (f x)) \<Longrightarrow> calls P (bind m f)"
  by (induction m) auto

lemma calls_mono: "calls P m \<Longrightarrow> (\<And>c. P c \<Longrightarrow> Q c) \<Longrightarrow> calls Q m"
  by (induction m) auto

lemma calls_conj: "calls (\<lambda>c. P c \<and> Q c) m \<longleftrightarrow> calls P m \<and> calls Q m"
  by (induction m) auto

text \<open>The calls that change something outside the controller's own objects.\<close>

fun writes_target :: "'q call \<Rightarrow> bool" where
  "writes_target (CPatch _ _ _) = True"
| "writes_target (CUpdateScale _ _) = True"
| "writes_target _ = False"

fun performs_edge :: "'q call \<Rightarrow> bool" where
  "performs_edge (COutbound _) = True"
| "performs_edge (CConsole _ _) = True"
| "performs_edge _ = False"

section \<open>Playing a program against a server\<close>

record ('q, 's) server =
  sv_get :: "target_key \<Rightarrow> 's \<Rightarrow> (kerr + kobj) \<times> 's"
  sv_patch :: "kobj \<Rightarrow> bool \<Rightarrow> kobj \<Rightarrow> 's \<Rightarrow> (kerr + kobj) \<times> 's"
  sv_get_scale :: "kobj \<Rightarrow> 's \<Rightarrow> (kerr + kscale) \<times> 's"
  sv_update_scale :: "kobj \<Rightarrow> kscale \<Rightarrow> 's \<Rightarrow> kerr option \<times> 's"
  sv_get_automation :: "string \<Rightarrow> string \<Rightarrow> 's \<Rightarrow> (kerr + automation) \<times> 's"
  sv_list_automations :: "string option \<Rightarrow> 's \<Rightarrow> (kerr + automation list) \<times> 's"
  sv_update_automation :: "automation \<Rightarrow> 's \<Rightarrow> (kerr + automation) \<times> 's"
  sv_update_status :: "automation \<Rightarrow> 's \<Rightarrow> (kerr + automation) \<times> 's"
  sv_list_hpas :: "string \<Rightarrow> 's \<Rightarrow> (kerr + khpa list) \<times> 's"
  sv_store_get :: "string \<Rightarrow> 's \<Rightarrow> observation option \<times> 's"
  sv_store_freshness :: "string \<Rightarrow> 's \<Rightarrow> freshness option \<times> 's"
  sv_now :: "'s \<Rightarrow> instant \<times> 's"
  sv_event :: "kevent \<Rightarrow> 's \<Rightarrow> 's"
  sv_expired :: "'s \<Rightarrow> bool \<times> 's"
  sv_get_secret :: "string \<Rightarrow> string \<Rightarrow> 's \<Rightarrow> (kerr + gomap) \<times> 's"
  sv_outbound :: "'q \<Rightarrow> 's \<Rightarrow> (action_result \<times> string option) \<times> 's"
  sv_console :: "action \<Rightarrow> duration \<Rightarrow> 's \<Rightarrow> (action_result \<times> string option) \<times> 's"
  sv_get_deployment :: "string \<Rightarrow> string \<Rightarrow> 's \<Rightarrow> (kerr + deployment) \<times> 's"
  sv_patch_deployment :: "deployment \<Rightarrow> deployment \<Rightarrow> 's \<Rightarrow> kerr option \<times> 's"
  sv_poll_again :: "duration \<Rightarrow> 's \<Rightarrow> bool \<times> 's"

primrec run :: "('q, 's) server \<Rightarrow> ('q, 'a) prog \<Rightarrow> 's \<Rightarrow> 'a \<times> 's" where
  "run v (Ret x) s = (x, s)"
| "run v (KGet k f) s = (case sv_get v k s of (r, s') \<Rightarrow> run v (f r) s')"
| "run v (KPatch o1 b o2 f) s = (case sv_patch v o1 b o2 s of (r, s') \<Rightarrow> run v (f r) s')"
| "run v (KGetScale k f) s = (case sv_get_scale v k s of (r, s') \<Rightarrow> run v (f r) s')"
| "run v (KUpdateScale k sc f) s = (case sv_update_scale v k sc s of (r, s') \<Rightarrow> run v (f r) s')"
| "run v (KGetAutomation n m f) s = (case sv_get_automation v n m s of (r, s') \<Rightarrow> run v (f r) s')"
| "run v (KListAutomations n f) s = (case sv_list_automations v n s of (r, s') \<Rightarrow> run v (f r) s')"
| "run v (KUpdateAutomation a f) s = (case sv_update_automation v a s of (r, s') \<Rightarrow> run v (f r) s')"
| "run v (KUpdateStatus a f) s = (case sv_update_status v a s of (r, s') \<Rightarrow> run v (f r) s')"
| "run v (KListHPAs n f) s = (case sv_list_hpas v n s of (r, s') \<Rightarrow> run v (f r) s')"
| "run v (KStoreGet p f) s = (case sv_store_get v p s of (r, s') \<Rightarrow> run v (f r) s')"
| "run v (KStoreFreshness p f) s = (case sv_store_freshness v p s of (r, s') \<Rightarrow> run v (f r) s')"
| "run v (KNow f) s = (case sv_now v s of (r, s') \<Rightarrow> run v (f r) s')"
| "run v (KEvent e p) s = run v p (sv_event v e s)"
| "run v (KExpired f) s = (case sv_expired v s of (r, s') \<Rightarrow> run v (f r) s')"
| "run v (KGetSecret n m f) s = (case sv_get_secret v n m s of (r, s') \<Rightarrow> run v (f r) s')"
| "run v (KOutbound q f) s = (case sv_outbound v q s of (r, s') \<Rightarrow> run v (f r) s')"
| "run v (KConsole a d f) s = (case sv_console v a d s of (r, s') \<Rightarrow> run v (f r) s')"
| "run v (KGetDeployment n m f) s = (case sv_get_deployment v n m s of (r, s') \<Rightarrow> run v (f r) s')"
| "run v (KPatchDeployment d1 d2 f) s = (case sv_patch_deployment v d1 d2 s of (r, s') \<Rightarrow> run v (f r) s')"
| "run v (KPollAgain d f) s = (case sv_poll_again v d s of (r, s') \<Rightarrow> run v (f r) s')"

lemma run_bind: "run v (bind m f) s = (case run v m s of (x, s') \<Rightarrow> run v (f x) s')"
  by (induction m arbitrary: s) (auto split: prod.splits)

section \<open>Small programs\<close>

definition k_get :: "target_key \<Rightarrow> ('q, kerr + kobj) prog" where "k_get k = KGet k Ret"
definition k_now :: "('q, instant) prog" where "k_now = KNow Ret"
definition k_list :: "string option \<Rightarrow> ('q, kerr + automation list) prog" where "k_list n = KListAutomations n Ret"

text \<open>Sequencing fallible programs: the early return on an error.\<close>

definition bindR :: "('q, 'e + 'a) prog \<Rightarrow> ('a \<Rightarrow> ('q, 'e + 'b) prog) \<Rightarrow> ('q, 'e + 'b) prog" where
  "bindR m f = bind m (\<lambda>r. case r of Inl e \<Rightarrow> Ret (Inl e) | Inr x \<Rightarrow> f x)"

lemma calls_bindR: "calls P m \<Longrightarrow> (\<And>x. calls P (f x)) \<Longrightarrow> calls P (bindR m f)"
  unfolding bindR_def by (rule calls_bind) (auto split: sum.splits)

lemma run_bindR: "run v (bindR m f) s =
    (case run v m s of (Inl e, s') \<Rightarrow> (Inl e, s') | (Inr x, s') \<Rightarrow> run v (f x) s')"
  by (simp add: bindR_def run_bind split: prod.splits sum.splits)

end
