(* ===== verification/Targets.thy ===== *)
theory Targets
  imports Cluster
begin

text \<open>
  \<open>internal/controller/targets.go\<close>: the kinds an action may target, and for each kind
  a handler that reads its level, writes it, moves it in and out of the baseline
  annotation and says it in words. A level is an integer of which lower is more
  restrictive: a replica count, or 0 and 1 for a switch that is set and clear.
\<close>

section \<open>Names\<close>

definition kind_deployment :: string where "kind_deployment = ''Deployment''"
definition kind_stateful_set :: string where "kind_stateful_set = ''StatefulSet''"
definition kind_cron_job :: string where "kind_cron_job = ''CronJob''"
definition kind_node :: string where "kind_node = ''Node''"

definition level_set :: int where "level_set = 0"
definition level_clear :: int where "level_clear = 1"

definition annotation_baseline_replicas :: string where
  "annotation_baseline_replicas = ''reactor.robbeverhelst.com/baseline-replicas''"
definition annotation_baseline_suspend :: string where
  "annotation_baseline_suspend = ''reactor.robbeverhelst.com/baseline-suspend''"
definition annotation_baseline_unschedulable :: string where
  "annotation_baseline_unschedulable = ''reactor.robbeverhelst.com/baseline-unschedulable''"
definition annotation_claimed_by :: string where
  "annotation_claimed_by = ''reactor.robbeverhelst.com/claimed-by''"
definition annotation_claimed_at :: string where
  "annotation_claimed_at = ''reactor.robbeverhelst.com/claimed-at''"

lemmas annotation_defs = annotation_baseline_replicas_def annotation_baseline_suspend_def
  annotation_baseline_unschedulable_def annotation_claimed_by_def annotation_claimed_at_def

definition claim_annotations :: "string list" where
  "claim_annotations = [annotation_baseline_replicas, annotation_baseline_suspend,
     annotation_baseline_unschedulable, annotation_claimed_by, annotation_claimed_at]"

definition action_kubernetes_scale :: string where "action_kubernetes_scale = ''kubernetes.scale''"
definition action_cron_job_suspend :: string where "action_cron_job_suspend = ''kubernetes.cronjob.suspend''"
definition action_kubernetes_cordon :: string where "action_kubernetes_cordon = ''kubernetes.cordon''"

text \<open>\<open>targetKey.String\<close> and \<open>describeObject\<close>: the namespace is left out when there is none.\<close>

definition key_string :: "target_key \<Rightarrow> string" where
  "key_string k =
     (if tk_namespace k = [] then tk_kind k @ ''/'' @ tk_name k
      else tk_kind k @ ''/'' @ tk_namespace k @ ''/'' @ tk_name k)"

definition describe_object :: "kobj \<Rightarrow> string" where
  "describe_object obj = key_string (ko_key obj)"

section \<open>Handlers\<close>

record 'q target_handler =
  th_group :: string
  th_kind :: string
  th_cluster_scoped :: bool
  th_contested :: bool
  th_baseline :: string
  th_action_type :: string
  th_read :: "kobj \<Rightarrow> ('q, string + int) prog"
  th_apply :: "kobj \<Rightarrow> int \<Rightarrow> ('q, string + bool \<times> kobj) prog"
  th_format :: "int \<Rightarrow> string"
  th_parse :: "string \<Rightarrow> string + int"
  th_describe :: "int \<Rightarrow> string"

definition scale_of :: "kobj \<Rightarrow> ('q, string + kscale) prog" where
  "scale_of obj = KGetScale obj (\<lambda>r. case r of
     Inl e \<Rightarrow> Ret (Inl (''reading the scale of '' @ describe_object obj @ '': '' @ ke_text e))
   | Inr sc \<Rightarrow> Ret (Inr sc))"

definition replica_read :: "kobj \<Rightarrow> ('q, string + int) prog" where
  "replica_read obj = bindR (scale_of obj) (\<lambda>sc. case sc_replicas sc of
     Malformed e \<Rightarrow> Ret (Inl (''reading the scale of '' @ describe_object obj @ '': '' @ e))
   | Absent \<Rightarrow> Ret (Inr 1)
   | Present n \<Rightarrow> Ret (Inr n))"

definition replica_apply :: "kobj \<Rightarrow> int \<Rightarrow> ('q, string + bool \<times> kobj) prog" where
  "replica_apply obj level = bindR (scale_of obj) (\<lambda>sc.
     let go = (\<lambda>current.
           if current = level then Ret (Inr (False, obj))
           else KUpdateScale obj (sc\<lparr>sc_replicas := Present level\<rparr>) (\<lambda>r. case r of
                  Some e \<Rightarrow> Ret (Inl (''scaling '' @ describe_object obj @ '' to '' @ int_dec level
                                     @ '': '' @ ke_text e))
                | None \<Rightarrow> Ret (Inr (True, obj))))
     in case sc_replicas sc of
          Malformed e \<Rightarrow> Ret (Inl (''reading the scale of '' @ describe_object obj @ '': '' @ e))
        | Absent \<Rightarrow> go 0
        | Present n \<Rightarrow> go n)"

definition replica_handler :: "string \<Rightarrow> string \<Rightarrow> 'q target_handler" where
  "replica_handler grp kind =
     \<lparr>th_group = grp, th_kind = kind, th_cluster_scoped = False, th_contested = True,
      th_baseline = annotation_baseline_replicas, th_action_type = action_kubernetes_scale,
      th_read = replica_read, th_apply = replica_apply,
      th_format = int_dec, th_parse = parse_int32,
      th_describe = (\<lambda>level. int_dec level @ '' replicas'')\<rparr>"

definition level_of_flag :: "bool \<Rightarrow> int" where
  "level_of_flag flag = (if flag then level_set else level_clear)"

definition switch_read :: "string \<Rightarrow> kobj \<Rightarrow> ('q, string + int) prog" where
  "switch_read path obj = (case ko_flag obj of
     Malformed e \<Rightarrow> Ret (Inl (''reading '' @ path @ '' of '' @ describe_object obj @ '': '' @ e))
   | Absent \<Rightarrow> Ret (Inr (level_of_flag False))
   | Present b \<Rightarrow> Ret (Inr (level_of_flag b)))"

definition switch_apply :: "string \<Rightarrow> string \<Rightarrow> kobj \<Rightarrow> int \<Rightarrow> ('q, string + bool \<times> kobj) prog" where
  "switch_apply path leaf obj level =
     (let want = (level = level_set);
          go = (\<lambda>current.
            if current = want then Ret (Inr (False, obj))
            else KPatch obj False (obj\<lparr>ko_flag := Present want\<rparr>) (\<lambda>r. case r of
                   Inl e \<Rightarrow> Ret (Inl (''setting '' @ leaf @ '' to '' @ format_bool want @ '' on ''
                                     @ describe_object obj @ '': '' @ ke_text e))
                 | Inr obj' \<Rightarrow> Ret (Inr (True, obj'))))
      in case ko_flag obj of
           Malformed e \<Rightarrow> Ret (Inl (''reading '' @ path @ '' of '' @ describe_object obj @ '': '' @ e))
         | Absent \<Rightarrow> go False
         | Present b \<Rightarrow> go b)"

definition switch_handler :: "string \<Rightarrow> string \<Rightarrow> string \<Rightarrow> string \<Rightarrow> string \<Rightarrow> string \<Rightarrow> string \<Rightarrow> 'q target_handler" where
  "switch_handler grp kind leaf baseline action_type set_word clear_word =
     (let path = ''[spec '' @ leaf @ '']'' in
     \<lparr>th_group = grp, th_kind = kind, th_cluster_scoped = False, th_contested = False,
      th_baseline = baseline, th_action_type = action_type,
      th_read = switch_read path, th_apply = switch_apply path leaf,
      th_format = (\<lambda>level. format_bool (level = level_set)),
      th_parse = (\<lambda>raw. bindE (parse_bool raw) (\<lambda>flag. Inr (level_of_flag flag))),
      th_describe = (\<lambda>level. if level = level_set then set_word else clear_word)\<rparr>)"

definition cluster_scoped_handler :: "'q target_handler \<Rightarrow> 'q target_handler" where
  "cluster_scoped_handler handler = handler\<lparr>th_cluster_scoped := True\<rparr>"

definition handlers :: "(string \<times> 'q target_handler) list" where
  "handlers =
     [(kind_deployment, replica_handler ''apps'' kind_deployment),
      (kind_stateful_set, replica_handler ''apps'' kind_stateful_set),
      (kind_cron_job, switch_handler ''batch'' kind_cron_job ''suspend'' annotation_baseline_suspend
         action_cron_job_suspend ''suspended'' ''running''),
      (kind_node, cluster_scoped_handler (switch_handler [] kind_node ''unschedulable''
         annotation_baseline_unschedulable action_kubernetes_cordon ''cordoned'' ''schedulable''))]"

definition handler_for :: "string \<Rightarrow> string + 'q target_handler" where
  "handler_for kind = (case map_of handlers kind of
     None \<Rightarrow> Inl (''no handler for target kind '' @ quoted kind)
   | Some h \<Rightarrow> Inr h)"

definition cluster_scoped_kind :: "string \<Rightarrow> bool" where
  "cluster_scoped_kind kind = (kind = kind_node)"

text \<open>\<open>handlers[kind].clusterScoped\<close>: the zero handler of an unknown kind is namespaced.\<close>

lemma cluster_scoped_kind_registry:
  "cluster_scoped_kind kind =
     (case map_of (handlers :: (string \<times> 'q target_handler) list) kind of
        None \<Rightarrow> False | Some h \<Rightarrow> th_cluster_scoped h)"
  by (simp add: cluster_scoped_kind_def handlers_def cluster_scoped_handler_def switch_handler_def
      replica_handler_def Let_def kind_deployment_def kind_stateful_set_def kind_cron_job_def kind_node_def)

text \<open>The level one action asks for: \<open>None\<close> for a type that has none.\<close>

definition level_of_action :: "action \<Rightarrow> int option" where
  "level_of_action a =
     (if ac_type a = action_kubernetes_scale then ac_replicas a
      else if ac_type a = action_cron_job_suspend
           then Some (level_of_flag (case ac_suspended a of None \<Rightarrow> True | Some b \<Rightarrow> b))
      else if ac_type a = action_kubernetes_cordon
           then Some (level_of_flag (case ac_cordoned a of None \<Rightarrow> True | Some b \<Rightarrow> b))
      else None)"

definition is_desired_state :: "string \<Rightarrow> bool" where
  "is_desired_state t = (t \<in> set [action_kubernetes_scale, action_cron_job_suspend, action_kubernetes_cordon])"

lemma level_of_action_desired: "level_of_action a = Some l \<Longrightarrow> is_desired_state (ac_type a)"
  by (auto simp: level_of_action_def is_desired_state_def split: if_splits)

section \<open>What a baseline annotation promises\<close>

text \<open>
  A level is written into an annotation when a target is claimed and read back
  when it is released, by a later process. The locale is the contract of a
  handler's \<open>format\<close> and \<open>parse\<close> over the levels its kind can hold.
\<close>

locale level_codec =
  fixes fmt :: "int \<Rightarrow> string" and prs :: "string \<Rightarrow> string + int" and ok :: "int \<Rightarrow> bool"
  assumes parse_format: "ok l \<Longrightarrow> prs (fmt l) = Inr l"
    and parse_ok: "prs raw = Inr l \<Longrightarrow> ok l"
begin

lemma format_inj: "ok l \<Longrightarrow> ok l' \<Longrightarrow> fmt l = fmt l' \<Longrightarrow> l = l'"
  using parse_format by (metis sum.inject(2))

lemma reformat: "prs raw = Inr l \<Longrightarrow> prs (fmt l) = Inr l"
  using parse_format parse_ok by blast

end

definition replica_level :: "int \<Rightarrow> bool" where
  "replica_level l = (- (2 ^ 31) \<le> l \<and> l < 2 ^ 31)"

definition switch_level :: "int \<Rightarrow> bool" where
  "switch_level l = (l = level_set \<or> l = level_clear)"

definition level_ok :: "string \<Rightarrow> int \<Rightarrow> bool" where
  "level_ok kind = (if kind = kind_deployment \<or> kind = kind_stateful_set then replica_level else switch_level)"

interpretation replica_codec: level_codec int_dec parse_int32 replica_level
  by unfold_locales (auto simp: replica_level_def parse_int32_dec dest: parse_int32_range)

interpretation switch_codec: level_codec
    "\<lambda>level. format_bool (level = level_set)"
    "\<lambda>raw. bindE (parse_bool raw) (\<lambda>flag. Inr (level_of_flag flag))" switch_level
proof
  fix l show "switch_level l \<Longrightarrow>
      bindE (parse_bool (format_bool (l = level_set))) (\<lambda>flag. Inr (level_of_flag flag)) = Inr l"
    by (auto simp: switch_level_def level_of_flag_def level_set_def level_clear_def)
next
  fix raw l assume "bindE (parse_bool raw) (\<lambda>flag. Inr (level_of_flag flag)) = Inr l"
  then show "switch_level l"
    by (cases "parse_bool raw") (auto simp: switch_level_def level_of_flag_def)
qed

lemma handler_cases:
  assumes "handler_for kind = Inr h"
  obtains (deployment) "kind = kind_deployment" "h = replica_handler ''apps'' kind_deployment"
    | (stateful) "kind = kind_stateful_set" "h = replica_handler ''apps'' kind_stateful_set"
    | (cron) "kind = kind_cron_job" "h = switch_handler ''batch'' kind_cron_job ''suspend''
         annotation_baseline_suspend action_cron_job_suspend ''suspended'' ''running''"
    | (node) "kind = kind_node" "h = cluster_scoped_handler (switch_handler [] kind_node ''unschedulable''
         annotation_baseline_unschedulable action_kubernetes_cordon ''cordoned'' ''schedulable'')"
  using assms unfolding handler_for_def handlers_def
  by (auto split: option.splits if_splits)

lemma kinds_distinct [simp]:
  "kind_deployment \<noteq> kind_cron_job" "kind_deployment \<noteq> kind_node" "kind_stateful_set \<noteq> kind_cron_job"
  "kind_stateful_set \<noteq> kind_node" "kind_cron_job \<noteq> kind_node" "kind_deployment \<noteq> kind_stateful_set"
  "kind_cron_job \<noteq> kind_deployment" "kind_node \<noteq> kind_deployment" "kind_cron_job \<noteq> kind_stateful_set"
  "kind_node \<noteq> kind_stateful_set" "kind_node \<noteq> kind_cron_job"
  by (simp_all add: kind_deployment_def kind_stateful_set_def kind_cron_job_def kind_node_def)

lemmas handler_unfold = replica_handler_def switch_handler_def cluster_scoped_handler_def Let_def

lemma handler_kind: "handler_for kind = Inr h \<Longrightarrow> th_kind h = kind"
  by (erule handler_cases)
    (simp_all add: handler_unfold)

lemma handler_baseline_claim: "handler_for kind = Inr h \<Longrightarrow> th_baseline h \<in> set claim_annotations"
  by (erule handler_cases)
    (simp_all add: handler_unfold claim_annotations_def)

lemma handler_codec: "handler_for kind = Inr h \<Longrightarrow> level_codec (th_format h) (th_parse h) (level_ok kind)"
  using replica_codec.level_codec_axioms switch_codec.level_codec_axioms
  by (erule_tac handler_cases) (simp_all add: handler_unfold level_ok_def)

text \<open>A recorded baseline reads back as the level that was recorded, for every kind a
  target can have and every level that kind can hold; and whatever an annotation
  parses to is a level of the kind.\<close>

theorem baseline_round_trip:
  assumes "handler_for kind = Inr h"
  shows "(level_ok kind l \<longrightarrow> th_parse h (th_format h l) = Inr l) \<and>
    (\<forall>raw m. th_parse h raw = Inr m \<longrightarrow> level_ok kind m)"
  using level_codec.parse_format [OF handler_codec [OF assms]] level_codec.parse_ok [OF handler_codec [OF assms]]
  by blast

theorem baseline_round_trip_witness:
  "th_parse (replica_handler ''apps'' kind_deployment :: unit target_handler)
     (th_format (replica_handler ''apps'' kind_deployment :: unit target_handler) 3) = Inr 3"
proof -
  have "handler_for kind_deployment = Inr (replica_handler ''apps'' kind_deployment :: unit target_handler)"
    by (simp add: handler_for_def handlers_def)
  moreover have "level_ok kind_deployment 3" by (simp add: level_ok_def replica_level_def)
  ultimately show ?thesis using baseline_round_trip [of kind_deployment "replica_handler ''apps'' kind_deployment" 3] by blast
qed

section \<open>Which calls a handler makes\<close>

lemma read_calls: "handler_for kind = Inr h \<Longrightarrow> calls (\<lambda>c. \<not> writes_target c \<and> \<not> performs_edge c) (th_read h obj)"
  by (erule handler_cases)
    (auto simp: handler_unfold replica_read_def
      switch_read_def scale_of_def bindR_def split: sum.splits field.splits)

lemma apply_calls: "handler_for kind = Inr h \<Longrightarrow> calls (\<lambda>c. \<not> performs_edge c) (th_apply h obj l)"
  by (erule handler_cases)
    (auto simp: handler_unfold replica_apply_def
      switch_apply_def scale_of_def bindR_def split: sum.splits field.splits option.splits)

end
