(* ===== verification/Arbiter.thy ===== *)
theory Arbiter
  imports GoText
begin

text \<open>
  \<open>internal/engine/arbiter.go\<close>: competing intents for one target and the meet that
  resolves them. The locale states what the reconciler relies on; it is
  interpreted on \<open>resolve\<close>, the translation of \<open>engine.Resolve\<close>.
\<close>

record intent =
  in_claimant :: string
  in_level :: int

record resolution =
  rs_level :: int
  rs_winners :: "string list"
  rs_deferred :: "string list"

text \<open>The first loop of \<open>Resolve\<close>: the running minimum, started at the first intent.\<close>

fun min_level :: "int \<Rightarrow> intent list \<Rightarrow> int" where
  "min_level m [] = m"
| "min_level m (i # is) = min_level (min m (in_level i)) is"

text \<open>The second loop: who asked for exactly that level, and who did not get theirs.\<close>

fun split_intents :: "int \<Rightarrow> intent list \<Rightarrow> string list \<times> string list \<Rightarrow> string list \<times> string list" where
  "split_intents l [] acc = acc"
| "split_intents l (i # is) (ws, ds) =
     (if in_level i = l then split_intents l is (ws @ [in_claimant i], ds)
      else split_intents l is (ws, ds @ [in_claimant i]))"

definition resolve :: "intent list \<Rightarrow> resolution option" where
  "resolve intents =
     (case intents of
        [] \<Rightarrow> None
      | i # is \<Rightarrow>
          (let l = min_level (in_level i) is; (ws, ds) = split_intents l intents ([], [])
           in Some \<lparr>rs_level = l, rs_winners = sort ws, rs_deferred = sort ds\<rparr>))"

lemma min_level_Min: "min_level m is = Min (insert m (in_level ` set is))"
proof (induction m "is" rule: min_level.induct)
  case (2 m i "is")
  have "Min (insert (min m (in_level i)) (in_level ` set is)) = Min (insert m (insert (in_level i) (in_level ` set is)))"
    by (cases "set is = {}") (auto simp: Min_insert min.assoc)
  with 2 show ?case by simp
qed simp

lemma split_intents_filter:
  "split_intents l is (ws, ds) =
     (ws @ map in_claimant (filter (\<lambda>i. in_level i = l) is),
      ds @ map in_claimant (filter (\<lambda>i. in_level i \<noteq> l) is))"
  by (induction l "is" "(ws, ds)" arbitrary: ws ds rule: split_intents.induct) auto

lemma resolve_Nil [simp]: "resolve [] = None"
  by (simp add: resolve_def)

lemma resolve_nonempty:
  "is \<noteq> [] \<Longrightarrow> resolve is = Some
     \<lparr>rs_level = Min (in_level ` set is),
      rs_winners = sort (map in_claimant (filter (\<lambda>i. in_level i = Min (in_level ` set is)) is)),
      rs_deferred = sort (map in_claimant (filter (\<lambda>i. in_level i \<noteq> Min (in_level ` set is)) is))\<rparr>"
  by (cases "is") (simp_all add: resolve_def Let_def min_level_Min split_intents_filter)

section \<open>What an arbiter promises\<close>

locale arbiter =
  fixes res :: "intent list \<Rightarrow> resolution option"
  assumes unclaimed: "res is = None \<longleftrightarrow> is = []"
    and meet: "res is = Some r \<Longrightarrow> rs_level r = Min (in_level ` set is)"
    and winners_are: "res is = Some r \<Longrightarrow>
      rs_winners r = sort (map in_claimant (filter (\<lambda>i. in_level i = rs_level r) is))"
    and deferred_are: "res is = Some r \<Longrightarrow>
      rs_deferred r = sort (map in_claimant (filter (\<lambda>i. in_level i \<noteq> rs_level r) is))"
begin

lemma claimed_nonempty: "res is = Some r \<Longrightarrow> is \<noteq> []"
  using unclaimed [of "is"] by auto

lemma level_is_asked: "res is = Some r \<Longrightarrow> rs_level r \<in> in_level ` set is"
proof -
  assume r: "res is = Some r"
  then have "in_level ` set is \<noteq> {}" using claimed_nonempty by simp
  then show "rs_level r \<in> in_level ` set is" unfolding meet [OF r] by (intro Min_in) simp_all
qed

lemma level_below_all: "res is = Some r \<Longrightarrow> i \<in> set is \<Longrightarrow> rs_level r \<le> in_level i"
  using meet by simp

lemma winners_nonempty: "res is = Some r \<Longrightarrow> rs_winners r \<noteq> []"
proof -
  assume r: "res is = Some r"
  then obtain i where "i \<in> set is" and "in_level i = rs_level r" using level_is_asked by force
  then have "filter (\<lambda>i. in_level i = rs_level r) is \<noteq> []" by (auto simp: filter_empty_conv)
  moreover have "length (rs_winners r) = length (filter (\<lambda>i. in_level i = rs_level r) is)"
    using winners_are [OF r] by simp
  ultimately show "rs_winners r \<noteq> []" by (metis length_0_conv)
qed

lemma partition: "res is = Some r \<Longrightarrow>
    mset (rs_winners r) + mset (rs_deferred r) = mset (map in_claimant is)"
  using winners_are [of "is" r] deferred_are [of "is" r]
  by (simp add: mset_map_filter_split)

lemma deferred_asked_more: "res is = Some r \<Longrightarrow> c \<in> set (rs_deferred r) \<Longrightarrow>
    \<exists>i \<in> set is. in_claimant i = c \<and> rs_level r < in_level i"
  using deferred_are [of "is" r] level_below_all [of "is" r] by fastforce

lemma order_independent:
  assumes "mset is = mset is'"
  shows "res is = res is'"
proof (cases "res is")
  case None
  then show ?thesis using assms unclaimed by (metis mset_zero_iff)
next
  case (Some r)
  then obtain r' where r': "res is' = Some r'"
    using assms unclaimed by (metis mset_zero_iff not_None_eq option.distinct(1))
  have set_eq: "set is = set is'" using assms by (metis set_mset_mset)
  then have lev: "rs_level r = rs_level r'" using meet Some r' by metis
  have "rs_winners r = rs_winners r'"
    using winners_are [OF Some] winners_are [OF r'] lev
    by (simp add: sort_perm [OF mset_map_filter_cong [OF assms]])
  moreover have "rs_deferred r = rs_deferred r'"
    using deferred_are [OF Some] deferred_are [OF r'] lev
    by (simp add: sort_perm [OF mset_map_filter_cong [OF assms]])
  ultimately show ?thesis using Some r' lev by simp
qed

lemma add_claim_meet:
  assumes "res is = Some r" and "res (is @ [c]) = Some r'"
  shows "rs_level r' = min (rs_level r) (in_level c)"
proof -
  have "rs_level r' = Min (insert (in_level c) (in_level ` set is))"
    using meet [OF assms(2)] by simp
  also have "\<dots> = min (in_level c) (rs_level r)"
    using meet [OF assms(1)] claimed_nonempty [OF assms(1)] by (simp add: Min_insert)
  finally show ?thesis by (simp add: min.commute)
qed

lemma unanimous: "res is = Some r \<Longrightarrow> \<forall>i \<in> set is. in_level i = l \<Longrightarrow> rs_level r = l \<and> rs_deferred r = []"
  using level_is_asked [of "is" r] deferred_are [of "is" r]
  by (auto simp: filter_empty_conv)

end

interpretation arb: arbiter resolve
proof
  fix "is" r
  show "resolve is = None \<longleftrightarrow> is = []" by (cases "is = []") (simp_all add: resolve_nonempty)
  assume "resolve is = Some r"
  moreover from this have "is \<noteq> []" by auto
  ultimately show "rs_level r = Min (in_level ` set is)"
    "rs_winners r = sort (map in_claimant (filter (\<lambda>i. in_level i = rs_level r) is))"
    "rs_deferred r = sort (map in_claimant (filter (\<lambda>i. in_level i \<noteq> rs_level r) is))"
    by (auto simp: resolve_nonempty)
qed

end
