(* ===== verification/Evaluate.thy ===== *)
theory Evaluate
  imports Targets Arbiter
begin

text \<open>
  The reading side of the reconciler: how one Automation's condition is assessed
  against the state store (\<open>evaluate\<close> and \<open>matchingOf\<close>), and what an Automation
  says about a target in its spec (\<open>targetsOf\<close>, \<open>claimFor\<close>, \<open>reversalFor\<close> and their
  kin of \<open>internal/controller/arbitration.go\<close>).
\<close>

section \<open>Assessing a condition\<close>

record evaluation =
  as_matching :: bool
  as_observed :: gomap
  as_missing :: "string list"
  as_known :: bool
  as_observed_at :: instant
  as_freshness :: freshness

definition zero_freshness :: freshness where
  "zero_freshness = \<lparr>fr_observed_at = zero_time, fr_age = 0, fr_bound = 0, fr_stale = False\<rparr>"

definition fresh_evaluation :: evaluation where
  "fresh_evaluation = \<lparr>as_matching = True, as_observed = [], as_missing = [], as_known = False,
     as_observed_at = zero_time, as_freshness = zero_freshness\<rparr>"

text \<open>The loop over \<open>spec.when.state\<close>.\<close>

fun eval_keys :: "gomap \<Rightarrow> gomap \<Rightarrow> evaluation \<Rightarrow> evaluation" where
  "eval_keys state [] e = e"
| "eval_keys state ((key, want) # rest) e =
     (case map_of state key of
        None \<Rightarrow> eval_keys state rest (e\<lparr>as_missing := as_missing e @ [key]\<rparr>)
      | Some got \<Rightarrow>
          eval_keys state rest
            (e\<lparr>as_observed := gm_set key got (as_observed e),
               as_matching := (as_matching e \<and> got = want)\<rparr>))"

definition assess :: "state_trigger \<Rightarrow> observation \<Rightarrow> freshness option \<Rightarrow> evaluation" where
  "assess w ob fr =
     (let e = eval_keys (ob_state ob) (st_state w)
                (fresh_evaluation\<lparr>as_known := True, as_observed_at := ob_at ob,
                   as_freshness := (case fr of None \<Rightarrow> zero_freshness | Some f \<Rightarrow> f)\<rparr>)
      in e\<lparr>as_missing := sort (as_missing e)\<rparr>)"

definition evaluate :: "automation \<Rightarrow> ('q, evaluation) prog" where
  "evaluate a =
     (case sp_when (am_spec a) of
        None \<Rightarrow> Ret fresh_evaluation
      | Some w \<Rightarrow> KStoreGet (st_provider w) (\<lambda>r. case r of
            None \<Rightarrow> Ret fresh_evaluation
          | Some ob \<Rightarrow> KStoreFreshness (st_provider w) (\<lambda>fr. Ret (assess w ob fr))))"

text \<open>A peer's condition: its last recorded answer stands when a key it needs is not reported.\<close>

definition matching_of :: "automation \<Rightarrow> ('q, bool) prog" where
  "matching_of a = bind (evaluate a) (\<lambda>e.
     Ret (if \<not> as_known e \<or> length (as_missing e) > 0 then is_matching (am_status a) else as_matching e))"

lemma eval_keys_spec:
  "as_matching (eval_keys st ws e) = (as_matching e \<and> (\<forall>(k, w) \<in> set ws. \<forall>g. map_of st k = Some g \<longrightarrow> g = w))"
  "as_missing (eval_keys st ws e) = as_missing e @ map fst (filter (\<lambda>p. map_of st (fst p) = None) ws)"
  "as_known (eval_keys st ws e) = as_known e"
  "as_observed_at (eval_keys st ws e) = as_observed_at e"
  "as_freshness (eval_keys st ws e) = as_freshness e"
  by (induction st ws e rule: eval_keys.induct) (auto split: option.splits)

lemma eval_keys_observed:
  "map_of (as_observed (eval_keys st ws e)) k =
     (if k \<in> fst ` set ws \<and> map_of st k \<noteq> None then map_of st k else map_of (as_observed e) k)"
proof (induction ws arbitrary: e)
  case (Cons p ws)
  obtain key want where p: "p = (key, want)" by (cases p)
  show ?case
  proof (cases "map_of st key")
    case None
    then show ?thesis using Cons.IH p by auto
  next
    case (Some got)
    then show ?thesis using Cons.IH p by (cases "k \<in> fst ` set ws") auto
  qed
qed simp

lemma missing_empty_iff:
  "sort (map fst (filter (\<lambda>p. map_of st (fst p) = None) ws)) = [] \<longleftrightarrow> (\<forall>(k, w) \<in> set ws. map_of st k \<noteq> None)"
  by (auto simp: filter_empty_conv)

lemma all_wanted:
  "((\<forall>(k, w) \<in> set ws. \<forall>g. m k = Some g \<longrightarrow> g = w) \<and> (\<forall>(k, w) \<in> set ws. m k \<noteq> None)) =
   (\<forall>(k, v) \<in> set ws. m k = Some v)"
  by (induction ws) auto

text \<open>The condition holds exactly when every key the Automation names is reported with the
  value it wants; the missing keys are exactly the unreported ones, sorted; and
  the observed subset holds the reported value of exactly the named keys.\<close>

theorem assess_condition:
  assumes "gm_wf (st_state w)"
  shows "(as_matching (assess w ob fr) \<and> as_missing (assess w ob fr) = [] \<longleftrightarrow>
        (\<forall>k v. map_of (st_state w) k = Some v \<longrightarrow> map_of (ob_state ob) k = Some v)) \<and>
    as_missing (assess w ob fr) = sort (filter (\<lambda>k. map_of (ob_state ob) k = None) (map fst (st_state w))) \<and>
    map_of (as_observed (assess w ob fr)) k =
      (if k \<in> fst ` set (st_state w) then map_of (ob_state ob) k else None)"
proof -
  have miss: "as_missing (assess w ob fr) =
      sort (map fst (filter (\<lambda>p. map_of (ob_state ob) (fst p) = None) (st_state w)))"
    by (simp add: assess_def Let_def eval_keys_spec fresh_evaluation_def)
  have "as_matching (assess w ob fr) \<longleftrightarrow>
      (\<forall>(k, w) \<in> set (st_state w). \<forall>g. map_of (ob_state ob) k = Some g \<longrightarrow> g = w)"
    by (simp add: assess_def Let_def eval_keys_spec fresh_evaluation_def)
  then have "as_matching (assess w ob fr) \<and> as_missing (assess w ob fr) = [] \<longleftrightarrow>
      (\<forall>(k, v) \<in> set (st_state w). map_of (ob_state ob) k = Some v)"
    unfolding miss missing_empty_iff by (simp only: all_wanted)
  also have "\<dots> \<longleftrightarrow> (\<forall>k v. map_of (st_state w) k = Some v \<longrightarrow> map_of (ob_state ob) k = Some v)"
    unfolding gm_wf_map_of [OF assms] by blast
  finally have cond: "as_matching (assess w ob fr) \<and> as_missing (assess w ob fr) = [] \<longleftrightarrow>
      (\<forall>k v. map_of (st_state w) k = Some v \<longrightarrow> map_of (ob_state ob) k = Some v)" .
  have "map_of (as_observed (assess w ob fr)) k =
      (if k \<in> fst ` set (st_state w) then map_of (ob_state ob) k else None)"
    by (simp add: assess_def Let_def eval_keys_observed fresh_evaluation_def)
  moreover have "as_missing (assess w ob fr) =
      sort (filter (\<lambda>k. map_of (ob_state ob) k = None) (map fst (st_state w)))"
    by (simp add: miss filter_map comp_def)
  ultimately show ?thesis using cond by blast
qed

definition sample_assessment :: evaluation where
  "sample_assessment = assess \<lparr>st_provider = ''unifi'', st_state = [(''wan'', ''down'')]\<rparr>
     \<lparr>ob_provider = ''unifi'', ob_state = [(''poe'', ''on''), (''wan'', ''down'')], ob_at = 3\<rparr> None"

theorem assess_condition_witness:
  "as_matching sample_assessment \<and> as_missing sample_assessment = [] \<and>
   map_of (as_observed sample_assessment) ''wan'' = Some ''down''"
  using assess_condition [of "\<lparr>st_provider = ''unifi'', st_state = [(''wan'', ''down'')]\<rparr>"
      "\<lparr>ob_provider = ''unifi'', ob_state = [(''poe'', ''on''), (''wan'', ''down'')], ob_at = 3\<rparr>" None "''wan''"]
  by (auto simp: sample_assessment_def [symmetric] gm_wf_def split: if_splits)

section \<open>What an Automation says about a target\<close>

definition claimant_of :: "automation \<Rightarrow> string" where
  "claimant_of a = am_namespace a @ ''/'' @ am_name a"

definition target_key_for :: "automation \<Rightarrow> action \<Rightarrow> target_key option" where
  "target_key_for a x =
     (case ac_target x of
        None \<Rightarrow> None
      | Some t \<Rightarrow>
          (let ns = (if cluster_scoped_kind (tf_kind t) then []
                     else if tf_namespace t = [] then am_namespace a else tf_namespace t)
           in Some \<lparr>tk_kind = tf_kind t, tk_namespace = ns, tk_name = tf_name t\<rparr>))"

fun collect_targets :: "automation \<Rightarrow> action list \<Rightarrow> target_key list \<Rightarrow> target_key list" where
  "collect_targets a [] keys = keys"
| "collect_targets a (x # xs) keys =
     (case target_key_for a x of
        None \<Rightarrow> collect_targets a xs keys
      | Some key \<Rightarrow>
          if \<not> is_desired_state (ac_type x) then collect_targets a xs keys
          else collect_targets a xs (append_new key keys))"

definition targets_of :: "automation \<Rightarrow> target_key list" where
  "targets_of a = sort_key key_string
     (collect_targets a (sp_on_exit (am_spec a)) (collect_targets a (sp_actions (am_spec a)) []))"

definition references :: "automation \<Rightarrow> target_key \<Rightarrow> bool" where
  "references a key = (key \<in> set (targets_of a))"

fun level_for :: "automation \<Rightarrow> action list \<Rightarrow> target_key \<Rightarrow> int option" where
  "level_for a [] key = None"
| "level_for a (x # xs) key =
     (if \<not> is_desired_state (ac_type x) \<or> target_key_for a x \<noteq> Some key then level_for a xs key
      else (case level_of_action x of Some l \<Rightarrow> Some l | None \<Rightarrow> level_for a xs key))"

definition claim_for :: "automation \<Rightarrow> target_key \<Rightarrow> bool \<Rightarrow> intent option" where
  "claim_for a key matching =
     (if \<not> matching then None
      else (case level_for a (sp_actions (am_spec a)) key of
              None \<Rightarrow> None
            | Some l \<Rightarrow> Some \<lparr>in_claimant = claimant_of a, in_level = l\<rparr>))"

definition reversal_for :: "automation \<Rightarrow> target_key \<Rightarrow> int option \<Rightarrow> intent option" where
  "reversal_for a key baseline =
     (let policy = effective_reversal (am_spec a) in
      if policy = reversal_none then None
      else if policy = reversal_baseline then
        (case baseline of None \<Rightarrow> None
         | Some b \<Rightarrow> Some \<lparr>in_claimant = claimant_of a, in_level = b\<rparr>)
      else
        (case level_for a (sp_on_exit (am_spec a)) key of
           None \<Rightarrow> None
         | Some l \<Rightarrow> Some \<lparr>in_claimant = claimant_of a, in_level = l\<rparr>))"

definition reversal_intents :: "automation list \<Rightarrow> target_key \<Rightarrow> int option \<Rightarrow> intent list" where
  "reversal_intents peers key baseline = List.map_filter (\<lambda>p. reversal_for p key baseline) peers"

definition disagreement_over :: "'q target_handler \<Rightarrow> intent list \<Rightarrow> reversal_intent list" where
  "disagreement_over h is =
     (if length is < 2 then []
      else if \<not> list_ex (\<lambda>i. in_level i \<noteq> in_level (hd is)) is then []
      else sort_key ri_claimant
             (map (\<lambda>i. \<lparr>ri_claimant = in_claimant i, ri_desired = int32 (in_level i),
                        ri_level = th_describe h (in_level i)\<rparr>) is))"

text \<open>The recorded pre-claim level: an unparsable record still counts as recorded.\<close>

definition baseline_of :: "'q target_handler \<Rightarrow> kobj \<Rightarrow> int option \<times> bool" where
  "baseline_of h obj =
     (case ko_annotations obj (th_baseline h) of
        None \<Rightarrow> (None, False)
      | Some raw \<Rightarrow> (case th_parse h raw of Inl e \<Rightarrow> (None, True) | Inr l \<Rightarrow> (Some l, True)))"

definition permission_hint :: "string \<Rightarrow> string" where
  "permission_hint kind =
     (if cluster_scoped_kind kind
      then ''node actions are opt-in: install with rbac.allowNodeActions=true''
      else ''cross-namespace targets need cluster-wide permissions'')"

definition out_of_scope :: "kerr \<Rightarrow> bool" where
  "out_of_scope e = (ke_reason e = Forbidden \<or> contains_sub (ke_text e) ''unknown namespace for the cache'')"

definition actions_for :: "automation \<Rightarrow> bool \<Rightarrow> action list" where
  "actions_for a matching = (if matching then sp_actions (am_spec a) else sp_on_exit (am_spec a))"

definition default_action_timeout :: duration where "default_action_timeout = 30 * second"

fun timeout_in :: "automation \<Rightarrow> action list \<Rightarrow> target_key \<Rightarrow> duration" where
  "timeout_in a [] key = default_action_timeout"
| "timeout_in a (x # xs) key =
     (case ac_timeout_seconds x of
        None \<Rightarrow> timeout_in a xs key
      | Some t \<Rightarrow> if is_desired_state (ac_type x) \<and> target_key_for a x = Some key
                  then t * second else timeout_in a xs key)"

definition timeout_for :: "automation \<Rightarrow> target_key \<Rightarrow> bool \<Rightarrow> duration" where
  "timeout_for a key matching = timeout_in a (actions_for a matching) key"

fun action_type_in :: "automation \<Rightarrow> action list \<Rightarrow> target_key \<Rightarrow> string option" where
  "action_type_in a [] key = None"
| "action_type_in a (x # xs) key =
     (if is_desired_state (ac_type x) \<and> target_key_for a x = Some key then Some (ac_type x)
      else action_type_in a xs key)"

definition action_type_for :: "automation \<Rightarrow> target_key \<Rightarrow> bool \<Rightarrow> string" where
  "action_type_for a key matching =
     (case action_type_in a (actions_for a matching) key of
        Some t \<Rightarrow> t
      | None \<Rightarrow> (case handler_for (tk_kind key) :: string + unit target_handler of
                   Inr h \<Rightarrow> th_action_type h
                 | Inl e \<Rightarrow> action_kubernetes_scale))"

definition self_level :: "automation \<Rightarrow> target_key \<Rightarrow> bool \<Rightarrow> int option \<Rightarrow> int option" where
  "self_level a key matching baseline =
     (if matching then level_for a (sp_actions (am_spec a)) key
      else map_option in_level (reversal_for a key baseline))"

definition without_claimant :: "string list \<Rightarrow> string \<Rightarrow> string list" where
  "without_claimant cs self = filter (\<lambda>c. c \<noteq> self) cs"

definition newly_deferred :: "string list \<Rightarrow> string list \<Rightarrow> string \<Rightarrow> string list" where
  "newly_deferred before after self = filter (\<lambda>c. c \<noteq> self \<and> c \<notin> set before) after"

definition describe_level :: "'q target_handler \<Rightarrow> int option \<Rightarrow> string" where
  "describe_level h level = (case level of None \<Rightarrow> ''left as found'' | Some l \<Rightarrow> th_describe h l)"

lemma claim_for_level:
  "claim_for a key m = Some i \<Longrightarrow> in_claimant i = claimant_of a \<and> m \<and>
     level_for a (sp_actions (am_spec a)) key = Some (in_level i)"
  by (auto simp: claim_for_def split: if_splits option.splits)

lemma reversal_for_claimant: "reversal_for a key b = Some i \<Longrightarrow> in_claimant i = claimant_of a"
  by (auto simp: reversal_for_def Let_def split: if_splits option.splits)

lemma collect_targets_set:
  "set (collect_targets a xs keys) = set keys \<union>
     {k. \<exists>x \<in> set xs. is_desired_state (ac_type x) \<and> target_key_for a x = Some k}"
  by (induction a xs keys rule: collect_targets.induct) (auto split: option.splits)

lemma collect_targets_distinct: "distinct keys \<Longrightarrow> distinct (collect_targets a xs keys)"
  by (induction a xs keys rule: collect_targets.induct) (auto split: option.splits)

text \<open>The targets of an Automation are exactly the ones its desired-state actions name on
  either side, each once, in the order of their names.\<close>

theorem targets_of_spec:
  "set (targets_of a) = {k. \<exists>x \<in> set (sp_actions (am_spec a)) \<union> set (sp_on_exit (am_spec a)).
       is_desired_state (ac_type x) \<and> target_key_for a x = Some k} \<and>
   distinct (targets_of a) \<and> sorted (map key_string (targets_of a))"
  by (auto simp: targets_of_def collect_targets_set collect_targets_distinct)

lemma level_for_references:
  "level_for a xs key = Some l \<Longrightarrow> \<exists>x \<in> set xs. is_desired_state (ac_type x) \<and> target_key_for a x = Some key
     \<and> level_of_action x = Some l"
  by (induction a xs key rule: level_for.induct) (auto split: if_splits option.splits)

lemma disagreement_iff:
  "disagreement_over h is \<noteq> [] \<longleftrightarrow> (\<exists>i \<in> set is. \<exists>j \<in> set is. in_level i \<noteq> in_level j)"
proof (cases "length is < 2")
  case True
  then have "is = [] \<or> (\<exists>i. is = [i])" by (cases "is") auto
  then show ?thesis by (auto simp: disagreement_over_def)
next
  case False
  then obtain i j rest where ij: "is = i # j # rest" by (metis One_nat_def Suc_1 length_Cons less_Suc_eq_0_disj list.exhaust list.size(3) lessI)
  then show ?thesis unfolding disagreement_over_def by (auto simp: list_ex_iff)
qed

lemma evaluate_calls: "calls (\<lambda>c. \<not> writes_target c \<and> \<not> performs_edge c) (evaluate a)"
  by (auto simp: evaluate_def split: option.splits)

lemma matching_of_calls: "calls (\<lambda>c. \<not> writes_target c \<and> \<not> performs_edge c) (matching_of a)"
  unfolding matching_of_def by (rule calls_bind [OF evaluate_calls]) simp

end
