(* ===== verification/Arbitration.thy ===== *)
theory Arbitration
  imports Evaluate
begin

text \<open>
  \<open>internal/controller/arbitration.go\<close> and \<open>internal/controller/hpa.go\<close>: one target
  resolved across every Automation referencing it, and the writes that follow:
  claiming (annotations, then the level), releasing (the level, then the
  annotations), declining a target another controller drives, withholding under a
  dry run, and previewing. A function that returns a value and an error in Go
  returns both here, because the caller reads both.
\<close>

record reconciler =
  rc_dry_run :: bool
  rc_detect_hpa :: bool
  rc_outbound :: "bool option"
  rc_console :: bool
  rc_recorder :: bool

record target_outcome =
  oc_ref :: string
  oc_desired :: "int option"
  oc_effective :: "int option"
  oc_level :: string
  oc_deferred_by :: "string list"
  oc_changed :: bool
  oc_preview :: "target_preview option"
  oc_withheld :: bool
  oc_disagreement :: "reversal_intent list"
  oc_managed_by :: string

definition new_outcome :: "string \<Rightarrow> target_outcome" where
  "new_outcome ref = \<lparr>oc_ref = ref, oc_desired = None, oc_effective = None, oc_level = [],
     oc_deferred_by = [], oc_changed = False, oc_preview = None, oc_withheld = False,
     oc_disagreement = [], oc_managed_by = []\<rparr>"

record stance =
  sn_matching :: bool
  sn_claiming :: bool
  sn_preview :: bool

section \<open>Annotations\<close>

text \<open>\<open>patchAnnotations\<close>: the object carries the new annotations whether or not the patch lands.\<close>

definition patch_annotations ::
  "kobj \<Rightarrow> (string \<rightharpoonup> string) \<Rightarrow> bool \<Rightarrow> bool \<Rightarrow> ('q, (bool \<times> kerr option) \<times> kobj) prog" where
  "patch_annotations target next dirty guard =
     (if \<not> dirty then Ret ((False, None), target)
      else KPatch target guard (target\<lparr>ko_annotations := next\<rparr>) (\<lambda>r. case r of
             Inl e \<Rightarrow> Ret ((False, Some e), target\<lparr>ko_annotations := next\<rparr>)
           | Inr target' \<Rightarrow> Ret ((True, None), target')))"

text \<open>\<open>current[annotation] != value\<close> reads an absent annotation as the empty string.\<close>

fun merge_wanted :: "(string \<rightharpoonup> string) \<Rightarrow> (string \<times> string) list \<Rightarrow> (string \<rightharpoonup> string) \<times> bool \<Rightarrow>
    (string \<rightharpoonup> string) \<times> bool" where
  "merge_wanted current [] acc = acc"
| "merge_wanted current ((k, v) # rest) (next, dirty) =
     (if (case current k of None \<Rightarrow> [] | Some old \<Rightarrow> old) \<noteq> v
      then merge_wanted current rest (next(k \<mapsto> v), True)
      else merge_wanted current rest (next, dirty))"

definition set_annotations ::
  "kobj \<Rightarrow> (string \<times> string) list \<Rightarrow> bool \<Rightarrow> ('q, (bool \<times> kerr option) \<times> kobj) prog" where
  "set_annotations target want guard =
     (let (next, dirty) = merge_wanted (ko_annotations target) want (ko_annotations target, False)
      in patch_annotations target next dirty guard)"

fun drop_annotations :: "string list \<Rightarrow> (string \<rightharpoonup> string) \<times> bool \<Rightarrow> (string \<rightharpoonup> string) \<times> bool" where
  "drop_annotations [] acc = acc"
| "drop_annotations (a # rest) (next, dirty) =
     (if next a \<noteq> None then drop_annotations rest (next(a := None), True)
      else drop_annotations rest (next, dirty))"

definition clear_annotations :: "kobj \<Rightarrow> ('q, bool \<times> kerr option) prog" where
  "clear_annotations target =
     (let (next, dirty) = drop_annotations claim_annotations (ko_annotations target, False)
      in bind (patch_annotations target next dirty False) (\<lambda>(r, _). Ret r))"

section \<open>Claiming\<close>

text \<open>
  One write of the claim annotations. A conflict on the guarded write, the first time,
  re-reads the target and goes around again, which is \<open>again\<close>; anything else ends it.
\<close>

definition write_claim :: "(kobj \<Rightarrow> ('q, (bool \<times> string option) \<times> kobj) prog) \<Rightarrow> bool \<Rightarrow> nat \<Rightarrow> kobj \<Rightarrow>
    (string \<times> string) list \<Rightarrow> ('q, (bool \<times> string option) \<times> kobj) prog" where
  "write_claim again recorded attempt target annotations =
     bind (set_annotations target annotations (\<not> recorded)) (\<lambda>((changed, err), target').
       case err of
         None \<Rightarrow> Ret ((changed, None), target')
       | Some e \<Rightarrow>
           if recorded \<or> ke_reason e \<noteq> Conflict \<or> attempt > 0
           then Ret ((changed, Some (''recording the claim on '' @ describe_object target
                                     @ '': '' @ ke_text e)), target')
           else KGet (ko_key target) (\<lambda>r. case r of
                  Inl e \<Rightarrow> Ret ((False, Some (''re-reading '' @ describe_object target
                                              @ '' after a claim conflict: '' @ ke_text e)), target')
                | Inr target'' \<Rightarrow> again target''))"

text \<open>\<open>recordClaim\<close>: two attempts, the second only after a conflict on the first.\<close>

fun record_claim_loop :: "nat list \<Rightarrow> 'q target_handler \<Rightarrow> kobj \<Rightarrow> string list \<Rightarrow>
    ('q, (bool \<times> string option) \<times> kobj) prog" where
  "record_claim_loop [] h target claimants =
     Ret ((False, Some (''recording the claim on '' @ describe_object target @ '': too many conflicts'')), target)"
| "record_claim_loop (attempt # attempts) h target claimants =
     (let recorded = (ko_annotations target (th_baseline h) \<noteq> None);
          claimed_by = (annotation_claimed_by, join '','' claimants);
          again = (\<lambda>target'. record_claim_loop attempts h target' claimants)
      in if recorded then write_claim again recorded attempt target [claimed_by]
         else bind (th_read h target) (\<lambda>r. case r of
                Inl e \<Rightarrow> Ret ((False, Some e), target)
              | Inr found \<Rightarrow> KNow (\<lambda>now.
                  write_claim again recorded attempt target
                    [claimed_by, (th_baseline h, th_format h found), (annotation_claimed_at, rfc3339 now)])))"

definition record_claim :: "'q target_handler \<Rightarrow> kobj \<Rightarrow> string list \<Rightarrow>
    ('q, (bool \<times> string option) \<times> kobj) prog" where
  "record_claim = record_claim_loop [0, 1]"

definition claim_target :: "'q target_handler \<Rightarrow> kobj \<Rightarrow> resolution \<Rightarrow> intent list \<Rightarrow>
    ('q, bool \<times> string option) prog" where
  "claim_target h target r claims =
     bind (record_claim h target (sort (map in_claimant claims))) (\<lambda>((changed, err), target').
       case err of
         Some e \<Rightarrow> Ret (changed, Some e)
       | None \<Rightarrow> bind (th_apply h target' (rs_level r)) (\<lambda>a. case a of
             Inl e \<Rightarrow> Ret (changed, Some e)
           | Inr (written, _) \<Rightarrow> if written then Ret (True, None) else Ret (changed, None)))"

section \<open>Releasing\<close>

definition release_target :: "'q target_handler \<Rightarrow> kobj \<Rightarrow> int option \<Rightarrow> ('q, bool \<times> string option) prog" where
  "release_target h target level =
     (let clear = (\<lambda>changed target.
            bind (clear_annotations target) (\<lambda>(cleared, err). case err of
                Some e \<Rightarrow> Ret (changed, Some (''releasing '' @ describe_object target @ '': '' @ ke_text e))
              | None \<Rightarrow> Ret (changed \<or> cleared, None)))
      in case level of
           None \<Rightarrow> clear False target
         | Some l \<Rightarrow> bind (th_apply h target l) (\<lambda>a. case a of
               Inl e \<Rightarrow> Ret (False, Some e)
             | Inr (written, target') \<Rightarrow> clear written target'))"

section \<open>A controller Reactor cannot arbitrate with\<close>

definition kind_hpa :: string where "kind_hpa = ''HorizontalPodAutoscaler''"

definition drives :: "khpa \<Rightarrow> string \<Rightarrow> string \<Rightarrow> string \<Rightarrow> bool" where
  "drives hpa grp kind name =
     (case hp_ref hpa of
        Present ref \<Rightarrow>
          (let found = (case before_slash (gm_get ref ''apiVersion'') of None \<Rightarrow> [] | Some g \<Rightarrow> g)
           in found = grp \<and> gm_get ref ''kind'' = kind \<and> gm_get ref ''name'' = name)
      | _ \<Rightarrow> False)"

definition foreign_manager_of :: "reconciler \<Rightarrow> 'q target_handler \<Rightarrow> target_key \<Rightarrow> ('q, string + string) prog" where
  "foreign_manager_of rc h key =
     (if \<not> rc_detect_hpa rc \<or> \<not> th_contested h then Ret (Inr [])
      else KListHPAs (tk_namespace key) (\<lambda>r. case r of
             Inl e \<Rightarrow> Ret (Inl (''listing HorizontalPodAutoscalers in '' @ tk_namespace key
               @ '', which detection needs before it may claim a target (install with safety.detectHPA=true to grant it, or turn detection off): ''
               @ ke_text e))
           | Inr hpas \<Rightarrow>
               (case find (\<lambda>hpa. drives hpa (th_group h) (th_kind h) (tk_name key)) hpas of
                  None \<Rightarrow> Ret (Inr [])
                | Some hpa \<Rightarrow> Ret (Inr (kind_hpa @ ''/'' @ tk_namespace key @ ''/'' @ hp_name hpa)))))"

definition decline_target :: "reconciler \<Rightarrow> 'q target_handler \<Rightarrow> kobj \<Rightarrow> target_outcome \<Rightarrow> int option \<Rightarrow> bool \<Rightarrow>
    ('q, target_outcome \<times> string option) prog" where
  "decline_target rc h target oc baseline recorded =
     (if \<not> recorded \<or> rc_dry_run rc then Ret (oc, None)
      else bind (release_target h target baseline) (\<lambda>(changed, err).
             Ret (oc\<lparr>oc_level := describe_level h baseline, oc_changed := changed\<rparr>, err)))"

definition withhold :: "target_outcome \<Rightarrow> target_outcome" where
  "withhold oc = oc\<lparr>oc_withheld := True\<rparr>"

section \<open>Previews\<close>

definition preview_on_exit :: "'q target_handler \<Rightarrow> automation \<Rightarrow> target_key \<Rightarrow> kobj \<Rightarrow> int option \<Rightarrow>
    ('q, string) prog" where
  "preview_on_exit h self key target baseline =
     (let say = (\<lambda>b. Ret (case reversal_for self key b of
                            None \<Rightarrow> describe_level h None
                          | Some i \<Rightarrow> th_describe h (in_level i)))
      in if baseline = None \<and> effective_reversal (am_spec self) = reversal_baseline
         then bind (th_read h target) (\<lambda>r. case r of Inl e \<Rightarrow> Ret [] | Inr found \<Rightarrow> say (Some found))
         else say baseline)"

text \<open>The deferred list of the fold as it stands: the zero resolution when nobody claims.\<close>

definition deferred_now :: "intent list \<Rightarrow> string list" where
  "deferred_now claims = (case resolve claims of None \<Rightarrow> [] | Some r \<Rightarrow> rs_deferred r)"

definition preview_for :: "'q target_handler \<Rightarrow> automation \<Rightarrow> target_key \<Rightarrow> kobj \<Rightarrow> intent list \<Rightarrow> int option \<Rightarrow>
    ('q, target_preview) prog" where
  "preview_for h self key target claims baseline =
     bind (preview_on_exit h self key target baseline) (\<lambda>on_exit.
       let blank = \<lparr>pv_desired = None, pv_effective = None, pv_level = [], pv_deferred_by = [],
                    pv_would_defer = [], pv_on_exit = on_exit\<rparr>
       in case claim_for self key True of
            None \<Rightarrow> Ret blank
          | Some claim \<Rightarrow>
              (case resolve (claims @ [claim]) of
                 None \<Rightarrow> Ret (blank\<lparr>pv_desired := Some (int32 (in_level claim))\<rparr>)
               | Some r \<Rightarrow>
                   Ret (blank\<lparr>pv_desired := Some (int32 (in_level claim)),
                        pv_effective := Some (int32 (rs_level r)),
                        pv_level := th_describe h (rs_level r),
                        pv_deferred_by := (if rs_level r \<noteq> in_level claim
                                           then without_claimant (rs_winners r) (in_claimant claim) else []),
                        pv_would_defer := newly_deferred (deferred_now claims) (rs_deferred r) (in_claimant claim)\<rparr>)))"

section \<open>Peers\<close>

definition peers_in :: "target_key \<Rightarrow> automation \<Rightarrow> automation list \<Rightarrow> automation list" where
  "peers_in key self items =
     self # filter (\<lambda>p. sp_when (am_spec p) \<noteq> None \<and> claimant_of p \<noteq> claimant_of self \<and> references p key) items"

definition referencing_automations :: "target_key \<Rightarrow> automation \<Rightarrow> ('q, string + automation list) prog" where
  "referencing_automations key self = KListAutomations None (\<lambda>r. case r of
     Inl e \<Rightarrow> Ret (Inl (''listing automations sharing target '' @ key_string key @ '': '' @ ke_text e))
   | Inr items \<Rightarrow> Ret (Inr (peers_in key self items)))"

text \<open>The loop that asks every peer for its claim or its reversal.\<close>

definition take_side :: "target_key \<Rightarrow> int option \<Rightarrow> automation \<Rightarrow> bool \<Rightarrow> intent list \<times> intent list \<Rightarrow>
    intent list \<times> intent list" where
  "take_side key baseline peer matching acc =
     (case claim_for peer key matching of
        Some claim \<Rightarrow> (fst acc @ [claim], snd acc)
      | None \<Rightarrow>
          if matching then acc
          else (case reversal_for peer key baseline of
                  None \<Rightarrow> acc
                | Some reversal \<Rightarrow> (fst acc, snd acc @ [reversal])))"

fun gather :: "target_key \<Rightarrow> automation \<Rightarrow> bool \<Rightarrow> int option \<Rightarrow> automation list \<Rightarrow>
    intent list \<times> intent list \<Rightarrow> ('q, intent list \<times> intent list) prog" where
  "gather key self claiming baseline [] acc = Ret acc"
| "gather key self claiming baseline (peer # peers) acc =
     (if claimant_of peer = claimant_of self
      then gather key self claiming baseline peers (take_side key baseline peer claiming acc)
      else if in_force peer
      then bind (matching_of peer) (\<lambda>m.
             gather key self claiming baseline peers (take_side key baseline peer m acc))
      else gather key self claiming baseline peers (take_side key baseline peer False acc))"

section \<open>One target, reconciled\<close>

text \<open>What is outs once the claims, the reversals and the outcome so far are known.\<close>

definition settle_target :: "reconciler \<Rightarrow> 'q target_handler \<Rightarrow> automation \<Rightarrow> kobj \<Rightarrow> bool \<Rightarrow>
    intent list \<Rightarrow> intent list \<Rightarrow> target_outcome \<Rightarrow> ('q, target_outcome \<times> string option) prog" where
  "settle_target rc h self target recorded claims reversals oc =
     (case resolve claims of
        Some r \<Rightarrow>
          (let value = int32 (rs_level r);
               oc1 = oc\<lparr>oc_effective := Some value, oc_level := th_describe h (rs_level r),
                        oc_deferred_by :=
                          (if oc_desired oc \<noteq> None \<and> oc_desired oc \<noteq> Some value
                           then without_claimant (rs_winners r) (claimant_of self) else oc_deferred_by oc)\<rparr>
           in if rc_dry_run rc then Ret (withhold oc1, None)
              else bind (claim_target h target r claims) (\<lambda>(changed, err).
                     Ret (oc1\<lparr>oc_changed := changed\<rparr>, err)))
      | None \<Rightarrow>
          if recorded then
            (if rc_dry_run rc then Ret (withhold oc, None)
             else bind (release_target h target (map_option rs_level (resolve reversals))) (\<lambda>(changed, err).
                    Ret (oc\<lparr>oc_changed := changed\<rparr>, err)))
          else Ret (oc, None))"

text \<open>Whether another controller drives the target, and what follows either way.\<close>

definition dispatch_target :: "reconciler \<Rightarrow> 'q target_handler \<Rightarrow> target_key \<Rightarrow> automation \<Rightarrow> bool \<Rightarrow> kobj \<Rightarrow>
    int option \<times> bool \<Rightarrow> intent list \<times> intent list \<Rightarrow> target_outcome \<Rightarrow>
    ('q, target_outcome \<times> string option) prog" where
  "dispatch_target rc h key self preview target base sides oc =
     bind (foreign_manager_of rc h key) (\<lambda>mr. case mr of
       Inl e \<Rightarrow> Ret (oc, Some e)
     | Inr manager \<Rightarrow>
         if manager \<noteq> []
         then decline_target rc h target (oc\<lparr>oc_managed_by := manager\<rparr>) (fst base) (snd base)
         else if preview
         then bind (preview_for h self key target (fst sides) (fst base)) (\<lambda>pv.
                settle_target rc h self target (snd base) (fst sides) (snd sides) (oc\<lparr>oc_preview := Some pv\<rparr>))
         else settle_target rc h self target (snd base) (fst sides) (snd sides) oc)"

text \<open>The target in hand: its baseline, what every peer asks of it, and what is done.\<close>

definition arbitrate_target :: "reconciler \<Rightarrow> 'q target_handler \<Rightarrow> target_key \<Rightarrow> automation \<Rightarrow> stance \<Rightarrow>
    automation list \<Rightarrow> kobj \<Rightarrow> ('q, target_outcome \<times> string option) prog" where
  "arbitrate_target rc h key self sn peers target =
     (let base = baseline_of h target in
      bind (gather key self (sn_claiming sn) (fst base) peers ([], [])) (\<lambda>sides.
        dispatch_target rc h key self (sn_preview sn) target base sides
          ((new_outcome (key_string key))\<lparr>
             oc_desired := map_option int32 (self_level self key (sn_claiming sn) (fst base)),
             oc_disagreement := disagreement_over h (reversal_intents peers key (fst base))\<rparr>)))"

definition reconcile_target :: "reconciler \<Rightarrow> target_key \<Rightarrow> automation \<Rightarrow> stance \<Rightarrow>
    ('q, target_outcome \<times> string option) prog" where
  "reconcile_target rc key self sn =
     (let oc0 = new_outcome (key_string key) in
      case handler_for (tk_kind key) of
        Inl e \<Rightarrow> Ret (oc0, Some e)
      | Inr h \<Rightarrow>
        bind (referencing_automations key self) (\<lambda>pr. case pr of
          Inl e \<Rightarrow> Ret (oc0, Some e)
        | Inr peers \<Rightarrow>
          KGet key (\<lambda>tr. case tr of
            Inl e \<Rightarrow>
              Ret (oc0, Some (if out_of_scope e
                then ''target '' @ key_string key @ '' not reachable with current RBAC (''
                     @ permission_hint (tk_kind key) @ ''): '' @ ke_text e
                else ''getting target '' @ key_string key @ '': '' @ ke_text e))
          | Inr target \<Rightarrow> arbitrate_target rc h key self sn peers target)))"

text \<open>\<open>reconcileTargets\<close>: every target in order, stopping at the first failure.\<close>

fun reconcile_targets :: "reconciler \<Rightarrow> automation \<Rightarrow> stance \<Rightarrow> target_key list \<Rightarrow> target_outcome list \<Rightarrow>
    ('q, target_outcome list \<times> string option) prog" where
  "reconcile_targets rc self sn [] outs = Ret (outs, None)"
| "reconcile_targets rc self sn (key # keys) outs =
     bind (reconcile_target rc key self sn) (\<lambda>(oc, err). case err of
       Some e \<Rightarrow> Ret (outs @ [oc], Some e)
     | None \<Rightarrow> reconcile_targets rc self sn keys (outs @ [oc]))"

end
