(* ===== verification/Templates.thy ===== *)
theory Templates
  imports Api
begin

text \<open>
  \<open>internal/actions/template_check.go\<close> and the field selection of
  \<open>internal/controller/templates.go\<close>. A parsed template is the tree of
  \<open>text/template/parse\<close>, one constructor per node kind the walker distinguishes;
  the parser itself is the argument \<open>parse\<close>, which answers either the error text
  or the tree, \<open>None\<close> being the template that parsed to nothing. The shape of
  \<open>Context\<close>, which the code reads by reflection, is the table \<open>context_fields\<close>.
\<close>

section \<open>Parsed templates\<close>

datatype node =
    ListNode "node list"
  | TextNode string
  | ActionNode node
  | PipeNode "node list"
  | CommandNode "node list"
  | FieldNode "string list"
  | ChainNode node
  | VariableNode "string list"
  | IfNode node node "node option"
  | RangeNode node node "node option"
  | WithNode node node "node option"
  | TemplateNode "node option"
  | OtherNode

type_synonym template_parser = "string \<Rightarrow> string + node option"

section \<open>The type a template reads\<close>

datatype field_kind = KString | KBool | KMap

definition context_fields :: "(string \<times> field_kind) list" where
  "context_fields =
     [(''Automation'', KString), (''Namespace'', KString), (''Name'', KString), (''Provider'', KString),
      (''Matching'', KBool), (''Key'', KString), (''From'', KString), (''To'', KString),
      (''State'', KMap), (''Time'', KString)]"

definition describe_context_fields :: string where
  "describe_context_fields = join '', '' (sort (map (\<lambda>f. ''.'' @ fst f) context_fields))"

text \<open>Where \<open>check\<close> is on its way down: at the Context, in its map, or at a scalar.\<close>

datatype place = AtContext | AtMap | AtScalar field_kind

definition kind_name :: "field_kind \<Rightarrow> string" where
  "kind_name k = (case k of KString \<Rightarrow> ''string'' | KBool \<Rightarrow> ''bool'' | KMap \<Rightarrow> ''map'')"

definition place_of :: "field_kind \<Rightarrow> place" where
  "place_of k = (if k = KMap then AtMap else AtScalar k)"

section \<open>Checking one reference\<close>

text \<open>
  \<open>root\<close> is the dollar or nothing in front of the first dot, \<open>taken\<close> the steps
  already made. The answer is the fault, if there is one: \<open>check\<close> stops at the first.
\<close>

definition reached :: "string \<Rightarrow> string list \<Rightarrow> string" where
  "reached root idents = root @ ''.'' @ join ''.'' idents"

fun check_from :: "string list \<Rightarrow> string \<Rightarrow> place \<Rightarrow> string list \<Rightarrow> string list \<Rightarrow> string option" where
  "check_from keys root at taken [] = None"
| "check_from keys root AtContext taken (ident # rest) =
     (case map_of context_fields ident of
        None \<Rightarrow> Some (''reads '' @ reached root (taken @ [ident])
                  @ '', which is not part of the template context; it offers '' @ describe_context_fields)
      | Some k \<Rightarrow> check_from keys root (place_of k) (taken @ [ident]) rest)"
| "check_from keys root AtMap taken (ident # rest) =
     (if ident \<notin> set keys
      then Some (''references state key '' @ quoted ident
             @ '', which this automation does not match on (it matches on '' @ join '', '' keys
             @ ''); add '' @ ident @ '' to spec.when.state or remove the reference'')
      else check_from keys root (AtScalar KString) (taken @ [ident]) rest)"
| "check_from keys root (AtScalar k) taken (ident # rest) =
     Some (''reads '' @ reached root (taken @ ident # rest) @ '', but '' @ reached root taken
           @ '' is a '' @ kind_name k @ '' and has nothing under it'')"

definition check_ref :: "string list \<Rightarrow> string \<Rightarrow> string list \<Rightarrow> string option" where
  "check_ref keys root idents = check_from keys root AtContext [] idents"

text \<open>\<open>add\<close>: a fault is said once.\<close>

definition add_fault :: "string option \<Rightarrow> string list \<Rightarrow> string list" where
  "add_fault f faults = (case f of None \<Rightarrow> faults | Some d \<Rightarrow> append_new d faults)"

section \<open>The walk\<close>

fun walk :: "string list \<Rightarrow> bool \<Rightarrow> node \<Rightarrow> string list \<Rightarrow> string list"
and walks :: "string list \<Rightarrow> bool \<Rightarrow> node list \<Rightarrow> string list \<Rightarrow> string list"
and walk_opt :: "string list \<Rightarrow> bool \<Rightarrow> node option \<Rightarrow> string list \<Rightarrow> string list" where
  "walk keys dot (ListNode ns) fs = walks keys dot ns fs"
| "walk keys dot (TextNode t) fs = fs"
| "walk keys dot (ActionNode p) fs = walk keys dot p fs"
| "walk keys dot (PipeNode cmds) fs = walks keys dot cmds fs"
| "walk keys dot (CommandNode args) fs = walks keys dot args fs"
| "walk keys dot (FieldNode idents) fs = (if dot then add_fault (check_ref keys [] idents) fs else fs)"
| "walk keys dot (ChainNode n) fs = walk keys dot n fs"
| "walk keys dot (VariableNode idents) fs =
     (case idents of
        [] \<Rightarrow> fs
      | v # rest \<Rightarrow> if v = ''$'' \<and> rest \<noteq> [] then add_fault (check_ref keys ''$'' rest) fs else fs)"
| "walk keys dot (IfNode p b e) fs = walk_opt keys dot e (walk keys dot b (walk keys dot p fs))"
| "walk keys dot (RangeNode p b e) fs = walk_opt keys dot e (walk keys False b (walk keys dot p fs))"
| "walk keys dot (WithNode p b e) fs = walk_opt keys dot e (walk keys False b (walk keys dot p fs))"
| "walk keys dot (TemplateNode p) fs = walk_opt keys dot p fs"
| "walk keys dot OtherNode fs = fs"
| "walks keys dot [] fs = fs"
| "walks keys dot (n # ns) fs = walks keys dot ns (walk keys dot n fs)"
| "walk_opt keys dot None fs = fs"
| "walk_opt keys dot (Some n) fs = walk keys dot n fs"

definition parse_error_text :: "string \<Rightarrow> string" where
  "parse_error_text e = (case cut_prefix e ''template: action:'' of None \<Rightarrow> e | Some r \<Rightarrow> r)"

definition check_template :: "template_parser \<Rightarrow> string \<Rightarrow> string list \<Rightarrow> string list" where
  "check_template parse text keys =
     (if text = [] then []
      else case parse text of
             Inl e \<Rightarrow> [''does not parse: '' @ parse_error_text e]
           | Inr None \<Rightarrow> []
           | Inr (Some root) \<Rightarrow> walk keys True root [])"

section \<open>What a reference evaluates to\<close>

text \<open>\<open>actions.Context\<close>: everything a template may read.\<close>

record template_context =
  tc_automation :: string
  tc_namespace :: string
  tc_name :: string
  tc_provider :: string
  tc_matching :: bool
  tc_key :: string
  tc_from :: string
  tc_to :: string
  tc_state :: gomap
  tc_time :: string

datatype cval = VContext | VString string | VBool bool | VMap gomap

definition context_get :: "template_context \<Rightarrow> string \<Rightarrow> cval option" where
  "context_get c f = map_of
     [(''Automation'', VString (tc_automation c)), (''Namespace'', VString (tc_namespace c)),
      (''Name'', VString (tc_name c)), (''Provider'', VString (tc_provider c)),
      (''Matching'', VBool (tc_matching c)), (''Key'', VString (tc_key c)), (''From'', VString (tc_from c)),
      (''To'', VString (tc_to c)), (''State'', VMap (tc_state c)), (''Time'', VString (tc_time c))] f"

text \<open>
  One step of a field chain as \<open>text/template\<close> takes it under \<open>missingkey=error\<close>:
  a field the struct has, a key the map holds, and nothing under a scalar.
\<close>

definition step_ref :: "template_context \<Rightarrow> cval \<Rightarrow> string \<Rightarrow> cval option" where
  "step_ref c v ident =
     (case v of
        VContext \<Rightarrow> context_get c ident
      | VMap m \<Rightarrow> map_option VString (map_of m ident)
      | VString s \<Rightarrow> None
      | VBool b \<Rightarrow> None)"

fun eval_ref :: "template_context \<Rightarrow> cval \<Rightarrow> string list \<Rightarrow> cval option" where
  "eval_ref c v [] = Some v"
| "eval_ref c v (ident # rest) =
     (case step_ref c v ident of None \<Rightarrow> None | Some w \<Rightarrow> eval_ref c w rest)"

definition at_place :: "template_context \<Rightarrow> place \<Rightarrow> cval \<Rightarrow> bool" where
  "at_place c p v = (case p of
      AtContext \<Rightarrow> v = VContext
    | AtMap \<Rightarrow> v = VMap (tc_state c)
    | AtScalar k \<Rightarrow> k \<noteq> KMap \<and> (\<exists>s. v = VString s) \<or> (\<exists>b. v = VBool b))"

lemma context_tables:
  "map_of context_fields f = Some k \<Longrightarrow> \<exists>v. context_get c f = Some v \<and> at_place c (place_of k) v"
  "map_of context_fields f = None \<Longrightarrow> context_get c f = None"
  unfolding context_fields_def context_get_def
  by (auto simp: at_place_def place_of_def split: if_splits)

lemma check_from_eval:
  assumes "at_place c p v" and "fst ` set (tc_state c) = set keys"
  shows "check_from keys root p taken idents = None \<longleftrightarrow> eval_ref c v idents \<noteq> None"
  using assms
proof (induction keys root p taken idents arbitrary: v rule: check_from.induct)
  case (2 keys root taken ident rest)
  show ?case
  proof (cases "map_of context_fields ident")
    case None
    then show ?thesis using 2(2) context_tables(2) [of ident c] by (simp add: at_place_def step_ref_def)
  next
    case (Some k)
    then obtain w where "context_get c ident = Some w" "at_place c (place_of k) w"
      using context_tables(1) by blast
    then show ?thesis using 2 Some by (simp add: at_place_def [of c AtContext] step_ref_def)
  qed
next
  case (3 keys root taken ident rest)
  have v: "v = VMap (tc_state c)" using 3(2) by (simp add: at_place_def)
  show ?case
  proof (cases "map_of (tc_state c) ident")
    case None
    then have "ident \<notin> set keys" using 3(3) by (simp add: map_of_eq_None_iff)
    then show ?thesis using None v by (simp add: step_ref_def)
  next
    case (Some s)
    then have "ident \<in> set keys" using 3(3) by (metis domI dom_map_of_conv_image_fst)
    moreover have "at_place c (AtScalar KString) (VString s)" by (simp add: at_place_def)
    ultimately show ?thesis using Some v 3 by (simp add: step_ref_def)
  qed
next
  case (4 keys root k taken ident rest)
  then show ?case by (auto simp: at_place_def step_ref_def)
qed simp

lemma check_ref_eval:
  "fst ` set (tc_state c) = set keys \<Longrightarrow> check_ref keys root idents = None \<longleftrightarrow> eval_ref c VContext idents \<noteq> None"
  unfolding check_ref_def by (rule check_from_eval) (simp_all add: at_place_def)

section \<open>The references a walk judges\<close>

fun refs :: "bool \<Rightarrow> node \<Rightarrow> (string \<times> string list) list"
and refss :: "bool \<Rightarrow> node list \<Rightarrow> (string \<times> string list) list"
and refs_opt :: "bool \<Rightarrow> node option \<Rightarrow> (string \<times> string list) list" where
  "refs dot (ListNode ns) = refss dot ns"
| "refs dot (TextNode t) = []"
| "refs dot (ActionNode p) = refs dot p"
| "refs dot (PipeNode cmds) = refss dot cmds"
| "refs dot (CommandNode args) = refss dot args"
| "refs dot (FieldNode idents) = (if dot then [([], idents)] else [])"
| "refs dot (ChainNode n) = refs dot n"
| "refs dot (VariableNode idents) =
     (if idents \<noteq> [] \<and> hd idents = ''$'' \<and> tl idents \<noteq> [] then [(''$'', tl idents)] else [])"
| "refs dot (IfNode p b e) = refs dot p @ refs dot b @ refs_opt dot e"
| "refs dot (RangeNode p b e) = refs dot p @ refs False b @ refs_opt dot e"
| "refs dot (WithNode p b e) = refs dot p @ refs False b @ refs_opt dot e"
| "refs dot (TemplateNode p) = refs_opt dot p"
| "refs dot OtherNode = []"
| "refss dot [] = []"
| "refss dot (n # ns) = refs dot n @ refss dot ns"
| "refs_opt dot None = []"
| "refs_opt dot (Some n) = refs dot n"

definition judge :: "string list \<Rightarrow> (string \<times> string list) list \<Rightarrow> string list \<Rightarrow> string list" where
  "judge keys rs fs = fold (\<lambda>r fs. add_fault (check_ref keys (fst r) (snd r)) fs) rs fs"

lemma judge_append [simp]: "judge keys (rs @ ss) fs = judge keys ss (judge keys rs fs)"
  by (simp add: judge_def)

lemma judge_simps [simp]:
  "judge keys [] fs = fs"
  "judge keys [r] fs = add_fault (check_ref keys (fst r) (snd r)) fs"
  by (simp_all add: judge_def)

lemma walk_judges:
  "walk keys dot n fs = judge keys (refs dot n) fs"
  "walks keys dot ns fs = judge keys (refss dot ns) fs"
  "walk_opt keys dot e fs = judge keys (refs_opt dot e) fs"
  by (induction keys dot n fs and keys dot ns fs and keys dot e fs rule: walk_walks_walk_opt.induct)
    (auto split: list.splits)

lemma set_judge: "set (judge keys rs fs) = set fs \<union> {d. \<exists>(root, idents) \<in> set rs. check_ref keys root idents = Some d}"
proof (induction rs arbitrary: fs)
  case (Cons r rs)
  then show ?case by (auto simp: judge_def add_fault_def split: option.splits)
qed (simp add: judge_def)

lemma judge_Nil_iff:
  "judge keys rs fs = [] \<longleftrightarrow> fs = [] \<and> (\<forall>(root, idents) \<in> set rs. check_ref keys root idents = None)"
proof (induction rs arbitrary: fs)
  case (Cons r rs)
  have "judge keys (r # rs) fs = judge keys rs (add_fault (check_ref keys (fst r) (snd r)) fs)"
    by (simp add: judge_def)
  then show ?case
    using Cons.IH by (auto simp: add_fault_def append_new_def split: option.splits)
qed simp

lemma distinct_judge: "distinct fs \<Longrightarrow> distinct (judge keys rs fs)"
proof (induction rs arbitrary: fs)
  case (Cons r rs)
  then show ?case by (auto simp: judge_def add_fault_def split: option.splits)
qed (simp add: judge_def)

text \<open>C13: The template check is exact on the references it judges: it reports no fault exactly
  when every one of them evaluates in a context holding the Automation's own keys,
  so it never accuses a template whose references would all render and never
  passes one that reads a key the Automation does not match on. A fault is said
  once.\<close>

theorem check_template_exact:
  assumes "parse text = Inr (Some root)" and "text \<noteq> []" and "fst ` set (tc_state c) = set keys"
  shows "(check_template parse text keys = [] \<longleftrightarrow>
      list_all (\<lambda>(_, idents). eval_ref c VContext idents \<noteq> None) (refs True root)) \<and>
    distinct (check_template parse text keys)"
proof -
  have eq: "check_template parse text keys = judge keys (refs True root) []"
    using assms(1,2) by (simp add: check_template_def walk_judges)
  have "judge keys (refs True root) [] = [] \<longleftrightarrow> (\<forall>(r, idents) \<in> set (refs True root). check_ref keys r idents = None)"
    by (simp add: judge_Nil_iff)
  also have "\<dots> \<longleftrightarrow> list_all (\<lambda>(_, idents). eval_ref c VContext idents \<noteq> None) (refs True root)"
    by (auto simp: list_all_iff check_ref_eval [OF assms(3)])
  finally show ?thesis unfolding eq using distinct_judge [of "[]"] by simp
qed

theorem check_template_exact_witness:
  "(check_template (\<lambda>_. Inr (Some (ActionNode (PipeNode [CommandNode [FieldNode [''State'', ''isp'']]]))))
      ''x'' [''wan''] = [] \<longleftrightarrow> False) \<and>
   distinct (check_template (\<lambda>_. Inr (Some (ActionNode (PipeNode [CommandNode [FieldNode [''State'', ''isp'']]]))))
      ''x'' [''wan''])"
  using check_template_exact
    [of "\<lambda>_. Inr (Some (ActionNode (PipeNode [CommandNode [FieldNode [''State'', ''isp'']]])))" "''x''"
      "ActionNode (PipeNode [CommandNode [FieldNode [''State'', ''isp'']]])"
      "\<lparr>tc_automation = ''a/b'', tc_namespace = ''a'', tc_name = ''b'', tc_provider = ''unifi'', tc_matching = True,
        tc_key = [], tc_from = [], tc_to = [], tc_state = [(''wan'', ''up'')], tc_time = []\<rparr>" "[''wan'']"]
  by (simp add: step_ref_def context_get_def)

end
