(* ===== verification/Conditions.thy ===== *)
theory Conditions
  imports Arbitration Templates
begin

text \<open>
  What the reconciler says: the Events of \<open>internal/controller/events.go\<close>, the
  conditions and status fields of \<open>internal/controller/automation_controller.go\<close>,
  and the template report of \<open>internal/controller/templates.go\<close>. A function that
  writes the object in place in Go returns the written object here.
\<close>

section \<open>Reasons\<close>

definition condition_ready :: string where "condition_ready = ''Ready''"
definition condition_applied :: string where "condition_applied = ''Applied''"

definition reason_trigger_removed :: string where "reason_trigger_removed = ''EventTriggerRemoved''"
definition reason_suspended :: string where "reason_suspended = ''Suspended''"
definition reason_action_failed :: string where "reason_action_failed = ''ActionFailed''"
definition reason_state_entered :: string where "reason_state_entered = ''StateEntered''"
definition reason_state_exited :: string where "reason_state_exited = ''StateExited''"
definition reason_target_held :: string where "reason_target_held = ''TargetHeld''"
definition reason_target_released :: string where "reason_target_released = ''TargetReleased''"
definition reason_deferred :: string where "reason_deferred = ''DeferredToOtherAutomation''"
definition reason_reversal_disagreement :: string where "reason_reversal_disagreement = ''ReversalDisagreement''"
definition reason_state_key_unavailable :: string where "reason_state_key_unavailable = ''StateKeyUnavailable''"
definition reason_observation_stale :: string where "reason_observation_stale = ''ObservationStale''"
definition reason_retry_budget_exhausted :: string where "reason_retry_budget_exhausted = ''RetryBudgetExhausted''"
definition reason_release_failed :: string where "reason_release_failed = ''ReleaseFailed''"
definition reason_dry_run :: string where "reason_dry_run = ''DryRun''"
definition reason_template_will_not_render :: string where "reason_template_will_not_render = ''TemplateWillNotRender''"
definition reason_target_managed_by_hpa :: string where "reason_target_managed_by_hpa = ''TargetManagedByHPA''"

definition action_evaluate :: string where "action_evaluate = ''Evaluate''"
definition action_execute :: string where "action_execute = ''Execute''"
definition action_release :: string where "action_release = ''Release''"
definition action_edge :: string where "action_edge = ''EdgeAction''"
definition action_reconcile :: string where "action_reconcile = ''Reconcile''"

definition event_normal :: string where "event_normal = ''Normal''"
definition event_warning :: string where "event_warning = ''Warning''"
definition cond_true :: string where "cond_true = ''True''"
definition cond_false :: string where "cond_false = ''False''"

section \<open>Events and conditions\<close>

definition update_st :: "(automation_status \<Rightarrow> automation_status) \<Rightarrow> automation \<Rightarrow> automation" where
  "update_st f a = a\<lparr>am_status := f (am_status a)\<rparr>"

definition event :: "reconciler \<Rightarrow> automation \<Rightarrow> string \<Rightarrow> string \<Rightarrow> string \<Rightarrow> string \<Rightarrow> ('q, unit) prog" where
  "event rc a type reason act note =
     (if \<not> rc_recorder rc then Ret ()
      else KEvent \<lparr>ev_namespace = am_namespace a, ev_name = am_name a, ev_type = type, ev_reason = reason,
                   ev_action = act, ev_note = note\<rparr> (Ret ()))"

definition find_condition :: "condition list \<Rightarrow> string \<Rightarrow> condition option" where
  "find_condition cs t = find (\<lambda>c. cd_type c = t) cs"

definition event_on_new_reason ::
  "reconciler \<Rightarrow> automation \<Rightarrow> string \<Rightarrow> string \<Rightarrow> string \<Rightarrow> string \<Rightarrow> string \<Rightarrow> ('q, unit) prog" where
  "event_on_new_reason rc a ctype type reason act note =
     (case find_condition (au_conditions (am_status a)) ctype of
        Some c \<Rightarrow> if cd_reason c = reason then Ret () else event rc a type reason act note
      | None \<Rightarrow> event rc a type reason act note)"

text \<open>
  \<open>setCondition\<close>: the first condition of the type is replaced when the report
  changed, and appended when there is none. The clock is read only then.
\<close>

fun place_condition :: "condition \<Rightarrow> condition list \<Rightarrow> condition list" where
  "place_condition m [] = [m]"
| "place_condition m (c # cs) = (if cd_type c = cd_type m then m # cs else c # place_condition m cs)"

definition set_condition ::
  "automation \<Rightarrow> string \<Rightarrow> string \<Rightarrow> string \<Rightarrow> string \<Rightarrow> ('q, automation) prog" where
  "set_condition a ctype status reason message =
     (let write = KNow (\<lambda>now. Ret (update_st (\<lambda>s. s\<lparr>au_conditions := place_condition
            \<lparr>cd_type = ctype, cd_status = status, cd_reason = reason, cd_message = message,
             cd_observed_generation = am_generation a, cd_last_transition = now\<rparr> (au_conditions s)\<rparr>) a))
      in case find_condition (au_conditions (am_status a)) ctype of
           None \<Rightarrow> write
         | Some c \<Rightarrow> if cd_status c \<noteq> status \<or> cd_reason c \<noteq> reason \<or> cd_message c \<noteq> message
                    then write else Ret a)"

definition update_status :: "automation \<Rightarrow> ('q, kerr + automation) prog" where
  "update_status a = KUpdateStatus a Ret"

section \<open>Templates\<close>

definition max_faults_reported :: nat where "max_faults_reported = 5"

definition type_http_request :: string where "type_http_request = ''http.request''"
definition type_ntfy :: string where "type_ntfy = ''notification.ntfy''"
definition type_discord :: string where "type_discord = ''notification.discord''"
definition type_slack :: string where "type_slack = ''notification.slack''"
definition type_home_assistant :: string where "type_home_assistant = ''homeassistant.service''"
definition type_qbittorrent_pause :: string where "type_qbittorrent_pause = ''qbittorrent.pause''"
definition type_qbittorrent_resume :: string where "type_qbittorrent_resume = ''qbittorrent.resume''"

definition console_types :: "string list" where
  "console_types = [''unifi.wlan.enable'', ''unifi.wlan.disable'', ''unifi.poe.cycle'',
     ''unifi.outlet.cut'', ''unifi.outlet.restore'']"

definition is_console :: "string \<Rightarrow> bool" where
  "is_console t = (t \<in> set console_types)"

definition outbound_types :: "string list" where
  "outbound_types = [type_http_request, type_ntfy, type_discord, type_slack, type_home_assistant,
     type_qbittorrent_pause, type_qbittorrent_resume]"

definition is_outbound :: "string \<Rightarrow> bool" where
  "is_outbound t = (t \<in> set outbound_types)"

definition templates_at :: "string \<Rightarrow> nat \<Rightarrow> action \<Rightarrow> (string \<times> string) list" where
  "templates_at block i x =
     (let at = ''spec.'' @ block @ ''['' @ int_dec (int i) @ '']'' in
      if ac_type x = type_http_request then
        (case ac_request x of None \<Rightarrow> [] | Some r \<Rightarrow> [(at @ ''.request.body'', hr_body r)])
      else if ac_type x = type_home_assistant then
        (case ac_home_assistant x of None \<Rightarrow> [] | Some h \<Rightarrow> [(at @ ''.homeAssistant.data'', ha_data h)])
      else if ac_type x = type_qbittorrent_pause \<or> ac_type x = type_qbittorrent_resume then []
      else if is_desired_state (ac_type x) \<or> is_console (ac_type x) then []
      else (case ac_notification x of
              None \<Rightarrow> []
            | Some n \<Rightarrow> [(at @ ''.notification.title'', nt_title n), (at @ ''.notification.message'', nt_message n)]))"

fun collect_templates :: "string \<Rightarrow> nat \<Rightarrow> action list \<Rightarrow> (string \<times> string) list" where
  "collect_templates block i [] = []"
| "collect_templates block i (x # xs) = templates_at block i x @ collect_templates block (Suc i) xs"

definition templates_of :: "automation \<Rightarrow> (string \<times> string) list" where
  "templates_of a = collect_templates ''actions'' 0 (sp_actions (am_spec a)) @
                    collect_templates ''onExit'' 0 (sp_on_exit (am_spec a))"

definition template_faults :: "template_parser \<Rightarrow> automation \<Rightarrow> string list" where
  "template_faults parse a =
     (case sp_when (am_spec a) of
        None \<Rightarrow> []
      | Some w \<Rightarrow>
          (let keys = sort (map fst (st_state w))
           in concat (map (\<lambda>(path, text). map (\<lambda>fault. path @ '' '' @ fault) (check_template parse text keys))
                          (templates_of a))))"

definition faults_message :: "string list \<Rightarrow> string" where
  "faults_message faults = join ''; ''
     (if length faults > max_faults_reported
      then take max_faults_reported faults @
           [''and '' @ int_dec (int (length faults - max_faults_reported)) @ '' more like it'']
      else faults)"

definition report_broken_templates :: "reconciler \<Rightarrow> automation \<Rightarrow> string list \<Rightarrow> ('q, bool \<times> automation) prog" where
  "report_broken_templates rc a faults =
     (if length faults = 0 then Ret (False, a)
      else bind (event_on_new_reason rc a condition_ready event_warning reason_template_will_not_render
                   action_evaluate (''a template on this automation can never render, so the action holding it would fail ''
                     @ ''at send time rather than here: '' @ faults_message faults)) (\<lambda>_.
           bind (set_condition a condition_ready cond_false reason_template_will_not_render
                   (faults_message faults)) (\<lambda>a'. Ret (True, a'))))"

section \<open>Transitions, previews and disagreements\<close>

definition provider_of :: "automation \<Rightarrow> string" where
  "provider_of a = (case sp_when (am_spec a) of None \<Rightarrow> [] | Some w \<Rightarrow> st_provider w)"

definition report_transition :: "reconciler \<Rightarrow> automation \<Rightarrow> bool \<Rightarrow> bool \<Rightarrow> ('q, unit) prog" where
  "report_transition rc a transitioned matching =
     (if \<not> transitioned then Ret ()
      else (let reason = (if matching then reason_state_entered else reason_state_exited);
                verb = (if matching then ''started holding'' else ''stopped holding'');
                unnamed = event rc a event_normal reason action_evaluate
                   (''the condition '' @ verb @ '' against observed '' @ provider_of a @ '' state'')
            in case au_last_transition (am_status a) of
                 None \<Rightarrow> unnamed
               | Some t \<Rightarrow>
                   if sx_key t = [] then unnamed
                   else event rc a event_normal reason action_evaluate
                     (sx_key t @ '' moved from '' @ quoted (sx_from t) @ '' to '' @ quoted (sx_to t)
                      @ '', so the condition '' @ verb)))"

text \<open>
  \<open>transitionFor\<close>: the first key of the trigger, in the order the map is ranged
  over, whose observed value differs from the one recorded in status.
\<close>

fun changed_key :: "gomap \<Rightarrow> gomap \<Rightarrow> (string \<times> string) list \<Rightarrow> (string \<times> string \<times> string) option" where
  "changed_key recorded current [] = None"
| "changed_key recorded current ((key, want) # rest) =
     (if gm_get recorded key \<noteq> gm_get current key
      then Some (key, gm_get recorded key, gm_get current key)
      else changed_key recorded current rest)"

definition transition_for :: "automation \<Rightarrow> gomap \<Rightarrow> ('q, state_transition option) prog" where
  "transition_for a current =
     (case changed_key (au_observed_state (am_status a)) current
             (case sp_when (am_spec a) of None \<Rightarrow> [] | Some w \<Rightarrow> st_state w) of
        None \<Rightarrow> Ret (au_last_transition (am_status a))
      | Some (key, prev, cur) \<Rightarrow> KNow (\<lambda>now. Ret (Some
          \<lparr>sx_key = key, sx_from = prev, sx_to = cur, sx_time = now\<rparr>)))"

fun preview_parts :: "target_outcome list \<Rightarrow> string list" where
  "preview_parts [] = []"
| "preview_parts (oc # ocs) =
     (case oc_preview oc of
        None \<Rightarrow> preview_parts ocs
      | Some pv \<Rightarrow>
          if pv_effective pv = None then preview_parts ocs
          else (if pv_deferred_by pv \<noteq> []
                then ''leave '' @ oc_ref oc @ '' at '' @ pv_level pv @ '', outvoted by '' @ join '', '' (pv_deferred_by pv)
                else ''hold '' @ oc_ref oc @ '' at '' @ pv_level pv @
                     (if pv_would_defer pv \<noteq> [] then '', outvoting '' @ join '', '' (pv_would_defer pv) else []))
               # preview_parts ocs)"

definition describe_previews :: "target_outcome list \<Rightarrow> string" where
  "describe_previews ocs =
     (if preview_parts ocs = [] then ''change nothing: it claims no target''
      else join ''; '' (preview_parts ocs))"

definition report_preview :: "reconciler \<Rightarrow> automation \<Rightarrow> target_outcome list \<Rightarrow> ('q, unit) prog" where
  "report_preview rc a ocs =
     (if \<not> sp_dry_run (am_spec a) then Ret ()
      else event rc a event_normal reason_dry_run action_execute
             (''dry run: nothing was written. In force, this automation would '' @ describe_previews ocs))"

definition describe_managed :: "target_outcome list \<Rightarrow> string" where
  "describe_managed ocs = join ''; ''
     (map (\<lambda>oc. oc_ref oc @ '' is driven by '' @ oc_managed_by oc) (filter (\<lambda>oc. oc_managed_by oc \<noteq> []) ocs))"

definition describe_disagreement :: "reversal_intent list \<Rightarrow> string" where
  "describe_disagreement is = join '', '' (map (\<lambda>i. ri_claimant i @ '' wants '' @ ri_level i) is)"

fun most_restrictive_from :: "reversal_intent \<Rightarrow> reversal_intent list \<Rightarrow> reversal_intent" where
  "most_restrictive_from w [] = w"
| "most_restrictive_from w (i # is) = most_restrictive_from (if ri_desired i < ri_desired w then i else w) is"

text \<open>\<open>intents[0]\<close> of an empty list panics; the caller skips empty disagreements.\<close>

definition most_restrictive :: "reversal_intent list \<Rightarrow> string option" where
  "most_restrictive is = (case is of [] \<Rightarrow> None | i # rest \<Rightarrow> Some (ri_level (most_restrictive_from i rest)))"

definition reported_disagreement :: "automation \<Rightarrow> string \<Rightarrow> reversal_intent list" where
  "reported_disagreement a ref =
     (case find (\<lambda>t. ts_ref t = ref) (au_targets (am_status a)) of
        None \<Rightarrow> [] | Some t \<Rightarrow> ts_reversal_disagreement t)"

fun report_disagreements :: "reconciler \<Rightarrow> automation \<Rightarrow> target_outcome list \<Rightarrow> ('q, unit) prog" where
  "report_disagreements rc a [] = Ret ()"
| "report_disagreements rc a (oc # ocs) =
     (case most_restrictive (oc_disagreement oc) of
        None \<Rightarrow> report_disagreements rc a ocs
      | Some level \<Rightarrow>
          if reported_disagreement a (oc_ref oc) = oc_disagreement oc
          then report_disagreements rc a ocs
          else bind (event rc a event_warning reason_reversal_disagreement action_execute
                 (oc_ref oc @ '': '' @ describe_disagreement (oc_disagreement oc)
                  @ ''. They cannot both be its normal level '' @ em_dash @ '' Reactor takes the most restrictive, '' @ level
                  @ '', and changing one of the specs is the only thing that resolves it''))
               (\<lambda>_. report_disagreements rc a ocs))"

fun report_writes :: "reconciler \<Rightarrow> automation \<Rightarrow> target_outcome list \<Rightarrow> ('q, unit) prog" where
  "report_writes rc a [] = Ret ()"
| "report_writes rc a (oc # ocs) =
     (if \<not> oc_changed oc then report_writes rc a ocs
      else bind (if oc_managed_by oc \<noteq> []
                 then event rc a event_warning reason_target_managed_by_hpa action_release
                   (oc_ref oc @ '' is now driven by '' @ oc_managed_by oc @ ''; handed it back at ''
                    @ oc_level oc @ '' and stopped claiming it'')
                 else if oc_effective oc = None
                 then event rc a event_normal reason_target_released action_release
                   (oc_ref oc @ '' released; no automation claims it any more'')
                 else event rc a event_normal reason_target_held action_execute
                   (oc_ref oc @ '' held at '' @ oc_level oc))
            (\<lambda>_. report_writes rc a ocs))"

definition events_for_targets :: "reconciler \<Rightarrow> automation \<Rightarrow> target_outcome list \<Rightarrow> ('q, unit) prog" where
  "events_for_targets rc a ocs = bind (report_disagreements rc a ocs) (\<lambda>_. report_writes rc a ocs)"

section \<open>Status\<close>

definition target_statuses :: "target_outcome list \<Rightarrow> target_status list" where
  "target_statuses ocs = map (\<lambda>oc. \<lparr>ts_ref = oc_ref oc, ts_desired = oc_desired oc,
     ts_effective = oc_effective oc, ts_level = oc_level oc, ts_deferred_by = oc_deferred_by oc,
     ts_preview = oc_preview oc, ts_reversal_disagreement = oc_disagreement oc,
     ts_managed_by = oc_managed_by oc\<rparr>) ocs"

definition observed_at_of :: "evaluation \<Rightarrow> instant option" where
  "observed_at_of e = (if as_observed_at e = zero_time then None else Some (as_observed_at e))"

definition report_unobserved_provider :: "reconciler \<Rightarrow> automation \<Rightarrow> string list \<Rightarrow> ('q, automation) prog" where
  "report_unobserved_provider rc a faults =
     bind (report_broken_templates rc a faults) (\<lambda>(broken, a).
       if broken then Ret a
       else set_condition a condition_ready cond_false ''ProviderStateUnavailable''
              (''no state observed yet for provider '' @ quoted (provider_of a)))"

definition report_missing_state_keys ::
  "reconciler \<Rightarrow> automation \<Rightarrow> evaluation \<Rightarrow> string list \<Rightarrow> ('q, automation) prog" where
  "report_missing_state_keys rc a e faults =
     bind (report_broken_templates rc a faults) (\<lambda>(broken, a).
       if broken then Ret a
       else bind (event_on_new_reason rc a condition_ready event_warning reason_state_key_unavailable action_evaluate
              (''provider '' @ quoted (provider_of a) @ '' stopped reporting '' @ join '', '' (as_missing e)
               @ ''; holding the last known state rather than treating lost sight of it as the condition ending''))
            (\<lambda>_. set_condition a condition_ready cond_false reason_state_key_unavailable
              (''provider '' @ quoted (provider_of a) @ '' is not reporting '' @ join '', '' (as_missing e)
               @ ''; holding last known state'')))"

definition stale_message :: "automation \<Rightarrow> evaluation \<Rightarrow> string" where
  "stale_message a e = ''provider '' @ quoted (provider_of a) @ '' has not been observed since ''
     @ rfc3339 (fr_observed_at (as_freshness e)) @ '', past the '' @ dur_string (fr_bound (as_freshness e))
     @ '' this install allows; still acting on the state it last reported''"

definition set_ready_condition ::
  "reconciler \<Rightarrow> automation \<Rightarrow> evaluation \<Rightarrow> string list \<Rightarrow> ('q, automation) prog" where
  "set_ready_condition rc a e faults =
     bind (report_broken_templates rc a faults) (\<lambda>(broken, a).
       if broken then Ret a
       else if \<not> fr_stale (as_freshness e)
       then set_condition a condition_ready cond_true ''Reconciled'' ''automation evaluated against observed state''
       else bind (event_on_new_reason rc a condition_ready event_warning reason_observation_stale action_evaluate
                    (stale_message a e))
            (\<lambda>_. set_condition a condition_ready cond_false reason_observation_stale (stale_message a e)))"

definition deferred_notes :: "target_outcome list \<Rightarrow> string list" where
  "deferred_notes ocs = map (\<lambda>oc. oc_ref oc @ '' held by '' @ join '', '' (oc_deferred_by oc))
     (filter (\<lambda>oc. length (oc_deferred_by oc) > 0) ocs)"

definition set_applied_condition :: "reconciler \<Rightarrow> automation \<Rightarrow> target_outcome list \<Rightarrow> ('q, automation) prog" where
  "set_applied_condition rc a ocs =
     (if length ocs = 0
      then set_condition a condition_applied cond_true ''NoTargets''
             ''this automation only has edge actions, so it holds no target''
      else if rc_dry_run rc
      then bind (event_on_new_reason rc a condition_applied event_normal reason_dry_run action_execute
                   ''this install runs as a dry run: every target was arbitrated and nothing was written'')
           (\<lambda>_. set_condition a condition_applied cond_false reason_dry_run
                   (''this install runs as a dry run: status.targets[].effective is what each target would be ''
                    @ ''held at, and nothing was written''))
      else if describe_managed ocs \<noteq> []
      then bind (event_on_new_reason rc a condition_applied event_warning reason_target_managed_by_hpa action_execute
                   (''not claiming '' @ describe_managed ocs @ '': arbitration cannot resolve a claimant it cannot see, ''
                    @ ''and writing anyway would oscillate rather than win''))
           (\<lambda>_. set_condition a condition_applied cond_false reason_target_managed_by_hpa (describe_managed ocs))
      else if deferred_notes ocs \<noteq> []
      then bind (event_on_new_reason rc a condition_applied event_normal reason_deferred action_execute
                   (''a more restrictive claim is in effect: '' @ join ''; '' (deferred_notes ocs)))
           (\<lambda>_. set_condition a condition_applied cond_false reason_deferred (join ''; '' (deferred_notes ocs)))
      else set_condition a condition_applied cond_true ''InEffect''
             ''target state matches what this automation wants'')"

definition set_out_of_force_conditions :: "reconciler \<Rightarrow> automation \<Rightarrow> string list \<Rightarrow> ('q, automation) prog" where
  "set_out_of_force_conditions rc a faults =
     bind (report_broken_templates rc a faults) (\<lambda>(broken, a).
       if sp_dry_run (am_spec a)
       then bind (if broken then Ret a
                  else set_condition a condition_ready cond_true reason_dry_run
                         ''spec.dryRun is true: state is observed and evaluated, and nothing is written'')
            (\<lambda>a. set_condition a condition_applied cond_false reason_dry_run
              ''a dry run claims no target; status.targets[].preview reports what this would do in force'')
       else bind (if broken then Ret a
                  else set_condition a condition_ready cond_true reason_suspended
                         ''spec.suspend is true: state is still observed, and no target is claimed'')
            (\<lambda>a. set_condition a condition_applied cond_false reason_suspended
              ''suspended, so this automation's targets are arbitrated as if it did not exist''))"

end
