(* ===== verification/Utf8.thy ===== *)
theory Utf8
  imports GoText
begin

text \<open>
  Strings as runes: the decoding of \<open>range\<close> over a string and of \<open>[]rune(s)\<close>, where
  a byte that starts no valid sequence is the replacement character with width one,
  the encoding of \<open>string(runes)\<close>, and the two library encoders the payloads use,
  \<open>encoding/json\<close> of a string and \<open>url.Values.Encode\<close>.
\<close>

section \<open>Decoding\<close>

definition rune_error :: nat where "rune_error = 0xFFFD"

definition in_range :: "nat \<Rightarrow> nat \<Rightarrow> char \<Rightarrow> bool" where
  "in_range lo hi c = (lo \<le> of_char c \<and> of_char c \<le> hi)"

definition low6 :: "char \<Rightarrow> nat" where
  "low6 c = of_char c - 0x80"

text \<open>The bounds of the second byte: they exclude overlong forms, surrogates and what is past the last plane.\<close>

definition second_lo :: "nat \<Rightarrow> nat" where
  "second_lo b = (if b = 0xE0 then 0xA0 else if b = 0xF0 then 0x90 else 0x80)"

definition second_hi :: "nat \<Rightarrow> nat" where
  "second_hi b = (if b = 0xED then 0x9F else if b = 0xF4 then 0x8F else 0xBF)"

definition next_rune :: "char \<Rightarrow> string \<Rightarrow> nat \<times> nat" where
  "next_rune c rest =
     (let b = (of_char c :: nat) in
      if b < 0x80 then (b, 1)
      else if 0xC2 \<le> b \<and> b \<le> 0xDF
      then (case rest of
              c1 # _ \<Rightarrow> if in_range 0x80 0xBF c1 then ((b - 0xC0) * 64 + low6 c1, 2) else (rune_error, 1)
            | _ \<Rightarrow> (rune_error, 1))
      else if 0xE0 \<le> b \<and> b \<le> 0xEF
      then (case rest of
              c1 # c2 # _ \<Rightarrow>
                if in_range (second_lo b) (second_hi b) c1 \<and> in_range 0x80 0xBF c2
                then (((b - 0xE0) * 64 + low6 c1) * 64 + low6 c2, 3) else (rune_error, 1)
            | _ \<Rightarrow> (rune_error, 1))
      else if 0xF0 \<le> b \<and> b \<le> 0xF4
      then (case rest of
              c1 # c2 # c3 # _ \<Rightarrow>
                if in_range (second_lo b) (second_hi b) c1 \<and> in_range 0x80 0xBF c2 \<and> in_range 0x80 0xBF c3
                then ((((b - 0xF0) * 64 + low6 c1) * 64 + low6 c2) * 64 + low6 c3, 4) else (rune_error, 1)
            | _ \<Rightarrow> (rune_error, 1))
      else (rune_error, 1))"

text \<open>The runes of a string, each with the bytes it was read from.\<close>

function rune_chunks :: "string \<Rightarrow> (nat \<times> string) list" where
  "rune_chunks [] = []"
| "rune_chunks (c # cs) =
     (let (r, w) = next_rune c cs in (r, take w (c # cs)) # rune_chunks (drop (w - 1) cs))"
  by pat_completeness auto
termination by (relation "measure length") auto

definition runes :: "string \<Rightarrow> nat list" where
  "runes s = map fst (rune_chunks s)"

section \<open>Encoding\<close>

definition encode_rune :: "nat \<Rightarrow> string" where
  "encode_rune r =
     (if r < 0x80 then [char_of r]
      else if r < 0x800 then [char_of (0xC0 + r div 64), char_of (0x80 + r mod 64)]
      else if r < 0x10000
      then [char_of (0xE0 + r div 4096), char_of (0x80 + r div 64 mod 64), char_of (0x80 + r mod 64)]
      else [char_of (0xF0 + r div 262144), char_of (0x80 + r div 4096 mod 64),
            char_of (0x80 + r div 64 mod 64), char_of (0x80 + r mod 64)])"

definition string_of_runes :: "nat list \<Rightarrow> string" where
  "string_of_runes rs = concat (map encode_rune rs)"

section \<open>Library encoders\<close>

definition hex_upper :: "nat \<Rightarrow> char" where
  "hex_upper d = (if d < 10 then char_of (48 + d) else char_of (55 + d))"

text \<open>\<open>encoding/json\<close> of a string, HTML escaping on.\<close>

definition json_escape :: "nat \<Rightarrow> string \<Rightarrow> string" where
  "json_escape r raw =
     (if r = 0x22 then [CHR 0x5C, CHR 0x22]
      else if r = 0x5C then [CHR 0x5C, CHR 0x5C]
      else if r = 8 then [CHR 0x5C, CHR ''b'']
      else if r = 12 then [CHR 0x5C, CHR ''f'']
      else if r = 10 then [CHR 0x5C, CHR ''n'']
      else if r = 13 then [CHR 0x5C, CHR ''r'']
      else if r = 9 then [CHR 0x5C, CHR ''t'']
      else if r < 0x20 \<or> r = 0x3C \<or> r = 0x3E \<or> r = 0x26
      then [CHR 0x5C, CHR ''u'', CHR ''0'', CHR ''0'', hex_char (r div 16), hex_char (r mod 16)]
      else if r = rune_error \<and> length raw = 1 then CHR 0x5C # ''ufffd''
      else if r = 0x2028 then CHR 0x5C # ''u2028''
      else if r = 0x2029 then CHR 0x5C # ''u2029''
      else raw)"

definition json_string :: "string \<Rightarrow> string" where
  "json_string s = [CHR 0x22] @ concat (map (\<lambda>(r, raw). json_escape r raw) (rune_chunks s)) @ [CHR 0x22]"

text \<open>\<open>url.QueryEscape\<close>.\<close>

definition query_safe :: "char \<Rightarrow> bool" where
  "query_safe c = (let n = (of_char c :: nat) in
     (48 \<le> n \<and> n \<le> 57) \<or> (65 \<le> n \<and> n \<le> 90) \<or> (97 \<le> n \<and> n \<le> 122) \<or> c \<in> set ''-_.~'')"

definition query_escape_char :: "char \<Rightarrow> string" where
  "query_escape_char c =
     (if query_safe c then [c]
      else if c = CHR '' '' then ''+''
      else (let n = of_char c in [CHR ''%'', hex_upper (n div 16), hex_upper (n mod 16)]))"

definition query_escape :: "string \<Rightarrow> string" where
  "query_escape s = concat (map query_escape_char s)"

end
