(* ===== verification/Payloads.thy ===== *)
theory Payloads
  imports Destination Conditions Utf8
begin

text \<open>
  What an outbound action sends: \<open>credentials.go\<close>, \<open>notify.go\<close>, \<open>homeassistant.go\<close>,
  \<open>qbittorrent.go\<close> and \<open>template.go\<close> of \<open>internal/actions\<close>. A header is a map from
  canonical names to single values, which is all the code ever stores.
\<close>

section \<open>Headers\<close>

definition header_name_chars :: string where
  "header_name_chars =
     ''abcdefghijklmnopqrstuvwxyzABCDEFGHIJKLMNOPQRSTUVWXYZ0123456789!#$%&'*+-.^_`|~''"

text \<open>
  \<open>http.CanonicalHeaderKey\<close>: upper case at the start and after a hyphen, lower case
  elsewhere; a name with a byte no header name may hold is left as it is.
\<close>

fun canonical_from :: "bool \<Rightarrow> string \<Rightarrow> string" where
  "canonical_from up [] = []"
| "canonical_from up (c # cs) =
     (if up then upper_char c else lower_char c) # canonical_from (c = CHR ''-'') cs"

definition canonical_header_key :: "string \<Rightarrow> string" where
  "canonical_header_key s =
     (if list_all (\<lambda>c. c \<in> set header_name_chars) s then canonical_from True s else s)"

definition header_set :: "gomap \<Rightarrow> string \<Rightarrow> string \<Rightarrow> gomap" where
  "header_set h name value = gm_set (canonical_header_key name) value h"

definition header_get :: "gomap \<Rightarrow> string \<Rightarrow> string" where
  "header_get h name = gm_get h (canonical_header_key name)"

text \<open>\<open>maps.Copy(dst, src)\<close>\<close>

definition header_copy :: "gomap \<Rightarrow> gomap \<Rightarrow> gomap" where
  "header_copy dst src = fold (\<lambda>(k, v) h. gm_set k v h) src dst"

section \<open>Credentials\<close>

definition secret_key_url :: string where "secret_key_url = ''url''"
definition secret_key_authorization :: string where "secret_key_authorization = ''authorization''"
definition secret_key_header_prefix :: string where "secret_key_header_prefix = ''header-''"
definition secret_key_username :: string where "secret_key_username = ''username''"
definition secret_key_password :: string where "secret_key_password = ''password''"

record credentials =
  cr_url :: string
  cr_header :: gomap
  cr_username :: string
  cr_password :: string

definition no_credentials :: credentials where
  "no_credentials = \<lparr>cr_url = [], cr_header = [], cr_username = [], cr_password = []\<rparr>"

definition usable_header_value :: "string \<Rightarrow> string \<Rightarrow> string \<Rightarrow> string option" where
  "usable_header_value secret key value =
     (if value = [] then Some (''secret '' @ quoted secret @ '' key '' @ quoted key @ '' is empty'')
      else if list_ex (\<lambda>c. c \<in> set [CHR 0x0D, CHR 0x0A, CHR 0x00]) value
      then Some (''secret '' @ quoted secret @ '' key '' @ quoted key
                 @ '' contains a line break and cannot be sent as a header'')
      else None)"

definition take_secret_key :: "string \<Rightarrow> gomap \<Rightarrow> string \<Rightarrow> credentials \<Rightarrow> string + credentials" where
  "take_secret_key secret data key c =
     (let value = trim_space (gm_get data key) in
      if key = secret_key_url then Inr (c\<lparr>cr_url := value\<rparr>)
      else if key = secret_key_username then Inr (c\<lparr>cr_username := value\<rparr>)
      else if key = secret_key_password then Inr (c\<lparr>cr_password := value\<rparr>)
      else if key = secret_key_authorization
      then (case usable_header_value secret key value of
              Some e \<Rightarrow> Inl e
            | None \<Rightarrow> Inr (c\<lparr>cr_header := header_set (cr_header c) ''Authorization'' value\<rparr>))
      else (case cut_prefix key secret_key_header_prefix of
              None \<Rightarrow> Inr c
            | Some name \<Rightarrow>
                if name = [] \<or> \<not> list_all (\<lambda>c. c \<in> set header_name_chars) name
                then Inl (''secret '' @ quoted secret @ '' key '' @ quoted key @ '' does not name a usable header'')
                else (case usable_header_value secret key value of
                        Some e \<Rightarrow> Inl e
                      | None \<Rightarrow> Inr (c\<lparr>cr_header := header_set (cr_header c) name value\<rparr>))))"

fun take_secret_keys :: "string \<Rightarrow> gomap \<Rightarrow> string list \<Rightarrow> credentials \<Rightarrow> string + credentials" where
  "take_secret_keys secret data [] c = Inr c"
| "take_secret_keys secret data (key # keys) c =
     bindE (take_secret_key secret data key c) (take_secret_keys secret data keys)"

definition credentials_from :: "string \<Rightarrow> gomap \<Rightarrow> string + credentials" where
  "credentials_from secret data = take_secret_keys secret data (sort (map fst data)) no_credentials"

section \<open>Rendering\<close>

definition max_rendered :: nat where "max_rendered = 8192"

text \<open>
  \<open>Render\<close>: the executor of \<open>text/template\<close> is a parameter, a sequence of writes and
  the error it ended with, if any. A write that would pass the bound is refused,
  and the execution stops with that refusal.
\<close>

type_synonym template_executor = "node option \<Rightarrow> template_context \<Rightarrow> string list \<times> string option"

fun bounded_write :: "nat \<Rightarrow> string list \<Rightarrow> string \<Rightarrow> string option" where
  "bounded_write limit [] out = Some out"
| "bounded_write limit (p # ps) out =
     (if length out + length p > limit then None else bounded_write limit ps (out @ p))"

definition render :: "template_parser \<Rightarrow> template_executor \<Rightarrow> string \<Rightarrow> template_context \<Rightarrow> string + string" where
  "render parse execute text data =
     (if text = [] then Inr []
      else case parse text of
             Inl e \<Rightarrow> Inl (''parsing template: '' @ e)
           | Inr tree \<Rightarrow>
               (let (chunks, err) = execute tree data in
                case bounded_write max_rendered chunks [] of
                  None \<Rightarrow> Inl (''template rendered more than '' @ int_dec (int max_rendered) @ '' bytes'')
                | Some out \<Rightarrow> (case err of Some e \<Rightarrow> Inl (''rendering template: '' @ e) | None \<Rightarrow> Inr out)))"

section \<open>Requests\<close>

datatype request = Request
  (rq_method: string) (rq_url: string) (rq_header: gomap) (rq_body: string)
  (rq_retryable: bool) (rq_timeout: duration) (rq_session: "session option")
and session = Session (se_login: request) (se_cookie: string) (se_logout: request)

record payload =
  pl_body :: string
  pl_header :: gomap

definition header_content_type :: string where "header_content_type = ''Content-Type''"
definition content_type_json :: string where "content_type_json = ''application/json''"
definition content_type_text :: string where "content_type_text = ''text/plain; charset=utf-8''"
definition content_type_form :: string where "content_type_form = ''application/x-www-form-urlencoded''"
definition max_notification_body :: nat where "max_notification_body = 1900"
definition max_title_header :: nat where "max_title_header = 200"

section \<open>Notifications\<close>

definition compose :: "string \<Rightarrow> string \<Rightarrow> string" where
  "compose title message = (if title = [] then message else title @ [CHR 0x0A] @ message)"

function clip_runes :: "nat list \<Rightarrow> nat \<Rightarrow> nat list" where
  "clip_runes rs limit =
     (if length (string_of_runes rs) > limit then clip_runes (butlast rs) limit else rs)"
  by pat_completeness auto
termination
proof (relation "measure (\<lambda>(rs, limit). length rs)")
  fix rs :: "nat list" and limit :: nat
  assume "limit < length (string_of_runes rs)"
  then have "rs \<noteq> []" by (auto simp: string_of_runes_def)
  then show "((butlast rs, limit), (rs, limit)) \<in> measure (\<lambda>(rs, limit). length rs)" by simp
qed simp

declare clip_runes.simps [simp del]

definition clip :: "string \<Rightarrow> nat \<Rightarrow> string" where
  "clip s limit = (if length s \<le> limit then s else string_of_runes (clip_runes (runes s) limit))"

fun header_safe_from :: "nat list \<Rightarrow> string \<Rightarrow> string" where
  "header_safe_from [] out = out"
| "header_safe_from (r # rs) out =
     (if r > 0x7F \<or> \<not> (0x20 \<le> r \<and> r \<le> 0x7E) then header_safe_from rs out
      else if length (out @ encode_rune r) \<ge> max_title_header then out @ encode_rune r
      else header_safe_from rs (out @ encode_rune r))"

definition header_safe :: "string \<Rightarrow> string" where
  "header_safe value = trim_space (header_safe_from (runes value) [])"

definition json_payload :: "gomap \<Rightarrow> string \<Rightarrow> string \<Rightarrow> payload" where
  "json_payload header field value =
     \<lparr>pl_body = ''{'' @ json_string field @ '':'' @ json_string (clip value max_notification_body) @ ''}'',
      pl_header = header_set header header_content_type content_type_json\<rparr>"

definition notification_payload :: "string \<Rightarrow> string \<Rightarrow> string \<Rightarrow> string + payload" where
  "notification_payload t title message =
     (if t = type_ntfy then
        (let header = header_set [] header_content_type content_type_text; safe = header_safe title
         in Inr \<lparr>pl_body = clip message max_notification_body,
                 pl_header = (if safe \<noteq> [] then header_set header ''X-Title'' safe else header)\<rparr>)
      else if t = type_discord then Inr (json_payload [] ''content'' (compose title message))
      else if t = type_slack then Inr (json_payload [] ''text'' (compose title message))
      else Inl (''unsupported notification type '' @ quoted t))"

section \<open>Home Assistant\<close>

definition home_assistant_name_chars :: string where
  "home_assistant_name_chars = ''abcdefghijklmnopqrstuvwxyz0123456789_''"
definition max_home_assistant_name :: nat where "max_home_assistant_name = 64"
definition home_assistant_name :: string where "home_assistant_name = ''Home Assistant''"

definition usable_home_assistant_name :: "string \<Rightarrow> string \<Rightarrow> string option" where
  "usable_home_assistant_name field value =
     (if value = [] then Some (''homeAssistant.'' @ field @ '' is empty'')
      else if length value > max_home_assistant_name
      then Some (''homeAssistant.'' @ field @ '' is longer than '' @ int_dec (int max_home_assistant_name) @ '' characters'')
      else if \<not> list_all (\<lambda>c. c \<in> set home_assistant_name_chars) value
      then Some (''homeAssistant.'' @ field
                 @ '' may only use lowercase letters, digits and underscores, e.g. turn_on'')
      else None)"

definition home_assistant_url :: "url_lib \<Rightarrow> string \<Rightarrow> string \<Rightarrow> string \<Rightarrow> string + string" where
  "home_assistant_url lib base domain service =
     (case usable_home_assistant_name ''domain'' domain of
        Some e \<Rightarrow> Inl e
      | None \<Rightarrow> (case usable_home_assistant_name ''service'' service of
            Some e \<Rightarrow> Inl e
          | None \<Rightarrow> endpoint_on lib base home_assistant_name [''api'', ''services'', domain, service]))"

text \<open>\<open>is_object\<close> answers whether \<open>json.Unmarshal\<close> reads the text as an object.\<close>

definition home_assistant_payload :: "(string \<Rightarrow> bool) \<Rightarrow> string \<Rightarrow> string + payload" where
  "home_assistant_payload is_object data =
     (let header = header_set [] header_content_type content_type_json; trimmed = trim_space data in
      if trimmed = [] then Inr \<lparr>pl_body = ''{}'', pl_header = header\<rparr>
      else if \<not> is_object trimmed
      then Inl (''homeAssistant.data did not render to a JSON object, which is what Home Assistant reads as service data, e.g. ''
                @ ''{'' @ quoted ''entity_id'' @ '': '' @ quoted ''light.hall'' @ ''}'')
      else Inr \<lparr>pl_body = trimmed, pl_header = header\<rparr>)"

section \<open>qBittorrent\<close>

definition q_bittorrent_name :: string where "q_bittorrent_name = ''qBittorrent''"
definition q_bittorrent_cookie :: string where "q_bittorrent_cookie = ''SID''"
definition q_bittorrent_all :: string where "q_bittorrent_all = ''hashes=all''"

definition web_ui_path :: "string list \<Rightarrow> string list" where
  "web_ui_path segments = [''api'', ''v2''] @ segments"

definition form_header :: gomap where
  "form_header = header_set [] header_content_type content_type_form"

definition credentials_form :: "string \<Rightarrow> string \<Rightarrow> string" where
  "credentials_form username password =
     ''password='' @ query_escape password @ ''&username='' @ query_escape username"

definition q_bittorrent_request ::
  "url_lib \<Rightarrow> string \<Rightarrow> string \<Rightarrow> string \<Rightarrow> string \<Rightarrow> duration \<Rightarrow> string + request" where
  "q_bittorrent_request lib t base username password timeout =
     (case (if t = type_qbittorrent_pause then Inr (web_ui_path [''torrents'', ''pause''])
            else if t = type_qbittorrent_resume then Inr (web_ui_path [''torrents'', ''resume''])
            else Inl (''unsupported qBittorrent action '' @ quoted t)) of
        Inl e \<Rightarrow> Inl e
      | Inr path \<Rightarrow>
          if username = [] \<or> password = []
          then Inl (''secret has no '' @ quoted secret_key_username @ '' and '' @ quoted secret_key_password
            @ '' keys; '' @ q_bittorrent_name @ '' issues a session rather than accepting a token, ''
            @ ''so both are needed. An instance that bypasses authentication is an http.request, not this action'')
          else bindE (endpoint_on lib base q_bittorrent_name path) (\<lambda>action.
               bindE (endpoint_on lib base q_bittorrent_name (web_ui_path [''auth'', ''login''])) (\<lambda>login.
               bindE (endpoint_on lib base q_bittorrent_name (web_ui_path [''auth'', ''logout''])) (\<lambda>logout.
               Inr (Request ''POST'' action form_header q_bittorrent_all True timeout
                 (Some (Session
                   (Request ''POST'' login form_header (credentials_form username password) False timeout None)
                   q_bittorrent_cookie
                   (Request ''POST'' logout form_header [] False 0 None))))))))"

end
