(* ===== verification/EdgeActions.thy ===== *)
theory EdgeActions
  imports Payloads
begin

text \<open>
  \<open>internal/controller/edge_actions.go\<close>, \<open>console_actions.go\<close> and \<open>restart.go\<close>: the
  actions that fire once, on an Automation's own transition. A request that leaves
  the cluster is the call \<open>KOutbound\<close>, whose executor is the client of
  \<open>internal/actions\<close>; a console action is the call \<open>KConsole\<close>.
\<close>

section \<open>Names\<close>

definition execution_success :: string where "execution_success = ''Success''"
definition execution_failed :: string where "execution_failed = ''Failed''"
definition execution_skipped :: string where "execution_skipped = ''Skipped''"
definition reason_edge_action_sent :: string where "reason_edge_action_sent = ''EdgeActionSent''"
definition reason_edge_action_failed :: string where "reason_edge_action_failed = ''EdgeActionFailed''"
definition reason_edge_action_skipped :: string where "reason_edge_action_skipped = ''EdgeActionSkipped''"
definition verb_applied :: string where "verb_applied = ''applied to''"
definition verb_commanded :: string where "verb_commanded = ''applied at''"
definition verb_delivered :: string where "verb_delivered = ''delivered to''"
definition action_kubernetes_restart :: string where "action_kubernetes_restart = ''kubernetes.restart''"
definition action_prefix_kubernetes :: string where "action_prefix_kubernetes = ''kubernetes.''"
definition annotation_restarted_at :: string where
  "annotation_restarted_at = ''kubectl.kubernetes.io/restartedAt''"

text \<open>The library functions the requests are built with.\<close>

record edge_lib =
  el_url :: url_lib
  el_parse :: template_parser
  el_execute :: template_executor
  el_json_object :: "string \<Rightarrow> bool"

section \<open>Which actions fire\<close>

definition edge_actions_of :: "automation \<Rightarrow> bool \<Rightarrow> action list" where
  "edge_actions_of a matching =
     filter (\<lambda>x. \<not> is_desired_state (ac_type x))
       (if matching then sp_actions (am_spec a) else sp_on_exit (am_spec a))"

definition is_kubernetes_action :: "string \<Rightarrow> bool" where
  "is_kubernetes_action t = has_prefix t action_prefix_kubernetes"

definition edge_verbs :: "string \<Rightarrow> string \<times> string" where
  "edge_verbs t =
     (if is_kubernetes_action t \<or> is_console t then (verb_applied, ''was not applied'')
      else if t = type_home_assistant \<or> t = type_qbittorrent_pause \<or> t = type_qbittorrent_resume
      then (verb_commanded, ''was not applied at'')
      else (verb_delivered, ''was not delivered''))"

definition report_edge_action :: "reconciler \<Rightarrow> automation \<Rightarrow> edge_execution_status \<Rightarrow> ('q, unit) prog" where
  "report_edge_action rc a entry =
     (let (done_verb, failed_verb) = edge_verbs (ee_type entry) in
      if ee_status entry = execution_success
      then event rc a event_normal reason_edge_action_sent action_edge
             (ee_type entry @ '' '' @ done_verb @ '' '' @ ee_destination entry @ '' after ''
              @ int_dec (ee_attempts entry) @ '' attempt(s)'')
      else if ee_status entry = execution_failed
      then event rc a event_warning reason_edge_action_failed action_edge
             (ee_type entry @ '' '' @ failed_verb @ '': '' @ ee_reason entry)
      else event rc a event_warning reason_edge_action_skipped action_edge
             (ee_type entry @ '' did not run: '' @ ee_reason entry))"

section \<open>Building a request\<close>

definition template_context_of :: "automation \<Rightarrow> bool \<Rightarrow> ('q, template_context) prog" where
  "template_context_of a matching = KNow (\<lambda>now. Ret
     (let t = au_last_transition (am_status a) in
      \<lparr>tc_automation = claimant_of a, tc_namespace = am_namespace a, tc_name = am_name a,
       tc_provider = provider_of a, tc_matching = matching,
       tc_key = (case t of None \<Rightarrow> [] | Some x \<Rightarrow> sx_key x),
       tc_from = (case t of None \<Rightarrow> [] | Some x \<Rightarrow> sx_from x),
       tc_to = (case t of None \<Rightarrow> [] | Some x \<Rightarrow> sx_to x),
       tc_state = au_observed_state (am_status a),
       tc_time = rfc3339 (case t of None \<Rightarrow> now
                          | Some x \<Rightarrow> if sx_time x = zero_time then now else sx_time x)\<rparr>))"

definition retryable :: "string \<Rightarrow> bool option \<Rightarrow> bool" where
  "retryable method idempotent =
     (case idempotent of Some b \<Rightarrow> b | None \<Rightarrow> method = ''GET'' \<or> method = ''PUT'')"

definition secret_name_of :: "string option \<Rightarrow> string" where
  "secret_name_of ref = (case ref of None \<Rightarrow> [] | Some n \<Rightarrow> n)"

definition credentials_for :: "automation \<Rightarrow> string \<Rightarrow> ('q, string + credentials) prog" where
  "credentials_for a name =
     (if name = [] then Ret (Inr no_credentials)
      else KGetSecret (am_namespace a) name (\<lambda>r. case r of
             Inl e \<Rightarrow> Ret (Inl (''reading secret '' @ quoted name @ '' in '' @ am_namespace a @ '': '' @ ke_text e))
           | Inr data \<Rightarrow> Ret (credentials_from name data)))"

definition destination_from :: "string \<Rightarrow> string \<Rightarrow> string \<Rightarrow> string \<Rightarrow> string \<Rightarrow> string + string" where
  "destination_from t field from_automation from_secret secret =
     (if from_automation \<noteq> [] \<and> from_secret \<noteq> []
      then Inl (field @ '' is set and secret '' @ quoted secret @ '' also holds a '' @ quoted secret_key_url
                @ '' key; exactly one must supply the destination'')
      else if from_automation \<noteq> [] then Inr from_automation
      else if from_secret \<noteq> [] then Inr from_secret
      else Inl (t @ '' has no destination: set '' @ field @ '', or a '' @ quoted secret_key_url
                @ '' key in the referenced secret''))"

fun set_headers :: "http_header list \<Rightarrow> gomap \<Rightarrow> string + gomap" where
  "set_headers [] h = Inr h"
| "set_headers (e # es) h =
     (if canonical_header_key (hh_name e) = ''Authorization''
      then Inl ''an Authorization header belongs in the referenced secret, not in the Automation''
      else set_headers es (header_set h (hh_name e) (hh_value e)))"

definition prefix_error :: "string \<Rightarrow> string + 'a \<Rightarrow> string + 'a" where
  "prefix_error pre r = (case r of Inl e \<Rightarrow> Inl (pre @ e) | Inr x \<Rightarrow> Inr x)"

definition build_http_request ::
  "edge_lib \<Rightarrow> automation \<Rightarrow> action \<Rightarrow> template_context \<Rightarrow> duration \<Rightarrow> ('q, string + request) prog" where
  "build_http_request lib a x data timeout =
     (case ac_request x of
        None \<Rightarrow> Ret (Inl ''http.request needs a request block'')
      | Some spec \<Rightarrow>
          bindR (credentials_for a (secret_name_of (hr_secret_ref spec))) (\<lambda>cr.
            Ret (bindE (destination_from type_http_request ''request.url'' (hr_url spec) (cr_url cr)
                          (secret_name_of (hr_secret_ref spec))) (\<lambda>target.
                 bindE (set_headers (hr_headers spec) (cr_header cr)) (\<lambda>header.
                 bindE (prefix_error ''request.body: ''
                          (render (el_parse lib) (el_execute lib) (hr_body spec) data)) (\<lambda>body.
                 let method = (if hr_method spec = [] then ''POST'' else hr_method spec) in
                 Inr (Request method target header body (retryable method (hr_idempotent spec)) timeout None)))))))"

definition build_home_assistant_request ::
  "edge_lib \<Rightarrow> automation \<Rightarrow> action \<Rightarrow> template_context \<Rightarrow> duration \<Rightarrow> ('q, string + request) prog" where
  "build_home_assistant_request lib a x data timeout =
     (case ac_home_assistant x of
        None \<Rightarrow> Ret (Inl ''homeassistant.service needs a homeAssistant block'')
      | Some spec \<Rightarrow>
          bindR (credentials_for a (ha_secret_ref spec)) (\<lambda>cr.
            if header_get (cr_header cr) ''Authorization'' = []
            then Ret (Inl (''secret '' @ quoted (ha_secret_ref spec) @ '' has no '' @ quoted secret_key_authorization
                   @ '' key; a Home Assistant long-lived access token travels as ''
                   @ quoted secret_key_authorization @ '': Bearer <token>''))
            else Ret (bindE (destination_from type_home_assistant ''homeAssistant.url'' (ha_url spec) (cr_url cr)
                               (ha_secret_ref spec)) (\<lambda>base.
                      bindE (home_assistant_url (el_url lib) base (ha_domain spec) (ha_service spec)) (\<lambda>target.
                      bindE (prefix_error ''homeAssistant.data: ''
                               (render (el_parse lib) (el_execute lib) (ha_data spec) data)) (\<lambda>rendered.
                      bindE (home_assistant_payload (el_json_object lib) rendered) (\<lambda>pl.
                      Inr (Request ''POST'' target (header_copy (cr_header cr) (pl_header pl)) (pl_body pl)
                             (ha_idempotent spec = Some True) timeout None)))))))) "

definition build_q_bittorrent_request ::
  "edge_lib \<Rightarrow> automation \<Rightarrow> action \<Rightarrow> duration \<Rightarrow> ('q, string + request) prog" where
  "build_q_bittorrent_request lib a x timeout =
     (case ac_qbittorrent x of
        None \<Rightarrow> Ret (Inl (ac_type x @ '' needs a qbittorrent block''))
      | Some spec \<Rightarrow>
          bindR (credentials_for a (qb_secret_ref spec)) (\<lambda>cr.
            Ret (bindE (destination_from (ac_type x) ''qbittorrent.url'' (qb_url spec) (cr_url cr)
                          (qb_secret_ref spec)) (\<lambda>base.
                 if cr_username cr = [] \<or> cr_password cr = []
                 then Inl (''secret '' @ quoted (qb_secret_ref spec) @ '' needs both a '' @ quoted secret_key_username
                           @ '' and a '' @ quoted secret_key_password
                           @ '' key: qBittorrent issues a session rather than accepting a token'')
                 else q_bittorrent_request (el_url lib) (ac_type x) base (cr_username cr) (cr_password cr) timeout))))"

definition build_notification ::
  "edge_lib \<Rightarrow> automation \<Rightarrow> action \<Rightarrow> template_context \<Rightarrow> duration \<Rightarrow> ('q, string + request) prog" where
  "build_notification lib a x data timeout =
     (case ac_notification x of
        None \<Rightarrow> Ret (Inl (ac_type x @ '' needs a notification block''))
      | Some spec \<Rightarrow>
          bindR (credentials_for a (nt_secret_ref spec)) (\<lambda>cr.
            if cr_url cr = []
            then Ret (Inl (''secret '' @ quoted (nt_secret_ref spec) @ '' has no '' @ quoted secret_key_url
                   @ '' key; a notification destination is a credential and lives only in the secret''))
            else Ret (bindE (prefix_error ''notification.title: ''
                               (render (el_parse lib) (el_execute lib) (nt_title spec) data)) (\<lambda>title.
                      bindE (prefix_error ''notification.message: ''
                               (render (el_parse lib) (el_execute lib) (nt_message spec) data)) (\<lambda>message.
                      bindE (notification_payload (ac_type x) title message) (\<lambda>pl.
                      Inr (Request ''POST'' (cr_url cr) (header_copy (cr_header cr) (pl_header pl)) (pl_body pl)
                             True timeout None)))))))"

definition build_request ::
  "edge_lib \<Rightarrow> automation \<Rightarrow> action \<Rightarrow> template_context \<Rightarrow> ('q, string + request) prog" where
  "build_request lib a x data =
     (let timeout = (case ac_timeout_seconds x of None \<Rightarrow> 10 * second | Some t \<Rightarrow> t * second) in
      if ac_type x = type_http_request then build_http_request lib a x data timeout
      else if ac_type x = type_home_assistant then build_home_assistant_request lib a x data timeout
      else if ac_type x = type_qbittorrent_pause \<or> ac_type x = type_qbittorrent_resume
      then build_q_bittorrent_request lib a x timeout
      else build_notification lib a x data timeout)"

section \<open>Performing one action\<close>

definition no_result :: action_result where
  "no_result = \<lparr>ar_origin = [], ar_status = 0, ar_attempts = 0\<rparr>"

definition restart_target :: "kobj \<Rightarrow> ('q, string option) prog" where
  "restart_target target =
     (case ko_template target of
        Malformed e \<Rightarrow> Ret (Some (''reading the pod template of '' @ describe_object target @ '': '' @ e))
      | found \<Rightarrow>
          KNow (\<lambda>now.
            let annotations = (case found of Present m \<Rightarrow> m | _ \<Rightarrow> []) in
            KPatch target False
              (target\<lparr>ko_template := Present (gm_set annotation_restarted_at (rfc3339 now) annotations)\<rparr>)
              (\<lambda>r. case r of
                 Inl e \<Rightarrow> Ret (Some (''restarting '' @ describe_object target @ '': '' @ ke_text e))
               | Inr target' \<Rightarrow> Ret None)))"

definition run_cluster_action :: "automation \<Rightarrow> action \<Rightarrow> (request, action_result \<times> string option) prog" where
  "run_cluster_action a x =
     (case target_key_for a x of
        None \<Rightarrow> Ret (no_result, Some (ac_type x @ '' needs a target''))
      | Some key \<Rightarrow>
          (let result = \<lparr>ar_origin = key_string key, ar_status = 0, ar_attempts = 1\<rparr> in
           case handler_for (tk_kind key) :: string + request target_handler of
             Inl e \<Rightarrow> Ret (result, Some e)
           | Inr h \<Rightarrow>
               KGet key (\<lambda>r. case r of
                 Inl e \<Rightarrow> Ret (result, Some (if out_of_scope e
                     then ''target '' @ key_string key @ '' not reachable with current RBAC (''
                          @ permission_hint (tk_kind key) @ ''): '' @ ke_text e
                     else ''getting target '' @ key_string key @ '': '' @ ke_text e))
               | Inr target \<Rightarrow>
                   if ac_type x \<noteq> action_kubernetes_restart
                   then Ret (result, Some (''no executor for action '' @ quoted (ac_type x)))
                   else bind (restart_target target) (\<lambda>err. Ret (result, err)))))"

definition run_console_action :: "reconciler \<Rightarrow> action \<Rightarrow> ('q, action_result \<times> string option) prog" where
  "run_console_action rc x =
     (if \<not> rc_console rc
      then Ret (no_result, Some ''no console is configured on this install, so there is nothing for this action to write to'')
      else KConsole x (case ac_timeout_seconds x of None \<Rightarrow> default_action_timeout | Some t \<Rightarrow> t * second) Ret)"

definition run_edge_action ::
  "edge_lib \<Rightarrow> reconciler \<Rightarrow> automation \<Rightarrow> action \<Rightarrow> template_context \<Rightarrow>
     (request, action_result \<times> string option) prog" where
  "run_edge_action lib rc a x data =
     (if is_kubernetes_action (ac_type x) then run_cluster_action a x
      else if is_console (ac_type x) then run_console_action rc x
      else if rc_outbound rc \<noteq> Some True
      then Ret (no_result, Some ''outbound actions are disabled on this install: no destination is allowed'')
      else bind (build_request lib a x data) (\<lambda>r. case r of
             Inl e \<Rightarrow> Ret (no_result, Some e)
           | Inr q \<Rightarrow> KOutbound q Ret))"

section \<open>The actions of one transition\<close>

definition edge_entry :: "action \<Rightarrow> bool \<Rightarrow> action_result \<Rightarrow> string \<Rightarrow> string \<Rightarrow> instant \<Rightarrow> edge_execution_status" where
  "edge_entry x matching result status reason now =
     \<lparr>ee_type = ac_type x, ee_status = status, ee_reason = reason, ee_destination = ar_origin result,
      ee_attempts = ar_attempts result, ee_on_exit = (\<not> matching), ee_time = now\<rparr>"

definition perform_edge_action ::
  "edge_lib \<Rightarrow> reconciler \<Rightarrow> automation \<Rightarrow> bool \<Rightarrow> template_context \<Rightarrow> action \<Rightarrow>
     (request, edge_execution_status) prog" where
  "perform_edge_action lib rc a matching data x =
     (let skipped = (\<lambda>reason. KNow (\<lambda>now. Ret (edge_entry x matching no_result execution_skipped reason now))) in
      if rc_dry_run rc then skipped ''dry run: this action was not sent''
      else KExpired (\<lambda>expired.
        if expired then skipped ''ran out of time for the remaining actions on this transition''
        else bind (run_edge_action lib rc a x data) (\<lambda>(result, err). KNow (\<lambda>now. Ret
               (case err of
                  None \<Rightarrow> edge_entry x matching result execution_success [] now
                | Some e \<Rightarrow> edge_entry x matching result execution_failed e now)))))"

fun perform_edge_actions ::
  "edge_lib \<Rightarrow> reconciler \<Rightarrow> automation \<Rightarrow> bool \<Rightarrow> template_context \<Rightarrow> action list \<Rightarrow>
     edge_execution_status list \<Rightarrow> (request, edge_execution_status list) prog" where
  "perform_edge_actions lib rc a matching data [] results = Ret results"
| "perform_edge_actions lib rc a matching data (x # xs) results =
     bind (perform_edge_action lib rc a matching data x) (\<lambda>entry.
       bind (report_edge_action rc a entry) (\<lambda>_.
         perform_edge_actions lib rc a matching data xs (results @ [entry])))"

definition run_edge_actions ::
  "edge_lib \<Rightarrow> reconciler \<Rightarrow> automation \<Rightarrow> bool \<Rightarrow> (request, edge_execution_status list) prog" where
  "run_edge_actions lib rc a matching =
     (case edge_actions_of a matching of
        [] \<Rightarrow> Ret []
      | edges \<Rightarrow> bind (template_context_of a matching) (\<lambda>data.
          perform_edge_actions lib rc a matching data edges []))"

end
