(* ===== verification/Reconciler.thy ===== *)
theory Reconciler
  imports EdgeActions
begin

text \<open>
  \<open>internal/controller/automation_controller.go\<close>: one pass of the reconciler over one
  Automation, from reading it to firing the edge actions of a committed
  transition, with the paths that hold state, record a failure, keep or drop the
  finalizer and hand targets back on deletion. A pass answers an error, which
  controller-runtime retries, or when to come back.
\<close>

definition reevaluate_interval :: duration where "reevaluate_interval = 15 * second"
definition release_retry_interval :: duration where "release_retry_interval = 5 * second"
definition max_action_attempts :: int where "max_action_attempts = 5"
definition retry_backoff_base :: duration where "retry_backoff_base = 2 * second"
definition retry_backoff_cap :: duration where "retry_backoff_cap = 60 * second"
definition finalizer_release_claims :: string where
  "finalizer_release_claims = ''reactor.robbeverhelst.com/release-claims''"
definition max_release_attempts :: int where "max_release_attempts = 3"

section \<open>Retries\<close>

text \<open>\<open>last.Attempts + 1\<close> is 32-bit arithmetic.\<close>

definition attempts_after :: "execution_status option \<Rightarrow> int" where
  "attempts_after l =
     (case l of None \<Rightarrow> 1
      | Some e \<Rightarrow> if ex_status e \<noteq> execution_failed then 1 else int32 (ex_attempts e + 1))"

text \<open>The shift is one of 64-bit words: it loses the bits that leave the top.\<close>

definition retry_backoff :: "int \<Rightarrow> duration" where
  "retry_backoff attempts =
     (let backoff = sint (push_bit (nat (attempts - 1)) (word_of_int retry_backoff_base :: 64 word)) in
      if backoff > retry_backoff_cap \<or> backoff \<le> 0 then retry_backoff_cap else backoff)"

type_synonym outcome = "kerr + duration option"

definition finish_with :: "duration option \<Rightarrow> kerr + automation \<Rightarrow> outcome" where
  "finish_with again r = (case r of Inl e \<Rightarrow> Inl e | Inr a \<Rightarrow> Inr again)"

definition record_apply_failure ::
  "reconciler \<Rightarrow> automation \<Rightarrow> string \<Rightarrow> bool \<Rightarrow> ('q, outcome) prog" where
  "record_apply_failure rc a err claiming =
     (let attempts = attempts_after (au_last_execution (am_status a)) in
      KNow (\<lambda>now.
      let a = update_st (\<lambda>s. s\<lparr>au_last_execution := Some
                \<lparr>ex_status = execution_failed, ex_reason = err, ex_time = now, ex_on_exit = (\<not> claiming),
                 ex_attempts = attempts\<rparr>\<rparr>) a in
      bind (if attempts \<le> max_action_attempts
            then event_on_new_reason rc a condition_ready event_warning reason_action_failed action_execute
                   (''attempt '' @ int_dec attempts @ '' of '' @ int_dec max_action_attempts @ '' failed: '' @ err)
            else Ret ()) (\<lambda>_.
      bind (set_condition a condition_ready cond_false reason_action_failed err) (\<lambda>a.
      if attempts \<ge> max_action_attempts
      then bind (event_on_new_reason rc a condition_applied event_warning reason_retry_budget_exhausted action_execute
                   (''gave up after '' @ int_dec attempts
                    @ '' attempts; waiting for the next state change rather than retrying forever: '' @ err)) (\<lambda>_.
           bind (set_condition a condition_applied cond_false reason_retry_budget_exhausted
                   (''giving up after '' @ int_dec attempts
                    @ '' attempts, will try again on the next state change: '' @ err)) (\<lambda>a.
           bind (update_status a) (\<lambda>r. Ret (finish_with (Some reevaluate_interval) r))))
      else bind (set_condition a condition_applied cond_false reason_action_failed err) (\<lambda>a.
           bind (update_status a) (\<lambda>r. Ret (finish_with (Some (retry_backoff attempts)) r)))))))"

section \<open>The finalizer\<close>

definition reconcile_finalizer :: "reconciler \<Rightarrow> automation \<Rightarrow> ('q, kerr + automation) prog" where
  "reconcile_finalizer rc a =
     (let wanted = (length (targets_of a) > 0 \<and> \<not> rc_dry_run rc);
          (a', changed) = (if wanted then add_finalizer finalizer_release_claims a
                           else remove_finalizer finalizer_release_claims a)
      in if \<not> changed then Ret (Inr a') else KUpdateAutomation a' Ret)"

definition deletion_stance :: stance where
  "deletion_stance = \<lparr>sn_matching = False, sn_claiming = False, sn_preview = False\<rparr>"

definition finalize :: "reconciler \<Rightarrow> automation \<Rightarrow> ('q, outcome) prog" where
  "finalize rc a =
     (if finalizer_release_claims \<notin> set (am_finalizers a) then Ret (Inr None)
      else bind (reconcile_targets rc a deletion_stance (targets_of a) []) (\<lambda>(ocs, err).
        let let_go = (\<lambda>a. KUpdateAutomation (fst (remove_finalizer finalizer_release_claims a))
                            (\<lambda>r. Ret (finish_with None r))) in
        case err of
          None \<Rightarrow> let_go a
        | Some e \<Rightarrow>
            (let attempts = int32 (au_release_attempts (am_status a) + 1) in
             if attempts < max_release_attempts
             then (let a = update_st (\<lambda>s. s\<lparr>au_release_attempts := attempts\<rparr>) a in
                   bind (set_condition a condition_applied cond_false reason_release_failed e) (\<lambda>a.
                   bind (update_status a) (\<lambda>r. Ret (finish_with (Some (attempts * release_retry_interval)) r))))
             else bind (event rc a event_warning reason_release_failed action_release
                    (''could not hand targets back after '' @ int_dec attempts @ '' attempts, deleting anyway: '' @ e))
                  (\<lambda>_. let_go a))))"

section \<open>Committing what a pass found\<close>

text \<open>The transition is recorded, and the matching state moves, only when every target was settled.\<close>

definition commit_matching ::
  "automation \<Rightarrow> gomap \<Rightarrow> bool \<Rightarrow> bool \<Rightarrow> ('q, automation) prog" where
  "commit_matching a observed matching was =
     bind (if matching \<noteq> was
           then bind (transition_for a observed) (\<lambda>t. Ret (update_st (\<lambda>s. s\<lparr>au_last_transition := t\<rparr>) a))
           else Ret a)
       (\<lambda>a. Ret (update_st (\<lambda>s. s\<lparr>au_matching := Some matching\<rparr>) a))"

definition record_writes :: "automation \<Rightarrow> target_outcome list \<Rightarrow> bool \<Rightarrow> ('q, automation) prog" where
  "record_writes a ocs claiming =
     (if list_ex oc_changed ocs
      then KNow (\<lambda>now. Ret (update_st (\<lambda>s. s\<lparr>au_last_execution := Some
             \<lparr>ex_status = execution_success, ex_reason = [], ex_time = now, ex_on_exit = (\<not> claiming),
              ex_attempts = 0\<rparr>\<rparr>) a))
      else Ret a)"

text \<open>The edge: what runs once the transition has been written to status.\<close>

definition fire_edges ::
  "edge_lib \<Rightarrow> reconciler \<Rightarrow> automation \<Rightarrow> target_outcome list \<Rightarrow> bool \<Rightarrow> bool \<Rightarrow> (request, outcome) prog" where
  "fire_edges lib rc a ocs force matching =
     (if \<not> force
      then bind (report_preview rc a ocs) (\<lambda>_. Ret (Inr (Some reevaluate_interval)))
      else bind (run_edge_actions lib rc a matching) (\<lambda>results.
             if length results > 0
             then bind (update_status (update_st (\<lambda>s. s\<lparr>au_edge_actions := results\<rparr>) a))
                    (\<lambda>_. Ret (Inr (Some reevaluate_interval)))
             else Ret (Inr (Some reevaluate_interval))))"

text \<open>An assessment decides only when the provider has reported and no key is missing.\<close>

definition readable :: "evaluation \<Rightarrow> bool" where
  "readable e = (as_known e \<and> length (as_missing e) = 0)"

definition decided_matching :: "automation \<Rightarrow> evaluation \<Rightarrow> bool" where
  "decided_matching a e = (if readable e then as_matching e else is_matching (am_status a))"

text \<open>What follows the announced pass: conditions, the status write, and only then the edge.\<close>

definition publish_pass ::
  "edge_lib \<Rightarrow> reconciler \<Rightarrow> bool \<Rightarrow> bool \<Rightarrow> bool \<Rightarrow> automation \<Rightarrow> evaluation \<Rightarrow> string list \<Rightarrow>
     target_outcome list \<Rightarrow> (request, outcome) prog" where
  "publish_pass lib rc force was matching a e faults ocs =
     bind (report_transition rc a (matching \<noteq> was) matching) (\<lambda>_.
     bind (if force
           then bind (set_ready_condition rc a e faults) (\<lambda>a. set_applied_condition rc a ocs)
           else set_out_of_force_conditions rc a faults) (\<lambda>a.
     bind (update_status a) (\<lambda>r. case r of
       Inl failure \<Rightarrow> Ret (Inl failure)
     | Inr a \<Rightarrow>
         if matching \<noteq> was then fire_edges lib rc a ocs force matching
         else Ret (Inr (Some reevaluate_interval)))))"

definition commit_pass ::
  "edge_lib \<Rightarrow> reconciler \<Rightarrow> automation \<Rightarrow> evaluation \<Rightarrow> string list \<Rightarrow> target_outcome list \<times> string option \<Rightarrow>
     (request, outcome) prog" where
  "commit_pass lib rc a e faults settled =
     (let force = in_force a;
          was = is_matching (am_status a);
          matching = decided_matching a e;
          claiming = (matching \<and> force);
          (ocs, err) = settled in
      bind (if err = None then commit_matching a (as_observed e) matching was else Ret a) (\<lambda>a.
      bind (record_writes a ocs claiming) (\<lambda>a.
      bind (events_for_targets rc a ocs) (\<lambda>_.
      let a = update_st (\<lambda>s. s\<lparr>au_observed_state := (if readable e then as_observed e else au_observed_state s),
                             au_targets := target_statuses ocs\<rparr>) a in
      case err of
        Some failure \<Rightarrow> record_apply_failure rc a failure claiming
      | None \<Rightarrow> publish_pass lib rc force was matching a e faults ocs))))"

definition decide ::
  "edge_lib \<Rightarrow> reconciler \<Rightarrow> automation \<Rightarrow> evaluation \<Rightarrow> string list \<Rightarrow> (request, outcome) prog" where
  "decide lib rc a e faults =
     bind (reconcile_targets rc a
             \<lparr>sn_matching = decided_matching a e, sn_claiming = (decided_matching a e \<and> in_force a),
              sn_preview = (\<not> in_force a)\<rparr>
             (targets_of a) [])
       (commit_pass lib rc a e faults)"

section \<open>One pass\<close>

definition reconcile_live :: "edge_lib \<Rightarrow> reconciler \<Rightarrow> automation \<Rightarrow> (request, outcome) prog" where
  "reconcile_live lib rc a =
     (let faults = template_faults (el_parse lib) a in
      bind (evaluate a) (\<lambda>e.
      let a = update_st (\<lambda>s. s\<lparr>au_observed_at := observed_at_of e\<rparr>) a in
      if in_force a \<and> \<not> as_known e
      then bind (report_unobserved_provider rc a faults) (\<lambda>a.
           bind (update_status a) (\<lambda>r. Ret (finish_with (Some reevaluate_interval) r)))
      else if in_force a \<and> length (as_missing e) > 0
      then bind (report_missing_state_keys rc (update_st (\<lambda>s. s\<lparr>au_observed_state := as_observed e\<rparr>) a) e faults) (\<lambda>a.
           bind (update_status a) (\<lambda>r. Ret (finish_with (Some reevaluate_interval) r)))
      else decide lib rc a e faults))"

definition reconcile :: "edge_lib \<Rightarrow> reconciler \<Rightarrow> string \<Rightarrow> string \<Rightarrow> (request, outcome) prog" where
  "reconcile lib rc ns name =
     KGetAutomation ns name (\<lambda>r. case r of
       Inl e \<Rightarrow> Ret (if ke_reason e = NotFound then Inr None else Inl e)
     | Inr a \<Rightarrow>
         if am_deleting a then finalize rc a
         else if sp_when (am_spec a) = None
         then bind (event rc a event_warning reason_trigger_removed action_reconcile
                (''spec.trigger was removed from v1alpha1 and was never implemented; this automation does nothing, ''
                 @ ''delete it'')) (\<lambda>_. Ret (Inr None))
         else bind (reconcile_finalizer rc a) (\<lambda>f. case f of
                Inl e \<Rightarrow> Ret (Inl e)
              | Inr a \<Rightarrow> reconcile_live lib rc a))"

end
