(* ===== verification/Release.thy ===== *)
theory Release
  imports Reconciler
begin

text \<open>
  \<open>internal/controller/release.go\<close>: the sweep an uninstall runs. The operator is
  stopped, every target any Automation names is handed back once, and every
  finalizer is taken off, whatever fails on the way.
\<close>

record release_options =
  ro_namespace :: string
  ro_manager_name :: string
  ro_manager_namespace :: string
  ro_stop_timeout :: duration

definition default_manager_stop_timeout :: duration where "default_manager_stop_timeout = 60 * second"

text \<open>\<open>PollUntilContextTimeout\<close>: the condition is asked at once and then every second until the timeout.\<close>

fun await_stopped :: "nat \<Rightarrow> release_options \<Rightarrow> ('q, string option) prog" where
  "await_stopped 0 opts = Ret (Some ''context deadline exceeded'')"
| "await_stopped (Suc polls) opts =
     KGetDeployment (ro_manager_namespace opts) (ro_manager_name opts) (\<lambda>r.
       let stopped = (case r of Inl e \<Rightarrow> ke_reason e = NotFound | Inr d \<Rightarrow> dp_status_replicas d = 0) in
       if stopped then Ret None
       else KPollAgain second (\<lambda>again.
         if again then await_stopped polls opts else Ret (Some ''context deadline exceeded'')))"

definition manager_text :: "release_options \<Rightarrow> string" where
  "manager_text opts = ro_manager_namespace opts @ ''/'' @ ro_manager_name opts"

definition stop_manager :: "release_options \<Rightarrow> ('q, string option) prog" where
  "stop_manager opts =
     (if ro_manager_name opts = [] \<or> ro_manager_namespace opts = [] then Ret None
      else KGetDeployment (ro_manager_namespace opts) (ro_manager_name opts) (\<lambda>r. case r of
        Inl e \<Rightarrow> if ke_reason e = NotFound then Ret None
                 else Ret (Some (''getting the operator deployment '' @ manager_text opts @ '': '' @ ke_text e))
      | Inr d \<Rightarrow>
          (let timeout = (if ro_stop_timeout opts \<le> 0 then default_manager_stop_timeout else ro_stop_timeout opts);
               wait = bind (await_stopped (nat (timeout div second) + 1) opts) (\<lambda>w. case w of
                 None \<Rightarrow> Ret None
               | Some e \<Rightarrow> Ret (Some (''waiting for the operator '' @ manager_text opts @ '' to stop: '' @ e))) in
           if dp_replicas d \<noteq> Some 0
           then KPatchDeployment d (d\<lparr>dp_replicas := Some 0\<rparr>) (\<lambda>p. case p of
                  Some e \<Rightarrow> Ret (Some (''stopping the operator deployment '' @ manager_text opts @ '': '' @ ke_text e))
                | None \<Rightarrow> wait)
           else wait)))"

definition release_claimed_target :: "target_key \<Rightarrow> automation list \<Rightarrow> ('q, string option) prog" where
  "release_claimed_target key automations =
     (case handler_for (tk_kind key) of
        Inl e \<Rightarrow> Ret (Some e)
      | Inr h \<Rightarrow>
          KGet key (\<lambda>r. case r of
            Inl e \<Rightarrow> if ke_reason e = NotFound then Ret None
                     else Ret (Some (''getting target '' @ key_string key @ '': '' @ ke_text e))
          | Inr target \<Rightarrow>
              (let (baseline, recorded) = baseline_of h target in
               if \<not> recorded then Ret None
               else bind (release_target h target
                      (map_option rs_level (resolve (List.map_filter (\<lambda>a. reversal_for a key baseline) automations))))
                    (\<lambda>(changed, err). Ret err))))"

text \<open>
  The grouping loop: every target in the order it is first named, with the
  Automations naming it in the order they are listed.
\<close>

fun add_claimant :: "automation \<Rightarrow> target_key list \<Rightarrow> (target_key \<times> automation list) list \<Rightarrow>
    (target_key \<times> automation list) list" where
  "add_claimant a [] groups = groups"
| "add_claimant a (key # keys) groups =
     add_claimant a keys
       (case map_of groups key of
          None \<Rightarrow> groups @ [(key, [a])]
        | Some as \<Rightarrow> gm_set key (as @ [a]) groups)"

fun group_claimants :: "automation list \<Rightarrow> (target_key \<times> automation list) list \<Rightarrow>
    (target_key \<times> automation list) list" where
  "group_claimants [] groups = groups"
| "group_claimants (a # rest) groups =
     (if sp_when (am_spec a) = None then group_claimants rest groups
      else group_claimants rest (add_claimant a (targets_of a) groups))"

fun release_groups :: "(target_key \<times> automation list) list \<Rightarrow> nat \<Rightarrow> ('q, nat) prog" where
  "release_groups [] failures = Ret failures"
| "release_groups ((key, automations) # rest) failures =
     bind (release_claimed_target key automations) (\<lambda>err.
       release_groups rest (case err of None \<Rightarrow> failures | Some e \<Rightarrow> failures + 1))"

fun drop_finalizers :: "automation list \<Rightarrow> nat \<Rightarrow> ('q, nat) prog" where
  "drop_finalizers [] failures = Ret failures"
| "drop_finalizers (a # rest) failures =
     (let (a', changed) = remove_finalizer finalizer_release_claims a in
      if \<not> changed then drop_finalizers rest failures
      else KUpdateAutomation a' (\<lambda>r.
        drop_finalizers rest (case r of Inr _ \<Rightarrow> failures | Inl e \<Rightarrow> failures + 1)))"

definition release_all_claims :: "release_options \<Rightarrow> ('q, string option) prog" where
  "release_all_claims opts =
     bind (stop_manager opts) (\<lambda>_.
     KListAutomations (if ro_namespace opts \<noteq> [] then Some (ro_namespace opts) else None) (\<lambda>r. case r of
       Inl e \<Rightarrow> Ret (Some (''listing automations: '' @ ke_text e))
     | Inr items \<Rightarrow>
         bind (release_groups (group_claimants items []) 0) (\<lambda>failures.
         bind (drop_finalizers items failures) (\<lambda>_. Ret None))))"

end
