(* ===== verification/Traces.thy ===== *)
theory Traces
  imports Cluster
begin

text \<open>
  The executions of a program. \<open>exec p t x\<close> says that \<open>p\<close> can return \<open>x\<close> after the
  calls and answers of the trace \<open>t\<close>; the answers are arbitrary, so a statement about
  every execution covers every server, every concurrent writer between two calls
  and every failure. The order of the calls is the order of the trace, which is
  what the crash and ordering properties are about.
\<close>

datatype 'q ev =
    EGet target_key "kerr + kobj"
  | EPatch kobj bool kobj "kerr + kobj"
  | EGetScale kobj "kerr + kscale"
  | EUpdateScale kobj kscale "kerr option"
  | EGetAutomation string string "kerr + automation"
  | EListAutomations "string option" "kerr + automation list"
  | EUpdateAutomation automation "kerr + automation"
  | EUpdateStatus automation "kerr + automation"
  | EListHPAs string "kerr + khpa list"
  | EStoreGet string "observation option"
  | EStoreFreshness string "freshness option"
  | ENow instant
  | EEvent kevent
  | EExpired bool
  | EGetSecret string string "kerr + gomap"
  | EOutbound "'q" "action_result \<times> string option"
  | EConsole action duration "action_result \<times> string option"
  | EGetDeployment string string "kerr + deployment"
  | EPatchDeployment deployment deployment "kerr option"
  | EPollAgain duration bool

text \<open>The call an event answers.\<close>

fun call_of :: "'q ev \<Rightarrow> 'q call" where
  "call_of (EGet x0 r) = CGet x0"
| "call_of (EPatch x0 x1 x2 r) = CPatch x0 x1 x2"
| "call_of (EGetScale x0 r) = CGetScale x0"
| "call_of (EUpdateScale x0 x1 r) = CUpdateScale x0 x1"
| "call_of (EGetAutomation x0 x1 r) = CGetAutomation x0 x1"
| "call_of (EListAutomations x0 r) = CListAutomations x0"
| "call_of (EUpdateAutomation x0 r) = CUpdateAutomation x0"
| "call_of (EUpdateStatus x0 r) = CUpdateStatus x0"
| "call_of (EListHPAs x0 r) = CListHPAs x0"
| "call_of (EStoreGet x0 r) = CStoreGet x0"
| "call_of (EStoreFreshness x0 r) = CStoreFreshness x0"
| "call_of (ENow r) = CNow"
| "call_of (EEvent x0) = CEvent x0"
| "call_of (EExpired r) = CExpired"
| "call_of (EGetSecret x0 x1 r) = CGetSecret x0 x1"
| "call_of (EOutbound x0 r) = COutbound x0"
| "call_of (EConsole x0 x1 r) = CConsole x0 x1"
| "call_of (EGetDeployment x0 x1 r) = CGetDeployment x0 x1"
| "call_of (EPatchDeployment x0 x1 r) = CPatchDeployment x0 x1"
| "call_of (EPollAgain x0 r) = CPollAgain x0"

text \<open>One call: the program, the call with its answer, and what is left of the program.\<close>

inductive step1 :: "('q, 'a) prog \<Rightarrow> 'q ev \<Rightarrow> ('q, 'a) prog \<Rightarrow> bool" where
  step_Get: "step1 (KGet x0 f) (EGet x0 r) (f r)"
| step_Patch: "step1 (KPatch x0 x1 x2 f) (EPatch x0 x1 x2 r) (f r)"
| step_GetScale: "step1 (KGetScale x0 f) (EGetScale x0 r) (f r)"
| step_UpdateScale: "step1 (KUpdateScale x0 x1 f) (EUpdateScale x0 x1 r) (f r)"
| step_GetAutomation: "step1 (KGetAutomation x0 x1 f) (EGetAutomation x0 x1 r) (f r)"
| step_ListAutomations: "step1 (KListAutomations x0 f) (EListAutomations x0 r) (f r)"
| step_UpdateAutomation: "step1 (KUpdateAutomation x0 f) (EUpdateAutomation x0 r) (f r)"
| step_UpdateStatus: "step1 (KUpdateStatus x0 f) (EUpdateStatus x0 r) (f r)"
| step_ListHPAs: "step1 (KListHPAs x0 f) (EListHPAs x0 r) (f r)"
| step_StoreGet: "step1 (KStoreGet x0 f) (EStoreGet x0 r) (f r)"
| step_StoreFreshness: "step1 (KStoreFreshness x0 f) (EStoreFreshness x0 r) (f r)"
| step_Now: "step1 (KNow f) (ENow r) (f r)"
| step_Event: "step1 (KEvent x0 f) (EEvent x0) (f)"
| step_Expired: "step1 (KExpired f) (EExpired r) (f r)"
| step_GetSecret: "step1 (KGetSecret x0 x1 f) (EGetSecret x0 x1 r) (f r)"
| step_Outbound: "step1 (KOutbound x0 f) (EOutbound x0 r) (f r)"
| step_Console: "step1 (KConsole x0 x1 f) (EConsole x0 x1 r) (f r)"
| step_GetDeployment: "step1 (KGetDeployment x0 x1 f) (EGetDeployment x0 x1 r) (f r)"
| step_PatchDeployment: "step1 (KPatchDeployment x0 x1 f) (EPatchDeployment x0 x1 r) (f r)"
| step_PollAgain: "step1 (KPollAgain x0 f) (EPollAgain x0 r) (f r)"

inductive_simps step1_simps [simp]:
  "step1 (Ret x) e q"
  "step1 (KGet x0 f) e q"
  "step1 (KPatch x0 x1 x2 f) e q"
  "step1 (KGetScale x0 f) e q"
  "step1 (KUpdateScale x0 x1 f) e q"
  "step1 (KGetAutomation x0 x1 f) e q"
  "step1 (KListAutomations x0 f) e q"
  "step1 (KUpdateAutomation x0 f) e q"
  "step1 (KUpdateStatus x0 f) e q"
  "step1 (KListHPAs x0 f) e q"
  "step1 (KStoreGet x0 f) e q"
  "step1 (KStoreFreshness x0 f) e q"
  "step1 (KNow f) e q"
  "step1 (KEvent x0 f) e q"
  "step1 (KExpired f) e q"
  "step1 (KGetSecret x0 x1 f) e q"
  "step1 (KOutbound x0 f) e q"
  "step1 (KConsole x0 x1 f) e q"
  "step1 (KGetDeployment x0 x1 f) e q"
  "step1 (KPatchDeployment x0 x1 f) e q"
  "step1 (KPollAgain x0 f) e q"

text \<open>A whole execution: calls and answers until the program has returned.\<close>

inductive exec :: "('q, 'a) prog \<Rightarrow> 'q ev list \<Rightarrow> 'a \<Rightarrow> bool" where
  exec_Ret: "exec (Ret x) [] x"
| exec_Call: "step1 p e q \<Longrightarrow> exec q t y \<Longrightarrow> exec p (e # t) y"

lemma exec_iff: "exec p t y \<longleftrightarrow>
    (p = Ret y \<and> t = []) \<or> (\<exists>e t' q. t = e # t' \<and> step1 p e q \<and> exec q t' y)"
  by (subst exec.simps) auto

lemma exec_Nil [simp]: "exec p [] y \<longleftrightarrow> p = Ret y"
  by (subst exec_iff) simp

lemma exec_Cons [simp]: "exec p (e # t) y \<longleftrightarrow> (\<exists>q. step1 p e q \<and> exec q t y)"
  by (subst exec_iff) auto

lemma exec_Ret_iff [simp]: "exec (Ret x) t y \<longleftrightarrow> t = [] \<and> y = x"
  by (cases t) auto

lemma step1_bind: "step1 (bind m f) e q \<longleftrightarrow>
    (\<exists>x. m = Ret x \<and> step1 (f x) e q) \<or> (\<exists>m'. step1 m e m' \<and> q = bind m' f)"
  by (cases m) auto

lemma bind_eq_Ret: "bind m f = Ret y \<longleftrightarrow> (\<exists>x. m = Ret x \<and> f x = Ret y)"
  by (cases m) auto

lemma exec_bind: "exec (bind m f) t y \<longleftrightarrow> (\<exists>t1 t2 x. t = t1 @ t2 \<and> exec m t1 x \<and> exec (f x) t2 y)"
proof (induction t arbitrary: m)
  case Nil
  then show ?case by (auto simp: bind_eq_Ret)
next
  case (Cons e t)
  note IH = Cons.IH
  have "exec (bind m f) (e # t) y \<longleftrightarrow>
      (\<exists>x. m = Ret x \<and> exec (f x) (e # t) y) \<or> (\<exists>m'. step1 m e m' \<and> exec (bind m' f) t y)"
    by (auto simp: step1_bind)
  also have "\<dots> \<longleftrightarrow> (\<exists>t1 t2 x. e # t = t1 @ t2 \<and> exec m t1 x \<and> exec (f x) t2 y)"
  proof (intro iffI; elim disjE exE conjE)
    fix x assume "m = Ret x" "exec (f x) (e # t) y"
    then show "\<exists>t1 t2 x. e # t = t1 @ t2 \<and> exec m t1 x \<and> exec (f x) t2 y"
      by (intro exI [of _ "[]"] exI [of _ "e # t"] exI [of _ x]) simp
  next
    fix m' assume s: "step1 m e m'" "exec (bind m' f) t y"
    then obtain t1 t2 x where "t = t1 @ t2" "exec m' t1 x" "exec (f x) t2 y" unfolding IH by blast
    with s show "\<exists>t1 t2 x. e # t = t1 @ t2 \<and> exec m t1 x \<and> exec (f x) t2 y"
      by (intro exI [of _ "e # t1"] exI [of _ t2] exI [of _ x]) auto
  next
    fix t1 t2 x assume a: "e # t = t1 @ t2" "exec m t1 x" "exec (f x) t2 y"
    show "(\<exists>x. m = Ret x \<and> exec (f x) (e # t) y) \<or> (\<exists>m'. step1 m e m' \<and> exec (bind m' f) t y)"
    proof (cases t1)
      case Nil
      then show ?thesis using a by auto
    next
      case (Cons e' t1')
      then show ?thesis using a IH by auto
    qed
  qed
  finally show ?case .
qed

lemma exec_bindE:
  assumes "exec (bind m f) t y"
  obtains t1 t2 x where "t = t1 @ t2" "exec m t1 x" "exec (f x) t2 y"
  using assms unfolding exec_bind by blast

lemma exec_bindI: "exec m t1 x \<Longrightarrow> exec (f x) t2 y \<Longrightarrow> exec (bind m f) (t1 @ t2) y"
  unfolding exec_bind by blast

lemma exec_bindRD:
  assumes "exec (bindR m f) t y"
  shows "(\<exists>e. exec m t (Inl e) \<and> y = Inl e) \<or> (\<exists>t1 t2 x. t = t1 @ t2 \<and> exec m t1 (Inr x) \<and> exec (f x) t2 y)"
  using assms unfolding bindR_def
  by (auto elim!: exec_bindE split: sum.splits)

text \<open>What \<open>calls\<close> says of a program holds of every call of every execution.\<close>

lemma calls_step1: "step1 p e q \<Longrightarrow> calls P p \<Longrightarrow> P (call_of e) \<and> calls P q"
  by (induction rule: step1.induct) auto

lemma calls_exec: "exec p t y \<Longrightarrow> calls P p \<Longrightarrow> \<forall>e \<in> set t. P (call_of e)"
  by (induction rule: exec.induct) (auto dest: calls_step1)

section \<open>Playing a program against a server\<close>

text \<open>The execution a server drives: what \<open>run\<close> computes, with its trace.\<close>

primrec play :: "('q, 's) server \<Rightarrow> ('q, 'a) prog \<Rightarrow> 's \<Rightarrow> 'q ev list \<times> 'a \<times> 's" where
  "play v (Ret x) s = ([], x, s)"
| "play v (KGet k f) s = (case sv_get v k s of (r, s1) \<Rightarrow>
     case play v (f r) s1 of (t, y, s2) \<Rightarrow> (EGet k r # t, y, s2))"
| "play v (KPatch o1 b o2 f) s = (case sv_patch v o1 b o2 s of (r, s1) \<Rightarrow>
     case play v (f r) s1 of (t, y, s2) \<Rightarrow> (EPatch o1 b o2 r # t, y, s2))"
| "play v (KGetScale k f) s = (case sv_get_scale v k s of (r, s1) \<Rightarrow>
     case play v (f r) s1 of (t, y, s2) \<Rightarrow> (EGetScale k r # t, y, s2))"
| "play v (KUpdateScale k sc f) s = (case sv_update_scale v k sc s of (r, s1) \<Rightarrow>
     case play v (f r) s1 of (t, y, s2) \<Rightarrow> (EUpdateScale k sc r # t, y, s2))"
| "play v (KGetAutomation n m f) s = (case sv_get_automation v n m s of (r, s1) \<Rightarrow>
     case play v (f r) s1 of (t, y, s2) \<Rightarrow> (EGetAutomation n m r # t, y, s2))"
| "play v (KListAutomations n f) s = (case sv_list_automations v n s of (r, s1) \<Rightarrow>
     case play v (f r) s1 of (t, y, s2) \<Rightarrow> (EListAutomations n r # t, y, s2))"
| "play v (KUpdateAutomation a f) s = (case sv_update_automation v a s of (r, s1) \<Rightarrow>
     case play v (f r) s1 of (t, y, s2) \<Rightarrow> (EUpdateAutomation a r # t, y, s2))"
| "play v (KUpdateStatus a f) s = (case sv_update_status v a s of (r, s1) \<Rightarrow>
     case play v (f r) s1 of (t, y, s2) \<Rightarrow> (EUpdateStatus a r # t, y, s2))"
| "play v (KListHPAs n f) s = (case sv_list_hpas v n s of (r, s1) \<Rightarrow>
     case play v (f r) s1 of (t, y, s2) \<Rightarrow> (EListHPAs n r # t, y, s2))"
| "play v (KStoreGet p f) s = (case sv_store_get v p s of (r, s1) \<Rightarrow>
     case play v (f r) s1 of (t, y, s2) \<Rightarrow> (EStoreGet p r # t, y, s2))"
| "play v (KStoreFreshness p f) s = (case sv_store_freshness v p s of (r, s1) \<Rightarrow>
     case play v (f r) s1 of (t, y, s2) \<Rightarrow> (EStoreFreshness p r # t, y, s2))"
| "play v (KNow f) s = (case sv_now v s of (r, s1) \<Rightarrow>
     case play v (f r) s1 of (t, y, s2) \<Rightarrow> (ENow r # t, y, s2))"
| "play v (KEvent e p) s = (case play v p (sv_event v e s) of (t, y, s') \<Rightarrow> (EEvent e # t, y, s'))"
| "play v (KExpired f) s = (case sv_expired v s of (r, s1) \<Rightarrow>
     case play v (f r) s1 of (t, y, s2) \<Rightarrow> (EExpired r # t, y, s2))"
| "play v (KGetSecret n m f) s = (case sv_get_secret v n m s of (r, s1) \<Rightarrow>
     case play v (f r) s1 of (t, y, s2) \<Rightarrow> (EGetSecret n m r # t, y, s2))"
| "play v (KOutbound q f) s = (case sv_outbound v q s of (r, s1) \<Rightarrow>
     case play v (f r) s1 of (t, y, s2) \<Rightarrow> (EOutbound q r # t, y, s2))"
| "play v (KConsole a d f) s = (case sv_console v a d s of (r, s1) \<Rightarrow>
     case play v (f r) s1 of (t, y, s2) \<Rightarrow> (EConsole a d r # t, y, s2))"
| "play v (KGetDeployment n m f) s = (case sv_get_deployment v n m s of (r, s1) \<Rightarrow>
     case play v (f r) s1 of (t, y, s2) \<Rightarrow> (EGetDeployment n m r # t, y, s2))"
| "play v (KPatchDeployment d1 d2 f) s = (case sv_patch_deployment v d1 d2 s of (r, s1) \<Rightarrow>
     case play v (f r) s1 of (t, y, s2) \<Rightarrow> (EPatchDeployment d1 d2 r # t, y, s2))"
| "play v (KPollAgain d f) s = (case sv_poll_again v d s of (r, s1) \<Rightarrow>
     case play v (f r) s1 of (t, y, s2) \<Rightarrow> (EPollAgain d r # t, y, s2))"

lemma play_exec: "play v p s = (t, y, s') \<Longrightarrow> exec p t y"
  by (induction p arbitrary: s t) (auto split: prod.splits)

lemma play_run: "play v p s = (t, y, s') \<Longrightarrow> run v p s = (y, s')"
  by (induction p arbitrary: s t) (auto split: prod.splits)

end
