(* ===== verification/Samples.thy ===== *)
theory Samples
  imports Release Traces
begin

text \<open>
  A concrete setting the properties are applied in: one Deployment held to zero
  replicas while the WAN is down, one Automation, and a server that keeps both with
  optimistic locking. The server is an instance of the program's parameter; nothing
  is proved of the program through it alone.
\<close>

record world =
  wo_obj :: kobj
  wo_scale :: "int field"
  wo_automation :: automation
  wo_state :: "gomap option"
  wo_stale :: bool
  wo_hpas :: "khpa list"
  wo_now :: instant

definition merge_patch :: "kobj \<Rightarrow> kobj \<Rightarrow> kobj \<Rightarrow> kobj" where
  "merge_patch base new cur = cur
     \<lparr>ko_version := ko_version cur + 1,
      ko_annotations := (\<lambda>k. if ko_annotations new k \<noteq> ko_annotations base k
                             then ko_annotations new k else ko_annotations cur k),
      ko_flag := (if ko_flag new \<noteq> ko_flag base then ko_flag new else ko_flag cur),
      ko_template := (if ko_template new \<noteq> ko_template base then ko_template new else ko_template cur)\<rparr>"

definition conflict :: kerr where "conflict = \<lparr>ke_reason = Conflict, ke_text = ''conflict''\<rparr>"
definition not_found :: kerr where "not_found = \<lparr>ke_reason = NotFound, ke_text = ''not found''\<rparr>"

definition sample_server :: "('q, world) server" where
  "sample_server = \<lparr>
     sv_get = (\<lambda>k s. (if k = ko_key (wo_obj s) then Inr (wo_obj s) else Inl not_found, s)),
     sv_patch = (\<lambda>base guard new s.
       if guard \<and> ko_version base \<noteq> ko_version (wo_obj s) then (Inl conflict, s)
       else (Inr (merge_patch base new (wo_obj s)), s\<lparr>wo_obj := merge_patch base new (wo_obj s)\<rparr>)),
     sv_get_scale = (\<lambda>obj s. (Inr \<lparr>sc_version = ko_version (wo_obj s), sc_replicas = wo_scale s\<rparr>, s)),
     sv_update_scale = (\<lambda>obj sc s.
       if sc_version sc \<noteq> ko_version (wo_obj s) then (Some conflict, s)
       else (None, s\<lparr>wo_scale := sc_replicas sc,
                     wo_obj := (wo_obj s)\<lparr>ko_version := ko_version (wo_obj s) + 1\<rparr>\<rparr>)),
     sv_get_automation = (\<lambda>ns n s.
       (if ns = am_namespace (wo_automation s) \<and> n = am_name (wo_automation s)
        then Inr (wo_automation s) else Inl not_found, s)),
     sv_list_automations = (\<lambda>ns s. (Inr [wo_automation s], s)),
     sv_update_automation = (\<lambda>a s. (Inr a, s\<lparr>wo_automation := a\<rparr>)),
     sv_update_status = (\<lambda>a s. (Inr a, s\<lparr>wo_automation := a\<rparr>)),
     sv_list_hpas = (\<lambda>ns s. (Inr (wo_hpas s), s)),
     sv_store_get = (\<lambda>p s. (map_option (\<lambda>m. \<lparr>ob_provider = p, ob_state = m, ob_at = wo_now s\<rparr>) (wo_state s), s)),
     sv_store_freshness = (\<lambda>p s. (Some \<lparr>fr_observed_at = wo_now s, fr_age = 0, fr_bound = 0, fr_stale = wo_stale s\<rparr>, s)),
     sv_now = (\<lambda>s. (wo_now s, s)),
     sv_event = (\<lambda>e s. s),
     sv_expired = (\<lambda>s. (False, s)),
     sv_get_secret = (\<lambda>ns n s. (Inr [(''url'', ''https://ntfy.example.com/wan'')], s)),
     sv_outbound = (\<lambda>q s. ((\<lparr>ar_origin = ''https://ntfy.example.com:443'', ar_status = 200, ar_attempts = 1\<rparr>, None), s)),
     sv_console = (\<lambda>a d s. ((\<lparr>ar_origin = ''unifi'', ar_status = 0, ar_attempts = 1\<rparr>, None), s)),
     sv_get_deployment = (\<lambda>ns n s. (Inl not_found, s)),
     sv_patch_deployment = (\<lambda>d d' s. (None, s)),
     sv_poll_again = (\<lambda>d s. (False, s))\<rparr>"

definition sample_key :: target_key where
  "sample_key = \<lparr>tk_kind = kind_deployment, tk_namespace = ''media'', tk_name = ''sonarr''\<rparr>"

definition blank_action :: action where
  "blank_action = \<lparr>ac_type = [], ac_target = None, ac_replicas = None, ac_suspended = None, ac_cordoned = None,
     ac_request = None, ac_notification = None, ac_home_assistant = None, ac_qbittorrent = None, ac_wlan = None,
     ac_poe = None, ac_outlet = None, ac_timeout_seconds = None\<rparr>"

definition sample_scale :: action where
  "sample_scale = blank_action\<lparr>ac_type := action_kubernetes_scale,
     ac_target := Some \<lparr>tf_kind = kind_deployment, tf_name = ''sonarr'', tf_namespace = []\<rparr>,
     ac_replicas := Some 0\<rparr>"

definition sample_notify :: action where
  "sample_notify = blank_action\<lparr>ac_type := type_ntfy,
     ac_notification := Some \<lparr>nt_secret_ref = ''ntfy'', nt_title = ''wan'', nt_message = ''down''\<rparr>\<rparr>"

definition sample_status :: automation_status where
  "sample_status = \<lparr>au_conditions = [], au_matching = None, au_observed_state = [], au_observed_at = None,
     au_last_transition = None, au_last_execution = None, au_edge_actions = [], au_targets = [],
     au_release_attempts = 0\<rparr>"

definition sample_automation :: automation where
  "sample_automation = \<lparr>am_namespace = ''media'', am_name = ''failover'', am_generation = 1, am_deleting = False,
     am_finalizers = [],
     am_spec = \<lparr>sp_when = Some \<lparr>st_provider = ''unifi'', st_state = [(''wan'', ''down'')]\<rparr>,
       sp_actions = [sample_scale, sample_notify], sp_on_exit = [], sp_reversal = [], sp_dry_run = False,
       sp_suspend = False\<rparr>,
     am_status = sample_status\<rparr>"

definition sample_obj :: kobj where
  "sample_obj = \<lparr>ko_key = sample_key, ko_version = 7, ko_annotations = Map.empty, ko_flag = Absent, ko_template = Absent\<rparr>"

definition sample_world :: world where
  "sample_world = \<lparr>wo_obj = sample_obj, wo_scale = Present 3, wo_automation = sample_automation,
     wo_state = Some [(''wan'', ''down'')], wo_stale = False, wo_hpas = [], wo_now = 0\<rparr>"

definition sample_reconciler :: reconciler where
  "sample_reconciler = \<lparr>rc_dry_run = False, rc_detect_hpa = True, rc_outbound = Some True, rc_console = True, rc_recorder = True\<rparr>"

definition dry_reconciler :: reconciler where
  "dry_reconciler = sample_reconciler\<lparr>rc_dry_run := True\<rparr>"

definition sample_handler :: "'q target_handler" where
  "sample_handler = replica_handler ''apps'' kind_deployment"

lemma sample_handler_for: "handler_for (tk_kind sample_key) = Inr sample_handler"
  by (simp add: handler_for_def handlers_def sample_key_def sample_handler_def)

definition sample_url :: url where
  "sample_url = \<lparr>ur_scheme = ''https'', ur_user = False, ur_host = ''ntfy.example.com'', ur_path = ''/wan'',
     ur_raw_query = [], ur_fragment = []\<rparr>"

definition sample_lib :: edge_lib where
  "sample_lib = \<lparr>el_url = \<lparr>ul_parse = (\<lambda>_. Inr sample_url), ul_join = (\<lambda>u segments. join ''/'' segments)\<rparr>,
     el_parse = (\<lambda>t. Inr (Some (ListNode [TextNode t]))), el_execute = (\<lambda>n c. ([''text''], None)),
     el_json_object = (\<lambda>_. True)\<rparr>"

definition claiming_stance :: stance where
  "claiming_stance = \<lparr>sn_matching = True, sn_claiming = True, sn_preview = False\<rparr>"

text \<open>The executions the setting gives: one target claimed, and one whole pass.\<close>

definition sample_claim :: "unit ev list \<times> (target_outcome \<times> string option) \<times> world" where
  "sample_claim = play sample_server
     (reconcile_target sample_reconciler sample_key sample_automation claiming_stance) sample_world"

definition sample_pass :: "reconciler \<Rightarrow> world \<Rightarrow> request ev list \<times> outcome \<times> world" where
  "sample_pass rc w = play sample_server (reconcile sample_lib rc ''media'' ''failover'') w"

definition sample_live :: "world \<Rightarrow> request ev list \<times> outcome \<times> world" where
  "sample_live w = play sample_server (reconcile_live sample_lib sample_reconciler sample_automation) w"

lemma played: "exec p (fst (play v p s)) (fst (snd (play v p s)))"
  by (rule play_exec [where s' = "snd (snd (play v p s))"]) simp

lemma sample_claim_exec: "exec (reconcile_target sample_reconciler sample_key sample_automation claiming_stance)
    (fst sample_claim) (fst (snd sample_claim))"
  unfolding sample_claim_def by (rule played)

lemma sample_pass_exec:
  "exec (reconcile sample_lib rc ''media'' ''failover'') (fst (sample_pass rc w)) (fst (snd (sample_pass rc w)))"
  unfolding sample_pass_def by (rule played)

lemma sample_live_exec:
  "exec (reconcile_live sample_lib sample_reconciler sample_automation) (fst (sample_live w)) (fst (snd (sample_live w)))"
  unfolding sample_live_def by (rule played)

lemma sample_live_unseen:
  "fst (sample_live (sample_world\<lparr>wo_state := None\<rparr>)) =
     EStoreGet ''unifi'' None # tl (fst (sample_live (sample_world\<lparr>wo_state := None\<rparr>)))"
  by (simp add: sample_live_def reconcile_live_def evaluate_def sample_automation_def sample_server_def
      sample_world_def Let_def split: prod.splits)

lemma split_drop:
  assumes "case drop n t of [] \<Rightarrow> False | e # rest \<Rightarrow> P e"
  obtains e rest where "t = take n t @ e # rest" and "P e"
  using assms by (cases "drop n t") (auto, metis append_take_drop_id)

lemma split_nth: "i < length t \<Longrightarrow> t = take i t @ t ! i # drop (Suc i) t"
  by (rule id_take_nth_drop)

end
