(* ===== verification/Quiet.thy ===== *)
theory Quiet
  imports Release Traces Samples
begin

text \<open>
  Which parts of a pass can reach outside the controller's own objects. A program is
  \<open>quiet\<close> when no execution of it writes a target or performs an edge action, and
  \<open>edgeless\<close> when none performs an edge action. Reading, reporting and previewing
  are quiet; under an install-wide dry run everything is.
\<close>

definition quiet :: "('q, 'a) prog \<Rightarrow> bool" where
  "quiet p = calls (\<lambda>c. \<not> writes_target c \<and> \<not> performs_edge c) p"

definition edgeless :: "('q, 'a) prog \<Rightarrow> bool" where
  "edgeless p = calls (\<lambda>c. \<not> performs_edge c) p"

named_theorems quiet_intros \<open>quietness of the programs of a pass\<close>
named_theorems edgeless_intros \<open>programs that perform no edge action\<close>

lemma quiet_simps [simp]:
  "quiet (Ret x)"
  "quiet (KGet k g1) \<longleftrightarrow> (\<forall>r. quiet (g1 r))"
  "\<not> quiet (KPatch o1 b o2 g2)"
  "quiet (KGetScale k' g3) \<longleftrightarrow> (\<forall>r. quiet (g3 r))"
  "\<not> quiet (KUpdateScale k' sc g4)"
  "quiet (KGetAutomation n m g5) \<longleftrightarrow> (\<forall>r. quiet (g5 r))"
  "quiet (KListAutomations ns g6) \<longleftrightarrow> (\<forall>r. quiet (g6 r))"
  "quiet (KUpdateAutomation a g7) \<longleftrightarrow> (\<forall>r. quiet (g7 r))"
  "quiet (KUpdateStatus a g8) \<longleftrightarrow> (\<forall>r. quiet (g8 r))"
  "quiet (KListHPAs n g9) \<longleftrightarrow> (\<forall>r. quiet (g9 r))"
  "quiet (KStoreGet p g10) \<longleftrightarrow> (\<forall>r. quiet (g10 r))"
  "quiet (KStoreFreshness p g11) \<longleftrightarrow> (\<forall>r. quiet (g11 r))"
  "quiet (KNow g12) \<longleftrightarrow> (\<forall>r. quiet (g12 r))"
  "quiet (KEvent e q) \<longleftrightarrow> quiet q"
  "quiet (KExpired g13) \<longleftrightarrow> (\<forall>r. quiet (g13 r))"
  "quiet (KGetSecret n m g14) \<longleftrightarrow> (\<forall>r. quiet (g14 r))"
  by (simp_all add: quiet_def)

lemma edgeless_simps [simp]:
  "edgeless (Ret x)"
  "edgeless (KGet k g1) \<longleftrightarrow> (\<forall>r. edgeless (g1 r))"
  "edgeless (KPatch o1 b o2 g2) \<longleftrightarrow> (\<forall>r. edgeless (g2 r))"
  "edgeless (KUpdateScale k' sc g3) \<longleftrightarrow> (\<forall>r. edgeless (g3 r))"
  "edgeless (KListAutomations ns g4) \<longleftrightarrow> (\<forall>r. edgeless (g4 r))"
  "edgeless (KUpdateAutomation a g5) \<longleftrightarrow> (\<forall>r. edgeless (g5 r))"
  "edgeless (KUpdateStatus a g6) \<longleftrightarrow> (\<forall>r. edgeless (g6 r))"
  "edgeless (KNow g7) \<longleftrightarrow> (\<forall>r. edgeless (g7 r))"
  "edgeless (KEvent e q) \<longleftrightarrow> edgeless q"
  by (simp_all add: edgeless_def)

lemma quiet_bind [quiet_intros]: "quiet m \<Longrightarrow> (\<And>x. quiet (f x)) \<Longrightarrow> quiet (bind m f)"
  unfolding quiet_def by (rule calls_bind)

lemma edgeless_bind [edgeless_intros]: "edgeless m \<Longrightarrow> (\<And>x. edgeless (f x)) \<Longrightarrow> edgeless (bind m f)"
  unfolding edgeless_def by (rule calls_bind)

lemma quiet_edgeless: "quiet p \<Longrightarrow> edgeless p"
  unfolding quiet_def edgeless_def by (erule calls_mono) simp

lemma quiet_calls:
  "quiet p \<Longrightarrow> (\<And>c. \<not> writes_target c \<and> \<not> performs_edge c \<Longrightarrow> P c) \<Longrightarrow> calls P p"
  unfolding quiet_def by (erule calls_mono) simp

lemma quiet_exec: "exec p t y \<Longrightarrow> quiet p \<Longrightarrow> e \<in> set t \<Longrightarrow> \<not> writes_target (call_of e) \<and> \<not> performs_edge (call_of e)"
  unfolding quiet_def using calls_exec by fastforce

lemma edgeless_exec: "exec p t y \<Longrightarrow> edgeless p \<Longrightarrow> e \<in> set t \<Longrightarrow> \<not> performs_edge (call_of e)"
  unfolding edgeless_def using calls_exec by fastforce

section \<open>Reading and reporting\<close>

lemma quiet_reading [quiet_intros]:
  "quiet (evaluate a)" "quiet (matching_of a)"
  "handler_for kind = Inr h \<Longrightarrow> quiet (th_read h obj)"
  using evaluate_calls matching_of_calls read_calls by (auto simp: quiet_def)

lemma quiet_gather [quiet_intros]: "quiet (gather key self claiming baseline peers acc)"
proof (induction peers arbitrary: acc)
  case (Cons peer peers)
  then show ?case by (simp add: quiet_bind quiet_reading)
qed simp

lemma quiet_peers [quiet_intros]:
  "quiet (referencing_automations key self)" "quiet (foreign_manager_of rc h key)"
  by (auto simp: referencing_automations_def foreign_manager_of_def split: sum.splits option.splits)

lemma quiet_preview [quiet_intros]:
  "handler_for kind = Inr h \<Longrightarrow> quiet (preview_on_exit h self key target baseline)"
  by (auto simp: preview_on_exit_def Let_def intro!: quiet_intros split: sum.splits)

lemma quiet_preview_for [quiet_intros]:
  "handler_for kind = Inr h \<Longrightarrow> quiet (preview_for h self key target claims baseline)"
  by (auto simp: preview_for_def Let_def intro!: quiet_intros split: option.splits)

lemma quiet_events [quiet_intros]:
  "quiet (event rc a t r c n)" "quiet (event_on_new_reason rc a ct t r c n)" "quiet (set_condition a ct st r m)"
  "quiet (update_status a)"
  by (auto simp: event_def event_on_new_reason_def set_condition_def update_status_def Let_def split: option.splits)

lemma quiet_reports [quiet_intros]:
  "quiet (report_broken_templates rc a faults)" "quiet (report_transition rc a tr m)"
  "quiet (transition_for a cur)" "quiet (report_preview rc a ocs)"
  "quiet (report_unobserved_provider rc a faults)" "quiet (report_missing_state_keys rc a ev faults)"
  "quiet (set_ready_condition rc a ev faults)" "quiet (set_applied_condition rc a ocs)"
  "quiet (set_out_of_force_conditions rc a faults)"
  by (auto simp: report_broken_templates_def report_transition_def transition_for_def report_preview_def
      report_unobserved_provider_def report_missing_state_keys_def set_ready_condition_def
      set_applied_condition_def set_out_of_force_conditions_def Let_def
      intro!: quiet_intros split: option.splits prod.splits)

lemma quiet_report_lists [quiet_intros]:
  "quiet (report_disagreements rc a ocs)" "quiet (report_writes rc a ocs)"
  by (induction ocs) (auto intro!: quiet_intros split: option.splits)

lemma quiet_commit [quiet_intros]:
  "quiet (events_for_targets rc a ocs)" "quiet (commit_matching a obs m w)" "quiet (record_writes a ocs cl)"
  by (auto simp: events_for_targets_def commit_matching_def record_writes_def intro!: quiet_intros)

lemma quiet_failure [quiet_intros]:
  "quiet (record_apply_failure rc a err cl)" "quiet (reconcile_finalizer rc a)"
  by (auto simp: record_apply_failure_def reconcile_finalizer_def Let_def
      intro!: quiet_intros split: prod.splits)

section \<open>Writing targets\<close>

lemma edgeless_writes [edgeless_intros]:
  "handler_for kind = Inr h \<Longrightarrow> edgeless (th_apply h obj l)"
  "edgeless (patch_annotations target nxt dirty guard)" "edgeless (set_annotations target want guard)"
  "edgeless (clear_annotations target)" "handler_for kind = Inr h \<Longrightarrow> edgeless (th_read h obj)"
  using apply_calls quiet_edgeless [OF quiet_reading(3)] by (auto simp: edgeless_def patch_annotations_def set_annotations_def clear_annotations_def
      split: sum.splits prod.splits intro!: calls_bind)

lemma edgeless_write_claim [edgeless_intros]:
  "(\<And>t. edgeless (again t)) \<Longrightarrow> edgeless (write_claim again recorded attempt target annotations)"
  by (auto simp: write_claim_def intro!: edgeless_intros split: option.splits sum.splits)

lemma edgeless_record_claim [edgeless_intros]:
  "handler_for kind = Inr h \<Longrightarrow> edgeless (record_claim_loop attempts h target claimants)"
proof (induction attempts arbitrary: target)
  case (Cons attempt attempts)
  then show ?case
    by (auto simp: Let_def intro!: edgeless_intros split: sum.splits option.splits)
qed simp

lemma edgeless_claim [edgeless_intros]:
  "handler_for kind = Inr h \<Longrightarrow> edgeless (claim_target h target r claims)"
  "handler_for kind = Inr h \<Longrightarrow> edgeless (release_target h target level)"
  by (auto simp: claim_target_def record_claim_def release_target_def Let_def
      intro!: edgeless_intros split: option.splits sum.splits)

lemma edgeless_settle [edgeless_intros]:
  "handler_for kind = Inr h \<Longrightarrow> edgeless (settle_target rc h self target recorded claims reversals oc)"
  "handler_for kind = Inr h \<Longrightarrow> edgeless (decline_target rc h target oc baseline recorded)"
  by (auto simp: settle_target_def decline_target_def Let_def intro!: edgeless_intros split: option.splits)

lemma quiet_settle_dry [quiet_intros]:
  "rc_dry_run rc \<Longrightarrow> quiet (settle_target rc h self target recorded claims reversals oc)"
  "rc_dry_run rc \<Longrightarrow> quiet (decline_target rc h target oc baseline recorded)"
  by (auto simp: settle_target_def decline_target_def Let_def split: option.splits)

text \<open>
  Everything \<open>reconcile_target\<close> does before it settles or declines is quiet, so a
  property of the two carries over to the whole.
\<close>

lemma reconcile_target_calls:
  assumes "\<And>c. \<not> writes_target c \<and> \<not> performs_edge c \<Longrightarrow> P c"
    and "\<And>h target recorded claims reversals oc. handler_for (tk_kind key) = Inr h \<Longrightarrow>
      calls P (settle_target rc h self target recorded claims reversals oc)"
    and "\<And>h target oc baseline recorded. handler_for (tk_kind key) = Inr h \<Longrightarrow>
      calls P (decline_target rc h target oc baseline recorded)"
  shows "calls P (reconcile_target rc key self sn)"
proof -
  note q = quiet_calls [OF _ assms(1)]
  show ?thesis
    unfolding reconcile_target_def arbitrate_target_def dispatch_target_def Let_def
    using assms(1) [of "CGet key"]
    by (auto intro!: calls_bind q [OF quiet_peers(1)] q [OF quiet_peers(2)] q [OF quiet_gather]
        q [OF quiet_preview_for] assms(2,3) split: sum.splits)
qed

lemma edgeless_reconcile_target [edgeless_intros]: "edgeless (reconcile_target rc key self sn)"
  unfolding edgeless_def
  by (rule reconcile_target_calls) (auto simp: edgeless_settle [unfolded edgeless_def])

lemma quiet_reconcile_target_dry [quiet_intros]: "rc_dry_run rc \<Longrightarrow> quiet (reconcile_target rc key self sn)"
  unfolding quiet_def
  by (rule reconcile_target_calls) (auto simp: quiet_settle_dry [unfolded quiet_def])

lemma edgeless_reconcile_targets [edgeless_intros]: "edgeless (reconcile_targets rc self sn keys outs)"
  by (induction keys arbitrary: outs) (auto intro!: edgeless_intros split: option.splits)

lemma quiet_reconcile_targets_dry [quiet_intros]: "rc_dry_run rc \<Longrightarrow> quiet (reconcile_targets rc self sn keys outs)"
  by (induction keys arbitrary: outs) (auto intro!: quiet_intros split: option.splits)

section \<open>Edge actions\<close>

lemma quiet_context [quiet_intros]: "quiet (template_context_of a matching)" "quiet (credentials_for a name)"
  by (auto simp: template_context_of_def credentials_for_def split: sum.splits)

lemma quiet_edge_report [quiet_intros]: "quiet (report_edge_action rc a entry)"
  by (auto simp: report_edge_action_def Let_def intro!: quiet_intros split: prod.splits)

lemma quiet_perform_dry [quiet_intros]:
  "rc_dry_run rc \<Longrightarrow> quiet (perform_edge_action lib rc a matching data x)"
  by (simp add: perform_edge_action_def)

lemma quiet_performs_dry [quiet_intros]:
  "rc_dry_run rc \<Longrightarrow> quiet (perform_edge_actions lib rc a matching data xs results)"
  by (induction xs arbitrary: results) (auto intro!: quiet_intros)

lemma quiet_edges_dry [quiet_intros]: "rc_dry_run rc \<Longrightarrow> quiet (run_edge_actions lib rc a matching)"
  by (auto simp: run_edge_actions_def intro!: quiet_intros split: list.splits)

section \<open>Whole passes\<close>

lemma quiet_finalize_dry [quiet_intros]: "rc_dry_run rc \<Longrightarrow> quiet (finalize rc a)"
  by (auto simp: finalize_def Let_def intro!: quiet_intros split: option.splits)

lemma edgeless_finalize [edgeless_intros]: "edgeless (finalize rc a)"
  by (auto simp: finalize_def Let_def intro!: edgeless_intros quiet_edgeless [OF quiet_events(1)]
      quiet_edgeless [OF quiet_events(3)] quiet_edgeless [OF quiet_events(4)] split: option.splits)

lemma quiet_fire_dry [quiet_intros]: "rc_dry_run rc \<Longrightarrow> quiet (fire_edges lib rc a ocs force matching)"
  by (auto simp: fire_edges_def intro!: quiet_intros)

lemma quiet_decide_dry [quiet_intros]: "rc_dry_run rc \<Longrightarrow> quiet (decide lib rc a e faults)"
  unfolding decide_def commit_pass_def publish_pass_def Let_def
  by (auto intro!: quiet_intros split: option.splits sum.splits)

lemma quiet_live_dry [quiet_intros]: "rc_dry_run rc \<Longrightarrow> quiet (reconcile_live lib rc a)"
  unfolding reconcile_live_def Let_def by (auto intro!: quiet_intros)

text \<open>C9: A dry-run install touches nothing. Whatever the API server, the state store, the
  clock and the Automations say, no execution of a pass writes a target's
  annotations, level or scale, and none sends an outbound request or a console
  command.\<close>

theorem dry_run_touches_nothing:
  assumes "rc_dry_run rc" and "exec (reconcile lib rc ns name) t y" and "e \<in> set t"
  shows "\<not> writes_target (call_of e) \<and> \<not> performs_edge (call_of e)"
proof -
  have "quiet (reconcile lib rc ns name)"
    using assms(1) by (auto simp: reconcile_def intro!: quiet_intros split: sum.splits)
  from quiet_exec [OF assms(2) this assms(3)] show ?thesis .
qed

theorem dry_run_touches_nothing_witness:
  "list_all (\<lambda>e. \<not> writes_target (call_of e) \<and> \<not> performs_edge (call_of e))
     (fst (sample_pass dry_reconciler sample_world))"
  unfolding list_all_iff
  using dry_run_touches_nothing [OF _ sample_pass_exec [of dry_reconciler sample_world]]
  by (simp add: dry_reconciler_def)

end
