(* ===== verification/Monitor.thy ===== *)
theory Monitor
  imports Traces Release
begin

text \<open>
  A monitor watches an execution: it keeps a state, moves on every call and answer by
  \<open>D\<close>, and says by \<open>P\<close> which calls it permits in which state. \<open>obeys P D Q m p\<close> is the
  weakest precondition of the program \<open>p\<close> for the monitor: every execution from
  monitor state \<open>m\<close> makes only permitted calls and returns with \<open>Q\<close>. The properties
  about the order of calls (a baseline before a level, a status write before an
  edge action) are monitors, proved by the rules below along the code's structure.
\<close>

primrec obeys :: "('m \<Rightarrow> 'q call \<Rightarrow> bool) \<Rightarrow> ('m \<Rightarrow> 'q ev \<Rightarrow> 'm) \<Rightarrow> ('m \<Rightarrow> 'a \<Rightarrow> bool) \<Rightarrow> 'm \<Rightarrow>
    ('q, 'a) prog \<Rightarrow> bool" where
  "obeys P D Q m (Ret x) = Q m x"
| "obeys P D Q m (KGet k f) = (P m (CGet k) \<and> (\<forall>r. obeys P D Q (D m (EGet k r)) (f r)))"
| "obeys P D Q m (KPatch o1 b o2 f) = (P m (CPatch o1 b o2) \<and> (\<forall>r. obeys P D Q (D m (EPatch o1 b o2 r)) (f r)))"
| "obeys P D Q m (KGetScale k f) = (P m (CGetScale k) \<and> (\<forall>r. obeys P D Q (D m (EGetScale k r)) (f r)))"
| "obeys P D Q m (KUpdateScale k sc f) = (P m (CUpdateScale k sc) \<and> (\<forall>r. obeys P D Q (D m (EUpdateScale k sc r)) (f r)))"
| "obeys P D Q m (KGetAutomation n m' f) = (P m (CGetAutomation n m') \<and> (\<forall>r. obeys P D Q (D m (EGetAutomation n m' r)) (f r)))"
| "obeys P D Q m (KListAutomations n f) = (P m (CListAutomations n) \<and> (\<forall>r. obeys P D Q (D m (EListAutomations n r)) (f r)))"
| "obeys P D Q m (KUpdateAutomation a f) = (P m (CUpdateAutomation a) \<and> (\<forall>r. obeys P D Q (D m (EUpdateAutomation a r)) (f r)))"
| "obeys P D Q m (KUpdateStatus a f) = (P m (CUpdateStatus a) \<and> (\<forall>r. obeys P D Q (D m (EUpdateStatus a r)) (f r)))"
| "obeys P D Q m (KListHPAs n f) = (P m (CListHPAs n) \<and> (\<forall>r. obeys P D Q (D m (EListHPAs n r)) (f r)))"
| "obeys P D Q m (KStoreGet p f) = (P m (CStoreGet p) \<and> (\<forall>r. obeys P D Q (D m (EStoreGet p r)) (f r)))"
| "obeys P D Q m (KStoreFreshness p f) = (P m (CStoreFreshness p) \<and> (\<forall>r. obeys P D Q (D m (EStoreFreshness p r)) (f r)))"
| "obeys P D Q m (KNow f) = (P m CNow \<and> (\<forall>r. obeys P D Q (D m (ENow r)) (f r)))"
| "obeys P D Q m (KEvent e p) = (P m (CEvent e) \<and> obeys P D Q (D m (EEvent e)) p)"
| "obeys P D Q m (KExpired f) = (P m CExpired \<and> (\<forall>r. obeys P D Q (D m (EExpired r)) (f r)))"
| "obeys P D Q m (KGetSecret n m' f) = (P m (CGetSecret n m') \<and> (\<forall>r. obeys P D Q (D m (EGetSecret n m' r)) (f r)))"
| "obeys P D Q m (KOutbound q f) = (P m (COutbound q) \<and> (\<forall>r. obeys P D Q (D m (EOutbound q r)) (f r)))"
| "obeys P D Q m (KConsole a d f) = (P m (CConsole a d) \<and> (\<forall>r. obeys P D Q (D m (EConsole a d r)) (f r)))"
| "obeys P D Q m (KGetDeployment n m' f) = (P m (CGetDeployment n m') \<and> (\<forall>r. obeys P D Q (D m (EGetDeployment n m' r)) (f r)))"
| "obeys P D Q m (KPatchDeployment d1 d2 f) = (P m (CPatchDeployment d1 d2) \<and> (\<forall>r. obeys P D Q (D m (EPatchDeployment d1 d2 r)) (f r)))"
| "obeys P D Q m (KPollAgain d f) = (P m (CPollAgain d) \<and> (\<forall>r. obeys P D Q (D m (EPollAgain d r)) (f r)))"

lemma obeys_bind: "obeys P D Q m (bind p f) \<longleftrightarrow> obeys P D (\<lambda>m x. obeys P D Q m (f x)) m p"
  by (induction p arbitrary: m) auto

lemma obeys_conseq: "obeys P D Q m p \<Longrightarrow> (\<And>m x. Q m x \<Longrightarrow> R m x) \<Longrightarrow> obeys P D R m p"
  by (induction p arbitrary: m) auto

lemma obeys_bindI:
  "obeys P D R m p \<Longrightarrow> (\<And>m x. R m x \<Longrightarrow> obeys P D Q m (f x)) \<Longrightarrow> obeys P D Q m (bind p f)"
  unfolding obeys_bind by (rule obeys_conseq)

lemma obeys_step1: "step1 p e q \<Longrightarrow> obeys P D Q m p \<Longrightarrow> P m (call_of e) \<and> obeys P D Q (D m e) q"
  by (induction rule: step1.induct) auto

text \<open>Soundness: what the monitor permits is what every execution does.\<close>

lemma obeys_exec:
  "exec p t y \<Longrightarrow> obeys P D Q m p \<Longrightarrow>
    Q (foldl D m t) y \<and> (\<forall>pre e post. t = pre @ e # post \<longrightarrow> P (foldl D m pre) (call_of e))"
proof (induction arbitrary: m rule: exec.induct)
  case (exec_Call p e q t y)
  have e: "P m (call_of e)" and q: "obeys P D Q (D m e) q"
    using obeys_step1 [OF exec_Call.hyps(1) exec_Call.prems] by auto
  have "P (foldl D m pre) (call_of e')" if "e # t = pre @ e' # post" for pre e' post
    using that e exec_Call.IH [OF q] by (cases pre) auto
  then show ?case using exec_Call.IH [OF q] by auto
qed simp

text \<open>A program whose calls the monitor permits and ignores leaves the monitor where it was.\<close>

lemma obeys_ignored:
  assumes "calls C p" and "\<And>c. C c \<Longrightarrow> P m c" and "\<And>e. C (call_of e) \<Longrightarrow> D m e = m" and "\<And>x. Q m x"
  shows "obeys P D Q m p"
  using assms(1)
  by (induction p) (auto simp: assms(2-4))

text \<open>A program whose calls keep an invariant of the monitor, whatever they answer.\<close>

lemma obeys_invariant:
  assumes "calls C p" and "I m" and "\<And>m c. I m \<Longrightarrow> C c \<Longrightarrow> P m c" and "\<And>m e. I m \<Longrightarrow> C (call_of e) \<Longrightarrow> I (D m e)"
    and "\<And>m x. I m \<Longrightarrow> Q m x"
  shows "obeys P D Q m p"
  using assms(1,2)
  by (induction p arbitrary: m) (auto simp: assms(3-5))

end
