(* ===== verification/Claims.thy ===== *)
theory Claims
  imports Quiet Monitor
begin

text \<open>
  The two orders that make a claim safe to interrupt. A level is written only to a
  target the API server has already shown with a baseline, or has just accepted one
  for; and a baseline is cleared only after the level it records the way back to has
  been written. Whatever call an operator crash falls between, what the target was
  is on the target.
\<close>

section \<open>Annotations\<close>

lemma merge_wanted_other: "k \<notin> fst ` set want \<Longrightarrow> fst (merge_wanted cur want (nxt, dirty)) k = nxt k"
  by (induction cur want "(nxt, dirty)" arbitrary: nxt dirty rule: merge_wanted.induct) auto

lemma merge_wanted_dirty: "dirty \<Longrightarrow> snd (merge_wanted cur want (nxt, dirty))"
  by (induction cur want "(nxt, dirty)" arbitrary: nxt dirty rule: merge_wanted.induct) auto

lemma merge_wanted_sets:
  "(k, v) \<in> set want \<Longrightarrow> gm_wf want \<Longrightarrow> cur k = None \<Longrightarrow> v \<noteq> [] \<Longrightarrow>
    fst (merge_wanted cur want (nxt, dirty)) k = Some v \<and> snd (merge_wanted cur want (nxt, dirty))"
proof (induction want arbitrary: nxt dirty)
  case (Cons p want)
  obtain k' v' where p: "p = (k', v')" by (cases p)
  show ?case
  proof (cases "(k, v) = p")
    case True
    then have "k \<notin> fst ` set want" using Cons.prems(2) p by auto
    then show ?thesis using True p Cons.prems by (auto simp: merge_wanted_other merge_wanted_dirty)
  next
    case False
    then show ?thesis using Cons p by auto
  qed
qed simp

lemma handler_format_nonempty: "handler_for kind = Inr h \<Longrightarrow> th_format h l \<noteq> []"
  by (erule handler_cases) (auto simp: handler_unfold int_dec_def format_bool_def)

lemma handler_baseline_distinct:
  "handler_for kind = Inr h \<Longrightarrow> th_baseline h \<noteq> annotation_claimed_by \<and> th_baseline h \<noteq> annotation_claimed_at"
  by (erule handler_cases) (simp_all add: handler_unfold annotation_defs)

lemma claim_keys_distinct [simp]: "annotation_claimed_by \<noteq> annotation_claimed_at"
  by (simp add: annotation_defs)

section \<open>A level is written only where a baseline is recorded\<close>

fun level_write :: "'q call \<Rightarrow> bool" where
  "level_write (CUpdateScale k sc) = True"
| "level_write (CPatch base guard new) = (ko_flag new \<noteq> ko_flag base)"
| "level_write _ = False"

definition carries :: "'q target_handler \<Rightarrow> kobj \<Rightarrow> bool" where
  "carries h obj = (ko_annotations obj (th_baseline h) \<noteq> None)"

text \<open>The monitor: whether the server has shown the baseline, or accepted a patch that writes it.\<close>

fun base_move :: "'q target_handler \<Rightarrow> bool \<Rightarrow> 'q ev \<Rightarrow> bool" where
  "base_move h m (EGet k (Inr obj)) = (m \<or> carries h obj)"
| "base_move h m (EPatch base guard new (Inr obj)) = (m \<or> carries h new)"
| "base_move h m _ = m"

fun base_permit :: "bool \<Rightarrow> 'q call \<Rightarrow> bool" where
  "base_permit m (CUpdateScale k sc) = m"
| "base_permit m (CPatch base guard new) = (ko_flag new \<noteq> ko_flag base \<longrightarrow> m)"
| "base_permit m _ = True"

lemma base_permit_level: "base_permit m c \<longleftrightarrow> (level_write c \<longrightarrow> m)"
  by (cases c) auto

lemma base_move_simps [simp]:
  "base_move h m (EGet k r) = (m \<or> (\<exists>obj. r = Inr obj \<and> carries h obj))"
  "base_move h m (EPatch base guard new r') = (m \<or> (carries h new \<and> (\<exists>obj. r' = Inr obj)))"
  by (cases r; cases r'; auto)+

definition shows_baseline :: "'q target_handler \<Rightarrow> 'q ev \<Rightarrow> bool" where
  "shows_baseline h e = base_move h False e"

lemma shows_baseline_iff:
  "shows_baseline h e \<longleftrightarrow> (\<exists>k obj. e = EGet k (Inr obj) \<and> carries h obj) \<or>
     (\<exists>base guard new obj. e = EPatch base guard new (Inr obj) \<and> carries h new)"
  by (cases e) (auto simp: shows_baseline_def)

lemma base_move_shows: "base_move h m e \<longleftrightarrow> m \<or> shows_baseline h e"
  unfolding shows_baseline_def by (cases e) auto

lemma base_seen: "foldl (base_move h) m t \<longleftrightarrow> m \<or> list_ex (shows_baseline h) t"
  by (induction t arbitrary: m) (auto simp: base_move_shows)

lemma base_move_mono: "m \<Longrightarrow> base_move h m e"
  by (induction h m e rule: base_move.induct) auto

lemma base_permit_True [simp]: "base_permit True c"
  by (simp add: base_permit_level)

lemma base_permit_quiet: "\<not> writes_target c \<Longrightarrow> base_permit m c"
  by (cases c) auto

abbreviation baselined :: "'q target_handler \<Rightarrow> (bool \<Rightarrow> 'a \<Rightarrow> bool) \<Rightarrow> bool \<Rightarrow> ('q, 'a) prog \<Rightarrow> bool" where
  "baselined h \<equiv> obeys base_permit (base_move h)"

lemma calls_top: "calls (\<lambda>_. True) p"
  by (induction p) auto

lemma baselined_quiet: "quiet p \<Longrightarrow> (recorded \<longrightarrow> m) \<Longrightarrow> (\<And>m x. (recorded \<longrightarrow> m) \<Longrightarrow> Q m x) \<Longrightarrow> baselined h Q m p"
  unfolding quiet_def
  by (erule obeys_invariant [where I = "\<lambda>m. recorded \<longrightarrow> m"])
    (auto intro: base_permit_quiet base_move_mono)

lemma baselined_True: "(\<And>x. Q True x) \<Longrightarrow> baselined h Q True p"
  by (rule obeys_invariant [OF calls_top, where I = "\<lambda>m. m"]) (auto intro: base_move_mono)

lemma baselined_write_claim:
  assumes "handler_for kind = Inr h" and "\<not> carries h target"
    and "\<And>t m. carries h t \<longrightarrow> m \<Longrightarrow> baselined h Q m (again t)"
    and "\<And>m c e t. Q m ((c, Some e), t)" and "\<And>t. Q True ((True, None), t)"
  shows "baselined h Q m (write_claim again False attempt target
    [(annotation_claimed_by, join '','' claimants), (th_baseline h, th_format h found),
     (annotation_claimed_at, rfc3339 now)])"
proof -
  let ?want = "[(annotation_claimed_by, join '','' claimants), (th_baseline h, th_format h found),
    (annotation_claimed_at, rfc3339 now)]"
  obtain nxt where nxt: "merge_wanted (ko_annotations target) ?want (ko_annotations target, False) = (nxt, True)"
    and base: "nxt (th_baseline h) = Some (th_format h found)"
    using merge_wanted_sets [of "th_baseline h" "th_format h found" ?want "ko_annotations target"
        "ko_annotations target" False] handler_baseline_distinct [OF assms(1)] assms(2)
      handler_format_nonempty [OF assms(1), of found]
    by (cases "merge_wanted (ko_annotations target) ?want (ko_annotations target, False)") (auto simp: carries_def)
  have "carries h (target\<lparr>ko_annotations := nxt\<rparr>)" using base by (simp add: carries_def)
  then show ?thesis
    by (auto simp: write_claim_def obeys_bind set_annotations_def nxt patch_annotations_def
        simp del: merge_wanted.simps intro!: assms(3-5) split: sum.splits)
qed

lemma baselined_record_claim:
  assumes "handler_for kind = Inr h"
  shows "carries h target \<longrightarrow> m \<Longrightarrow>
    baselined h (\<lambda>m x. snd (fst x) = None \<longrightarrow> m) m (record_claim_loop attempts h target claimants)"
proof (induction attempts arbitrary: target m)
  case (Cons attempt attempts)
  let ?Q = "\<lambda>m x. snd (fst x) = None \<longrightarrow> m"
  show ?case
  proof (cases "carries h target")
    case True
    then have "m" using Cons.prems by simp
    then show ?thesis using baselined_True [of ?Q] by simp
  next
    case False
    note patch = baselined_write_claim [where Q = ?Q, OF assms False Cons.IH]
    show ?thesis
      using False
      by (auto simp: carries_def obeys_bind intro!: baselined_quiet [OF quiet_reading(3) [OF assms], where recorded = False]
            patch split: sum.splits)
  qed
qed simp

lemma baselined_claim:
  assumes "handler_for kind = Inr h" and "carries h target \<longrightarrow> m"
  shows "baselined h (\<lambda>_ _. True) m (claim_target h target r claims)"
  unfolding claim_target_def record_claim_def obeys_bind
  by (rule obeys_conseq [OF baselined_record_claim [OF assms]])
    (auto split: option.splits intro!: baselined_True)

lemma baselined_release:
  assumes "handler_for kind = Inr h" and "m"
  shows "baselined h (\<lambda>_ _. True) m (release_target h target level)"
  using assms(2) baselined_True [of "\<lambda>_ _. True" h "release_target h target level"] by simp

lemma baselined_settle:
  assumes "handler_for kind = Inr h" and "carries h target \<longrightarrow> m" and "recorded = carries h target"
  shows "baselined h (\<lambda>_ _. True) m (settle_target rc h self target recorded claims reversals oc) \<and>
    baselined h (\<lambda>_ _. True) m (decline_target rc h target oc baseline recorded)"
proof (cases m)
  case False
  then have "\<not> recorded" using assms(2,3) by simp
  then show ?thesis
    by (auto simp: settle_target_def decline_target_def Let_def split: option.splits
        intro!: obeys_bindI [OF baselined_claim [OF assms(1,2)]])
qed (simp_all add: baselined_True)

lemma recorded_carries: "snd (baseline_of h target) = carries h target"
  by (auto simp: baseline_of_def carries_def split: option.splits sum.splits)

lemma baselined_dispatch:
  assumes "handler_for kind = Inr h" and "carries h target \<longrightarrow> m"
  shows "baselined h (\<lambda>_ _. True) m
    (dispatch_target rc h key self preview target (baseline_of h target) sides oc)"
  unfolding dispatch_target_def
  by (rule obeys_bindI [OF baselined_quiet [OF quiet_peers(2), where recorded = "carries h target"
        and Q = "\<lambda>m x. carries h target \<longrightarrow> m"]])
    (auto simp: assms(2) recorded_carries split: sum.splits
      intro!: baselined_settle [OF assms(1), THEN conjunct1] baselined_settle [OF assms(1), THEN conjunct2]
        obeys_bindI [OF baselined_quiet [OF quiet_preview_for [OF assms(1)], where recorded = "carries h target"
          and Q = "\<lambda>m x. carries h target \<longrightarrow> m"]])

lemma baselined_arbitrate:
  assumes "handler_for kind = Inr h" and "carries h target \<longrightarrow> m"
  shows "baselined h (\<lambda>_ _. True) m (arbitrate_target rc h key self sn peers target)"
  unfolding arbitrate_target_def Let_def
  by (rule obeys_bindI [OF baselined_quiet [OF quiet_gather, where recorded = "carries h target"
        and Q = "\<lambda>m x. carries h target \<longrightarrow> m"]])
    (auto simp: assms(2) intro!: baselined_dispatch [OF assms(1)])

lemma baselined_reconcile_target:
  assumes "handler_for (tk_kind key) = Inr h"
  shows "baselined h (\<lambda>_ _. True) False (reconcile_target rc key self sn)"
  using assms
  by (auto simp: reconcile_target_def Let_def split: sum.splits
      intro!: obeys_bindI [OF baselined_quiet [OF quiet_peers(1), where recorded = False and Q = "\<lambda>m x. True"]]
        baselined_arbitrate [OF assms])

text \<open>C1: A level is written only where the way back is recorded. In every execution of
  the reconciliation of one target, whatever fails or is written by others in
  between, each write of the target's level (a scale update, or a patch of the
  switch field) comes after a point where the API server showed the target
  with its baseline annotation, or accepted the patch that adds it.\<close>

theorem level_needs_baseline:
  fixes h :: "'q target_handler" and t :: "'q ev list"
  assumes "handler_for (tk_kind key) = Inr h" and "exec (reconcile_target rc key self sn) t y"
    and "t = before @ e # after" and "level_write (call_of e)"
  shows "list_ex (shows_baseline h) before"
proof -
  have "base_permit (foldl (base_move h) False before) (call_of e)"
    using obeys_exec [OF assms(2) baselined_reconcile_target [OF assms(1)]] assms(3) by blast
  then show ?thesis using assms(4) by (simp add: base_permit_level base_seen)
qed

theorem level_needs_baseline_witness:
  "level_write (call_of (fst sample_claim ! 7)) \<and> list_ex (shows_baseline sample_handler) (take 7 (fst sample_claim))"
proof -
  have "case drop 7 (fst sample_claim) of [] \<Rightarrow> False | e # rest \<Rightarrow> level_write (call_of e)" by code_simp
  from nth_of_drop [OF this] have "7 < length (fst sample_claim)" and lw: "level_write (call_of (fst sample_claim ! 7))"
    by simp_all
  note split = split_nth [OF this(1)]
  show ?thesis
    using lw level_needs_baseline [OF sample_handler_for sample_claim_exec split lw] by (rule conjI)
qed

end
