(* ===== verification/Passes.thy ===== *)
theory Passes
  imports Claims
begin

text \<open>
  One pass as a whole: what it may do when it cannot see the state it decides on,
  when a target fails, and in which order it commits a transition and fires the
  edge actions of it.
\<close>

section \<open>What a program makes and returns\<close>

abbreviation makes :: "('q call \<Rightarrow> bool) \<Rightarrow> ('a \<Rightarrow> bool) \<Rightarrow> ('q, 'a) prog \<Rightarrow> bool" where
  "makes P Q p \<equiv> obeys (\<lambda>_. P) (\<lambda>_ _. ()) (\<lambda>_. Q) () p"

named_theorems makes_intros \<open>what the reporting programs call and return\<close>

lemma makes_bind:
  "makes P R p \<Longrightarrow> (\<And>x. R x \<Longrightarrow> makes P Q (f x)) \<Longrightarrow> makes P Q (bind p f)"
  unfolding obeys_bind by (erule obeys_conseq) simp

lemma makes_weaken: "makes P R p \<Longrightarrow> (\<And>c. P c \<Longrightarrow> P' c) \<Longrightarrow> (\<And>x. R x \<Longrightarrow> Q x) \<Longrightarrow> makes P' Q p"
proof -
  assume mk: "makes P R p" and P: "\<And>c. P c \<Longrightarrow> P' c" and R: "\<And>x. R x \<Longrightarrow> Q x"
  have "makes P' R p" using mk by (induction p) (auto simp: P)
  then show "makes P' Q p" by (rule obeys_conseq) (simp add: R)
qed

lemma makes_exec: "exec p t y \<Longrightarrow> makes P Q p \<Longrightarrow> Q y \<and> list_all (\<lambda>e. P (call_of e)) t"
proof -
  assume "exec p t y" and "makes P Q p"
  from obeys_exec [OF this] have *: "Q y" "\<And>pre e post. t = pre @ e # post \<Longrightarrow> P (call_of e)" by auto
  then show ?thesis by (auto simp: list_all_iff dest: split_list)
qed

lemma makes_calls: "makes P Q p \<Longrightarrow> (\<And>c. P c \<Longrightarrow> C c) \<Longrightarrow> calls C p"
  by (induction p) auto

section \<open>Reporting\<close>

text \<open>The clock and the event recorder are all a report asks of the world.\<close>

fun reporting :: "'q call \<Rightarrow> bool" where
  "reporting CNow = True"
| "reporting (CEvent e) = True"
| "reporting _ = False"

definition same_but_conditions :: "automation \<Rightarrow> automation \<Rightarrow> bool" where
  "same_but_conditions a a' = (\<exists>cs. a' = update_st (\<lambda>s. s\<lparr>au_conditions := cs\<rparr>) a)"

lemma same_refl [simp]: "same_but_conditions a a"
  unfolding same_but_conditions_def update_st_def
  by (intro exI [of _ "au_conditions (am_status a)"]) simp

lemma same_trans: "same_but_conditions a b \<Longrightarrow> same_but_conditions b c \<Longrightarrow> same_but_conditions a c"
  unfolding same_but_conditions_def update_st_def by auto

lemma same_keeps: "same_but_conditions a b \<Longrightarrow>
    au_matching (am_status b) = au_matching (am_status a) \<and>
    au_last_transition (am_status b) = au_last_transition (am_status a) \<and>
    au_last_execution (am_status b) = au_last_execution (am_status a) \<and>
    au_observed_state (am_status b) = au_observed_state (am_status a) \<and> am_spec b = am_spec a"
  unfolding same_but_conditions_def update_st_def by auto

lemma event_reports [makes_intros]:
  "makes reporting (\<lambda>_. True) (event rc a t r c n)"
  "makes reporting (\<lambda>_. True) (event_on_new_reason rc a ct t r c n)"
  by (auto simp: event_def event_on_new_reason_def split: option.splits)

lemma set_condition_reports [makes_intros]: "makes reporting (same_but_conditions a) (set_condition a ct st r m)"
  by (auto simp: set_condition_def Let_def same_but_conditions_def [of a] update_st_def split: option.splits
      intro: exI [of _ "au_conditions (am_status a)"])

lemma set_condition_from: "same_but_conditions a b \<Longrightarrow> makes reporting (same_but_conditions a) (set_condition b ct st r m)"
  by (rule makes_weaken [OF set_condition_reports]) (auto intro: same_trans)

lemma broken_reports [makes_intros]:
  "makes reporting (\<lambda>x. same_but_conditions a (snd x)) (report_broken_templates rc a faults)"
  unfolding report_broken_templates_def
  by (auto intro!: makes_bind [OF event_reports(2)] makes_bind [OF set_condition_reports])

lemma readiness_reports [makes_intros]:
  "makes reporting (same_but_conditions a) (report_unobserved_provider rc a faults)"
  "makes reporting (same_but_conditions a) (report_missing_state_keys rc a e faults)"
  "makes reporting (same_but_conditions a) (set_ready_condition rc a e faults)"
  unfolding report_unobserved_provider_def report_missing_state_keys_def set_ready_condition_def
  by (auto intro!: makes_bind [OF broken_reports] makes_bind [OF event_reports(2)]
      makes_weaken [OF set_condition_reports] elim: same_trans)

lemma applied_reports [makes_intros]:
  "makes reporting (same_but_conditions a) (set_applied_condition rc a ocs)"
  unfolding set_applied_condition_def
  by (auto intro!: makes_bind [OF event_reports(2)] set_condition_reports)

lemma out_of_force_reports [makes_intros]:
  "makes reporting (same_but_conditions a) (set_out_of_force_conditions rc a faults)"
  unfolding set_out_of_force_conditions_def
  by (rule makes_bind [OF broken_reports])
    (auto intro!: makes_bind [OF set_condition_from] set_condition_from)

lemma transition_reports [makes_intros]:
  "makes reporting (\<lambda>_. True) (report_transition rc a tr m)"
  "makes reporting (\<lambda>_. True) (transition_for a cur)"
  "makes reporting (\<lambda>_. True) (report_preview rc a ocs)"
  by (auto simp: report_transition_def transition_for_def report_preview_def Let_def
      intro!: event_reports split: option.splits)

lemma write_reports [makes_intros]:
  "makes reporting (\<lambda>_. True) (report_disagreements rc a ocs)"
  "makes reporting (\<lambda>_. True) (report_writes rc a ocs)"
  by (induction ocs) (auto intro!: makes_bind [OF event_reports(1)] event_reports split: option.splits)

lemma target_reports [makes_intros]: "makes reporting (\<lambda>_. True) (events_for_targets rc a ocs)"
  unfolding events_for_targets_def by (rule makes_bind [OF write_reports(1)]) (rule write_reports(2))

section \<open>Holding state that cannot be seen\<close>

text \<open>A status write that leaves the decision where it was.\<close>

fun holds_state :: "automation \<Rightarrow> 'q call \<Rightarrow> bool" where
  "holds_state a (CUpdateStatus b) =
     (au_matching (am_status b) = au_matching (am_status a) \<and>
      au_last_transition (am_status b) = au_last_transition (am_status a))"
| "holds_state a c = reporting c"

lemma reporting_holds: "reporting c \<Longrightarrow> holds_state a c"
  by (cases c) auto

lemma holds_quiet: "holds_state a c \<Longrightarrow> \<not> writes_target c \<and> \<not> performs_edge c"
  by (cases c) auto

lemma report_and_update:
  assumes "makes reporting (same_but_conditions b) p"
    and "au_matching (am_status b) = au_matching (am_status a)"
    and "au_last_transition (am_status b) = au_last_transition (am_status a)"
  shows "makes (holds_state a) (\<lambda>_. True) (bind p (\<lambda>b. bind (update_status b) (\<lambda>r. Ret (g r))))"
  by (rule makes_bind [OF makes_weaken [OF assms(1)]])
    (auto simp: update_status_def reporting_holds assms(2,3) dest: same_keeps)



section \<open>A failed target commits nothing\<close>

definition same_decision :: "automation \<Rightarrow> automation \<Rightarrow> bool" where
  "same_decision a b =
     (au_matching (am_status b) = au_matching (am_status a) \<and>
      au_last_transition (am_status b) = au_last_transition (am_status a))"

lemma same_decision_simps [simp]:
  "same_decision a a"
  "same_decision a (update_st (\<lambda>s. s\<lparr>au_last_execution := x\<rparr>) b) = same_decision a b"
  "same_decision a (update_st (\<lambda>s. s\<lparr>au_observed_state := f s, au_targets := ts\<rparr>) b) = same_decision a b"
  by (simp_all add: same_decision_def update_st_def)

lemma same_decision_conditions: "same_but_conditions b c \<Longrightarrow> same_decision a b \<Longrightarrow> same_decision a c"
  by (auto simp: same_decision_def dest: same_keeps)

lemma record_writes_reports: "makes reporting (same_decision a) (record_writes a ocs cl)"
  by (simp add: record_writes_def)

lemma update_holds: "same_decision a b \<Longrightarrow> makes (holds_state a) (\<lambda>_. True) (bind (update_status b) (\<lambda>r. Ret (g r)))"
  by (simp add: update_status_def same_decision_def)

lemma set_condition_holds: "same_decision a b \<Longrightarrow> makes (holds_state a) (same_decision a) (set_condition b ct st r m)"
  by (rule makes_weaken [OF set_condition_reports]) (auto intro: reporting_holds same_decision_conditions)

lemma event_holds:
  "makes (holds_state a) (\<lambda>_. True) (event_on_new_reason rc b ct t r c n)"
  "makes (holds_state a) (\<lambda>_. True) (events_for_targets rc b ocs)"
  by (auto intro: makes_weaken [OF event_reports(2)] makes_weaken [OF target_reports] reporting_holds)

lemma record_apply_failure_holds:
  assumes "same_decision a b"
  shows "makes (holds_state a) (\<lambda>_. True) (record_apply_failure rc b err cl)"
  unfolding record_apply_failure_def Let_def
  by (auto simp: assms intro!: makes_bind [OF set_condition_holds] makes_bind [OF event_holds(1)]
      makes_bind [where R = "\<lambda>_. True" and f = "\<lambda>_. bind (set_condition x y z w v) h" for x y z w v h]
      update_holds event_holds)

lemma failed_commit_holds: "makes (holds_state a) (\<lambda>_. True) (commit_pass lib rc a e faults (ocs, Some err))"
  unfolding commit_pass_def Let_def
  by (auto intro!: makes_bind [OF makes_weaken [OF record_writes_reports]] makes_bind [OF event_holds(2)]
      record_apply_failure_holds intro: reporting_holds)

text \<open>C7: A transition whose targets could not be settled is not committed. Every pass that
  decides is the settling of its targets followed by the rest; the settling performs
  no edge action, and when it ends in a failure the rest performs none either,
  writes no target, and leaves the recorded decision and transition as they were,
  so that the next pass sees the same edge again.\<close>

theorem failed_targets_commit_nothing:
  assumes "exec (decide lib rc a e faults) t y"
  shows "\<exists>before after ocs err. t = before @ after \<and>
    list_all (\<lambda>ev. \<not> performs_edge (call_of ev)) before \<and>
    exec (reconcile_targets rc a \<lparr>sn_matching = decided_matching a e,
      sn_claiming = (decided_matching a e \<and> in_force a), sn_preview = (\<not> in_force a)\<rparr> (targets_of a) [])
      before (ocs, err) \<and>
    exec (commit_pass lib rc a e faults (ocs, err)) after y \<and>
    (err \<noteq> None \<longrightarrow> list_all (\<lambda>ev. holds_state a (call_of ev)) after)"
proof -
  obtain before after x where t: "t = before @ after"
    and settled: "exec (reconcile_targets rc a \<lparr>sn_matching = decided_matching a e,
        sn_claiming = (decided_matching a e \<and> in_force a), sn_preview = (\<not> in_force a)\<rparr> (targets_of a) []) before x"
    and rest: "exec (commit_pass lib rc a e faults x) after y"
    using assms unfolding decide_def by (rule exec_bindE)
  obtain ocs err where x: "x = (ocs, err)" by (cases x)
  have "list_all (\<lambda>ev. \<not> performs_edge (call_of ev)) before"
    using edgeless_exec [OF settled edgeless_reconcile_targets] by (simp add: list_all_iff)
  moreover have "list_all (\<lambda>ev. holds_state a (call_of ev)) after" if "err = Some m" for m
    using makes_exec [OF rest [unfolded x that] failed_commit_holds] by blast
  ultimately show ?thesis using t rest settled unfolding x by blast
qed

text \<open>The sample pass over a Deployment the server does not have.\<close>

definition sample_fresh :: evaluation where
  "sample_fresh = assess \<lparr>st_provider = ''unifi'', st_state = [(''wan'', ''down'')]\<rparr>
     \<lparr>ob_provider = ''unifi'', ob_state = [(''wan'', ''down'')], ob_at = 3\<rparr> None"

definition failing_world :: world where
  "failing_world = sample_world\<lparr>wo_obj := sample_obj\<lparr>ko_key := sample_key\<lparr>tk_name := ''radarr''\<rparr>\<rparr>\<rparr>"

definition sample_decide :: "request ev list \<times> outcome \<times> world" where
  "sample_decide = play sample_server (decide sample_lib sample_reconciler sample_automation sample_fresh []) failing_world"

theorem failed_targets_commit_nothing_witness:
  "\<exists>before after ocs err. fst sample_decide = before @ after \<and>
    list_all (\<lambda>ev. \<not> performs_edge (call_of ev)) before \<and>
    exec (commit_pass sample_lib sample_reconciler sample_automation sample_fresh [] (ocs, err)) after
      (fst (snd sample_decide))"
proof -
  have "exec (decide sample_lib sample_reconciler sample_automation sample_fresh []) (fst sample_decide)
      (fst (snd sample_decide))"
    unfolding sample_decide_def by (rule played)
  from failed_targets_commit_nothing [OF this] show ?thesis by blast
qed

section \<open>The edge comes after the status write\<close>

fun edge_move :: "bool \<Rightarrow> bool \<Rightarrow> 'q ev \<Rightarrow> bool" where
  "edge_move was m (EUpdateStatus b (Inr b')) = (m \<or> is_matching (am_status b) \<noteq> was)"
| "edge_move was m _ = m"

definition edge_permit :: "bool \<Rightarrow> bool \<Rightarrow> 'q call \<Rightarrow> bool" where
  "edge_permit force m c = (performs_edge c \<longrightarrow> m \<and> force)"

lemma edge_move_mono: "m \<Longrightarrow> edge_move was m e"
  by (cases "(was, m, e)" rule: edge_move.cases) auto

lemma edge_move_iff: "edge_move was m e \<longleftrightarrow> m \<or>
    (\<exists>b b'. e = EUpdateStatus b (Inr b') \<and> is_matching (am_status b) \<noteq> was)"
  by (cases "(was, m, e)" rule: edge_move.cases) auto

lemma edge_permit_quiet: "\<not> performs_edge c \<Longrightarrow> edge_permit force m c"
  by (simp add: edge_permit_def)

abbreviation ordered :: "bool \<Rightarrow> bool \<Rightarrow> (bool \<Rightarrow> 'a \<Rightarrow> bool) \<Rightarrow> bool \<Rightarrow> ('q, 'a) prog \<Rightarrow> bool" where
  "ordered force was \<equiv> obeys (edge_permit force) (edge_move was)"

lemma ordered_edgeless: "edgeless p \<Longrightarrow> (\<And>m x. Q m x) \<Longrightarrow> ordered force was Q m p"
  unfolding edgeless_def
  by (erule obeys_invariant [where I = "\<lambda>_. True"]) (auto intro: edge_permit_quiet)

lemma ordered_True: "(\<And>m x. Q m x) \<Longrightarrow> ordered True was Q True p"
  by (rule obeys_invariant [OF calls_top, where I = "\<lambda>m. m"])
    (auto simp: edge_permit_def intro: edge_move_mono)

lemma reporting_edgeless: "makes reporting R p \<Longrightarrow> edgeless p"
  unfolding edgeless_def by (induction p) auto

lemma ordered_reports:
  assumes "makes reporting R p" and "\<And>m x. R x \<Longrightarrow> Q m x"
  shows "ordered force was Q m p"
  using assms(1)
  by (induction p arbitrary: m) (auto simp: edge_permit_def assms(2))

lemma ordered_fire:
  assumes "force \<longrightarrow> m"
  shows "ordered force was (\<lambda>_ _. True) m (fire_edges lib rc a ocs force matching)"
proof (cases force)
  case True
  then show ?thesis using assms ordered_True [of "\<lambda>_ _. True" was] by simp
next
  case False
  then show ?thesis
    by (auto simp: fire_edges_def intro!: obeys_bindI [OF ordered_reports [OF transition_reports(3),
          where Q = "\<lambda>_ _. True"]])
qed

lemma ordered_publish:
  assumes "is_matching (am_status a) = matching"
  shows "ordered force was (\<lambda>_ _. True) m (publish_pass lib rc force was matching a e faults ocs)"
proof -
  let ?R = "\<lambda>_ b. is_matching (am_status b) = matching"
  have keep: "is_matching (am_status b) = matching" if "same_but_conditions a b" for b
    using same_keeps [OF that] assms by (simp add: is_matching_def)
  have ready: "makes reporting (same_but_conditions a)
      (bind (set_ready_condition rc a e faults) (\<lambda>a. set_applied_condition rc a ocs))"
    by (rule makes_bind [OF readiness_reports(3)])
      (auto intro: makes_weaken [OF applied_reports] same_trans)
  have tail: "ordered force was (\<lambda>_ _. True) m (bind (update_status b) (\<lambda>r. case r of
       Inl failure \<Rightarrow> Ret (Inl failure)
     | Inr a \<Rightarrow> if matching \<noteq> was then fire_edges lib rc a ocs force matching
               else Ret (Inr (Some reevaluate_interval))))"
    if "is_matching (am_status b) = matching" for b m
    using that by (auto simp: update_status_def edge_permit_def intro!: ordered_fire split: sum.splits)
  have said: "ordered force was ?R m (if force
      then bind (set_ready_condition rc a e faults) (\<lambda>a. set_applied_condition rc a ocs)
      else set_out_of_force_conditions rc a faults)" for m
    by (cases force) (auto intro!: ordered_reports [OF ready] ordered_reports [OF out_of_force_reports] dest: keep)
  show ?thesis
    unfolding publish_pass_def
    by (rule obeys_bindI [OF ordered_reports [OF transition_reports(1), where Q = "\<lambda>_ _. True"]], rule TrueI)
      (rule obeys_bindI [OF said], rule tail)
qed

lemma commit_matching_reports:
  "makes reporting (\<lambda>b. is_matching (am_status b) = matching) (commit_matching a obs matching was)"
  unfolding commit_matching_def
  by (auto intro!: makes_bind [where R = "\<lambda>_. True"] transition_reports(2)
      simp: is_matching_def update_st_def)

lemma record_writes_matching:
  "makes reporting (\<lambda>b. is_matching (am_status b) = is_matching (am_status a)) (record_writes a ocs cl)"
  by (auto simp: record_writes_def is_matching_def update_st_def)

lemma ordered_commit:
  "ordered (in_force a) (is_matching (am_status a)) (\<lambda>_ _. True) m (commit_pass lib rc a e faults settled)"
proof (cases settled)
  case (Pair ocs err)
  show ?thesis
  proof (cases err)
    case (Some failure)
    then have "edgeless (commit_pass lib rc a e faults settled)"
      using failed_commit_holds [of a lib rc e faults ocs failure] Pair unfolding edgeless_def
      by (auto intro: makes_calls dest: holds_quiet)
    then show ?thesis by (rule ordered_edgeless) simp
  next
    case None
    let ?R = "\<lambda>_ b. is_matching (am_status b) = decided_matching a e"
    show ?thesis
      unfolding commit_pass_def Pair None Let_def
      by (auto intro!: obeys_bindI [OF ordered_reports [OF commit_matching_reports, where Q = ?R]]
          obeys_bindI [OF ordered_reports [OF record_writes_matching, where Q = ?R]]
          obeys_bindI [OF ordered_reports [OF target_reports, where Q = "\<lambda>_ _. True"]]
          ordered_publish simp: is_matching_def update_st_def)
  qed
qed

lemma ordered_live:
  "ordered (in_force a) (is_matching (am_status a)) (\<lambda>_ _. True) m (reconcile_live lib rc a)"
proof -
  let ?a = "\<lambda>e. update_st (\<lambda>s. s\<lparr>au_observed_at := observed_at_of e\<rparr>) a"
  have same: "in_force (?a e) = in_force a" "is_matching (am_status (?a e)) = is_matching (am_status a)" for e
    by (simp_all add: in_force_def is_matching_def update_st_def)
  have held: "ordered f w (\<lambda>_ _. True) m (bind p (\<lambda>b. bind (update_status b) (\<lambda>r. Ret (g r))))"
    if "makes reporting R p" for f w m R p g
    by (rule obeys_bindI [OF ordered_reports [OF that, where Q = "\<lambda>_ _. True"]])
      (auto simp: update_status_def edge_permit_def)
  have decided: "ordered (in_force a) (is_matching (am_status a)) (\<lambda>_ _. True) m (decide lib rc (?a e) e faults)"
    for m e faults
    unfolding decide_def
    by (rule obeys_bindI [OF ordered_edgeless [OF edgeless_reconcile_targets, where Q = "\<lambda>_ _. True"]], rule TrueI)
      (rule ordered_commit [of "?a e", unfolded same])
  show ?thesis
    unfolding reconcile_live_def Let_def
    by (rule obeys_bindI [OF ordered_edgeless [OF quiet_edgeless [OF quiet_reading(1)], where Q = "\<lambda>_ _. True"]],
        rule TrueI)
      (auto intro!: held [OF readiness_reports(1)] held [OF readiness_reports(2)] decided)
qed

lemma edge_seen:
  "foldl (edge_move was) m t \<Longrightarrow> m \<or> (\<exists>b b'. EUpdateStatus b (Inr b') \<in> set t \<and> is_matching (am_status b) \<noteq> was)"
  by (induction t arbitrary: m) (auto simp: edge_move_iff dest!: meta_spec)

lemma split_later:
  assumes "t1 @ t2 = before @ e # after" and "e \<notin> set t1"
  obtains more where "before = t1 @ more" and "t2 = more @ e # after"
proof -
  from assms(1) consider us where "t1 = before @ us" "us @ t2 = e # after"
    | us where "t1 @ us = before" "t2 = us @ e # after"
    unfolding append_eq_append_conv2 by auto
  then show ?thesis
  proof cases
    case (1 us)
    then have "us = []" using assms(2) by (cases us) auto
    then show ?thesis using 1 that [of "[]"] by simp
  next
    case (2 us)
    then show ?thesis using that [of us] by simp
  qed
qed

text \<open>A pass that performs an edge action got as far as a live Automation, as last read or updated.\<close>

lemma edge_in_live:
  assumes "exec (reconcile lib rc ns name) t y" and "e \<in> set t" and "performs_edge (call_of e)"
  obtains a r t1 t2 where "t = (EGetAutomation ns name r # t1) @ t2" and "e \<notin> set (EGetAutomation ns name r # t1)"
    and "EGetAutomation ns name (Inr a) \<in> set (EGetAutomation ns name r # t1) \<or>
      (\<exists>a0. EUpdateAutomation a0 (Inr a) \<in> set (EGetAutomation ns name r # t1))"
    and "exec (reconcile_live lib rc a) t2 y"
proof -
  obtain r t0 where t: "t = EGetAutomation ns name r # t0"
    and k: "exec (case r of Inl e \<Rightarrow> Ret (if ke_reason e = NotFound then Inr None else Inl e)
     | Inr a \<Rightarrow>
         if am_deleting a then finalize rc a
         else if sp_when (am_spec a) = None
         then bind (event rc a event_warning reason_trigger_removed action_reconcile
                (''spec.trigger was removed from v1alpha1 and was never implemented; this automation does nothing, ''
                 @ ''delete it'')) (\<lambda>_. Ret (Inr None))
         else bind (reconcile_finalizer rc a) (\<lambda>f. case f of
                Inl e \<Rightarrow> Ret (Inl e)
              | Inr a \<Rightarrow> reconcile_live lib rc a)) t0 y"
    using assms(1) unfolding reconcile_def by (cases t) auto
  have e0: "e \<in> set t0" using assms(2,3) t by auto
  obtain a0 where r: "r = Inr a0" using k e0 by (cases r) auto
  have "\<not> am_deleting a0"
    using k r edgeless_exec [OF _ edgeless_finalize e0] assms(3) by auto
  moreover have "sp_when (am_spec a0) \<noteq> None"
    using k r calculation assms(3)
      edgeless_exec [OF _ edgeless_bind [OF quiet_edgeless [OF quiet_events(1)] edgeless_simps(1)] e0]
    by (auto split: if_splits)
  ultimately have live: "\<not> am_deleting a0" "sp_when (am_spec a0) \<noteq> None" by auto
  then obtain t1 t2 f where t0: "t0 = t1 @ t2" and fin: "exec (reconcile_finalizer rc a0) t1 f"
    and rest: "exec (case f of Inl e \<Rightarrow> Ret (Inl e) | Inr a \<Rightarrow> reconcile_live lib rc a) t2 y"
    using k r by (auto elim!: exec_bindE)
  have e1: "e \<notin> set t1"
    using edgeless_exec [OF fin quiet_edgeless [OF quiet_failure(2)]] assms(3) by blast
  then have "e \<in> set t2" using e0 t0 by simp
  then obtain a where f: "f = Inr a" using rest by (cases f) auto
  have read: "EGetAutomation ns name (Inr a) \<in> set (EGetAutomation ns name r # t1) \<or>
      (\<exists>a0. EUpdateAutomation a0 (Inr a) \<in> set (EGetAutomation ns name r # t1))"
    using fin f r
    by (cases t1) (auto simp: reconcile_finalizer_def Let_def add_finalizer_def remove_finalizer_def split: if_splits)
  show thesis
  proof (rule that [OF _ _ read])
    show "t = (EGetAutomation ns name r # t1) @ t2" using t t0 by simp
    show "e \<notin> set (EGetAutomation ns name r # t1)" using e1 assms(3) by auto
    show "exec (reconcile_live lib rc a) t2 y" using rest f by simp
  qed
qed



end
