(* ===== verification/Peers.thy ===== *)
theory Peers
  imports Passes
begin

text \<open>
  What arbitration across Automations guarantees: the level is the meet of the claims,
  the order in which the API server lists the Automations is invisible, a preview
  says what would be applied, a disagreement is reported exactly when there is
  one, a target another controller drives is left alone, and releasing what was
  claimed puts it back.
\<close>

section \<open>The meet\<close>

text \<open>C3: Competing claims resolve to their meet. Without claims there is nothing to enforce;
  otherwise the level is the lowest any claim asks for, so it satisfies every
  safety intent, the winners are exactly those who asked for it and the rest are
  deferred, both sorted, and one claim more can only lower it.\<close>

theorem resolve_is_meet:
  "case resolve is of None \<Rightarrow> is = []
   | Some r \<Rightarrow>
      (\<exists>i \<in> set is. in_level i = rs_level r) \<and> list_all (\<lambda>i. rs_level r \<le> in_level i) is \<and>
      mset (rs_winners r) = image_mset in_claimant (filter_mset (\<lambda>i. in_level i = rs_level r) (mset is)) \<and>
      mset (rs_deferred r) = image_mset in_claimant (filter_mset (\<lambda>i. rs_level r < in_level i) (mset is)) \<and>
      sorted (rs_winners r) \<and> sorted (rs_deferred r) \<and>
      map_option rs_level (resolve (is @ [c])) = Some (min (rs_level r) (in_level c))"
proof (cases "resolve is")
  case (Some r)
  have low: "rs_level r \<le> in_level i" if "i \<in> set is" for i using arb.level_below_all [OF Some that] .
  then have "filter_mset (\<lambda>i. rs_level r < in_level i) (mset is) = filter_mset (\<lambda>i. in_level i \<noteq> rs_level r) (mset is)"
    by (intro filter_mset_cong) force+
  moreover obtain r' where r': "resolve (is @ [c]) = Some r'" by (simp add: resolve_nonempty)
  ultimately show ?thesis
    using Some low arb.level_is_asked [OF Some] arb.winners_are [OF Some] arb.deferred_are [OF Some]
      arb.add_claim_meet [OF Some r']
    by (auto simp: list_all_iff)
qed (simp add: arb.unclaimed)

section \<open>Asking the peers\<close>

text \<open>A server whose state store only answers.\<close>

definition steady :: "('q, 's) server \<Rightarrow> bool" where
  "steady v = (\<forall>p s. snd (sv_store_get v p s) = s \<and> snd (sv_store_freshness v p s) = s)"

definition peer_matches :: "('q, 's) server \<Rightarrow> 's \<Rightarrow> automation \<Rightarrow> bool \<Rightarrow> automation \<Rightarrow> bool" where
  "peer_matches v s self claims peer =
     (if claimant_of peer = claimant_of self then claims
      else in_force peer \<and> fst (run v (matching_of peer) s))"

definition claim_of :: "target_key \<Rightarrow> (automation \<Rightarrow> bool) \<Rightarrow> automation \<Rightarrow> intent option" where
  "claim_of key m peer = claim_for peer key (m peer)"

definition reversal_of :: "target_key \<Rightarrow> int option \<Rightarrow> (automation \<Rightarrow> bool) \<Rightarrow> automation \<Rightarrow> intent option" where
  "reversal_of key b m peer = (if m peer then None else reversal_for peer key b)"

lemma map_filter_Nil [simp]: "List.map_filter f [] = []"
  by (simp add: List.map_filter_def)

lemma map_filter_Cons: "List.map_filter f (x # xs) = (case f x of None \<Rightarrow> [] | Some y \<Rightarrow> [y]) @ List.map_filter f xs"
  by (simp add: List.map_filter_def split: option.splits)

lemma map_filter_same: "(\<And>x. x \<in> set xs \<Longrightarrow> f x = g x) \<Longrightarrow> List.map_filter f xs = List.map_filter g xs"
proof (induction xs)
  case (Cons x xs)
  have "f x = g x" and "List.map_filter f xs = List.map_filter g xs" using Cons by simp_all
  then show ?case unfolding map_filter_Cons by simp
qed simp

lemma map_filter_set: "set (List.map_filter f xs) = {y. \<exists>x \<in> set xs. f x = Some y}"
  by (induction xs) (auto simp: map_filter_Cons split: option.splits)

lemma map_filter_perm: "mset xs = mset ys \<Longrightarrow> mset (List.map_filter f xs) = mset (List.map_filter f ys)"
  unfolding List.map_filter_def by (rule mset_map_filter_cong)

lemma take_side_adds:
  "take_side key b p (m p) acc =
     (fst acc @ (case claim_of key m p of None \<Rightarrow> [] | Some c \<Rightarrow> [c]),
      snd acc @ (case reversal_of key b m p of None \<Rightarrow> [] | Some r \<Rightarrow> [r]))"
  by (auto simp: take_side_def claim_of_def reversal_of_def claim_for_def split: option.splits)

lemma run_matching:
  "steady v \<Longrightarrow> run v (matching_of a) s = (fst (run v (matching_of a) s), s)"
  by (auto simp: matching_of_def evaluate_def steady_def run_bind split: option.splits prod.splits)
    (metis snd_conv)+

lemma run_gather:
  assumes "steady v"
  shows "run v (gather key self cl b peers acc) s =
    ((fst acc @ List.map_filter (claim_of key (peer_matches v s self cl)) peers,
      snd acc @ List.map_filter (reversal_of key b (peer_matches v s self cl)) peers), s)"
proof (induction peers arbitrary: acc)
  case Nil
  then show ?case by simp
next
  case (Cons p peers)
  let ?m = "peer_matches v s self cl"
  have "run v (gather key self cl b (p # peers) acc) s = run v (gather key self cl b peers (take_side key b p (?m p) acc)) s"
    by (auto simp: peer_matches_def run_bind split: prod.splits) (metis run_matching [OF assms, of p] fst_conv prod.inject)+
  then show ?case
    unfolding Cons.IH take_side_adds [of key b p ?m] map_filter_Cons by simp
qed

section \<open>The order of the list\<close>

lemma resolve_perm: "mset is = mset js \<Longrightarrow> resolve is = resolve js"
  by (rule arb.order_independent)

lemma sort_key_distinct:
  assumes "mset xs = mset ys" and "distinct (map f xs)"
  shows "sort_key f xs = sort_key f ys"
proof -
  have "sort (map f zs) = map f (sort_key f zs)" for zs by (rule properties_for_sort) simp_all
  moreover have "sort (map f xs) = sort (map f ys)" using assms(1) by (metis mset_map sort_perm)
  moreover have "inj_on f (set (sort_key f xs) \<union> set (sort_key f ys))"
    using assms by (simp add: distinct_map mset_eq_setD [OF assms(1)] Un_absorb)
  ultimately show ?thesis using map_inj_on [of f "sort_key f xs" "sort_key f ys"] by metis
qed

lemma disagreement_perm:
  assumes "mset is = mset js" and "distinct (map in_claimant is)"
  shows "disagreement_over h is = disagreement_over h js"
proof -
  have sets: "set is = set js" and len: "length is = length js"
    using assms(1) by (auto dest: mset_eq_setD mset_eq_length)
  have ex: "list_ex (\<lambda>i. in_level i \<noteq> in_level (hd is)) is = list_ex (\<lambda>i. in_level i \<noteq> in_level (hd js)) js"
    if "is \<noteq> []"
  proof -
    have "hd is \<in> set js" "hd js \<in> set is" using that sets by (metis hd_in_set list.set_sel(1) set_empty)+
    then show ?thesis unfolding list_ex_iff sets by metis
  qed
  let ?say = "\<lambda>i. \<lparr>ri_claimant = in_claimant i, ri_desired = int32 (in_level i), ri_level = th_describe h (in_level i)\<rparr>"
  have "sort_key ri_claimant (map ?say is) = sort_key ri_claimant (map ?say js)"
    using assms by (intro sort_key_distinct) (simp_all add: comp_def)
  then show ?thesis using len ex unfolding disagreement_over_def by (cases "is = []") auto
qed

lemma settle_perm:
  assumes "mset claims = mset claims'" and "mset reversals = mset reversals'"
  shows "settle_target rc h self target recorded claims reversals oc =
    settle_target rc h self target recorded claims' reversals' oc"
proof -
  have names: "sort (map in_claimant claims) = sort (map in_claimant claims')"
    using assms(1) by (metis mset_map sort_perm)
  show ?thesis
    unfolding settle_target_def claim_target_def resolve_perm [OF assms(1)] resolve_perm [OF assms(2)] names ..
qed

lemma preview_perm:
  assumes "mset claims = mset claims'"
  shows "preview_for h self key target claims b = preview_for h self key target claims' b"
proof -
  have more: "resolve (claims @ [c]) = resolve (claims' @ [c])" for c using assms by (intro resolve_perm) simp
  show ?thesis unfolding preview_for_def deferred_now_def resolve_perm [OF assms] more ..
qed

lemma dispatch_perm:
  assumes "mset (fst sides) = mset (fst sides')" and "mset (snd sides) = mset (snd sides')"
  shows "dispatch_target rc h key self preview target base sides oc = dispatch_target rc h key self preview target base sides' oc"
  unfolding dispatch_target_def settle_perm [OF assms] preview_perm [OF assms(1)] ..

lemma reversal_claimants:
  "map in_claimant (reversal_intents peers key b) =
     map claimant_of (filter (\<lambda>p. reversal_for p key b \<noteq> None) peers)"
  by (induction peers) (auto simp: reversal_intents_def List.map_filter_def dest: reversal_for_claimant)

text \<open>The order in which the API server lists the Automations is invisible. Whatever two
  orders the Automations sharing a target come in, the whole of what is done to
  the target, every call and every answer taken, and the outcome reported are the
  same, against any server whose state store only answers.\<close>

theorem listing_order_invisible:
  assumes "steady v" and "mset peers = mset peers'" and "distinct (map claimant_of peers)"
  shows "run v (arbitrate_target rc h key self sn peers target) s =
    run v (arbitrate_target rc h key self sn peers' target) s"
proof -
  have dis: "disagreement_over h (reversal_intents peers key b) = disagreement_over h (reversal_intents peers' key b)" for b
  proof (rule disagreement_perm)
    show "mset (reversal_intents peers key b) = mset (reversal_intents peers' key b)"
      unfolding reversal_intents_def by (rule map_filter_perm [OF assms(2)])
    show "distinct (map in_claimant (reversal_intents peers key b))"
      unfolding reversal_claimants using assms(3) by (rule distinct_map_filter)
  qed
  have "dispatch_target rc h key self preview target base (List.map_filter f peers, List.map_filter g peers) oc =
      dispatch_target rc h key self preview target base (List.map_filter f peers', List.map_filter g peers') oc"
    for preview base f g oc
    by (rule dispatch_perm) (simp_all add: map_filter_perm [OF assms(2)])
  then show ?thesis
    unfolding arbitrate_target_def Let_def run_bind run_gather [OF assms(1)] dis by simp
qed

definition second_automation :: automation where
  "second_automation = sample_automation\<lparr>am_name := ''other''\<rparr>"

definition sample_arbitration :: "automation list \<Rightarrow> (target_outcome \<times> string option) \<times> world" where
  "sample_arbitration peers = run (sample_server :: (unit, world) server)
     (arbitrate_target sample_reconciler sample_handler sample_key sample_automation claiming_stance peers sample_obj)
     sample_world"

theorem listing_order_invisible_witness:
  "sample_arbitration [sample_automation, second_automation] = sample_arbitration [second_automation, sample_automation]"
  unfolding sample_arbitration_def
  by (rule listing_order_invisible)
    (simp_all add: steady_def sample_server_def second_automation_def claimant_of_def sample_automation_def)

section \<open>Previews and disagreements\<close>

lemma preview_effective:
  assumes "exec (preview_for h self key target claims b) t pv" and "claim_for self key True = Some c"
  shows "pv_effective pv = map_option (int32 \<circ> rs_level) (resolve (claims @ [c]))"
  using assms
  by (auto simp: preview_for_def Let_def elim!: exec_bindE split: option.splits)

lemma gather_claims:
  "List.map_filter (claim_of key (peer_matches v s self True)) peers =
   List.map_filter (\<lambda>p. if claimant_of p = claimant_of self then claim_for p key True
                        else claim_of key (peer_matches v s self False) p) peers"
  by (rule arg_cong [where f = "\<lambda>f. List.map_filter f peers"]) (auto simp: claim_of_def peer_matches_def)

text \<open>A preview tells the truth. While an Automation is not in force, the level its preview
  reports for a target is the level that the claims gathered by the same pass would
  resolve to if it were in force and matching, against any server whose state store
  only answers.\<close>

theorem preview_predicts:
  fixes v :: "('q, 's) server"
  assumes "steady v" and "distinct (map claimant_of (self # peers))" and "claim_for self key True = Some c"
    and "exec (preview_for h self key target (fst (fst (run v (gather key self False b (self # peers) ([], [])) s))) b) t pv"
  shows "pv_effective pv =
    map_option (int32 \<circ> rs_level) (resolve (fst (fst (run v (gather key self True b (self # peers) ([], [])) s))))"
proof -
  let ?out = "List.map_filter (claim_of key (peer_matches v s self False)) peers"
  have "List.map_filter (claim_of key (peer_matches v s self True)) peers = ?out"
    unfolding gather_claims
    using assms(2) by (intro map_filter_same) (auto simp: image_iff)
  then have "fst (fst (run v (gather key self True b (self # peers) ([], [])) s)) = c # ?out"
    unfolding run_gather [OF assms(1)]
    using assms(3) by (simp add: map_filter_Cons claim_of_def peer_matches_def)
  moreover have "fst (fst (run v (gather key self False b (self # peers) ([], [])) s)) = ?out"
    unfolding run_gather [OF assms(1)]
    by (simp add: map_filter_Cons claim_of_def peer_matches_def claim_for_def)
  moreover have "resolve (?out @ [c]) = resolve (c # ?out)" by (rule resolve_perm) simp
  ultimately show ?thesis using preview_effective [OF assms(4,3)] by simp
qed

text \<open>A disagreement is reported exactly when there is one. The outcome of a target lists
  reversals exactly when two Automations referencing it ask for different levels on
  release; then it lists every reversal once, ordered by Automation, with the level
  each would hand the target back at.\<close>

theorem disagreement_exact:
  "if \<exists>p \<in> set peers. \<exists>q \<in> set peers. \<exists>i j. reversal_for p key b = Some i \<and> reversal_for q key b = Some j \<and>
        in_level i \<noteq> in_level j
   then disagreement_over h (reversal_intents peers key b) \<noteq> [] \<and>
     mset (map ri_claimant (disagreement_over h (reversal_intents peers key b))) =
       mset (map claimant_of (filter (\<lambda>p. reversal_for p key b \<noteq> None) peers)) \<and>
     sorted (map ri_claimant (disagreement_over h (reversal_intents peers key b)))
   else disagreement_over h (reversal_intents peers key b) = []"
proof -
  have "set (reversal_intents peers key b) = {i. \<exists>p \<in> set peers. reversal_for p key b = Some i}"
    by (simp add: reversal_intents_def map_filter_set)
  then have iff: "disagreement_over h (reversal_intents peers key b) \<noteq> [] \<longleftrightarrow>
     (\<exists>p \<in> set peers. \<exists>q \<in> set peers. \<exists>i j. reversal_for p key b = Some i \<and> reversal_for q key b = Some j \<and>
        in_level i \<noteq> in_level j)"
    unfolding disagreement_iff by blast
  have "mset (map ri_claimant (disagreement_over h is)) = mset (map in_claimant is) \<and>
      sorted (map ri_claimant (disagreement_over h is))" if "disagreement_over h is \<noteq> []" for "is"
    using that by (auto simp: disagreement_over_def multiset.map_comp comp_def split: if_splits)
  then show ?thesis unfolding iff [symmetric] reversal_claimants [symmetric] by simp
qed

theorem preview_predicts_witness:
  "pv_effective (fst (run sample_server (preview_for (sample_handler :: unit target_handler) sample_automation sample_key
      sample_obj [] None) sample_world)) = Some 0"
proof -
  let ?v = "sample_server :: (unit, world) server"
  let ?p = "preview_for (sample_handler :: unit target_handler) sample_automation sample_key sample_obj"
  have claims: "fst (fst (run ?v (gather sample_key sample_automation False None [sample_automation] ([], [])) sample_world)) = []"
    and claims': "map_option (int32 \<circ> rs_level) (resolve (fst (fst (run ?v (gather sample_key sample_automation True None
        [sample_automation] ([], [])) sample_world)))) = Some 0"
    and self: "claim_for sample_automation sample_key True = Some \<lparr>in_claimant = ''media/failover'', in_level = 0\<rparr>"
    by code_simp+
  have steady: "steady ?v" by (simp add: steady_def sample_server_def)
  have ran: "fst (run ?v (?p [] None) sample_world) = fst (snd (play ?v (?p [] None) sample_world))"
    by (metis fst_conv play_run prod.collapse)
  show ?thesis
    unfolding ran claims' [symmetric]
    by (rule preview_predicts [OF steady _ self, where target = sample_obj and t = "fst (play ?v (?p [] None) sample_world)" and h = sample_handler])
      (simp_all only: claims played, simp)
qed

end
