(* ===== verification/Race.thy ===== *)
theory Race
  imports Passes
begin

text \<open>
  Several reconciles of one target at once: the controller runs four workers, and two
  Automations sharing a target are two objects. Each worker is a program; a step is
  one call of one of them, so every interleaving is a sequence of steps. The API
  server is a parameter, and what is relied on of it is \<open>api_server\<close>: reads answer the
  stored object, a merge patch changes exactly the fields its base and its object
  differ in, a patch carrying a resource version is refused when the stored version
  is another, every accepted write advances the version, and a refused one changes
  nothing.
\<close>

section \<open>Interleaving\<close>

primrec serve :: "('q, 's) server \<Rightarrow> ('q, 'a) prog \<Rightarrow> 's \<Rightarrow> (('q, 'a) prog \<times> 's) option" where
  "serve v (Ret x) s = None"
| "serve v (KGet k f) s = (case sv_get v k s of (r, s') \<Rightarrow> Some (f r, s'))"
| "serve v (KPatch o1 b o2 f) s = (case sv_patch v o1 b o2 s of (r, s') \<Rightarrow> Some (f r, s'))"
| "serve v (KGetScale k f) s = (case sv_get_scale v k s of (r, s') \<Rightarrow> Some (f r, s'))"
| "serve v (KUpdateScale k sc f) s = (case sv_update_scale v k sc s of (r, s') \<Rightarrow> Some (f r, s'))"
| "serve v (KGetAutomation n m f) s = (case sv_get_automation v n m s of (r, s') \<Rightarrow> Some (f r, s'))"
| "serve v (KListAutomations n f) s = (case sv_list_automations v n s of (r, s') \<Rightarrow> Some (f r, s'))"
| "serve v (KUpdateAutomation a f) s = (case sv_update_automation v a s of (r, s') \<Rightarrow> Some (f r, s'))"
| "serve v (KUpdateStatus a f) s = (case sv_update_status v a s of (r, s') \<Rightarrow> Some (f r, s'))"
| "serve v (KListHPAs n f) s = (case sv_list_hpas v n s of (r, s') \<Rightarrow> Some (f r, s'))"
| "serve v (KStoreGet p f) s = (case sv_store_get v p s of (r, s') \<Rightarrow> Some (f r, s'))"
| "serve v (KStoreFreshness p f) s = (case sv_store_freshness v p s of (r, s') \<Rightarrow> Some (f r, s'))"
| "serve v (KNow f) s = (case sv_now v s of (r, s') \<Rightarrow> Some (f r, s'))"
| "serve v (KEvent e p) s = Some (p, sv_event v e s)"
| "serve v (KExpired f) s = (case sv_expired v s of (r, s') \<Rightarrow> Some (f r, s'))"
| "serve v (KGetSecret n m f) s = (case sv_get_secret v n m s of (r, s') \<Rightarrow> Some (f r, s'))"
| "serve v (KOutbound q f) s = (case sv_outbound v q s of (r, s') \<Rightarrow> Some (f r, s'))"
| "serve v (KConsole a d f) s = (case sv_console v a d s of (r, s') \<Rightarrow> Some (f r, s'))"
| "serve v (KGetDeployment n m f) s = (case sv_get_deployment v n m s of (r, s') \<Rightarrow> Some (f r, s'))"
| "serve v (KPatchDeployment d1 d2 f) s = (case sv_patch_deployment v d1 d2 s of (r, s') \<Rightarrow> Some (f r, s'))"
| "serve v (KPollAgain d f) s = (case sv_poll_again v d s of (r, s') \<Rightarrow> Some (f r, s'))"

text \<open>The server's state after one call.\<close>

primrec after_call :: "('q, 's) server \<Rightarrow> 'q call \<Rightarrow> 's \<Rightarrow> 's" where
  "after_call v (CGet k) s = snd (sv_get v k s)"
| "after_call v (CPatch base guard new) s = snd (sv_patch v base guard new s)"
| "after_call v (CGetScale k) s = snd (sv_get_scale v k s)"
| "after_call v (CUpdateScale k sc) s = snd (sv_update_scale v k sc s)"
| "after_call v (CGetAutomation n m) s = snd (sv_get_automation v n m s)"
| "after_call v (CListAutomations n) s = snd (sv_list_automations v n s)"
| "after_call v (CUpdateAutomation a) s = snd (sv_update_automation v a s)"
| "after_call v (CUpdateStatus a) s = snd (sv_update_status v a s)"
| "after_call v (CListHPAs n) s = snd (sv_list_hpas v n s)"
| "after_call v (CStoreGet p) s = snd (sv_store_get v p s)"
| "after_call v (CStoreFreshness p) s = snd (sv_store_freshness v p s)"
| "after_call v CNow s = snd (sv_now v s)"
| "after_call v (CEvent e) s = sv_event v e s"
| "after_call v CExpired s = snd (sv_expired v s)"
| "after_call v (CGetSecret n m) s = snd (sv_get_secret v n m s)"
| "after_call v (COutbound q) s = snd (sv_outbound v q s)"
| "after_call v (CConsole a d) s = snd (sv_console v a d s)"
| "after_call v (CGetDeployment n m) s = snd (sv_get_deployment v n m s)"
| "after_call v (CPatchDeployment d1 d2) s = snd (sv_patch_deployment v d1 d2 s)"
| "after_call v (CPollAgain d) s = snd (sv_poll_again v d s)"

inductive sys_step :: "('q, 's) server \<Rightarrow> ('q, 'a) prog list \<times> 's \<Rightarrow> ('q, 'a) prog list \<times> 's \<Rightarrow> bool"
  for v :: "('q, 's) server" where
  worker: "i < length ps \<Longrightarrow> serve v (ps ! i) s = Some (p, s') \<Longrightarrow> sys_step v (ps, s) (ps[i := p], s')"

inductive_cases sys_stepE: "sys_step v (ps, s) y"

definition reaches :: "('q, 's) server \<Rightarrow> ('q, 'a) prog list \<times> 's \<Rightarrow> ('q, 'a) prog list \<times> 's \<Rightarrow> bool" where
  "reaches v = (sys_step v)\<^sup>*\<^sup>*"

text \<open>A schedule names the worker that moves at each step.\<close>

fun follow :: "('q, 's) server \<Rightarrow> nat list \<Rightarrow> ('q, 'a) prog list \<times> 's \<Rightarrow> (('q, 'a) prog list \<times> 's) option" where
  "follow v [] c = Some c"
| "follow v (i # is) (ps, s) =
     (if i < length ps
      then (case serve v (ps ! i) s of None \<Rightarrow> None | Some (p, s') \<Rightarrow> follow v is (ps[i := p], s'))
      else None)"

lemma follow_reaches: "follow v is c = Some c' \<Longrightarrow> reaches v c c'"
proof (induction v "is" c rule: follow.induct)
  case (2 v i "is" ps s)
  then obtain p s' where i: "i < length ps" "serve v (ps ! i) s = Some (p, s')"
    and rest: "follow v is (ps[i := p], s') = Some c'"
    by (auto split: if_splits option.splits)
  from 2(1) [OF i refl rest] show ?case
    using converse_rtranclp_into_rtranclp [of "sys_step v", OF sys_step.worker [OF i]]
    unfolding reaches_def by blast
qed (simp add: reaches_def)

section \<open>Rely and guarantee\<close>

text \<open>
  \<open>guarded G v Q p s\<close>: started in \<open>s\<close>, every call of \<open>p\<close> changes the server only by \<open>G\<close>,
  and \<open>p\<close> returns with \<open>Q\<close>, however many \<open>G\<close> changes others make before each call.
\<close>

primrec guarded :: "('s \<Rightarrow> 's \<Rightarrow> bool) \<Rightarrow> ('q, 's) server \<Rightarrow> ('a \<Rightarrow> 's \<Rightarrow> bool) \<Rightarrow> ('q, 'a) prog \<Rightarrow> 's \<Rightarrow> bool" where
  "guarded G v Q (Ret x) s = (\<forall>s1. G s s1 \<longrightarrow> Q x s1)"
| "guarded G v Q (KGet k f) s = (\<forall>s1. G s s1 \<longrightarrow> (case sv_get v k s1 of (r, s2) \<Rightarrow> G s1 s2 \<and> guarded G v Q (f r) s2))"
| "guarded G v Q (KPatch o1 b o2 f) s = (\<forall>s1. G s s1 \<longrightarrow> (case sv_patch v o1 b o2 s1 of (r, s2) \<Rightarrow> G s1 s2 \<and> guarded G v Q (f r) s2))"
| "guarded G v Q (KGetScale k f) s = (\<forall>s1. G s s1 \<longrightarrow> (case sv_get_scale v k s1 of (r, s2) \<Rightarrow> G s1 s2 \<and> guarded G v Q (f r) s2))"
| "guarded G v Q (KUpdateScale k sc f) s = (\<forall>s1. G s s1 \<longrightarrow> (case sv_update_scale v k sc s1 of (r, s2) \<Rightarrow> G s1 s2 \<and> guarded G v Q (f r) s2))"
| "guarded G v Q (KGetAutomation n m f) s = (\<forall>s1. G s s1 \<longrightarrow> (case sv_get_automation v n m s1 of (r, s2) \<Rightarrow> G s1 s2 \<and> guarded G v Q (f r) s2))"
| "guarded G v Q (KListAutomations n f) s = (\<forall>s1. G s s1 \<longrightarrow> (case sv_list_automations v n s1 of (r, s2) \<Rightarrow> G s1 s2 \<and> guarded G v Q (f r) s2))"
| "guarded G v Q (KUpdateAutomation a f) s = (\<forall>s1. G s s1 \<longrightarrow> (case sv_update_automation v a s1 of (r, s2) \<Rightarrow> G s1 s2 \<and> guarded G v Q (f r) s2))"
| "guarded G v Q (KUpdateStatus a f) s = (\<forall>s1. G s s1 \<longrightarrow> (case sv_update_status v a s1 of (r, s2) \<Rightarrow> G s1 s2 \<and> guarded G v Q (f r) s2))"
| "guarded G v Q (KListHPAs n f) s = (\<forall>s1. G s s1 \<longrightarrow> (case sv_list_hpas v n s1 of (r, s2) \<Rightarrow> G s1 s2 \<and> guarded G v Q (f r) s2))"
| "guarded G v Q (KStoreGet p f) s = (\<forall>s1. G s s1 \<longrightarrow> (case sv_store_get v p s1 of (r, s2) \<Rightarrow> G s1 s2 \<and> guarded G v Q (f r) s2))"
| "guarded G v Q (KStoreFreshness p f) s = (\<forall>s1. G s s1 \<longrightarrow> (case sv_store_freshness v p s1 of (r, s2) \<Rightarrow> G s1 s2 \<and> guarded G v Q (f r) s2))"
| "guarded G v Q (KNow f) s = (\<forall>s1. G s s1 \<longrightarrow> (case sv_now v s1 of (r, s2) \<Rightarrow> G s1 s2 \<and> guarded G v Q (f r) s2))"
| "guarded G v Q (KEvent e p) s = (\<forall>s1. G s s1 \<longrightarrow> G s1 (sv_event v e s1) \<and> guarded G v Q p (sv_event v e s1))"
| "guarded G v Q (KExpired f) s = (\<forall>s1. G s s1 \<longrightarrow> (case sv_expired v s1 of (r, s2) \<Rightarrow> G s1 s2 \<and> guarded G v Q (f r) s2))"
| "guarded G v Q (KGetSecret n m f) s = (\<forall>s1. G s s1 \<longrightarrow> (case sv_get_secret v n m s1 of (r, s2) \<Rightarrow> G s1 s2 \<and> guarded G v Q (f r) s2))"
| "guarded G v Q (KOutbound q f) s = (\<forall>s1. G s s1 \<longrightarrow> (case sv_outbound v q s1 of (r, s2) \<Rightarrow> G s1 s2 \<and> guarded G v Q (f r) s2))"
| "guarded G v Q (KConsole a d f) s = (\<forall>s1. G s s1 \<longrightarrow> (case sv_console v a d s1 of (r, s2) \<Rightarrow> G s1 s2 \<and> guarded G v Q (f r) s2))"
| "guarded G v Q (KGetDeployment n m f) s = (\<forall>s1. G s s1 \<longrightarrow> (case sv_get_deployment v n m s1 of (r, s2) \<Rightarrow> G s1 s2 \<and> guarded G v Q (f r) s2))"
| "guarded G v Q (KPatchDeployment d1 d2 f) s = (\<forall>s1. G s s1 \<longrightarrow> (case sv_patch_deployment v d1 d2 s1 of (r, s2) \<Rightarrow> G s1 s2 \<and> guarded G v Q (f r) s2))"
| "guarded G v Q (KPollAgain d f) s = (\<forall>s1. G s s1 \<longrightarrow> (case sv_poll_again v d s1 of (r, s2) \<Rightarrow> G s1 s2 \<and> guarded G v Q (f r) s2))"

locale interference =
  fixes G :: "'s \<Rightarrow> 's \<Rightarrow> bool"
  assumes refl: "G s s"
    and trans: "G s s' \<Longrightarrow> G s' s'' \<Longrightarrow> G s s''"
begin

lemma guarded_later: "guarded G v Q p s \<Longrightarrow> G s s' \<Longrightarrow> guarded G v Q p s'"
  by (cases p) (auto dest: trans)

lemma guarded_conseq:
  "guarded G v Q p s \<Longrightarrow> (\<And>x s. Q x s \<Longrightarrow> R x s) \<Longrightarrow> guarded G v R p s"
  by (induction p arbitrary: s; simp split: prod.splits; blast)

lemma guarded_bind:
  "guarded G v (\<lambda>x s. guarded G v R (f x) s) p s \<Longrightarrow> guarded G v R (bind p f) s"
  by (induction p arbitrary: s; simp split: prod.splits; (blast intro: refl)?)

lemma guarded_bindI:
  "guarded G v Q p s \<Longrightarrow> (\<And>x s. Q x s \<Longrightarrow> guarded G v R (f x) s) \<Longrightarrow> guarded G v R (bind p f) s"
  by (rule guarded_bind) (erule guarded_conseq)

text \<open>What \<open>G\<close> keeps is known at every return.\<close>

lemma guarded_keep:
  "guarded G v Q p s \<Longrightarrow> I s \<Longrightarrow> (\<And>s s'. I s \<Longrightarrow> G s s' \<Longrightarrow> I s') \<Longrightarrow> guarded G v (\<lambda>x s. Q x s \<and> I s) p s"
  by (induction p arbitrary: s; simp split: prod.splits; blast)

text \<open>A program none of whose calls moves the server more than \<open>G\<close> allows.\<close>

lemma guarded_serve:
  "guarded G v Q p s \<Longrightarrow> serve v p s = Some (p', s') \<Longrightarrow> G s s' \<and> guarded G v Q p' s'"
  by (cases p) (auto split: prod.splits intro: refl)

theorem guarded_step:
  assumes "list_all (\<lambda>p. guarded G v (\<lambda>_ _. True) p s) ps" and "sys_step v (ps, s) (ps', s')"
  shows "G s s' \<and> list_all (\<lambda>p. guarded G v (\<lambda>_ _. True) p s') ps'"
  using assms(2)
proof cases
  case (worker i p)
  then have p: "G s s'" "guarded G v (\<lambda>_ _. True) p s'"
    using assms(1) guarded_serve [of v _ "ps ! i" s p s'] by (auto simp: list_all_length)
  then show ?thesis
    using assms(1) worker(1)
    by (auto simp: list_all_iff intro: guarded_later dest!: subsetD [OF set_update_subset_insert])
qed

theorem guarded_reaches:
  assumes "reaches v (ps, s) (ps', s')" and "list_all (\<lambda>p. guarded G v (\<lambda>_ _. True) p s) ps"
  shows "G s s' \<and> list_all (\<lambda>p. guarded G v (\<lambda>_ _. True) p s') ps'"
  using assms unfolding reaches_def
proof (induction "(ps', s')" arbitrary: ps' s' rule: rtranclp_induct)
  case base
  then show ?case by (auto intro: refl)
next
  case (step y)
  obtain ps1 s1 where y: "y = (ps1, s1)" by (cases y)
  show ?case
    using step.hyps(3) [OF y step.prems] guarded_step [of v s1 ps1 ps' s'] step.hyps(2)
    unfolding y by (blast intro: trans)
qed

end

section \<open>The API server, as far as one target goes\<close>

text \<open>
  \<open>obj\<close> and \<open>rep\<close> read the stored target and the replicas of its scale out of the server's
  state. \<open>still\<close> is a call that leaves both, though others may move the version meanwhile.
\<close>

definition still :: "('s \<Rightarrow> kobj) \<Rightarrow> ('s \<Rightarrow> int field) \<Rightarrow> 's \<Rightarrow> 's \<Rightarrow> bool" where
  "still obj rep s s' =
     (obj s' = (obj s)\<lparr>ko_version := ko_version (obj s')\<rparr> \<and> rep s' = rep s \<and> ko_version (obj s) \<le> ko_version (obj s'))"

definition accepted :: "('s \<Rightarrow> kobj) \<Rightarrow> ('s \<Rightarrow> int field) \<Rightarrow> kobj \<Rightarrow> int field \<Rightarrow> 's \<Rightarrow> 's \<Rightarrow> bool" where
  "accepted obj rep new n s s' =
     (obj s' = new\<lparr>ko_version := ko_version (obj s')\<rparr> \<and> rep s' = n \<and> ko_version (obj s) \<le> ko_version (obj s') \<and>
      (ko_version (obj s') = ko_version (obj s) \<longrightarrow> obj s' = obj s \<and> rep s' = rep s))"

definition api_server :: "('q, 's) server \<Rightarrow> ('s \<Rightarrow> kobj) \<Rightarrow> ('s \<Rightarrow> int field) \<Rightarrow> target_key \<Rightarrow> bool" where
  "api_server v obj rep key =
     ((\<forall>c s. \<not> writes_target c \<longrightarrow> still obj rep s (after_call v c s)) \<and>
      (\<forall>s r s'. sv_get v key s = (r, s') \<longrightarrow> (case r of Inl e \<Rightarrow> True | Inr found \<Rightarrow> found = obj s' \<and> ko_key found = key)) \<and>
      (\<forall>base s r s'. sv_get_scale v base s = (r, s') \<and> ko_key base = key \<longrightarrow>
         (case r of Inl e \<Rightarrow> True | Inr sc \<Rightarrow> sc_version sc = ko_version (obj s') \<and> sc_replicas sc = rep s')) \<and>
      (\<forall>base guard new s r s'. sv_patch v base guard new s = (r, s') \<and> ko_key base = key \<longrightarrow>
         (still obj rep s s' \<and> (\<exists>e. r = Inl e)) \<or>
         (accepted obj rep (merge_patch base new (obj s)) (rep s) s s' \<and>
          (guard \<longrightarrow> ko_version base = ko_version (obj s)) \<and> (case r of Inl e \<Rightarrow> True | Inr found \<Rightarrow> found = obj s'))) \<and>
      (\<forall>base sc s r s'. sv_update_scale v base sc s = (r, s') \<and> ko_key base = key \<longrightarrow>
         (still obj rep s s' \<and> r \<noteq> None) \<or>
         (accepted obj rep (obj s) (sc_replicas sc) s s' \<and> sc_version sc = ko_version (obj s))))"

section \<open>What claims do to a target\<close>

text \<open>The level a scale stands for when a claim reads it, and the change claims may make to a target.\<close>

fun replicas_read :: "int field \<Rightarrow> int" where
  "replicas_read (Present n) = n"
| "replicas_read Absent = 1"
| "replicas_read (Malformed e) = 0"

abbreviation base_of :: "kobj \<Rightarrow> string option" where
  "base_of target \<equiv> ko_annotations target annotation_baseline_replicas"

definition claims_only :: "('s \<Rightarrow> kobj) \<Rightarrow> ('s \<Rightarrow> int field) \<Rightarrow> 's \<Rightarrow> 's \<Rightarrow> bool" where
  "claims_only obj rep s s' =
     (ko_key (obj s') = ko_key (obj s) \<and> ko_version (obj s) \<le> ko_version (obj s') \<and>
      (ko_version (obj s) = ko_version (obj s') \<longrightarrow> base_of (obj s') = base_of (obj s) \<and> rep s' = rep s) \<and>
      (base_of (obj s) \<noteq> None \<longrightarrow> base_of (obj s') = base_of (obj s)) \<and>
      (base_of (obj s) = None \<and> base_of (obj s') \<noteq> None \<longrightarrow>
         base_of (obj s') = Some (int_dec (replicas_read (rep s)))) \<and>
      (base_of (obj s') = None \<longrightarrow> rep s' = rep s))"

interpretation claims_meet: interference "claims_only obj rep" for obj :: "'s \<Rightarrow> kobj" and rep :: "'s \<Rightarrow> int field"
proof
  show "claims_only obj rep s s" for s by (cases "base_of (obj s)") (simp_all add: claims_only_def)
  show "claims_only obj rep s s' \<Longrightarrow> claims_only obj rep s' s'' \<Longrightarrow> claims_only obj rep s s''" for s s' s''
    unfolding claims_only_def by (cases "base_of (obj s)"; cases "base_of (obj s')") auto
qed

lemma still_claims_only: "still obj rep s s' \<Longrightarrow> claims_only obj rep s s'"
  unfolding still_def claims_only_def by (cases "obj s"; cases "obj s'") auto

lemma api_still: "api_server v obj rep key \<Longrightarrow> \<not> writes_target c \<Longrightarrow> claims_only obj rep s (after_call v c s)"
  unfolding api_server_def by (elim conjE) (blast intro: still_claims_only)

lemma api_reads:
  assumes "api_server v obj rep key"
  shows "sv_get v k s = (r, s') \<Longrightarrow> claims_only obj rep s s'"
    "sv_get_scale v target s = (r1, s') \<Longrightarrow> claims_only obj rep s s'"
    "sv_get_automation v n m s = (r2, s') \<Longrightarrow> claims_only obj rep s s'"
    "sv_list_automations v ns s = (r3, s') \<Longrightarrow> claims_only obj rep s s'"
    "sv_update_automation v a s = (r2, s') \<Longrightarrow> claims_only obj rep s s'"
    "sv_update_status v a s = (r2, s') \<Longrightarrow> claims_only obj rep s s'"
    "sv_list_hpas v n s = (r4, s') \<Longrightarrow> claims_only obj rep s s'"
    "sv_store_get v n s = (r5, s') \<Longrightarrow> claims_only obj rep s s'"
    "sv_store_freshness v n s = (r6, s') \<Longrightarrow> claims_only obj rep s s'"
    "sv_now v s = (r7, s') \<Longrightarrow> claims_only obj rep s s'"
    "claims_only obj rep s (sv_event v ev s)"
    "sv_expired v s = (r8, s') \<Longrightarrow> claims_only obj rep s s'"
    "sv_get_secret v n m s = (r9, s') \<Longrightarrow> claims_only obj rep s s'"
    "sv_outbound v q s = (r10, s') \<Longrightarrow> claims_only obj rep s s'"
    "sv_console v act d s = (r10, s') \<Longrightarrow> claims_only obj rep s s'"
    "sv_get_deployment v n m s = (r11, s') \<Longrightarrow> claims_only obj rep s s'"
    "sv_patch_deployment v d1 d2 s = (r12, s') \<Longrightarrow> claims_only obj rep s s'"
    "sv_poll_again v d s = (r8, s') \<Longrightarrow> claims_only obj rep s s'"
  using api_still [OF assms, of "CGet k" s] api_still [OF assms, of "CGetScale target" s]
    api_still [OF assms, of "CGetAutomation n m" s] api_still [OF assms, of "CListAutomations ns" s]
    api_still [OF assms, of "CUpdateAutomation a" s] api_still [OF assms, of "CUpdateStatus a" s]
    api_still [OF assms, of "CListHPAs n" s] api_still [OF assms, of "CStoreGet n" s]
    api_still [OF assms, of "CStoreFreshness n" s] api_still [OF assms, of CNow s]
    api_still [OF assms, of "CEvent ev" s] api_still [OF assms, of CExpired s]
    api_still [OF assms, of "CGetSecret n m" s] api_still [OF assms, of "COutbound q" s]
    api_still [OF assms, of "CConsole act d" s] api_still [OF assms, of "CGetDeployment n m" s]
    api_still [OF assms, of "CPatchDeployment d1 d2" s] api_still [OF assms, of "CPollAgain d" s]
  by simp_all

lemma guarded_makes:
  assumes api: "api_server v obj rep key"
  shows "makes (\<lambda>c. \<not> writes_target c) R p \<Longrightarrow> guarded (claims_only obj rep) v (\<lambda>x _. R x) p s"
proof (induction p arbitrary: s)
qed (simp split: prod.splits; blast dest: api_reads(1-10,12-18) [OF api] intro: api_reads(11) [OF api])+

section \<open>What the server answers a claim\<close>

lemma api_get:
  assumes "api_server v obj rep key" and "sv_get v key s = (Inr target, s')"
  shows "target = obj s' \<and> ko_key target = key"
proof -
  have "\<forall>s r s'. sv_get v key s = (r, s') \<longrightarrow>
      (case r of Inl e \<Rightarrow> True | Inr found \<Rightarrow> found = obj s' \<and> ko_key found = key)"
    using assms(1) unfolding api_server_def by (elim conjE)
  then show ?thesis using assms(2) by fastforce
qed

lemma api_scale:
  assumes "api_server v obj rep key" and "sv_get_scale v target s = (Inr sc, s')" and "ko_key target = key"
  shows "sc_version sc = ko_version (obj s') \<and> sc_replicas sc = rep s'"
proof -
  have "\<forall>base s r s'. sv_get_scale v base s = (r, s') \<and> ko_key base = key \<longrightarrow>
      (case r of Inl e \<Rightarrow> True | Inr sc \<Rightarrow> sc_version sc = ko_version (obj s') \<and> sc_replicas sc = rep s')"
    using assms(1) unfolding api_server_def by (elim conjE)
  then show ?thesis using assms(2,3) by fastforce
qed

lemma api_patch:
  assumes "api_server v obj rep key" and "sv_patch v base guard new s = (r, s')" and "ko_key base = key"
  shows "(still obj rep s s' \<and> (\<exists>e. r = Inl e)) \<or>
    (accepted obj rep (merge_patch base new (obj s)) (rep s) s s' \<and>
     (guard \<longrightarrow> ko_version base = ko_version (obj s)) \<and> (\<forall>found. r = Inr found \<longrightarrow> found = obj s'))"
proof -
  have "(still obj rep s s' \<and> (\<exists>e. r = Inl e)) \<or>
    (accepted obj rep (merge_patch base new (obj s)) (rep s) s s' \<and>
     (guard \<longrightarrow> ko_version base = ko_version (obj s)) \<and> (case r of Inl e \<Rightarrow> True | Inr found \<Rightarrow> found = obj s'))"
    using assms unfolding api_server_def by blast
  then show ?thesis by auto
qed

lemma api_update:
  assumes "api_server v obj rep key" and "sv_update_scale v base sc s = (r, s')" and "ko_key base = key"
  shows "still obj rep s s' \<or> (accepted obj rep (obj s) (sc_replicas sc) s s' \<and> sc_version sc = ko_version (obj s))"
  using assms unfolding api_server_def by blast

text \<open>
  What a worker still knows of the target it read, and of the level it read, once others
  have moved: if nothing was written since, they are current.
\<close>

definition knows :: "('s \<Rightarrow> kobj) \<Rightarrow> target_key \<Rightarrow> kobj \<Rightarrow> 's \<Rightarrow> bool" where
  "knows obj key target s =
     (ko_key target = key \<and> ko_key (obj s) = key \<and> ko_version target \<le> ko_version (obj s) \<and>
      (base_of target \<noteq> None \<longrightarrow> base_of (obj s) \<noteq> None) \<and>
      (ko_version target = ko_version (obj s) \<longrightarrow> base_of (obj s) = base_of target))"

definition knows_level :: "('s \<Rightarrow> kobj) \<Rightarrow> ('s \<Rightarrow> int field) \<Rightarrow> kobj \<Rightarrow> int \<Rightarrow> 's \<Rightarrow> bool" where
  "knows_level obj rep target n s =
     (ko_version target = ko_version (obj s) \<longrightarrow> n = replicas_read (rep s))"

lemma knows_later: "knows obj key target s \<Longrightarrow> claims_only obj rep s s' \<Longrightarrow> knows obj key target s'"
  unfolding knows_def claims_only_def by (cases "base_of (obj s)") auto

lemma knows_level_later:
  "knows_level obj rep target n s \<Longrightarrow> knows obj key target s \<Longrightarrow> claims_only obj rep s s' \<Longrightarrow>
    knows_level obj rep target n s'"
  unfolding knows_level_def knows_def claims_only_def by auto

lemma knows_current: "ko_key (obj s) = key \<Longrightarrow> knows obj key (obj s) s"
  by (simp add: knows_def)

section \<open>Claims against the server\<close>

lemma merged_key: "ko_key (merge_patch base new cur) = ko_key cur"
  by (simp add: merge_patch_def)

lemma merged_base: "base_of (merge_patch base new cur) = (if base_of new \<noteq> base_of base then base_of new else base_of cur)"
  by (simp add: merge_patch_def)

lemma acceptedD:
  assumes "accepted obj rep new n s s'"
  shows "ko_key (obj s') = ko_key new" "base_of (obj s') = base_of new" "rep s' = n" "ko_version (obj s) \<le> ko_version (obj s')"
    "ko_version (obj s') = ko_version (obj s) \<Longrightarrow> base_of new = base_of (obj s) \<and> n = rep s"
proof -
  have new: "obj s' = new\<lparr>ko_version := ko_version (obj s')\<rparr>" and n: "rep s' = n"
    and le: "ko_version (obj s) \<le> ko_version (obj s')"
    and eq: "ko_version (obj s') = ko_version (obj s) \<Longrightarrow> obj s' = obj s \<and> rep s' = rep s"
    using assms unfolding accepted_def by blast+
  show "ko_key (obj s') = ko_key new" by (subst new) simp
  show base: "base_of (obj s') = base_of new" by (subst new) simp
  show "rep s' = n" "ko_version (obj s) \<le> ko_version (obj s')" by (fact n le)+
  show "ko_version (obj s') = ko_version (obj s) \<Longrightarrow> base_of new = base_of (obj s) \<and> n = rep s"
    using eq base n by metis
qed

lemma claims_onlyI:
  assumes "ko_key (obj s') = ko_key (obj s)" and "ko_version (obj s) \<le> ko_version (obj s')"
    and "ko_version (obj s') = ko_version (obj s) \<Longrightarrow> base_of (obj s') = base_of (obj s) \<and> rep s' = rep s"
    and "base_of (obj s) \<noteq> None \<Longrightarrow> base_of (obj s') = base_of (obj s)"
    and "base_of (obj s) = None \<Longrightarrow> rep s' = rep s \<and>
      (base_of (obj s') = None \<or> base_of (obj s') = Some (int_dec (replicas_read (rep s))))"
  shows "claims_only obj rep s s'"
proof (cases "base_of (obj s)")
  case None
  then show ?thesis using assms(1-3,5) unfolding claims_only_def by metis
next
  case (Some b)
  then show ?thesis using assms(1-4) unfolding claims_only_def by (metis option.distinct(1))
qed

lemma patch_claims:
  assumes "api_server v obj rep key" and "sv_patch v target guard new s = (r, s')" and knows: "knows obj key target s"
    and wr: "base_of target \<noteq> None \<and> base_of new = base_of target \<or>
      base_of target = None \<and> guard \<and> base_of new = Some (int_dec n) \<and> knows_level obj rep target n s"
  shows "claims_only obj rep s s' \<and>
    (\<forall>found. r = Inr found \<longrightarrow> ko_key found = key \<and> base_of (obj s') \<noteq> None)"
proof -
  have k: "ko_key target = key" using knows by (simp add: knows_def)
  show ?thesis
    using api_patch [OF assms(1,2) k]
  proof (elim disjE conjE)
    assume "still obj rep s s'" and "\<exists>e. r = Inl e"
    then show ?thesis using still_claims_only [of obj rep s s'] by auto
  next
    assume acc: "accepted obj rep (merge_patch target new (obj s)) (rep s) s s'"
      and guard: "guard \<longrightarrow> ko_version target = ko_version (obj s)"
      and found: "\<forall>found. r = Inr found \<longrightarrow> found = obj s'"
    note new = acceptedD [OF acc, unfolded merged_base merged_key]
    have merged: "base_of (obj s) \<noteq> None \<and> base_of (obj s') = base_of (obj s) \<or>
        base_of (obj s) = None \<and> base_of (obj s') = Some (int_dec (replicas_read (rep s)))"
      using wr
    proof (elim disjE conjE)
      assume "base_of target \<noteq> None" and "base_of new = base_of target"
      then show ?thesis using new(2) knows unfolding knows_def by simp
    next
      assume t: "base_of target = None" "base_of new = Some (int_dec n)" "knows_level obj rep target n s" guard
      then have "base_of (obj s) = None" and "n = replicas_read (rep s)"
        using guard knows unfolding knows_def knows_level_def by simp_all
      then show ?thesis using new(2) t by simp
    qed
    have same: "base_of (obj s') = base_of (obj s)" if "ko_version (obj s') = ko_version (obj s)"
      using new(2) new(5) [OF that] by simp
    have "claims_only obj rep s s'"
      by (rule claims_onlyI) (use new(1,3,4) same merged in auto)
    then show ?thesis using found new(1) knows merged unfolding knows_def by fastforce
  qed
qed

lemma update_claims:
  assumes "api_server v obj rep key" and "sv_update_scale v target sc s = (r, s')" and "ko_key target = key"
    and "base_of (obj s) \<noteq> None"
  shows "claims_only obj rep s s'"
  using api_update [OF assms(1-3)]
proof (elim disjE conjE)
  assume acc: "accepted obj rep (obj s) (sc_replicas sc) s s'"
  show ?thesis
    using acceptedD [OF acc] assms(4) by (intro claims_onlyI) simp_all
qed (rule still_claims_only)

lemma claims_base: "claims_only obj rep s s' \<Longrightarrow> base_of (obj s) \<noteq> None \<Longrightarrow> base_of (obj s') \<noteq> None"
  unfolding claims_only_def by auto

abbreviation claiming :: "('s \<Rightarrow> kobj) \<Rightarrow> ('s \<Rightarrow> int field) \<Rightarrow> ('q, 's) server \<Rightarrow> ('a \<Rightarrow> 's \<Rightarrow> bool) \<Rightarrow>
    ('q, 'a) prog \<Rightarrow> 's \<Rightarrow> bool" where
  "claiming obj rep \<equiv> guarded (claims_only obj rep)"

lemma claiming_apply:
  assumes api: "api_server v obj rep key" and "ko_key target = key" and base: "base_of (obj s) \<noteq> None"
  shows "claiming obj rep v (\<lambda>_ _. True) (replica_apply target level) s"
proof -
  have update: "claiming obj rep v (\<lambda>_ _. True) (KUpdateScale target sc f) s1"
    if "base_of (obj s1) \<noteq> None" and "\<And>r s. claiming obj rep v (\<lambda>_ _. True) (f r) s" for sc f s1
    using that update_claims [OF api _ assms(2)] claims_base by (fastforce split: prod.splits)
  have scale: "claiming obj rep v (\<lambda>_ s. True \<and> base_of (obj s) \<noteq> None) (scale_of target) s"
    by (rule claims_meet.guarded_keep [OF guarded_makes [OF api]])
      (auto simp: scale_of_def base claims_base split: sum.splits)
  show ?thesis
    unfolding replica_apply_def bindR_def
    by (rule claims_meet.guarded_bindI [OF scale])
      (auto simp: Let_def simp del: guarded.simps(5) split: sum.splits field.splits option.splits intro!: update)
qed

text \<open>What recording a claim ends with: an error, or a target that carries its baseline.\<close>

definition recorded_on :: "('s \<Rightarrow> kobj) \<Rightarrow> target_key \<Rightarrow> (bool \<times> string option) \<times> kobj \<Rightarrow> 's \<Rightarrow> bool" where
  "recorded_on obj key x s = (snd (fst x) = None \<longrightarrow> ko_key (snd x) = key \<and> base_of (obj s) \<noteq> None)"

lemma recorded_error [simp]: "recorded_on obj key ((c, Some e), t) s"
  by (simp add: recorded_on_def)

lemma recorded_later: "recorded_on obj key x s \<Longrightarrow> claims_only obj rep s s' \<Longrightarrow> recorded_on obj key x s'"
  unfolding recorded_on_def using claims_base [of obj rep s s'] by simp

lemma claiming_patch:
  assumes api: "api_server v obj rep key" and knows: "knows obj key target s"
    and wr: "\<And>s. knows obj key target s \<Longrightarrow> I s \<Longrightarrow> base_of target \<noteq> None \<and> base_of new = base_of target \<or>
      base_of target = None \<and> guard \<and> base_of new = Some (int_dec n) \<and> knows_level obj rep target n s"
    and keep: "\<And>s s'. I s \<Longrightarrow> knows obj key target s \<Longrightarrow> claims_only obj rep s s' \<Longrightarrow> I s'" and "I s"
    and ok: "\<And>found s. ko_key found = key \<Longrightarrow> base_of (obj s) \<noteq> None \<Longrightarrow> claiming obj rep v Q (f (Inr found)) s"
    and err: "\<And>e s. claiming obj rep v Q (f (Inl e)) s"
  shows "claiming obj rep v Q (KPatch target guard new f) s"
proof -
  have "claims_only obj rep s1 s2 \<and> claiming obj rep v Q (f r) s2"
    if later: "claims_only obj rep s s1" and pat: "sv_patch v target guard new s1 = (r, s2)" for s1 r s2
  proof -
    have k: "knows obj key target s1" "I s1" using knows later assms(5) by (blast intro: knows_later keep)+
    from patch_claims [OF api pat k(1) wr [OF k]] show ?thesis
      using ok err by (cases r) auto
  qed
  then show ?thesis by (simp split: prod.splits)
qed

lemma claiming_write:
  assumes api: "api_server v obj rep key" and knows: "knows obj key target s"
    and again: "\<And>t s. knows obj key t s \<Longrightarrow> claiming obj rep v (recorded_on obj key) (again t) s"
    and wanted: "merge_wanted (ko_annotations target) annotations (ko_annotations target, False) = (nxt, dirty)"
    and clean: "\<not> dirty \<Longrightarrow> base_of target \<noteq> None"
    and wr: "base_of target \<noteq> None \<and> nxt annotation_baseline_replicas = base_of target \<or>
      base_of target = None \<and> \<not> recorded \<and> nxt annotation_baseline_replicas = Some (int_dec n) \<and>
      knows_level obj rep target n s"
  shows "claiming obj rep v (recorded_on obj key) (write_claim again recorded attempt target annotations) s"
proof -
  let ?I = "\<lambda>s. base_of target = None \<longrightarrow> knows_level obj rep target n s"
  have key: "ko_key target = key" using knows by (simp add: knows_def)
  have reread: "claiming obj rep v (recorded_on obj key) (KGet key f) s1"
    if "\<And>e s. claiming obj rep v (recorded_on obj key) (f (Inl e)) s" and "\<And>t. f (Inr t) = again t" for f s1
  proof -
    have "claims_only obj rep s2 s3 \<and> claiming obj rep v (recorded_on obj key) (f r) s3"
      if "sv_get v key s2 = (r, s3)" for s2 r s3
      using that api_get [OF api] again [OF knows_current] api_reads(1) [OF api]
        \<open>\<And>e s. claiming obj rep v (recorded_on obj key) (f (Inl e)) s\<close> \<open>\<And>t. f (Inr t) = again t\<close>
      by (cases r) auto
    then show ?thesis by (simp split: prod.splits)
  qed
  have done_: "claiming obj rep v (recorded_on obj key) (Ret ((c, None), found)) s"
    if "ko_key found = key" "base_of (obj s) \<noteq> None" for c found s
    using that claims_base [of obj rep s] by (auto simp: recorded_on_def)
  show ?thesis
  proof (cases dirty)
    case False
    have "base_of (obj s) \<noteq> None" using clean [OF False] knows by (simp add: knows_def)
    then show ?thesis
      using False done_ [OF key] by (simp add: write_claim_def set_annotations_def wanted patch_annotations_def)
  next
    case True
    have error: "claiming obj rep v (recorded_on obj key) (Ret ((c, Some e), t)) s" for c e t s by simp
    have patch: "claiming obj rep v (recorded_on obj key)
      (KPatch target (\<not> recorded) (target\<lparr>ko_annotations := nxt\<rparr>) f) s"
      if "\<And>found s. ko_key found = key \<Longrightarrow> base_of (obj s) \<noteq> None \<Longrightarrow>
            claiming obj rep v (recorded_on obj key) (f (Inr found)) s"
        and "\<And>e s. claiming obj rep v (recorded_on obj key) (f (Inl e)) s" for f
      by (rule claiming_patch [OF api knows, where I = ?I and n = n])
        (use wr that in \<open>auto intro: knows_level_later\<close>)
    show ?thesis
      unfolding write_claim_def set_annotations_def wanted patch_annotations_def
      by (simp add: True key del: guarded.simps, rule patch)
        (simp_all add: done_ error reread key del: guarded.simps split: option.splits)
  qed
qed

lemma wanted_base:
  assumes "base_of target = None" and "found \<noteq> []"
  obtains nxt where "merge_wanted (ko_annotations target)
      [(annotation_claimed_by, by), (annotation_baseline_replicas, found), (annotation_claimed_at, at)]
      (ko_annotations target, False) = (nxt, True)" and "nxt annotation_baseline_replicas = Some found"
  using merge_wanted_sets [of annotation_baseline_replicas found
      "[(annotation_claimed_by, by), (annotation_baseline_replicas, found), (annotation_claimed_at, at)]"
      "ko_annotations target" "ko_annotations target" False] assms
  by (cases "merge_wanted (ko_annotations target)
      [(annotation_claimed_by, by), (annotation_baseline_replicas, found), (annotation_claimed_at, at)]
      (ko_annotations target, False)") (auto simp: annotation_defs)

lemma claiming_read:
  assumes api: "api_server v obj rep key" and knows: "knows obj key target s"
  shows "claiming obj rep v (\<lambda>x s. \<forall>n. x = Inr n \<longrightarrow> knows_level obj rep target n s \<and> knows obj key target s)
    (replica_read target) s"
proof -
  let ?Q = "\<lambda>x s. \<forall>n. x = Inr n \<longrightarrow> knows_level obj rep target n s \<and> knows obj key target s"
  have stable: "?Q x s'" if "?Q x s" "claims_only obj rep s s'" for x s s'
    using that by (blast intro: knows_later knows_level_later)
  have key: "ko_key target = key" using knows by (simp add: knows_def)
  have "claims_only obj rep s1 s2 \<and> (\<forall>sc n. r = Inr sc \<longrightarrow> n = replicas_read (sc_replicas sc) \<longrightarrow>
      knows_level obj rep target n s2 \<and> knows obj key target s2)"
    if "claims_only obj rep s s1" "sv_get_scale v target s1 = (r, s2)" for s1 r s2
  proof -
    have moved: "claims_only obj rep s1 s2" using that(2) api_reads(2) [OF api] by blast
    have "knows obj key target s2"
      using knows_later [OF knows_later [OF knows that(1)] moved] .
    moreover have "sc_replicas sc = rep s2" if "r = Inr sc" for sc
      using api_scale [OF api _ key] \<open>sv_get_scale v target s1 = (r, s2)\<close> that by blast
    ultimately show ?thesis using moved by (auto simp: knows_level_def)
  qed
  note scale = this
  have ret: "claiming obj rep v ?Q (Ret x) s" if "?Q x s" for x s
    unfolding guarded.simps using stable [OF that] by blast
  have "claims_only obj rep s1 s2 \<and> claiming obj rep v ?Q (bind (case r of
        Inl e \<Rightarrow> Ret (Inl (''reading the scale of '' @ describe_object target @ '': '' @ ke_text e))
      | Inr sc \<Rightarrow> Ret (Inr sc)) (\<lambda>r. case r of Inl e \<Rightarrow> Ret (Inl e) | Inr sc \<Rightarrow> (case sc_replicas sc of
        Malformed e \<Rightarrow> Ret (Inl (''reading the scale of '' @ describe_object target @ '': '' @ e))
      | Absent \<Rightarrow> Ret (Inr 1)
      | Present n \<Rightarrow> Ret (Inr n)))) s2"
    if "claims_only obj rep s s1" "sv_get_scale v target s1 = (r, s2)" for s1 r s2
    using scale [OF that]
    by (auto simp del: guarded.simps intro!: ret split: sum.splits field.splits)
  then show ?thesis
    by (auto simp: replica_read_def scale_of_def bindR_def split: prod.splits)
qed

lemma replica_simps [simp]:
  "th_baseline (replica_handler grp kind) = annotation_baseline_replicas"
  "th_read (replica_handler grp kind) = replica_read"
  "th_apply (replica_handler grp kind) = replica_apply"
  "th_format (replica_handler grp kind) = int_dec"
  by (simp_all add: replica_handler_def)

lemma claiming_record:
  assumes api: "api_server v obj rep key"
  shows "knows obj key target s \<Longrightarrow>
    claiming obj rep v (recorded_on obj key) (record_claim_loop attempts (replica_handler grp kind) target claimants) s"
proof (induction attempts arbitrary: target s)
  case Nil
  then show ?case by simp
next
  case (Cons attempt attempts)
  let ?by = "join '','' claimants"
  show ?case
  proof (cases "base_of target")
    case (Some b)
    obtain nxt dirty where nxt: "merge_wanted (ko_annotations target) [(annotation_claimed_by, ?by)]
        (ko_annotations target, False) = (nxt, dirty)"
      by (cases "merge_wanted (ko_annotations target) [(annotation_claimed_by, ?by)] (ko_annotations target, False)")
    have "nxt annotation_baseline_replicas = base_of target"
      using merge_wanted_other [of annotation_baseline_replicas "[(annotation_claimed_by, ?by)]"
          "ko_annotations target" "ko_annotations target" False] nxt
      by (simp add: annotation_defs)
    then show ?thesis
      using claiming_write [OF api Cons.prems Cons.IH nxt] Some by simp
  next
    case None
    have "claiming obj rep v (recorded_on obj key) (KNow (\<lambda>now. write_claim again False attempt target
        [(annotation_claimed_by, ?by), (annotation_baseline_replicas, int_dec n), (annotation_claimed_at, rfc3339 now)])) s1"
      if "\<And>t s. knows obj key t s \<Longrightarrow> claiming obj rep v (recorded_on obj key) (again t) s"
        and "knows_level obj rep target n s1" and "knows obj key target s1" for again n s1
    proof -
      have "claims_only obj rep s2 s3 \<and> claiming obj rep v (recorded_on obj key) (write_claim again False attempt target
        [(annotation_claimed_by, ?by), (annotation_baseline_replicas, int_dec n), (annotation_claimed_at, rfc3339 now)]) s3"
        if "claims_only obj rep s1 s2" "sv_now v s2 = (now, s3)" for s2 now s3
      proof -
        have moved: "claims_only obj rep s2 s3" using api_reads(10) [OF api that(2)] .
        note later = claims_meet.trans [OF that(1) moved]
        have k: "knows obj key target s3" "knows_level obj rep target n s3"
          using \<open>knows_level obj rep target n s1\<close> \<open>knows obj key target s1\<close> later
          by (metis knows_later, metis knows_level_later)
        obtain nxt where nxt: "merge_wanted (ko_annotations target)
            [(annotation_claimed_by, ?by), (annotation_baseline_replicas, int_dec n), (annotation_claimed_at, rfc3339 now)]
            (ko_annotations target, False) = (nxt, True)" "nxt annotation_baseline_replicas = Some (int_dec n)"
          using wanted_base [OF None int_dec_nonempty] .
        show ?thesis
          using moved claiming_write [OF api k(1) _ nxt(1), where again = again and recorded = False]
            \<open>\<And>t s. knows obj key t s \<Longrightarrow> claiming obj rep v (recorded_on obj key) (again t) s\<close> None nxt(2) k(2)
          by simp
      qed
      then show ?thesis by (simp split: prod.splits)
    qed
    note wr = this
    show ?thesis
      using None
      by (auto simp del: guarded.simps(13) split: sum.splits
          intro!: claims_meet.guarded_bindI [OF claiming_read [OF api Cons.prems]] wr Cons.IH)
  qed
qed

lemma claiming_claim:
  assumes api: "api_server v obj rep key" and "knows obj key target s"
  shows "claiming obj rep v (\<lambda>_ _. True) (claim_target (replica_handler grp kind) target r claims) s"
  unfolding claim_target_def record_claim_def
proof (rule claims_meet.guarded_bindI [OF claiming_record [OF assms]])
  fix x s assume "recorded_on obj key x s"
  then show "claiming obj rep v (\<lambda>_ _. True) ((\<lambda>((changed, err), target'). case err of
      Some e \<Rightarrow> Ret (changed, Some e)
    | None \<Rightarrow> bind (th_apply (replica_handler grp kind) target' (rs_level r)) (\<lambda>a. case a of
        Inl e \<Rightarrow> Ret (changed, Some e)
      | Inr (written, _) \<Rightarrow> if written then Ret (True, None) else Ret (changed, None))) x) s"
    by (auto simp: recorded_on_def split: option.splits sum.splits prod.splits
        intro!: claims_meet.guarded_bindI [OF claiming_apply [OF api]])
qed

text \<open>A target that has a claim is never released while it is settled.\<close>

lemma claiming_settle:
  assumes api: "api_server v obj rep key" and "knows obj key target s" and "claims \<noteq> []"
  shows "claiming obj rep v (\<lambda>_ _. True)
    (settle_target rc (replica_handler grp kind) self target recorded claims reversals oc) s"
proof -
  obtain r where "resolve claims = Some r" using assms(3) by (simp add: resolve_nonempty)
  then show ?thesis
    by (auto simp: settle_target_def Let_def
        intro!: claims_meet.guarded_bindI [OF claiming_claim [OF assms(1,2)]])
qed

lemma makes_quiet: "quiet p \<Longrightarrow> makes (\<lambda>c. \<not> writes_target c) (\<lambda>_. True) p"
  by (rule obeys_ignored [OF quiet_calls [where P = "\<lambda>c. \<not> writes_target c"]]) auto

lemma claiming_quietly:
  assumes "api_server v obj rep key" and "makes (\<lambda>c. \<not> writes_target c) R p" and "knows obj key target s"
  shows "claiming obj rep v (\<lambda>x s. R x \<and> knows obj key target s) p s"
  using guarded_makes [OF assms(1,2)] assms(3) by (rule claims_meet.guarded_keep) (rule knows_later)

text \<open>Peers asked for their side only add to it.\<close>

lemma gather_keeps:
  "makes (\<lambda>c. \<not> writes_target c) (\<lambda>x. fst x \<noteq> [])
     (gather key self claim baseline peers acc)"
  if "fst acc \<noteq> [] \<or> (claim \<and> (\<exists>p \<in> set peers. claimant_of p = claimant_of self \<and> claim_for p key True \<noteq> None))"
  using that
proof (induction peers arbitrary: acc)
  case (Cons p peers)
  have grows: "fst acc \<noteq> [] \<Longrightarrow> fst (take_side key baseline p m acc) \<noteq> []" for m
    by (auto simp: take_side_def split: option.splits)
  have claims: "claim_for p key True \<noteq> None \<Longrightarrow> fst (take_side key baseline p True acc) \<noteq> []"
    by (auto simp: take_side_def)
  show ?case
  proof (cases "claimant_of p = claimant_of self")
    case True
    then show ?thesis using Cons.prems grows claims by (auto intro!: Cons.IH)
  next
    case False
    then show ?thesis
      using Cons.prems grows
      by (auto intro!: Cons.IH makes_bind [OF makes_quiet] quiet_reading)
  qed
qed simp

lemma claiming_dispatch:
  fixes v :: "('q, 's) server"
  assumes api: "api_server v obj rep key" and knows: "knows obj key target s" and sides: "fst sides \<noteq> []"
    and h: "handler_for (tk_kind key) = Inr (replica_handler grp kind :: 'q target_handler)" and "\<not> rc_detect_hpa rc"
  shows "claiming obj rep v (\<lambda>_ _. True)
    (dispatch_target rc (replica_handler grp kind) key self preview target base sides oc) s"
proof -
  note pv = claiming_quietly [OF api makes_quiet [OF quiet_preview_for [OF h]] knows]
  show ?thesis
    using assms(5)
    by (auto simp: dispatch_target_def foreign_manager_of_def
        intro!: claims_meet.guarded_bindI [OF pv] claiming_settle [OF api _ sides] knows)
qed

lemma claiming_arbitrate:
  fixes v :: "('q, 's) server"
  assumes api: "api_server v obj rep key" and knows: "knows obj key target s"
    and h: "handler_for (tk_kind key) = Inr (replica_handler grp kind :: 'q target_handler)" and "\<not> rc_detect_hpa rc"
    and "sn_claiming sn" and "self \<in> set peers" and "claim_for self key True \<noteq> None"
  shows "claiming obj rep v (\<lambda>_ _. True) (arbitrate_target rc (replica_handler grp kind) key self sn peers target) s"
proof -
  have "makes (\<lambda>c. \<not> writes_target c) (\<lambda>x. fst x \<noteq> [])
      (gather key self (sn_claiming sn) (fst (baseline_of (replica_handler grp kind) target)) peers ([], []))"
    using assms(5-7) by (intro gather_keeps) blast
  then have "claiming obj rep v (\<lambda>x s. fst x \<noteq> [] \<and> knows obj key target s)
      (gather key self (sn_claiming sn) (fst (baseline_of (replica_handler grp kind) target)) peers ([], [])) s"
    by (rule claiming_quietly [OF api _ knows])
  then show ?thesis
    unfolding arbitrate_target_def Let_def
    by (rule claims_meet.guarded_bindI) (auto intro!: claiming_dispatch [OF api _ _ h assms(4)])
qed

lemma replica_handler_for:
  assumes "tk_kind key \<in> {kind_deployment, kind_stateful_set}"
  shows "handler_for (tk_kind key) = Inr (replica_handler ''apps'' (tk_kind key))"
  using assms by (auto simp: handler_for_def handlers_def)

lemma claiming_reconcile:
  fixes v :: "('q, 's) server"
  assumes api: "api_server v obj rep key" and kind: "tk_kind key \<in> {kind_deployment, kind_stateful_set}"
    and "\<not> rc_detect_hpa rc" and "sn_claiming sn" and "claim_for self key True \<noteq> None"
  shows "claiming obj rep v (\<lambda>_ _. True) (reconcile_target rc key self sn) s"
proof -
  have get: "claiming obj rep v (\<lambda>_ _. True) (KGet key f) s"
    if "\<And>e s. claiming obj rep v (\<lambda>_ _. True) (f (Inl e)) s"
      and "\<And>t s. knows obj key t s \<Longrightarrow> claiming obj rep v (\<lambda>_ _. True) (f (Inr t)) s" for f s
  proof -
    have "claims_only obj rep s1 s2 \<and> claiming obj rep v (\<lambda>_ _. True) (f r) s2"
      if "sv_get v key s1 = (r, s2)" for r s1 s2
      using api_get [OF api, of s1 _ s2] that api_reads(1) [OF api that] knows_current [of obj s2 key]
        \<open>\<And>e s. claiming obj rep v (\<lambda>_ _. True) (f (Inl e)) s\<close>
        \<open>\<And>t s. knows obj key t s \<Longrightarrow> claiming obj rep v (\<lambda>_ _. True) (f (Inr t)) s\<close>
      by (cases r) simp_all
    then show ?thesis by (simp split: prod.splits)
  qed
  have peers: "makes (\<lambda>c. \<not> writes_target c) (\<lambda>x. \<forall>ps. x = Inr ps \<longrightarrow> self \<in> set ps)
      (referencing_automations key self :: ('q, _) prog)"
    by (auto simp: referencing_automations_def peers_in_def split: sum.splits)
  show ?thesis
    unfolding reconcile_target_def Let_def
    by (simp add: replica_handler_for [OF kind] del: guarded.simps, rule claims_meet.guarded_bindI [OF guarded_makes [OF api peers]])
      (auto simp del: guarded.simps(2) split: sum.splits
        intro!: get claiming_arbitrate [OF api _ replica_handler_for [OF kind] assms(3,4) _ assms(5)])
qed


section \<open>The setting's server, and two workers on it\<close>

lemma sample_api: "api_server sample_server wo_obj wo_scale sample_key"
proof -
  have "still wo_obj wo_scale s (after_call (sample_server :: ('q, world) server) c s)" if "\<not> writes_target c"
    for c :: "'q call" and s
    using that by (cases c) (simp_all add: sample_server_def still_def)
  moreover have "accepted wo_obj wo_scale (merge_patch base new (wo_obj s)) (wo_scale s) s
      (s\<lparr>wo_obj := merge_patch base new (wo_obj s)\<rparr>)" for base new s
    by (simp add: accepted_def merge_patch_def)
  moreover have "accepted wo_obj wo_scale (wo_obj s) n s
      (s\<lparr>wo_scale := n, wo_obj := (wo_obj s)\<lparr>ko_version := ko_version (wo_obj s) + 1\<rparr>\<rparr>)" for n s
    by (simp add: accepted_def)
  ultimately show ?thesis
    unfolding api_server_def by (simp add: sample_server_def split: if_splits) (auto simp: still_def)
qed

definition race_reconciler :: reconciler where
  "race_reconciler = sample_reconciler\<lparr>rc_detect_hpa := False\<rparr>"

definition race_worker :: "automation \<Rightarrow> bool \<Rightarrow> (unit, target_outcome \<times> string option) prog" where
  "race_worker a claims = reconcile_target race_reconciler sample_key a
     \<lparr>sn_matching = claims, sn_claiming = claims, sn_preview = False\<rparr>"

text \<open>Both read the unclaimed target and its level; the slower patch is refused, re-reads and finds the baseline.\<close>

definition two_claims where
  "two_claims = follow sample_server [0, 0, 0, 0, 1, 1, 1, 1, 0, 1, 1, 1, 0, 0, 1]
     ([race_worker sample_automation True, race_worker sample_automation True], sample_world)"

lemma two_claims_end: "case two_claims of None \<Rightarrow> False
    | Some (ps, s) \<Rightarrow> base_of (wo_obj s) \<noteq> None \<and> wo_scale s = Present 0"
  by code_simp


text \<open>A worker that decided to claim, while another, which has seen the state change, releases.\<close>

definition claim_and_release where
  "claim_and_release = follow sample_server [1, 1, 1, 1, 1, 1, 0, 0, 1, 0, 0, 0]
     ([race_worker sample_automation True,
       race_worker (sample_automation\<lparr>am_name := ''other''\<rparr>) False],
      sample_world\<lparr>wo_scale := Present 0, wo_state := Some [(''wan'', ''up'')],
        wo_obj := sample_obj\<lparr>ko_annotations := [annotation_baseline_replicas \<mapsto> ''3'']\<rparr>\<rparr>)"

lemma claim_and_release_end: "case claim_and_release of None \<Rightarrow> False
    | Some (ps, s) \<Rightarrow> base_of (wo_obj s) = None \<and> wo_scale s = Present 0"
  by code_simp

text \<open>A claim and a release of one target can strand it. Once a baseline is recorded a claim
  renews only its claimant list, without the optimistic guard, so a release by a
  worker that has seen the state change can clear the annotations between that
  write and the claim's level write: here the target is left at the claimed level
  with no baseline to hand it back to.\<close>

theorem claim_can_race_release:
  "\<exists>ps s. reaches sample_server
      ([race_worker sample_automation True, race_worker (sample_automation\<lparr>am_name := ''other''\<rparr>) False],
       sample_world\<lparr>wo_scale := Present 0, wo_state := Some [(''wan'', ''up'')],
         wo_obj := sample_obj\<lparr>ko_annotations := [annotation_baseline_replicas \<mapsto> ''3'']\<rparr>\<rparr>) (ps, s) \<and>
    ko_annotations (wo_obj s) annotation_baseline_replicas = None \<and> wo_scale s = Present 0"
proof -
  obtain ps s where "claim_and_release = Some (ps, s)"
    and "base_of (wo_obj s) = None" "wo_scale s = Present 0"
    using claim_and_release_end by (auto split: option.splits)
  then show ?thesis using follow_reaches unfolding claim_and_release_def by blast
qed

end
