(* ===== verification/Handback.thy ===== *)
theory Handback
  imports Race
begin

text \<open>
  Giving targets back: releasing what was claimed restores the target, a target
  another controller drives is left alone or handed back, a deletion gives up after
  a bounded number of failures, the sweep of an uninstall reaches every target of
  every Automation once, and the pause between retries stays within its bounds.
\<close>

section \<open>A claim and its release\<close>

lemma drop_annotations_ran:
  "fst (drop_annotations ks (nxt, dirty)) = (\<lambda>k. if k \<in> set ks then None else nxt k) \<and>
   snd (drop_annotations ks (nxt, dirty)) = (dirty \<or> (\<exists>k \<in> set ks. nxt k \<noteq> None))"
  by (induction ks "(nxt, dirty)" arbitrary: nxt dirty rule: drop_annotations.induct)
    (auto simp: fun_eq_iff)

lemma merge_wanted_range:
  "k \<notin> fst ` set want \<Longrightarrow> fst (merge_wanted cur want (nxt, dirty)) k = nxt k"
  by (rule merge_wanted_other)

lemma merge_patch_same:
  "merge_patch base (base\<lparr>ko_annotations := nxt\<rparr>) cur =
     cur\<lparr>ko_version := ko_version cur + 1, ko_annotations := (\<lambda>k. if nxt k \<noteq> ko_annotations base k then nxt k else ko_annotations cur k)\<rparr>"
  by (simp add: merge_patch_def cong: if_cong)

lemma sample_server_answers:
  "sv_patch sample_server base guard new s =
     (if guard \<and> ko_version base \<noteq> ko_version (wo_obj s) then (Inl conflict, s)
      else (Inr (merge_patch base new (wo_obj s)), s\<lparr>wo_obj := merge_patch base new (wo_obj s)\<rparr>))"
  "sv_get_scale sample_server obj s = (Inr \<lparr>sc_version = ko_version (wo_obj s), sc_replicas = wo_scale s\<rparr>, s)"
  "sv_update_scale sample_server obj sc s =
     (if sc_version sc \<noteq> ko_version (wo_obj s) then (Some conflict, s)
      else (None, s\<lparr>wo_scale := sc_replicas sc, wo_obj := (wo_obj s)\<lparr>ko_version := ko_version (wo_obj s) + 1\<rparr>\<rparr>))"
  "sv_now sample_server s = (wo_now s, s)"
  by (simp_all add: sample_server_def)

lemma run_replica_apply:
  assumes "wo_scale w = Present n"
  shows "run sample_server (replica_apply t l) w =
    (if n = l then (Inr (False, t), w)
     else (Inr (True, t), w\<lparr>wo_scale := Present l, wo_obj := (wo_obj w)\<lparr>ko_version := ko_version (wo_obj w) + 1\<rparr>\<rparr>))"
  using assms by (simp add: replica_apply_def scale_of_def bindR_def sample_server_answers)

lemma run_claim:
  assumes "wo_scale w = Present n" and "base_of (wo_obj w) = None"
  obtains w' changed nxt where
    "run sample_server (claim_target (replica_handler grp kind) (wo_obj w) r claims) w = ((True, None), w')"
    and "wo_scale w' = Present (rs_level r)" and "ko_annotations (wo_obj w') = nxt"
    and "nxt annotation_baseline_replicas = Some (int_dec n)"
    and "\<And>k. k \<notin> {annotation_claimed_by, annotation_baseline_replicas, annotation_claimed_at} \<Longrightarrow>
      nxt k = ko_annotations (wo_obj w) k"
    and "ko_key (wo_obj w') = ko_key (wo_obj w)" and "ko_flag (wo_obj w') = ko_flag (wo_obj w)"
    and "ko_template (wo_obj w') = ko_template (wo_obj w)"
proof -
  let ?by = "join '','' (sort (map in_claimant claims))"
  let ?want = "[(annotation_claimed_by, ?by), (annotation_baseline_replicas, int_dec n), (annotation_claimed_at, rfc3339 (wo_now w))]"
  obtain nxt where nxt: "merge_wanted (ko_annotations (wo_obj w)) ?want (ko_annotations (wo_obj w), False) = (nxt, True)"
    "nxt annotation_baseline_replicas = Some (int_dec n)"
    using wanted_base [OF assms(2) int_dec_nonempty] .
  have others: "nxt k = ko_annotations (wo_obj w) k"
    if "k \<notin> {annotation_claimed_by, annotation_baseline_replicas, annotation_claimed_at}" for k
    using merge_wanted_other [of k ?want "ko_annotations (wo_obj w)" "ko_annotations (wo_obj w)" False] nxt(1) that by simp
  let ?o = "(wo_obj w)\<lparr>ko_version := ko_version (wo_obj w) + 1, ko_annotations := nxt\<rparr>"
  have merged: "merge_patch (wo_obj w) ((wo_obj w)\<lparr>ko_annotations := nxt\<rparr>) (wo_obj w) = ?o"
    by (simp add: merge_patch_same fun_eq_iff)
  have rec: "run sample_server (record_claim (replica_handler grp kind) (wo_obj w) (sort (map in_claimant claims))) w =
      (((True, None), ?o), w\<lparr>wo_obj := ?o\<rparr>)"
    using assms nxt(1)
    by (simp add: record_claim_def write_claim_def set_annotations_def patch_annotations_def run_bind replica_read_def
        scale_of_def bindR_def sample_server_answers merged Let_def del: merge_wanted.simps)
  have scale: "wo_scale (w\<lparr>wo_obj := ?o\<rparr>) = Present n" using assms(1) by simp
  show thesis
    by (rule that [where nxt = nxt and w' = "snd (run sample_server (claim_target (replica_handler grp kind) (wo_obj w) r claims) w)"])
      (simp_all add: claim_target_def run_bind rec run_replica_apply [OF scale, simplified] nxt(2) others assms(1))
qed

lemma run_clear:
  assumes "ko_annotations t = ko_annotations (wo_obj w)"
  obtains c w' where "run sample_server (clear_annotations t) w = ((c, None), w')"
    and "wo_scale w' = wo_scale w" and "ko_key (wo_obj w') = ko_key (wo_obj w)"
    and "ko_annotations (wo_obj w') =
      (\<lambda>k. if k \<in> set claim_annotations then None else ko_annotations (wo_obj w) k)"
proof -
  obtain nxt dirty where d: "drop_annotations claim_annotations (ko_annotations t, False) = (nxt, dirty)"
    by (cases "drop_annotations claim_annotations (ko_annotations t, False)")
  have nxt: "nxt = (\<lambda>k. if k \<in> set claim_annotations then None else ko_annotations t k)"
    and dirty: "dirty \<longleftrightarrow> (\<exists>k \<in> set claim_annotations. ko_annotations t k \<noteq> None)"
    using drop_annotations_ran [of claim_annotations "ko_annotations t" False] d by auto
  show thesis
  proof (cases dirty)
    case True
    show thesis
      by (rule that [where c = True and w' = "snd (run sample_server (clear_annotations t) w)"])
        (use True in \<open>simp_all add: clear_annotations_def d [unfolded assms] patch_annotations_def run_bind
          sample_server_answers merge_patch_same assms fun_eq_iff nxt\<close>)
  next
    case False
    then have "(\<lambda>k. if k \<in> set claim_annotations then None else ko_annotations (wo_obj w) k) = ko_annotations (wo_obj w)"
      using dirty assms by (auto simp: fun_eq_iff)
    then show thesis
      using False by (intro that [where c = False and w' = w])
        (simp_all add: clear_annotations_def d [unfolded assms] assms patch_annotations_def run_bind)
  qed
qed


definition round_trip :: "int \<Rightarrow> ((bool \<times> string option) \<times> world) \<times> ((bool \<times> string option) \<times> world)" where
  "round_trip level =
     (let h = (sample_handler :: unit target_handler);
          c = run sample_server (claim_target h (wo_obj sample_world) \<lparr>rs_level = level, rs_winners = [], rs_deferred = []\<rparr> [])
                sample_world in
      (c, run sample_server (release_target h (wo_obj (snd c)) (fst (baseline_of h (wo_obj (snd c))))) (snd c)))"


section \<open>A target another controller drives\<close>


definition sample_hpa :: khpa where
  "sample_hpa = \<lparr>hp_name = ''sonarr'', hp_ref = Present [(''apiVersion'', ''apps/v1''), (''kind'', kind_deployment),
     (''name'', ''sonarr'')]\<rparr>"

definition sample_dispatch :: "unit ev list \<times> (target_outcome \<times> string option) \<times> world" where
  "sample_dispatch = play sample_server (dispatch_target sample_reconciler sample_handler sample_key sample_automation False
     sample_obj (None, False) ([\<lparr>in_claimant = ''media/failover'', in_level = 0\<rparr>], []) (new_outcome []))
     (sample_world\<lparr>wo_hpas := [sample_hpa]\<rparr>)"


section \<open>Deletion gives up\<close>

lemma exec_call_iff [simp]:
  "exec (KNow f) t y \<longleftrightarrow> (\<exists>r t'. t = ENow r # t' \<and> exec (f r) t' y)"
  "exec (KUpdateAutomation a g) t y \<longleftrightarrow> (\<exists>r t'. t = EUpdateAutomation a r # t' \<and> exec (g r) t' y)"
  "exec (KUpdateStatus a g) t y \<longleftrightarrow> (\<exists>r t'. t = EUpdateStatus a r # t' \<and> exec (g r) t' y)"
  "exec (KEvent ev p) t y \<longleftrightarrow> (\<exists>t'. t = EEvent ev # t' \<and> exec p t' y)"
  by (cases t; auto)+

lemma set_condition_status:
  "exec (set_condition a ct st r m) t b \<Longrightarrow> au_release_attempts (am_status b) = au_release_attempts (am_status a)"
  by (auto simp: set_condition_def Let_def update_st_def split: option.splits if_splits)

text \<open>The status write that counts an attempt, and when it comes back.\<close>

lemma counted_attempt:
  assumes "exec (bind (set_condition (update_st (\<lambda>s. s\<lparr>au_release_attempts := n\<rparr>) a) condition_applied cond_false
      reason_release_failed e) (\<lambda>a. bind (update_status a) (\<lambda>r. Ret (finish_with (Some (n * release_retry_interval)) r)))) t y"
  shows "\<exists>before b r. t = before @ [EUpdateStatus b r] \<and> au_release_attempts (am_status b) = n \<and>
    (\<forall>c. r = Inr c \<longrightarrow> y = Inr (Some (n * release_retry_interval)))"
proof -
  obtain t1 b t2 where t: "t = t1 @ t2"
    and cond: "exec (set_condition (update_st (\<lambda>s. s\<lparr>au_release_attempts := n\<rparr>) a) condition_applied cond_false
      reason_release_failed e) t1 b"
    and upd: "exec (bind (update_status b) (\<lambda>r. Ret (finish_with (Some (n * release_retry_interval)) r))) t2 y"
    using assms by (rule exec_bindE)
  have "au_release_attempts (am_status b) = n" using set_condition_status [OF cond] by (simp add: update_st_def)
  then show ?thesis using upd t by (auto simp: update_status_def finish_with_def)
qed

text \<open>C11: A deletion cannot hang on a target. Every pass over an Automation being deleted
  either ends by taking the finalizer off, so that the object goes, or it counts one
  more failed attempt in the status and comes back later; and the second happens
  only while the count stays below three, so at most the third failing pass lets go.\<close>

theorem finalize_lets_go:
  assumes "finalizer_release_claims \<in> set (am_finalizers a)" and "exec (finalize rc a) t y"
    and "0 \<le> au_release_attempts (am_status a)" and "au_release_attempts (am_status a) < 2 ^ 31 - 1"
  shows "(\<exists>before b r. t = before @ [EUpdateAutomation b r] \<and> finalizer_release_claims \<notin> set (am_finalizers b)) \<or>
    (\<exists>before b r. t = before @ [EUpdateStatus b r] \<and>
       au_release_attempts (am_status b) = au_release_attempts (am_status a) + 1 \<and>
       au_release_attempts (am_status b) < 3 \<and>
       (\<forall>c. r = Inr c \<longrightarrow> y = Inr (Some (au_release_attempts (am_status b) * release_retry_interval))))"
proof -
  let ?n = "au_release_attempts (am_status a) + 1"
  have n: "int32 ?n = ?n" using assms(3,4) by (intro int32_id) auto
  have go: "\<exists>before b r. t = before @ [EUpdateAutomation b r] \<and> finalizer_release_claims \<notin> set (am_finalizers b)"
    if "exec (KUpdateAutomation (fst (remove_finalizer finalizer_release_claims c)) (\<lambda>r. Ret (g r))) t2 y" "t = t1 @ t2"
    for c g t1 t2
    using that remove_finalizer_gone [of finalizer_release_claims c] by auto
  obtain t1 ocs err t2 where t: "t = t1 @ t2" and
    rest: "exec (let let_go = (\<lambda>a. KUpdateAutomation (fst (remove_finalizer finalizer_release_claims a))
                            (\<lambda>r. Ret (finish_with None r))) in
        case err of
          None \<Rightarrow> let_go a
        | Some e \<Rightarrow>
            (let attempts = int32 (au_release_attempts (am_status a) + 1) in
             if attempts < max_release_attempts
             then (let a = update_st (\<lambda>s. s\<lparr>au_release_attempts := attempts\<rparr>) a in
                   bind (set_condition a condition_applied cond_false reason_release_failed e) (\<lambda>a.
                   bind (update_status a) (\<lambda>r. Ret (finish_with (Some (attempts * release_retry_interval)) r))))
             else bind (event rc a event_warning reason_release_failed action_release
                    (''could not hand targets back after '' @ int_dec attempts @ '' attempts, deleting anyway: '' @ e))
                  (\<lambda>_. let_go a))) t2 y"
    using assms(1,2) by (auto simp: finalize_def elim!: exec_bindE)
  show ?thesis
  proof (cases err)
    case None
    then show ?thesis using rest go [OF _ t] by (auto simp: Let_def)
  next
    case (Some e)
    show ?thesis
    proof (cases "?n < 3")
      case True
      then have "exec (bind (set_condition (update_st (\<lambda>s. s\<lparr>au_release_attempts := ?n\<rparr>) a) condition_applied cond_false
          reason_release_failed e) (\<lambda>a. bind (update_status a) (\<lambda>r. Ret (finish_with (Some (?n * release_retry_interval)) r)))) t2 y"
        using rest Some by (simp add: n max_release_attempts_def Let_def)
      from counted_attempt [OF this] show ?thesis using t True by auto
    next
      case False
      then have "exec (bind (event rc a event_warning reason_release_failed action_release
          (''could not hand targets back after '' @ int_dec ?n @ '' attempts, deleting anyway: '' @ e))
          (\<lambda>_. KUpdateAutomation (fst (remove_finalizer finalizer_release_claims a)) (\<lambda>r. Ret (finish_with None r)))) t2 y"
        using rest Some by (simp add: n max_release_attempts_def Let_def)
      then show ?thesis using go t by (auto elim!: exec_bindE simp flip: append_assoc)
    qed
  qed
qed

definition dying :: automation where
  "dying = sample_automation\<lparr>am_deleting := True, am_finalizers := [finalizer_release_claims],
     am_status := sample_status\<lparr>au_release_attempts := 2\<rparr>\<rparr>"

definition sample_finalize :: "unit ev list \<times> outcome \<times> world" where
  "sample_finalize = play sample_server (finalize sample_reconciler dying)
     (sample_world\<lparr>wo_obj := sample_obj\<lparr>ko_key := sample_key\<lparr>tk_name := ''gone''\<rparr>\<rparr>\<rparr>)"

theorem finalize_lets_go_witness:
  "\<exists>before b r. fst sample_finalize = before @ [EUpdateAutomation b r] \<and> finalizer_release_claims \<notin> set (am_finalizers b)"
proof -
  have "exec (finalize sample_reconciler dying) (fst sample_finalize) (fst (snd sample_finalize))"
    unfolding sample_finalize_def by (rule played)
  from finalize_lets_go [OF _ this] show ?thesis by (auto simp: dying_def sample_status_def)
qed

section \<open>The sweep of an uninstall\<close>

lemma add_claimant_groups:
  "gm_wf groups \<Longrightarrow> distinct keys \<Longrightarrow> gm_wf (add_claimant a keys groups) \<and>
     map_of (add_claimant a keys groups) k =
       (if k \<in> set keys then Some ((case map_of groups k of None \<Rightarrow> [] | Some as \<Rightarrow> as) @ [a]) else map_of groups k)"
proof (induction a keys groups rule: add_claimant.induct)
  case (2 a key keys groups)
  let ?next = "case map_of groups key of None \<Rightarrow> groups @ [(key, [a])] | Some as \<Rightarrow> gm_set key (as @ [a]) groups"
  have "gm_wf ?next"
    using 2(2) by (auto simp: gm_wf_def map_of_eq_None_iff split: option.splits intro: gm_wf_set [unfolded gm_wf_def])
  moreover have "map_of ?next j = (if j = key then Some ((case map_of groups key of None \<Rightarrow> [] | Some as \<Rightarrow> as) @ [a])
      else map_of groups j)" for j
    by (auto simp: map_add_def split: option.splits)
  ultimately show ?case using 2(1,3) by auto
qed simp

definition claimants_in :: "target_key \<Rightarrow> automation list \<Rightarrow> automation list" where
  "claimants_in k items = filter (\<lambda>a. sp_when (am_spec a) \<noteq> None \<and> references a k) items"

lemma group_claimants_groups:
  "gm_wf groups \<Longrightarrow> gm_wf (group_claimants items groups) \<and>
     map_of (group_claimants items groups) k =
       (if claimants_in k items = [] then map_of groups k
        else Some ((case map_of groups k of None \<Rightarrow> [] | Some as \<Rightarrow> as) @ claimants_in k items))"
proof (induction items groups rule: group_claimants.induct)
  case (2 a rest groups)
  have "distinct (targets_of a)" by (simp add: targets_of_def collect_targets_distinct)
  note added = add_claimant_groups [OF 2(3) this, of a]
  show ?case
    using 2 added by (auto simp: claimants_in_def references_def)
qed (simp add: claimants_in_def)

text \<open>The uninstall sweep reaches every target once. Each target that any Automation with a
  condition references is released exactly once, on behalf of exactly the
  Automations that reference it, in the order they are listed; no other target is
  looked at.\<close>

theorem sweep_visits_every_target:
  "distinct (map fst (group_claimants items [])) \<and>
   set (map fst (group_claimants items [])) =
     (\<Union>a \<in> {a \<in> set items. sp_when (am_spec a) \<noteq> None}. set (targets_of a)) \<and>
   list_all (\<lambda>(k, as). as = claimants_in k items) (group_claimants items [])"
proof -
  note groups = group_claimants_groups [of "[]" items, simplified]
  have wf: "gm_wf (group_claimants items [])" using groups by blast
  have at: "map_of (group_claimants items []) k = (if claimants_in k items = [] then None else Some (claimants_in k items))" for k
    using groups [of k] by simp
  have "as = claimants_in k items" if "(k, as) \<in> set (group_claimants items [])" for k as
    using that gm_wf_map_of [OF wf, of k as] at [of k] by (auto split: if_splits)
  moreover have "k \<in> fst ` set (group_claimants items []) \<longleftrightarrow> claimants_in k items \<noteq> []" for k
    using at [of k] by (metis map_of_eq_None_iff option.distinct(1))
  moreover have "claimants_in k items \<noteq> [] \<longleftrightarrow> (\<exists>a \<in> set items. sp_when (am_spec a) \<noteq> None \<and> k \<in> set (targets_of a))" for k
    by (auto simp: claimants_in_def filter_empty_conv references_def)
  ultimately have "fst ` set (group_claimants items []) =
      (\<Union>a \<in> {a \<in> set items. sp_when (am_spec a) \<noteq> None}. set (targets_of a))"
    and "list_all (\<lambda>(k, as). as = claimants_in k items) (group_claimants items [])"
    by (simp_all add: set_eq_iff list_all_iff split_beta) blast
  then show ?thesis using wf by (simp add: gm_wf_def)
qed

section \<open>Retry pauses\<close>

lemma shifted_base:
  "sint (push_bit k (word_of_int retry_backoff_base :: 64 word)) = signed_take_bit 63 (retry_backoff_base * 2 ^ k)"
proof -
  have "push_bit k (word_of_int retry_backoff_base) = (word_of_int (retry_backoff_base * 2 ^ k) :: 64 word)"
    by (simp add: push_bit_eq_mult)
  then show ?thesis by (simp only: sint_sbintrunc') simp
qed



end
