(* ===== verification/Client.thy ===== *)
theory Client
  imports Payloads
begin

text \<open>
  \<open>internal/actions/client.go\<close>: sending one resolved request. A \<open>leg\<close> is one HTTP
  request on the wire; the network's answer is a status with the cookies it sets,
  or a transport error already unwrapped from its \<open>url.Error\<close>. The program below
  makes the legs and the waits explicit, so the number, the order and the
  destination of every request that can leave the cluster are statements about it.
\<close>

section \<open>The wire\<close>

datatype transport_error = DeadlineExceeded | Cancelled | TransportError string

record response =
  rp_status :: int
  rp_text :: string
  rp_cookies :: "(string \<times> string) list"

datatype leg = Action | Login | Logout

datatype 'a wire =
    WRet 'a
  | WSend leg url request duration "transport_error + response \<Rightarrow> 'a wire"
  | WWait duration "bool \<Rightarrow> 'a wire"

primrec wbind :: "'a wire \<Rightarrow> ('a \<Rightarrow> 'b wire) \<Rightarrow> 'b wire" where
  "wbind (WRet x) g = g x"
| "wbind (WSend l u r t f) g = WSend l u r t (\<lambda>x. wbind (f x) g)"
| "wbind (WWait d f) g = WWait d (\<lambda>x. wbind (f x) g)"

text \<open>An error of an attempt, and whether it is worth another: \<open>transientError\<close>.\<close>

datatype attempt_error = Transient string | Final string

fun error_text :: "attempt_error \<Rightarrow> string" where
  "error_text (Transient e) = e"
| "error_text (Final e) = e"

fun transient :: "attempt_error \<Rightarrow> bool" where
  "transient (Transient e) = True"
| "transient (Final e) = False"

text \<open>Wrapping with \<open>%w\<close> keeps what \<open>errors.As\<close> finds.\<close>

fun wrap_error :: "string \<Rightarrow> attempt_error \<Rightarrow> attempt_error" where
  "wrap_error pre (Transient e) = Transient (pre @ e)"
| "wrap_error pre (Final e) = Final (pre @ e)"

section \<open>Constants\<close>

definition retry_attempts :: nat where "retry_attempts = 3"
definition retry_delay :: duration where "retry_delay = second"
definition outbound_default_timeout :: duration where "outbound_default_timeout = 10 * second"
definition logout_timeout :: duration where "logout_timeout = 3 * second"
definition user_agent :: string where "user_agent = ''unifi-reactor''"
definition header_cookie :: string where "header_cookie = ''Cookie''"

definition timeout_of :: "request \<Rightarrow> duration" where
  "timeout_of r = (if rq_timeout r \<le> 0 then outbound_default_timeout else rq_timeout r)"

section \<open>One leg\<close>

definition sanitize :: "transport_error \<Rightarrow> attempt_error" where
  "sanitize e = (case e of
     DeadlineExceeded \<Rightarrow> Transient ''timed out''
   | Cancelled \<Rightarrow> Final ''cancelled''
   | TransportError t \<Rightarrow> Transient t)"

definition with_header :: "string \<Rightarrow> string \<Rightarrow> request \<Rightarrow> request" where
  "with_header name value r =
     Request (rq_method r) (rq_url r) (header_set (rq_header r) name value) (rq_body r)
       (rq_retryable r) (rq_timeout r) (rq_session r)"

definition send :: "leg \<Rightarrow> url \<Rightarrow> request \<Rightarrow> duration \<Rightarrow> (attempt_error + response) wire" where
  "send l target r t = WSend l target (with_header ''User-Agent'' user_agent r) t (\<lambda>a. case a of
     Inl e \<Rightarrow> WRet (Inl (sanitize e))
   | Inr rp \<Rightarrow> WRet (Inr rp))"

definition classify :: "response \<Rightarrow> int \<times> attempt_error option" where
  "classify rp =
     (if 200 \<le> rp_status rp \<and> rp_status rp < 300 then (rp_status rp, None)
      else if rp_status rp = 429 \<or> rp_status rp \<ge> 500
      then (rp_status rp, Some (Transient (''responded '' @ rp_text rp)))
      else (rp_status rp, Some (Final (''responded '' @ rp_text rp))))"

definition attempt :: "url \<Rightarrow> request \<Rightarrow> (int \<times> attempt_error option) wire" where
  "attempt target r = wbind (send Action target r (timeout_of r)) (\<lambda>a. case a of
     Inl e \<Rightarrow> WRet (0, Some e)
   | Inr rp \<Rightarrow> WRet (classify rp))"

section \<open>Sessions\<close>

text \<open>
  \<open>http.Cookie.String()\<close> of a name and a value: nothing for a name that is no token,
  the bytes a cookie value may hold, in quotes when it has a space or a comma.
\<close>

definition cookie_byte :: "char \<Rightarrow> bool" where
  "cookie_byte c = (let n = (of_char c :: nat) in 0x20 \<le> n \<and> n < 0x7F \<and> n \<noteq> 0x22 \<and> n \<noteq> 0x3B \<and> n \<noteq> 0x5C)"

definition cookie_value :: "string \<Rightarrow> string" where
  "cookie_value v = (let kept = filter cookie_byte v in
     if kept \<noteq> [] \<and> (CHR '' '' \<in> set kept \<or> CHR '','' \<in> set kept)
     then [CHR 0x22] @ kept @ [CHR 0x22] else kept)"

definition cookie_header :: "string \<Rightarrow> string \<Rightarrow> string" where
  "cookie_header name value =
     (if name = [] \<or> \<not> list_all (\<lambda>c. c \<in> set header_name_chars) name then []
      else name @ ''='' @ cookie_value value)"

definition wire_login :: "url \<Rightarrow> session \<Rightarrow> (attempt_error + string) wire" where
  "wire_login target s = wbind (send Login target (se_login s) (timeout_of (se_login s))) (\<lambda>a. case a of
     Inl e \<Rightarrow> WRet (Inl (wrap_error ''logging in: '' e))
   | Inr rp \<Rightarrow>
       (case snd (classify rp) of
          Some e \<Rightarrow> WRet (Inl (wrap_error ''logging in: '' e))
        | None \<Rightarrow>
            (case find (\<lambda>c. fst c = se_cookie s \<and> snd c \<noteq> []) (rp_cookies rp) of
               Some c \<Rightarrow> WRet (Inr (cookie_header (fst c) (snd c)))
             | None \<Rightarrow> WRet (Inl (Final (''the login was accepted but set no '' @ quoted (se_cookie s)
                 @ '' cookie, which is how a rejected username or password is reported''))))))"

definition wire_logout :: "url option \<Rightarrow> session \<Rightarrow> string \<Rightarrow> unit wire" where
  "wire_logout target s cookie =
     (case target of
        None \<Rightarrow> WRet ()
      | Some u \<Rightarrow> wbind (send Logout u (with_header header_cookie cookie (se_logout s)) logout_timeout)
                   (\<lambda>_. WRet ()))"

definition check_session :: "url_lib \<Rightarrow> policy \<Rightarrow> session \<Rightarrow> string + url \<times> url option" where
  "check_session lib p s =
     (if se_cookie s = [] then Inl ''a session names no cookie to look for''
      else if rq_session (se_login s) \<noteq> None then Inl ''a session login may not itself need a session''
      else (case fst (policy_check lib p (rq_url (se_login s))) of
              Inl e \<Rightarrow> Inl e
            | Inr login \<Rightarrow>
                if rq_url (se_logout s) = [] then Inr (login, None)
                else (case fst (policy_check lib p (rq_url (se_logout s))) of
                        Inl e \<Rightarrow> Inl e
                      | Inr logout \<Rightarrow> Inr (login, Some logout))))"

text \<open>The logout is deferred: it runs after the attempt, whatever the attempt answered.\<close>

definition run_session :: "url \<Rightarrow> request \<Rightarrow> session \<Rightarrow> url \<times> url option \<Rightarrow> (int \<times> attempt_error option) wire" where
  "run_session target r s endpoints =
     wbind (wire_login (fst endpoints) s) (\<lambda>c. case c of
       Inl e \<Rightarrow> WRet (0, Some e)
     | Inr cookie \<Rightarrow>
         wbind (attempt target (with_header header_cookie cookie r)) (\<lambda>result.
           wbind (wire_logout (snd endpoints) s cookie) (\<lambda>_. WRet result)))"

section \<open>Repeating\<close>

text \<open>
  One round of the loop. \<open>left\<close> is how many tries remain, this one included, and
  \<open>previous\<close> the error of the try before it. \<open>WWait\<close> answers whether the wait was
  served in full rather than cut short by the context.
\<close>

fun repeat_from :: "string \<Rightarrow> nat \<Rightarrow> nat \<Rightarrow> string option \<Rightarrow> (int \<times> attempt_error option) wire \<Rightarrow>
    (action_result \<times> string option) wire" where
  "repeat_from origin try 0 previous once =
     WRet (\<lparr>ar_origin = origin, ar_status = 0, ar_attempts = int (try - 1)\<rparr>, previous)"
| "repeat_from origin try (Suc left) previous once =
     (let go = wbind once (\<lambda>(status, err).
            let result = \<lparr>ar_origin = origin, ar_status = status, ar_attempts = int try\<rparr> in
            case err of
              None \<Rightarrow> WRet (result, None)
            | Some e \<Rightarrow>
                (let text = origin @ '': '' @ error_text e in
                 if transient e then repeat_from origin (Suc try) left (Some text) once
                 else WRet (result, Some text)))
      in if try > 1
         then WWait (retry_delay * 2 ^ (try - 2)) (\<lambda>served.
                if served then go
                else WRet (\<lparr>ar_origin = origin, ar_status = 0, ar_attempts = int (try - 1)\<rparr>, previous))
         else go)"

definition repeat_wire :: "string \<Rightarrow> bool \<Rightarrow> (int \<times> attempt_error option) wire \<Rightarrow>
    (action_result \<times> string option) wire" where
  "repeat_wire origin retryable once = repeat_from origin 1 (if retryable then retry_attempts else 1) None once"

definition client_do :: "url_lib \<Rightarrow> policy \<Rightarrow> request \<Rightarrow> (action_result \<times> string option) wire" where
  "client_do lib p r =
     (let (checked, origin) = policy_check lib p (rq_url r);
          refused = (\<lambda>e. WRet (\<lparr>ar_origin = origin, ar_status = 0, ar_attempts = 0\<rparr>, Some e)) in
      case checked of
        Inl e \<Rightarrow> refused e
      | Inr target \<Rightarrow>
          (case rq_session r of
             None \<Rightarrow> repeat_wire origin (rq_retryable r) (attempt target r)
           | Some s \<Rightarrow>
               (case check_session lib p s of
                  Inl e \<Rightarrow> refused e
                | Inr endpoints \<Rightarrow> repeat_wire origin (rq_retryable r) (run_session target r s endpoints))))"

end
