(* ===== verification/Outbound.thy ===== *)
theory Outbound
  imports Client
begin

text \<open>
  What can leave the cluster. Every request an outbound action puts on the wire goes
  to a destination the install allows, in a bounded number of attempts, with a login
  paired to its logout; the addresses the dialer refuses; and the limits on what a
  header, a notification and a rendered template may carry.
\<close>

section \<open>Executions on the wire\<close>

datatype wire_event =
    Sent leg url request duration "transport_error + response"
  | Waited duration bool

inductive on_wire :: "'a wire \<Rightarrow> wire_event list \<Rightarrow> 'a \<Rightarrow> bool" where
  returned: "on_wire (WRet x) [] x"
| sent: "on_wire (f a) t y \<Longrightarrow> on_wire (WSend l u r d f) (Sent l u r d a # t) y"
| waited: "on_wire (f b) t y \<Longrightarrow> on_wire (WWait d f) (Waited d b # t) y"

inductive_simps on_wire_simps [simp]:
  "on_wire (WRet x) t y"
  "on_wire (WSend l u r d f) t y"
  "on_wire (WWait d f) t y"

lemma on_wire_bind: "on_wire (wbind m f) t y \<longleftrightarrow> (\<exists>t1 t2 x. t = t1 @ t2 \<and> on_wire m t1 x \<and> on_wire (f x) t2 y)"
proof (induction m arbitrary: t)
  case (WSend l u r d g)
  have "on_wire (wbind (WSend l u r d g) f) t y \<longleftrightarrow>
      (\<exists>a t'. t = Sent l u r d a # t' \<and> (\<exists>t1 t2 x. t' = t1 @ t2 \<and> on_wire (g a) t1 x \<and> on_wire (f x) t2 y))"
    by (auto simp: WSend)
  also have "\<dots> \<longleftrightarrow> (\<exists>t1 t2 x. t = t1 @ t2 \<and> (\<exists>a t'. t1 = Sent l u r d a # t' \<and> on_wire (g a) t' x) \<and> on_wire (f x) t2 y)"
    by (metis append_Cons)
  finally show ?case by simp
next
  case (WWait d g)
  have "on_wire (wbind (WWait d g) f) t y \<longleftrightarrow>
      (\<exists>b t'. t = Waited d b # t' \<and> (\<exists>t1 t2 x. t' = t1 @ t2 \<and> on_wire (g b) t1 x \<and> on_wire (f x) t2 y))"
    by (auto simp: WWait)
  also have "\<dots> \<longleftrightarrow> (\<exists>t1 t2 x. t = t1 @ t2 \<and> (\<exists>b t'. t1 = Waited d b # t' \<and> on_wire (g b) t' x) \<and> on_wire (f x) t2 y)"
    by (metis append_Cons)
  finally show ?case by simp
qed simp

lemma on_wire_cases [simp]:
  "on_wire (case a of Inl e \<Rightarrow> f e | Inr x \<Rightarrow> g x) t y \<longleftrightarrow>
     (\<exists>e. a = Inl e \<and> on_wire (f e) t y) \<or> (\<exists>x. a = Inr x \<and> on_wire (g x) t y)"
  "on_wire (case c of None \<Rightarrow> n | Some x \<Rightarrow> k x) t y \<longleftrightarrow>
     (c = None \<and> on_wire n t y) \<or> (\<exists>x. c = Some x \<and> on_wire (k x) t y)"
  by (cases a; simp) (cases c; simp)

fun sends :: "wire_event list \<Rightarrow> (leg \<times> url) list" where
  "sends [] = []"
| "sends (Sent l u r d a # t) = (l, u) # sends t"
| "sends (Waited d b # t) = sends t"

fun waits :: "wire_event list \<Rightarrow> duration list" where
  "waits [] = []"
| "waits (Sent l u r d a # t) = waits t"
| "waits (Waited d b # t) = d # waits t"

lemma sends_append [simp]: "sends (s @ t) = sends s @ sends t"
  by (induction s rule: sends.induct) auto

lemma waits_append [simp]: "waits (s @ t) = waits s @ waits t"
  by (induction s rule: waits.induct) auto

section \<open>One try\<close>

definition one_try :: "url \<Rightarrow> (url \<times> url option) option \<Rightarrow> (leg \<times> url) list \<Rightarrow> bool" where
  "one_try target endpoints round =
     (case endpoints of
        None \<Rightarrow> round = [(Action, target)]
      | Some (login, logout) \<Rightarrow>
          round = [(Login, login)] \<or>
          round = [(Login, login), (Action, target)] @ (case logout of None \<Rightarrow> [] | Some u \<Rightarrow> [(Logout, u)]))"

lemma classify_ok: "classify rp = (st, None) \<Longrightarrow> 200 \<le> st \<and> st < 300"
  by (auto simp: classify_def split: if_splits)

lemma attempt_wire: "on_wire (attempt target r) t (st, err) \<Longrightarrow>
    sends t = [(Action, target)] \<and> waits t = [] \<and> (err = None \<longrightarrow> 200 \<le> st \<and> st < 300)"
  by (auto simp: attempt_def send_def on_wire_bind dest: classify_ok [OF sym])

lemma logout_wire: "on_wire (wire_logout u s c) t y \<Longrightarrow>
    sends t = (case u of None \<Rightarrow> [] | Some u \<Rightarrow> [(Logout, u)]) \<and> waits t = []"
  by (auto simp: wire_logout_def send_def on_wire_bind)

lemma login_wire: "on_wire (wire_login u s) t y \<Longrightarrow> sends t = [(Login, u)] \<and> waits t = []"
  by (auto simp: wire_login_def send_def on_wire_bind)

lemma session_wire: "on_wire (run_session target r s endpoints) t (st, err) \<Longrightarrow>
    one_try target (Some endpoints) (sends t) \<and> waits t = [] \<and> (err = None \<longrightarrow> 200 \<le> st \<and> st < 300)"
  by (cases endpoints)
    (auto simp: run_session_def on_wire_bind one_try_def dest!: login_wire logout_wire attempt_wire)

section \<open>All of them\<close>

definition pauses :: "nat \<Rightarrow> nat \<Rightarrow> duration list" where
  "pauses num n = map (\<lambda>j. retry_delay * 2 ^ (j - 2)) [max 2 num ..< max 2 num + n]"

lemma pauses_simps [simp]:
  "pauses num 0 = []"
  "2 \<le> num \<Longrightarrow> pauses num (Suc n) = retry_delay * 2 ^ (num - 2) # pauses (Suc num) n"
  "pauses (Suc (Suc 0)) n = pauses (Suc 0) n"
proof -
  assume "2 \<le> num"
  then have "max 2 num = num" "max 2 (Suc num) = Suc num" by simp_all
  moreover have "[num ..< num + Suc n] = num # [Suc num ..< Suc num + n]" by (simp add: upt_conv_Cons)
  ultimately show "pauses num (Suc n) = retry_delay * 2 ^ (num - 2) # pauses (Suc num) n"
    by (simp only: pauses_def list.map)
qed (simp_all add: pauses_def numeral_2_eq_2)

lemma repeat_wire_from:
  assumes once: "\<And>t st err. on_wire once t (st, err) \<Longrightarrow>
      P (sends t) \<and> waits t = [] \<and> (err = None \<longrightarrow> 200 \<le> st \<and> st < 300)"
  shows "1 \<le> num \<Longrightarrow> previous = None \<longrightarrow> num = 1 \<and> 0 < left \<Longrightarrow>
    on_wire (repeat_from origin num left previous once) t (res, err) \<Longrightarrow>
    \<exists>rounds n. sends t = concat rounds \<and> list_all P rounds \<and> length rounds \<le> left \<and>
      ar_attempts res = int (num - 1 + length rounds) \<and> ar_origin res = origin \<and>
      waits t = pauses num n \<and> n \<le> left \<and> (err = None \<longrightarrow> 200 \<le> ar_status res \<and> ar_status res < 300)"
proof (induction left arbitrary: num previous t)
  case 0
  then show ?case by (auto intro!: exI [of _ "[]"] exI [of _ 0])
next
  case (Suc left)
  let ?go = "wbind once (\<lambda>(status, err).
            let result = \<lparr>ar_origin = origin, ar_status = status, ar_attempts = int num\<rparr> in
            case err of
              None \<Rightarrow> WRet (result, None)
            | Some e \<Rightarrow>
                (let text = origin @ '': '' @ error_text e in
                 if transient e then repeat_from origin (Suc num) left (Some text) once
                 else WRet (result, Some text)))"
  have go: "\<exists>rounds n. sends t = concat rounds \<and> list_all P rounds \<and> length rounds \<le> Suc left \<and>
      ar_attempts res = int (num - 1 + length rounds) \<and> ar_origin res = origin \<and>
      waits t = pauses (Suc num) n \<and> n \<le> left \<and> (err = None \<longrightarrow> 200 \<le> ar_status res \<and> ar_status res < 300)"
    if ran: "on_wire ?go t (res, err)" for t
  proof -
    obtain t1 st e t2 where t: "t = t1 @ t2" and one: "on_wire once t1 (st, e)" and
      rest: "on_wire (let result = \<lparr>ar_origin = origin, ar_status = st, ar_attempts = int num\<rparr> in
            case e of
              None \<Rightarrow> WRet (result, None)
            | Some e \<Rightarrow>
                (let text = origin @ '': '' @ error_text e in
                 if transient e then repeat_from origin (Suc num) left (Some text) once
                 else WRet (result, Some text))) t2 (res, err)"
      using ran by (auto simp: on_wire_bind)
    show ?thesis
    proof (cases "\<exists>x. e = Some x \<and> transient x")
      case True
      then obtain x where "on_wire (repeat_from origin (Suc num) left (Some x) once) t2 (res, err)"
        using rest by (auto simp: Let_def)
      from Suc.IH [OF _ _ this] obtain rounds n where "sends t2 = concat rounds" "list_all P rounds" "length rounds \<le> left"
        "ar_attempts res = int (Suc num - 1 + length rounds)" "ar_origin res = origin" "waits t2 = pauses (Suc num) n" "n \<le> left"
        "err = None \<longrightarrow> 200 \<le> ar_status res \<and> ar_status res < 300"
        by auto
      then show ?thesis using once [OF one] t Suc.prems(1)
        by (intro exI [of _ "sends t1 # rounds"] exI [of _ n]) auto
    next
      case False
      then show ?thesis using rest once [OF one] t Suc.prems(1)
        by (intro exI [of _ "[sends t1]"] exI [of _ 0]) (auto simp: Let_def split: if_splits)
    qed
  qed
  show ?case
  proof (cases "num = 1")
    case True
    have "on_wire ?go t (res, err)" using Suc.prems(3) unfolding True One_nat_def by simp
    from go [OF this] obtain rounds n where "sends t = concat rounds" "list_all P rounds" "length rounds \<le> Suc left"
      "ar_attempts res = int (num - 1 + length rounds)" "ar_origin res = origin" "waits t = pauses (Suc num) n" "n \<le> left"
      "err = None \<longrightarrow> 200 \<le> ar_status res \<and> ar_status res < 300"
      by auto
    then show ?thesis using True by (intro exI [of _ rounds] exI [of _ n]) auto
  next
    case False
    then have two: "2 \<le> num" "previous \<noteq> None" using Suc.prems by auto
    then have "repeat_from origin num (Suc left) previous once = WWait (retry_delay * 2 ^ (num - 2)) (\<lambda>served.
        if served then ?go else WRet (\<lparr>ar_origin = origin, ar_status = 0, ar_attempts = int (num - 1)\<rparr>, previous))"
      unfolding repeat_from.simps Let_def by simp
    from Suc.prems(3) [unfolded this] obtain served t' where t: "t = Waited (retry_delay * 2 ^ (num - 2)) served # t'" and
      rest: "on_wire (if served then ?go else WRet (\<lparr>ar_origin = origin, ar_status = 0, ar_attempts = int (num - 1)\<rparr>, previous)) t' (res, err)"
      by (simp only: on_wire_simps) blast
    show ?thesis
    proof (cases served)
      case True
      then have "on_wire ?go t' (res, err)" using rest by (simp only: if_True)
      from go [OF this] obtain rounds n where "sends t' = concat rounds" "list_all P rounds" "length rounds \<le> Suc left"
        "ar_attempts res = int (num - 1 + length rounds)" "ar_origin res = origin" "waits t' = pauses (Suc num) n" "n \<le> left"
        "err = None \<longrightarrow> 200 \<le> ar_status res \<and> ar_status res < 300"
        by auto
      then show ?thesis using t two by (intro exI [of _ rounds] exI [of _ "Suc n"]) auto
    next
      case False
      then show ?thesis using rest t two by (auto intro!: exI [of _ "[]"] exI [of _ "Suc 0"])
    qed
  qed
qed

text \<open>The tries of a request: their number, their shape, the pauses, and what success means.\<close>

definition bounded_tries :: "bool \<Rightarrow> ((leg \<times> url) list \<Rightarrow> bool) \<Rightarrow> wire_event list \<Rightarrow> action_result \<Rightarrow> string option \<Rightarrow> bool" where
  "bounded_tries retryable P t res err \<longleftrightarrow>
     (\<exists>rounds n. sends t = concat rounds \<and> list_all P rounds \<and> length rounds \<le> (if retryable then 3 else 1) \<and>
       ar_attempts res = int (length rounds) \<and> waits t = map (\<lambda>i. second * 2 ^ i) [0 ..< n] \<and> n \<le> 3 \<and>
       (err = None \<longrightarrow> 200 \<le> ar_status res \<and> ar_status res < 300))"

text \<open>Where a session's login and logout go: their own checked addresses.\<close>

definition permitted_session :: "url_lib \<Rightarrow> policy \<Rightarrow> session option \<Rightarrow> (url \<times> url option) option \<Rightarrow> bool" where
  "permitted_session lib p session ends =
     (case session of
        None \<Rightarrow> ends = None
      | Some s \<Rightarrow> (case ends of None \<Rightarrow> False | Some (login, logout) \<Rightarrow>
          fst (policy_check lib p (rq_url (se_login s))) = Inr login \<and>
          (case logout of None \<Rightarrow> True | Some u \<Rightarrow> fst (policy_check lib p (rq_url (se_logout s))) = Inr u)))"

lemma repeat_wire_tries:
  assumes "on_wire (repeat_wire origin retryable once) t (res, err)"
    and "\<And>t st err. on_wire once t (st, err) \<Longrightarrow> P (sends t) \<and> waits t = [] \<and> (err = None \<longrightarrow> 200 \<le> st \<and> st < 300)"
  shows "bounded_tries retryable P t res err"
proof -
  have pauses: "pauses 1 n = map (\<lambda>i. second * 2 ^ i) [0 ..< n]" for n
  proof -
    have "[2 ..< 2 + n] = map (\<lambda>i. i + 2) [0 ..< n]" by (simp only: map_add_upt add.commute)
    moreover have "max 2 (1 :: nat) = 2" by simp
    ultimately show ?thesis by (simp only: pauses_def retry_delay_def map_map comp_def) simp
  qed
  show ?thesis
    using repeat_wire_from [of once P 1 None, OF assms(2) _ _ assms(1) [unfolded repeat_wire_def]]
    unfolding pauses retry_attempts_def bounded_tries_def by (fastforce split: if_splits)
qed

lemma check_session_permits: "check_session lib p s = Inr ends \<Longrightarrow> permitted_session lib p (Some s) (Some ends)"
  by (auto simp: check_session_def permitted_session_def split: if_splits sum.splits)

text \<open>C16: An outbound action makes a bounded number of tries, each of a fixed shape, and only to
  destinations the install allows. What is put on the wire is a sequence of at most
  three tries, one for a request that may not be repeated: each a single request to
  the checked address, or a login followed, when it succeeded, by the action and its
  logout. The reported attempts are the tries made, the pauses between them are one
  and two seconds, and success is reported only for a status in 200..299. A refused
  destination puts nothing on the wire.\<close>

theorem client_tries_are_bounded:
  assumes "on_wire (client_do lib p r) t (res, err)"
  shows "(sends t = [] \<and> err \<noteq> None \<and> ar_attempts res = 0) \<or>
    (\<exists>target ends. fst (policy_check lib p (rq_url r)) = Inr target \<and> permitted_session lib p (rq_session r) ends \<and>
       bounded_tries (rq_retryable r) (one_try target ends) t res err)"
proof -
  obtain checked origin where check: "policy_check lib p (rq_url r) = (checked, origin)"
    by (cases "policy_check lib p (rq_url r)")
  show ?thesis
  proof (cases checked)
    case (Inl e)
    then show ?thesis using assms check by (simp add: client_do_def)
  next
    case target: (Inr target)
    show ?thesis
    proof (cases "rq_session r")
      case None
      then have "on_wire (repeat_wire origin (rq_retryable r) (attempt target r)) t (res, err)"
        using assms check target by (simp add: client_do_def)
      then have "bounded_tries (rq_retryable r) (one_try target None) t res err"
        by (rule repeat_wire_tries) (auto dest!: attempt_wire simp: one_try_def)
      then show ?thesis using check target None by (auto simp: permitted_session_def)
    next
      case (Some s)
      show ?thesis
      proof (cases "check_session lib p s")
        case (Inl e)
        then show ?thesis using assms check target Some by (simp add: client_do_def)
      next
        case (Inr ends)
        then have "on_wire (repeat_wire origin (rq_retryable r) (run_session target r s ends)) t (res, err)"
          using assms check target Some by (simp add: client_do_def)
        then have "bounded_tries (rq_retryable r) (one_try target (Some ends)) t res err"
          by (rule repeat_wire_tries) (rule session_wire)
        then show ?thesis using check target Some check_session_permits [OF Inr] by auto
      qed
    qed
  qed
qed

definition ntfy_url :: url where
  "ntfy_url = \<lparr>ur_scheme = ''https'', ur_user = False, ur_host = ''push.example.com'', ur_path = ''/wan'',
     ur_raw_query = [], ur_fragment = []\<rparr>"

definition ntfy_lib :: url_lib where
  "ntfy_lib = \<lparr>ul_parse = (\<lambda>_. Inr ntfy_url), ul_join = (\<lambda>u segments. join ''/'' segments)\<rparr>"

definition example_entry :: destination where
  "example_entry = \<lparr>de_scheme = ''https'', de_host = ''.example.com'', de_port = ''443'', de_wildcard = True, de_any = False\<rparr>"

definition example_policy :: policy where
  "example_policy = \<lparr>po_allowed = [example_entry], po_loopback = False\<rparr>"

definition ntfy_request :: request where
  "ntfy_request = Request ''POST'' ''https://push.example.com/wan'' [] ''down'' False 0 None"

definition ntfy_trace :: "wire_event list" where
  "ntfy_trace = [Sent Action ntfy_url (with_header ''User-Agent'' user_agent ntfy_request) outbound_default_timeout
     (Inr \<lparr>rp_status = 200, rp_text = ''200 OK'', rp_cookies = []\<rparr>)]"

lemma ntfy_checked: "policy_check ntfy_lib example_policy raw = (Inr ntfy_url, ''https://push.example.com:443'')"
  unfolding policy_check_def ntfy_lib_def by code_simp

theorem client_tries_are_bounded_witness:
  "bounded_tries False (one_try ntfy_url None) ntfy_trace
     \<lparr>ar_origin = ''https://push.example.com:443'', ar_status = 200, ar_attempts = 1\<rparr> None"
proof -
  have "on_wire (client_do ntfy_lib example_policy ntfy_request) ntfy_trace
      (\<lparr>ar_origin = ''https://push.example.com:443'', ar_status = 200, ar_attempts = 1\<rparr>, None)"
    by (simp add: client_do_def ntfy_checked ntfy_request_def repeat_wire_def attempt_def send_def ntfy_trace_def
        classify_def on_wire_bind timeout_of_def outbound_default_timeout_def)
  from client_tries_are_bounded [OF this] show ?thesis
    by (auto simp: ntfy_request_def ntfy_checked permitted_session_def ntfy_trace_def)
qed

section \<open>The allowlist\<close>

text \<open>What an entry stands for: everything, one host, or the hosts below one domain.\<close>

definition covers :: "destination \<Rightarrow> string \<Rightarrow> string \<Rightarrow> string \<Rightarrow> bool" where
  "covers d scheme host port =
     (de_any d \<or> (scheme = de_scheme d \<and> port = de_port d \<and>
        (if de_wildcard d then \<exists>label. label \<noteq> [] \<and> host = label @ de_host d else host = de_host d)))"

lemma matches_covers: "matches d scheme host port \<longleftrightarrow> covers d scheme host port"
  by (auto simp: matches_def covers_def has_suffix_iff)


text \<open>A wildcard entry never covers its own domain or a lookalike, but covers every level
  below it. An entry \<open>scheme://*.suffix\<close> of the configuration covers a host exactly
  when something non-empty stands before \<open>.suffix\<close>; that may hold dots of its own, so
  one entry allows the whole subtree of a domain, not one level of it.\<close>

theorem wildcard_covers_subtree:
  assumes "parse_destination lib entry = Inr d" and "de_wildcard d" and "\<not> de_any d"
  shows "\<exists>suffix. de_host d = ''.'' @ suffix \<and>
    (covers d (de_scheme d) host (de_port d) \<longleftrightarrow> (\<exists>label. label \<noteq> [] \<and> host = label @ ''.'' @ suffix)) \<and>
    covers d (de_scheme d) (''a.b.'' @ suffix) (de_port d) \<and> \<not> covers d (de_scheme d) suffix (de_port d)"
proof -
  obtain suffix where "de_host d = ''.'' @ suffix"
    using assms(1,2) by (auto simp: parse_destination_def Let_def split: sum.splits if_splits prod.splits option.splits)
  moreover have "''a.b.'' @ suffix = ''a.b'' @ ''.'' @ suffix" by simp
  moreover have "suffix \<noteq> label @ CHR ''.'' # suffix" for label
    by (metis append_Cons append_assoc append_same_eq append_self_conv2 list.distinct(1) self_append_conv)
  ultimately show ?thesis using assms(2,3) by (auto simp: covers_def)
qed

theorem wildcard_covers_subtree_witness:
  "covers (\<lparr>de_scheme = ''https'', de_host = ''.example.com'', de_port = ''443'', de_wildcard = True, de_any = False\<rparr>)
     ''https'' ''a.b.example.com'' ''443''"
proof -
  let ?lib = "\<lparr>ul_parse = (\<lambda>_. Inr (ntfy_url\<lparr>ur_host := ''*.example.com'', ur_path := []\<rparr>)), ul_join = (\<lambda>u segments. [])\<rparr>"
  have "parse_destination ?lib ''https://*.example.com'' =
      Inr \<lparr>de_scheme = ''https'', de_host = ''.example.com'', de_port = ''443'', de_wildcard = True, de_any = False\<rparr>"
    by code_simp
  from wildcard_covers_subtree [OF this] show ?thesis by auto
qed

section \<open>The address floor\<close>

lemma drop_bit_num: "drop_bit n w = c \<longleftrightarrow> uint w div 2 ^ n = uint c" for w :: "'a :: len word"
  unfolding word_uint_eq_iff unsigned_drop_bit_eq by (simp add: drop_bit_eq_div take_bit_int_eq_self)

lemma mapped_ipv4:
  "drop_bit 32 (push_bit 32 0xFFFF OR ucast w) = (0xFFFF :: 128 word)" "ucast (push_bit 32 0xFFFF OR ucast w :: 128 word) = w"
  for w :: "32 word"
proof -
  have m: "drop_bit 32 (push_bit 32 m OR ucast w) = take_bit 96 m" "ucast (push_bit 32 m OR ucast w) = w" for m :: "128 word"
    by (intro bit_word_eqI; auto simp: bit_simps dest: bit_imp_le_length)+
  show "drop_bit 32 (push_bit 32 0xFFFF OR ucast w) = (0xFFFF :: 128 word)" by (simp only: m(1)) simp
  show "ucast (push_bit 32 0xFFFF OR ucast w :: 128 word) = w" by (rule m(2))
qed

text \<open>C15: No allowlist opens the address floor. Once the dialer has an address, an IPv4 dial
  goes on exactly when the address is outside 169.254.0.0/16, 224.0.0.0/4 and
  0.0.0.0, and outside 127.0.0.0/8 unless the tests' switch is set; an IPv4 address
  written as an IPv6 one is judged the same; and an address that does not parse is
  refused.\<close>

theorem address_floor:
  assumes "net_split_host_port address = Inr (host, port)"
    and "parse host = Some raw" and "raw = V4 w \<or> raw = V6 (push_bit 32 0xFFFF OR ucast w) zone"
  shows "control_address parse show p address = None \<longleftrightarrow>
    uint w div 2 ^ 16 \<noteq> 169 * 256 + 254 \<and> \<not> (224 * 2 ^ 24 \<le> uint w \<and> uint w < 240 * 2 ^ 24) \<and> w \<noteq> 0 \<and>
    (uint w div 2 ^ 24 = 127 \<longrightarrow> po_loopback p)"
proof -
  have un: "unmap raw = V4 w"
    using assms(3)
  proof
    assume raw: "raw = V6 (push_bit 32 0xFFFF OR ucast w) zone"
    then show ?thesis using mapped_ipv4 [of w] by (simp only: unmap_def addr.case simp_thms if_True)
  qed (simp add: unmap_def)
  have multi: "uint w div 2 ^ 28 = 14 \<longleftrightarrow> 224 * 2 ^ 24 \<le> uint w \<and> uint w < 240 * 2 ^ 24" by auto
  have local_multi: "uint w div 2 ^ 8 = 0xE00000 \<longrightarrow> uint w div 2 ^ 28 = 14" by auto
  have loop: "uint w div 2 ^ 24 = 127 \<longrightarrow> uint w div 2 ^ 28 = 7 \<and> uint w div 2 ^ 16 \<noteq> 43518 \<and> w \<noteq> 0"
    by (auto simp: word_uint_eq_iff)
  have num: "is_loopback (V4 w) \<longleftrightarrow> uint w div 2 ^ 24 = 127" "is_link_local_unicast (V4 w) \<longleftrightarrow> uint w div 2 ^ 16 = 43518"
    "is_link_local_multicast (V4 w) \<longleftrightarrow> uint w div 2 ^ 8 = 0xE00000" "is_unspecified (V4 w) \<longleftrightarrow> w = 0"
    "is_multicast (V4 w) \<longleftrightarrow> uint w div 2 ^ 28 = 14" "\<not> is_interface_local_multicast (V4 w)"
    by (simp_all add: is_loopback_def is_link_local_unicast_def is_link_local_multicast_def is_unspecified_def
        is_multicast_def is_interface_local_multicast_def drop_bit_num)
  have "control_address parse show p address = None \<longleftrightarrow>
      (if is_loopback (V4 w) then po_loopback p
       else \<not> is_link_local_unicast (V4 w) \<and> \<not> is_link_local_multicast (V4 w) \<and> \<not> is_unspecified (V4 w) \<and>
         \<not> is_multicast (V4 w) \<and> \<not> is_interface_local_multicast (V4 w))"
    unfolding control_address_def assms(1,2) sum.case prod.case option.case un Let_def by simp
  also have "\<dots> \<longleftrightarrow> uint w div 2 ^ 16 \<noteq> 169 * 256 + 254 \<and> \<not> uint w div 2 ^ 28 = 14 \<and> w \<noteq> 0 \<and>
      (uint w div 2 ^ 24 = 127 \<longrightarrow> po_loopback p)"
    unfolding num using local_multi loop num(6) by auto
  finally show ?thesis unfolding multi .
qed

theorem address_floor_witness:
  "control_address (\<lambda>_. Some (V6 (push_bit 32 0xFFFF OR ucast (0xA9FEA9FE :: 32 word)) [])) (\<lambda>_. []) example_policy
     ''[::ffff:169.254.169.254]:80'' \<noteq> None"
proof -
  have split: "net_split_host_port ''[::ffff:169.254.169.254]:80'' = Inr (''::ffff:169.254.169.254'', ''80'')"
    by code_simp
  show ?thesis
    using address_floor [OF split, of "\<lambda>_. Some (V6 (push_bit 32 0xFFFF OR ucast (0xA9FEA9FE :: 32 word)) [])"
        "V6 (push_bit 32 0xFFFF OR ucast (0xA9FEA9FE :: 32 word)) []" "0xA9FEA9FE" "[]" "\<lambda>_. []" example_policy]
    by simp
qed

section \<open>What a request may carry\<close>

text \<open>No byte that could end a header line, and a name every byte of which may stand in one.\<close>

definition plain_value :: "string \<Rightarrow> bool" where
  "plain_value v = (v \<noteq> [] \<and> set v \<inter> {CHR 0x0D, CHR 0x0A, CHR 0x00} = {})"

lemma upper_lower_name: "c \<in> set header_name_chars \<Longrightarrow> upper_char c \<in> set header_name_chars \<and> lower_char c \<in> set header_name_chars"
proof -
  have "list_all (\<lambda>c. upper_char c \<in> set header_name_chars \<and> lower_char c \<in> set header_name_chars) header_name_chars"
    by code_simp
  then show "c \<in> set header_name_chars \<Longrightarrow> ?thesis" by (simp add: list_all_iff)
qed

lemma canonical_name: "set n \<subseteq> set header_name_chars \<Longrightarrow> set (canonical_header_key n) \<subseteq> set header_name_chars"
proof -
  assume n: "set n \<subseteq> set header_name_chars"
  have "set (canonical_from up n) \<subseteq> set header_name_chars" for up
    using n by (induction up n rule: canonical_from.induct) (auto dest: upper_lower_name)
  then show ?thesis using n by (auto simp: canonical_header_key_def list_all_iff)
qed

definition safe_header :: "gomap \<Rightarrow> bool" where
  "safe_header h = (\<forall>(k, v) \<in> set h. set k \<subseteq> set header_name_chars \<and> k \<noteq> [] \<and> plain_value v)"

lemma canonical_from_length [simp]: "length (canonical_from up n) = length n"
  by (induction up n rule: canonical_from.induct) auto

lemma safe_header_set:
  assumes "safe_header h" and "set n \<subseteq> set header_name_chars" and "n \<noteq> []" and "plain_value v"
  shows "safe_header (header_set h n v)"
proof -
  have "canonical_header_key n \<noteq> []"
  proof -
    have "length (canonical_header_key n) = length n" by (simp add: canonical_header_key_def)
    then show ?thesis using assms(3) by (metis length_0_conv)
  qed
  then show ?thesis
    using assms canonical_name [OF assms(2)]
    by (auto simp: safe_header_def header_set_def dest!: set_gm_set)
qed

lemma usable_plain: "usable_header_value secret key v = None \<Longrightarrow> plain_value v"
  by (auto simp: usable_header_value_def plain_value_def list_ex_iff split: if_splits)

lemma safe_authorization: "safe_header h \<Longrightarrow> plain_value v \<Longrightarrow> safe_header (header_set h ''Authorization'' v)"
proof (rule safe_header_set)
  show "set ''Authorization'' \<subseteq> set header_name_chars" by code_simp
qed simp_all

lemma safe_named: "safe_header h \<Longrightarrow> list_all (\<lambda>c. c \<in> set header_name_chars) n \<Longrightarrow> n \<noteq> [] \<Longrightarrow> plain_value v \<Longrightarrow>
    safe_header (header_set h n v)"
  by (rule safe_header_set) (auto simp: list_all_iff)

lemma take_secret_key_safe:
  "safe_header (cr_header c) \<Longrightarrow> take_secret_key secret data key c = Inr c' \<Longrightarrow> safe_header (cr_header c')"
  unfolding take_secret_key_def Let_def
  by (simp split: if_splits option.splits; blast?)
    (clarsimp; rule safe_authorization safe_named; simp add: usable_plain)+

text \<open>A Secret cannot smuggle a header. Whatever keys and values a Secret holds, every
  header a request gets from it has a non-empty name made only of bytes a header
  name may hold, and a non-empty value without carriage return, line feed or NUL;
  otherwise the Secret is refused as a whole.\<close>

theorem secret_headers_are_safe:
  "case credentials_from secret data of Inl e \<Rightarrow> True | Inr c \<Rightarrow> safe_header (cr_header c)"
proof -
  have "safe_header (cr_header c) \<Longrightarrow> take_secret_keys secret data keys c = Inr c' \<Longrightarrow> safe_header (cr_header c')" for keys c c'
  proof (induction keys arbitrary: c)
    case (Cons key keys)
    then show ?case by (cases "take_secret_key secret data key c") (auto dest: take_secret_key_safe)
  qed simp
  moreover have "safe_header (cr_header no_credentials)" by (simp add: no_credentials_def safe_header_def)
  ultimately show ?thesis by (auto simp: credentials_from_def split: sum.splits)
qed

lemma bounded_write_length: "bounded_write n ps out = Some s \<Longrightarrow> length out \<le> n \<Longrightarrow> length s \<le> n"
  by (induction n ps out rule: bounded_write.induct) (auto split: if_splits)

text \<open>A template cannot exhaust the operator. Whatever the executor of a template writes, in
  whatever pieces, the text that reaches a request is at most 8192 bytes, and it is
  exactly what was written; anything longer fails the action instead.\<close>

theorem render_is_bounded:
  "case render parse execute text data of Inl e \<Rightarrow> True
   | Inr out \<Rightarrow> length out \<le> 8192 \<and>
       (text = [] \<and> out = [] \<or> (\<exists>tree. parse text = Inr tree \<and> out = concat (fst (execute tree data)) \<and> snd (execute tree data) = None))"
proof -
  have pieces: "bounded_write n ps out = Some s \<Longrightarrow> s = out @ concat ps" for n ps out s
    by (induction n ps out rule: bounded_write.induct) (auto split: if_splits)
  show ?thesis
    using bounded_write_length [of max_rendered _ "[]"] pieces [of max_rendered _ "[]"]
    by (auto simp: render_def Let_def max_rendered_def split: sum.splits option.splits prod.splits)
qed

lemma clip_runes_take: "\<exists>n. clip_runes rs limit = take n rs \<and> length (string_of_runes (take n rs)) \<le> limit \<and>
    (n < length rs \<longrightarrow> limit < length (string_of_runes (take (Suc n) rs)))"
proof (induction rs limit rule: clip_runes.induct)
  case (1 rs limit)
  show ?case
  proof (cases "length (string_of_runes rs) > limit")
    case True
    then obtain n where n: "clip_runes (butlast rs) limit = take n (butlast rs)"
      "length (string_of_runes (take n (butlast rs))) \<le> limit"
      "n < length (butlast rs) \<longrightarrow> limit < length (string_of_runes (take (Suc n) (butlast rs)))"
      using "1.IH" by blast
    define m where "m = min n (length (butlast rs))"
    have m: "take n (butlast rs) = take m rs" "m \<le> length rs - 1"
      by (simp_all add: m_def butlast_conv_take min.commute)
    have "limit < length (string_of_runes (take (Suc m) rs))" if "m < length rs"
    proof (cases "n < length (butlast rs)")
      case True
      then have "take (Suc n) (butlast rs) = take (Suc m) rs" by (simp add: m_def butlast_conv_take min.absorb1)
      then show ?thesis using n(3) True by simp
    next
      case False
      then have "take (Suc m) rs = rs" using that by (simp add: m_def min.absorb2)
      then show ?thesis using \<open>length (string_of_runes rs) > limit\<close> by simp
    qed
    then show ?thesis using True n(1,2) m by (subst clip_runes.simps) auto
  next
    case False
    then show ?thesis by (subst clip_runes.simps) (auto intro!: exI [of _ "length rs"])
  qed
qed

text \<open>A notification body is cut to its limit at a character. What is sent is never longer
  than the limit; a text that fits is sent as it is; and one that does not is cut
  before the first character that would pass it, so no character is split and no
  more is lost than has to be.\<close>

theorem clip_cuts_at_characters:
  "length (clip s limit) \<le> limit \<and>
   (if length s \<le> limit then clip s limit = s
    else \<exists>n. clip s limit = string_of_runes (take n (runes s)) \<and>
      (n \<ge> length (runes s) \<or> limit < length (string_of_runes (take (Suc n) (runes s)))))"
proof (cases "length s \<le> limit")
  case False
  obtain n where n: "clip_runes (runes s) limit = take n (runes s)" "length (string_of_runes (take n (runes s))) \<le> limit"
    "n < length (runes s) \<longrightarrow> limit < length (string_of_runes (take (Suc n) (runes s)))"
    using clip_runes_take by blast
  then show ?thesis using False by (auto simp: clip_def intro!: exI [of _ n])
qed (simp add: clip_def)

lemma encode_ascii: "r \<le> 0x7F \<Longrightarrow> encode_rune r = [char_of r]"
  by (simp add: encode_rune_def)

lemma header_safe_from_ascii:
  "\<forall>c \<in> set out. 0x20 \<le> (of_char c :: nat) \<and> of_char c \<le> (0x7E :: nat) \<Longrightarrow> length out < 200 \<Longrightarrow>
   (\<forall>c \<in> set (header_safe_from rs out). 0x20 \<le> (of_char c :: nat) \<and> of_char c \<le> (0x7E :: nat)) \<and>
   length (header_safe_from rs out) \<le> 200"
proof (induction rs out rule: header_safe_from.induct)
  case (2 r rs out)
  show ?case
  proof (cases "r > 0x7F \<or> \<not> (0x20 \<le> r \<and> r \<le> 0x7E)")
    case True
    then show ?thesis using 2 by simp
  next
    case False
    then have r: "encode_rune r = [char_of r]" "(of_char (char_of r :: char) :: nat) = r" by (simp_all add: encode_ascii)
    show ?thesis
    proof (cases "length out + 1 \<ge> 200")
      case True
      then have "header_safe_from (r # rs) out = out @ [char_of r]"
        using False r(1) by (simp add: max_title_header_def)
      then show ?thesis using 2(3,4) r(2) False by auto
    next
      case longer: False
      then show ?thesis using 2(2) False 2(3,4) r by (simp add: max_title_header_def)
    qed
  qed
qed simp

lemma set_trim: "set (trim_space s) \<subseteq> set s" "length (trim_space s) \<le> length s"
  using trim_space_infix [of s] by (metis Un_iff set_append subsetI) (metis length_append le_add1 le_add2 order_trans trim_space_infix)

text \<open>A title cannot break out of its header. Whatever an Automation's title renders to, in
  whatever bytes, what ntfy is sent of it is printable ASCII of at most 200 bytes.\<close>

theorem title_header_is_printable:
  "list_all (\<lambda>c. 0x20 \<le> (of_char c :: nat) \<and> of_char c \<le> (0x7E :: nat)) (header_safe title) \<and>
   length (header_safe title) \<le> 200"
  using header_safe_from_ascii [of "[]" "runes title"] set_trim [of "header_safe_from (runes title) []"]
  by (auto simp: header_safe_def list_all_iff)

text \<open>A service call stays below the instance's service path. The address of a Home
  Assistant action is the instance's own base address with \<open>api/services\<close> and two
  segments of one to 64 lowercase letters, digits and underscores appended; a domain
  or service with any other byte, such as a slash or a dot, is refused.\<close>

theorem service_path_is_confined:
  "case home_assistant_url lib base domain service of Inl e \<Rightarrow> True
   | Inr address \<Rightarrow> \<exists>u. ul_parse lib base = Inr u \<and> ur_raw_query u = [] \<and> ur_fragment u = [] \<and>
       address = ul_join lib u [''api'', ''services'', domain, service] \<and>
       list_all (\<lambda>name. 1 \<le> length name \<and> length name \<le> 64 \<and> set name \<subseteq> set home_assistant_name_chars) [domain, service]"
  by (auto simp: home_assistant_url_def usable_home_assistant_name_def endpoint_on_def list_all_iff Suc_le_eq
      max_home_assistant_name_def split: option.splits sum.splits if_splits)

end
