(* ===== verification/Json.thy ===== *)
theory Json
  imports Utf8 Complex_Main
begin

text \<open>
  Decoded JSON documents, as \<open>encoding/json\<close> hands them to code that asks for no
  type: null, booleans, numbers, strings, arrays and objects, an object being a map
  whose order stands for one order of iteration over it. A number is a finite
  \<open>float64\<close>, held as the rational it is. Then the searches the provider makes in such
  documents (\<open>findObjectWith\<close>, \<open>objectByIndex\<close>, \<open>decodeIndex\<close> of
  \<open>internal/providers/unifi/write.go\<close>; \<open>jsonHasString\<close>, \<open>findRuleID\<close> of \<open>alarm.go\<close>).
\<close>

datatype jv =
    JNull
  | JBool bool
  | JNum rat
  | JStr string
  | JArr "jv list"
  | JObj "(string \<times> jv) list"

type_synonym jobj = "(string \<times> jv) list"

section \<open>Type assertions\<close>

text \<open>\<open>v.(string)\<close> and its kin with the comma-ok form, of a value that may be absent.\<close>

definition as_string :: "jv option \<Rightarrow> string option" where
  "as_string v = (case v of Some (JStr s) \<Rightarrow> Some s | _ \<Rightarrow> None)"

definition as_bool :: "jv option \<Rightarrow> bool option" where
  "as_bool v = (case v of Some (JBool b) \<Rightarrow> Some b | _ \<Rightarrow> None)"

definition as_array :: "jv option \<Rightarrow> jv list option" where
  "as_array v = (case v of Some (JArr xs) \<Rightarrow> Some xs | _ \<Rightarrow> None)"

definition as_object :: "jv \<Rightarrow> jobj option" where
  "as_object v = (case v of JObj ps \<Rightarrow> Some ps | _ \<Rightarrow> None)"

lemma as_iff [simp]:
  "as_string v = Some s \<longleftrightarrow> v = Some (JStr s)" "as_bool v = Some b \<longleftrightarrow> v = Some (JBool b)"
  "as_array v = Some xs \<longleftrightarrow> v = Some (JArr xs)" "as_object w = Some ps \<longleftrightarrow> w = JObj ps"
  by (auto simp: as_string_def as_bool_def as_array_def as_object_def split: option.splits jv.splits)

lemma as_simps [simp]:
  "as_string (Some (JStr s)) = Some s" "as_bool (Some (JBool b)) = Some b" "as_array (Some (JArr xs)) = Some xs"
  "as_object (JObj ps) = Some ps" "as_string None = None" "as_bool None = None" "as_array None = None"
  by simp_all (simp_all add: as_string_def as_bool_def as_array_def)

text \<open>
  \<open>int32(f)\<close> of a \<open>float64\<close>: the fraction is dropped. What the conversion gives when the
  result does not fit is left to the implementation by the language: \<open>wild\<close> here.
\<close>

definition truncate :: "rat \<Rightarrow> int" where
  "truncate x = (if x < 0 then - \<lfloor>- x\<rfloor> else \<lfloor>x\<rfloor>)"

definition float_int32 :: "(rat \<Rightarrow> int) \<Rightarrow> rat \<Rightarrow> int" where
  "float_int32 wild x =
     (if - (2 ^ 31) \<le> truncate x \<and> truncate x < 2 ^ 31 then truncate x else int32 (wild x))"

definition decode_index :: "(rat \<Rightarrow> int) \<Rightarrow> jv option \<Rightarrow> int option" where
  "decode_index wild v = (case v of Some (JNum x) \<Rightarrow> Some (float_int32 wild x) | _ \<Rightarrow> None)"

lemma truncate_of_int [simp]: "truncate (of_int i) = i"
  by (simp add: truncate_def)

lemma float_int32_of_int: "- (2 ^ 31) \<le> i \<Longrightarrow> i < 2 ^ 31 \<Longrightarrow> float_int32 wild (of_int i) = i"
  by (simp add: float_int32_def)

section \<open>Searching\<close>

definition has_keys :: "jobj \<Rightarrow> string list \<Rightarrow> bool" where
  "has_keys ps keys = list_all (\<lambda>k. map_of ps k \<noteq> None) keys"

fun find_object_with :: "string \<Rightarrow> string \<Rightarrow> string list \<Rightarrow> jv \<Rightarrow> jobj option"
  and find_in_items :: "string \<Rightarrow> string \<Rightarrow> string list \<Rightarrow> jv list \<Rightarrow> jobj option"
  and find_in_entries :: "string \<Rightarrow> string \<Rightarrow> string list \<Rightarrow> jobj \<Rightarrow> jobj option" where
  "find_object_with key want required (JArr xs) = find_in_items key want required xs"
| "find_object_with key want required (JObj ps) =
     (if as_string (map_of ps key) = Some want \<and> has_keys ps required then Some ps
      else find_in_entries key want required ps)"
| "find_object_with key want required JNull = None"
| "find_object_with key want required (JBool b) = None"
| "find_object_with key want required (JNum x) = None"
| "find_object_with key want required (JStr s) = None"
| "find_in_items key want required [] = None"
| "find_in_items key want required (x # xs) =
     (case find_object_with key want required x of
        Some ps \<Rightarrow> Some ps
      | None \<Rightarrow> find_in_items key want required xs)"
| "find_in_entries key want required [] = None"
| "find_in_entries key want required ((k, x) # ps) =
     (case find_object_with key want required x of
        Some qs \<Rightarrow> Some qs
      | None \<Rightarrow> find_in_entries key want required ps)"

fun scan_index :: "(rat \<Rightarrow> int) \<Rightarrow> string \<Rightarrow> int \<Rightarrow> jv list \<Rightarrow> jobj option" where
  "scan_index wild field want [] = None"
| "scan_index wild field want (x # xs) =
     (case as_object x of
        None \<Rightarrow> scan_index wild field want xs
      | Some ps \<Rightarrow> if decode_index wild (map_of ps field) = Some want then Some ps
                   else scan_index wild field want xs)"

definition object_by_index :: "(rat \<Rightarrow> int) \<Rightarrow> jv option \<Rightarrow> string \<Rightarrow> int \<Rightarrow> jobj option" where
  "object_by_index wild table field want =
     (case as_array table of None \<Rightarrow> None | Some entries \<Rightarrow> scan_index wild field want entries)"

fun json_has_string :: "string \<Rightarrow> jv \<Rightarrow> bool"
  and items_have_string :: "string \<Rightarrow> jv list \<Rightarrow> bool"
  and entries_have_string :: "string \<Rightarrow> jobj \<Rightarrow> bool" where
  "json_has_string want (JStr s) = (s = want)"
| "json_has_string want (JArr xs) = items_have_string want xs"
| "json_has_string want (JObj ps) = entries_have_string want ps"
| "json_has_string want JNull = False"
| "json_has_string want (JBool b) = False"
| "json_has_string want (JNum x) = False"
| "items_have_string want [] = False"
| "items_have_string want (x # xs) = (json_has_string want x \<or> items_have_string want xs)"
| "entries_have_string want [] = False"
| "entries_have_string want ((k, x) # ps) = (json_has_string want x \<or> entries_have_string want ps)"

text \<open>The id of a rule with the title, if it has one of its own: \<open>Some []\<close> for a rule without.\<close>

fun find_rule_id :: "string \<Rightarrow> jv \<Rightarrow> string option"
  and rule_id_in_items :: "string \<Rightarrow> jv list \<Rightarrow> string option"
  and rule_id_in_entries :: "string \<Rightarrow> jobj \<Rightarrow> string option" where
  "find_rule_id title (JArr xs) = rule_id_in_items title xs"
| "find_rule_id title (JObj ps) =
     (if as_string (map_of ps ''title'') = Some title
      then Some (case as_string (map_of ps ''id'') of None \<Rightarrow> [] | Some i \<Rightarrow> i)
      else rule_id_in_entries title ps)"
| "find_rule_id title JNull = None"
| "find_rule_id title (JBool b) = None"
| "find_rule_id title (JNum x) = None"
| "find_rule_id title (JStr s) = None"
| "rule_id_in_items title [] = None"
| "rule_id_in_items title (x # xs) =
     (case find_rule_id title x of Some i \<Rightarrow> Some i | None \<Rightarrow> rule_id_in_items title xs)"
| "rule_id_in_entries title [] = None"
| "rule_id_in_entries title ((k, x) # ps) =
     (case find_rule_id title x of Some i \<Rightarrow> Some i | None \<Rightarrow> rule_id_in_entries title ps)"

section \<open>What a search finds\<close>

text \<open>The values a document holds, at any depth, itself among them.\<close>

inductive inside :: "jv \<Rightarrow> jv \<Rightarrow> bool" where
  inside_refl: "inside v v"
| inside_item: "x \<in> set xs \<Longrightarrow> inside v x \<Longrightarrow> inside v (JArr xs)"
| inside_entry: "(k, x) \<in> set ps \<Longrightarrow> inside v x \<Longrightarrow> inside v (JObj ps)"

inductive_simps inside_simps [simp]:
  "inside v JNull" "inside v (JBool b)" "inside v (JNum n)" "inside v (JStr s)" "inside v (JArr xs)" "inside v (JObj ps)"

definition carries :: "string \<Rightarrow> string \<Rightarrow> string list \<Rightarrow> jobj \<Rightarrow> bool" where
  "carries key want required ps = (map_of ps key = Some (JStr want) \<and> has_keys ps required)"

lemma find_sound:
  "find_object_with key want required doc = Some ps \<Longrightarrow> inside (JObj ps) doc \<and> carries key want required ps"
  "find_in_items key want required xs = Some ps \<Longrightarrow>
     (\<exists>x \<in> set xs. inside (JObj ps) x) \<and> carries key want required ps"
  "find_in_entries key want required qs = Some ps \<Longrightarrow>
     (\<exists>k x. (k, x) \<in> set qs \<and> inside (JObj ps) x) \<and> carries key want required ps"
  by (induction key want required doc and key want required xs and key want required qs
      rule: find_object_with_find_in_items_find_in_entries.induct)
    (fastforce simp: carries_def split: option.splits if_splits)+

lemma find_complete:
  "find_object_with key want required doc = None \<Longrightarrow> inside (JObj ps) doc \<Longrightarrow> \<not> carries key want required ps"
  "find_in_items key want required xs = None \<Longrightarrow> x \<in> set xs \<Longrightarrow> inside (JObj ps) x \<Longrightarrow>
     \<not> carries key want required ps"
  "find_in_entries key want required qs = None \<Longrightarrow> (k, x) \<in> set qs \<Longrightarrow> inside (JObj ps) x \<Longrightarrow>
     \<not> carries key want required ps"
  by (induction key want required doc and key want required xs and key want required qs
      arbitrary: ps and ps x and ps k x rule: find_object_with_find_in_items_find_in_entries.induct)
    (fastforce simp: carries_def split: option.splits if_splits)+

lemma has_string_iff:
  "json_has_string want doc \<longleftrightarrow> inside (JStr want) doc"
  "items_have_string want xs \<longleftrightarrow> (\<exists>x \<in> set xs. inside (JStr want) x)"
  "entries_have_string want qs \<longleftrightarrow> (\<exists>k x. (k, x) \<in> set qs \<and> inside (JStr want) x)"
  by (induction want doc and want xs and want qs
      rule: json_has_string_items_have_string_entries_have_string.induct) auto

lemma rule_id_iff:
  "find_rule_id title doc \<noteq> None \<longleftrightarrow> (\<exists>ps. inside (JObj ps) doc \<and> map_of ps ''title'' = Some (JStr title))"
  "rule_id_in_items title xs \<noteq> None \<longleftrightarrow>
     (\<exists>x \<in> set xs. \<exists>ps. inside (JObj ps) x \<and> map_of ps ''title'' = Some (JStr title))"
  "rule_id_in_entries title qs \<noteq> None \<longleftrightarrow>
     (\<exists>k x. (k, x) \<in> set qs \<and> (\<exists>ps. inside (JObj ps) x \<and> map_of ps ''title'' = Some (JStr title)))"
  by (induction title doc and title xs and title qs
      rule: find_rule_id_rule_id_in_items_rule_id_in_entries.induct)
    (auto split: option.splits if_splits, blast+)

lemma scan_sound:
  "scan_index wild field want xs = Some ps \<Longrightarrow> JObj ps \<in> set xs \<and> decode_index wild (map_of ps field) = Some want"
  by (induction wild field want xs rule: scan_index.induct) (auto split: option.splits if_splits)

end
