(* ===== verification/ConsolePolicy.thy ===== *)
theory ConsolePolicy
  imports Conditions Json
begin

text \<open>
  The install's say over console writes, \<open>internal/providers/unifi/write.go\<close>: the
  allowlists and how their entries are read (\<open>NewWritePolicy\<close>, \<open>parsePortRef\<close>,
  \<open>parseOutletRef\<close>), what an action names (\<open>describeConsoleTarget\<close>), and everything that
  is decided before the console is spoken to (\<open>check\<close>). The placeholder rule is the one
  of \<open>outlets.go\<close>. Maps of allowed objects are lists, searched for membership.
\<close>

section \<open>Shapes\<close>

definition apostrophe :: string where "apostrophe = [CHR 0x27]"

text \<open>\<open>strings.Cut(s, c)\<close> at a one-byte separator, and the text between all of them.\<close>

fun cut_at :: "char \<Rightarrow> string \<Rightarrow> (string \<times> string) option" where
  "cut_at c [] = None"
| "cut_at c (x # xs) = (if x = c then Some ([], xs) else map_option (\<lambda>(a, b). (x # a, b)) (cut_at c xs))"

fun split_on :: "char \<Rightarrow> string \<Rightarrow> string list" where
  "split_on c [] = [[]]"
| "split_on c (x # xs) =
     (if x = c then [] # split_on c xs
      else case split_on c xs of [] \<Rightarrow> [[x]] | p # ps \<Rightarrow> (x # p) # ps)"

definition lower_hex :: "char \<Rightarrow> bool" where
  "lower_hex c = (c \<in> set ''0123456789abcdef'')"

text \<open>\<open>macPattern\<close>: six pairs of hexadecimal digits between colons.\<close>

definition mac_shaped :: "string \<Rightarrow> bool" where
  "mac_shaped s =
     (let parts = split_on CHR '':'' s in
      length parts = 6 \<and> list_all (\<lambda>p. length p = 2 \<and> list_all lower_hex p) parts)"

text \<open>\<open>NormalizeMAC\<close>. Only the letters of ASCII are lowered: no address holds another.\<close>

definition normalize_mac :: "string \<Rightarrow> string" where
  "normalize_mac mac =
     map (\<lambda>c. if c = CHR ''-'' \<or> c = CHR ''.'' then CHR '':'' else c) (to_lower (trim_space mac))"

text \<open>\<open>consoleOutletName\<close>, \<open>^ *[Oo]utlet[ _-]+[0-9]+ *$\<close>: the classes of neighbouring parts are
  disjoint, so each part takes the longest run it can.\<close>

definition digit_byte :: "char \<Rightarrow> bool" where
  "digit_byte c = (digit_val c \<noteq> None)"

definition is_placeholder_outlet_name :: "string \<Rightarrow> bool" where
  "is_placeholder_outlet_name name =
     (let sep = (\<lambda>c. c \<in> {CHR '' '', CHR ''_'', CHR ''-''});
          body = dropWhile (\<lambda>c. c = CHR '' '') name in
      case (if body \<noteq> [] \<and> hd body \<in> {CHR ''O'', CHR ''o''} then cut_prefix (tl body) ''utlet'' else None) of
        None \<Rightarrow> False
      | Some rest \<Rightarrow>
          (let number = dropWhile sep rest in
           takeWhile sep rest \<noteq> [] \<and> takeWhile digit_byte number \<noteq> [] \<and>
           list_all (\<lambda>c. c = CHR '' '') (dropWhile digit_byte number)))"

section \<open>The allowlists\<close>

record actions_config =
  an_wlans :: "string list"
  an_poe_ports :: "string list"
  an_outlets :: "string list"
  an_battery :: bool

definition split_list :: "string \<Rightarrow> string list" where
  "split_list raw = filter (\<lambda>e. e \<noteq> []) (map trim_space (split_on CHR '','' raw))"

record port_ref =
  pr_mac :: string
  pr_port :: int

record outlet_ref =
  lr_mac :: string
  lr_index :: int
  lr_name :: string

definition port_ref_string :: "port_ref \<Rightarrow> string" where
  "port_ref_string p = pr_mac p @ ''/'' @ int_dec (pr_port p)"

definition outlet_ref_string :: "outlet_ref \<Rightarrow> string" where
  "outlet_ref_string r = lr_mac r @ ''/'' @ int_dec (lr_index r) @ ''/'' @ lr_name r"

record write_policy =
  wp_wlans :: "string list"
  wp_ports :: "port_ref list"
  wp_outlets :: "outlet_ref list"
  wp_battery :: bool

definition parse_port_ref :: "string \<Rightarrow> string + port_ref" where
  "parse_port_ref entry =
     (case cut_at CHR ''/'' (trim_space entry) of
        None \<Rightarrow> Inl (''allowed PoE port '' @ quoted entry
          @ '' must be a switch MAC and a port index, e.g. aa:bb:cc:00:11:22/7'')
      | Some (raw, index) \<Rightarrow>
          (let mac = normalize_mac raw in
           if \<not> mac_shaped mac
           then Inl (''allowed PoE port '' @ quoted entry @ '' does not start with a MAC address'')
           else let bad = Inl (''allowed PoE port '' @ quoted entry @ '' has no positive port index after the MAC'') in
             (case parse_int32 (trim_space index) of
                Inl e \<Rightarrow> bad
              | Inr port \<Rightarrow> if port < 1 then bad else Inr \<lparr>pr_mac = mac, pr_port = port\<rparr>)))"

definition parse_outlet_ref :: "string \<Rightarrow> string + outlet_ref" where
  "parse_outlet_ref entry =
     (let short = Inl (''allowed outlet '' @ quoted entry @ '' must be a UPS MAC, an outlet index and the outlet''
            @ apostrophe @ ''s name, '' @ ''e.g. aa:bb:cc:00:11:22/5/nas'');
          bad = Inl (''allowed outlet '' @ quoted entry @ '' has no positive outlet index after the MAC'') in
      case cut_at CHR ''/'' (trim_space entry) of
        None \<Rightarrow> short
      | Some (raw, rest) \<Rightarrow>
          (case cut_at CHR ''/'' rest of
             None \<Rightarrow> short
           | Some (number, label) \<Rightarrow>
               (let mac = normalize_mac raw; name = trim_space label in
                if \<not> mac_shaped mac
                then Inl (''allowed outlet '' @ quoted entry @ '' does not start with a MAC address'')
                else case parse_int32 (trim_space number) of
                  Inl e \<Rightarrow> bad
                | Inr index \<Rightarrow>
                    if index < 1 then bad
                    else if name = []
                    then Inl (''allowed outlet '' @ quoted entry @ '' names no outlet after the index'')
                    else if is_placeholder_outlet_name name
                    then Inl (''allowed outlet '' @ quoted entry @ '' is named with the console'' @ apostrophe
                      @ ''s own placeholder, which is the index spelled ''
                      @ ''out rather than a name. Name the outlet in UniFi after what is plugged into it, then ''
                      @ ''allowlist that name: Reactor will not cut mains to a socket nobody has named'')
                    else Inr \<lparr>lr_mac = mac, lr_index = index, lr_name = name\<rparr>)))"

fun parse_refs :: "(string \<Rightarrow> string + 'r) \<Rightarrow> string list \<Rightarrow> string + 'r list" where
  "parse_refs parse [] = Inr []"
| "parse_refs parse (entry # entries) =
     (case parse entry of
        Inl e \<Rightarrow> Inl e
      | Inr r \<Rightarrow> (case parse_refs parse entries of Inl e \<Rightarrow> Inl e | Inr rs \<Rightarrow> Inr (r # rs)))"

definition new_write_policy :: "actions_config \<Rightarrow> string + write_policy" where
  "new_write_policy cfg =
     (case parse_refs parse_port_ref (an_poe_ports cfg) of
        Inl e \<Rightarrow> Inl e
      | Inr ports \<Rightarrow>
          (case parse_refs parse_outlet_ref (an_outlets cfg) of
             Inl e \<Rightarrow> Inl e
           | Inr outlets \<Rightarrow> Inr \<lparr>wp_wlans = an_wlans cfg, wp_ports = ports, wp_outlets = outlets,
                                 wp_battery = an_battery cfg\<rparr>))"

definition write_policy_empty :: "write_policy \<Rightarrow> bool" where
  "write_policy_empty p = (wp_wlans p = [] \<and> wp_ports p = [] \<and> wp_outlets p = [])"

definition allows_wlan :: "write_policy \<Rightarrow> string \<Rightarrow> bool" where
  "allows_wlan p name = (name \<in> set (wp_wlans p))"

definition allows_port :: "write_policy \<Rightarrow> port_ref \<Rightarrow> bool" where
  "allows_port p r = (r \<in> set (wp_ports p))"

definition allows_outlet :: "write_policy \<Rightarrow> outlet_ref \<Rightarrow> bool" where
  "allows_outlet p r = (r \<in> set (wp_outlets p))"

section \<open>What an action names\<close>

definition type_wlan_enable :: string where "type_wlan_enable = ''unifi.wlan.enable''"
definition type_wlan_disable :: string where "type_wlan_disable = ''unifi.wlan.disable''"
definition type_poe_cycle :: string where "type_poe_cycle = ''unifi.poe.cycle''"
definition type_outlet_cut :: string where "type_outlet_cut = ''unifi.outlet.cut''"
definition type_outlet_restore :: string where "type_outlet_restore = ''unifi.outlet.restore''"

lemmas console_type_defs = type_wlan_enable_def type_wlan_disable_def type_poe_cycle_def type_outlet_cut_def
  type_outlet_restore_def

definition no_executor :: "string \<Rightarrow> string" where
  "no_executor t = ''no console executor for action '' @ quoted t"

definition describe_console_target :: "action \<Rightarrow> string + string" where
  "describe_console_target a =
     (if ac_type a = type_wlan_enable \<or> ac_type a = type_wlan_disable
      then (case ac_wlan a of
              None \<Rightarrow> Inl (ac_type a @ '' needs a wlan block'')
            | Some w \<Rightarrow> Inr (''unifi/wlan/'' @ wl_name w))
      else if ac_type a = type_poe_cycle
      then (case ac_poe a of
              None \<Rightarrow> Inl (ac_type a @ '' needs a poe block'')
            | Some p \<Rightarrow> Inr (''unifi/port/'' @ normalize_mac (pp_device p) @ ''/'' @ int_dec (pp_port p)))
      else if ac_type a = type_outlet_cut \<or> ac_type a = type_outlet_restore
      then (case ac_outlet a of
              None \<Rightarrow> Inl (ac_type a @ '' needs an outlet block'')
            | Some u \<Rightarrow> Inr (''unifi/outlet/'' @ normalize_mac (ou_device u) @ ''/'' @ int_dec (ou_index u)))
      else Inl (no_executor (ac_type a)))"

section \<open>What is decided without the console\<close>

text \<open>
  \<open>check\<close>. An action without the block its type needs would be a nil dereference here:
  the caller has looked for the block already.
\<close>

definition nil_dereference :: string where
  "nil_dereference = ''runtime error: invalid memory address or nil pointer dereference''"

definition port_of :: "poe_port \<Rightarrow> port_ref" where
  "port_of p = \<lparr>pr_mac = normalize_mac (pp_device p), pr_port = pp_port p\<rparr>"

definition outlet_of :: "outlet \<Rightarrow> outlet_ref" where
  "outlet_of u = \<lparr>lr_mac = normalize_mac (ou_device u), lr_index = ou_index u, lr_name = ou_name u\<rparr>"

definition console_check :: "write_policy \<Rightarrow> action \<Rightarrow> string option" where
  "console_check p a =
     (if ac_type a = type_wlan_enable \<or> ac_type a = type_wlan_disable
      then (case ac_wlan a of
              None \<Rightarrow> Some nil_dereference
            | Some w \<Rightarrow>
                if \<not> allows_wlan p (wl_name w)
                then Some (''wlan '' @ quoted (wl_name w)
                  @ '' is not allowed by this install; add it to unifi.actions.allowedWlans, ''
                  @ ''which is empty by default and refuses every SSID'')
                else None)
      else if ac_type a = type_poe_cycle
      then (case ac_poe a of
              None \<Rightarrow> Some nil_dereference
            | Some q \<Rightarrow>
                if \<not> allows_port p (port_of q)
                then Some (''port '' @ port_ref_string (port_of q)
                  @ '' is not allowed by this install; add it to unifi.actions.allowedPoePorts, ''
                  @ ''which is empty by default and refuses every port'')
                else None)
      else if ac_type a = type_outlet_cut \<or> ac_type a = type_outlet_restore
      then (case ac_outlet a of
              None \<Rightarrow> Some nil_dereference
            | Some u \<Rightarrow>
                if is_placeholder_outlet_name (ou_name u)
                then Some (''outlet name '' @ quoted (ou_name u) @ '' is the console'' @ apostrophe
                  @ ''s own placeholder, which is the index spelled out rather ''
                  @ ''than a name; name the outlet in UniFi after what is plugged into it. Reactor will ''
                  @ ''not cut mains to a socket nobody has named'')
                else if \<not> allows_outlet p (outlet_of u)
                then Some (''outlet '' @ outlet_ref_string (outlet_of u)
                  @ '' is not allowed by this install; add it to unifi.actions.allowedOutlets, ''
                  @ ''which is empty by default and refuses every outlet. The entry is the UPS MAC, the ''
                  @ ''outlet index AND the outlet'' @ apostrophe @ ''s name, all three'')
                else None)
      else Some (no_executor (ac_type a)))"

end
