(* ===== verification/ConsoleSession.thy ===== *)
theory ConsoleSession
  imports ConsolePolicy Cluster
begin

text \<open>
  \<open>AlarmClient\<close> of \<open>internal/providers/unifi/alarm.go\<close>: the cookie session with the console
  that both the console writes and the Alarm Manager registration use. A conversation
  is a program over requests; the transport's answer to one is that it could not be
  built, that nothing answered, or a status with a body. The cookie jar and the
  redirects of \<open>net/http\<close> are part of the transport.
\<close>

section \<open>Conversations\<close>

record console_request =
  cq_method :: string
  cq_path :: string
  cq_body :: "jv option"
  cq_csrf :: string

text \<open>A body comes with what \<open>encoding/json\<close> decodes of it.\<close>

record console_answer =
  cs_status :: int
  cs_body :: string
  cs_json :: "string + jv"
  cs_cookies :: "(string \<times> string) list"
  cs_csrf_header :: string

datatype exchange = NotSent string | NoAnswer string | Answered console_answer

datatype 'a console =
    CRet 'a
  | CSend console_request "exchange \<Rightarrow> 'a console"

primrec cbind :: "'a console \<Rightarrow> ('a \<Rightarrow> 'b console) \<Rightarrow> 'b console" where
  "cbind (CRet x) g = g x"
| "cbind (CSend q f) g = CSend q (\<lambda>x. cbind (f x) g)"

text \<open>Going on with the right of a sum: an error ends the conversation.\<close>

definition cbindR :: "('e + 'a) console \<Rightarrow> ('a \<Rightarrow> ('e + 'b) console) \<Rightarrow> ('e + 'b) console" where
  "cbindR m g = cbind m (\<lambda>x. case x of Inl e \<Rightarrow> CRet (Inl e) | Inr a \<Rightarrow> g a)"

section \<open>The session\<close>

definition alarm_login_path :: string where "alarm_login_path = ''/api/auth/login''"
definition logout_path :: string where "logout_path = ''/api/auth/logout''"
definition session_cookie_name :: string where "session_cookie_name = ''TOKEN''"
definition max_error_body_bytes :: nat where "max_error_body_bytes = 512"

definition method_get :: string where "method_get = ''GET''"
definition method_put :: string where "method_put = ''PUT''"
definition method_post :: string where "method_post = ''POST''"

text \<open>\<open>base64.RawURLEncoding\<close>: six bits a byte, line ends skipped, spare bits dropped.\<close>

definition base64_digit :: "char \<Rightarrow> nat option" where
  "base64_digit c = index_of c ''ABCDEFGHIJKLMNOPQRSTUVWXYZabcdefghijklmnopqrstuvwxyz0123456789-_''"

fun base64_bytes :: "nat list \<Rightarrow> string option" where
  "base64_bytes [] = Some []"
| "base64_bytes [a] = None"
| "base64_bytes [a, b] = Some [char_of (a * 4 + b div 16)]"
| "base64_bytes [a, b, c] = Some [char_of (a * 4 + b div 16), char_of (b mod 16 * 16 + c div 4)]"
| "base64_bytes (a # b # c # d # rest) =
     map_option (\<lambda>r. char_of (a * 4 + b div 16) # char_of (b mod 16 * 16 + c div 4) #
                      char_of (c mod 4 * 64 + d) # r) (base64_bytes rest)"

definition base64_decode :: "string \<Rightarrow> string option" where
  "base64_decode s =
     (let ds = map base64_digit (filter (\<lambda>c. c \<noteq> CHR 0x0A \<and> c \<noteq> CHR 0x0D) s) in
      if None \<in> set ds then None else base64_bytes (map the ds))"

text \<open>
  \<open>csrfFromSessionJWT\<close>. \<open>claim\<close> is \<open>json.Unmarshal\<close> into the struct with the one field
  \<open>csrfToken\<close>: the field of the document, or nothing for a document it refuses.
\<close>

definition csrf_from_session_jwt :: "(string \<Rightarrow> string option) \<Rightarrow> string \<Rightarrow> string option" where
  "csrf_from_session_jwt claim token =
     (case split_on CHR ''.'' token of
        head # payload # rest \<Rightarrow>
          (case base64_decode (rev (dropWhile (\<lambda>c. c = CHR ''='') (rev payload))) of
             None \<Rightarrow> None
           | Some text \<Rightarrow> (case claim text of None \<Rightarrow> None | Some t \<Rightarrow> if t = [] then None else Some t))
      | _ \<Rightarrow> None)"

definition csrf_of_login :: "(string \<Rightarrow> string option) \<Rightarrow> console_answer \<Rightarrow> string option" where
  "csrf_of_login claim r =
     (case List.map_filter (\<lambda>c. if fst c \<noteq> session_cookie_name then None else csrf_from_session_jwt claim (snd c))
             (cs_cookies r) of
        token # rest \<Rightarrow> Some token
      | [] \<Rightarrow> if cs_csrf_header r \<noteq> [] then Some (cs_csrf_header r) else None)"

definition login_request :: "string \<Rightarrow> string \<Rightarrow> console_request" where
  "login_request username password =
     \<lparr>cq_method = method_post, cq_path = alarm_login_path,
      cq_body = Some (JObj [(''password'', JStr password), (''username'', JStr username)]), cq_csrf = []\<rparr>"

definition login_result :: "(string \<Rightarrow> string option) \<Rightarrow> exchange \<Rightarrow> string + string" where
  "login_result claim x =
     (case x of
        NotSent e \<Rightarrow> Inl e
      | NoAnswer e \<Rightarrow> Inl (''logging in to unifi os: '' @ e)
      | Answered r \<Rightarrow>
          if cs_status r \<noteq> 200
          then Inl (''logging in to unifi os: unexpected status '' @ int_dec (cs_status r))
          else (case csrf_of_login claim r of
                  Some token \<Rightarrow> Inr token
                | None \<Rightarrow> Inl (''logging in to unifi os: no csrf token in the session cookie or response ''
                    @ ''headers'')))"

definition console_login :: "(string \<Rightarrow> string option) \<Rightarrow> string \<Rightarrow> string \<Rightarrow> (string + string) console" where
  "console_login claim username password =
     CSend (login_request username password) (\<lambda>x. CRet (login_result claim x))"

text \<open>\<open>do\<close>: one request with the session's token, and the document it is answered with.\<close>

definition console_result :: "string \<Rightarrow> string \<Rightarrow> exchange \<Rightarrow> string + jv" where
  "console_result http_method path x =
     (case x of
        NotSent e \<Rightarrow> Inl e
      | NoAnswer e \<Rightarrow> Inl (http_method @ '' '' @ path @ '': '' @ e)
      | Answered r \<Rightarrow>
          if cs_status r < 200 \<or> 300 \<le> cs_status r
          then Inl (http_method @ '' '' @ path @ '': status '' @ int_dec (cs_status r) @ '': ''
                 @ trim_space (take max_error_body_bytes (cs_body r)))
          else (case cs_json r of
                  Inl e \<Rightarrow> Inl (''decoding the response to '' @ http_method @ '' '' @ path @ '': '' @ e)
                | Inr doc \<Rightarrow> Inr doc))"

definition console_do :: "string \<Rightarrow> string \<Rightarrow> string \<Rightarrow> jv option \<Rightarrow> (string + jv) console" where
  "console_do csrf http_method path body =
     CSend \<lparr>cq_method = http_method, cq_path = path, cq_body = body, cq_csrf = csrf\<rparr>
       (\<lambda>x. CRet (console_result http_method path x))"

section \<open>Conversations held\<close>

text \<open>The requests and answers of a conversation, and what it comes to.\<close>

inductive held :: "'a console \<Rightarrow> (console_request \<times> exchange) list \<Rightarrow> 'a \<Rightarrow> bool" where
  held_Ret: "held (CRet x) [] x"
| held_Send: "held (f a) t y \<Longrightarrow> held (CSend q f) ((q, a) # t) y"

inductive_simps held_simps [simp]:
  "held (CRet x) t y" "held (CSend q f) t y"

lemma held_cbind: "held (cbind m g) t y \<longleftrightarrow> (\<exists>t1 t2 x. t = t1 @ t2 \<and> held m t1 x \<and> held (g x) t2 y)"
proof (induction m arbitrary: t)
  case (CSend q f)
  show ?case
  proof
    assume "held (cbind (CSend q f) g) t y"
    then obtain a t' where t: "t = (q, a) # t'" "held (cbind (f a) g) t' y" by auto
    then obtain t1 t2 x where "t' = t1 @ t2" "held (f a) t1 x" "held (g x) t2 y" using CSend by auto
    then show "\<exists>t1 t2 x. t = t1 @ t2 \<and> held (CSend q f) t1 x \<and> held (g x) t2 y"
      using t by (intro exI [of _ "(q, a) # t1"] exI [of _ t2] exI [of _ x]) auto
  next
    assume "\<exists>t1 t2 x. t = t1 @ t2 \<and> held (CSend q f) t1 x \<and> held (g x) t2 y"
    then obtain a t1 t2 x where "t = (q, a) # t1 @ t2" "held (f a) t1 x" "held (g x) t2 y" by auto
    then show "held (cbind (CSend q f) g) t y" using CSend [OF rangeI] by auto
  qed
qed simp

lemma held_case: "held (case r of Inl e \<Rightarrow> CRet (Inl e) | Inr a \<Rightarrow> g a) t y \<longleftrightarrow>
    (case r of Inl e \<Rightarrow> t = [] \<and> y = Inl e | Inr a \<Rightarrow> held (g a) t y)"
  by (cases r) auto

text \<open>A request, and what follows it when its answer is a document.\<close>

lemma held_do_then: "held (cbindR (console_do csrf m path body) g) t y \<longleftrightarrow>
    (\<exists>x t2. t = (\<lparr>cq_method = m, cq_path = path, cq_body = body, cq_csrf = csrf\<rparr>, x) # t2 \<and>
       (case console_result m path x of Inl e \<Rightarrow> t2 = [] \<and> y = Inl e | Inr doc \<Rightarrow> held (g doc) t2 y))"
  unfolding cbindR_def console_do_def cbind.simps held_simps held_case by blast

text \<open>A program whose every request satisfies a predicate.\<close>

primrec asks :: "(console_request \<Rightarrow> bool) \<Rightarrow> 'a console \<Rightarrow> bool" where
  "asks P (CRet x) = True"
| "asks P (CSend q f) = (P q \<and> (\<forall>x. asks P (f x)))"

lemma asks_held: "held p t y \<Longrightarrow> asks P p \<Longrightarrow> list_all (\<lambda>e. P (fst e)) t"
  by (induction rule: held.induct) auto

text \<open>The conversation with a console that answers by the request alone.\<close>

primrec converse :: "(console_request \<Rightarrow> exchange) \<Rightarrow> 'a console \<Rightarrow> (console_request \<times> exchange) list \<times> 'a" where
  "converse answer (CRet x) = ([], x)"
| "converse answer (CSend q f) =
     (let (t, y) = converse answer (f (answer q)) in ((q, answer q) # t, y))"

lemma converse_held: "held p (fst (converse answer p)) (snd (converse answer p))"
  by (induction p) (auto simp: split_def Let_def)

end
