(* ===== verification/ConsoleWrite.thy ===== *)
theory ConsoleWrite
  imports ConsoleSession
begin

text \<open>
  The writes themselves, \<open>internal/providers/unifi/write.go\<close>: log in, read the object and
  check it is the one the Automation meant, write, log out. A failed check ends the
  conversation before the write. \<open>wild\<close> is the implementation's conversion of a number
  that does not fit 32 bits.
\<close>

unbundle bit_operations_syntax

section \<open>Endpoints and fields\<close>

definition wlan_conf_endpoint :: string where "wlan_conf_endpoint = ''rest/wlanconf''"
definition device_stat_endpoint :: string where "device_stat_endpoint = ''stat/device''"
definition dev_mgr_endpoint :: string where "dev_mgr_endpoint = ''cmd/devmgr''"
definition cmd_power_cycle :: string where "cmd_power_cycle = ''power-cycle''"
definition rest_device_endpoint :: string where "rest_device_endpoint = ''rest/device''"

definition field_wlan_id :: string where "field_wlan_id = ''_id''"
definition field_wlan_name :: string where "field_wlan_name = ''name''"
definition field_wlan_enabled :: string where "field_wlan_enabled = ''enabled''"
definition field_mac :: string where "field_mac = ''mac''"
definition field_port_table :: string where "field_port_table = ''port_table''"
definition field_port_index :: string where "field_port_index = ''port_idx''"
definition field_port_name :: string where "field_port_name = ''name''"
definition field_is_uplink :: string where "field_is_uplink = ''is_uplink''"
definition field_port_poe :: string where "field_port_poe = ''port_poe''"
definition field_poe_enable :: string where "field_poe_enable = ''poe_enable''"
definition field_device_id :: string where "field_device_id = ''_id''"
definition field_outlet_table :: string where "field_outlet_table = ''outlet_table''"
definition field_outlet_overrides :: string where "field_outlet_overrides = ''outlet_overrides''"
definition field_outlet_index :: string where "field_outlet_index = ''index''"
definition field_outlet_name :: string where "field_outlet_name = ''name''"
definition field_relay_state :: string where "field_relay_state = ''relay_state''"
definition field_outlet_caps :: string where "field_outlet_caps = ''outlet_caps''"

definition outlet_cap_battery_backed :: int where "outlet_cap_battery_backed = 8"

definition default_site :: string where "default_site = ''default''"

definition site_or_default :: "string \<Rightarrow> string" where
  "site_or_default site = (if site = [] then default_site else site)"

text \<open>\<open>url.PathEscape\<close>: the bytes a path segment may hold, and the rest as \<open>%XX\<close>.\<close>

definition path_safe :: "char \<Rightarrow> bool" where
  "path_safe c = (query_safe c \<or> c \<in> set ''$&+=:@'')"

definition path_escape :: "string \<Rightarrow> string" where
  "path_escape s = concat (map (\<lambda>c. if path_safe c then [c]
     else let n = of_char c in [CHR ''%'', hex_upper (n div 16), hex_upper (n mod 16)]) s)"

record console_writer =
  cw_base_url :: string
  cw_site :: string
  cw_username :: string
  cw_password :: string
  cw_insecure :: bool
  cw_policy :: write_policy

definition network_path :: "console_writer \<Rightarrow> string \<Rightarrow> string" where
  "network_path w endpoint = ''/proxy/network/api/s/'' @ path_escape (cw_site w) @ ''/'' @ endpoint"

definition writer_enabled :: "console_writer \<Rightarrow> bool" where
  "writer_enabled w = (\<not> write_policy_empty (cw_policy w))"

definition credentialed :: "console_writer \<Rightarrow> bool" where
  "credentialed w = (cw_username w \<noteq> [] \<and> cw_password w \<noteq> [])"

section \<open>Wireless networks\<close>

text \<open>What the console stored, read back from its answer to the write.\<close>

definition verify_wlan :: "string \<Rightarrow> string \<Rightarrow> bool \<Rightarrow> jv \<Rightarrow> string + unit" where
  "verify_wlan name wid want updated =
     (case find_object_with field_wlan_id wid [field_wlan_enabled] updated of
        None \<Rightarrow> Inr ()
      | Some applied \<Rightarrow>
          (case as_bool (map_of applied field_wlan_enabled) of
             None \<Rightarrow> Inr ()
           | Some got \<Rightarrow>
               if got \<noteq> want
               then Inl (''the console accepted the write but still reports wlan '' @ quoted name @ '' as ''
                 @ field_wlan_enabled @ ''='' @ format_bool got)
               else Inr ()))"

definition set_wlan_enabled :: "console_writer \<Rightarrow> string \<Rightarrow> string \<Rightarrow> bool \<Rightarrow> (string + unit) console" where
  "set_wlan_enabled w csrf name want =
     cbindR (console_do csrf method_get (network_path w wlan_conf_endpoint) None) (\<lambda>listed.
       case find_object_with field_wlan_name name [field_wlan_id, field_wlan_enabled] listed of
         None \<Rightarrow> CRet (Inl (''no wlan named '' @ quoted name @ '' on site '' @ quoted (cw_site w)))
       | Some found \<Rightarrow>
           (case as_string (map_of found field_wlan_id) of
              None \<Rightarrow> CRet (Inl (''the wlan named '' @ quoted name @ '' carries no usable '' @ field_wlan_id
                @ ''; refusing to guess at its address''))
            | Some wid \<Rightarrow>
                if wid = []
                then CRet (Inl (''the wlan named '' @ quoted name @ '' carries no usable '' @ field_wlan_id
                  @ ''; refusing to guess at its address''))
                else case as_bool (map_of found field_wlan_enabled) of
                  None \<Rightarrow> CRet (Inl (''the wlan named '' @ quoted name @ '' does not report '' @ field_wlan_enabled
                    @ '' as a boolean; refusing to write a state ''
                    @ ''this console does not describe the way this action assumes''))
                | Some enabled \<Rightarrow>
                    if enabled = want then CRet (Inr ())
                    else cbindR (console_do csrf method_put
                           (network_path w wlan_conf_endpoint @ ''/'' @ path_escape wid)
                           (Some (JObj (gm_set field_wlan_enabled (JBool want) found))))
                         (\<lambda>updated. CRet (verify_wlan name wid want updated))))"

section \<open>PoE ports\<close>

definition check_port :: "string \<Rightarrow> poe_port \<Rightarrow> jobj \<Rightarrow> string option" where
  "check_port mac p port =
     (let place = ''port '' @ int_dec (pp_port p) @ '' on '' @ mac in
      case as_string (map_of port field_port_name) of
        None \<Rightarrow> Some (place @ '' reports no name to check against '' @ quoted (pp_port_name p)
          @ ''; refusing to cycle a port '' @ ''whose identity cannot be confirmed'')
      | Some name \<Rightarrow>
          if name \<noteq> pp_port_name p
          then Some (place @ '' is called '' @ quoted name @ '', not '' @ quoted (pp_port_name p)
            @ ''; refusing to cycle it. ''
            @ ''If the wiring changed, change the automation to match rather than the other way round'')
          else case as_bool (map_of port field_is_uplink) of
            None \<Rightarrow> Some (place @ '' does not report '' @ field_is_uplink
              @ '', so Reactor cannot tell whether it is the '' @ ''switch'' @ apostrophe
              @ ''s uplink; refusing to cycle it'')
          | Some uplink \<Rightarrow>
              if uplink
              then Some (place @ '' is the switch'' @ apostrophe @ ''s uplink; it is never cycled, ''
                @ ''whatever the allowlist says, because it carries everything behind the switch'')
              else case as_bool (map_of port field_port_poe) of
                None \<Rightarrow> Some (place @ '' does not report '' @ field_port_poe
                  @ '', so Reactor cannot tell whether it supplies '' @ ''power at all; refusing to cycle it'')
              | Some capable \<Rightarrow>
                  if \<not> capable
                  then Some (place @ '' does not supply PoE, so there is nothing to cycle; ''
                    @ ''check that this is the port you meant'')
                  else if as_bool (map_of port field_poe_enable) = Some False
                  then Some (''PoE is switched off on port '' @ int_dec (pp_port p) @ '' of '' @ mac
                    @ '', so there is nothing to cycle; '' @ ''check that this is the port you meant'')
                  else None)"

definition cycle_poe_port :: "(rat \<Rightarrow> int) \<Rightarrow> console_writer \<Rightarrow> string \<Rightarrow> poe_port \<Rightarrow> (string + unit) console" where
  "cycle_poe_port wild w csrf p =
     (let mac = normalize_mac (pp_device p) in
      cbindR (console_do csrf method_get (network_path w device_stat_endpoint) None) (\<lambda>devices.
        case find_object_with field_mac mac [field_port_table] devices of
          None \<Rightarrow> CRet (Inl (''no device with mac '' @ mac @ '' reporting a port table on site '' @ quoted (cw_site w)))
        | Some device \<Rightarrow>
            (case object_by_index wild (map_of device field_port_table) field_port_index (pp_port p) of
               None \<Rightarrow> CRet (Inl (''device '' @ mac @ '' has no port '' @ int_dec (pp_port p)))
             | Some port \<Rightarrow>
                 (case check_port mac p port of
                    Some e \<Rightarrow> CRet (Inl e)
                  | None \<Rightarrow>
                      cbindR (console_do csrf method_post (network_path w dev_mgr_endpoint)
                        (Some (JObj [(''cmd'', JStr cmd_power_cycle), (field_mac, JStr mac),
                                     (field_port_index, JNum (of_int (pp_port p)))])))
                      (\<lambda>_. CRet (Inr ()))))))"

end
