(* ===== verification/Vocabulary.thy ===== *)
theory Vocabulary
  imports Utf8
begin

text \<open>
  \<open>internal/providers/unifi/state.go\<close>: the keys and values the provider publishes, the
  signals whose disagreement is counted, and the closed set of values of every key that
  has one; and \<open>slugify\<close> of \<open>client.go\<close>, which derives open names.
\<close>

section \<open>Keys\<close>

definition state_key_wan :: string where "state_key_wan = ''wan''"
definition state_key_wan_quality :: string where "state_key_wan_quality = ''wan.quality''"
definition state_key_isp :: string where "state_key_isp = ''isp''"
definition state_key_internet :: string where "state_key_internet = ''internet''"
definition state_key_data_usage :: string where "state_key_data_usage = ''data.usage''"
definition state_key_ups :: string where "state_key_ups = ''ups''"
definition state_key_ups_battery :: string where "state_key_ups_battery = ''ups.battery''"
definition state_key_ups_runtime :: string where "state_key_ups_runtime = ''ups.runtime''"
definition state_key_ups_load :: string where "state_key_ups_load = ''ups.load''"
definition state_key_devices :: string where "state_key_devices = ''devices''"
definition state_key_firmware :: string where "state_key_firmware = ''firmware''"
definition state_key_temperature :: string where "state_key_temperature = ''temperature''"
definition state_key_wifi :: string where "state_key_wifi = ''wifi''"
definition state_key_poe :: string where "state_key_poe = ''poe''"
definition state_key_device_prefix :: string where "state_key_device_prefix = ''device.''"
definition state_key_outlet_prefix :: string where "state_key_outlet_prefix = ''outlet.''"

lemmas state_key_defs = state_key_wan_def state_key_wan_quality_def state_key_isp_def state_key_internet_def
  state_key_data_usage_def state_key_ups_def state_key_ups_battery_def state_key_ups_runtime_def
  state_key_ups_load_def state_key_devices_def state_key_firmware_def state_key_temperature_def
  state_key_wifi_def state_key_poe_def state_key_device_prefix_def state_key_outlet_prefix_def

section \<open>Values\<close>

definition wan_primary :: string where "wan_primary = ''primary''"
definition wan_backup :: string where "wan_backup = ''backup''"
definition internet_ok :: string where "internet_ok = ''ok''"
definition internet_degraded :: string where "internet_degraded = ''degraded''"
definition internet_down :: string where "internet_down = ''down''"
definition wan_quality_good :: string where "wan_quality_good = ''good''"
definition wan_quality_degraded :: string where "wan_quality_degraded = ''degraded''"
definition isp_unknown :: string where "isp_unknown = ''unknown''"
definition wan_status_online :: string where "wan_status_online = ''online''"
definition wan_status_key_primary :: string where "wan_status_key_primary = ''WAN''"
definition wan_status_key_backup :: string where "wan_status_key_backup = ''WAN2''"
definition health_subsystem_www :: string where "health_subsystem_www = ''www''"
definition health_subsystem_wan :: string where "health_subsystem_wan = ''wan''"
definition health_subsystem_wlan :: string where "health_subsystem_wlan = ''wlan''"
definition health_status_ok :: string where "health_status_ok = ''ok''"
definition health_status_warning :: string where "health_status_warning = ''warning''"
definition health_status_error :: string where "health_status_error = ''error''"
definition data_usage_under :: string where "data_usage_under = ''under''"
definition data_usage_warning :: string where "data_usage_warning = ''warning''"
definition data_usage_over :: string where "data_usage_over = ''over''"
definition ups_online :: string where "ups_online = ''online''"
definition ups_on_battery :: string where "ups_on_battery = ''on-battery''"
definition battery_normal :: string where "battery_normal = ''normal''"
definition battery_low :: string where "battery_low = ''low''"
definition battery_critical :: string where "battery_critical = ''critical''"
definition ups_runtime_ample :: string where "ups_runtime_ample = ''ample''"
definition ups_runtime_short :: string where "ups_runtime_short = ''short''"
definition ups_runtime_critical :: string where "ups_runtime_critical = ''critical''"
definition ups_load_normal :: string where "ups_load_normal = ''normal''"
definition ups_load_high :: string where "ups_load_high = ''high''"
definition device_online :: string where "device_online = ''online''"
definition device_offline :: string where "device_offline = ''offline''"
definition devices_all_online :: string where "devices_all_online = ''all-online''"
definition devices_degraded :: string where "devices_degraded = ''degraded''"
definition firmware_current :: string where "firmware_current = ''current''"
definition firmware_updates_available :: string where "firmware_updates_available = ''updates-available''"
definition temperature_normal :: string where "temperature_normal = ''normal''"
definition temperature_high :: string where "temperature_high = ''high''"
definition wifi_ok :: string where "wifi_ok = ''ok''"
definition wifi_warning :: string where "wifi_warning = ''warning''"
definition wifi_error :: string where "wifi_error = ''error''"
definition poe_ok :: string where "poe_ok = ''ok''"
definition poe_insufficient :: string where "poe_insufficient = ''insufficient''"
definition outlet_on :: string where "outlet_on = ''on''"
definition outlet_off :: string where "outlet_off = ''off''"

lemmas value_defs = wan_primary_def wan_backup_def internet_ok_def internet_degraded_def internet_down_def
  wan_quality_good_def wan_quality_degraded_def isp_unknown_def data_usage_under_def data_usage_warning_def
  data_usage_over_def ups_online_def ups_on_battery_def battery_normal_def battery_low_def battery_critical_def
  ups_runtime_ample_def ups_runtime_short_def ups_runtime_critical_def ups_load_normal_def ups_load_high_def
  device_online_def device_offline_def devices_all_online_def devices_degraded_def firmware_current_def
  firmware_updates_available_def temperature_normal_def temperature_high_def wifi_ok_def wifi_warning_def
  wifi_error_def poe_ok_def poe_insufficient_def outlet_on_def outlet_off_def

section \<open>Signals\<close>

definition signal_wan_uplink_disagrees :: string where "signal_wan_uplink_disagrees = ''wan-uplink-disagrees''"
definition signal_wan_uplink_unclaimed :: string where "signal_wan_uplink_unclaimed = ''wan-uplink-unclaimed''"
definition signal_wan_uplink_ambiguous :: string where "signal_wan_uplink_ambiguous = ''wan-uplink-ambiguous''"
definition signal_wan_not_online :: string where "signal_wan_not_online = ''wan-not-online''"
definition signal_wan_moved_without_isp :: string where "signal_wan_moved_without_isp = ''wan-moved-without-isp''"
definition signal_isp_moved_without_wan :: string where "signal_isp_moved_without_wan = ''isp-moved-without-wan''"
definition signal_wan_health_disagrees :: string where "signal_wan_health_disagrees = ''wan-health-disagrees''"
definition signal_device_name_shared :: string where "signal_device_name_shared = ''device-name-shared''"
definition signal_wifi_status_disagrees :: string where "signal_wifi_status_disagrees = ''wifi-status-disagrees''"
definition signal_outlet_name_shared :: string where "signal_outlet_name_shared = ''outlet-name-shared''"
definition signal_sim_multiple_active :: string where "signal_sim_multiple_active = ''sim-multiple-active''"

section \<open>The closed keys\<close>

definition state_vocabulary :: "(string \<times> string list) list" where
  "state_vocabulary =
     [(state_key_wan, [wan_primary, wan_backup]),
      (state_key_wan_quality, [wan_quality_good, wan_quality_degraded]),
      (state_key_internet, [internet_ok, internet_degraded, internet_down]),
      (state_key_data_usage, [data_usage_under, data_usage_warning, data_usage_over]),
      (state_key_ups, [ups_online, ups_on_battery]),
      (state_key_ups_battery, [battery_normal, battery_low, battery_critical]),
      (state_key_ups_runtime, [ups_runtime_ample, ups_runtime_short, ups_runtime_critical]),
      (state_key_ups_load, [ups_load_normal, ups_load_high]),
      (state_key_devices, [devices_all_online, devices_degraded]),
      (state_key_firmware, [firmware_current, firmware_updates_available]),
      (state_key_temperature, [temperature_normal, temperature_high]),
      (state_key_wifi, [wifi_ok, wifi_warning, wifi_error]),
      (state_key_poe, [poe_ok, poe_insufficient])]"

section \<open>Slugs\<close>

text \<open>
  \<open>strings.ToLower\<close> on a rune, as far as \<open>slugify\<close> can see: the letters of ASCII, and the
  two letters outside it whose lower case is one of them (the Kelvin sign and the dotted
  capital I). Every other rune outside ASCII stays outside it. The spaces \<open>TrimSpace\<close>
  cuts are separators, which a slug drops at either end by itself.
\<close>

definition lower_rune :: "nat \<Rightarrow> nat" where
  "lower_rune r = (if 65 \<le> r \<and> r \<le> 90 then r + 32 else if r = 0x212A then 107 else if r = 0x130 then 105 else r)"

definition slug_rune :: "nat \<Rightarrow> bool" where
  "slug_rune r = ((97 \<le> r \<and> r \<le> 122) \<or> (48 \<le> r \<and> r \<le> 57))"

fun slug_from :: "nat list \<Rightarrow> bool \<Rightarrow> string \<Rightarrow> string" where
  "slug_from [] pending out = out"
| "slug_from (r # rs) pending out =
     (if slug_rune r
      then slug_from rs False ((if pending \<and> out \<noteq> [] then out @ ''-'' else out) @ [char_of r])
      else slug_from rs True out)"

definition slugify :: "string \<Rightarrow> string" where
  "slugify name = slug_from (map lower_rune (runes name)) False []"

text \<open>What a slug looks like: runs of letters and digits, one hyphen between two.\<close>

definition slug_char :: "char \<Rightarrow> bool" where
  "slug_char c = slug_rune (of_char c)"

fun slug_shaped :: "string \<Rightarrow> bool" where
  "slug_shaped [] = True"
| "slug_shaped [c] = slug_char c"
| "slug_shaped (c # d # s) =
     (slug_char c \<and> (if d = CHR ''-'' then s \<noteq> [] \<and> slug_shaped s else slug_shaped (d # s)))"

lemma slug_shaped_snoc:
  "slug_shaped s \<Longrightarrow> slug_char c \<Longrightarrow> slug_shaped (s @ [c]) \<and> (s \<noteq> [] \<longrightarrow> slug_shaped (s @ ''-'' @ [c]))"
  by (induction s rule: slug_shaped.induct) (auto split: if_splits simp: slug_char_def slug_rune_def)

lemma slug_from_shaped: "slug_shaped out \<Longrightarrow> slug_shaped (slug_from rs pending out)"
proof (induction rs pending out rule: slug_from.induct)
  case (2 r rs pending out)
  have "slug_rune r \<Longrightarrow> slug_char (char_of r)"
    by (auto simp: slug_char_def slug_rune_def)
  with 2 slug_shaped_snoc [of out "char_of r"] show ?case by auto
qed simp

lemma slugify_shaped: "slug_shaped (slugify name)"
  unfolding slugify_def by (rule slug_from_shaped) simp

end
