(* ===== verification/Float64.thy ===== *)
theory Float64
  imports Complex_Main
begin

text \<open>
  \<open>float64\<close> arithmetic as the readings use it: sums, quotients, products and comparisons,
  each result rounded to nearest, ties to even, to 53 bits. A finite value is the
  rational it is; the sign of a zero is not kept, since no comparison here sees it and
  nothing is divided by one.
\<close>

datatype f64 = Fin rat | PosInf | NegInf | NaN

fun bits :: "nat \<Rightarrow> nat" where
  "bits n = (if n = 0 then 0 else Suc (bits (n div 2)))"

declare bits.simps [simp del]

definition pow2 :: "int \<Rightarrow> rat" where
  "pow2 e = (if 0 \<le> e then 2 ^ nat e else 1 / 2 ^ nat (- e))"

definition round_even :: "rat \<Rightarrow> int" where
  "round_even x =
     (let f = \<lfloor>x\<rfloor>; r = x - of_int f in
      if r < 1 / 2 then f else if 1 / 2 < r then f + 1 else if even f then f else f + 1)"

definition round_magnitude :: "rat \<Rightarrow> rat" where
  "round_magnitude a =
     (let (n, d) = quotient_of a;
          e0 = int (bits (nat n)) - int (bits (nat d)) - 53;
          e1 = (if 2 ^ 53 \<le> a / pow2 e0 then e0 + 1 else e0);
          e = max e1 (- 1074)
      in of_int (round_even (a / pow2 e)) * pow2 e)"

definition round_f64 :: "rat \<Rightarrow> f64" where
  "round_f64 x =
     (if x = 0 then Fin 0
      else let y = round_magnitude \<bar>x\<bar> in
        if 2 ^ 1024 \<le> y then (if x < 0 then NegInf else PosInf)
        else Fin (if x < 0 then - y else y))"

fun f_add :: "f64 \<Rightarrow> f64 \<Rightarrow> f64" where
  "f_add (Fin x) (Fin y) = round_f64 (x + y)"
| "f_add (Fin x) y = y"
| "f_add x (Fin y) = x"
| "f_add PosInf PosInf = PosInf"
| "f_add NegInf NegInf = NegInf"
| "f_add x y = NaN"

text \<open>The sign of a value that is a number: -1, 0 or 1.\<close>

fun f_sign :: "f64 \<Rightarrow> int option" where
  "f_sign (Fin x) = Some (if x < 0 then - 1 else if x = 0 then 0 else 1)"
| "f_sign PosInf = Some 1"
| "f_sign NegInf = Some (- 1)"
| "f_sign NaN = None"

definition f_infinity :: "int \<Rightarrow> f64" where
  "f_infinity s = (if s = 0 then NaN else if s < 0 then NegInf else PosInf)"

definition f_mul :: "f64 \<Rightarrow> f64 \<Rightarrow> f64" where
  "f_mul x y =
     (case (x, y) of
        (Fin a, Fin b) \<Rightarrow> round_f64 (a * b)
      | _ \<Rightarrow> (case (f_sign x, f_sign y) of
                (Some s, Some r) \<Rightarrow> f_infinity (s * r)
              | _ \<Rightarrow> NaN))"

definition f_div :: "f64 \<Rightarrow> f64 \<Rightarrow> f64" where
  "f_div x y =
     (case (x, y) of
        (Fin a, Fin b) \<Rightarrow> if b = 0 then (case f_sign x of Some s \<Rightarrow> f_infinity s | None \<Rightarrow> NaN) else round_f64 (a / b)
      | (Fin a, NaN) \<Rightarrow> NaN
      | (Fin a, _) \<Rightarrow> Fin 0
      | (NaN, _) \<Rightarrow> NaN
      | (_, Fin b) \<Rightarrow> (if b < 0 then (if x = PosInf then NegInf else PosInf) else x)
      | _ \<Rightarrow> NaN)"

text \<open>Comparisons: false as soon as one side is not a number.\<close>

fun f_less :: "f64 \<Rightarrow> f64 \<Rightarrow> bool" where
  "f_less (Fin x) (Fin y) = (x < y)"
| "f_less (Fin x) PosInf = True"
| "f_less NegInf (Fin y) = True"
| "f_less NegInf PosInf = True"
| "f_less x y = False"

definition f_le :: "f64 \<Rightarrow> f64 \<Rightarrow> bool" where
  "f_le x y = (x \<noteq> NaN \<and> y \<noteq> NaN \<and> (x = y \<or> f_less x y))"

lemma f_less_NaN [simp]: "\<not> f_less NaN y" "\<not> f_less x NaN"
  by (cases y; simp) (cases x; simp)

lemma f_le_NaN [simp]: "\<not> f_le NaN y" "\<not> f_le x NaN"
  by (simp_all add: f_le_def)

lemma f_less_irrefl [simp]: "\<not> f_less x x"
  by (cases x) simp_all

lemma f_less_trans: "f_less x y \<Longrightarrow> f_less y z \<Longrightarrow> f_less x z"
  by (cases x; cases y; cases z) auto

lemma f_le_less_trans: "f_le x y \<Longrightarrow> f_less y z \<Longrightarrow> f_less x z"
  using f_less_trans by (auto simp: f_le_def)

lemma f_not_less: "x \<noteq> NaN \<Longrightarrow> y \<noteq> NaN \<Longrightarrow> \<not> f_less x y \<longleftrightarrow> f_le y x"
  by (cases x; cases y) (auto simp: f_le_def)

lemma f_le_trans: "f_le x y \<Longrightarrow> f_le y z \<Longrightarrow> f_le x z"
  using f_less_trans by (auto simp: f_le_def)

section \<open>Whole numbers\<close>

lemma bits_le: "n < 2 ^ k \<Longrightarrow> bits n \<le> k"
proof (induction k arbitrary: n)
  case 0
  then show ?case by (simp add: bits.simps)
next
  case (Suc k)
  then have "n div 2 < 2 ^ k" by simp
  then have "bits (n div 2) \<le> k" by (rule Suc.IH)
  then show ?case by (subst bits.simps) simp
qed

lemma round_even_int [simp]: "round_even (of_int z) = z"
  by (simp add: round_even_def Let_def)

text \<open>Whole numbers of at most 53 bits are exact.\<close>

lemma round_magnitude_nat:
  assumes "n < 2 ^ 53"
  shows "round_magnitude (of_nat n) = of_nat n"
proof -
  define e0 where "e0 = int (bits n) - 1 - 53"
  define e where "e = max (if 2 ^ 53 \<le> of_nat n / pow2 e0 then e0 + 1 else e0) (- 1074)"
  have "int (bits n) \<le> 53" using bits_le [OF assms] by simp
  then have "e \<le> 0" by (simp add: e_def e0_def)
  then have p: "pow2 e = 1 / 2 ^ nat (- e)" by (auto simp: pow2_def)
  have whole: "of_nat n / pow2 e = of_int (int n * 2 ^ nat (- e))" by (simp add: p)
  have one: "bits (Suc 0) = 1" by (simp add: bits.simps)
  have "quotient_of (of_nat n) = (int n, 1)"
    using quotient_of_int [of "int n"] by simp
  then have "round_magnitude (of_nat n) = of_int (round_even (of_nat n / pow2 e)) * pow2 e"
    by (simp add: round_magnitude_def Let_def e_def e0_def one)
  also have "\<dots> = of_nat n" unfolding whole round_even_int by (simp add: p)
  finally show ?thesis .
qed

lemma round_f64_nat: "n < 2 ^ 53 \<Longrightarrow> round_f64 (of_nat n) = Fin (of_nat n)"
proof -
  assume n: "n < 2 ^ 53"
  then have "(of_nat n :: rat) < 2 ^ 53" by (metis of_nat_less_iff of_nat_numeral of_nat_power)
  also have "\<dots> \<le> 2 ^ 1024" by (rule power_increasing) simp_all
  finally show ?thesis using n by (simp add: round_f64_def round_magnitude_nat Let_def)
qed

lemma round_f64_numeral: "(numeral w :: nat) < 2 ^ 53 \<Longrightarrow> round_f64 (numeral w) = Fin (numeral w)"
  using round_f64_nat [of "numeral w"] by simp
lemma round_f64_zero_one: "round_f64 0 = Fin 0"
  by (simp add: round_f64_def)

lemma round_f64_one: "round_f64 1 = Fin 1"
  using round_f64_nat [of 1] by simp

end
