(* ===== verification/Readings.thy ===== *)
theory Readings
  imports Vocabulary Float64 Json ConsolePolicy
begin

text \<open>
  How a list of devices becomes normalized state, \<open>internal/providers/unifi\<close>: the records
  decoded from \<open>stat/device\<close> (\<open>client.go\<close> and the files beside it), which WAN is live
  (\<open>wanFrom\<close>), and one tally per key about the whole fleet (\<open>devices.go\<close>,
  \<open>firmware.go\<close>, \<open>temperature.go\<close>, \<open>poe.go\<close>, \<open>outlets.go\<close>, \<open>datausage.go\<close>). What only a
  log line reads is left out; the signals counted when two sources disagree are kept,
  as the list of what is counted.
\<close>

section \<open>Records\<close>

record wan_port =
  wn_is_uplink :: bool
  wn_if_name :: string
  wn_name :: string

record wan_entry =
  we_index :: int
  we_port :: wan_port

record sim_slot =
  sm_active :: bool
  sm_slot :: int
  sm_card_present :: bool
  sm_has_data_plan :: bool
  sm_data_warning :: bool
  sm_data_limited :: bool

text \<open>
  \<open>flexibleNumber.UnmarshalJSON\<close>: a number, a numeric string, or no reading. \<open>parse_float\<close>
  is \<open>strconv.ParseFloat\<close> with 64 bits, which reads \<open>NaN\<close> and \<open>Inf\<close> as well.
\<close>

definition flexible_number :: "(string \<Rightarrow> f64 option) \<Rightarrow> jv \<Rightarrow> f64 option" where
  "flexible_number parse_float v =
     (case v of
        JStr raw \<Rightarrow> (let raw = trim_space raw in if raw = [] then None else parse_float raw)
      | JNum x \<Rightarrow> Some (Fin x)
      | _ \<Rightarrow> None)"

record device_port =
  dp_idx :: "int option"
  dp_poe_enable :: "bool option"
  dp_poe_power :: "f64 option"

record outlet_record =
  or_index :: "int option"
  or_name :: string
  or_relay_state :: "bool option"
  or_relay_group :: "int option"

record vbms_table =
  vb_is_battery_mode :: bool
  vb_battery_level :: int
  vb_time_to_remain :: int
  vb_total_power_output :: "f64 option"
  vb_total_power_budget :: "f64 option"

record device_record =
  dr_model :: string
  dr_name :: string
  dr_wans :: "wan_entry list"
  dr_uplink :: "string option"
  dr_isp :: string
  dr_last_wan_status :: jobj
  dr_vbms :: "vbms_table option"
  dr_state :: "int option"
  dr_adopted :: "bool option"
  dr_upgradable :: "bool option"
  dr_has_temperature :: "bool option"
  dr_overheating :: "bool option"
  dr_temperatures :: "f64 option list"
  dr_general_temperature :: "f64 option"
  dr_total_max_power :: "f64 option"
  dr_port_table :: "device_port list"
  dr_outlet_table :: "outlet_record list"
  dr_mbb :: "sim_slot list option"

section \<open>The WANs of a gateway\<close>

definition wan_primary_index :: int where "wan_primary_index = 1"

definition int64 :: "int \<Rightarrow> int" where
  "int64 x = (x + 2 ^ 63) mod 2 ^ 64 - 2 ^ 63"

fun index_digits :: "int \<Rightarrow> string \<Rightarrow> int option" where
  "index_digits n [] = Some n"
| "index_digits n (c # cs) =
     (case digit_val c of None \<Rightarrow> None | Some d \<Rightarrow> index_digits (int64 (int64 (n * 10) + int d)) cs)"

definition wan_index_of :: "string \<Rightarrow> int option" where
  "wan_index_of key =
     (case cut_prefix key ''wan'' of
        None \<Rightarrow> None
      | Some digits \<Rightarrow>
          if digits = [] then None
          else (case index_digits 0 digits of
                  None \<Rightarrow> None
                | Some n \<Rightarrow> if n \<ge> wan_primary_index then Some n else None))"

text \<open>The second pass of \<open>UnmarshalJSON\<close>: every \<open>wanN\<close> of the raw object, a null one skipped.\<close>

definition collect_wans :: "(string \<times> wan_port option) list \<Rightarrow> wan_entry list" where
  "collect_wans raw =
     sort_key we_index (List.map_filter (\<lambda>(key, port).
       case (wan_index_of key, port) of
         (Some n, Some p) \<Rightarrow> Some \<lparr>we_index = n, we_port = p\<rparr>
       | _ \<Rightarrow> None) raw)"

definition port_named :: "wan_port \<Rightarrow> string \<Rightarrow> bool" where
  "port_named p name = (name \<noteq> [] \<and> (wn_if_name p = name \<or> wn_name p = name))"

record wan_signal =
  ws_value :: string
  ws_index :: int
  ws_ambiguous :: bool

definition resolve_signal :: "int list \<Rightarrow> wan_signal" where
  "resolve_signal claims =
     (case claims of
        [] \<Rightarrow> \<lparr>ws_value = [], ws_index = 0, ws_ambiguous = False\<rparr>
      | [n] \<Rightarrow> \<lparr>ws_value = (if n = wan_primary_index then wan_primary else wan_backup), ws_index = n,
               ws_ambiguous = False\<rparr>
      | _ \<Rightarrow> \<lparr>ws_value = [], ws_index = 0, ws_ambiguous = True\<rparr>)"

definition by_is_uplink :: "device_record \<Rightarrow> wan_signal" where
  "by_is_uplink d = resolve_signal (map we_index (filter (\<lambda>e. wn_is_uplink (we_port e)) (dr_wans d)))"

definition by_uplink_name :: "device_record \<Rightarrow> wan_signal" where
  "by_uplink_name d =
     (case dr_uplink d of
        None \<Rightarrow> \<lparr>ws_value = [], ws_index = 0, ws_ambiguous = False\<rparr>
      | Some name \<Rightarrow> resolve_signal (map we_index (filter (\<lambda>e. port_named (we_port e) name) (dr_wans d))))"

definition check_last_wan_status :: "device_record \<Rightarrow> string \<Rightarrow> string list" where
  "check_last_wan_status d wan =
     (let key = (if wan = wan_backup then wan_status_key_backup else wan_status_key_primary) in
      case as_string (map_of (dr_last_wan_status d) key) of
        None \<Rightarrow> []
      | Some status \<Rightarrow> if status = wan_status_online then [] else [signal_wan_not_online])"

text \<open>The live uplink, its index or 0 when it is a guess, and what was counted on the way.\<close>

definition wan_from :: "device_record \<Rightarrow> (string \<times> int) \<times> string list" where
  "wan_from d =
     (let claimed = by_is_uplink d; named = by_uplink_name d;
          publish = (\<lambda>wan counted. ((ws_value wan, ws_index wan), counted @ check_last_wan_status d (ws_value wan))) in
      if ws_value claimed \<noteq> [] \<and> ws_value named \<noteq> [] \<and> ws_value claimed \<noteq> ws_value named
      then publish claimed [signal_wan_uplink_disagrees]
      else if ws_value claimed \<noteq> [] then publish claimed []
      else if ws_value named \<noteq> [] then publish named [signal_wan_uplink_unclaimed]
      else if ws_ambiguous claimed
      then publish \<lparr>ws_value = wan_backup, ws_index = 0, ws_ambiguous = False\<rparr> [signal_wan_uplink_ambiguous]
      else (([], 0), []))"

definition isp_from :: "device_record \<Rightarrow> string" where
  "isp_from d = (let slug = slugify (dr_isp d) in if slug \<noteq> [] then slug else isp_unknown)"

text \<open>What the last observation saw of the uplink and of the carrier, and what moved without the other.\<close>

record previous =
  pv_wan :: string
  pv_isp :: string

definition cross_check_over_time :: "previous \<Rightarrow> string \<Rightarrow> string \<Rightarrow> previous \<times> string list" where
  "cross_check_over_time was wan isp =
     (let next = \<lparr>pv_wan = (if wan \<noteq> [] then wan else pv_wan was),
                  pv_isp = (if isp \<noteq> [] \<and> isp \<noteq> isp_unknown then isp else pv_isp was)\<rparr>;
          wan_moved = (wan \<noteq> pv_wan was); isp_moved = (isp \<noteq> pv_isp was) in
      if pv_wan was = [] \<or> pv_isp was = [] \<or> wan = [] \<or> isp = [] \<or> isp = isp_unknown then (next, [])
      else if wan_moved = isp_moved then (next, [])
      else if wan_moved then (next, [signal_wan_moved_without_isp])
      else (next, [signal_isp_moved_without_wan]))"

section \<open>Thresholds\<close>

record unifi_client =
  uc_low_battery :: int
  uc_critical_battery :: int
  uc_short_runtime :: int
  uc_critical_runtime :: int
  uc_high_load :: f64
  uc_min_availability :: f64
  uc_max_latency :: f64
  uc_high_temperature :: f64
  uc_max_poe :: f64
  uc_per_device_keys :: bool

definition default_low_battery_percent :: int where "default_low_battery_percent = 30"
definition default_critical_battery_percent :: int where "default_critical_battery_percent = 10"
definition default_short_runtime_seconds :: int where "default_short_runtime_seconds = 600"
definition default_critical_runtime_seconds :: int where "default_critical_runtime_seconds = 180"
definition default_high_load_percent :: f64 where "default_high_load_percent = Fin 80"
definition default_min_availability_percent :: f64 where "default_min_availability_percent = Fin 99"
definition default_max_latency_ms :: f64 where "default_max_latency_ms = Fin 150"
definition default_high_temperature_celsius :: f64 where "default_high_temperature_celsius = Fin 75"
definition default_max_poe_utilization_percent :: f64 where "default_max_poe_utilization_percent = Fin 90"

definition int_or :: "int \<Rightarrow> int \<Rightarrow> int" where
  "int_or fallback n = (if n \<le> 0 then fallback else n)"

definition float_or :: "f64 \<Rightarrow> f64 \<Rightarrow> f64" where
  "float_or fallback x = (if f_le x (Fin 0) then fallback else x)"

definition battery_level :: "unifi_client \<Rightarrow> int \<Rightarrow> string" where
  "battery_level c percent =
     (let low = int_or default_low_battery_percent (uc_low_battery c);
          critical = int_or default_critical_battery_percent (uc_critical_battery c) in
      if percent \<le> critical then battery_critical
      else if percent \<le> low then battery_low else battery_normal)"

definition runtime_level :: "unifi_client \<Rightarrow> int \<Rightarrow> string" where
  "runtime_level c seconds =
     (if seconds \<le> 0 then []
      else let short = int_or default_short_runtime_seconds (uc_short_runtime c);
               critical = int_or default_critical_runtime_seconds (uc_critical_runtime c) in
        if seconds \<le> critical then ups_runtime_critical
        else if seconds \<le> short then ups_runtime_short else ups_runtime_ample)"

definition load_level :: "unifi_client \<Rightarrow> f64 option \<Rightarrow> f64 option \<Rightarrow> string" where
  "load_level c output budget =
     (case (output, budget) of
        (Some w, Some b) \<Rightarrow>
          if f_le b (Fin 0) then []
          else if f_le (float_or default_high_load_percent (uc_high_load c)) (f_mul (f_div w b) (Fin 100))
          then ups_load_high else ups_load_normal
      | _ \<Rightarrow> [])"

definition data_usage_from :: "sim_slot list \<Rightarrow> string \<times> string list" where
  "data_usage_from sims =
     (case filter sm_active sims of
        [] \<Rightarrow> ([], [])
      | [sim] \<Rightarrow>
          if \<not> sm_card_present sim then ([], [])
          else if \<not> sm_has_data_plan sim then ([], [])
          else if sm_data_limited sim then (data_usage_over, [])
          else if sm_data_warning sim then (data_usage_warning, [])
          else (data_usage_under, [])
      | _ \<Rightarrow> ([], [signal_sim_multiple_active]))"

end
