(* ===== verification/Alarm.thy ===== *)
theory Alarm
  imports ConsoleWrite Destination
begin

text \<open>
  \<open>AlarmRegistrar\<close> of \<open>internal/providers/unifi/alarm.go\<close>: Reactor's own rule on the
  console's Alarm Manager, created once and then left alone. The registration is a
  conversation with the console; \<open>register_requests\<close> is the whole of what it may send.
\<close>

section \<open>Names\<close>

definition alarm_rules_path :: string where "alarm_rules_path = ''/api/v2/alarms/network''"
definition alarm_manifest_path :: string where "alarm_manifest_path = ''/api/v2/alarms/network/manifest''"
definition alarm_webhook_action_id :: string where "alarm_webhook_action_id = ''network:webhook''"
definition trigger_internet_disconnected :: string where
  "trigger_internet_disconnected = ''network:internet_disconnected''"
definition trigger_high_latency :: string where "trigger_high_latency = ''network:high_latency_detected''"
definition trigger_packet_loss :: string where "trigger_packet_loss = ''network:packet_loss_detected''"
definition default_alarm_rule_title :: string where "default_alarm_rule_title = ''unifi-reactor''"

definition default_alarm_triggers :: "string list" where
  "default_alarm_triggers = [trigger_internet_disconnected, trigger_high_latency, trigger_packet_loss]"

record alarm_registrar =
  al_username :: string
  al_password :: string
  al_callback_url :: string
  al_token :: string
  al_rule_title :: string
  al_triggers :: "string list"

definition alarm_title :: "alarm_registrar \<Rightarrow> string" where
  "alarm_title a = (if al_rule_title a = [] then default_alarm_rule_title else al_rule_title a)"

section \<open>The address the console posts to\<close>

text \<open>
  \<open>URL.Hostname\<close>: the host without a port of digits, and without the brackets of an
  IPv6 address.
\<close>

definition optional_port :: "string \<Rightarrow> bool" where
  "optional_port s = (case s of [] \<Rightarrow> True | c # ds \<Rightarrow> c = CHR '':'' \<and> list_all (\<lambda>d. digit_val d \<noteq> None) ds)"

definition url_hostname :: "url \<Rightarrow> string" where
  "url_hostname u =
     (let h = (case last_index_of CHR '':'' (ur_host u) of
            None \<Rightarrow> ur_host u
          | Some i \<Rightarrow> if optional_port (drop i (ur_host u)) then take i (ur_host u) else ur_host u)
      in if h \<noteq> [] \<and> hd h = CHR ''['' \<and> last h = CHR '']'' then butlast (tl h) else h)"

text \<open>
  \<open>strings.EqualFold\<close> against a word in plain letters. Two characters outside ASCII fold to
  one inside it: the long s and the Kelvin sign.
\<close>

fun ascii_fold :: "string \<Rightarrow> string" where
  "ascii_fold (a # b # cs) =
     (if a = CHR 0xC5 \<and> b = CHR 0xBF then CHR ''s'' # ascii_fold cs
      else if a = CHR 0xE2 \<and> b = CHR 0x84 \<and> cs \<noteq> [] \<and> hd cs = CHR 0xAA then CHR ''k'' # ascii_fold (tl cs)
      else lower_char a # ascii_fold (b # cs))"
| "ascii_fold s = map lower_char s"

definition localhost_folded :: "string \<Rightarrow> bool" where
  "localhost_folded host = (ascii_fold host = ''localhost'')"

text \<open>
  \<open>validateCallbackURL\<close>: \<open>None\<close> accepts. \<open>parse\<close> is \<open>net.ParseIP\<close> and \<open>show\<close> prints what it
  read; a loopback address is refused in either family, mapped or not.
\<close>

definition validate_callback_url ::
  "url_lib \<Rightarrow> (string \<Rightarrow> addr option) \<Rightarrow> (addr \<Rightarrow> string) \<Rightarrow> string \<Rightarrow> string option" where
  "validate_callback_url lib parse show raw =
     (if raw = [] then Some ''webhook self-registration needs the public URL the console should post to''
      else case ul_parse lib raw of
        Inl e \<Rightarrow> Some (''parsing the public webhook URL '' @ quoted raw @ '': '' @ e)
      | Inr u \<Rightarrow>
          if ur_scheme u \<noteq> scheme_http \<and> ur_scheme u \<noteq> scheme_https
          then Some (''the public webhook URL must be http or https, got '' @ quoted (ur_scheme u))
          else (let host = url_hostname u in
            if host = [] then Some (''the public webhook URL '' @ quoted raw @ '' has no host'')
            else if localhost_folded host
            then Some ''the public webhook URL must be an address the console can reach, not localhost''
            else (case parse host of
                Some ip \<Rightarrow>
                  if is_loopback (unmap ip)
                  then Some (''the public webhook URL must be an address the console can reach, not the loopback ''
                             @ show ip)
                  else None
              | None \<Rightarrow> None)))"

section \<open>The rule\<close>

definition alarm_member :: "string \<Rightarrow> jv \<Rightarrow> jv" where
  "alarm_member i data = JObj [(''id'', JStr i), (''data'', data)]"

definition rule_body :: "alarm_registrar \<Rightarrow> string list \<Rightarrow> jv" where
  "rule_body a triggers =
     JObj [(''title'', JStr (alarm_title a)),
           (''scope'', JObj [(''mode'', JStr ''include''), (''data'', JObj [(''site_id'', JStr ''ALL_ITEMS'')])]),
           (''triggers_data'', JArr [JArr (map (\<lambda>i. alarm_member i (JObj [])) triggers)]),
           (''actions_data'', JArr [JArr [alarm_member alarm_webhook_action_id
              (JObj [(''auth'', JObj [(''token'', JStr (al_token a)), (''variant'', JStr ''bearer'')]),
                     (''method'', JStr method_post),
                     (''url'', JStr (al_callback_url a))])]])]"

definition offered :: "jv \<Rightarrow> string list \<Rightarrow> string list" where
  "offered manifest ids = filter (\<lambda>i. json_has_string i manifest) ids"

text \<open>Refused before anything is sent: no secret, or an address the console could not use.\<close>

definition registration_refused ::
  "url_lib \<Rightarrow> (string \<Rightarrow> addr option) \<Rightarrow> (addr \<Rightarrow> string) \<Rightarrow> alarm_registrar \<Rightarrow> string option" where
  "registration_refused lib parse show a =
     (if al_token a = []
      then Some ''refusing to register a rule without a shared secret, which the receiver would reject''
      else validate_callback_url lib parse show (al_callback_url a))"

text \<open>What a manifest offers this registrar: the triggers to name, or why there is no rule to make.\<close>

definition choose_triggers :: "alarm_registrar \<Rightarrow> jv \<Rightarrow> string + string list" where
  "choose_triggers a manifest =
     (if \<not> json_has_string alarm_webhook_action_id manifest
      then Inl (''this console's alarm manifest does not offer the '' @ quoted alarm_webhook_action_id @ '' action'')
      else if offered manifest (al_triggers a) = []
      then Inl ''this console's alarm manifest offers none of the triggers Reactor asks for''
      else Inr (offered manifest (al_triggers a)))"

definition create_unless_present :: "alarm_registrar \<Rightarrow> string \<Rightarrow> string list \<Rightarrow> jv \<Rightarrow> (string + unit) console" where
  "create_unless_present a csrf triggers rules =
     (case find_rule_id (alarm_title a) rules of
        Some i \<Rightarrow> CRet (Inr ())
      | None \<Rightarrow> cbindR (console_do csrf method_post alarm_rules_path (Some (rule_body a triggers)))
                  (\<lambda>created. CRet (Inr ())))"

definition register_open :: "alarm_registrar \<Rightarrow> string \<Rightarrow> (string + unit) console" where
  "register_open a csrf =
     cbindR (console_do csrf method_get alarm_manifest_path None) (\<lambda>manifest.
       case choose_triggers a manifest of
         Inl e \<Rightarrow> CRet (Inl e)
       | Inr triggers \<Rightarrow>
           cbindR (console_do csrf method_get alarm_rules_path None) (create_unless_present a csrf triggers))"

definition register :: "url_lib \<Rightarrow> (string \<Rightarrow> addr option) \<Rightarrow> (addr \<Rightarrow> string) \<Rightarrow> (string \<Rightarrow> string option) \<Rightarrow>
    alarm_registrar \<Rightarrow> (string + unit) console" where
  "register lib parse show claim a =
     (case registration_refused lib parse show a of
        Some e \<Rightarrow> CRet (Inl e)
      | None \<Rightarrow> cbindR (console_login claim (al_username a) (al_password a)) (register_open a))"

end
