(* ===== verification/Poller.thy ===== *)
theory Poller
  imports StateStore Api
begin

text \<open>
  \<open>internal/controller/unifi_poller.go\<close>: when the next observation happens, what an
  observation does to the store, and which Automations it wakes. The channels the
  loop selects on are the sequence of what they deliver, with the time of each
  delivery; a channel that stays silent is the end of the sequence.
\<close>

definition provider_unifi :: string where "provider_unifi = ''unifi''"
definition default_poll_interval :: duration where "default_poll_interval = 30 * second"
definition default_min_observe_interval :: duration where "default_min_observe_interval = 5 * 10 ^ 8"

section \<open>Waiting\<close>

text \<open>
  What the select receives. A nudge also says whether the context ends during the
  wait it may start.
\<close>

datatype wake_up = Done instant | Tick instant | Nudge instant bool

text \<open>\<open>waitFor(ctx, d)\<close> from an instant: when it returns, and whether the wait was served.\<close>

definition wait_for :: "instant \<Rightarrow> duration \<Rightarrow> bool \<Rightarrow> bool \<times> instant" where
  "wait_for now d cancelled = (if d \<le> 0 then (True, now) else if cancelled then (False, now) else (True, now + d))"

fun await_next :: "state_store \<Rightarrow> duration \<Rightarrow> instant \<Rightarrow> wake_up list \<Rightarrow> ((bool \<times> instant) \<times> wake_up list) option" where
  "await_next s min_interval observed_at [] = None"
| "await_next s min_interval observed_at (Done t # rest) = Some ((False, t), rest)"
| "await_next s min_interval observed_at (Tick t # rest) = Some ((True, t), rest)"
| "await_next s min_interval observed_at (Nudge t cancelled # rest) =
     (if proving s provider_unifi then await_next s min_interval observed_at rest
      else Some (wait_for t (min_interval - (t - observed_at)) cancelled, rest))"

section \<open>Observing\<close>

text \<open>A reading of the console: an error is dropped, and the store is left as it was.\<close>

definition poll_observe :: "state_store \<Rightarrow> string + gomap \<Rightarrow> instant \<Rightarrow> state_store \<times> transition list" where
  "poll_observe s reading now =
     (case reading of
        Inl e \<Rightarrow> (s, [])
      | Inr state \<Rightarrow> observe s \<lparr>ob_provider = provider_unifi, ob_state = state, ob_at = now\<rparr>)"

datatype send_result = Sent | QueueFull | ContextDone

text \<open>The Automations put on the wake queue, given what the queue answers to each send.\<close>

fun wake :: "automation list \<Rightarrow> send_result list \<Rightarrow> automation list" where
  "wake [] answers = []"
| "wake (a # rest) answers =
     (case sp_when (am_spec a) of
        None \<Rightarrow> wake rest answers
      | Some w \<Rightarrow>
          if st_provider w \<noteq> provider_unifi then wake rest answers
          else (case answers of
                  [] \<Rightarrow> a # wake rest []
                | ContextDone # later \<Rightarrow> []
                | QueueFull # later \<Rightarrow> wake rest later
                | Sent # later \<Rightarrow> a # wake rest later))"

definition interval_or :: "duration \<Rightarrow> duration \<Rightarrow> duration" where
  "interval_or fallback d = (if d \<le> 0 then fallback else d)"

text \<open>
  \<open>Start\<close>, driven by the readings the console answers and the channels' deliveries:
  the observations made, with their times, and the store they leave.
\<close>

fun poller_run :: "duration \<Rightarrow> state_store \<Rightarrow> instant \<Rightarrow> (string + gomap) list \<Rightarrow> wake_up list \<Rightarrow>
    (instant \<times> state_store) list" where
  "poller_run min_interval s now [] deliveries = []"
| "poller_run min_interval s now (reading # readings) deliveries =
     (let s' = fst (poll_observe s reading now) in
      (now, s') #
      (case await_next s' min_interval now deliveries of
         None \<Rightarrow> []
       | Some ((False, t), rest) \<Rightarrow> []
       | Some ((True, t), rest) \<Rightarrow> poller_run min_interval s' t readings rest))"

definition poller_start :: "duration \<Rightarrow> state_store \<Rightarrow> instant \<Rightarrow> (string + gomap) list \<Rightarrow> wake_up list \<Rightarrow>
    (instant \<times> state_store) list" where
  "poller_start min_observe_interval s now readings deliveries =
     poller_run (interval_or default_min_observe_interval min_observe_interval) s now readings deliveries"

end
