(* ===== verification/Config.thy ===== *)
theory Config
  imports ConsoleWrite Readings Alarm Poller
begin

text \<open>
  \<open>internal/providers/unifi/config.go\<close> and the constructors it feeds: how the environment
  becomes the provider's configuration, and the configuration a client and a writer.
  \<open>time.ParseDuration\<close> and \<open>strconv.ParseFloat\<close> are arguments, as is reading a file.
\<close>

section \<open>The configuration\<close>

definition env_true :: string where "env_true = ''true''"
definition default_webhook_bind_address :: string where "default_webhook_bind_address = '':9090''"
definition default_webhook_path :: string where "default_webhook_path = ''/webhooks/unifi''"

definition env_url :: string where "env_url = ''UNIFI_URL''"
definition env_api_key :: string where "env_api_key = ''UNIFI_API_KEY''"
definition env_api_key_file :: string where "env_api_key_file = ''UNIFI_API_KEY_FILE''"
definition env_site :: string where "env_site = ''UNIFI_SITE''"
definition env_insecure_skip_verify :: string where "env_insecure_skip_verify = ''UNIFI_INSECURE_SKIP_VERIFY''"
definition env_poll_interval :: string where "env_poll_interval = ''UNIFI_POLL_INTERVAL''"
definition env_max_observation_age :: string where "env_max_observation_age = ''UNIFI_MAX_OBSERVATION_AGE''"
definition env_low_battery :: string where "env_low_battery = ''UNIFI_UPS_LOW_BATTERY_PERCENT''"
definition env_critical_battery :: string where "env_critical_battery = ''UNIFI_UPS_CRITICAL_BATTERY_PERCENT''"
definition env_short_runtime :: string where "env_short_runtime = ''UNIFI_UPS_SHORT_RUNTIME_SECONDS''"
definition env_critical_runtime :: string where "env_critical_runtime = ''UNIFI_UPS_CRITICAL_RUNTIME_SECONDS''"
definition env_high_load :: string where "env_high_load = ''UNIFI_UPS_HIGH_LOAD_PERCENT''"
definition env_min_availability :: string where
  "env_min_availability = ''UNIFI_WAN_QUALITY_MIN_AVAILABILITY_PERCENT''"
definition env_max_latency :: string where "env_max_latency = ''UNIFI_WAN_QUALITY_MAX_LATENCY_MS''"
definition env_per_device_keys :: string where "env_per_device_keys = ''UNIFI_PER_DEVICE_KEYS''"
definition env_high_temperature :: string where "env_high_temperature = ''UNIFI_TEMPERATURE_HIGH_CELSIUS''"
definition env_max_poe_utilization :: string where "env_max_poe_utilization = ''UNIFI_POE_MAX_UTILIZATION_PERCENT''"
definition env_webhook_enabled :: string where "env_webhook_enabled = ''UNIFI_WEBHOOK_ENABLED''"
definition env_webhook_bind_address :: string where "env_webhook_bind_address = ''UNIFI_WEBHOOK_BIND_ADDRESS''"
definition env_webhook_path :: string where "env_webhook_path = ''UNIFI_WEBHOOK_PATH''"
definition env_webhook_token :: string where "env_webhook_token = ''UNIFI_WEBHOOK_TOKEN''"
definition env_webhook_min_interval :: string where "env_webhook_min_interval = ''UNIFI_WEBHOOK_MIN_INTERVAL''"
definition env_webhook_register :: string where "env_webhook_register = ''UNIFI_WEBHOOK_REGISTER''"
definition env_webhook_public_url :: string where "env_webhook_public_url = ''UNIFI_WEBHOOK_PUBLIC_URL''"
definition env_webhook_rule_title :: string where "env_webhook_rule_title = ''UNIFI_WEBHOOK_RULE_TITLE''"
definition env_username :: string where "env_username = ''UNIFI_USERNAME''"
definition env_password :: string where "env_password = ''UNIFI_PASSWORD''"
definition env_actions_allowed_wlans :: string where "env_actions_allowed_wlans = ''UNIFI_ACTIONS_ALLOWED_WLANS''"
definition env_actions_allowed_poe_ports :: string where
  "env_actions_allowed_poe_ports = ''UNIFI_ACTIONS_ALLOWED_POE_PORTS''"
definition env_actions_allowed_outlets :: string where
  "env_actions_allowed_outlets = ''UNIFI_ACTIONS_ALLOWED_OUTLETS''"
definition env_actions_allow_battery_backed :: string where
  "env_actions_allow_battery_backed = ''UNIFI_ACTIONS_ALLOW_BATTERY_BACKED_OUTLETS''"

record webhook_config =
  wh_enabled :: bool
  wh_bind_address :: string
  wh_path :: string
  wh_token :: string
  wh_min_observe_interval :: duration
  wh_register :: bool
  wh_public_url :: string
  wh_rule_title :: string
  wh_username :: string
  wh_password :: string

text \<open>The key, fixed or read from a file each time it is used.\<close>

datatype api_key = StaticAPIKey string | FileAPIKey string

definition resolve_key :: "(string \<Rightarrow> string + string) \<Rightarrow> api_key \<Rightarrow> string + string" where
  "resolve_key read_file k =
     (case k of
        StaticAPIKey key \<Rightarrow> Inr key
      | FileAPIKey path \<Rightarrow>
          (case read_file path of
             Inl e \<Rightarrow> Inl (''reading unifi api key from '' @ path @ '': '' @ e)
           | Inr contents \<Rightarrow>
               let key = trim_space contents in
               if key = [] then Inl (''unifi api key file '' @ path @ '' is empty'') else Inr key))"

record config =
  cg_url :: string
  cg_api_key :: api_key
  cg_site :: string
  cg_insecure_skip_verify :: bool
  cg_poll_interval :: duration
  cg_max_observation_age :: duration
  cg_low_battery :: int
  cg_critical_battery :: int
  cg_short_runtime :: int
  cg_critical_runtime :: int
  cg_high_load :: f64
  cg_min_availability :: f64
  cg_max_latency :: f64
  cg_high_temperature :: f64
  cg_max_poe :: f64
  cg_per_device_keys :: bool
  cg_webhook :: webhook_config
  cg_actions :: actions_config

section \<open>Reading the environment\<close>

type_synonym env = "string \<Rightarrow> string"

definition env_flag :: "env \<Rightarrow> string \<Rightarrow> bool" where
  "env_flag lookup name = (lookup name = env_true)"

definition env_config :: "env \<Rightarrow> config" where
  "env_config lookup =
     \<lparr>cg_url = lookup env_url, cg_api_key = StaticAPIKey [], cg_site = lookup env_site,
      cg_insecure_skip_verify = env_flag lookup env_insecure_skip_verify,
      cg_poll_interval = default_poll_interval, cg_max_observation_age = 0,
      cg_low_battery = default_low_battery_percent, cg_critical_battery = default_critical_battery_percent,
      cg_short_runtime = default_short_runtime_seconds, cg_critical_runtime = default_critical_runtime_seconds,
      cg_high_load = default_high_load_percent, cg_min_availability = default_min_availability_percent,
      cg_max_latency = default_max_latency_ms, cg_high_temperature = default_high_temperature_celsius,
      cg_max_poe = default_max_poe_utilization_percent,
      cg_per_device_keys = env_flag lookup env_per_device_keys,
      cg_webhook =
        \<lparr>wh_enabled = env_flag lookup env_webhook_enabled, wh_bind_address = default_webhook_bind_address,
         wh_path = default_webhook_path, wh_token = lookup env_webhook_token,
         wh_min_observe_interval = default_min_observe_interval,
         wh_register = env_flag lookup env_webhook_register, wh_public_url = lookup env_webhook_public_url,
         wh_rule_title = default_alarm_rule_title, wh_username = lookup env_username,
         wh_password = lookup env_password\<rparr>,
      cg_actions =
        \<lparr>an_wlans = split_list (lookup env_actions_allowed_wlans),
         an_poe_ports = split_list (lookup env_actions_allowed_poe_ports),
         an_outlets = split_list (lookup env_actions_allowed_outlets),
         an_battery = env_flag lookup env_actions_allow_battery_backed\<rparr>\<rparr>"

definition api_key_from_env :: "(string \<Rightarrow> string + string) \<Rightarrow> env \<Rightarrow> string + api_key" where
  "api_key_from_env read_file lookup =
     (if lookup env_api_key_file \<noteq> []
      then (let key = FileAPIKey (lookup env_api_key_file) in
            case resolve_key read_file key of Inl e \<Rightarrow> Inl e | Inr k \<Rightarrow> Inr key)
      else if lookup env_api_key \<noteq> [] then Inr (StaticAPIKey (lookup env_api_key))
      else Inl ''UNIFI_URL is set but neither UNIFI_API_KEY_FILE nor UNIFI_API_KEY is'')"

text \<open>
  The loops over the fields of one type: each variable that is set is parsed and stored,
  the first that does not parse ends the whole.
\<close>

type_synonym 'a field = "string \<times> ('a \<Rightarrow> config \<Rightarrow> config)"

fun set_fields :: "(string \<Rightarrow> string + 'a) \<Rightarrow> env \<Rightarrow> 'a field list \<Rightarrow> config \<Rightarrow> string + config" where
  "set_fields parse lookup [] cfg = Inr cfg"
| "set_fields parse lookup ((name, store) # rest) cfg =
     (let raw = lookup name in
      if raw = [] then set_fields parse lookup rest cfg
      else case parse raw of
        Inl e \<Rightarrow> Inl (''invalid '' @ name @ '' '' @ quoted raw @ '': '' @ e)
      | Inr v \<Rightarrow> set_fields parse lookup rest (store v cfg))"

definition on_webhook :: "(webhook_config \<Rightarrow> webhook_config) \<Rightarrow> config \<Rightarrow> config" where
  "on_webhook f cfg = cfg\<lparr>cg_webhook := f (cg_webhook cfg)\<rparr>"

definition duration_fields :: "duration field list" where
  "duration_fields =
     [(env_poll_interval, \<lambda>v cfg. cfg\<lparr>cg_poll_interval := v\<rparr>),
      (env_max_observation_age, \<lambda>v cfg. cfg\<lparr>cg_max_observation_age := v\<rparr>),
      (env_webhook_min_interval, \<lambda>v. on_webhook (\<lambda>w. w\<lparr>wh_min_observe_interval := v\<rparr>))]"

definition int_fields :: "int field list" where
  "int_fields =
     [(env_low_battery, \<lambda>v cfg. cfg\<lparr>cg_low_battery := v\<rparr>),
      (env_critical_battery, \<lambda>v cfg. cfg\<lparr>cg_critical_battery := v\<rparr>),
      (env_short_runtime, \<lambda>v cfg. cfg\<lparr>cg_short_runtime := v\<rparr>),
      (env_critical_runtime, \<lambda>v cfg. cfg\<lparr>cg_critical_runtime := v\<rparr>)]"

definition float_fields :: "f64 field list" where
  "float_fields =
     [(env_min_availability, \<lambda>v cfg. cfg\<lparr>cg_min_availability := v\<rparr>),
      (env_max_latency, \<lambda>v cfg. cfg\<lparr>cg_max_latency := v\<rparr>),
      (env_high_load, \<lambda>v cfg. cfg\<lparr>cg_high_load := v\<rparr>),
      (env_high_temperature, \<lambda>v cfg. cfg\<lparr>cg_high_temperature := v\<rparr>),
      (env_max_poe_utilization, \<lambda>v cfg. cfg\<lparr>cg_max_poe := v\<rparr>)]"

definition text_fields :: "string field list" where
  "text_fields =
     [(env_webhook_bind_address, \<lambda>v. on_webhook (\<lambda>w. w\<lparr>wh_bind_address := v\<rparr>)),
      (env_webhook_path, \<lambda>v. on_webhook (\<lambda>w. w\<lparr>wh_path := v\<rparr>)),
      (env_webhook_rule_title, \<lambda>v. on_webhook (\<lambda>w. w\<lparr>wh_rule_title := v\<rparr>))]"

text \<open>What outside the repository reads a variable.\<close>

record env_lib =
  en_duration :: "string \<Rightarrow> string + duration"
  en_float :: "string \<Rightarrow> string + f64"
  en_file :: "string \<Rightarrow> string + string"

definition parse_env :: "env_lib \<Rightarrow> env \<Rightarrow> config \<Rightarrow> string + config" where
  "parse_env lib lookup cfg =
     bindE (set_fields (en_duration lib) lookup duration_fields cfg) (\<lambda>cfg.
     bindE (set_fields atoi lookup int_fields cfg) (\<lambda>cfg.
     bindE (set_fields (en_float lib) lookup float_fields cfg)
       (set_fields Inr lookup text_fields)))"

text \<open>\<open>ConfigFromEnv\<close>: an error, nothing configured, or the configuration.\<close>

definition config_from_env :: "env_lib \<Rightarrow> env \<Rightarrow> string + config option" where
  "config_from_env lib lookup =
     (if lookup env_url = [] then Inr None
      else bindE (api_key_from_env (en_file lib) lookup) (\<lambda>key.
           bindE (parse_env lib lookup ((env_config lookup)\<lparr>cg_api_key := key\<rparr>)) (\<lambda>cfg. Inr (Some cfg))))"

text \<open>\<open>Validate\<close>: \<open>None\<close> lets the fast path start, or leaves it off.\<close>

definition webhook_validate ::
  "url_lib \<Rightarrow> (string \<Rightarrow> addr option) \<Rightarrow> (addr \<Rightarrow> string) \<Rightarrow> webhook_config \<Rightarrow> string option" where
  "webhook_validate lib parse show w =
     (if \<not> wh_enabled w
      then (if wh_register w then Some ''webhook self-registration needs the receiver enabled too'' else None)
      else if wh_token w = [] then Some ''the webhook fast path needs a shared secret; set UNIFI_WEBHOOK_TOKEN''
      else if \<not> has_prefix (wh_path w) ''/''
      then Some (''the webhook path must start with a slash, got '' @ quoted (wh_path w))
      else if wh_min_observe_interval w < 0
      then Some (''the minimum observe interval cannot be negative, got '' @ dur_string (wh_min_observe_interval w))
      else if \<not> wh_register w then None
      else if wh_username w = [] \<or> wh_password w = []
      then Some (''webhook self-registration needs UniFi OS console credentials ''
                 @ ''(UNIFI_USERNAME and UNIFI_PASSWORD); the API key the poller uses does not work on the Alarm Manager API'')
      else validate_callback_url lib parse show (wh_public_url w))"

section \<open>What it builds\<close>

definition console_credentials :: "config \<Rightarrow> string \<times> string" where
  "console_credentials cfg = (wh_username (cg_webhook cfg), wh_password (cg_webhook cfg))"

definition trim_suffix_slash :: "string \<Rightarrow> string" where
  "trim_suffix_slash s = (case cut_suffix s ''/'' of None \<Rightarrow> s | Some r \<Rightarrow> r)"

definition new_writer :: "config \<Rightarrow> string + console_writer" where
  "new_writer cfg =
     bindE (new_write_policy (cg_actions cfg)) (\<lambda>policy.
       Inr \<lparr>cw_base_url = trim_suffix_slash (cg_url cfg), cw_site = site_or_default (cg_site cfg),
            cw_username = fst (console_credentials cfg), cw_password = snd (console_credentials cfg),
            cw_insecure = cg_insecure_skip_verify cfg, cw_policy = policy\<rparr>)"

definition new_alarm_registrar :: "config \<Rightarrow> alarm_registrar" where
  "new_alarm_registrar cfg =
     \<lparr>al_username = wh_username (cg_webhook cfg), al_password = wh_password (cg_webhook cfg),
      al_callback_url = wh_public_url (cg_webhook cfg), al_token = wh_token (cg_webhook cfg),
      al_rule_title = wh_rule_title (cg_webhook cfg), al_triggers = default_alarm_triggers\<rparr>"

text \<open>The thresholds \<open>setupUniFi\<close> copies into the client it polls with.\<close>

definition client_of :: "config \<Rightarrow> unifi_client" where
  "client_of cfg =
     \<lparr>uc_low_battery = cg_low_battery cfg, uc_critical_battery = cg_critical_battery cfg,
      uc_short_runtime = cg_short_runtime cfg, uc_critical_runtime = cg_critical_runtime cfg,
      uc_high_load = cg_high_load cfg, uc_min_availability = cg_min_availability cfg,
      uc_max_latency = cg_max_latency cfg, uc_high_temperature = cg_high_temperature cfg,
      uc_max_poe = cg_max_poe cfg, uc_per_device_keys = cg_per_device_keys cfg\<rparr>"

end
