(* ===== verification/Receiver.thy ===== *)
theory Receiver
  imports Config
begin

text \<open>
  \<open>internal/providers/unifi/receiver.go\<close>: the webhook endpoint. A delivery is a request with
  its headers; its body is never read for what it says. The channel of one slot is the
  flag that it is full, and the poller's receive empties it. The routing and the server
  of \<open>net/http\<close> are outside: what reaches \<open>handle_delivery\<close> is a POST to the path.
\<close>

definition bearer_prefix :: string where "bearer_prefix = ''Bearer ''"

text \<open>The two headers the receiver reads, empty when absent.\<close>

record delivery =
  dl_authorization :: string
  dl_token :: string

record receiver =
  rv_addr :: string
  rv_path :: string
  rv_token :: string
  rv_pending :: bool

definition new_receiver :: "webhook_config \<Rightarrow> receiver" where
  "new_receiver w =
     \<lparr>rv_addr = (if wh_bind_address w = [] then default_webhook_bind_address else wh_bind_address w),
      rv_path = (if wh_path w = [] then default_webhook_path else wh_path w),
      rv_token = wh_token w, rv_pending = False\<rparr>"

text \<open>A send that never blocks, and whether it went through.\<close>

definition receiver_request :: "receiver \<Rightarrow> receiver \<times> bool" where
  "receiver_request r = (if rv_pending r then (r, False) else (r\<lparr>rv_pending := True\<rparr>, True))"

definition authorized :: "receiver \<Rightarrow> delivery \<Rightarrow> bool" where
  "authorized r d =
     (if rv_token r = [] then False
      else (let presented =
              (if dl_token d \<noteq> [] then dl_token d
               else case cut_prefix (dl_authorization d) bearer_prefix of None \<Rightarrow> [] | Some after \<Rightarrow> after)
            in presented = rv_token r))"

datatype delivery_outcome = DeliveryAccepted | DeliveryCoalesced | DeliveryRejected

definition delivery_status :: "delivery_outcome \<Rightarrow> int" where
  "delivery_status x = (if x = DeliveryRejected then 401 else 202)"

definition handle_delivery :: "receiver \<Rightarrow> delivery \<Rightarrow> receiver \<times> delivery_outcome" where
  "handle_delivery r d =
     (if \<not> authorized r d then (r, DeliveryRejected)
      else (case receiver_request r of (r', went) \<Rightarrow> (r', if went then DeliveryAccepted else DeliveryCoalesced)))"

text \<open>The poller's side of the channel: whether there was anything to receive.\<close>

definition receive_request :: "receiver \<Rightarrow> receiver \<times> bool" where
  "receive_request r = (r\<lparr>rv_pending := False\<rparr>, rv_pending r)"

section \<open>Histories\<close>

text \<open>Deliveries and receives in the order they happen, and how many receives found a request.\<close>

datatype traffic = Arrives delivery | Polls

fun traffic_step :: "traffic \<Rightarrow> receiver \<times> nat \<Rightarrow> receiver \<times> nat" where
  "traffic_step (Arrives d) (r, n) = (fst (handle_delivery r d), n)"
| "traffic_step Polls (r, n) = (case receive_request r of (r', found) \<Rightarrow> (r', if found then n + 1 else n))"

definition observations :: "receiver \<Rightarrow> traffic list \<Rightarrow> receiver \<times> nat" where
  "observations r ts = fold traffic_step ts (r, 0)"

definition genuine :: "receiver \<Rightarrow> traffic \<Rightarrow> bool" where
  "genuine r t = (case t of Arrives d \<Rightarrow> authorized r d | Polls \<Rightarrow> True)"

lemma step_receiver:
  "rv_token (fst (traffic_step t s)) = rv_token (fst s)"
  "rv_addr (fst (traffic_step t s)) = rv_addr (fst s)"
  "rv_path (fst (traffic_step t s)) = rv_path (fst s)"
  by (cases s; cases t; simp add: handle_delivery_def receiver_request_def receive_request_def)+

lemma authorized_cong: "rv_token r = rv_token r' \<Longrightarrow> authorized r d = authorized r' d"
  by (simp add: authorized_def)

lemma rejected_step: "\<not> genuine (fst s) t \<Longrightarrow> traffic_step t s = s"
  by (cases s; cases t) (simp_all add: genuine_def handle_delivery_def)

lemma genuine_step: "genuine (fst (traffic_step t s)) = genuine (fst s)"
  by (rule ext) (simp add: genuine_def authorized_cong [OF step_receiver(1)] split: traffic.split)

lemma drop_forged: "fold traffic_step (filter (genuine (fst s)) ts) s = fold traffic_step ts s"
proof (induction ts arbitrary: s)
  case (Cons t ts)
  have "filter (genuine (fst (traffic_step t s))) ts = filter (genuine (fst s)) ts" by (simp add: genuine_step)
  then show ?case using Cons [of "traffic_step t s"] Cons [of s] rejected_step [of s t] by auto
qed simp

text \<open>
  Between any two receives at most one request is kept, so a history makes at most as many
  observations as it has receives, and at most as many as genuine deliveries.
\<close>

definition arrivals :: "receiver \<Rightarrow> traffic list \<Rightarrow> nat" where
  "arrivals r ts = length (filter (\<lambda>t. t \<noteq> Polls \<and> genuine r t) ts)"

lemma observations_bounded:
  "snd (fold traffic_step ts s) + (if rv_pending (fst (fold traffic_step ts s)) then 1 else 0) \<le>
     snd s + (if rv_pending (fst s) then 1 else 0) + arrivals (fst s) ts \<and>
   snd (fold traffic_step ts s) \<le> snd s + length (filter (\<lambda>t. t = Polls) ts)"
proof (induction ts arbitrary: s)
  case (Cons t ts)
  obtain r n where s: "s = (r, n)" by fastforce
  have a: "arrivals (fst (traffic_step t s)) ts = arrivals (fst s) ts"
    by (simp add: arrivals_def genuine_step)
  note IH = Cons [of "traffic_step t s", unfolded a]
  show ?case
  proof (cases t)
    case (Arrives d)
    then show ?thesis using IH
      by (cases "authorized r d"; cases "rv_pending r")
        (auto simp: s arrivals_def genuine_def handle_delivery_def receiver_request_def split: if_splits)
  next
    case Polls
    then show ?thesis using IH
      by (cases "rv_pending r") (auto simp: s arrivals_def genuine_def receive_request_def split: if_splits)
  qed
qed (simp add: arrivals_def)


section \<open>The receiver, the registrar and the configuration\<close>

text \<open>What passes validation works together. A webhook configuration that \<open>Validate\<close> passes and
  that registers itself gives a registrar that refuses nothing before it talks to the
  console and a receiver on its path; and a delivery that carries the bearer token of
  the rule that registrar asks for is authorized.\<close>

theorem validated_fast_path_fits_together:
  assumes "webhook_validate lib parse show (cg_webhook cfg) = None"
    and "wh_enabled (cg_webhook cfg)" and "wh_register (cg_webhook cfg)"
  shows "registration_refused lib parse show (new_alarm_registrar cfg) = None \<and>
    rv_path (new_receiver (cg_webhook cfg)) = wh_path (cg_webhook cfg) \<and>
    authorized (new_receiver (cg_webhook cfg))
      \<lparr>dl_authorization = bearer_prefix @ al_token (new_alarm_registrar cfg), dl_token = []\<rparr>"
proof -
  have facts: "wh_token (cg_webhook cfg) \<noteq> []" "has_prefix (wh_path (cg_webhook cfg)) ''/''"
    "validate_callback_url lib parse show (wh_public_url (cg_webhook cfg)) = None"
    using assms by (auto simp: webhook_validate_def split: if_splits)
  have "cut_prefix (bearer_prefix @ t) bearer_prefix = Some t" for t
    by (simp add: cut_prefix_Some)
  then show ?thesis
    using facts by (auto simp: registration_refused_def new_alarm_registrar_def new_receiver_def authorized_def)
qed

text \<open>A console on the local network, and an operator reached through a literal address.\<close>

definition sample_hooks :: webhook_config where
  "sample_hooks =
     \<lparr>wh_enabled = True, wh_bind_address = [], wh_path = default_webhook_path, wh_token = ''s3cret'',
      wh_min_observe_interval = second, wh_register = True, wh_public_url = ''http://10.0.0.9/webhooks/unifi'',
      wh_rule_title = default_alarm_rule_title, wh_username = ''reactor'', wh_password = ''secret''\<rparr>"

definition sample_hook_config :: config where
  "sample_hook_config = (env_config (\<lambda>name. []))\<lparr>cg_webhook := sample_hooks\<rparr>"

definition sample_hook_urls :: url_lib where
  "sample_hook_urls = \<lparr>ul_parse = (\<lambda>s. Inr \<lparr>ur_scheme = scheme_http, ur_user = False, ur_host = ''10.0.0.9'',
      ur_path = ''/webhooks/unifi'', ur_raw_query = [], ur_fragment = []\<rparr>), ul_join = (\<lambda>u ps. [])\<rparr>"

theorem validated_fast_path_fits_together_witness:
  "registration_refused sample_hook_urls (\<lambda>s. Some (V4 0x0A000009)) (\<lambda>a. []) (new_alarm_registrar sample_hook_config) = None \<and>
   rv_path (new_receiver sample_hooks) = default_webhook_path"
proof -
  have hooks: "cg_webhook sample_hook_config = sample_hooks" by (simp add: sample_hook_config_def)
  have "webhook_validate sample_hook_urls (\<lambda>s. Some (V4 0x0A000009)) (\<lambda>a. []) sample_hooks = None"
    "wh_enabled sample_hooks" "wh_register sample_hooks" "wh_path sample_hooks = default_webhook_path"
    by code_simp+
  with validated_fast_path_fits_together [OF this(1-3) [folded hooks]] show ?thesis by (simp add: hooks)
qed

end
