(* ===== verification/Version.thy ===== *)
theory Version
  imports Config
begin

text \<open>
  \<open>internal/providers/unifi/version.go\<close>: what the console runs, against what this provider
  expects to work on, reported once at start-up over a bounded number of tries.
\<close>

definition min_supported_network_major :: int where "min_supported_network_major = 10"
definition first_unsupported_network_major :: int where "first_unsupported_network_major = 11"

datatype version_verdict = VersionUnknown | VersionSupported | VersionOlder | VersionNewer

definition before_dot :: "string \<Rightarrow> string" where
  "before_dot s = takeWhile (\<lambda>c. c \<noteq> CHR ''.'') s"

definition major_version :: "string \<Rightarrow> int option" where
  "major_version version =
     (let head = before_dot (trim_space version) in
      if head = [] then None
      else case atoi head of
        Inl e \<Rightarrow> None
      | Inr major \<Rightarrow> if major < 0 then None else Some major)"

definition classify_version :: "string \<Rightarrow> version_verdict \<times> int" where
  "classify_version version =
     (case major_version version of
        None \<Rightarrow> (VersionUnknown, 0)
      | Some major \<Rightarrow>
          if major < min_supported_network_major then (VersionOlder, major)
          else if first_unsupported_network_major \<le> major then (VersionNewer, major)
          else (VersionSupported, major))"

section \<open>Asking\<close>

definition version_check_attempts :: nat where "version_check_attempts = 3"
definition version_check_backoff :: duration where "version_check_backoff = 10 * second"

text \<open>\<open>Info\<close>: the answer of one request, \<open>None\<close> when nothing answered.\<close>

datatype info_answer = InfoNotSent string | InfoNoAnswer string | InfoStatus int "string + string"

definition controller_info :: "info_answer \<Rightarrow> string + string" where
  "controller_info x =
     (case x of
        InfoNotSent e \<Rightarrow> Inl e
      | InfoNoAnswer e \<Rightarrow> Inl (''reading unifi controller info: '' @ e)
      | InfoStatus status body \<Rightarrow>
          if status \<noteq> 200
          then Inl (''reading unifi controller info: unexpected status '' @ int_dec status)
          else (case body of
                  Inl e \<Rightarrow> Inl (''decoding unifi controller info: '' @ e)
                | Inr version \<Rightarrow> Inr version))"

text \<open>
  \<open>VersionGuard.Start\<close> over what each try is answered and whether the context ends in the
  wait before the next: the tries made, and the version reported, if any.
\<close>

datatype guard_end = Reported string version_verdict | GaveUp | Stopped | OutOfAnswers

fun guard_from :: "nat \<Rightarrow> (info_answer \<times> bool) list \<Rightarrow> nat \<times> guard_end" where
  "guard_from attempt [] = (attempt - 1, OutOfAnswers)"
| "guard_from attempt ((x, cancelled) # rest) =
     (case controller_info x of
        Inr version \<Rightarrow> (attempt, Reported version (fst (classify_version version)))
      | Inl e \<Rightarrow>
          if version_check_attempts \<le> attempt then (attempt, GaveUp)
          else if cancelled then (attempt, Stopped)
          else guard_from (attempt + 1) rest)"

definition version_guard :: "(info_answer \<times> bool) list \<Rightarrow> nat \<times> guard_end" where
  "version_guard xs = guard_from 1 xs"

lemma guard_from_tries:
  "n \<le> version_check_attempts \<Longrightarrow> fst (guard_from n xs) \<le> version_check_attempts"
  by (induction n xs rule: guard_from.induct) (auto split: sum.splits)

lemma guard_from_answered:
  "version_check_attempts < length xs + n \<Longrightarrow> n \<le> version_check_attempts \<Longrightarrow>
     snd (guard_from n xs) \<noteq> OutOfAnswers"
  by (induction n xs rule: guard_from.induct) (auto split: sum.splits)

text \<open>The check ends. However the console answers, the guard asks at most three times; given
  three answers it needs no fourth; and it reports the verdict of the first version it is
  told, \<open>supported\<close> exactly for the digits before the first dot being ten.\<close>

theorem version_guard_ends:
  "fst (version_guard xs) \<le> 3 \<and>
   snd (version_guard (x1 # x2 # x3 # rest)) \<noteq> OutOfAnswers \<and>
   (case controller_info (fst x1) of
      Inl e \<Rightarrow> True
    | Inr v \<Rightarrow> version_guard (x1 # xs) = (1, Reported v (fst (classify_version v)))) \<and>
   (fst (classify_version v) = VersionSupported) = (major_version v = Some 10)"
proof -
  have "fst (version_guard xs) \<le> 3"
    using guard_from_tries [of 1 xs] by (simp add: version_guard_def version_check_attempts_def)
  moreover have "snd (version_guard (x1 # x2 # x3 # rest)) \<noteq> OutOfAnswers"
    unfolding version_guard_def by (rule guard_from_answered) (simp_all add: version_check_attempts_def)
  moreover have "(fst (classify_version v) = VersionSupported) = (major_version v = Some 10)"
    by (auto simp: classify_version_def min_supported_network_major_def first_unsupported_network_major_def
        split: option.splits)
  ultimately show ?thesis by (cases x1) (simp add: version_guard_def split: sum.splits)
qed

end
