(* ===== verification/Adopt.thy ===== *)
theory Adopt
  imports Json GoText
begin

text \<open>
  \<open>internal/adopt/crd.go\<close>: handing a CustomResourceDefinition no Helm release owns over to
  the release that templates it. What the API server answers to the read and to the
  patch, what the manifest file holds and what the YAML decoder makes of it are
  arguments; the result is the patches sent and the error, if any.
\<close>

section \<open>Options and the chart's document\<close>

definition release_name_annotation :: string where "release_name_annotation = ''meta.helm.sh/release-name''"
definition release_namespace_annotation :: string where
  "release_namespace_annotation = ''meta.helm.sh/release-namespace''"
definition managed_by_label :: string where "managed_by_label = ''app.kubernetes.io/managed-by''"
definition managed_by_helm :: string where "managed_by_helm = ''Helm''"
definition crd_kind :: string where "crd_kind = ''CustomResourceDefinition''"

record adopt_options =
  ao_name :: string
  ao_release :: string
  ao_namespace :: string
  ao_manifest_path :: string

definition chart_annotations :: "jobj \<Rightarrow> jobj" where
  "chart_annotations document =
     (case map_of document ''metadata'' of
        Some (JObj metadata) \<Rightarrow> (case map_of metadata ''annotations'' of Some (JObj a) \<Rightarrow> a | _ \<Rightarrow> [])
      | _ \<Rightarrow> [])"

definition document_name :: "jobj \<Rightarrow> string" where
  "document_name document =
     (case map_of document ''metadata'' of
        Some (JObj metadata) \<Rightarrow> (case as_string (map_of metadata ''name'') of None \<Rightarrow> [] | Some n \<Rightarrow> n)
      | _ \<Rightarrow> [])"

text \<open>The loop over the documents of the manifest: each is an error of the decoder or an object.\<close>

fun chart_document_from :: "string \<Rightarrow> string \<Rightarrow> jobj option \<Rightarrow> (string + jobj) list \<Rightarrow> string + jobj" where
  "chart_document_from path name found [] =
     (case found of
        None \<Rightarrow> Inl (''the chart's CRD at '' @ path @ '' holds no CustomResourceDefinition'')
      | Some document \<Rightarrow> Inr document)"
| "chart_document_from path name found (Inl e # rest) = Inl (''parsing the chart's CRD at '' @ path @ '': '' @ e)"
| "chart_document_from path name found (Inr document # rest) =
     (if document = [] then chart_document_from path name found rest
      else (let kind = (case as_string (map_of document ''kind'') of None \<Rightarrow> [] | Some k \<Rightarrow> k) in
        if kind \<noteq> crd_kind
        then Inl (''the chart's CRD at '' @ path @ '' contains a '' @ quoted kind @ '', which this does not apply'')
        else if document_name document \<noteq> name
        then Inl (''the chart's CRD at '' @ path @ '' is named '' @ quoted (document_name document)
                  @ '', not the '' @ quoted name @ '' being adopted'')
        else if found \<noteq> None
        then Inl (''the chart's CRD at '' @ path @ '' holds more than one document'')
        else (case map_of document ''spec'' of
                Some (JObj spec) \<Rightarrow> chart_document_from path name (Some document) rest
              | _ \<Rightarrow> Inl (''the chart's CRD at '' @ path @ '' has no spec''))))"

text \<open>A file: it cannot be read, or the documents the decoder reads from it.\<close>

definition chart_document :: "(string \<Rightarrow> string + (string + jobj) list) \<Rightarrow> string \<Rightarrow> string \<Rightarrow> string + jobj" where
  "chart_document read_file path name =
     (case read_file path of
        Inl e \<Rightarrow> Inl (''reading the chart's CRD at '' @ path @ '': '' @ e)
      | Inr documents \<Rightarrow> chart_document_from path name None documents)"

section \<open>The patch\<close>

definition copy_entries :: "jobj \<Rightarrow> jobj \<Rightarrow> jobj" where
  "copy_entries entries into = fold (\<lambda>(k, v). gm_set k v) entries into"

definition owned_annotations :: "adopt_options \<Rightarrow> jobj \<Rightarrow> jobj" where
  "owned_annotations opts a =
     gm_set release_namespace_annotation (JStr (ao_namespace opts))
       (gm_set release_name_annotation (JStr (ao_release opts)) a)"

definition patch_metadata :: "jobj \<Rightarrow> jv" where
  "patch_metadata annotations =
     JObj [(''labels'', JObj [(managed_by_label, JStr managed_by_helm)]), (''annotations'', JObj annotations)]"

definition adoption_patch :: "(string \<Rightarrow> string + (string + jobj) list) \<Rightarrow> adopt_options \<Rightarrow> string + jobj" where
  "adoption_patch read_file opts =
     (if ao_manifest_path opts = [] then Inr [(''metadata'', patch_metadata (owned_annotations opts []))]
      else case chart_document read_file (ao_manifest_path opts) (ao_name opts) of
        Inl e \<Rightarrow> Inl e
      | Inr document \<Rightarrow>
          Inr [(''metadata'', patch_metadata (owned_annotations opts (copy_entries (chart_annotations document) []))),
               (''spec'', case map_of document ''spec'' of None \<Rightarrow> JNull | Some spec \<Rightarrow> spec)])"

section \<open>Adopting\<close>

datatype live_crd = CrdMissing | CrdUnreadable string | CrdFound "(string \<times> string) list"

definition adopt_crd :: "(string \<Rightarrow> string + (string + jobj) list) \<Rightarrow> adopt_options \<Rightarrow> live_crd \<Rightarrow>
    (jobj \<Rightarrow> string option) \<Rightarrow> jobj list \<times> string option" where
  "adopt_crd read_file opts live answer =
     (if ao_name opts = [] \<or> ao_release opts = [] \<or> ao_namespace opts = []
      then ([], Some (''the CRD name, release name and release namespace are all required; ''
                      @ ''the chart renders them from the release being installed''))
      else case live of
        CrdMissing \<Rightarrow> ([], None)
      | CrdUnreadable e \<Rightarrow> ([], Some (''reading the CustomResourceDefinition '' @ quoted (ao_name opts) @ '': '' @ e))
      | CrdFound annotations \<Rightarrow>
          (let owner = gm_get annotations release_name_annotation;
               owner_namespace = gm_get annotations release_namespace_annotation in
           if owner \<noteq> [] \<and> owner = ao_release opts \<and> owner_namespace = ao_namespace opts then ([], None)
           else if owner \<noteq> []
           then ([], Some (''the CustomResourceDefinition '' @ quoted (ao_name opts) @ '' belongs to the Helm release ''
                   @ quoted owner @ '' in namespace '' @ quoted owner_namespace
                   @ '', not to '' @ quoted (ao_release opts) @ '' in namespace '' @ quoted (ao_namespace opts)
                   @ ''; refusing to take it from that release. Install with crds.install=false ''
                   @ ''to leave the CRD to whoever owns it, or crds.adopt=false to hand it over yourself''))
           else case adoption_patch read_file opts of
             Inl e \<Rightarrow> ([], Some e)
           | Inr patch \<Rightarrow>
               ([patch], case answer patch of
                  None \<Rightarrow> None
                | Some e \<Rightarrow> Some (''adopting the CustomResourceDefinition '' @ quoted (ao_name opts)
                                   @ '' into the release '' @ quoted (ao_release opts) @ '': '' @ e))))"

section \<open>What adoption does to the object\<close>

text \<open>The annotations an object has after a merge patch: a string replaces, anything else deletes.\<close>

definition merge_annotation :: "string \<times> jv \<Rightarrow> (string \<times> string) list \<Rightarrow> (string \<times> string) list" where
  "merge_annotation e m = (case snd e of JStr v \<Rightarrow> gm_set (fst e) v m | _ \<Rightarrow> gm_del (fst e) m)"

definition patch_annotations_of :: "jobj \<Rightarrow> jobj" where
  "patch_annotations_of patch =
     (case map_of patch ''metadata'' of
        Some (JObj metadata) \<Rightarrow> (case map_of metadata ''annotations'' of Some (JObj a) \<Rightarrow> a | _ \<Rightarrow> [])
      | _ \<Rightarrow> [])"

definition adopted_annotations :: "jobj \<Rightarrow> (string \<times> string) list \<Rightarrow> (string \<times> string) list" where
  "adopted_annotations patch live = fold merge_annotation (patch_annotations_of patch) live"

lemma merge_annotations_at:
  "gm_wf a \<Longrightarrow> map_of (fold merge_annotation a live) k =
     (case map_of a k of None \<Rightarrow> map_of live k | Some (JStr v) \<Rightarrow> Some v | Some _ \<Rightarrow> None)"
proof (induction a arbitrary: live)
  case (Cons e a)
  have "map_of (merge_annotation e live) k =
      (if k = fst e then (case snd e of JStr v \<Rightarrow> Some v | _ \<Rightarrow> None) else map_of live k)"
    by (simp add: merge_annotation_def split: jv.split)
  moreover have "map_of a (fst e) = None" using Cons.prems by (cases e) (auto simp: map_of_eq_None_iff)
  ultimately show ?case using Cons by (cases e) (auto split: option.splits jv.splits)
qed simp

lemma copy_entries_wf: "gm_wf into \<Longrightarrow> gm_wf (copy_entries entries into)"
  unfolding copy_entries_def by (induction entries arbitrary: into) auto

lemma patch_annotations:
  assumes "adoption_patch read_file opts = Inr patch"
  shows "\<exists>a. gm_wf a \<and> patch_annotations_of patch = owned_annotations opts a"
proof (cases "ao_manifest_path opts = []")
  case True
  then show ?thesis using assms
    by (intro exI [of _ "[]"]) (auto simp: adoption_patch_def patch_annotations_of_def patch_metadata_def)
next
  case False
  then obtain document where "patch_annotations_of patch = owned_annotations opts (copy_entries (chart_annotations document) [])"
    using assms by (auto simp: adoption_patch_def patch_annotations_of_def patch_metadata_def split: sum.splits)
  then show ?thesis using False copy_entries_wf [of "[]"] by auto
qed

lemma annotation_names: "release_name_annotation \<noteq> release_namespace_annotation"
  by (simp add: release_name_annotation_def release_namespace_annotation_def)

lemma patch_owner:
  assumes "adoption_patch read_file opts = Inr patch"
  shows "gm_get (adopted_annotations patch live) release_name_annotation = ao_release opts"
    and "gm_get (adopted_annotations patch live) release_namespace_annotation = ao_namespace opts"
  using patch_annotations [OF assms] annotation_names
  by (auto simp: gm_get_def adopted_annotations_def merge_annotations_at owned_annotations_def)

lemma chart_document_sound:
  "chart_document_from path name found ds = Inr document \<Longrightarrow>
     (case found of None \<Rightarrow> Inr document \<in> set ds | Some f \<Rightarrow> document = f) \<and>
     (found = None \<longrightarrow> as_string (map_of document ''kind'') = Some crd_kind \<and> document_name document = name \<and>
        (\<exists>spec. map_of document ''spec'' = Some (JObj spec)))"
proof (induction path name found ds rule: chart_document_from.induct)
  case (3 path name found doc rest)
  then show ?case
    by (auto simp: Let_def crd_kind_def split: if_splits option.splits jv.splits)
qed (auto split: option.splits)

lemma patch_spec:
  assumes "adoption_patch read_file opts = Inr patch"
  shows "case map_of patch ''spec'' of
      None \<Rightarrow> ao_manifest_path opts = []
    | Some spec \<Rightarrow> (\<exists>document. map_of document ''spec'' = Some spec \<and>
        as_string (map_of document ''kind'') = Some crd_kind \<and> document_name document = ao_name opts)"
proof (cases "ao_manifest_path opts = []")
  case False
  then obtain document where d: "chart_document read_file (ao_manifest_path opts) (ao_name opts) = Inr document"
    and p: "map_of patch ''spec'' = Some (case map_of document ''spec'' of None \<Rightarrow> JNull | Some s \<Rightarrow> s)"
    using assms by (auto simp: adoption_patch_def split: sum.splits)
  obtain ds where "chart_document_from (ao_manifest_path opts) (ao_name opts) None ds = Inr document"
    using d by (auto simp: chart_document_def split: sum.splits)
  from chart_document_sound [OF this] show ?thesis
    unfolding p by (auto intro!: exI [of _ document])
qed (use assms in \<open>auto simp: adoption_patch_def\<close>)

text \<open>C34: Adoption takes only what nobody owns. At most one patch is sent, and only for an object the
  read found carrying no release name; whatever the chart's manifest says, the patched
  object belongs to exactly the release and namespace asked for, and the spec it is given
  is that of a CRD of the name the manifest holds; a second run on the patched object
  sends nothing and succeeds; and success without a patch means there was no object or
  it is this release's already.\<close>

theorem adoption_takes_only_the_unowned:
  "case adopt_crd read_file opts live answer of
     ([], None) \<Rightarrow> live = CrdMissing \<or> (\<exists>a. live = CrdFound a \<and>
        gm_get a release_name_annotation = ao_release opts \<and> gm_get a release_namespace_annotation = ao_namespace opts)
   | ([], Some e) \<Rightarrow> True
   | ([patch], e) \<Rightarrow> (\<exists>a. live = CrdFound a \<and> gm_get a release_name_annotation = [] \<and> (e = None) = (answer patch = None) \<and>
        gm_get (adopted_annotations patch a) release_name_annotation = ao_release opts \<and>
        gm_get (adopted_annotations patch a) release_namespace_annotation = ao_namespace opts \<and>
        (case map_of patch ''spec'' of
           None \<Rightarrow> ao_manifest_path opts = []
         | Some spec \<Rightarrow> (\<exists>document. map_of document ''spec'' = Some spec \<and>
             as_string (map_of document ''kind'') = Some crd_kind \<and> document_name document = ao_name opts)) \<and>
        adopt_crd read_file opts (CrdFound (adopted_annotations patch a)) answer = ([], None))
   | _ \<Rightarrow> False"
proof (cases "ao_name opts = [] \<or> ao_release opts = [] \<or> ao_namespace opts = []")
  case False
  then have given: "ao_name opts \<noteq> []" "ao_release opts \<noteq> []" "ao_namespace opts \<noteq> []" by auto
  show ?thesis
  proof (cases live)
    case (CrdFound a)
    show ?thesis
    proof (cases "gm_get a release_name_annotation = []")
      case True
      show ?thesis
      proof (cases "adoption_patch read_file opts")
        case (Inr patch)
        have sent: "adopt_crd read_file opts live answer = ([patch], case answer patch of None \<Rightarrow> None
            | Some e \<Rightarrow> Some (''adopting the CustomResourceDefinition '' @ quoted (ao_name opts)
                @ '' into the release '' @ quoted (ao_release opts) @ '': '' @ e))"
          using given True CrdFound Inr by (simp add: adopt_crd_def Let_def)
        have "adopt_crd read_file opts (CrdFound (adopted_annotations patch a)) answer = ([], None)"
          using given patch_owner [OF Inr] by (simp add: adopt_crd_def Let_def)
        then show ?thesis
          using True CrdFound patch_owner [OF Inr] patch_spec [OF Inr] unfolding sent by (auto split: option.split)
      qed (use given True CrdFound in \<open>simp add: adopt_crd_def Let_def\<close>)
    qed (use given CrdFound in \<open>simp add: adopt_crd_def Let_def\<close>)
  qed (use given in \<open>simp_all add: adopt_crd_def\<close>)
qed (simp add: adopt_crd_def)

end
