(* ===== verification/Wiring.thy ===== *)
theory Wiring
  imports Receiver Version Release Adopt
begin

text \<open>
  \<open>cmd/main.go\<close>: what start-up decides from the environment. The manager, its caches and its
  flags are wiring; what is kept is which parts are built, from what, and which faults
  end the process instead.
\<close>

section \<open>Debounce\<close>

definition env_debounce_default :: string where "env_debounce_default = ''UNIFI_DEBOUNCE_DEFAULT''"
definition env_debounce_keys :: string where "env_debounce_keys = ''UNIFI_DEBOUNCE_KEYS''"
definition env_allowed_destinations :: string where
  "env_allowed_destinations = ''REACTOR_ACTION_ALLOWED_DESTINATIONS''"
definition env_watch_namespace :: string where "env_watch_namespace = ''WATCH_NAMESPACE''"

fun debounce_pairs :: "string list \<Rightarrow> debounce_config \<Rightarrow> string + debounce_config" where
  "debounce_pairs [] cfg = Inr cfg"
| "debounce_pairs (raw # rest) cfg =
     (let pair = trim_space raw in
      if pair = [] then debounce_pairs rest cfg
      else case cut_at CHR ''='' pair of
        None \<Rightarrow> Inl (''UNIFI_DEBOUNCE_KEYS '' @ quoted pair @ '' is not key=samples'')
      | Some (key, n) \<Rightarrow>
          (case atoi (trim_space n) of
             Inl e \<Rightarrow> Inl (''UNIFI_DEBOUNCE_KEYS '' @ quoted pair @ '': '' @ e)
           | Inr samples \<Rightarrow>
               debounce_pairs rest (cfg\<lparr>db_per_key := gm_set (trim_space key) samples (db_per_key cfg)\<rparr>)))"

definition debounce_default :: "env \<Rightarrow> string + int" where
  "debounce_default lookup =
     (let raw = lookup env_debounce_default in
      if raw = [] then Inr 1
      else case atoi raw of
        Inl e \<Rightarrow> Inl (''UNIFI_DEBOUNCE_DEFAULT '' @ quoted raw @ '': '' @ e)
      | Inr samples \<Rightarrow> Inr samples)"

definition unifi_debounce :: "env \<Rightarrow> string + debounce_config" where
  "unifi_debounce lookup =
     bindE (debounce_default lookup) (\<lambda>n.
       debounce_pairs (split_on CHR '','' (lookup env_debounce_keys)) \<lparr>db_default = n, db_per_key = []\<rparr>)"

definition policy_from_env :: "url_lib \<Rightarrow> env \<Rightarrow> string + policy" where
  "policy_from_env lib lookup = parse_policy lib (split_on CHR '','' (lookup env_allowed_destinations))"

definition watch_namespace :: "env \<Rightarrow> string" where
  "watch_namespace lookup = trim_space (lookup env_watch_namespace)"

section \<open>The provider's parts\<close>

text \<open>
  What \<open>setupUniFi\<close> adds to the manager: the version guard and the poller always, the
  receiver and the registrar as the webhook configuration has it, and the writer.
\<close>

record unifi_parts =
  up_client :: unifi_client
  up_interval :: duration
  up_min_observe_interval :: duration
  up_receiver :: "receiver option"
  up_registrar :: "alarm_registrar option"
  up_writer :: console_writer

text \<open>The parsers outside the repository, together.\<close>

record start_lib =
  sl_env :: env_lib
  sl_url :: url_lib
  sl_ip :: "string \<Rightarrow> addr option"
  sl_show :: "addr \<Rightarrow> string"

definition setup_unifi :: "start_lib \<Rightarrow> config \<Rightarrow> string + unifi_parts" where
  "setup_unifi lib cfg =
     (let fast = webhook_validate (sl_url lib) (sl_ip lib) (sl_show lib) (cg_webhook cfg) = None \<and>
                 wh_enabled (cg_webhook cfg) in
      bindE (new_writer cfg) (\<lambda>writer.
        Inr \<lparr>up_client = client_of cfg, up_interval = cg_poll_interval cfg,
             up_min_observe_interval = wh_min_observe_interval (cg_webhook cfg),
             up_receiver = (if fast then Some (new_receiver (cg_webhook cfg)) else None),
             up_registrar = (if fast \<and> wh_register (cg_webhook cfg) then Some (new_alarm_registrar cfg) else None),
             up_writer = writer\<rparr>))"

section \<open>Start-up\<close>

datatype startup_failure =
    InvalidDebounce string
  | UnifiUnconfigured string
  | UnifiNotSetUp string
  | InvalidOutbound string

record operator =
  op_store :: state_store
  op_unifi :: "unifi_parts option"
  op_policy :: policy

definition in_case :: "('e \<Rightarrow> 'f) \<Rightarrow> 'e + 'a \<Rightarrow> 'f + 'a" where
  "in_case f x = (case x of Inl e \<Rightarrow> Inl (f e) | Inr a \<Rightarrow> Inr a)"

definition start_parts :: "start_lib \<Rightarrow> config option \<Rightarrow> startup_failure + unifi_parts option" where
  "start_parts lib cfg =
     (case cfg of
        None \<Rightarrow> Inr None
      | Some c \<Rightarrow> bindE (in_case UnifiNotSetUp (setup_unifi lib c)) (\<lambda>parts. Inr (Some parts)))"

definition start_operator :: "start_lib \<Rightarrow> env \<Rightarrow> startup_failure + operator" where
  "start_operator lib lookup =
     bindE (in_case InvalidDebounce (unifi_debounce lookup)) (\<lambda>debounce.
     bindE (in_case UnifiUnconfigured (config_from_env (sl_env lib) lookup)) (\<lambda>cfg.
     bindE (start_parts lib cfg) (\<lambda>parts.
     bindE (in_case InvalidOutbound (policy_from_env (sl_url lib) lookup)) (\<lambda>policy.
       Inr \<lparr>op_store = new_state_store [with_debounce provider_unifi debounce,
                with_stale_after provider_unifi (case cfg of None \<Rightarrow> 0 | Some c \<Rightarrow> cg_max_observation_age c)],
            op_unifi = parts, op_policy = policy\<rparr>))))"

section \<open>The three ways to run\<close>

text \<open>Of the flags, those that decide more than an address or a certificate.\<close>

record start_flags =
  fl_adopt_crd :: bool
  fl_crd_manifest :: string
  fl_release_claims :: bool
  fl_dry_run :: bool
  fl_detect_hpa :: bool

definition crd_name :: string where "crd_name = ''automations.reactor.robbeverhelst.com''"

definition adopt_options_from_env :: "string \<Rightarrow> env \<Rightarrow> adopt_options" where
  "adopt_options_from_env manifest lookup =
     \<lparr>ao_name = crd_name, ao_release = lookup ''RELEASE_NAME'', ao_namespace = lookup ''RELEASE_NAMESPACE'',
      ao_manifest_path = manifest\<rparr>"

definition release_options_from_env :: "env \<Rightarrow> release_options" where
  "release_options_from_env lookup =
     \<lparr>ro_namespace = watch_namespace lookup, ro_manager_name = lookup ''MANAGER_DEPLOYMENT'',
      ro_manager_namespace = lookup ''MANAGER_NAMESPACE'', ro_stop_timeout = 0\<rparr>"

definition reconciler_of :: "start_flags \<Rightarrow> operator \<Rightarrow> reconciler" where
  "reconciler_of flags op =
     \<lparr>rc_dry_run = fl_dry_run flags, rc_detect_hpa = fl_detect_hpa flags,
      rc_outbound = Some (\<not> policy_empty (op_policy op)), rc_console = (op_unifi op \<noteq> None), rc_recorder = True\<rparr>"

datatype run_mode =
    AdoptsCrd adopt_options
  | ReleasesClaims release_options
  | Operates reconciler operator
  | FailsToStart startup_failure

definition main_mode :: "start_lib \<Rightarrow> start_flags \<Rightarrow> env \<Rightarrow> run_mode" where
  "main_mode lib flags lookup =
     (if fl_adopt_crd flags then AdoptsCrd (adopt_options_from_env (fl_crd_manifest flags) lookup)
      else if fl_release_claims flags then ReleasesClaims (release_options_from_env lookup)
      else case start_operator lib lookup of
        Inl e \<Rightarrow> FailsToStart e
      | Inr op \<Rightarrow> Operates (reconciler_of flags op) op)"

end
