(* ===== verification/ConsoleOutlet.thy ===== *)
theory ConsoleOutlet
  imports ConsoleWrite
begin

text \<open>
  Switching one outlet of a UPS, and \<open>Apply\<close>, the whole of a console action:
  \<open>internal/providers/unifi/write.go\<close>.
\<close>

section \<open>Outlets\<close>

definition check_outlet :: "(rat \<Rightarrow> int) \<Rightarrow> string \<Rightarrow> outlet \<Rightarrow> jobj \<Rightarrow> bool \<Rightarrow> string option" where
  "check_outlet wild mac u found allow_battery =
     (let place = ''outlet '' @ int_dec (ou_index u) @ '' on '' @ mac in
      case as_string (map_of found field_outlet_name) of
        None \<Rightarrow> Some (place @ '' reports no name to check against '' @ quoted (ou_name u)
          @ ''; refusing to switch an '' @ ''outlet whose identity cannot be confirmed'')
      | Some name \<Rightarrow>
          if name \<noteq> ou_name u
          then Some (place @ '' is called '' @ quoted name @ '', not '' @ quoted (ou_name u)
            @ ''; refusing to switch it. ''
            @ ''If what is plugged in changed, change the automation and the allowlist to match rather ''
            @ ''than the other way round'')
          else case decode_index wild (map_of found field_outlet_caps) of
            None \<Rightarrow> Some (place @ '' does not report '' @ field_outlet_caps
              @ '', so Reactor cannot tell whether it is ''
              @ ''battery-backed; refusing to switch it. A guard that silently stops applying is worse ''
              @ ''than one that declines'')
          | Some caps \<Rightarrow>
              if caps AND outlet_cap_battery_backed \<noteq> 0 \<and> \<not> allow_battery
              then Some (place @ '' is battery-backed, and this install has not allowed the ''
                @ ''battery-backed bank; it is refused whatever is in the allowlist. Cutting one of these ''
                @ ''during a power cut is the most damaging thing Reactor can do. If shedding it is exactly ''
                @ ''what you mean '' @ em_dash @ '' and to extend runtime it has to be, since a surge-only outlet is already ''
                @ ''dark when the mains are '' @ em_dash @ '' set unifi.actions.allowBatteryBackedOutlets'')
              else None)"

text \<open>The loop over the overrides: the entries as they are to be sent, and whether the outlet was among them.\<close>

fun rewrite_entries :: "(rat \<Rightarrow> int) \<Rightarrow> outlet \<Rightarrow> bool \<Rightarrow> jv list \<Rightarrow> string + jv list \<times> bool" where
  "rewrite_entries wild u want [] = Inr ([], False)"
| "rewrite_entries wild u want (x # xs) =
     (case as_object x of
        None \<Rightarrow> Inl (''the '' @ field_outlet_overrides @ '' array carries an entry that is not an outlet; refusing to ''
          @ ''send back a document this action does not understand'')
      | Some override \<Rightarrow>
          (case decode_index wild (map_of override field_outlet_index) of
             None \<Rightarrow> Inl (''an entry in '' @ field_outlet_overrides @ '' reports no '' @ field_outlet_index
               @ '', so Reactor cannot tell which outlet '' @ ''it is; refusing to write'')
           | Some index \<Rightarrow>
               if index \<noteq> ou_index u
               then (case rewrite_entries wild u want xs of
                       Inl e \<Rightarrow> Inl e
                     | Inr (ys, addressed) \<Rightarrow> Inr (JObj override # ys, addressed))
               else case as_string (map_of override field_outlet_name) of
                 None \<Rightarrow> (case rewrite_entries wild u want xs of
                       Inl e \<Rightarrow> Inl e
                     | Inr (ys, addressed) \<Rightarrow> Inr (JObj (gm_set field_relay_state (JBool want) override) # ys, True))
               | Some name \<Rightarrow>
                   if name \<noteq> ou_name u
                   then Inl (''outlet '' @ int_dec (ou_index u) @ '' is called '' @ quoted name @ '' in ''
                     @ field_outlet_overrides @ '' and '' @ quoted (ou_name u) @ '' in '' @ field_outlet_table
                     @ ''; the two disagree '' @ ''about which outlet this is, so nothing is written'')
                   else (case rewrite_entries wild u want xs of
                       Inl e \<Rightarrow> Inl e
                     | Inr (ys, addressed) \<Rightarrow> Inr (JObj (gm_set field_relay_state (JBool want) override) # ys, True))))"

definition rewrite_outlet_overrides :: "(rat \<Rightarrow> int) \<Rightarrow> jv option \<Rightarrow> outlet \<Rightarrow> bool \<Rightarrow> string + jv list" where
  "rewrite_outlet_overrides wild raw u want =
     (let absent = Inl (''the ups reports no '' @ field_outlet_overrides
            @ '' to change, and Reactor will not compose one: ''
            @ ''a document it invented would state a position for every outlet rather than for the one ''
            @ ''addressed'') in
      case as_array raw of
        None \<Rightarrow> absent
      | Some entries \<Rightarrow>
          if entries = [] then absent
          else case rewrite_entries wild u want entries of
            Inl e \<Rightarrow> Inl e
          | Inr (rewritten, addressed) \<Rightarrow>
              if \<not> addressed
              then Inl (''the ups reports '' @ field_outlet_overrides @ '' but no entry in it for outlet ''
                @ int_dec (ou_index u) @ ''; refusing to add ''
                @ ''one, because an outlet the console does not already override is not one this action can ''
                @ ''reason about'')
              else Inr rewritten)"

definition verify_outlet :: "(rat \<Rightarrow> int) \<Rightarrow> string \<Rightarrow> outlet \<Rightarrow> string \<Rightarrow> bool \<Rightarrow> jv \<Rightarrow> string + unit" where
  "verify_outlet wild mac u did want updated =
     (case find_object_with field_device_id did [field_outlet_overrides] updated of
        None \<Rightarrow> Inr ()
      | Some stored \<Rightarrow>
          (case object_by_index wild (map_of stored field_outlet_overrides) field_outlet_index (ou_index u) of
             None \<Rightarrow> Inr ()
           | Some entry \<Rightarrow>
               (case as_bool (map_of entry field_relay_state) of
                  None \<Rightarrow> Inr ()
                | Some got \<Rightarrow>
                    if got \<noteq> want
                    then Inl (''the console accepted the write but still reports outlet '' @ int_dec (ou_index u)
                      @ '' on '' @ mac @ '' '' @ ''as '' @ field_relay_state @ ''='' @ format_bool got)
                    else Inr ())))"

text \<open>The outlet has been found and checked: its position, the overrides to send, the write.\<close>

definition write_outlet :: "(rat \<Rightarrow> int) \<Rightarrow> console_writer \<Rightarrow> string \<Rightarrow> string \<Rightarrow> outlet \<Rightarrow> bool \<Rightarrow> jobj \<Rightarrow> jobj \<Rightarrow>
    (string + unit) console" where
  "write_outlet wild w csrf mac u want device found =
     (let unusable = CRet (Inl (''the ups '' @ mac @ '' carries no usable '' @ field_device_id
            @ ''; refusing to guess at its address'')) in
      case as_string (map_of device field_device_id) of
        None \<Rightarrow> unusable
      | Some did \<Rightarrow>
          if did = [] then unusable
          else case as_bool (map_of found field_relay_state) of
            None \<Rightarrow> CRet (Inl (''outlet '' @ int_dec (ou_index u) @ '' on '' @ mac @ '' does not report ''
              @ field_relay_state @ '' as a boolean, so Reactor cannot tell ''
              @ ''which way it is set; refusing to write a position over one it cannot read''))
          | Some position \<Rightarrow>
              if position = want then CRet (Inr ())
              else case rewrite_outlet_overrides wild (map_of device field_outlet_overrides) u want of
                Inl e \<Rightarrow> CRet (Inl e)
              | Inr overrides \<Rightarrow>
                  cbindR (console_do csrf method_put (network_path w rest_device_endpoint @ ''/'' @ path_escape did)
                    (Some (JObj [(field_outlet_overrides, JArr overrides)])))
                  (\<lambda>updated. CRet (verify_outlet wild mac u did want updated)))"

definition set_outlet_relay :: "(rat \<Rightarrow> int) \<Rightarrow> console_writer \<Rightarrow> string \<Rightarrow> outlet \<Rightarrow> bool \<Rightarrow> (string + unit) console" where
  "set_outlet_relay wild w csrf u want =
     (let mac = normalize_mac (ou_device u) in
      cbindR (console_do csrf method_get (network_path w device_stat_endpoint) None) (\<lambda>devices.
        case find_object_with field_mac mac [field_outlet_table, field_outlet_overrides] devices of
          None \<Rightarrow> CRet (Inl (''no device with mac '' @ mac @ '' reporting both '' @ field_outlet_table @ '' and ''
            @ field_outlet_overrides @ '' on site '' @ quoted (cw_site w) @ ''; ''
            @ ''a ups that reports outlets but no overrides has nothing this action can write''))
        | Some device \<Rightarrow>
            (case object_by_index wild (map_of device field_outlet_table) field_outlet_index (ou_index u) of
               None \<Rightarrow> CRet (Inl (''device '' @ mac @ '' has no outlet '' @ int_dec (ou_index u)))
             | Some found \<Rightarrow>
                 (case check_outlet wild mac u found (wp_battery (cw_policy w)) of
                    Some e \<Rightarrow> CRet (Inl e)
                  | None \<Rightarrow> write_outlet wild w csrf mac u want device found))))"

section \<open>A whole action\<close>

definition console_logout :: "string \<Rightarrow> unit console" where
  "console_logout csrf = cbind (console_do csrf method_post logout_path None) (\<lambda>_. CRet ())"

definition console_dispatch :: "(rat \<Rightarrow> int) \<Rightarrow> console_writer \<Rightarrow> string \<Rightarrow> action \<Rightarrow> (string + unit) console" where
  "console_dispatch wild w csrf a =
     (if ac_type a = type_wlan_enable
      then (case ac_wlan a of None \<Rightarrow> CRet (Inl nil_dereference) | Some n \<Rightarrow> set_wlan_enabled w csrf (wl_name n) True)
      else if ac_type a = type_wlan_disable
      then (case ac_wlan a of None \<Rightarrow> CRet (Inl nil_dereference) | Some n \<Rightarrow> set_wlan_enabled w csrf (wl_name n) False)
      else if ac_type a = type_poe_cycle
      then (case ac_poe a of None \<Rightarrow> CRet (Inl nil_dereference) | Some p \<Rightarrow> cycle_poe_port wild w csrf p)
      else if ac_type a = type_outlet_cut
      then (case ac_outlet a of None \<Rightarrow> CRet (Inl nil_dereference) | Some u \<Rightarrow> set_outlet_relay wild w csrf u False)
      else if ac_type a = type_outlet_restore
      then (case ac_outlet a of None \<Rightarrow> CRet (Inl nil_dereference) | Some u \<Rightarrow> set_outlet_relay wild w csrf u True)
      else CRet (Inl (no_executor (ac_type a))))"

text \<open>
  \<open>Apply\<close>. The time limit of the exchange is an answer of the transport. The logout is
  deferred: it follows the action whatever came of it.
\<close>

definition console_apply :: "(rat \<Rightarrow> int) \<Rightarrow> (string \<Rightarrow> string option) \<Rightarrow> console_writer \<Rightarrow> action \<Rightarrow>
    (action_result \<times> string option) console" where
  "console_apply wild claim w a =
     (case describe_console_target a of
        Inl e \<Rightarrow> CRet (\<lparr>ar_origin = [], ar_status = 0, ar_attempts = 0\<rparr>, Some e)
      | Inr origin \<Rightarrow>
          (let result = \<lparr>ar_origin = origin, ar_status = 0, ar_attempts = 1\<rparr> in
           if write_policy_empty (cw_policy w)
           then CRet (result, Some
             (''console actions are disabled on this install: nothing is allowed, so this action was refused. ''
              @ ''Set unifi.actions.allowedWlans, unifi.actions.allowedPoePorts or ''
              @ ''unifi.actions.allowedOutlets to the objects Reactor may change''))
           else if \<not> credentialed w
           then CRet (result, Some
             (''writing to the console needs UniFi OS console credentials (UNIFI_USERNAME and UNIFI_PASSWORD); ''
              @ ''the API key the poller reads state with does not work on the write path''))
           else case console_check (cw_policy w) a of
             Some e \<Rightarrow> CRet (result, Some e)
           | None \<Rightarrow>
               cbind (console_login claim (cw_username w) (cw_password w)) (\<lambda>session. case session of
                 Inl e \<Rightarrow> CRet (result, Some e)
               | Inr csrf \<Rightarrow>
                   cbind (console_dispatch wild w csrf a) (\<lambda>d.
                   cbind (console_logout csrf) (\<lambda>_.
                     CRet (result, (case d of Inl e \<Rightarrow> Some e | Inr _ \<Rightarrow> None)))))))"

end
