(* ===== verification/ConsoleSafety.thy ===== *)
theory ConsoleSafety
  imports ConsoleOutlet
begin

text \<open>
  What a console action may do to the console, over every conversation it can have with
  it: the shape of the exchange, and for each kind of write what must have been agreed
  by the operator, the Automation and the console itself before it is sent.
\<close>

section \<open>The overrides\<close>

text \<open>The entries the write addresses, and how they are sent back.\<close>

definition addresses :: "(rat \<Rightarrow> int) \<Rightarrow> outlet \<Rightarrow> jv \<Rightarrow> bool" where
  "addresses wild u x = (\<exists>ps. x = JObj ps \<and> decode_index wild (map_of ps field_outlet_index) = Some (ou_index u))"

definition switched :: "bool \<Rightarrow> jv \<Rightarrow> jv" where
  "switched want x = (case x of JObj ps \<Rightarrow> JObj (gm_set field_relay_state (JBool want) ps) | _ \<Rightarrow> x)"

text \<open>An entry that can be read, and that does not call the addressed outlet something else.\<close>

definition sound_entry :: "(rat \<Rightarrow> int) \<Rightarrow> outlet \<Rightarrow> jv \<Rightarrow> bool" where
  "sound_entry wild u x = (\<exists>ps. x = JObj ps \<and> decode_index wild (map_of ps field_outlet_index) \<noteq> None \<and>
     (\<not> addresses wild u x \<or> as_string (map_of ps field_outlet_name) \<in> {None, Some (ou_name u)}))"

lemma sound_entry_cases:
  assumes "as_object x = Some ps" and "decode_index wild (map_of ps field_outlet_index) = Some i"
  shows "addresses wild u x \<longleftrightarrow> i = ou_index u"
    and "sound_entry wild u x \<longleftrightarrow> i \<noteq> ou_index u \<or> as_string (map_of ps field_outlet_name) \<in> {None, Some (ou_name u)}"
    and "switched want x = JObj (gm_set field_relay_state (JBool want) ps)"
  using assms by (auto simp: addresses_def sound_entry_def switched_def)

lemma unsound_entry:
  "as_object x = None \<Longrightarrow> \<not> sound_entry wild u x"
  "as_object x = Some ps \<Longrightarrow> decode_index wild (map_of ps field_outlet_index) = None \<Longrightarrow> \<not> sound_entry wild u x"
  by (auto simp: sound_entry_def as_object_def split: jv.splits)

lemma rewrite_entries_spec:
  "case rewrite_entries wild u want xs of
     Inl e \<Rightarrow> \<not> list_all (sound_entry wild u) xs
   | Inr r \<Rightarrow> list_all (sound_entry wild u) xs \<and>
       r = (map (\<lambda>x. if addresses wild u x then switched want x else x) xs, list_ex (addresses wild u) xs)"
proof (induction xs)
  case (Cons x xs)
  show ?case
  proof (cases "as_object x")
    case (Some ps)
    show ?thesis
    proof (cases "decode_index wild (map_of ps field_outlet_index)")
      case (Some i)
      note entry = sound_entry_cases [OF \<open>as_object x = Some ps\<close> Some]
      have x: "x = JObj ps" using \<open>as_object x = Some ps\<close> by simp
      show ?thesis
        using Cons.IH unfolding rewrite_entries.simps \<open>as_object x = Some ps\<close> Some option.case x [symmetric]
        by (cases "rewrite_entries wild u want xs"; cases "i = ou_index u";
            cases "as_string (map_of ps field_outlet_name)") (auto simp: entry)
    qed (simp add: Some unsound_entry(2))
  qed (simp add: unsound_entry(1))
qed simp

text \<open>
  The write is composed exactly when the console reported a list of readable entries of
  which at least one addresses the outlet and none calls that outlet by another name;
  then it is that list, in its order, with \<open>relay_state\<close> set in every entry of the
  outlet's index and nothing else changed in any.
\<close>

lemma rewrite_outlet_overrides_iff:
  "rewrite_outlet_overrides wild raw u want = Inr ys \<longleftrightarrow>
    (\<exists>xs. raw = Some (JArr xs) \<and> list_all (sound_entry wild u) xs \<and> list_ex (addresses wild u) xs \<and>
       ys = map (\<lambda>x. if addresses wild u x then switched want x else x) xs)"
proof (cases "as_array raw")
  case None
  then show ?thesis
    unfolding rewrite_outlet_overrides_def Let_def by (auto simp: as_array_def split: option.splits jv.splits)
next
  case (Some xs)
  have body: "rewrite_outlet_overrides wild raw u want = Inr ys \<longleftrightarrow> xs \<noteq> [] \<and>
      (case rewrite_entries wild u want xs of Inl e \<Rightarrow> False | Inr (r, addressed) \<Rightarrow> addressed \<and> r = ys)"
    unfolding rewrite_outlet_overrides_def Let_def Some option.case
    by (auto split: sum.splits prod.splits)
  show ?thesis
    using rewrite_entries_spec [where wild = wild and u = u and want = want and xs = xs] Some
    unfolding body by (cases "rewrite_entries wild u want xs") auto
qed

section \<open>What is agreed before a write\<close>

definition request_of :: "string \<Rightarrow> string \<Rightarrow> string \<Rightarrow> jv option \<Rightarrow> console_request" where
  "request_of csrf http_method path body =
     \<lparr>cq_method = http_method, cq_path = path, cq_body = body, cq_csrf = csrf\<rparr>"

text \<open>
  A wireless network: the console lists one of the name, with an id, in the other state,
  and is sent that very record with the one field changed.
\<close>

definition wlan_agreed :: "console_writer \<Rightarrow> string \<Rightarrow> wlan \<Rightarrow> bool \<Rightarrow> jv \<Rightarrow> console_request \<Rightarrow> bool" where
  "wlan_agreed w csrf n want listed q =
     (\<exists>found wid. inside (JObj found) listed \<and> map_of found field_wlan_name = Some (JStr (wl_name n)) \<and>
        map_of found field_wlan_id = Some (JStr wid) \<and> wid \<noteq> [] \<and>
        map_of found field_wlan_enabled = Some (JBool (\<not> want)) \<and>
        q = request_of csrf method_put (network_path w wlan_conf_endpoint @ ''/'' @ path_escape wid)
              (Some (JObj (gm_set field_wlan_enabled (JBool want) found))))"

text \<open>
  A port: the console lists a device of the address whose table has a port of the index
  with the name the Automation gives, that is no uplink and does supply power.
\<close>

definition port_agreed :: "(rat \<Rightarrow> int) \<Rightarrow> console_writer \<Rightarrow> string \<Rightarrow> poe_port \<Rightarrow> jv \<Rightarrow> console_request \<Rightarrow> bool" where
  "port_agreed wild w csrf p devices q =
     (\<exists>device table port. inside (JObj device) devices \<and>
        map_of device field_mac = Some (JStr (normalize_mac (pp_device p))) \<and>
        map_of device field_port_table = Some (JArr table) \<and> JObj port \<in> set table \<and>
        decode_index wild (map_of port field_port_index) = Some (pp_port p) \<and>
        map_of port field_port_name = Some (JStr (pp_port_name p)) \<and>
        map_of port field_is_uplink = Some (JBool False) \<and> map_of port field_port_poe = Some (JBool True) \<and>
        map_of port field_poe_enable \<noteq> Some (JBool False) \<and>
        q = request_of csrf method_post (network_path w dev_mgr_endpoint)
              (Some (JObj [(''cmd'', JStr cmd_power_cycle), (field_mac, JStr (normalize_mac (pp_device p))),
                           (field_port_index, JNum (of_int (pp_port p)))])))"

text \<open>
  An outlet: the console lists a device of the address with an id, whose table has an
  outlet of the index with the name the Automation gives, of known capabilities, not on
  battery unless the install has agreed to that, and in the other position; and it is
  sent the overrides it reported with that outlet switched.
\<close>

definition outlet_agreed :: "(rat \<Rightarrow> int) \<Rightarrow> console_writer \<Rightarrow> string \<Rightarrow> outlet \<Rightarrow> bool \<Rightarrow> jv \<Rightarrow> console_request \<Rightarrow> bool" where
  "outlet_agreed wild w csrf u want devices q =
     (\<exists>device table found caps did xs. inside (JObj device) devices \<and>
        map_of device field_mac = Some (JStr (normalize_mac (ou_device u))) \<and>
        map_of device field_device_id = Some (JStr did) \<and> did \<noteq> [] \<and>
        map_of device field_outlet_table = Some (JArr table) \<and> JObj found \<in> set table \<and>
        decode_index wild (map_of found field_outlet_index) = Some (ou_index u) \<and>
        map_of found field_outlet_name = Some (JStr (ou_name u)) \<and>
        decode_index wild (map_of found field_outlet_caps) = Some caps \<and>
        (caps AND outlet_cap_battery_backed = 0 \<or> wp_battery (cw_policy w)) \<and>
        map_of found field_relay_state = Some (JBool (\<not> want)) \<and>
        map_of device field_outlet_overrides = Some (JArr xs) \<and> list_all (sound_entry wild u) xs \<and>
        q = request_of csrf method_put (network_path w rest_device_endpoint @ ''/'' @ path_escape did)
              (Some (JObj [(field_outlet_overrides,
                 JArr (map (\<lambda>x. if addresses wild u x then switched want x else x) xs))])))"

text \<open>The conversation of an action once the session is open: a read, and at most one agreed write.\<close>

definition read_then_write :: "string \<Rightarrow> string \<Rightarrow> (jv \<Rightarrow> console_request \<Rightarrow> bool) \<Rightarrow>
    (console_request \<times> exchange) list \<Rightarrow> (string + unit) \<Rightarrow> bool" where
  "read_then_write csrf path agreed t y =
     (\<exists>x. t = [(request_of csrf method_get path None, x)] \<or>
       (\<exists>doc q x'. t = [(request_of csrf method_get path None, x), (q, x')] \<and>
          console_result method_get path x = Inr doc \<and> agreed doc q \<and>
          (y = Inr () \<longrightarrow> (\<exists>answer. console_result (cq_method q) (cq_path q) x' = Inr answer))))"

lemma read_then_writeI:
  assumes "held (cbindR (console_do csrf method_get path None) g) t y"
    and "\<And>doc t2. held (g doc) t2 y \<Longrightarrow> t2 = [] \<or>
      (\<exists>q x'. t2 = [(q, x')] \<and> agreed doc q \<and>
        (y = Inr () \<longrightarrow> (\<exists>answer. console_result (cq_method q) (cq_path q) x' = Inr answer)))"
  shows "read_then_write csrf path agreed t y"
proof -
  obtain x t2 where t: "t = (request_of csrf method_get path None, x) # t2"
    and rest: "case console_result method_get path x of Inl e \<Rightarrow> t2 = [] \<and> y = Inl e | Inr doc \<Rightarrow> held (g doc) t2 y"
    using assms(1) unfolding held_do_then request_of_def by blast
  show ?thesis
  proof (cases "console_result method_get path x")
    case (Inl e)
    then show ?thesis using t rest by (auto simp: read_then_write_def)
  next
    case (Inr doc)
    then show ?thesis using t rest assms(2) [of doc t2] unfolding read_then_write_def by auto
  qed
qed

text \<open>The write itself, when its verdict is a function of the document it is answered with.\<close>

lemma write_held:
  assumes "held (cbindR (console_do csrf m path body) (\<lambda>doc. CRet (f doc))) t y"
  shows "\<exists>x'. t = [(request_of csrf m path body, x')] \<and>
    (y = Inr () \<longrightarrow> (\<exists>answer. console_result m path x' = Inr answer))"
proof -
  obtain x t2 where "t = (request_of csrf m path body, x) # t2"
    "case console_result m path x of Inl e \<Rightarrow> t2 = [] \<and> y = Inl e | Inr doc \<Rightarrow> held (CRet (f doc)) t2 y"
    using assms unfolding held_do_then request_of_def by blast
  then show ?thesis by (cases "console_result m path x") auto
qed

lemma request_of_simps [simp]:
  "cq_method (request_of csrf m path body) = m" "cq_path (request_of csrf m path body) = path"
  "cq_body (request_of csrf m path body) = body" "cq_csrf (request_of csrf m path body) = csrf"
  by (simp_all add: request_of_def)

lemma wlan_conversation:
  "held (set_wlan_enabled w csrf (wl_name n) want) t y \<Longrightarrow>
     read_then_write csrf (network_path w wlan_conf_endpoint) (wlan_agreed w csrf n want) t y"
  unfolding set_wlan_enabled_def
proof (erule read_then_writeI, goal_cases)
  case (1 listed t2)
  show ?case
  proof (cases "find_object_with field_wlan_name (wl_name n) [field_wlan_id, field_wlan_enabled] listed")
    case (Some found)
    note sound = find_sound(1) [OF Some, unfolded carries_def]
    show ?thesis
      using 1 sound unfolding Some option.case
      by (auto simp: wlan_agreed_def as_string_def as_bool_def split: option.splits jv.splits if_splits
          dest!: write_held; blast)
  qed (use 1 in simp)
qed

lemma check_port_None:
  "check_port mac p port = None \<longleftrightarrow> map_of port field_port_name = Some (JStr (pp_port_name p)) \<and>
     map_of port field_is_uplink = Some (JBool False) \<and> map_of port field_port_poe = Some (JBool True) \<and>
     map_of port field_poe_enable \<noteq> Some (JBool False)"
  unfolding check_port_def Let_def
  by (auto simp: as_string_def as_bool_def split: option.splits jv.splits)

lemma check_outlet_None:
  "check_outlet wild mac u found battery = None \<longleftrightarrow> map_of found field_outlet_name = Some (JStr (ou_name u)) \<and>
     (\<exists>caps. decode_index wild (map_of found field_outlet_caps) = Some caps \<and>
        (caps AND outlet_cap_battery_backed = 0 \<or> battery))"
  unfolding check_outlet_def Let_def
  by (auto simp: as_string_def split: option.splits jv.splits)

lemma object_by_index_sound:
  "object_by_index wild table field want = Some ps \<Longrightarrow>
     \<exists>xs. table = Some (JArr xs) \<and> JObj ps \<in> set xs \<and> decode_index wild (map_of ps field) = Some want"
  by (auto simp: object_by_index_def as_array_def dest: scan_sound split: option.splits jv.splits)

lemma port_conversation:
  "held (cycle_poe_port wild w csrf p) t y \<Longrightarrow>
     read_then_write csrf (network_path w device_stat_endpoint) (port_agreed wild w csrf p) t y"
  unfolding cycle_poe_port_def Let_def
proof (erule read_then_writeI, goal_cases)
  case (1 devices t2)
  show ?case
  proof (cases "find_object_with field_mac (normalize_mac (pp_device p)) [field_port_table] devices")
    case (Some device)
    note sound = find_sound(1) [OF Some, unfolded carries_def]
    note step = 1 [unfolded Some option.case]
    show ?thesis
    proof (cases "object_by_index wild (map_of device field_port_table) field_port_index (pp_port p)")
      case (Some port)
      note found = object_by_index_sound [OF Some]
      show ?thesis
      proof (cases "check_port (normalize_mac (pp_device p)) p port")
        case None
        then show ?thesis
          using write_held [OF step [unfolded Some None option.case]] sound found
          unfolding port_agreed_def check_port_None by auto
      qed (use step Some in simp)
    qed (use step in simp)
  qed (use 1 in simp)
qed

lemma outlet_conversation:
  "held (set_outlet_relay wild w csrf u want) t y \<Longrightarrow>
     read_then_write csrf (network_path w device_stat_endpoint) (outlet_agreed wild w csrf u want) t y"
  unfolding set_outlet_relay_def Let_def
proof (erule read_then_writeI, goal_cases)
  case (1 devices t2)
  show ?case
  proof (cases "find_object_with field_mac (normalize_mac (ou_device u)) [field_outlet_table, field_outlet_overrides] devices")
    case (Some device)
    note sound = find_sound(1) [OF Some, unfolded carries_def]
    note step = 1 [unfolded Some option.case]
    show ?thesis
    proof (cases "object_by_index wild (map_of device field_outlet_table) field_outlet_index (ou_index u)")
      case (Some found)
      note table = object_by_index_sound [OF Some]
      show ?thesis
      proof (cases "check_outlet wild (normalize_mac (ou_device u)) u found (wp_battery (cw_policy w))")
        case None
        note put = step [unfolded Some None option.case write_outlet_def Let_def]
        show ?thesis
          using put sound table None [unfolded check_outlet_None]
          by (auto simp: rewrite_outlet_overrides_iff outlet_agreed_def as_string_def as_bool_def
              split: option.splits jv.splits if_splits sum.splits dest!: write_held; blast)
      qed (use step Some in simp)
    qed (use step in simp)
  qed (use 1 in simp)
qed

section \<open>The whole exchange\<close>

text \<open>A request that may change something other than the session itself.\<close>

definition changes :: "console_request \<Rightarrow> bool" where
  "changes q = (cq_method q \<noteq> method_get \<and> cq_path q \<noteq> alarm_login_path \<and> cq_path q \<noteq> logout_path)"

lemma session_requests:
  "\<not> changes (login_request user pass)" "\<not> changes (request_of csrf method_post logout_path body)"
  "\<not> changes (request_of csrf method_get path body)"
  by (simp_all add: changes_def login_request_def)

lemma apply_conversation:
  assumes "held (console_apply wild claim w a) t y"
  shows "(t = [] \<and> snd y \<noteq> None) \<or>
    console_check (cw_policy w) a = None \<and>
      ((\<exists>x. t = [(login_request (cw_username w) (cw_password w), x)] \<and> snd y \<noteq> None) \<or>
       (\<exists>x csrf mid x' d. t = (login_request (cw_username w) (cw_password w), x) #
          mid @ [(request_of csrf method_post logout_path None, x')] \<and>
          held (console_dispatch wild w csrf a) mid d \<and> (snd y = None \<longleftrightarrow> d = Inr ())))"
proof (cases "describe_console_target a")
  case (Inl e)
  then show ?thesis using assms by (auto simp: console_apply_def)
next
  case (Inr origin)
  let ?result = "\<lparr>ar_origin = origin, ar_status = 0, ar_attempts = 1\<rparr>"
  have finish: "held (cbind (console_dispatch wild w csrf a) (\<lambda>d. cbind (console_logout csrf) (\<lambda>_.
      CRet (?result, (case d of Inl e \<Rightarrow> Some e | Inr _ \<Rightarrow> None))))) t' y \<Longrightarrow>
      \<exists>mid x' d. t' = mid @ [(request_of csrf method_post logout_path None, x')] \<and>
        held (console_dispatch wild w csrf a) mid d \<and> (snd y = None \<longleftrightarrow> d = Inr ())" for csrf t'
    unfolding held_cbind console_logout_def console_do_def request_of_def by (fastforce split: sum.splits)
  show ?thesis
  proof (cases "write_policy_empty (cw_policy w) \<or> \<not> credentialed w \<or> console_check (cw_policy w) a \<noteq> None")
    case True
    then show ?thesis using assms unfolding console_apply_def Inr sum.case Let_def by (auto split: if_splits)
  next
    case False
    then have opened: "\<not> write_policy_empty (cw_policy w)" "credentialed w" and ok: "console_check (cw_policy w) a = None"
      by simp_all
    let ?rest = "\<lambda>x. case login_result claim x of
          Inl e \<Rightarrow> CRet (?result, Some e)
        | Inr csrf \<Rightarrow> cbind (console_dispatch wild w csrf a) (\<lambda>d. cbind (console_logout csrf) (\<lambda>_.
            CRet (?result, (case d of Inl e \<Rightarrow> Some e | Inr _ \<Rightarrow> None))))"
    have "console_apply wild claim w a = CSend (login_request (cw_username w) (cw_password w)) ?rest"
      by (simp only: console_apply_def Inr sum.case Let_def opened ok if_False not_True_eq_False option.case
          console_login_def cbind.simps)
    then obtain x t' where t: "t = (login_request (cw_username w) (cw_password w), x) # t'"
      and rest: "held (?rest x) t' y"
      using assms unfolding held_simps by auto
    show ?thesis
    proof (cases "login_result claim x")
      case (Inl e)
      then show ?thesis using t rest ok by auto
    next
      case (Inr csrf)
      then have "held (cbind (console_dispatch wild w csrf a) (\<lambda>d. cbind (console_logout csrf) (\<lambda>_.
          CRet (?result, (case d of Inl e \<Rightarrow> Some e | Inr _ \<Rightarrow> None))))) t' y"
        using rest by simp
      then obtain mid x' d where "t' = mid @ [(request_of csrf method_post logout_path None, x')]"
        "held (console_dispatch wild w csrf a) mid d" "snd y = None \<longleftrightarrow> d = Inr ()"
        using finish by blast
      then show ?thesis
        unfolding t by (intro disjI2 conjI [OF ok] exI [of _ x] exI [of _ csrf] exI [of _ mid] exI [of _ x'] exI [of _ d]) simp
    qed
  qed
qed

lemma apply_cases:
  assumes "held (console_apply wild claim w a) t y"
  obtains (refused) "t = []" "snd y \<noteq> None"
    | (login) x where "console_check (cw_policy w) a = None" "t = [(login_request (cw_username w) (cw_password w), x)]"
        "snd y \<noteq> None"
    | (session) x csrf mid x' d where "console_check (cw_policy w) a = None"
        "t = (login_request (cw_username w) (cw_password w), x) #
           mid @ [(request_of csrf method_post logout_path None, x')]"
        "held (console_dispatch wild w csrf a) mid d" "snd y = None \<longleftrightarrow> d = Inr ()"
  using apply_conversation [OF assms]
proof (elim disjE conjE exE)
  fix x csrf mid x' d
  assume "console_check (cw_policy w) a = None" "t = (login_request (cw_username w) (cw_password w), x) #
      mid @ [(request_of csrf method_post logout_path None, x')]"
    "held (console_dispatch wild w csrf a) mid d" "snd y = None \<longleftrightarrow> d = Inr ()"
  then show thesis by (rule session)
qed (rule refused login; assumption)+

lemma dispatch_conversation:
  assumes "held (console_dispatch wild w csrf a) mid d"
  shows "(mid = [] \<and> d \<noteq> Inr ()) \<or>
    (\<exists>n. ac_type a \<in> {type_wlan_enable, type_wlan_disable} \<and> ac_wlan a = Some n \<and>
       read_then_write csrf (network_path w wlan_conf_endpoint)
         (wlan_agreed w csrf n (ac_type a = type_wlan_enable)) mid d) \<or>
    (\<exists>p. ac_type a = type_poe_cycle \<and> ac_poe a = Some p \<and>
       read_then_write csrf (network_path w device_stat_endpoint) (port_agreed wild w csrf p) mid d) \<or>
    (\<exists>u. ac_type a \<in> {type_outlet_cut, type_outlet_restore} \<and> ac_outlet a = Some u \<and>
       read_then_write csrf (network_path w device_stat_endpoint)
         (outlet_agreed wild w csrf u (ac_type a = type_outlet_restore)) mid d)"
  using assms unfolding console_dispatch_def
  by (auto split: if_splits option.splits simp: console_type_defs
      dest!: wlan_conversation port_conversation outlet_conversation)

lemma check_allows:
  assumes "console_check p a = None"
  shows "ac_type a \<in> {type_wlan_enable, type_wlan_disable} \<Longrightarrow> ac_wlan a = Some n \<Longrightarrow> wl_name n \<in> set (wp_wlans p)"
    and "ac_type a = type_poe_cycle \<Longrightarrow> ac_poe a = Some q \<Longrightarrow> port_of q \<in> set (wp_ports p)"
    and "ac_type a \<in> {type_outlet_cut, type_outlet_restore} \<Longrightarrow> ac_outlet a = Some u \<Longrightarrow>
      \<not> is_placeholder_outlet_name (ou_name u) \<and> outlet_of u \<in> set (wp_outlets p)"
  using assms unfolding console_check_def
  by (auto simp: console_type_defs allows_wlan_def allows_port_def allows_outlet_def split: if_splits option.splits)

text \<open>A request that changed something was answered with a document.\<close>

definition answered :: "console_request \<times> exchange \<Rightarrow> bool" where
  "answered e = (changes (fst e) \<longrightarrow>
     (\<exists>doc. console_result (cq_method (fst e)) (cq_path (fst e)) (snd e) = Inr doc))"

definition tame :: "(console_request \<times> exchange) list \<Rightarrow> bool \<Rightarrow> bool" where
  "tame mid success = (length mid \<le> 2 \<and> length (filter (\<lambda>e. changes (fst e)) mid) \<le> 1 \<and>
     (success \<longrightarrow> list_all answered mid))"

lemma read_then_write_tame: "read_then_write csrf path P mid d \<Longrightarrow> tame mid (d = Inr ())"
  by (auto simp: read_then_write_def session_requests tame_def answered_def)

lemma dispatch_tame: "held (console_dispatch wild w csrf a) mid d \<Longrightarrow> tame mid (d = Inr ())"
  using dispatch_conversation [of wild w csrf a mid d] read_then_write_tame by (auto simp: tame_def)

lemma change_is_agreed:
  "read_then_write csrf path P mid d \<Longrightarrow> e \<in> set mid \<Longrightarrow> changes (fst e) \<Longrightarrow>
     \<exists>x doc. (request_of csrf method_get path None, x) \<in> set mid \<and> console_result method_get path x = Inr doc \<and>
       P doc (fst e)"
  by (fastforce simp: read_then_write_def session_requests)

text \<open>A request of an execution that changes something is one of the dispatched action.\<close>

lemma change_in_dispatch:
  assumes "held (console_apply wild claim w a) t y" and "e \<in> set t" and "changes (fst e)"
  obtains csrf mid d where "held (console_dispatch wild w csrf a) mid d" "set mid \<subseteq> set t" "e \<in> set mid"
    "console_check (cw_policy w) a = None"
proof -
  from assms(1) show ?thesis
  proof (cases rule: apply_cases)
    case (session x csrf mid x' d)
    then have "e \<in> set mid" using assms(2,3) by (auto simp: session_requests)
    then show ?thesis using that [of csrf mid d] session by auto
  qed (use assms(2,3) in \<open>auto simp: session_requests\<close>)
qed

section \<open>What the actions share\<close>

text \<open>
  An action of the console, as the session sees it: a part of the Automation's action says
  what it is about, the operator lists it, and its conversation reads one document before
  the one request it may send, which the document agrees to.
\<close>

locale console_action =
  fixes mine :: "action \<Rightarrow> bool"
    and about :: "action \<Rightarrow> 's option"
    and path :: "console_writer \<Rightarrow> string"
    and listed :: "write_policy \<Rightarrow> 's \<Rightarrow> bool"
    and agreed :: "(rat \<Rightarrow> int) \<Rightarrow> console_writer \<Rightarrow> string \<Rightarrow> 's \<Rightarrow> action \<Rightarrow> jv \<Rightarrow> console_request \<Rightarrow> bool"
  assumes speaks: "held (console_dispatch wild w csrf a) mid d \<Longrightarrow> mine a \<Longrightarrow> mid \<noteq> [] \<Longrightarrow>
      \<exists>s. about a = Some s \<and> read_then_write csrf (path w) (agreed wild w csrf s a) mid d"
    and allowed: "console_check p a = None \<Longrightarrow> mine a \<Longrightarrow> about a = Some s \<Longrightarrow> listed p s"
begin

lemma change_agreed:
  assumes "held (console_apply wild claim w a) t y" and "e \<in> set t" and "changes (fst e)" and "mine a"
  shows "\<exists>s csrf x doc. about a = Some s \<and> listed (cw_policy w) s \<and>
    (request_of csrf method_get (path w) None, x) \<in> set t \<and> console_result method_get (path w) x = Inr doc \<and>
    agreed wild w csrf s a doc (fst e)"
proof -
  obtain csrf mid d where mid: "held (console_dispatch wild w csrf a) mid d" "set mid \<subseteq> set t" "e \<in> set mid"
    and ok: "console_check (cw_policy w) a = None"
    using assms(1-3) by (rule change_in_dispatch)
  obtain s where s: "about a = Some s" "read_then_write csrf (path w) (agreed wild w csrf s a) mid d"
    using speaks [OF mid(1) assms(4)] mid(3) by (cases mid) auto
  then show ?thesis
    using change_is_agreed [OF s(2) mid(3) assms(3)] allowed [OF ok assms(4) s(1)] mid(2) by blast
qed

end

interpretation outlets: console_action "\<lambda>a. ac_type a \<in> {type_outlet_cut, type_outlet_restore}" ac_outlet
    "\<lambda>w. network_path w device_stat_endpoint"
    "\<lambda>p u. \<not> is_placeholder_outlet_name (ou_name u) \<and> outlet_of u \<in> set (wp_outlets p)"
    "\<lambda>wild w csrf u a. outlet_agreed wild w csrf u (ac_type a = type_outlet_restore)"
  by unfold_locales (use dispatch_conversation check_allows(3) in \<open>fastforce simp: console_type_defs\<close>)+

interpretation ports: console_action "\<lambda>a. ac_type a = type_poe_cycle" ac_poe
    "\<lambda>w. network_path w device_stat_endpoint" "\<lambda>p q. port_of q \<in> set (wp_ports p)"
    "\<lambda>wild w csrf q a. port_agreed wild w csrf q"
  by unfold_locales (use dispatch_conversation check_allows(2) in \<open>fastforce simp: console_type_defs\<close>)+

interpretation wlans: console_action "\<lambda>a. ac_type a \<in> {type_wlan_enable, type_wlan_disable}" ac_wlan
    "\<lambda>w. network_path w wlan_conf_endpoint" "\<lambda>p n. wl_name n \<in> set (wp_wlans p)"
    "\<lambda>wild w csrf n a. wlan_agreed w csrf n (ac_type a = type_wlan_enable)"
  by unfold_locales (use dispatch_conversation check_allows(1) in \<open>fastforce simp: console_type_defs\<close>)+

text \<open>A console action is one short exchange. Whatever the console answers, an action sends
  at most four requests: the login, one read, at most one request that changes
  something, and the logout, which follows every opened session; an action the
  install does not allow sends none at all; and success is reported only when the
  console answered the write, if there was one, with a document.\<close>

theorem console_exchange_is_bounded:
  assumes "held (console_apply wild claim w a) t y"
  shows "length t \<le> 4 \<and> length (filter (\<lambda>e. changes (fst e)) t) \<le> 1 \<and>
    (console_check (cw_policy w) a \<noteq> None \<longrightarrow> t = [] \<and> snd y \<noteq> None) \<and>
    (1 < length t \<longrightarrow> (\<exists>csrf. fst (last t) = request_of csrf method_post logout_path None)) \<and>
    (snd y = None \<longrightarrow> list_all answered t)"
  using assms
proof (cases rule: apply_cases)
  case (session x csrf mid x' d)
  from dispatch_tame [OF session(3)] show ?thesis
    unfolding session(2,4) tame_def by (auto simp: session(1) session_requests answered_def)
qed (simp_all add: session_requests answered_def)


text \<open>C18: Power is cut only to the port everybody means. A power-cycle is sent only when the
  operator's allowlist has the switch and the port, and the switch itself, in the same
  session, listed that port under the name the Automation gives, as no uplink, as
  supplying power and as not switched off; the uplink is never cycled, whatever the
  allowlist says.\<close>

theorem port_cycle_is_agreed:
  assumes "held (console_apply wild claim w a) t y" and "e \<in> set t" and "changes (fst e)"
    and "ac_type a = type_poe_cycle"
  shows "\<exists>p csrf x doc. ac_poe a = Some p \<and> port_of p \<in> set (wp_ports (cw_policy w)) \<and>
    (request_of csrf method_get (network_path w device_stat_endpoint) None, x) \<in> set t \<and>
    console_result method_get (network_path w device_stat_endpoint) x = Inr doc \<and>
    port_agreed wild w csrf p doc (fst e)"
  using ports.change_agreed [OF assms] by simp

text \<open>C19: A wireless network is switched by one field. A request that changes something is sent
  only for a network the operator allows, that the console listed in the same session
  in the other state; it is the record the console listed with \<open>enabled\<close> changed and
  every other field as it was, at the record's own address.\<close>

theorem wlan_write_is_agreed:
  assumes "held (console_apply wild claim w a) t y" and "e \<in> set t" and "changes (fst e)"
    and "ac_type a \<in> {type_wlan_enable, type_wlan_disable}"
  shows "\<exists>n csrf x doc. ac_wlan a = Some n \<and> wl_name n \<in> set (wp_wlans (cw_policy w)) \<and>
    (request_of csrf method_get (network_path w wlan_conf_endpoint) None, x) \<in> set t \<and>
    console_result method_get (network_path w wlan_conf_endpoint) x = Inr doc \<and>
    wlan_agreed w csrf n (ac_type a = type_wlan_enable) doc (fst e)"
  using wlans.change_agreed [OF assms] by simp

section \<open>A sample console\<close>

definition sample_mac :: string where "sample_mac = ''aa:bb:cc:00:11:22''"

definition sample_ups :: jobj where
  "sample_ups =
     [(field_device_id, JStr ''64b0''), (field_mac, JStr sample_mac),
      (field_outlet_table, JArr [JObj [(field_outlet_index, JNum 5), (field_outlet_name, JStr ''nas''),
         (field_outlet_caps, JNum 65541), (field_relay_state, JBool True)]]),
      (field_outlet_overrides, JArr [JObj [(field_outlet_index, JNum 4), (field_relay_state, JBool True)],
         JObj [(field_outlet_index, JNum 5), (field_relay_state, JBool True)]]),
      (field_port_table, JArr [JObj [(field_port_index, JNum 7), (field_port_name, JStr ''cam''),
         (field_is_uplink, JBool False), (field_port_poe, JBool True)]])]"

definition sample_wlan_record :: jobj where
  "sample_wlan_record = [(field_wlan_id, JStr ''77''), (field_wlan_name, JStr ''guest''), (field_wlan_enabled, JBool True)]"

definition sample_console :: "console_request \<Rightarrow> exchange" where
  "sample_console q = Answered \<lparr>cs_status = 200, cs_body = [],
     cs_json = Inr (if cq_method q \<noteq> method_get then JNull
       else JObj [(''data'', JArr [JObj sample_wlan_record, JObj sample_ups])]),
     cs_cookies = [], cs_csrf_header = ''token''\<rparr>"

definition sample_writer :: console_writer where
  "sample_writer = \<lparr>cw_base_url = ''https://10.0.0.1'', cw_site = default_site, cw_username = ''reactor'',
     cw_password = ''secret'', cw_insecure = True,
     cw_policy = \<lparr>wp_wlans = [''guest''], wp_ports = [\<lparr>pr_mac = sample_mac, pr_port = 7\<rparr>],
       wp_outlets = [\<lparr>lr_mac = sample_mac, lr_index = 5, lr_name = ''nas''\<rparr>], wp_battery = False\<rparr>\<rparr>"

definition plain_action :: "string \<Rightarrow> action" where
  "plain_action t = \<lparr>ac_type = t, ac_target = None, ac_replicas = None, ac_suspended = None, ac_cordoned = None,
     ac_request = None, ac_notification = None, ac_home_assistant = None, ac_qbittorrent = None,
     ac_wlan = Some \<lparr>wl_name = ''guest''\<rparr>,
     ac_poe = Some \<lparr>pp_device = sample_mac, pp_port = 7, pp_port_name = ''cam''\<rparr>,
     ac_outlet = Some \<lparr>ou_device = ''AA-BB-CC-00-11-22'', ou_index = 5, ou_name = ''nas''\<rparr>,
     ac_timeout_seconds = None\<rparr>"

definition sample_exchange :: "string \<Rightarrow> (console_request \<times> exchange) list \<times> action_result \<times> string option" where
  "sample_exchange t = converse sample_console (console_apply (\<lambda>_. 0) (\<lambda>_. None) sample_writer (plain_action t))"

lemma sample_exchange_held: "held (console_apply (\<lambda>_. 0) (\<lambda>_. None) sample_writer (plain_action t))
    (fst (sample_exchange t)) (snd (sample_exchange t))"
  unfolding sample_exchange_def by (rule converse_held)

theorem console_exchange_is_bounded_witness:
  "length (fst (sample_exchange type_wlan_disable)) \<le> 4 \<and>
   length (filter (\<lambda>e. changes (fst e)) (fst (sample_exchange type_wlan_disable))) = 1"
proof -
  have "0 < length (filter (\<lambda>e. changes (fst e)) (fst (sample_exchange type_wlan_disable)))" by code_simp
  moreover have "length (filter (\<lambda>e. changes (fst e)) (fst (sample_exchange type_wlan_disable))) \<le> 1 \<and>
      length (fst (sample_exchange type_wlan_disable)) \<le> 4"
    using console_exchange_is_bounded [OF sample_exchange_held [of type_wlan_disable]] by blast
  ultimately show ?thesis by linarith
qed

lemma plain_action_type: "ac_type (plain_action t) = t"
  by (simp add: plain_action_def)


theorem port_cycle_is_agreed_witness:
  "\<exists>p csrf doc. port_of p \<in> set (wp_ports (cw_policy sample_writer)) \<and>
     port_agreed (\<lambda>_. 0) sample_writer csrf p doc (fst (fst (sample_exchange type_poe_cycle) ! 2))"
proof -
  have "case drop 2 (fst (sample_exchange type_poe_cycle)) of [] \<Rightarrow> False | e # rest \<Rightarrow> changes (fst e)" by code_simp
  from nth_of_drop [OF this] show ?thesis
    using port_cycle_is_agreed [OF sample_exchange_held [of type_poe_cycle] nth_mem, of 2]
    unfolding plain_action_type by blast
qed

theorem wlan_write_is_agreed_witness:
  "\<exists>n csrf doc. wl_name n \<in> set (wp_wlans (cw_policy sample_writer)) \<and>
     wlan_agreed sample_writer csrf n (type_wlan_disable = type_wlan_enable) doc (fst (fst (sample_exchange type_wlan_disable) ! 2))"
proof -
  have "case drop 2 (fst (sample_exchange type_wlan_disable)) of [] \<Rightarrow> False | e # rest \<Rightarrow> changes (fst e)" by code_simp
  from nth_of_drop [OF this] show ?thesis
    using wlan_write_is_agreed [OF sample_exchange_held [of type_wlan_disable] nth_mem, of 2]
    unfolding plain_action_type by blast
qed

end
