(* ===== verification/Fleet.thy ===== *)
theory Fleet
  imports Readings
begin

text \<open>
  The tallies over the fleet and the state map they publish into
  (\<open>devices.go\<close>, \<open>firmware.go\<close>, \<open>temperature.go\<close>, \<open>poe.go\<close>, \<open>outlets.go\<close>), and
  \<open>stateFromDevices\<close> of \<open>client.go\<close>. A tally keeps the number of names it collects, not
  the names, where only a log line reads them.
\<close>

section \<open>Devices\<close>

definition device_state_offline :: int where "device_state_offline = 0"
definition device_state_online :: int where "device_state_online = 1"
definition device_state_upgrading :: int where "device_state_upgrading = 4"
definition device_state_provisioning :: int where "device_state_provisioning = 5"
definition device_state_heartbeat_missing :: int where "device_state_heartbeat_missing = 6"

definition adopted :: "device_record \<Rightarrow> bool" where
  "adopted d = (dr_adopted d = Some True)"

record device_tally =
  dt_per_device :: gomap
  dt_shared :: "string list"
  dt_counted :: int
  dt_offline :: int
  dt_per_device_keys :: bool

definition new_device_tally :: "bool \<Rightarrow> device_tally" where
  "new_device_tally per_device_keys =
     \<lparr>dt_per_device = [], dt_shared = [], dt_counted = 0, dt_offline = 0, dt_per_device_keys = per_device_keys\<rparr>"

text \<open>The value a state is translated into; transient and unfamiliar states say nothing.\<close>

definition device_value :: "int option \<Rightarrow> string option" where
  "device_value state =
     (case state of
        None \<Rightarrow> None
      | Some s \<Rightarrow>
          if s = device_state_online then Some device_online
          else if s = device_state_offline then Some device_offline
          else if s = device_state_upgrading \<or> s = device_state_provisioning \<or> s = device_state_heartbeat_missing
          then None
          else None)"

definition device_observe :: "device_record \<Rightarrow> device_tally \<Rightarrow> device_tally" where
  "device_observe d t =
     (case device_value (dr_state d) of
        None \<Rightarrow> t
      | Some value \<Rightarrow>
          (let slug = slugify (dr_name d);
               t = t\<lparr>dt_counted := dt_counted t + 1,
                     dt_offline := dt_offline t + (if value = device_offline then 1 else 0)\<rparr> in
           if slug = [] then t
           else let key = state_key_device_prefix @ slug in
             t\<lparr>dt_shared := (if map_of (dt_per_device t) key \<noteq> None then key # dt_shared t else dt_shared t),
               dt_per_device := gm_set key value (dt_per_device t)\<rparr>))"

text \<open>One key each, unless two devices or outlets share it: then neither, and the sharing is counted.\<close>

fun publish_unshared :: "string \<Rightarrow> string list \<Rightarrow> gomap \<Rightarrow> gomap \<times> string list \<Rightarrow> gomap \<times> string list" where
  "publish_unshared signal shared [] acc = acc"
| "publish_unshared signal shared ((key, value) # rest) (state, counted) =
     (if key \<in> set shared then publish_unshared signal shared rest (state, counted @ [signal])
      else publish_unshared signal shared rest (gm_set key value state, counted))"

definition device_publish :: "device_tally \<Rightarrow> gomap \<times> string list \<Rightarrow> gomap \<times> string list" where
  "device_publish t acc =
     (if dt_counted t = 0 then acc
      else let acc = (gm_set state_key_devices (if dt_offline t > 0 then devices_degraded else devices_all_online)
                        (fst acc), snd acc) in
        if \<not> dt_per_device_keys t then acc
        else publish_unshared signal_device_name_shared (dt_shared t) (dt_per_device t) acc)"

section \<open>Firmware\<close>

record firmware_tally =
  fw_reporting :: int
  fw_upgradable :: int

definition firmware_observe :: "device_record \<Rightarrow> firmware_tally \<Rightarrow> firmware_tally" where
  "firmware_observe d t =
     (case dr_upgradable d of
        None \<Rightarrow> t
      | Some upgradable \<Rightarrow>
          (let t = t\<lparr>fw_reporting := fw_reporting t + 1\<rparr> in
           if \<not> upgradable then t else t\<lparr>fw_upgradable := fw_upgradable t + 1\<rparr>))"

definition firmware_publish :: "firmware_tally \<Rightarrow> gomap \<Rightarrow> gomap" where
  "firmware_publish t state =
     (if fw_reporting t = 0 then state
      else gm_set state_key_firmware
             (if fw_upgradable t > 0 then firmware_updates_available else firmware_current) state)"

section \<open>Temperature\<close>

text \<open>The hottest sensor of the table, else the single reading.\<close>

fun hottest_sensor :: "f64 option list \<Rightarrow> f64 option \<Rightarrow> f64 option" where
  "hottest_sensor [] best = best"
| "hottest_sensor (None # rest) best = hottest_sensor rest best"
| "hottest_sensor (Some v # rest) best =
     hottest_sensor rest (case best of None \<Rightarrow> Some v | Some b \<Rightarrow> if f_less b v then Some v else Some b)"

definition hottest :: "device_record \<Rightarrow> f64 option" where
  "hottest d =
     (case hottest_sensor (dr_temperatures d) None of
        Some v \<Rightarrow> Some v
      | None \<Rightarrow> dr_general_temperature d)"

definition instrumented :: "device_record \<Rightarrow> bool" where
  "instrumented d = (dr_has_temperature d = Some True \<or> hottest d \<noteq> None \<or> dr_overheating d = Some True)"

record temperature_tally =
  tt_high :: f64
  tt_instrumented :: int
  tt_hottest :: "f64 option"
  tt_overheating :: int

definition new_temperature_tally :: "f64 \<Rightarrow> temperature_tally" where
  "new_temperature_tally high =
     \<lparr>tt_high = float_or default_high_temperature_celsius high, tt_instrumented = 0, tt_hottest = None,
      tt_overheating = 0\<rparr>"

definition temperature_observe :: "device_record \<Rightarrow> temperature_tally \<Rightarrow> temperature_tally" where
  "temperature_observe d t =
     (if \<not> instrumented d then t
      else t\<lparr>tt_instrumented := tt_instrumented t + 1,
             tt_overheating := tt_overheating t + (if dr_overheating d = Some True then 1 else 0),
             tt_hottest :=
               (case hottest d of
                  None \<Rightarrow> tt_hottest t
                | Some reading \<Rightarrow>
                    (case tt_hottest t of
                       None \<Rightarrow> Some reading
                     | Some h \<Rightarrow> if f_less h reading then Some reading else Some h))\<rparr>)"

definition temperature_publish :: "temperature_tally \<Rightarrow> gomap \<Rightarrow> gomap" where
  "temperature_publish t state =
     (if tt_instrumented t = 0 then state
      else gm_set state_key_temperature
        (if tt_overheating t > 0 then temperature_high
         else case tt_hottest t of
           None \<Rightarrow> temperature_normal
         | Some h \<Rightarrow> if f_le (tt_high t) h then temperature_high else temperature_normal) state)"

section \<open>PoE\<close>

record poe_draw =
  pd_watts :: f64
  pd_budget :: f64
  pd_measurable :: bool

text \<open>The watts of the powered ports, and how many of them report none.\<close>

fun draw_ports :: "device_port list \<Rightarrow> f64 \<Rightarrow> int \<Rightarrow> f64 \<times> int" where
  "draw_ports [] watts silent = (watts, silent)"
| "draw_ports (p # ps) watts silent =
     (if dp_poe_enable p \<noteq> Some True then draw_ports ps watts silent
      else case dp_poe_power p of
        None \<Rightarrow> draw_ports ps watts (silent + 1)
      | Some w \<Rightarrow> draw_ports ps (f_add watts w) silent)"

definition poe_of :: "device_record \<Rightarrow> poe_draw" where
  "poe_of d =
     (let none = \<lparr>pd_watts = Fin 0, pd_budget = Fin 0, pd_measurable = False\<rparr> in
      case dr_total_max_power d of
        None \<Rightarrow> none
      | Some budget \<Rightarrow>
          if f_le budget (Fin 0) then none
          else if dr_port_table d = [] then none\<lparr>pd_budget := budget\<rparr>
          else let (watts, silent) = draw_ports (dr_port_table d) (Fin 0) 0 in
            \<lparr>pd_watts = watts, pd_budget = budget, pd_measurable = (silent = 0)\<rparr>)"

definition utilization :: "poe_draw \<Rightarrow> f64" where
  "utilization p = f_mul (f_div (pd_watts p) (pd_budget p)) (Fin 100)"

record poe_tally =
  po_maximum :: f64
  po_switches :: int
  po_worst :: "f64 option"

definition new_poe_tally :: "f64 \<Rightarrow> poe_tally" where
  "new_poe_tally maximum =
     \<lparr>po_maximum = float_or default_max_poe_utilization_percent maximum, po_switches = 0, po_worst = None\<rparr>"

definition poe_observe :: "device_record \<Rightarrow> poe_tally \<Rightarrow> poe_tally" where
  "poe_observe d t =
     (let draw = poe_of d in
      if f_le (pd_budget draw) (Fin 0) then t
      else if \<not> pd_measurable draw then t
      else let used = utilization draw in
        t\<lparr>po_switches := po_switches t + 1,
          po_worst := (case po_worst t of
             None \<Rightarrow> Some used
           | Some w \<Rightarrow> if f_less w used then Some used else Some w)\<rparr>)"

definition poe_publish :: "poe_tally \<Rightarrow> gomap \<Rightarrow> gomap" where
  "poe_publish t state =
     (if po_switches t = 0 then state
      else gm_set state_key_poe
        (case po_worst t of
           None \<Rightarrow> poe_ok
         | Some w \<Rightarrow> if f_le (po_maximum t) w then poe_insufficient else poe_ok) state)"

section \<open>Outlets\<close>

definition outlet_suffix :: "int option \<Rightarrow> string \<Rightarrow> string option" where
  "outlet_suffix index name =
     (let slug = slugify name in
      if slug \<noteq> [] \<and> \<not> is_placeholder_outlet_name name then Some slug
      else map_option int_dec index)"

record outlet_tally =
  ot_claimed :: bool
  ot_per_outlet :: gomap
  ot_shared :: "string list"

definition new_outlet_tally :: outlet_tally where
  "new_outlet_tally = \<lparr>ot_claimed = False, ot_per_outlet = [], ot_shared = []\<rparr>"

definition observe_outlet :: "outlet_record \<Rightarrow> outlet_tally \<Rightarrow> outlet_tally" where
  "observe_outlet r t =
     (case outlet_suffix (or_index r) (or_name r) of
        None \<Rightarrow> t
      | Some suffix \<Rightarrow>
          (case or_relay_state r of
             None \<Rightarrow> t
           | Some relay \<Rightarrow>
               (let key = state_key_outlet_prefix @ suffix in
                t\<lparr>ot_shared := (if map_of (ot_per_outlet t) key \<noteq> None then key # ot_shared t else ot_shared t),
                  ot_per_outlet := gm_set key (if relay then outlet_on else outlet_off) (ot_per_outlet t)\<rparr>)))"

definition outlet_observe :: "device_record \<Rightarrow> outlet_tally \<Rightarrow> outlet_tally" where
  "outlet_observe d t =
     (if dr_outlet_table d = [] \<or> ot_claimed t then t
      else fold observe_outlet (dr_outlet_table d) (t\<lparr>ot_claimed := True\<rparr>))"

definition outlet_publish :: "outlet_tally \<Rightarrow> gomap \<times> string list \<Rightarrow> gomap \<times> string list" where
  "outlet_publish t acc =
     (if \<not> ot_claimed t then acc
      else publish_unshared signal_outlet_name_shared (ot_shared t) (ot_per_outlet t) acc)"

section \<open>A device list\<close>

text \<open>What the loop of \<open>stateFromDevices\<close> has gathered so far.\<close>

record scan =
  sc_state :: gomap
  sc_gateway_seen :: bool
  sc_wan_index :: int
  sc_mbb_seen :: bool
  sc_fleet :: device_tally
  sc_firmware :: firmware_tally
  sc_heat :: temperature_tally
  sc_poe :: poe_tally
  sc_outlets :: outlet_tally
  sc_previous :: previous
  sc_counted :: "string list"

definition new_scan :: "unifi_client \<Rightarrow> previous \<Rightarrow> scan" where
  "new_scan c was =
     \<lparr>sc_state = [], sc_gateway_seen = False, sc_wan_index = 0, sc_mbb_seen = False,
      sc_fleet = new_device_tally (uc_per_device_keys c),
      sc_firmware = \<lparr>fw_reporting = 0, fw_upgradable = 0\<rparr>,
      sc_heat = new_temperature_tally (uc_high_temperature c),
      sc_poe = new_poe_tally (uc_max_poe c), sc_outlets = new_outlet_tally,
      sc_previous = was, sc_counted = []\<rparr>"

definition scan_fleet :: "device_record \<Rightarrow> scan \<Rightarrow> scan" where
  "scan_fleet d s =
     (if \<not> adopted d then s
      else s\<lparr>sc_fleet := device_observe d (sc_fleet s), sc_firmware := firmware_observe d (sc_firmware s),
             sc_heat := temperature_observe d (sc_heat s), sc_poe := poe_observe d (sc_poe s),
             sc_outlets := outlet_observe d (sc_outlets s)\<rparr>)"

definition set_unless_empty :: "string \<Rightarrow> string \<Rightarrow> gomap \<Rightarrow> gomap" where
  "set_unless_empty key value m = (if value = [] then m else gm_set key value m)"

definition scan_gateway :: "device_record \<Rightarrow> scan \<Rightarrow> scan" where
  "scan_gateway d s =
     (if sc_gateway_seen s \<or> dr_wans d = [] then s
      else let ((wan, index), counted) = wan_from d;
               state = gm_set state_key_isp (isp_from d) (set_unless_empty state_key_wan wan (sc_state s));
               (next, moved) = cross_check_over_time (sc_previous s) (gm_get state state_key_wan) (isp_from d) in
        s\<lparr>sc_gateway_seen := True, sc_wan_index := index, sc_state := state, sc_previous := next,
          sc_counted := sc_counted s @ counted @ moved\<rparr>)"

definition scan_modem :: "device_record \<Rightarrow> scan \<Rightarrow> scan" where
  "scan_modem d s =
     (case dr_mbb d of
        None \<Rightarrow> s
      | Some sims \<Rightarrow>
          if sc_mbb_seen s then s
          else let (usage, counted) = data_usage_from sims in
            s\<lparr>sc_mbb_seen := True, sc_state := set_unless_empty state_key_data_usage usage (sc_state s),
              sc_counted := sc_counted s @ counted\<rparr>)"

definition scan_ups :: "unifi_client \<Rightarrow> device_record \<Rightarrow> scan \<Rightarrow> scan" where
  "scan_ups c d s =
     (case dr_vbms d of
        None \<Rightarrow> s
      | Some v \<Rightarrow>
          if map_of (sc_state s) state_key_ups \<noteq> None then s
          else s\<lparr>sc_state :=
            set_unless_empty state_key_ups_load (load_level c (vb_total_power_output v) (vb_total_power_budget v))
              (set_unless_empty state_key_ups_runtime (runtime_level c (vb_time_to_remain v))
                (gm_set state_key_ups_battery (battery_level c (vb_battery_level v))
                  (gm_set state_key_ups (if vb_is_battery_mode v then ups_on_battery else ups_online) (sc_state s))))\<rparr>)"

definition scan_device :: "unifi_client \<Rightarrow> device_record \<Rightarrow> scan \<Rightarrow> scan" where
  "scan_device c d s = scan_ups c d (scan_modem d (scan_gateway d (scan_fleet d s)))"

definition scan_devices :: "unifi_client \<Rightarrow> device_record list \<Rightarrow> scan \<Rightarrow> scan" where
  "scan_devices c ds s = fold (scan_device c) ds s"

definition publish_scan :: "scan \<Rightarrow> gomap \<times> string list" where
  "publish_scan s =
     (let (state, counted) = device_publish (sc_fleet s) (sc_state s, sc_counted s);
          state = poe_publish (sc_poe s) (temperature_publish (sc_heat s) (firmware_publish (sc_firmware s) state))
      in outlet_publish (sc_outlets s) (state, counted))"

definition verified_network_version :: string where "verified_network_version = ''10.5.67''"
definition verified_console_model :: string where "verified_console_model = ''UDM Pro''"

definition nothing_found :: string where
  "nothing_found =
     ''no gateway reporting WAN ports, no UPS, and no adopted device reporting a state ''
     @ ''were found in the device list; ''
     @ ''the fields this provider reads were verified on UniFi Network '' @ verified_network_version
     @ '' ('' @ verified_console_model @ ''), ''
     @ ''and another version or console model may report them differently ''
     @ em_dash @ '' see the compatibility matrix in the README''"

text \<open>The state or an error; the index of the live WAN; what is remembered and what was counted.\<close>

definition state_from_devices :: "unifi_client \<Rightarrow> previous \<Rightarrow> device_record list \<Rightarrow>
    (string + gomap \<times> int) \<times> previous \<times> string list" where
  "state_from_devices c was ds =
     (let s = scan_devices c ds (new_scan c was); (state, counted) = publish_scan s in
      (if state = [] then Inl nothing_found else Inr (state, sc_wan_index s), sc_previous s, counted))"

end
