(* ===== verification/Health.thy ===== *)
theory Health
  imports Fleet
begin

text \<open>
  The second endpoint and the whole observation: \<open>health.go\<close>, \<open>wifi.go\<close> and \<open>Observe\<close> of
  \<open>internal/providers/unifi/client.go\<close>. An endpoint's response is an error or what was
  decoded of it; either may fail without taking the other's keys with it.
\<close>

record health_monitor =
  hm_availability :: "f64 option"
  hm_latency :: "f64 option"

record uplink_health =
  uh_availability :: "f64 option"
  uh_latency :: "f64 option"
  uh_uptime :: "int option"
  uh_monitors :: "health_monitor list"
  uh_alerting :: "health_monitor list"

record health_subsystem =
  hs_subsystem :: string
  hs_status :: string
  hs_uptime_stats :: "(string \<times> uplink_health) list"
  hs_num_adopted :: "int option"
  hs_num_disconnected :: "int option"

definition uptime_stats_key :: "int \<Rightarrow> string" where
  "uptime_stats_key index =
     (if index = wan_primary_index then wan_status_key_primary else ''WAN'' @ int_dec index)"

definition internet_from :: "string \<Rightarrow> string" where
  "internet_from status =
     (if status = health_status_ok then internet_ok
      else if status = health_status_warning then internet_degraded
      else if status = health_status_error then internet_down else [])"

text \<open>\<open>meanOf\<close>: the sum in the order of the monitors, over the number that report.\<close>

definition mean_of :: "health_monitor list \<Rightarrow> health_monitor list \<Rightarrow> (health_monitor \<Rightarrow> f64 option) \<Rightarrow> f64 option" where
  "mean_of monitors alerting field =
     (let vs = List.map_filter field (monitors @ alerting) in
      if vs = [] then None
      else Some (f_div (fold (\<lambda>v sum. f_add sum v) vs (Fin 0)) (Fin (of_nat (length vs)))))"

definition availability :: "uplink_health \<Rightarrow> f64 option" where
  "availability u =
     (case uh_availability u of
        Some v \<Rightarrow> Some v
      | None \<Rightarrow> mean_of (uh_monitors u) (uh_alerting u) hm_availability)"

definition latency :: "uplink_health \<Rightarrow> f64 option" where
  "latency u =
     (case uh_latency u of
        Some v \<Rightarrow> Some v
      | None \<Rightarrow> mean_of (uh_monitors u) (uh_alerting u) hm_latency)"

definition wan_quality_from :: "unifi_client \<Rightarrow> uplink_health \<Rightarrow> string" where
  "wan_quality_from c u =
     (case availability u of
        None \<Rightarrow> []
      | Some avail \<Rightarrow>
          (let min_availability = float_or default_min_availability_percent (uc_min_availability c);
               max_latency = float_or default_max_latency_ms (uc_max_latency c) in
           if f_less avail min_availability then wan_quality_degraded
           else case latency u of
             None \<Rightarrow> wan_quality_good
           | Some l \<Rightarrow> if f_less max_latency l then wan_quality_degraded else wan_quality_good))"

definition cross_check_uplink_health :: "string \<Rightarrow> int \<Rightarrow> (string \<times> uplink_health) list \<Rightarrow> string list" where
  "cross_check_uplink_health wan index stats =
     (if wan = [] \<or> index < wan_primary_index \<or> stats = [] then []
      else let believed = uptime_stats_key index;
               with_uptime = map fst (filter (\<lambda>e. case uh_uptime (snd e) of None \<Rightarrow> False | Some n \<Rightarrow> n > 0) stats) in
        if with_uptime = [] \<or> believed \<in> set with_uptime then [] else [signal_wan_health_disagrees])"

definition cross_check_wifi_status :: "string \<Rightarrow> string \<Rightarrow> string list" where
  "cross_check_wifi_status derived status =
     (let from_status =
        (if status = health_status_ok then wifi_ok
         else if status = health_status_warning then wifi_warning
         else if status = health_status_error then wifi_error else []) in
      if status = [] \<or> from_status = [] then []
      else if from_status = derived then [] else [signal_wifi_status_disagrees])"

definition wifi_from :: "health_subsystem \<Rightarrow> string \<times> string list" where
  "wifi_from h =
     (case (hs_num_adopted h, hs_num_disconnected h) of
        (Some managed, Some disconnected) \<Rightarrow>
          if managed = 0 then ([], [])
          else let wifi = (if disconnected \<ge> managed then wifi_error
                           else if disconnected > 0 then wifi_warning else wifi_ok) in
            (wifi, cross_check_wifi_status wifi (hs_status h))
      | _ \<Rightarrow> ([], []))"

definition merge_subsystem :: "unifi_client \<Rightarrow> string \<Rightarrow> int \<Rightarrow> health_subsystem \<Rightarrow> gomap \<times> string list \<Rightarrow>
    gomap \<times> string list" where
  "merge_subsystem c wan index h acc =
     (let (state, counted) = acc in
      if hs_subsystem h = health_subsystem_www
      then (set_unless_empty state_key_internet (internet_from (hs_status h)) state, counted)
      else if hs_subsystem h = health_subsystem_wlan
      then (let (wifi, disagreed) = wifi_from h in (set_unless_empty state_key_wifi wifi state, counted @ disagreed))
      else if hs_subsystem h = health_subsystem_wan
      then (let counted = counted @ cross_check_uplink_health wan index (hs_uptime_stats h) in
            if wan = [] \<or> index < wan_primary_index then (state, counted)
            else case map_of (hs_uptime_stats h) (uptime_stats_key index) of
              None \<Rightarrow> (state, counted)
            | Some entry \<Rightarrow> (set_unless_empty state_key_wan_quality (wan_quality_from c entry) state, counted))
      else (state, counted))"

definition merge_health :: "unifi_client \<Rightarrow> string \<Rightarrow> int \<Rightarrow> health_subsystem list \<Rightarrow> gomap \<times> string list \<Rightarrow>
    gomap \<times> string list" where
  "merge_health c wan index hs acc = fold (merge_subsystem c wan index) hs acc"

text \<open>\<open>errors.Join\<close>: the errors there are, one to a line.\<close>

definition join_errors :: "string option \<Rightarrow> string option \<Rightarrow> string" where
  "join_errors a b = join [CHR 0x0A] (List.map_filter id [a, b])"

definition observe_console :: "unifi_client \<Rightarrow> previous \<Rightarrow> string + device_record list \<Rightarrow>
    string + health_subsystem list \<Rightarrow> (string + gomap) \<times> previous \<times> string list" where
  "observe_console c was devices health =
     (let (from_devices, next, counted) =
            (case devices of
               Inl e \<Rightarrow> (Inl e, was, [])
             | Inr ds \<Rightarrow> state_from_devices c was ds);
          (state, index) = (case from_devices of Inl e \<Rightarrow> ([], 0) | Inr r \<Rightarrow> r);
          device_err = (case from_devices of Inl e \<Rightarrow> Some e | Inr r \<Rightarrow> None);
          (state, counted) =
            (case health of
               Inl e \<Rightarrow> (state, counted)
             | Inr hs \<Rightarrow> merge_health c (gm_get state state_key_wan) index hs (state, counted));
          health_err = (case health of Inl e \<Rightarrow> Some e | Inr hs \<Rightarrow> None)
      in (if state = [] then Inl (join_errors device_err health_err) else Inr state, next, counted))"

end
