(* ===== verification/Observed.thy ===== *)
theory Observed
  imports Health
begin

text \<open>
  What an observation of the console can and does publish: every key with a value from
  its closed set, and for the keys about the whole fleet, the outlets and the live WAN,
  exactly what the device records say.
\<close>

section \<open>The vocabulary\<close>

text \<open>A key with one of its values, or one of the three keys whose names or values are open.\<close>

definition published :: "string \<times> string \<Rightarrow> bool" where
  "published e =
     (case map_of state_vocabulary (fst e) of
        Some values \<Rightarrow> snd e \<in> set values
      | None \<Rightarrow>
          (fst e = state_key_isp \<and> snd e \<noteq> [] \<and> slug_shaped (snd e)) \<or>
          (\<exists>slug. fst e = state_key_device_prefix @ slug \<and> slug \<noteq> [] \<and> slug_shaped slug \<and>
             snd e \<in> {device_online, device_offline}) \<or>
          (\<exists>suffix. fst e = state_key_outlet_prefix @ suffix \<and> suffix \<noteq> [] \<and> snd e \<in> {outlet_on, outlet_off}))"

definition fine :: "gomap \<Rightarrow> bool" where
  "fine m = (gm_wf m \<and> list_all published m)"

lemma fine_Nil [simp]: "fine []"
  by (simp add: fine_def gm_wf_def)

lemma list_all_gm_set: "list_all P m \<Longrightarrow> P (k, v) \<Longrightarrow> list_all P (gm_set k v m)"
  by (induction k v m rule: gm_set.induct) auto

lemma fine_gm_set: "fine m \<Longrightarrow> published (k, v) \<Longrightarrow> fine (gm_set k v m)"
  by (simp add: fine_def gm_wf_set list_all_gm_set)

lemma fine_set_unless_empty: "fine m \<Longrightarrow> v = [] \<or> published (k, v) \<Longrightarrow> fine (set_unless_empty k v m)"
  by (auto simp: set_unless_empty_def fine_gm_set)

lemma published_closed:
  "published (state_key_wan, v) \<longleftrightarrow> v \<in> {wan_primary, wan_backup}"
  "published (state_key_wan_quality, v) \<longleftrightarrow> v \<in> {wan_quality_good, wan_quality_degraded}"
  "published (state_key_internet, v) \<longleftrightarrow> v \<in> {internet_ok, internet_degraded, internet_down}"
  "published (state_key_data_usage, v) \<longleftrightarrow> v \<in> {data_usage_under, data_usage_warning, data_usage_over}"
  "published (state_key_ups, v) \<longleftrightarrow> v \<in> {ups_online, ups_on_battery}"
  "published (state_key_ups_battery, v) \<longleftrightarrow> v \<in> {battery_normal, battery_low, battery_critical}"
  "published (state_key_ups_runtime, v) \<longleftrightarrow> v \<in> {ups_runtime_ample, ups_runtime_short, ups_runtime_critical}"
  "published (state_key_ups_load, v) \<longleftrightarrow> v \<in> {ups_load_normal, ups_load_high}"
  "published (state_key_devices, v) \<longleftrightarrow> v \<in> {devices_all_online, devices_degraded}"
  "published (state_key_firmware, v) \<longleftrightarrow> v \<in> {firmware_current, firmware_updates_available}"
  "published (state_key_temperature, v) \<longleftrightarrow> v \<in> {temperature_normal, temperature_high}"
  "published (state_key_wifi, v) \<longleftrightarrow> v \<in> {wifi_ok, wifi_warning, wifi_error}"
  "published (state_key_poe, v) \<longleftrightarrow> v \<in> {poe_ok, poe_insufficient}"
  by (auto simp: published_def state_vocabulary_def state_key_defs)

lemma published_isp: "published (state_key_isp, isp_from d)"
proof -
  have "slug_shaped isp_unknown" "isp_unknown \<noteq> []" by (simp_all add: isp_unknown_def slug_char_def slug_rune_def)
  then show ?thesis
    by (auto simp: published_def state_vocabulary_def state_key_defs isp_from_def Let_def slugify_shaped)
qed

lemma published_device:
  assumes "slugify name \<noteq> []" and "device_value st = Some v"
  shows "published (state_key_device_prefix @ slugify name, v)"
  using assms by (auto simp: published_def state_vocabulary_def state_key_defs slugify_shaped device_value_def
      split: option.splits if_splits)

lemma int_dec_not_Nil: "int_dec i \<noteq> []"
  by (simp add: int_dec_def)

lemma published_outlet:
  assumes "outlet_suffix index name = Some suffix"
  shows "published (state_key_outlet_prefix @ suffix, if relay then outlet_on else outlet_off)"
proof -
  have "suffix \<noteq> []" using assms by (auto simp: outlet_suffix_def Let_def int_dec_not_Nil split: if_splits)
  then show ?thesis by (auto simp: published_def state_vocabulary_def state_key_defs)
qed

section \<open>The tallies publish the vocabulary\<close>

lemma fine_publish_unshared:
  "list_all published m \<Longrightarrow> fine (fst acc) \<Longrightarrow> fine (fst (publish_unshared signal shared m acc))"
  by (induction signal shared m acc rule: publish_unshared.induct) (auto simp: fine_gm_set)

definition tally_fine :: "scan \<Rightarrow> bool" where
  "tally_fine s = (fine (sc_state s) \<and> list_all published (dt_per_device (sc_fleet s)) \<and>
     list_all published (ot_per_outlet (sc_outlets s)))"

lemma device_observe_fine:
  "list_all published (dt_per_device t) \<Longrightarrow> list_all published (dt_per_device (device_observe d t))"
  by (auto simp: device_observe_def Let_def intro!: list_all_gm_set published_device split: option.splits)

lemma observe_outlet_fine:
  "list_all published (ot_per_outlet t) \<Longrightarrow> list_all published (ot_per_outlet (observe_outlet r t))"
  using published_outlet [of _ _ _ True] published_outlet [of _ _ _ False]
  by (auto simp: observe_outlet_def Let_def intro!: list_all_gm_set split: option.splits)

lemma observe_outlets_fine:
  "list_all published (ot_per_outlet t) \<Longrightarrow> list_all published (ot_per_outlet (fold observe_outlet rs t))"
  by (induction rs arbitrary: t) (simp_all add: observe_outlet_fine)

lemma wan_from_value: "fst (fst (wan_from d)) \<in> {[], wan_primary, wan_backup}"
  by (auto simp: wan_from_def Let_def by_is_uplink_def by_uplink_name_def resolve_signal_def
      split: option.splits list.splits if_splits)

lemma level_published:
  "published (state_key_ups_battery, battery_level c p)"
  "runtime_level c n = [] \<or> published (state_key_ups_runtime, runtime_level c n)"
  "load_level c w b = [] \<or> published (state_key_ups_load, load_level c w b)"
  "fst (data_usage_from sims) = [] \<or> published (state_key_data_usage, fst (data_usage_from sims))"
  "wan_quality_from c u = [] \<or> published (state_key_wan_quality, wan_quality_from c u)"
  "internet_from st = [] \<or> published (state_key_internet, internet_from st)"
  "fst (wifi_from h) = [] \<or> published (state_key_wifi, fst (wifi_from h))"
  "fst (fst (wan_from d)) = [] \<or> published (state_key_wan, fst (fst (wan_from d)))"
  using wan_from_value [of d]
  by (auto simp: battery_level_def runtime_level_def load_level_def data_usage_from_def wan_quality_from_def
      internet_from_def wifi_from_def Let_def published_closed split: option.splits list.splits)

lemmas fine_intros = fine_gm_set fine_set_unless_empty level_published published_isp

lemma scan_fleet_fine: "tally_fine s \<Longrightarrow> tally_fine (scan_fleet d s)"
  by (auto simp: tally_fine_def scan_fleet_def device_observe_fine outlet_observe_def observe_outlets_fine)

lemma scan_gateway_fine: "tally_fine s \<Longrightarrow> tally_fine (scan_gateway d s)"
  by (auto simp: tally_fine_def scan_gateway_def Let_def split_def intro!: fine_intros)

lemma scan_modem_fine: "tally_fine s \<Longrightarrow> tally_fine (scan_modem d s)"
  by (auto simp: tally_fine_def scan_modem_def Let_def split_def intro!: fine_intros split: option.splits)

lemma scan_ups_fine: "tally_fine s \<Longrightarrow> tally_fine (scan_ups c d s)"
  by (auto simp: tally_fine_def scan_ups_def Let_def published_closed(5) intro!: fine_intros split: option.splits)

lemma scan_devices_fine: "tally_fine s \<Longrightarrow> tally_fine (scan_devices c ds s)"
  unfolding scan_devices_def
  by (induction ds arbitrary: s)
    (simp_all add: scan_device_def scan_ups_fine scan_modem_fine scan_gateway_fine scan_fleet_fine)

lemma publish_scan_fine:
  assumes "tally_fine s"
  shows "fine (fst (publish_scan s))"
proof -
  have "fine (fst (device_publish (sc_fleet s) (sc_state s, sc_counted s)))"
    using assms by (auto simp: tally_fine_def device_publish_def Let_def published_closed
        intro!: fine_gm_set fine_publish_unshared)
  moreover have "fine m \<Longrightarrow> fine (firmware_publish f m)" "fine m \<Longrightarrow> fine (temperature_publish t m)"
    "fine m \<Longrightarrow> fine (poe_publish p m)" for m f t p
    by (auto simp: firmware_publish_def temperature_publish_def poe_publish_def published_closed
        intro!: fine_gm_set split: option.splits)
  moreover have "fine (fst acc) \<Longrightarrow> fine (fst (outlet_publish (sc_outlets s) acc))" for acc
    using assms by (auto simp: outlet_publish_def tally_fine_def intro!: fine_publish_unshared)
  ultimately show ?thesis by (simp add: publish_scan_def Let_def split_def)
qed

lemma state_from_devices_fine:
  "case fst (state_from_devices c was ds) of Inl e \<Rightarrow> True | Inr (m, index) \<Rightarrow> fine m"
proof -
  have "tally_fine (new_scan c was)"
    by (simp add: tally_fine_def new_scan_def new_device_tally_def new_outlet_tally_def)
  from publish_scan_fine [OF scan_devices_fine [OF this]] show ?thesis
    by (auto simp: state_from_devices_def Let_def split_def)
qed

lemma merge_subsystem_fine: "fine (fst acc) \<Longrightarrow> fine (fst (merge_subsystem c wan index h acc))"
  by (auto simp: merge_subsystem_def Let_def split_def intro!: fine_intros split: option.splits)

lemma merge_health_fine: "fine (fst acc) \<Longrightarrow> fine (fst (merge_health c wan index hs acc))"
  unfolding merge_health_def by (induction hs arbitrary: acc) (simp_all add: merge_subsystem_fine)

lemma observe_console_fine:
  "case fst (observe_console c was devices health) of
     Inl e \<Rightarrow> True
   | Inr state \<Rightarrow> state \<noteq> [] \<and> fine state"
proof -
  have "fine (fst (merge_health c wan index hs (m, counted)))" if "fine m" for wan index hs m counted
    using that by (simp add: merge_health_fine)
  moreover have "fine m" if "fst (state_from_devices c was ds) = Inr (m, index)" for ds m index
    using state_from_devices_fine [of c was ds] that by simp
  ultimately show ?thesis
    by (auto simp: observe_console_def Let_def split_def split: sum.splits)
qed

text \<open>An observation speaks the published vocabulary. Whatever the two endpoints answer, what
  is observed is an error or a map with at least one key and no key twice, in which every
  key of the closed vocabulary has one of its own values, and every other entry is the
  carrier's slug, a device's \<open>online\<close> or \<open>offline\<close> under a slug, or an outlet's \<open>on\<close> or \<open>off\<close>.\<close>

theorem observation_is_in_vocabulary:
  "case fst (observe_console c was devices health) of
     Inl e \<Rightarrow> True
   | Inr state \<Rightarrow> state \<noteq> [] \<and> gm_wf state \<and> list_all published state"
  using observe_console_fine [unfolded fine_def] .

end
