(* ===== verification/FleetFacts.thy ===== *)
theory FleetFacts
  imports Observed
begin

text \<open>
  What the fleet keys say, exactly: the value of \<open>devices\<close>, \<open>firmware\<close>, \<open>device.<name>\<close>,
  \<open>outlet.<n>\<close> and \<open>poe\<close> as a function of the device records, whatever their order.
\<close>

section \<open>One key each\<close>

definition note_entry :: "string \<times> string \<Rightarrow> gomap \<times> string list \<Rightarrow> gomap \<times> string list" where
  "note_entry e t =
     (gm_set (fst e) (snd e) (fst t), if map_of (fst t) (fst e) \<noteq> None then fst e # snd t else snd t)"

definition entries_for :: "string \<Rightarrow> (string \<times> string) list \<Rightarrow> (string \<times> string) list" where
  "entries_for k es = filter (\<lambda>e. fst e = k) es"

lemma note_entries:
  "gm_wf (fst (fold note_entry es ([], []))) \<and>
   map_of (fst (fold note_entry es ([], []))) k =
     (if entries_for k es = [] then None else Some (snd (last (entries_for k es)))) \<and>
   (k \<in> set (snd (fold note_entry es ([], []))) \<longleftrightarrow> 2 \<le> length (entries_for k es))"
proof (induction es arbitrary: k rule: rev_induct)
  case Nil
  then show ?case by (simp add: entries_for_def gm_wf_def)
next
  case (snoc e es)
  show ?case
    using snoc [of k] by (cases "fst e = k") (auto simp: note_entry_def entries_for_def gm_wf_set Suc_le_eq)
qed

lemma publish_unshared_at:
  "gm_wf m \<Longrightarrow> map_of (fst (publish_unshared signal shared m acc)) k =
     (if k \<in> set shared then map_of (fst acc) k
      else case map_of m k of None \<Rightarrow> map_of (fst acc) k | Some v \<Rightarrow> Some v)"
proof (induction signal shared m acc rule: publish_unshared.induct)
  case (2 signal shared key val rest state counted)
  have "map_of rest key = None" "gm_wf rest" using 2(3) by (auto simp: gm_wf_def map_of_eq_None_iff)
  then show ?case using 2(1,2) by (cases "k = key") (auto split: option.splits)
qed simp

text \<open>Published: the value of the one entry of the key, and nothing for none or for several.\<close>

definition only_value :: "(string \<times> string) list \<Rightarrow> string option" where
  "only_value es = (case es of [e] \<Rightarrow> Some (snd e) | _ \<Rightarrow> None)"

lemma published_entries:
  assumes "(m, shared) = fold note_entry es ([], [])" and "map_of (fst acc) k = None"
  shows "map_of (fst (publish_unshared signal shared m acc)) k = only_value (entries_for k es)"
proof -
  note at = note_entries [of es k, unfolded assms(1) [symmetric] fst_conv snd_conv]
  show ?thesis
  proof (cases "entries_for k es")
    case Nil
    then show ?thesis using at assms(2) by (simp add: publish_unshared_at only_value_def)
  next
    case (Cons e rest)
    then show ?thesis
      using at assms(2) by (cases rest) (auto simp: publish_unshared_at only_value_def)
  qed
qed

section \<open>What the scan gathers\<close>

definition device_entry :: "device_record \<Rightarrow> (string \<times> string) option" where
  "device_entry d =
     (case device_value (dr_state d) of
        None \<Rightarrow> None
      | Some v \<Rightarrow> if slugify (dr_name d) = [] then None
                  else Some (state_key_device_prefix @ slugify (dr_name d), v))"

definition outlet_entry :: "outlet_record \<Rightarrow> (string \<times> string) option" where
  "outlet_entry r =
     (case (outlet_suffix (or_index r) (or_name r), or_relay_state r) of
        (Some suffix, Some relay) \<Rightarrow> Some (state_key_outlet_prefix @ suffix, if relay then outlet_on else outlet_off)
      | _ \<Rightarrow> None)"

definition known :: "device_record \<Rightarrow> bool" where
  "known d = (device_value (dr_state d) \<noteq> None)"

definition offline :: "device_record \<Rightarrow> bool" where
  "offline d = (device_value (dr_state d) = Some device_offline)"

lemma device_tally_spec:
  "(dt_per_device (fold device_observe ds t), dt_shared (fold device_observe ds t)) =
     fold note_entry (List.map_filter device_entry ds) (dt_per_device t, dt_shared t)"
  "dt_counted (fold device_observe ds t) = dt_counted t + int (length (filter known ds))"
  "dt_offline (fold device_observe ds t) = dt_offline t + int (length (filter offline ds))"
  "dt_per_device_keys (fold device_observe ds t) = dt_per_device_keys t"
proof (induction ds arbitrary: t)
  case (Cons d ds)
  {
    case 1
    show ?case using Cons(1) [of "device_observe d t"]
      by (auto simp: device_observe_def device_entry_def note_entry_def Let_def List.map_filter_def
          split: option.splits)
  next
    case 2
    show ?case using Cons(2) [of "device_observe d t"]
      by (auto simp: device_observe_def known_def Let_def split: option.splits)
  next
    case 3
    show ?case using Cons(3) [of "device_observe d t"]
      by (auto simp: device_observe_def offline_def Let_def split: option.splits)
  next
    case 4
    show ?case using Cons(4) [of "device_observe d t"]
      by (auto simp: device_observe_def Let_def split: option.splits)
  }
qed (simp_all add: List.map_filter_def)

lemma outlet_tally_spec:
  "(ot_per_outlet (fold observe_outlet rs t), ot_shared (fold observe_outlet rs t)) =
     fold note_entry (List.map_filter outlet_entry rs) (ot_per_outlet t, ot_shared t)"
proof (induction rs arbitrary: t)
  case (Cons r rs)
  show ?case using Cons [of "observe_outlet r t"]
    by (auto simp: observe_outlet_def outlet_entry_def note_entry_def Let_def List.map_filter_def
        split: option.splits)
qed (simp add: List.map_filter_def)

text \<open>The loop hands each tally the adopted devices, in order.\<close>

lemma scan_frames:
  "sc_fleet (scan_ups c d s) = sc_fleet s" "sc_fleet (scan_modem d s) = sc_fleet s" "sc_fleet (scan_gateway d s) = sc_fleet s"
  "sc_firmware (scan_ups c d s) = sc_firmware s" "sc_firmware (scan_modem d s) = sc_firmware s"
  "sc_firmware (scan_gateway d s) = sc_firmware s"
  "sc_poe (scan_ups c d s) = sc_poe s" "sc_poe (scan_modem d s) = sc_poe s" "sc_poe (scan_gateway d s) = sc_poe s"
  "sc_heat (scan_ups c d s) = sc_heat s" "sc_heat (scan_modem d s) = sc_heat s" "sc_heat (scan_gateway d s) = sc_heat s"
  "sc_outlets (scan_ups c d s) = sc_outlets s" "sc_outlets (scan_modem d s) = sc_outlets s"
  "sc_outlets (scan_gateway d s) = sc_outlets s"
  by (simp_all add: scan_ups_def scan_modem_def scan_gateway_def Let_def split_def split: option.splits)

lemma scan_tallies:
  "sc_fleet (scan_devices c ds s) = fold device_observe (filter adopted ds) (sc_fleet s)"
  "sc_firmware (scan_devices c ds s) = fold firmware_observe (filter adopted ds) (sc_firmware s)"
  "sc_poe (scan_devices c ds s) = fold poe_observe (filter adopted ds) (sc_poe s)"
  "sc_heat (scan_devices c ds s) = fold temperature_observe (filter adopted ds) (sc_heat s)"
  "sc_outlets (scan_devices c ds s) = fold outlet_observe (filter adopted ds) (sc_outlets s)"
  unfolding scan_devices_def
  by (induction ds arbitrary: s) (simp_all add: scan_device_def scan_frames scan_fleet_def)

text \<open>The loop itself publishes the keys of one gateway, one modem and one UPS, and no other.\<close>

definition single_keys :: "string set" where
  "single_keys = {state_key_wan, state_key_isp, state_key_data_usage, state_key_ups, state_key_ups_battery,
     state_key_ups_runtime, state_key_ups_load}"

lemma scan_device_keys:
  assumes "k \<notin> single_keys"
  shows "map_of (sc_state (scan_ups c d s)) k = map_of (sc_state s) k"
    "map_of (sc_state (scan_modem d s)) k = map_of (sc_state s) k"
    "map_of (sc_state (scan_gateway d s)) k = map_of (sc_state s) k"
    "map_of (sc_state (scan_fleet d s)) k = map_of (sc_state s) k"
  using assms
  by (simp_all add: scan_ups_def scan_modem_def scan_gateway_def scan_fleet_def single_keys_def set_unless_empty_def
      Let_def split_def split: option.splits)

lemma scan_keys:
  assumes "k \<notin> single_keys"
  shows "map_of (sc_state (scan_devices c ds s)) k = map_of (sc_state s) k"
  unfolding scan_devices_def
  by (induction ds arbitrary: s) (simp_all add: scan_device_def scan_device_keys [OF assms])

definition observed_key :: "unifi_client \<Rightarrow> previous \<Rightarrow> device_record list \<Rightarrow> string \<Rightarrow> string option" where
  "observed_key c was ds k =
     (case fst (state_from_devices c was ds) of Inl e \<Rightarrow> None | Inr (state, index) \<Rightarrow> map_of state k)"

lemma observed_key_scan:
  "observed_key c was ds k = map_of (fst (publish_scan (scan_devices c ds (new_scan c was)))) k"
  by (simp add: observed_key_def state_from_devices_def Let_def split_def)

lemma unshared_other:
  assumes "(m, shared) = fold note_entry es ([], [])" and "entries_for k es = []"
  shows "map_of (fst (publish_unshared signal shared m acc)) k = map_of (fst acc) k"
  using note_entries [of es k, unfolded assms(1) [symmetric] fst_conv snd_conv] assms(2)
  by (simp add: publish_unshared_at)

lemma device_entries_prefix:
  "\<not> has_prefix k state_key_device_prefix \<Longrightarrow> entries_for k (List.map_filter device_entry ds) = []"
  by (auto simp: entries_for_def filter_empty_conv map_filter_def device_entry_def has_prefix_iff
      split: option.splits if_splits)

lemma outlet_entries_prefix:
  "\<not> has_prefix k state_key_outlet_prefix \<Longrightarrow> entries_for k (List.map_filter outlet_entry rs) = []"
  by (auto simp: entries_for_def filter_empty_conv map_filter_def outlet_entry_def has_prefix_iff
      split: option.splits)

lemma outlets_claimed: "ot_claimed t \<Longrightarrow> fold outlet_observe ds t = t"
  by (induction ds) (simp_all add: outlet_observe_def)

lemma claimed_kept: "ot_claimed (fold observe_outlet rs t) = ot_claimed t"
  by (induction rs arbitrary: t) (simp_all add: observe_outlet_def Let_def split: option.splits)

definition bears_outlets :: "device_record \<Rightarrow> bool" where
  "bears_outlets d = (dr_outlet_table d \<noteq> [])"

lemma outlets_first:
  "\<not> ot_claimed t \<Longrightarrow> fold outlet_observe ds t =
     (case filter bears_outlets ds of
        [] \<Rightarrow> t
      | d # rest \<Rightarrow> fold observe_outlet (dr_outlet_table d) (t\<lparr>ot_claimed := True\<rparr>))"
  by (induction ds) (auto simp: outlet_observe_def bears_outlets_def outlets_claimed claimed_kept)

text \<open>The entries the outlet tally has seen, and whether it has seen a table.\<close>

definition outlet_entries :: "device_record list \<Rightarrow> (string \<times> string) list" where
  "outlet_entries ds =
     (case filter bears_outlets ds of [] \<Rightarrow> [] | d # rest \<Rightarrow> List.map_filter outlet_entry (dr_outlet_table d))"

lemma outlet_publish_spec:
  assumes "t = fold outlet_observe ds new_outlet_tally"
  shows "entries_for k (outlet_entries ds) = [] \<Longrightarrow> map_of (fst (outlet_publish t acc)) k = map_of (fst acc) k"
    and "map_of (fst acc) k = None \<Longrightarrow> map_of (fst (outlet_publish t acc)) k = only_value (entries_for k (outlet_entries ds))"
proof -
  have start: "\<not> ot_claimed new_outlet_tally" by (simp add: new_outlet_tally_def)
  have "(entries_for k (outlet_entries ds) = [] \<longrightarrow> map_of (fst (outlet_publish t acc)) k = map_of (fst acc) k) \<and>
    (map_of (fst acc) k = None \<longrightarrow>
       map_of (fst (outlet_publish t acc)) k = only_value (entries_for k (outlet_entries ds)))"
  proof (cases "filter bears_outlets ds")
    case Nil
    then have "t = new_outlet_tally" unfolding assms outlets_first [OF start] by simp
    with Nil start show ?thesis
      by (simp add: outlet_publish_def outlet_entries_def only_value_def entries_for_def)
  next
    case (Cons d rest)
    have t: "t = fold observe_outlet (dr_outlet_table d) (new_outlet_tally\<lparr>ot_claimed := True\<rparr>)"
      unfolding assms outlets_first [OF start] Cons by simp
    have es: "outlet_entries ds = List.map_filter outlet_entry (dr_outlet_table d)"
      unfolding outlet_entries_def Cons by simp
    have noted: "(ot_per_outlet t, ot_shared t) = fold note_entry (outlet_entries ds) ([], [])"
      unfolding t es outlet_tally_spec by (simp add: new_outlet_tally_def)
    have "ot_claimed t" unfolding t claimed_kept by simp
    then show ?thesis
      using unshared_other [OF noted] published_entries [OF noted] by (simp add: outlet_publish_def)
  qed
  then show "entries_for k (outlet_entries ds) = [] \<Longrightarrow> map_of (fst (outlet_publish t acc)) k = map_of (fst acc) k"
    and "map_of (fst acc) k = None \<Longrightarrow> map_of (fst (outlet_publish t acc)) k = only_value (entries_for k (outlet_entries ds))"
    by blast+
qed

lemma outlet_entries_none:
  "\<not> has_prefix k state_key_outlet_prefix \<Longrightarrow> entries_for k (outlet_entries ds) = []"
  by (cases "filter bears_outlets ds") (simp_all add: outlet_entries_def outlet_entries_prefix, simp add: entries_for_def)

text \<open>The keys the tallies other than the outlets' publish, at a key that is no outlet's.\<close>

lemma bucket_other:
  "k \<noteq> state_key_firmware \<Longrightarrow> map_of (firmware_publish f m) k = map_of m k"
  "k \<noteq> state_key_temperature \<Longrightarrow> map_of (temperature_publish h m) k = map_of m k"
  "k \<noteq> state_key_poe \<Longrightarrow> map_of (poe_publish p m) k = map_of m k"
  by (simp_all add: firmware_publish_def temperature_publish_def poe_publish_def)

lemma device_publish_spec:
  assumes "t = fold device_observe ds (new_device_tally per_device)"
  shows "k \<noteq> state_key_devices \<Longrightarrow> map_of (fst acc) k = None \<Longrightarrow> map_of (fst (device_publish t acc)) k =
      (if per_device then only_value (entries_for k (List.map_filter device_entry ds)) else None)"
    and "map_of (fst acc) state_key_devices = None \<Longrightarrow> map_of (fst (device_publish t acc)) state_key_devices =
      (if filter known ds = [] then None
       else Some (if filter offline ds = [] then devices_all_online else devices_degraded))"
proof -
  have noted: "(dt_per_device t, dt_shared t) = fold note_entry (List.map_filter device_entry ds) ([], [])"
    unfolding assms device_tally_spec by (simp add: new_device_tally_def)
  have counts: "dt_counted t = int (length (filter known ds))" "dt_offline t = int (length (filter offline ds))"
    "dt_per_device_keys t = per_device"
    unfolding assms device_tally_spec by (simp_all add: new_device_tally_def)
  have silent: "List.map_filter device_entry ds = []" if "filter known ds = []"
    using that by (induction ds) (auto simp: List.map_filter_def known_def device_entry_def split: if_splits)
  have none: "entries_for state_key_devices (List.map_filter device_entry ds) = []"
    by (rule device_entries_prefix) (simp add: state_key_defs)
  show "k \<noteq> state_key_devices \<Longrightarrow> map_of (fst acc) k = None \<Longrightarrow> map_of (fst (device_publish t acc)) k =
      (if per_device then only_value (entries_for k (List.map_filter device_entry ds)) else None)"
    using silent published_entries [OF noted]
    by (auto simp: device_publish_def counts Let_def only_value_def entries_for_def)
  show "map_of (fst acc) state_key_devices = None \<Longrightarrow> map_of (fst (device_publish t acc)) state_key_devices =
      (if filter known ds = [] then None
       else Some (if filter offline ds = [] then devices_all_online else devices_degraded))"
    using unshared_other [OF noted none] by (auto simp: device_publish_def counts Let_def)
qed

section \<open>The fleet keys\<close>

text \<open>The key, read back through the tallies published after the devices.\<close>

abbreviation fleet_of :: "unifi_client \<Rightarrow> device_record list \<Rightarrow> device_tally" where
  "fleet_of c ds \<equiv> fold device_observe (filter adopted ds) (new_device_tally (uc_per_device_keys c))"

abbreviation firmware_of :: "device_record list \<Rightarrow> firmware_tally" where
  "firmware_of ds \<equiv> fold firmware_observe (filter adopted ds) \<lparr>fw_reporting = 0, fw_upgradable = 0\<rparr>"

abbreviation poe_of_fleet :: "unifi_client \<Rightarrow> device_record list \<Rightarrow> poe_tally" where
  "poe_of_fleet c ds \<equiv> fold poe_observe (filter adopted ds) (new_poe_tally (uc_max_poe c))"

definition gathered :: "unifi_client \<Rightarrow> previous \<Rightarrow> device_record list \<Rightarrow> gomap \<times> string list" where
  "gathered c was ds =
     (sc_state (scan_devices c ds (new_scan c was)), sc_counted (scan_devices c ds (new_scan c was)))"

lemma gathered_none: "k \<notin> single_keys \<Longrightarrow> map_of (fst (gathered c was ds)) k = None"
  by (simp add: gathered_def scan_keys) (simp add: new_scan_def)

lemma observed_key_published:
  assumes "\<not> has_prefix k state_key_outlet_prefix"
  shows "observed_key c was ds k =
      map_of (poe_publish (poe_of_fleet c ds)
        (temperature_publish (fold temperature_observe (filter adopted ds) (new_temperature_tally (uc_high_temperature c)))
          (firmware_publish (firmware_of ds) (fst (device_publish (fleet_of c ds) (gathered c was ds)))))) k"
  using outlet_publish_spec(1) [OF refl outlet_entries_none [OF assms]]
  by (simp add: observed_key_scan publish_scan_def Let_def split_def scan_tallies gathered_def) (simp add: new_scan_def)

lemma observed_devices:
  assumes "\<not> has_prefix k state_key_outlet_prefix" and "k \<notin> {state_key_firmware, state_key_temperature, state_key_poe}"
  shows "observed_key c was ds k = map_of (fst (device_publish (fleet_of c ds) (gathered c was ds))) k"
  using assms by (simp add: observed_key_published bucket_other)

lemma unpublished:
  assumes "k \<notin> single_keys" and "k \<noteq> state_key_devices" and "\<not> has_prefix k state_key_device_prefix"
  shows "map_of (fst (device_publish (fleet_of c ds) (gathered c was ds))) k = None"
  using device_publish_spec(1) [OF refl assms(2) gathered_none [OF assms(1)]] device_entries_prefix [OF assms(3)]
  by (simp add: only_value_def)

lemma firmware_spec:
  "fw_reporting (fold firmware_observe ds t) = fw_reporting t + int (length (filter (\<lambda>d. dr_upgradable d \<noteq> None) ds))"
  "fw_upgradable (fold firmware_observe ds t) = fw_upgradable t + int (length (filter (\<lambda>d. dr_upgradable d = Some True) ds))"
  by (induction ds arbitrary: t) (auto simp: firmware_observe_def Let_def split: option.splits)

lemma only_value_device:
  "only_value (entries_for (state_key_device_prefix @ slug) (List.map_filter device_entry ds)) =
     (if slug = [] then None
      else case filter (\<lambda>d. known d \<and> slugify (dr_name d) = slug) ds of
        [d] \<Rightarrow> device_value (dr_state d)
      | _ \<Rightarrow> None)"
proof (cases "slug = []")
  case True
  then show ?thesis
    by (auto simp: only_value_def entries_for_def filter_empty_conv map_filter_def device_entry_def
        split: list.splits option.splits if_splits)
next
  case False
  have "entries_for (state_key_device_prefix @ slug) (List.map_filter device_entry ds) =
      map (\<lambda>d. (state_key_device_prefix @ slug, the (device_value (dr_state d))))
        (filter (\<lambda>d. known d \<and> slugify (dr_name d) = slug) ds)"
    using False by (induction ds)
      (auto simp: entries_for_def List.map_filter_def device_entry_def known_def split: option.splits)
  moreover have "device_value (dr_state d) = Some (the (device_value (dr_state d)))"
    if "filter (\<lambda>d. known d \<and> slugify (dr_name d) = slug) ds = [d]" for d
  proof -
    have "d \<in> set (filter (\<lambda>d. known d \<and> slugify (dr_name d) = slug) ds)" using that by simp
    then show ?thesis by (auto simp: known_def)
  qed
  ultimately show ?thesis using False by (auto simp: only_value_def split: list.splits)
qed

lemma fleet_keys_read:
  "observed_key c was ds state_key_devices =
     (if filter (\<lambda>d. adopted d \<and> known d) ds = [] then None
      else Some (if list_ex (\<lambda>d. adopted d \<and> offline d) ds then devices_degraded else devices_all_online)) \<and>
   observed_key c was ds state_key_firmware =
     (if filter (\<lambda>d. adopted d \<and> dr_upgradable d \<noteq> None) ds = [] then None
      else Some (if list_ex (\<lambda>d. adopted d \<and> dr_upgradable d = Some True) ds
                 then firmware_updates_available else firmware_current)) \<and>
   observed_key c was ds (state_key_device_prefix @ slug) =
     (if uc_per_device_keys c \<and> slug \<noteq> []
      then case filter (\<lambda>d. adopted d \<and> known d \<and> slugify (dr_name d) = slug) ds of
        [d] \<Rightarrow> device_value (dr_state d)
      | _ \<Rightarrow> None
      else None)"
proof (intro conjI)
  have other: "filter (\<lambda>d. adopted d \<and> P d) ds = filter P (filter adopted ds)" for P by (simp add: conj_commute)
  have ex: "list_ex (\<lambda>d. adopted d \<and> P d) ds \<longleftrightarrow> filter P (filter adopted ds) \<noteq> []" for P
    by (auto simp: list_ex_iff filter_empty_conv)
  have "observed_key c was ds state_key_devices = map_of (fst (device_publish (fleet_of c ds) (gathered c was ds))) state_key_devices"
    by (rule observed_devices) (simp_all add: state_key_defs)
  moreover have "map_of (fst (gathered c was ds)) state_key_devices = None"
    by (rule gathered_none) (simp add: single_keys_def state_key_defs)
  ultimately show "observed_key c was ds state_key_devices =
     (if filter (\<lambda>d. adopted d \<and> known d) ds = [] then None
      else Some (if list_ex (\<lambda>d. adopted d \<and> offline d) ds then devices_degraded else devices_all_online))"
    unfolding other ex by (simp add: device_publish_spec(2) [OF refl])
  have "observed_key c was ds state_key_firmware =
      map_of (firmware_publish (firmware_of ds) (fst (device_publish (fleet_of c ds) (gathered c was ds)))) state_key_firmware"
    by (subst observed_key_published) (simp_all add: bucket_other state_key_defs)
  moreover have "map_of (fst (device_publish (fleet_of c ds) (gathered c was ds))) state_key_firmware = None"
    by (rule unpublished) (simp_all add: single_keys_def state_key_defs)
  ultimately show "observed_key c was ds state_key_firmware =
     (if filter (\<lambda>d. adopted d \<and> dr_upgradable d \<noteq> None) ds = [] then None
      else Some (if list_ex (\<lambda>d. adopted d \<and> dr_upgradable d = Some True) ds
                 then firmware_updates_available else firmware_current))"
    unfolding other ex by (simp add: firmware_publish_def firmware_spec)
  have "observed_key c was ds (state_key_device_prefix @ slug) =
      map_of (fst (device_publish (fleet_of c ds) (gathered c was ds))) (state_key_device_prefix @ slug)"
    by (rule observed_devices) (simp_all add: state_key_defs)
  also have "\<dots> = (if uc_per_device_keys c
      then only_value (entries_for (state_key_device_prefix @ slug) (List.map_filter device_entry (filter adopted ds)))
      else None)"
    by (intro device_publish_spec(1) [OF refl] gathered_none) (simp_all add: single_keys_def state_key_defs)
  finally show "observed_key c was ds (state_key_device_prefix @ slug) =
     (if uc_per_device_keys c \<and> slug \<noteq> []
      then case filter (\<lambda>d. adopted d \<and> known d \<and> slugify (dr_name d) = slug) ds of
        [d] \<Rightarrow> device_value (dr_state d)
      | _ \<Rightarrow> None
      else None)"
    unfolding other only_value_device by simp
qed

text \<open>What the states mean, by the console's numbers: one is online, zero is offline.\<close>

definition says_online :: "device_record \<Rightarrow> bool" where
  "says_online d = (dr_state d = Some 1)"

definition says_offline :: "device_record \<Rightarrow> bool" where
  "says_offline d = (dr_state d = Some 0)"

lemma states_read:
  "known d = (says_online d \<or> says_offline d)" "offline d = says_offline d"
  "device_value (dr_state d) =
     (if says_online d then Some device_online else if says_offline d then Some device_offline else None)"
  by (auto simp: known_def offline_def device_value_def says_online_def says_offline_def device_state_online_def
      device_state_offline_def device_online_def device_offline_def split: option.splits)

text \<open>C28: The fleet keys say what the adopted devices say. \<open>devices\<close> is published exactly when
  some adopted device is in a state that means online or offline, and is \<open>degraded\<close>
  exactly when one is offline; \<open>firmware\<close> is published exactly when some adopted device
  answers whether it is upgradable, and reports updates exactly when one says so; and a
  device's own key, published only when the install asks for them, holds the state of
  the one such device of that slug, and is absent when there is none or more than one.
  A device that is not adopted, transient or silent changes none of them.\<close>

theorem fleet_keys_exact:
  "observed_key c was ds state_key_devices =
     (if filter (\<lambda>d. adopted d \<and> (says_online d \<or> says_offline d)) ds = [] then None
      else Some (if list_ex (\<lambda>d. adopted d \<and> says_offline d) ds then devices_degraded else devices_all_online)) \<and>
   observed_key c was ds state_key_firmware =
     (if filter (\<lambda>d. adopted d \<and> dr_upgradable d \<noteq> None) ds = [] then None
      else Some (if list_ex (\<lambda>d. adopted d \<and> dr_upgradable d = Some True) ds
                 then firmware_updates_available else firmware_current)) \<and>
   observed_key c was ds (state_key_device_prefix @ slug) =
     (if uc_per_device_keys c \<and> slug \<noteq> []
      then case filter (\<lambda>d. adopted d \<and> (says_online d \<or> says_offline d) \<and> slugify (dr_name d) = slug) ds of
        [d] \<Rightarrow> Some (if says_online d then device_online else device_offline)
      | _ \<Rightarrow> None
      else None)"
proof -
  let ?F = "filter (\<lambda>d. adopted d \<and> (says_online d \<or> says_offline d) \<and> slugify (dr_name d) = slug) ds"
  have one: "says_online d \<or> says_offline d" if "?F = d # rest" for d rest
    using arg_cong [OF that, of set] by auto
  have eq: "(case ?F of
        [d] \<Rightarrow> if says_online d then Some device_online else if says_offline d then Some device_offline else None
      | _ \<Rightarrow> None) = (case ?F of [d] \<Rightarrow> Some (if says_online d then device_online else device_offline) | _ \<Rightarrow> None)"
    using one by (cases ?F) (simp, simp split: list.split, blast)
  show ?thesis using fleet_keys_read [of c was ds slug] unfolding states_read eq .
qed

section \<open>Outlets\<close>

definition readable_as :: "string \<Rightarrow> outlet_record \<Rightarrow> bool" where
  "readable_as suffix r = (outlet_suffix (or_index r) (or_name r) = Some suffix \<and> or_relay_state r \<noteq> None)"

lemma only_value_outlet:
  "only_value (entries_for (state_key_outlet_prefix @ suffix) (List.map_filter outlet_entry rs)) =
     (case filter (readable_as suffix) rs of
        [r] \<Rightarrow> Some (if or_relay_state r = Some True then outlet_on else outlet_off)
      | _ \<Rightarrow> None)"
proof -
  have "entries_for (state_key_outlet_prefix @ suffix) (List.map_filter outlet_entry rs) =
      map (\<lambda>r. (state_key_outlet_prefix @ suffix, if or_relay_state r = Some True then outlet_on else outlet_off))
        (filter (readable_as suffix) rs)"
    by (induction rs)
      (auto simp: entries_for_def List.map_filter_def outlet_entry_def readable_as_def split: option.splits)
  then show ?thesis by (auto simp: only_value_def split: list.splits)
qed

text \<open>C29: An outlet key never speaks for another outlet. The outlets published are those of the
  first adopted device that lists any; a key holds the position of the one outlet that
  is addressed by it and reports one, and is absent when there is none or more than one,
  so an outlet that does not say is not off, and two outlets of one name are neither.\<close>

theorem outlet_keys_exact:
  "observed_key c was ds (state_key_outlet_prefix @ suffix) =
     (case filter (\<lambda>d. adopted d \<and> bears_outlets d) ds of
        [] \<Rightarrow> None
      | d # rest \<Rightarrow>
          (case filter (readable_as suffix) (dr_outlet_table d) of
             [r] \<Rightarrow> Some (if or_relay_state r = Some True then outlet_on else outlet_off)
           | _ \<Rightarrow> None))"
proof -
  let ?k = "state_key_outlet_prefix @ suffix" and ?A = "filter adopted ds"
  let ?acc = "(poe_publish (poe_of_fleet c ds)
        (temperature_publish (fold temperature_observe ?A (new_temperature_tally (uc_high_temperature c)))
          (firmware_publish (firmware_of ds) (fst (device_publish (fleet_of c ds) (gathered c was ds))))),
      snd (device_publish (fleet_of c ds) (gathered c was ds)))"
  have "map_of (fst ?acc) ?k = map_of (fst (device_publish (fleet_of c ds) (gathered c was ds))) ?k"
    by (simp add: bucket_other state_key_defs)
  also have "\<dots> = None"
    by (rule unpublished) (simp_all add: single_keys_def state_key_defs)
  finally have free: "map_of (fst ?acc) ?k = None" .
  have "observed_key c was ds ?k = map_of (fst (outlet_publish (fold outlet_observe ?A new_outlet_tally) ?acc)) ?k"
    by (simp add: observed_key_scan publish_scan_def Let_def split_def scan_tallies gathered_def) (simp add: new_scan_def)
  also have "\<dots> = only_value (entries_for ?k (outlet_entries ?A))"
    by (rule outlet_publish_spec(2) [OF refl free])
  finally show ?thesis
    by (cases "filter bears_outlets ?A")
      (simp_all add: outlet_entries_def only_value_outlet conj_commute, simp add: only_value_def entries_for_def)
qed

section \<open>PoE\<close>

definition measured :: "device_record \<Rightarrow> bool" where
  "measured d = (\<not> f_le (pd_budget (poe_of d)) (Fin 0) \<and> pd_measurable (poe_of d))"

definition used_share :: "device_record \<Rightarrow> f64" where
  "used_share d = utilization (poe_of d)"

lemma poe_observe_unmeasured: "\<not> measured d \<Longrightarrow> poe_observe d t = t"
  by (auto simp: poe_observe_def measured_def Let_def)

lemma poe_observe_measured:
  "measured d \<Longrightarrow> poe_observe d t = t\<lparr>po_switches := po_switches t + 1, po_worst := (case po_worst t of
      None \<Rightarrow> Some (used_share d) | Some w \<Rightarrow> if f_less w (used_share d) then Some (used_share d) else Some w)\<rparr>"
  unfolding used_share_def by (simp add: poe_observe_def measured_def Let_def)

definition reaches :: "f64 \<Rightarrow> f64 option \<Rightarrow> bool" where
  "reaches m worst = (case worst of None \<Rightarrow> False | Some w \<Rightarrow> f_le m w)"

lemma poe_observe_reaches:
  assumes "measured d" and "used_share d \<noteq> NaN" and "po_worst t \<noteq> Some NaN"
  shows "reaches m (po_worst (poe_observe d t)) \<longleftrightarrow> reaches m (po_worst t) \<or> f_le m (used_share d)"
proof (cases "po_worst t")
  case (Some w)
  then have w: "w \<noteq> NaN" using assms(3) by simp
  show ?thesis
  proof (cases "f_less w (used_share d)")
    case True
    then have "f_le w (used_share d)" using w assms(2) by (simp add: f_le_def)
    then show ?thesis using True f_le_trans Some
      by (auto simp: poe_observe_measured [OF assms(1)] reaches_def)
  next
    case False
    then have "f_le (used_share d) w" using w assms(2) by (simp add: f_not_less)
    then show ?thesis using False f_le_trans Some
      by (auto simp: poe_observe_measured [OF assms(1)] reaches_def)
  qed
qed (simp add: poe_observe_measured [OF assms(1)] reaches_def)

lemma poe_observe_clean:
  assumes "measured d \<Longrightarrow> used_share d \<noteq> NaN" and "po_worst t \<noteq> Some NaN"
  shows "po_worst (poe_observe d t) \<noteq> Some NaN"
proof (cases "measured d")
  case True
  then show ?thesis using assms by (auto simp: poe_observe_measured split: option.splits)
qed (simp add: poe_observe_unmeasured assms)

lemma poe_spec:
  assumes "list_all (\<lambda>d. used_share d \<noteq> NaN) (filter measured ds)" and "po_worst t \<noteq> Some NaN"
  shows "po_switches (fold poe_observe ds t) = po_switches t + int (length (filter measured ds)) \<and>
    po_maximum (fold poe_observe ds t) = po_maximum t \<and>
    (reaches m (po_worst (fold poe_observe ds t)) \<longleftrightarrow>
      reaches m (po_worst t) \<or> list_ex (\<lambda>d. measured d \<and> f_le m (used_share d)) ds)"
  using assms
proof (induction ds arbitrary: t)
  case (Cons d ds)
  show ?case
  proof (cases "measured d")
    case True
    then have d: "used_share d \<noteq> NaN" and rest: "list_all (\<lambda>d. used_share d \<noteq> NaN) (filter measured ds)"
      using Cons.prems(1) by simp_all
    show ?thesis
      using Cons.IH [OF rest poe_observe_clean [OF d Cons.prems(2)]]
        poe_observe_reaches [OF True d Cons.prems(2)] True
      by (auto simp: poe_observe_measured)
  next
    case False
    then show ?thesis using Cons by (simp add: poe_observe_unmeasured)
  qed
qed simp

lemma observed_poe:
  "observed_key c was ds state_key_poe =
     (if po_switches (poe_of_fleet c ds) = 0 then None
      else Some (if reaches (po_maximum (poe_of_fleet c ds)) (po_worst (poe_of_fleet c ds)) then poe_insufficient else poe_ok))"
proof -
  let ?A = "filter adopted ds"
  have "observed_key c was ds state_key_poe = map_of (poe_publish (poe_of_fleet c ds)
        (temperature_publish (fold temperature_observe ?A (new_temperature_tally (uc_high_temperature c)))
          (firmware_publish (firmware_of ds) (fst (device_publish (fleet_of c ds) (gathered c was ds)))))) state_key_poe"
    by (rule observed_key_published) (simp add: state_key_defs)
  moreover have "map_of (temperature_publish (fold temperature_observe ?A (new_temperature_tally (uc_high_temperature c)))
      (firmware_publish (firmware_of ds) (fst (device_publish (fleet_of c ds) (gathered c was ds))))) state_key_poe = None"
    by (subst bucket_other, simp add: state_key_defs, subst bucket_other, simp add: state_key_defs)
      (rule unpublished; simp add: single_keys_def state_key_defs)
  moreover have "map_of (poe_publish p m) state_key_poe =
      (if po_switches p = 0 then map_of m state_key_poe
       else Some (if reaches (po_maximum p) (po_worst p) then poe_insufficient else poe_ok))" for p m
    by (simp add: poe_publish_def reaches_def split: option.splits)
  ultimately show ?thesis by simp
qed

text \<open>The worst switch decides. When every reading is a number, \<open>poe\<close> is published exactly
  when some adopted switch reports a budget and the draw of every powered port, and is
  \<open>insufficient\<close> exactly when one of them delivers the configured share of its budget or
  more; a switch with a port that will not say is counted as neither.\<close>

theorem poe_worst_switch_decides:
  assumes "list_all (\<lambda>d. used_share d \<noteq> NaN) (filter measured (filter adopted ds))"
  shows "observed_key c was ds state_key_poe =
     (if filter measured (filter adopted ds) = [] then None
      else Some (if list_ex (\<lambda>d. measured d \<and>
             f_le (float_or default_max_poe_utilization_percent (uc_max_poe c)) (used_share d)) (filter adopted ds)
           then poe_insufficient else poe_ok))"
proof -
  let ?m = "float_or default_max_poe_utilization_percent (uc_max_poe c)"
  have start: "po_worst (new_poe_tally (uc_max_poe c)) \<noteq> Some NaN" "po_maximum (new_poe_tally (uc_max_poe c)) = ?m"
    "po_switches (new_poe_tally (uc_max_poe c)) = 0" "\<not> reaches ?m (po_worst (new_poe_tally (uc_max_poe c)))"
    by (simp_all add: new_poe_tally_def reaches_def)
  then show ?thesis using poe_spec [OF assms start(1), of ?m] by (simp add: observed_poe)
qed

text \<open>A device of the sample witnesses: adopted, silent but for what is set on it.\<close>

definition silent_device :: device_record where
  "silent_device =
     \<lparr>dr_model = ''USW'', dr_name = ''switch'', dr_wans = [], dr_uplink = None, dr_isp = [], dr_last_wan_status = [],
      dr_vbms = None, dr_state = None, dr_adopted = Some True, dr_upgradable = None, dr_has_temperature = None,
      dr_overheating = None, dr_temperatures = [], dr_general_temperature = None, dr_total_max_power = None,
      dr_port_table = [], dr_outlet_table = [], dr_mbb = None\<rparr>"

definition sample_switch :: "f64 \<Rightarrow> device_record" where
  "sample_switch draw = silent_device\<lparr>dr_total_max_power := Some (Fin 100),
     dr_port_table := [\<lparr>dp_idx = Some 1, dp_poe_enable = Some True, dp_poe_power = Some draw\<rparr>]\<rparr>"

definition default_thresholds :: unifi_client where
  "default_thresholds =
     \<lparr>uc_low_battery = 0, uc_critical_battery = 0, uc_short_runtime = 0, uc_critical_runtime = 0,
      uc_high_load = Fin 0, uc_min_availability = Fin 0, uc_max_latency = Fin 0, uc_high_temperature = Fin 0,
      uc_max_poe = Fin 0, uc_per_device_keys = False\<rparr>"

definition no_previous :: previous where
  "no_previous = \<lparr>pv_wan = [], pv_isp = []\<rparr>"

lemma sample_switch_use:
  "adopted (sample_switch w)"
  "measured (sample_switch w)"
  "used_share (sample_switch NaN) = NaN"
  "used_share (sample_switch (Fin 0)) = Fin 0"
  "used_share (sample_switch (Fin 100)) = Fin 100"
  by (simp_all add: sample_switch_def silent_device_def adopted_def measured_def used_share_def utilization_def
      poe_of_def f_le_def f_mul_def f_div_def round_f64_numeral round_f64_zero_one round_f64_one Let_def)

lemma poe_worst_switch_decides_witness:
  "observed_key default_thresholds no_previous [sample_switch (Fin 0), sample_switch (Fin 100)] state_key_poe =
     Some poe_insufficient"
  by (subst poe_worst_switch_decides)
    (simp_all add: sample_switch_use default_thresholds_def float_or_def f_le_def
      default_max_poe_utilization_percent_def)

text \<open>A reading that is no number hides the others. \<open>flexibleNumber\<close> reads the string
  \<open>NaN\<close> as a number, and the comparison that keeps the worst switch is false as soon as
  one side is not one, so a first switch whose draw is \<open>NaN\<close> keeps \<open>poe\<close> at \<open>ok\<close> however
  much the second draws, and the same two switches in the other order are \<open>insufficient\<close>.\<close>

theorem poe_reading_masks_the_rest:
  "observed_key default_thresholds no_previous [sample_switch NaN, sample_switch (Fin 100)] state_key_poe = Some poe_ok \<and>
   observed_key default_thresholds no_previous [sample_switch (Fin 100), sample_switch NaN] state_key_poe =
     Some poe_insufficient"
  by (simp add: observed_poe sample_switch_use poe_observe_measured new_poe_tally_def default_thresholds_def
      float_or_def f_le_def default_max_poe_utilization_percent_def reaches_def)

section \<open>The live WAN\<close>

lemma device_publish_other:
  assumes "k \<noteq> state_key_devices" and "\<not> has_prefix k state_key_device_prefix"
  shows "map_of (fst (device_publish (fleet_of c ds) acc)) k = map_of (fst acc) k"
proof -
  let ?t = "fleet_of c ds"
  have noted: "(dt_per_device ?t, dt_shared ?t) = fold note_entry (List.map_filter device_entry (filter adopted ds)) ([], [])"
    unfolding device_tally_spec by (simp add: new_device_tally_def)
  show ?thesis
    using unshared_other [OF noted device_entries_prefix [OF assms(2)]] assms(1)
    by (auto simp: device_publish_def Let_def)
qed

definition claimants :: "device_record \<Rightarrow> int list" where
  "claimants d = map we_index (filter (\<lambda>e. wn_is_uplink (we_port e)) (dr_wans d))"

definition namesakes :: "device_record \<Rightarrow> int list" where
  "namesakes d =
     (case dr_uplink d of
        None \<Rightarrow> []
      | Some name \<Rightarrow> map we_index (filter (\<lambda>e. port_named (we_port e) name) (dr_wans d)))"

definition side :: "int \<Rightarrow> string" where
  "side n = (if n = 1 then wan_primary else wan_backup)"

lemma wan_from_spec:
  "fst (wan_from d) =
     (case claimants d of
        [n] \<Rightarrow> (side n, n)
      | cs \<Rightarrow> (case namesakes d of
                 [n] \<Rightarrow> (side n, n)
               | _ \<Rightarrow> if cs = [] then ([], 0) else (wan_backup, 0)))"
proof -
  have claimed: "by_is_uplink d = resolve_signal (claimants d)" by (simp add: by_is_uplink_def claimants_def)
  have named: "by_uplink_name d = resolve_signal (namesakes d)"
    by (simp add: by_uplink_name_def namesakes_def resolve_signal_def split: option.splits)
  have some: "wan_primary \<noteq> []" "wan_backup \<noteq> []" "wan_primary \<noteq> wan_backup"
    by (simp_all add: wan_primary_def wan_backup_def)
  show ?thesis
    unfolding wan_from_def claimed named
    by (simp add: resolve_signal_def side_def wan_primary_index_def some Let_def split: list.splits)
qed

definition wan_says :: "device_record \<Rightarrow> string option" where
  "wan_says d = (if fst (fst (wan_from d)) = [] then None else Some (fst (fst (wan_from d))))"

lemma wan_says_spec:
  "wan_says d =
     (case claimants d of
        [n] \<Rightarrow> Some (side n)
      | cs \<Rightarrow> (case namesakes d of [n] \<Rightarrow> Some (side n) | _ \<Rightarrow> if cs = [] then None else Some wan_backup))"
  unfolding wan_says_def wan_from_spec
  by (simp add: side_def wan_primary_def wan_backup_def split: list.splits)

lemma scan_wan_step:
  "sc_gateway_seen (scan_device c d s) \<longleftrightarrow> sc_gateway_seen s \<or> dr_wans d \<noteq> []"
  "map_of (sc_state (scan_device c d s)) state_key_wan =
     (if sc_gateway_seen s \<or> dr_wans d = [] \<or> wan_says d = None then map_of (sc_state s) state_key_wan else wan_says d)"
proof -
  have frame: "sc_gateway_seen (scan_fleet d s) = sc_gateway_seen s" "sc_state (scan_fleet d s) = sc_state s"
    "sc_gateway_seen (scan_modem d r) = sc_gateway_seen r" "sc_gateway_seen (scan_ups c d r) = sc_gateway_seen r"
    "map_of (sc_state (scan_modem d r)) state_key_wan = map_of (sc_state r) state_key_wan"
    "map_of (sc_state (scan_ups c d r)) state_key_wan = map_of (sc_state r) state_key_wan" for r
    by (simp_all add: scan_fleet_def scan_modem_def scan_ups_def set_unless_empty_def state_key_defs Let_def split_def
        split: option.splits)
  show "sc_gateway_seen (scan_device c d s) \<longleftrightarrow> sc_gateway_seen s \<or> dr_wans d \<noteq> []"
    by (simp add: scan_device_def frame) (simp add: scan_gateway_def Let_def split_def frame)
  show "map_of (sc_state (scan_device c d s)) state_key_wan =
     (if sc_gateway_seen s \<or> dr_wans d = [] \<or> wan_says d = None then map_of (sc_state s) state_key_wan else wan_says d)"
    by (simp add: scan_device_def frame)
      (simp add: scan_gateway_def Let_def split_def frame wan_says_def set_unless_empty_def state_key_wan_def state_key_isp_def)
qed

lemma scan_wan:
  "map_of (sc_state (scan_devices c ds s)) state_key_wan =
     (if sc_gateway_seen s then map_of (sc_state s) state_key_wan
      else case filter (\<lambda>d. dr_wans d \<noteq> []) ds of
        [] \<Rightarrow> map_of (sc_state s) state_key_wan
      | d # rest \<Rightarrow> if wan_says d = None then map_of (sc_state s) state_key_wan else wan_says d)"
  unfolding scan_devices_def
  by (induction ds arbitrary: s) (auto simp: scan_wan_step split: list.splits)

text \<open>The live WAN, exactly. \<open>wan\<close> speaks of the first device that reports WAN ports: the
  one port that claims to be the uplink decides, whatever the console names; with none or
  several claiming, the one port the console names decides; with several claiming and no
  single name, the backup is assumed to be carrying; and otherwise the key is absent. The
  port of index 1 is the primary, any other is the backup.\<close>

theorem wan_key_exact:
  "observed_key c was ds state_key_wan =
     (case filter (\<lambda>d. dr_wans d \<noteq> []) ds of
        [] \<Rightarrow> None
      | d # rest \<Rightarrow>
          (case claimants d of
             [n] \<Rightarrow> Some (side n)
           | cs \<Rightarrow> (case namesakes d of
                      [n] \<Rightarrow> Some (side n)
                    | _ \<Rightarrow> if cs = [] then None else Some wan_backup)))"
proof -
  have "observed_key c was ds state_key_wan = map_of (fst (gathered c was ds)) state_key_wan"
    by (subst observed_devices) (simp_all add: state_key_defs device_publish_other)
  also have "\<dots> = (case filter (\<lambda>d. dr_wans d \<noteq> []) ds of [] \<Rightarrow> None | d # rest \<Rightarrow> wan_says d)"
    by (simp add: gathered_def scan_wan new_scan_def split: list.splits)
  finally show ?thesis unfolding wan_says_spec .
qed

text \<open>An index wraps. The digits of a \<open>wanN\<close> key are read into a 64-bit integer
  with no check, so a field whose number is 2 to the 64 plus one is taken for the primary WAN,
  while a number that wraps below one is dropped.\<close>

theorem wan_index_wraps:
  "wan_index_of ''wan18446744073709551617'' = Some wan_primary_index \<and>
   wan_index_of ''wan9223372036854775808'' = None"
  by code_simp

end
