(* ===== verification/ConfigFacts.thy ===== *)
theory ConfigFacts
  imports Receiver ConsoleSafety FleetFacts
begin

text \<open>
  What the environment configures, exactly; and what follows for the parts it
  configures: an install that lists nothing writes nothing, and a threshold that is no
  number switches its key off.
\<close>

section \<open>The configuration, exactly\<close>

text \<open>What is said of a variable that is set and does not parse, and the value it gives otherwise.\<close>

definition complaint :: "(string \<Rightarrow> string + 'a) \<Rightarrow> env \<Rightarrow> string \<Rightarrow> string option" where
  "complaint parse lookup name =
     (if lookup name = [] then None
      else case parse (lookup name) of
        Inl e \<Rightarrow> Some (''invalid '' @ name @ '' '' @ quoted (lookup name) @ '': '' @ e)
      | Inr v \<Rightarrow> None)"

definition given :: "(string \<Rightarrow> string + 'a) \<Rightarrow> env \<Rightarrow> string \<Rightarrow> 'a \<Rightarrow> 'a" where
  "given parse lookup name usual =
     (if lookup name = [] then usual else case parse (lookup name) of Inl e \<Rightarrow> usual | Inr v \<Rightarrow> v)"

definition complaints :: "(string \<Rightarrow> string + 'a) \<Rightarrow> env \<Rightarrow> 'a field list \<Rightarrow> string list" where
  "complaints parse lookup fs = List.map_filter (complaint parse lookup) (map fst fs)"

definition store_given :: "(string \<Rightarrow> string + 'a) \<Rightarrow> env \<Rightarrow> 'a field \<Rightarrow> config \<Rightarrow> config" where
  "store_given parse lookup f cfg =
     (if lookup (fst f) = [] then cfg
      else case parse (lookup (fst f)) of Inl e \<Rightarrow> cfg | Inr v \<Rightarrow> snd f v cfg)"

lemma complaints_simps [simp]:
  "complaints parse lookup [] = []"
  "complaints parse lookup (f # fs) =
     (case complaint parse lookup (fst f) of None \<Rightarrow> complaints parse lookup fs | Some e \<Rightarrow> e # complaints parse lookup fs)"
  by (auto simp: complaints_def List.map_filter_def split: option.splits)

lemma set_fields_spec:
  "set_fields parse lookup fs cfg =
     (case complaints parse lookup fs of
        [] \<Rightarrow> Inr (fold (store_given parse lookup) fs cfg)
      | e # rest \<Rightarrow> Inl e)"
  by (induction parse lookup fs cfg rule: set_fields.induct)
    (auto simp: complaint_def store_given_def Let_def split: sum.splits list.splits)

definition all_complaints :: "env_lib \<Rightarrow> env \<Rightarrow> string list" where
  "all_complaints lib lookup =
     complaints (en_duration lib) lookup duration_fields @ complaints atoi lookup int_fields @
     complaints (en_float lib) lookup float_fields"

lemma text_fields_read: "complaints Inr lookup fs = []"
  by (induction fs) (simp_all add: complaint_def)

lemma parse_env_spec:
  "parse_env lib lookup cfg =
     (case all_complaints lib lookup of
        [] \<Rightarrow> Inr (fold (store_given Inr lookup) text_fields (fold (store_given (en_float lib) lookup) float_fields
                (fold (store_given atoi lookup) int_fields (fold (store_given (en_duration lib) lookup) duration_fields cfg))))
      | e # rest \<Rightarrow> Inl e)"
  by (simp add: parse_env_def set_fields_spec all_complaints_def text_fields_read split: list.splits)

definition configured_webhook :: "env_lib \<Rightarrow> env \<Rightarrow> webhook_config" where
  "configured_webhook lib lookup =
     \<lparr>wh_enabled = (lookup env_webhook_enabled = env_true),
      wh_bind_address = given Inr lookup env_webhook_bind_address default_webhook_bind_address,
      wh_path = given Inr lookup env_webhook_path default_webhook_path,
      wh_token = lookup env_webhook_token,
      wh_min_observe_interval = given (en_duration lib) lookup env_webhook_min_interval default_min_observe_interval,
      wh_register = (lookup env_webhook_register = env_true), wh_public_url = lookup env_webhook_public_url,
      wh_rule_title = given Inr lookup env_webhook_rule_title default_alarm_rule_title,
      wh_username = lookup env_username, wh_password = lookup env_password\<rparr>"

definition configured :: "env_lib \<Rightarrow> env \<Rightarrow> api_key \<Rightarrow> config" where
  "configured lib lookup key =
     \<lparr>cg_url = lookup env_url, cg_api_key = key, cg_site = lookup env_site,
      cg_insecure_skip_verify = (lookup env_insecure_skip_verify = env_true),
      cg_poll_interval = given (en_duration lib) lookup env_poll_interval default_poll_interval,
      cg_max_observation_age = given (en_duration lib) lookup env_max_observation_age 0,
      cg_low_battery = given atoi lookup env_low_battery default_low_battery_percent,
      cg_critical_battery = given atoi lookup env_critical_battery default_critical_battery_percent,
      cg_short_runtime = given atoi lookup env_short_runtime default_short_runtime_seconds,
      cg_critical_runtime = given atoi lookup env_critical_runtime default_critical_runtime_seconds,
      cg_high_load = given (en_float lib) lookup env_high_load default_high_load_percent,
      cg_min_availability = given (en_float lib) lookup env_min_availability default_min_availability_percent,
      cg_max_latency = given (en_float lib) lookup env_max_latency default_max_latency_ms,
      cg_high_temperature = given (en_float lib) lookup env_high_temperature default_high_temperature_celsius,
      cg_max_poe = given (en_float lib) lookup env_max_poe_utilization default_max_poe_utilization_percent,
      cg_per_device_keys = (lookup env_per_device_keys = env_true),
      cg_webhook = configured_webhook lib lookup,
      cg_actions =
        \<lparr>an_wlans = split_list (lookup env_actions_allowed_wlans),
         an_poe_ports = split_list (lookup env_actions_allowed_poe_ports),
         an_outlets = split_list (lookup env_actions_allowed_outlets),
         an_battery = (lookup env_actions_allow_battery_backed = env_true)\<rparr>\<rparr>"

text \<open>Storing one variable, field by field.\<close>

lemma store_duration [simp]:
  "store_given p l (n, \<lambda>v cfg. cfg\<lparr>cg_poll_interval := v\<rparr>) cfg = cfg\<lparr>cg_poll_interval := given p l n (cg_poll_interval cfg)\<rparr>"
  "store_given p l (n, \<lambda>v cfg. cfg\<lparr>cg_max_observation_age := v\<rparr>) cfg = cfg\<lparr>cg_max_observation_age := given p l n (cg_max_observation_age cfg)\<rparr>"
  "store_given p l (n, \<lambda>v. on_webhook (\<lambda>w. w\<lparr>wh_min_observe_interval := v\<rparr>)) cfg =
     on_webhook (\<lambda>w. w\<lparr>wh_min_observe_interval := given p l n (wh_min_observe_interval w)\<rparr>) cfg"
  by (simp_all add: store_given_def given_def on_webhook_def split: sum.splits)

lemma store_int [simp]:
  "store_given p l (n, \<lambda>v cfg. cfg\<lparr>cg_low_battery := v\<rparr>) cfg = cfg\<lparr>cg_low_battery := given p l n (cg_low_battery cfg)\<rparr>"
  "store_given p l (n, \<lambda>v cfg. cfg\<lparr>cg_critical_battery := v\<rparr>) cfg = cfg\<lparr>cg_critical_battery := given p l n (cg_critical_battery cfg)\<rparr>"
  "store_given p l (n, \<lambda>v cfg. cfg\<lparr>cg_short_runtime := v\<rparr>) cfg = cfg\<lparr>cg_short_runtime := given p l n (cg_short_runtime cfg)\<rparr>"
  "store_given p l (n, \<lambda>v cfg. cfg\<lparr>cg_critical_runtime := v\<rparr>) cfg = cfg\<lparr>cg_critical_runtime := given p l n (cg_critical_runtime cfg)\<rparr>"
  by (simp_all add: store_given_def given_def on_webhook_def split: sum.splits)

lemma store_float [simp]:
  "store_given p l (n, \<lambda>v cfg. cfg\<lparr>cg_min_availability := v\<rparr>) cfg = cfg\<lparr>cg_min_availability := given p l n (cg_min_availability cfg)\<rparr>"
  "store_given p l (n, \<lambda>v cfg. cfg\<lparr>cg_max_latency := v\<rparr>) cfg = cfg\<lparr>cg_max_latency := given p l n (cg_max_latency cfg)\<rparr>"
  "store_given p l (n, \<lambda>v cfg. cfg\<lparr>cg_high_load := v\<rparr>) cfg = cfg\<lparr>cg_high_load := given p l n (cg_high_load cfg)\<rparr>"
  "store_given p l (n, \<lambda>v cfg. cfg\<lparr>cg_high_temperature := v\<rparr>) cfg = cfg\<lparr>cg_high_temperature := given p l n (cg_high_temperature cfg)\<rparr>"
  "store_given p l (n, \<lambda>v cfg. cfg\<lparr>cg_max_poe := v\<rparr>) cfg = cfg\<lparr>cg_max_poe := given p l n (cg_max_poe cfg)\<rparr>"
  by (simp_all add: store_given_def given_def on_webhook_def split: sum.splits)

lemma store_text [simp]:
  "store_given p l (n, \<lambda>v. on_webhook (\<lambda>w. w\<lparr>wh_bind_address := v\<rparr>)) cfg =
     on_webhook (\<lambda>w. w\<lparr>wh_bind_address := given p l n (wh_bind_address w)\<rparr>) cfg"
  "store_given p l (n, \<lambda>v. on_webhook (\<lambda>w. w\<lparr>wh_path := v\<rparr>)) cfg =
     on_webhook (\<lambda>w. w\<lparr>wh_path := given p l n (wh_path w)\<rparr>) cfg"
  "store_given p l (n, \<lambda>v. on_webhook (\<lambda>w. w\<lparr>wh_rule_title := v\<rparr>)) cfg =
     on_webhook (\<lambda>w. w\<lparr>wh_rule_title := given p l n (wh_rule_title w)\<rparr>) cfg"
  by (simp_all add: store_given_def given_def on_webhook_def split: sum.splits)

lemma parsed_env:
  "fold (store_given Inr lookup) text_fields (fold (store_given (en_float lib) lookup) float_fields
     (fold (store_given atoi lookup) int_fields (fold (store_given (en_duration lib) lookup) duration_fields
       ((env_config lookup)\<lparr>cg_api_key := key\<rparr>)))) = configured lib lookup key"
  by (simp add: text_fields_def float_fields_def int_fields_def duration_fields_def env_config_def configured_def
      configured_webhook_def env_flag_def on_webhook_def)

lemma config_from_env_spec:
  "config_from_env lib lookup =
     (if lookup env_url = [] then Inr None
      else case api_key_from_env (en_file lib) lookup of
        Inl e \<Rightarrow> Inl e
      | Inr key \<Rightarrow>
          (case all_complaints lib lookup of
             [] \<Rightarrow> Inr (Some (configured lib lookup key))
           | e # rest \<Rightarrow> Inl e))"
  by (simp add: config_from_env_def parse_env_spec parsed_env split: sum.split list.split)

text \<open>C36: The environment, exactly. Without a console address nothing is configured; otherwise the
  result is the error of the key, or else what is wrong with the first variable that is
  set and does not parse, durations before whole numbers before fractions, or else the
  configuration in which every variable that is set has its parsed value, every other its
  default, and a flag is on exactly when its variable is the word \<open>true\<close>.\<close>

theorem config_exact:
  "config_from_env lib lookup =
     (if lookup env_url = [] then Inr None
      else case api_key_from_env (en_file lib) lookup of
        Inl e \<Rightarrow> Inl e
      | Inr key \<Rightarrow>
          (case all_complaints lib lookup of
             [] \<Rightarrow> Inr (Some (configured lib lookup key))
           | e # rest \<Rightarrow> Inl e))"
  by (rule config_from_env_spec)

section \<open>An install that lists nothing\<close>

lemma configured_from_env:
  assumes "config_from_env lib lookup = Inr (Some cfg)"
  obtains key where "cfg = configured lib lookup key"
  using assms by (auto simp: config_from_env_spec split: if_splits sum.splits list.splits)

lemma split_list_Nil: "split_list [] = []"
  by (simp add: split_list_def trim_space_def trim_front.simps)

lemma unlisted_policy:
  assumes "config_from_env lib lookup = Inr (Some cfg)" and "new_writer cfg = Inr w"
    and "lookup env_actions_allowed_wlans = []" and "lookup env_actions_allowed_poe_ports = []"
    and "lookup env_actions_allowed_outlets = []"
  shows "write_policy_empty (cw_policy w)"
proof -
  obtain key where "cfg = configured lib lookup key" using configured_from_env [OF assms(1)] .
  then show ?thesis
    using assms(2-5) by (auto simp: new_writer_def new_write_policy_def configured_def split_list_Nil write_policy_empty_def)
qed

text \<open>C32: What the operator does not list is never written. When the three allowlists of the
  environment are unset, no console action the configured writer is given sends a single
  request, not even a login, and every one of them is refused.\<close>

theorem unlisted_install_never_writes:
  assumes "config_from_env lib lookup = Inr (Some cfg)" and "new_writer cfg = Inr w"
    and "lookup env_actions_allowed_wlans = []" and "lookup env_actions_allowed_poe_ports = []"
    and "lookup env_actions_allowed_outlets = []"
    and "held (console_apply wild claim w a) t y"
  shows "t = [] \<and> snd y \<noteq> None"
  using assms(6) unlisted_policy [OF assms(1-5)] by (auto simp: console_apply_def Let_def split: sum.splits)

definition sample_env :: env where
  "sample_env name =
     (if name = env_url then ''https://10.0.0.1'' else if name = env_api_key then ''k''
      else if name = env_low_battery then ''+25'' else [])"

definition sample_env_lib :: env_lib where
  "sample_env_lib = \<lparr>en_duration = (\<lambda>s. Inl ''no duration''), en_float = (\<lambda>s. Inl ''no number''), en_file = (\<lambda>s. Inl ''no file'')\<rparr>"

theorem unlisted_install_never_writes_witness:
  "\<exists>cfg w. config_from_env sample_env_lib sample_env = Inr (Some cfg) \<and> cg_low_battery cfg = 25 \<and> new_writer cfg = Inr w \<and>
     snd (snd (converse sample_console (console_apply (\<lambda>_. 0) (\<lambda>_. None) w (plain_action type_wlan_disable)))) \<noteq> None"
proof -
  let ?cfg = "configured sample_env_lib sample_env (StaticAPIKey ''k'')"
  have unset: "sample_env env_actions_allowed_wlans = []" "sample_env env_actions_allowed_poe_ports = []"
    "sample_env env_actions_allowed_outlets = []"
    by code_simp+
  have "all_complaints sample_env_lib sample_env = []" "sample_env env_url \<noteq> []"
    "api_key_from_env (en_file sample_env_lib) sample_env = Inr (StaticAPIKey ''k'')"
    by code_simp+
  then have cfg: "config_from_env sample_env_lib sample_env = Inr (Some ?cfg)" by (simp add: config_from_env_spec)
  have "given atoi sample_env env_low_battery u = 25" for u by (simp add: given_def) code_simp
  then have "cg_low_battery ?cfg = 25" by (simp add: configured_def)
  moreover obtain w where w: "new_writer ?cfg = Inr w"
    using unset by (auto simp: new_writer_def new_write_policy_def configured_def split_list_Nil)
  ultimately show ?thesis
    using cfg w unlisted_install_never_writes [OF cfg w unset converse_held] by blast
qed

section \<open>A threshold that is no number\<close>

text \<open>A threshold of \<open>NaN\<close> switches its key off. The environment accepts any text
  \<open>strconv.ParseFloat\<close> reads as a threshold, \<open>NaN\<close> among it; the default replaces only what
  is at most zero, which \<open>NaN\<close> is not, and every comparison with it fails, so a client
  configured with one reports \<open>poe\<close> as \<open>ok\<close> at any draw, for as long as it runs.\<close>

theorem nan_threshold_is_silent:
  "en_float lib (lookup env_max_poe_utilization) = Inr NaN \<Longrightarrow> lookup env_max_poe_utilization \<noteq> [] \<Longrightarrow>
     observed_key (client_of (configured lib lookup key)) was ds state_key_poe \<in> {None, Some poe_ok}"
proof -
  assume "en_float lib (lookup env_max_poe_utilization) = Inr NaN" "lookup env_max_poe_utilization \<noteq> []"
  then have c: "uc_max_poe (client_of (configured lib lookup key)) = NaN"
    by (simp add: client_of_def configured_def given_def)
  have "po_maximum (fold poe_observe xs t) = po_maximum t" for xs t
    by (induction xs arbitrary: t) (simp_all add: poe_observe_def Let_def)
  then have "\<not> reaches (po_maximum (poe_of_fleet (client_of (configured lib lookup key)) ds)) z" for z
    by (simp add: new_poe_tally_def c float_or_def reaches_def split: option.splits)
  then show ?thesis by (simp add: observed_poe)
qed

lemma nan_threshold_is_silent_witness:
  "observed_key (client_of (configured (sample_env_lib\<lparr>en_float := (\<lambda>s. Inr NaN)\<rparr>)
       (\<lambda>name. if name = env_max_poe_utilization then ''NaN'' else []) (StaticAPIKey [])))
     no_previous [sample_switch (Fin 100)] state_key_poe \<in> {None, Some poe_ok}"
  by (rule nan_threshold_is_silent) simp_all

end
