(* ===== verification/AlarmFacts.thy ===== *)
theory AlarmFacts
  imports Alarm ConsoleSafety
begin

text \<open>
  What a registration may do to the console's alarms, over every conversation it can
  have with it, and the address it lets itself be called back at.
\<close>

section \<open>The callback address\<close>

lemma validate_callback_url_None:
  "validate_callback_url lib parse show raw = None \<longleftrightarrow> raw \<noteq> [] \<and>
     (\<exists>u. ul_parse lib raw = Inr u \<and> (ur_scheme u = scheme_http \<or> ur_scheme u = scheme_https) \<and>
        url_hostname u \<noteq> [] \<and> \<not> localhost_folded (url_hostname u) \<and>
        (case parse (url_hostname u) of None \<Rightarrow> True | Some ip \<Rightarrow> \<not> is_loopback (unmap ip)))"
  by (auto simp: validate_callback_url_def Let_def split: sum.splits option.splits)

section \<open>The conversation\<close>

lemma offered_inside: "offered manifest ids = filter (\<lambda>i. inside (JStr i) manifest) ids"
  by (simp add: offered_def has_string_iff)

definition rule_listed :: "string \<Rightarrow> jv \<Rightarrow> bool" where
  "rule_listed title rules = (\<exists>ps. inside (JObj ps) rules \<and> map_of ps ''title'' = Some (JStr title))"

lemma find_rule_id_None: "find_rule_id title rules = None \<longleftrightarrow> \<not> rule_listed title rules"
  using rule_id_iff(1) [of title rules] unfolding rule_listed_def by auto

text \<open>The end of a registration: the rules are listed, and the rule is there or is asked for.\<close>

definition rule_request :: "alarm_registrar \<Rightarrow> string \<Rightarrow> jv \<Rightarrow> console_request" where
  "rule_request a csrf manifest =
     request_of csrf method_post alarm_rules_path
       (Some (rule_body a (filter (\<lambda>i. inside (JStr i) manifest) (al_triggers a))))"

lemma create_held:
  assumes "held (create_unless_present a csrf (offered manifest (al_triggers a)) rules) t y"
  shows "if rule_listed (alarm_title a) rules then t = [] \<and> y = Inr ()
    else \<exists>x. t = [(rule_request a csrf manifest, x)] \<and>
      (y = Inr () \<longrightarrow> (\<exists>doc. console_result method_post alarm_rules_path x = Inr doc))"
proof (cases "find_rule_id (alarm_title a) rules")
  case None
  then show ?thesis
    using write_held [OF assms [unfolded create_unless_present_def None option.case]]
    by (auto simp: find_rule_id_None rule_request_def offered_inside)
next
  case (Some i)
  then have "rule_listed (alarm_title a) rules" using find_rule_id_None [of "alarm_title a" rules] by auto
  then show ?thesis using assms Some by (auto simp: create_unless_present_def)
qed

lemma choose_triggers_Inr:
  "choose_triggers a manifest = Inr ts \<longleftrightarrow> inside (JStr alarm_webhook_action_id) manifest \<and>
     ts = filter (\<lambda>i. inside (JStr i) manifest) (al_triggers a) \<and> ts \<noteq> []"
  by (auto simp: choose_triggers_def offered_inside has_string_iff)

text \<open>What was read before a rule is asked for.\<close>

definition rule_agreed :: "alarm_registrar \<Rightarrow> jv \<Rightarrow> jv \<Rightarrow> bool" where
  "rule_agreed a manifest rules =
     (inside (JStr alarm_webhook_action_id) manifest \<and> list_ex (\<lambda>i. inside (JStr i) manifest) (al_triggers a) \<and>
      \<not> rule_listed (alarm_title a) rules)"

lemma open_held:
  assumes "held (register_open a csrf) t y"
  obtains (read) x where "t = [(request_of csrf method_get alarm_manifest_path None, x)]" "y \<noteq> Inr ()"
  | (listed) x x' where "t = [(request_of csrf method_get alarm_manifest_path None, x),
        (request_of csrf method_get alarm_rules_path None, x')]"
      "y = Inr () \<longrightarrow> (\<exists>rules. console_result method_get alarm_rules_path x' = Inr rules \<and> rule_listed (alarm_title a) rules)"
  | (asked) x manifest x' rules x'' where "t = [(request_of csrf method_get alarm_manifest_path None, x),
        (request_of csrf method_get alarm_rules_path None, x'), (rule_request a csrf manifest, x'')]"
      "console_result method_get alarm_manifest_path x = Inr manifest"
      "console_result method_get alarm_rules_path x' = Inr rules" "rule_agreed a manifest rules"
      "y = Inr () \<longrightarrow> (\<exists>doc. console_result method_post alarm_rules_path x'' = Inr doc)"
proof -
  obtain x t2 where t: "t = (request_of csrf method_get alarm_manifest_path None, x) # t2"
    and rest: "case console_result method_get alarm_manifest_path x of Inl e \<Rightarrow> t2 = [] \<and> y = Inl e
      | Inr manifest \<Rightarrow> held (case choose_triggers a manifest of Inl e \<Rightarrow> CRet (Inl e)
          | Inr triggers \<Rightarrow> cbindR (console_do csrf method_get alarm_rules_path None) (create_unless_present a csrf triggers)) t2 y"
    using assms unfolding register_open_def held_do_then request_of_def by blast
  show ?thesis
  proof (cases "console_result method_get alarm_manifest_path x")
    case (Inl e)
    then show ?thesis using t rest by (intro read) auto
  next
    case manifest: (Inr manifest)
    show ?thesis
    proof (cases "choose_triggers a manifest")
      case (Inl e)
      then show ?thesis using t rest manifest by (intro read) auto
    next
      case (Inr ts)
      then have ts: "ts = offered manifest (al_triggers a)" "inside (JStr alarm_webhook_action_id) manifest"
        "list_ex (\<lambda>i. inside (JStr i) manifest) (al_triggers a)"
        by (auto simp: choose_triggers_Inr offered_inside list_ex_iff filter_empty_conv)
      obtain x' t3 where t2: "t2 = (request_of csrf method_get alarm_rules_path None, x') # t3"
        and rest': "case console_result method_get alarm_rules_path x' of Inl e \<Rightarrow> t3 = [] \<and> y = Inl e
          | Inr rules \<Rightarrow> held (create_unless_present a csrf ts rules) t3 y"
        using rest unfolding manifest Inr sum.case held_do_then request_of_def by blast
      show ?thesis
      proof (cases "console_result method_get alarm_rules_path x'")
        case (Inl e)
        then show ?thesis using t t2 rest' by (intro listed) auto
      next
        case rules: (Inr rules)
        note made = create_held [OF rest' [unfolded rules sum.case ts(1)]]
        show ?thesis
        proof (cases "rule_listed (alarm_title a) rules")
          case True
          then show ?thesis using made t t2 rules by (intro listed [of x x']) auto
        next
          case False
          then obtain x'' where "t3 = [(rule_request a csrf manifest, x'')]"
            "y = Inr () \<longrightarrow> (\<exists>doc. console_result method_post alarm_rules_path x'' = Inr doc)"
            using made by auto
          then show ?thesis
            using False t t2 manifest rules ts by (intro asked) (auto simp: rule_agreed_def)
        qed
      qed
    qed
  qed
qed

lemma register_held:
  assumes "held (register lib parse show claim a) t y"
  obtains (refused) e where "registration_refused lib parse show a = Some e" "t = []" "y = Inl e"
  | (login) x e where "registration_refused lib parse show a = None"
      "t = [(login_request (al_username a) (al_password a), x)]" "y = Inl e"
  | (session) x csrf t2 where "registration_refused lib parse show a = None"
      "t = (login_request (al_username a) (al_password a), x) # t2" "login_result claim x = Inr csrf"
      "held (register_open a csrf) t2 y"
proof (cases "registration_refused lib parse show a")
  case (Some e)
  then show ?thesis using assms by (intro refused) (auto simp: register_def)
next
  case None
  have "held (CSend (login_request (al_username a) (al_password a))
      (\<lambda>x. case login_result claim x of Inl e \<Rightarrow> CRet (Inl e) | Inr csrf \<Rightarrow> register_open a csrf)) t y"
    using assms unfolding register_def None option.case cbindR_def console_login_def cbind.simps .
  then obtain x t2 where "t = (login_request (al_username a) (al_password a), x) # t2"
    "held (case login_result claim x of Inl e \<Rightarrow> CRet (Inl e) | Inr csrf \<Rightarrow> register_open a csrf) t2 y"
    unfolding held_simps by blast
  then show ?thesis
    using None by (cases "login_result claim x") (auto intro: login session)
qed

text \<open>A document the console answered a read with, within a conversation.\<close>

definition fetched :: "string \<Rightarrow> string \<Rightarrow> jv \<Rightarrow> (console_request \<times> exchange) list \<Rightarrow> bool" where
  "fetched csrf path doc t = (\<exists>x. (request_of csrf method_get path None, x) \<in> set t \<and> console_result method_get path x = Inr doc)"

lemma fetchedI:
  "console_result method_get path x = Inr doc \<Longrightarrow> (request_of csrf method_get path None, x) \<in> set t \<Longrightarrow> fetched csrf path doc t"
  by (auto simp: fetched_def)

text \<open>C20: A registration adds one rule or none, and touches no other. Whatever the console answers,
  it sends at most four requests, of which at most the last changes something: that one
  asks for Reactor's rule, naming exactly the triggers the console's own manifest offers
  of those asked for, and it is sent only when the secret is set, the callback address
  can be one the console reaches, the manifest offers the webhook action, and no rule of
  the title was listed in the same session. It reports success only when such a rule was
  listed or the request for it was answered.\<close>

theorem registration_adds_one_rule:
  assumes "held (register lib parse show claim a) t y"
  shows "length t \<le> 4 \<and> list_all (\<lambda>e. \<not> changes (fst e)) (butlast t) \<and>
    (registration_refused lib parse show a \<noteq> None \<longrightarrow> t = []) \<and>
    (\<forall>e \<in> set t. changes (fst e) \<longrightarrow> (\<exists>csrf manifest rules.
       fetched csrf alarm_manifest_path manifest t \<and> fetched csrf alarm_rules_path rules t \<and>
       rule_agreed a manifest rules \<and> fst e = rule_request a csrf manifest)) \<and>
    (y = Inr () \<longrightarrow>
       (\<exists>csrf rules. fetched csrf alarm_rules_path rules t \<and> rule_listed (alarm_title a) rules) \<or>
       (\<exists>e \<in> set t. changes (fst e) \<and> (\<exists>doc. console_result method_post alarm_rules_path (snd e) = Inr doc)))"
  using assms
proof (cases rule: register_held)
  case (session x0 csrf t2)
  have posts: "changes (rule_request a csrf manifest)" for manifest
    by (simp add: changes_def rule_request_def method_post_def method_get_def alarm_rules_path_def
        alarm_login_path_def logout_path_def)
  from session(4) show ?thesis
  proof (cases rule: open_held)
    case (read x)
    then show ?thesis using session(1,2) by (simp add: session_requests)
  next
    case (listed x x')
    then show ?thesis using session(1,2) by (auto simp: session_requests fetched_def)
  next
    case (asked x manifest x' rules x'')
    have t: "t = [(login_request (al_username a) (al_password a), x0),
        (request_of csrf method_get alarm_manifest_path None, x),
        (request_of csrf method_get alarm_rules_path None, x'), (rule_request a csrf manifest, x'')]"
      using session(2) asked(1) by simp
    have got: "fetched csrf alarm_manifest_path manifest t" "fetched csrf alarm_rules_path rules t"
      by (rule fetchedI [OF asked(2)], simp add: t) (rule fetchedI [OF asked(3)], simp add: t)
    have sent: "e = (rule_request a csrf manifest, x'')" if "e \<in> set t" "changes (fst e)" for e
      using that by (auto simp: t session_requests)
    have last: "(rule_request a csrf manifest, x'') \<in> set t" by (simp add: t)
    have "\<exists>e \<in> set t. changes (fst e) \<and> (\<exists>doc. console_result method_post alarm_rules_path (snd e) = Inr doc)"
      if "y = Inr ()"
      using that asked(5) posts last by (intro bexI [OF _ last]) auto
    moreover have "\<exists>csrf manifest rules. fetched csrf alarm_manifest_path manifest t \<and>
       fetched csrf alarm_rules_path rules t \<and> rule_agreed a manifest rules \<and> fst e = rule_request a csrf manifest"
      if "e \<in> set t" "changes (fst e)" for e
      using got asked(4) sent [OF that] by (intro exI conjI) auto
    moreover have "length t \<le> 4" "list_all (\<lambda>e. \<not> changes (fst e)) (butlast t)"
      by (simp_all add: t session_requests)
    ultimately show ?thesis using session(1) by simp
  qed
qed (simp_all add: session_requests)

section \<open>A sample registration\<close>

definition sample_registrar :: alarm_registrar where
  "sample_registrar =
     \<lparr>al_username = ''reactor'', al_password = ''secret'', al_callback_url = ''http://10.0.0.9/webhooks/unifi'',
      al_token = ''s3cret'', al_rule_title = [], al_triggers = default_alarm_triggers\<rparr>"

definition sample_urls :: url_lib where
  "sample_urls = \<lparr>ul_parse = (\<lambda>s. Inr \<lparr>ur_scheme = scheme_http, ur_user = False, ur_host = ''10.0.0.9'',
      ur_path = ''/webhooks/unifi'', ur_raw_query = [], ur_fragment = []\<rparr>), ul_join = (\<lambda>u ps. [])\<rparr>"

definition sample_alarms :: "console_request \<Rightarrow> exchange" where
  "sample_alarms q = Answered \<lparr>cs_status = 200, cs_body = [],
     cs_json = Inr (if cq_path q = alarm_manifest_path
       then JObj [(''actions'', JArr [JStr alarm_webhook_action_id]), (''triggers'', JArr [JStr trigger_packet_loss])]
       else JArr []),
     cs_cookies = [], cs_csrf_header = ''token''\<rparr>"

definition sample_registration :: "(console_request \<times> exchange) list \<times> (string + unit)" where
  "sample_registration = converse sample_alarms
     (register sample_urls (\<lambda>s. Some (V4 0x0A000009)) (\<lambda>a. []) (\<lambda>_. None) sample_registrar)"

theorem registration_adds_one_rule_witness:
  "length (fst sample_registration) = 4 \<and>
   list_all (\<lambda>e. \<not> changes (fst e)) (butlast (fst sample_registration)) \<and>
   (\<exists>csrf manifest rules. rule_agreed sample_registrar manifest rules \<and>
      fst (last (fst sample_registration)) = rule_request sample_registrar csrf manifest)"
proof -
  have "held (register sample_urls (\<lambda>s. Some (V4 0x0A000009)) (\<lambda>a. []) (\<lambda>_. None) sample_registrar)
      (fst sample_registration) (snd sample_registration)"
    unfolding sample_registration_def by (rule converse_held)
  note all = registration_adds_one_rule [OF this]
  have four: "length (fst sample_registration) = 4" "changes (fst (last (fst sample_registration)))" by code_simp+
  then have "last (fst sample_registration) \<in> set (fst sample_registration)" by (intro last_in_set) auto
  then show ?thesis using all four by blast
qed

end
