(* ===== verification/WiringFacts.thy ===== *)
theory WiringFacts
  imports Wiring ConfigFacts AlarmFacts
begin

text \<open>
  What the environment reaches: the debounce counts it names are the store's, the
  allowlist entries it names are the writer's, and nothing of the webhook fast path
  decides whether the operator starts or what it polls.
\<close>

section \<open>Plain text\<close>

definition plain :: "char \<Rightarrow> bool" where
  "plain c = (0x20 < (of_char c :: nat) \<and> (of_char c :: nat) < 0x7F)"

lemma space_width_plain:
  assumes "list_all (\<lambda>f. f \<noteq> [] \<and> \<not> plain (hd f)) forms" and "plain c"
  shows "space_width forms (c # cs) = 0"
proof -
  have "\<not> has_prefix (c # cs) f" if "f \<in> set forms" for f
  proof -
    have f: "f \<noteq> []" "\<not> plain (hd f)" using that assms(1) by (auto simp: list_all_iff)
    with assms(2) show ?thesis by (cases f) auto
  qed
  then have "find (\<lambda>f. f \<noteq> [] \<and> has_prefix (c # cs) f) forms = None" by (auto simp: find_None_iff)
  then show ?thesis by (simp add: space_width_def)
qed

lemma space_forms_plain:
  "list_all (\<lambda>f. f \<noteq> [] \<and> \<not> plain (hd f)) space_forms"
  "list_all (\<lambda>f. f \<noteq> [] \<and> \<not> plain (hd f)) (map rev space_forms)"
  by code_simp+

lemma trim_space_plain:
  assumes "s \<noteq> []" and "plain (hd s)" and "plain (last s)"
  shows "trim_space s = s"
proof -
  have front: "trim_front forms t = t" if "list_all (\<lambda>f. f \<noteq> [] \<and> \<not> plain (hd f)) forms" "plain (hd t)" "t \<noteq> []" for forms t
    using space_width_plain [OF that(1,2), of "tl t"] that(3) by (subst trim_front.simps) simp
  have "trim_front space_forms s = s" using front [OF space_forms_plain(1) assms(2,1)] .
  moreover have "trim_front (map rev space_forms) (rev s) = rev s"
    using front [OF space_forms_plain(2), of "rev s"] assms by (simp add: hd_rev)
  ultimately show ?thesis by (simp add: trim_space_def)
qed

lemma split_on_last: "c \<notin> set a \<Longrightarrow> split_on c a = [a]"
  by (induction a) auto

lemma split_on_append: "c \<notin> set a \<Longrightarrow> split_on c (a @ c # b) = a # split_on c b"
  by (induction a) auto

lemma split_on_join:
  assumes "xs \<noteq> []" and "list_all (\<lambda>x. c \<notin> set x) xs"
  shows "split_on c (join [c] xs) = xs"
proof -
  obtain x rest where xs: "xs = x # rest" using assms(1) by (cases xs) auto
  have imp: "c \<notin> set x \<Longrightarrow> split_on c (x @ concat (map (\<lambda>z. [c] @ z) rest)) = x # rest"
    using assms(2) unfolding xs
    by (induction rest arbitrary: x) (simp_all add: split_on_last split_on_append)
  show ?thesis unfolding xs join_def list.case concat.simps
    by (rule imp) (use assms(2) in \<open>simp add: xs\<close>)
qed

lemma cut_at_append: "c \<notin> set a \<Longrightarrow> cut_at c (a @ c # b) = Some (a, b)"
  by (induction a) auto

lemma nat_dec_chars: "c \<in> set (nat_dec n) \<Longrightarrow> plain c \<and> c \<noteq> CHR '','' \<and> c \<noteq> CHR ''=''"
  using nat_dec_digits [of c n] by (auto simp: digit_val_def plain_def Let_def split: if_splits)

lemma int_dec_chars: "c \<in> set (int_dec i) \<Longrightarrow> plain c \<and> c \<noteq> CHR '','' \<and> c \<noteq> CHR ''=''"
  using nat_dec_chars [of c] by (auto simp: int_dec_def plain_def split: if_splits)

lemma atoi_int_dec: "- (2 ^ 63) \<le> i \<Longrightarrow> i < 2 ^ 63 \<Longrightarrow> atoi (trim_space (int_dec i)) = Inr i"
  using parse_signed_dec [of 64 i] int_dec_chars [of _ i] int_dec_nonempty [of i]
  by (simp add: atoi_def trim_space_plain)

section \<open>Debounce counts\<close>

definition debounce_entry :: "string \<times> int \<Rightarrow> string" where
  "debounce_entry e = fst e @ ''='' @ int_dec (snd e)"

text \<open>A key as a chart writes it: plain text without the two separators.\<close>

definition key_text :: "string \<Rightarrow> bool" where
  "key_text k = (k \<noteq> [] \<and> list_all (\<lambda>c. plain c \<and> c \<noteq> CHR '','' \<and> c \<noteq> CHR ''='') k)"

definition count_fits :: "string \<times> int \<Rightarrow> bool" where
  "count_fits e = (key_text (fst e) \<and> - (2 ^ 63) \<le> snd e \<and> snd e < 2 ^ 63)"

lemma entry_plain:
  assumes "count_fits e"
  shows "debounce_entry e \<noteq> []" "trim_space (debounce_entry e) = debounce_entry e"
    "CHR '','' \<notin> set (debounce_entry e)"
    "cut_at CHR ''='' (debounce_entry e) = Some (fst e, int_dec (snd e))" "trim_space (fst e) = fst e"
proof -
  have key: "fst e \<noteq> []" "\<And>c. c \<in> set (fst e) \<Longrightarrow> plain c \<and> c \<noteq> CHR '','' \<and> c \<noteq> CHR ''=''"
    using assms by (auto simp: count_fits_def key_text_def list_all_iff)
  show "debounce_entry e \<noteq> []" using key(1) by (simp add: debounce_entry_def)
  show "trim_space (debounce_entry e) = debounce_entry e"
    using key int_dec_chars [of "last (int_dec (snd e))" "snd e"] int_dec_nonempty [of "snd e"]
    by (intro trim_space_plain) (auto simp: debounce_entry_def)
  show "CHR '','' \<notin> set (debounce_entry e)"
    using key(2) int_dec_chars [of _ "snd e"] by (fastforce simp: debounce_entry_def)
  show "cut_at CHR ''='' (debounce_entry e) = Some (fst e, int_dec (snd e))"
    using key(2) cut_at_append [of "CHR ''=''" "fst e"] by (fastforce simp: debounce_entry_def)
  show "trim_space (fst e) = fst e" using key by (intro trim_space_plain) auto
qed

lemma debounce_pairs_written:
  "list_all count_fits ps \<Longrightarrow> debounce_pairs (map debounce_entry ps) cfg =
     Inr (cfg\<lparr>db_per_key := fold (\<lambda>(k, n). gm_set k n) ps (db_per_key cfg)\<rparr>)"
proof (induction ps arbitrary: cfg)
  case (Cons e ps)
  then have e: "count_fits e" by simp
  then have "atoi (trim_space (int_dec (snd e))) = Inr (snd e)"
    by (intro atoi_int_dec) (simp_all add: count_fits_def)
  then show ?case using Cons entry_plain [OF e] by (cases e) simp
qed simp

lemma fold_gm_set: "map_of (fold (\<lambda>(k, n). gm_set k n) ps m) k =
    (case map_of (rev ps) k of None \<Rightarrow> map_of m k | Some n \<Rightarrow> Some n)"
  by (induction ps arbitrary: m) (auto simp: map_add_def split: option.splits)

lemma unifi_debounce_written:
  assumes "list_all count_fits ps" and "ps \<noteq> []"
    and "lookup env_debounce_keys = join '','' (map debounce_entry ps)" and "lookup env_debounce_default = []"
  shows "unifi_debounce lookup = Inr \<lparr>db_default = 1, db_per_key = fold (\<lambda>(k, n). gm_set k n) ps []\<rparr>"
proof -
  have "split_on CHR '','' (join '','' (map debounce_entry ps)) = map debounce_entry ps"
    using assms(1,2) entry_plain(3) by (intro split_on_join) (auto simp: list_all_iff)
  then show ?thesis
    using assms by (simp add: unifi_debounce_def debounce_default_def Let_def debounce_pairs_written)
qed

lemma start_operator_debounce:
  assumes "start_operator lib lookup = Inr op" and "unifi_debounce lookup = Inr cfg"
  shows "map_of (ss_debounce (op_store op)) provider_unifi = Some cfg"
proof -
  obtain bound where "op_store op = new_state_store [with_debounce provider_unifi cfg, with_stale_after provider_unifi bound]"
    using assms
    by (cases "config_from_env (sl_env lib) lookup"; cases "start_parts lib (projr (config_from_env (sl_env lib) lookup))";
        cases "policy_from_env (sl_url lib) lookup")
      (auto simp: start_operator_def in_case_def)
  then show ?thesis by (simp add: new_state_store_def with_debounce_def with_stale_after_def)
qed


text \<open>Two counts, the first of them written twice, on an operator with no console.\<close>

definition sample_counts :: "(string \<times> int) list" where
  "sample_counts = [(''wan'', 3), (''device.'', 2), (''wan'', 5)]"

definition sample_counts_env :: env where
  "sample_counts_env name =
     (if name = env_debounce_keys then join '','' (map debounce_entry sample_counts) else [])"

definition sample_start_lib :: start_lib where
  "sample_start_lib = \<lparr>sl_env = sample_env_lib, sl_url = sample_urls, sl_ip = (\<lambda>s. None), sl_show = (\<lambda>a. [])\<rparr>"


section \<open>The fast path decides nothing\<close>

text \<open>The variables only the webhook fast path reads, and an environment with others in their place.\<close>

definition fast_path_env :: "string list" where
  "fast_path_env =
     [env_webhook_enabled, env_webhook_bind_address, env_webhook_path, env_webhook_token, env_webhook_register,
      env_webhook_public_url, env_webhook_rule_title]"

definition with_fast_path :: "env \<Rightarrow> env \<Rightarrow> env" where
  "with_fast_path hooks lookup = (\<lambda>name. if name \<in> set fast_path_env then hooks name else lookup name)"

definition common :: "unifi_parts \<Rightarrow> unifi_client \<times> duration \<times> duration \<times> console_writer" where
  "common p = (up_client p, up_interval p, up_min_observe_interval p, up_writer p)"

text \<open>The operator without the receiver and the registrar.\<close>

definition main_parts ::
  "operator \<Rightarrow> state_store \<times> policy \<times> (unifi_client \<times> duration \<times> duration \<times> console_writer) option" where
  "main_parts op = (op_store op, op_policy op,
     map_option common (op_unifi op))"

lemma outside_fast_path [simp]:
  "list_all (\<lambda>n. with_fast_path hooks lookup n = lookup n)
     ([env_url, env_api_key, env_api_key_file, env_site, env_insecure_skip_verify, env_per_device_keys, env_username, env_password,
       env_actions_allowed_wlans, env_actions_allowed_poe_ports, env_actions_allowed_outlets, env_actions_allow_battery_backed,
       env_debounce_default, env_debounce_keys, env_allowed_destinations] @
      map fst duration_fields @ map fst int_fields @ map fst float_fields)"
proof -
  have "list_all (\<lambda>n. n \<notin> set fast_path_env)
     ([env_url, env_api_key, env_api_key_file, env_site, env_insecure_skip_verify, env_per_device_keys, env_username, env_password,
       env_actions_allowed_wlans, env_actions_allowed_poe_ports, env_actions_allowed_outlets, env_actions_allow_battery_backed,
       env_debounce_default, env_debounce_keys, env_allowed_destinations] @
      map fst duration_fields @ map fst int_fields @ map fst float_fields)"
    by code_simp
  then show ?thesis unfolding list_all_iff with_fast_path_def by auto
qed

lemmas outside = outside_fast_path [unfolded duration_fields_def int_fields_def float_fields_def, simplified]

lemma complaint_cong: "lookup n = lookup' n \<Longrightarrow> complaint parse lookup n = complaint parse lookup' n"
  by (simp add: complaint_def split: sum.split)

lemma complaints_outside:
  "list_all (\<lambda>n. with_fast_path hooks lookup n = lookup n) (map fst fs) \<Longrightarrow>
     complaints parse (with_fast_path hooks lookup) fs = complaints parse lookup fs"
  by (induction fs) (simp_all add: complaint_cong [of "with_fast_path hooks lookup" _ lookup] split: option.split)

lemma all_complaints_outside: "all_complaints lib (with_fast_path hooks lookup) = all_complaints lib lookup"
  using outside_fast_path [of hooks lookup]
  by (simp add: all_complaints_def complaints_outside del: outside_fast_path)

lemma configured_outside:
  "client_of (configured lib (with_fast_path hooks lookup) key) = client_of (configured lib lookup key)"
  "cg_poll_interval (configured lib (with_fast_path hooks lookup) key) = cg_poll_interval (configured lib lookup key)"
  "cg_max_observation_age (configured lib (with_fast_path hooks lookup) key) = cg_max_observation_age (configured lib lookup key)"
  "wh_min_observe_interval (cg_webhook (configured lib (with_fast_path hooks lookup) key)) =
     wh_min_observe_interval (cg_webhook (configured lib lookup key))"
  "new_writer (configured lib (with_fast_path hooks lookup) key) = new_writer (configured lib lookup key)"
  using outside [of hooks lookup]
  by (simp_all add: configured_def configured_webhook_def client_of_def given_def new_writer_def console_credentials_def)

lemma api_key_outside: "api_key_from_env read_file (with_fast_path hooks lookup) = api_key_from_env read_file lookup"
  using outside [of hooks lookup] by (simp add: api_key_from_env_def)

lemma setup_outside:
  "map_sum (\<lambda>e. e) common (setup_unifi lib (configured l (with_fast_path hooks lookup) key)) =
   map_sum (\<lambda>e. e) common (setup_unifi lib (configured l lookup key))"
  by (cases "new_writer (configured l lookup key)")
    (simp_all add: setup_unifi_def Let_def configured_outside common_def)

lemma start_parts_outside:
  "map_sum (\<lambda>e. e) (map_option common) (start_parts lib (Some (configured l (with_fast_path hooks lookup) key))) =
   map_sum (\<lambda>e. e) (map_option common) (start_parts lib (Some (configured l lookup key)))"
  using setup_outside [of lib l hooks lookup key]
  by (cases "setup_unifi lib (configured l (with_fast_path hooks lookup) key)";
      cases "setup_unifi lib (configured l lookup key)")
    (auto simp: start_parts_def in_case_def)

lemma first_parts_outside:
  "unifi_debounce (with_fast_path hooks lookup) = unifi_debounce lookup"
  "policy_from_env lib (with_fast_path hooks lookup) = policy_from_env lib lookup"
  using outside [of hooks lookup] by (simp_all add: unifi_debounce_def debounce_default_def policy_from_env_def)

lemma config_outside:
  "config_from_env lib (with_fast_path hooks lookup) =
     (case config_from_env lib lookup of
        Inr (Some cfg) \<Rightarrow> Inr (Some (configured lib (with_fast_path hooks lookup) (cg_api_key cfg)))
      | other \<Rightarrow> other)"
  using outside [of hooks lookup]
  by (simp add: config_from_env_spec api_key_outside all_complaints_outside configured_def split: sum.split list.split)

text \<open>C31: The fast path decides nothing. Put anything at all into the seven variables only the webhook
  fast path reads: start-up fails exactly as it did, with the same error, or starts the
  same store, the same outbound policy and the same poller and console writer, which
  differ at most in whether a receiver and a registrar stand beside them.\<close>

theorem fast_path_decides_nothing:
  "map_sum (\<lambda>e. e) main_parts (start_operator lib (with_fast_path hooks lookup)) =
   map_sum (\<lambda>e. e) main_parts (start_operator lib lookup)"
proof (cases "unifi_debounce lookup")
  case (Inr debounce)
  show ?thesis
  proof (cases "config_from_env (sl_env lib) lookup")
    case (Inr cfg)
    show ?thesis
    proof (cases cfg)
      case (Some c)
      then obtain key where c: "c = configured (sl_env lib) lookup key"
        using Inr configured_from_env by blast
      let ?d = "configured (sl_env lib) (with_fast_path hooks lookup) (cg_api_key c)"
      have "cg_api_key c = key" by (simp add: c configured_def)
      then show ?thesis
        using start_parts_outside [of lib "sl_env lib" hooks lookup key] Inr Some c \<open>unifi_debounce lookup = Inr debounce\<close>
        by (cases "start_parts lib (Some c)"; cases "start_parts lib (Some ?d)"; cases "policy_from_env (sl_url lib) lookup")
          (auto simp: start_operator_def in_case_def first_parts_outside config_outside configured_outside main_parts_def)
    qed (use Inr \<open>unifi_debounce lookup = Inr debounce\<close> in
      \<open>simp add: start_operator_def in_case_def first_parts_outside config_outside\<close>)
  qed (use Inr in \<open>simp add: start_operator_def in_case_def first_parts_outside config_outside\<close>)
qed (simp add: start_operator_def in_case_def first_parts_outside)

end
