(* ===== verification/StateMetrics.thy ===== *)
theory StateMetrics
  imports Receiver Observed
begin

text \<open>
  \<open>internal/metrics/metrics.go\<close>: the series the operator exposes, as maps from their labels
  to their values, and the operations that move them. A histogram is the samples it was
  given, and the registration with Prometheus is left out. No decision reads
  a series; what is proved is that the state gauges say what was last observed.
\<close>

section \<open>The series\<close>

type_synonym 'k counters = "('k \<times> nat) list"

definition bump :: "'k \<Rightarrow> 'k counters \<Rightarrow> 'k counters" where
  "bump k m = gm_set k (case map_of m k of None \<Rightarrow> 1 | Some n \<Rightarrow> n + 1) m"

record metrics =
  mt_last_observation :: "(string \<times> int) list"
  mt_observations :: "(string \<times> string) counters"
  mt_state_info :: "((string \<times> string \<times> string) \<times> nat) list"
  mt_transitions :: "(string \<times> string) counters"
  mt_matching :: "((string \<times> string) \<times> nat) list"
  mt_ready :: "((string \<times> string) \<times> nat) list"
  mt_arbitrations :: "string counters"
  mt_actions :: "(string \<times> string \<times> string \<times> string) counters"
  mt_durations :: "(string \<times> duration) list"
  mt_signals :: "(string \<times> string) counters"
  mt_reversals :: nat
  mt_stale :: "string counters"
  mt_latencies :: "(string \<times> duration) list"
  mt_deliveries :: "string counters"
  mt_declared :: "(string \<times> (string \<times> string list) list) list"
  mt_seen :: "(string \<times> string list) list"

definition new_metrics :: metrics where
  "new_metrics =
     \<lparr>mt_last_observation = [], mt_observations = [], mt_state_info = [], mt_transitions = [], mt_matching = [],
      mt_ready = [], mt_arbitrations = [], mt_actions = [], mt_durations = [], mt_signals = [], mt_reversals = 0, mt_stale = [], mt_latencies = [],
      mt_deliveries = [], mt_declared = [], mt_seen = []\<rparr>"

definition result_success :: string where "result_success = ''success''"
definition result_error :: string where "result_error = ''error''"
definition result_skipped :: string where "result_skipped = ''skipped''"

section \<open>The state gauges\<close>

definition set_vocabulary :: "string \<Rightarrow> (string \<times> string list) list \<Rightarrow> metrics \<Rightarrow> metrics" where
  "set_vocabulary provider declared m =
     m\<lparr>mt_declared := gm_set provider declared (mt_declared m),
       mt_seen := (if map_of (mt_seen m) provider = None then gm_set provider [] (mt_seen m) else mt_seen m)\<rparr>"

fun publish_values :: "string \<Rightarrow> string \<Rightarrow> string option \<Rightarrow> string list \<Rightarrow>
    ((string \<times> string \<times> string) \<times> nat) list \<Rightarrow> ((string \<times> string \<times> string) \<times> nat) list" where
  "publish_values provider key got [] g = g"
| "publish_values provider key got (v # vs) g =
     publish_values provider key got vs (gm_set (provider, key, v) (if got = Some v then 1 else 0) g)"

fun publish_keys :: "string \<Rightarrow> gomap \<Rightarrow> (string \<times> string list) list \<Rightarrow>
    string list \<times> ((string \<times> string \<times> string) \<times> nat) list \<Rightarrow>
    string list \<times> ((string \<times> string \<times> string) \<times> nat) list" where
  "publish_keys provider state [] acc = acc"
| "publish_keys provider state ((key, values) # rest) (seen, g) =
     (let got = map_of state key in
      if got = None \<and> key \<notin> set seen then publish_keys provider state rest (seen, g)
      else publish_keys provider state rest (append_new key seen, publish_values provider key got values g))"

definition publish_state :: "string \<Rightarrow> gomap \<Rightarrow> metrics \<Rightarrow> metrics" where
  "publish_state provider state m =
     (case map_of (mt_declared m) provider of
        None \<Rightarrow> m
      | Some declared \<Rightarrow>
          (case publish_keys provider state declared
              (case map_of (mt_seen m) provider of None \<Rightarrow> [] | Some s \<Rightarrow> s, mt_state_info m) of
             (seen, g) \<Rightarrow> m\<lparr>mt_seen := gm_set provider seen (mt_seen m), mt_state_info := g\<rparr>))"

definition observation_succeeded :: "string \<Rightarrow> gomap \<Rightarrow> instant \<Rightarrow> metrics \<Rightarrow> metrics" where
  "observation_succeeded provider state now m =
     publish_state provider state
       (m\<lparr>mt_observations := bump (provider, result_success) (mt_observations m),
          mt_last_observation := gm_set provider (now div second) (mt_last_observation m)\<rparr>)"

definition observation_failed :: "string \<Rightarrow> metrics \<Rightarrow> metrics" where
  "observation_failed provider m = m\<lparr>mt_observations := bump (provider, result_error) (mt_observations m)\<rparr>"

section \<open>The other series\<close>

definition transition_observed :: "string \<Rightarrow> string \<Rightarrow> metrics \<Rightarrow> metrics" where
  "transition_observed provider key m = m\<lparr>mt_transitions := bump (provider, key) (mt_transitions m)\<rparr>"

definition bool_value :: "bool \<Rightarrow> nat" where
  "bool_value b = (if b then 1 else 0)"

definition automation_evaluated :: "string \<Rightarrow> string \<Rightarrow> bool \<Rightarrow> bool \<Rightarrow> metrics \<Rightarrow> metrics" where
  "automation_evaluated namespace name matching ready m =
     m\<lparr>mt_matching := gm_set (namespace, name) (bool_value matching) (mt_matching m),
       mt_ready := gm_set (namespace, name) (bool_value ready) (mt_ready m)\<rparr>"

definition forget_automation :: "string \<Rightarrow> string \<Rightarrow> metrics \<Rightarrow> metrics" where
  "forget_automation namespace name m =
     m\<lparr>mt_matching := gm_del (namespace, name) (mt_matching m), mt_ready := gm_del (namespace, name) (mt_ready m)\<rparr>"

definition arbitration_resolved :: "string \<Rightarrow> metrics \<Rightarrow> metrics" where
  "arbitration_resolved outcome m = m\<lparr>mt_arbitrations := bump outcome (mt_arbitrations m)\<rparr>"

definition action_executed :: "string \<Rightarrow> string \<Rightarrow> bool \<Rightarrow> bool \<Rightarrow> duration \<Rightarrow> metrics \<Rightarrow> metrics" where
  "action_executed action_type kind on_exit failed took m =
     m\<lparr>mt_actions := bump (action_type, kind, if failed then result_error else result_success, format_bool on_exit)
         (mt_actions m),
       mt_durations := mt_durations m @ [(action_type, took)]\<rparr>"

definition action_skipped :: "string \<Rightarrow> string \<Rightarrow> bool \<Rightarrow> metrics \<Rightarrow> metrics" where
  "action_skipped action_type kind on_exit m =
     m\<lparr>mt_actions := bump (action_type, kind, result_skipped, format_bool on_exit) (mt_actions m)\<rparr>"

definition signals_disagreed :: "string \<Rightarrow> string \<Rightarrow> metrics \<Rightarrow> metrics" where
  "signals_disagreed provider signal m = m\<lparr>mt_signals := bump (provider, signal) (mt_signals m)\<rparr>"

definition reversal_disagreement :: "metrics \<Rightarrow> metrics" where
  "reversal_disagreement m = m\<lparr>mt_reversals := mt_reversals m + 1\<rparr>"

definition stale_decision :: "string \<Rightarrow> metrics \<Rightarrow> metrics" where
  "stale_decision provider m = m\<lparr>mt_stale := bump provider (mt_stale m)\<rparr>"

text \<open>A time that is zero is \<open>None\<close>.\<close>

definition reaction_completed :: "string \<Rightarrow> instant option \<Rightarrow> instant \<Rightarrow> metrics \<Rightarrow> metrics" where
  "reaction_completed provider observed_at now m =
     (case observed_at of
        None \<Rightarrow> m
      | Some t \<Rightarrow> m\<lparr>mt_latencies := mt_latencies m @ [(provider, now - t)]\<rparr>)"

definition delivery_label :: "delivery_outcome \<Rightarrow> string" where
  "delivery_label x = (case x of DeliveryAccepted \<Rightarrow> ''accepted'' | DeliveryCoalesced \<Rightarrow> ''coalesced'' | DeliveryRejected \<Rightarrow> ''rejected'')"

definition webhook_delivery :: "delivery_outcome \<Rightarrow> metrics \<Rightarrow> metrics" where
  "webhook_delivery x m = m\<lparr>mt_deliveries := bump (delivery_label x) (mt_deliveries m)\<rparr>"

section \<open>What the gauges say\<close>

lemma publish_values_at:
  "map_of (publish_values p k got vs g) (p', k', v) =
     (if p' = p \<and> k' = k \<and> v \<in> set vs then Some (bool_value (got = Some v)) else map_of g (p', k', v))"
  by (induction p k got vs g rule: publish_values.induct) (auto simp: bool_value_def)

lemma publish_keys_at:
  assumes "gm_wf declared"
  shows "set (fst (publish_keys p state declared (seen, g))) =
      set seen \<union> {k. k \<in> fst ` set declared \<and> map_of state k \<noteq> None}"
    and "map_of (snd (publish_keys p state declared (seen, g))) (p, k, v) =
      (case map_of declared k of
         Some vs \<Rightarrow> if v \<in> set vs \<and> (map_of state k \<noteq> None \<or> k \<in> set seen)
                    then Some (bool_value (map_of state k = Some v)) else map_of g (p, k, v)
       | None \<Rightarrow> map_of g (p, k, v))"
proof -
  have "set (fst (publish_keys p state declared (seen, g))) =
      set seen \<union> {k. k \<in> fst ` set declared \<and> map_of state k \<noteq> None} \<and>
    map_of (snd (publish_keys p state declared (seen, g))) (p, k, v) =
      (case map_of declared k of
         Some vs \<Rightarrow> if v \<in> set vs \<and> (map_of state k \<noteq> None \<or> k \<in> set seen)
                    then Some (bool_value (map_of state k = Some v)) else map_of g (p, k, v)
       | None \<Rightarrow> map_of g (p, k, v))"
    using assms
  proof (induction p state declared "(seen, g)" arbitrary: seen g rule: publish_keys.induct)
    case (2 p state key vals rest seen g)
    have wf: "gm_wf rest" "key \<notin> fst ` set rest" using 2(3) by auto
    then have fresh: "map_of rest key = None" by (simp add: map_of_eq_None_iff)
    show ?case
    proof (cases "map_of state key = None \<and> key \<notin> set seen")
      case True
      then show ?thesis using 2(1) [OF refl True wf(1)] fresh wf(2)
        by (cases "k = key") (auto split: option.splits)
    next
      case False
      then show ?thesis using 2(2) [OF refl False wf(1)] fresh wf(2)
        by (cases "k = key") (auto simp: publish_values_at Let_def split: option.splits)
    qed
  qed simp
  then show "set (fst (publish_keys p state declared (seen, g))) =
      set seen \<union> {k. k \<in> fst ` set declared \<and> map_of state k \<noteq> None}"
    and "map_of (snd (publish_keys p state declared (seen, g))) (p, k, v) =
      (case map_of declared k of
         Some vs \<Rightarrow> if v \<in> set vs \<and> (map_of state k \<noteq> None \<or> k \<in> set seen)
                    then Some (bool_value (map_of state k = Some v)) else map_of g (p, k, v)
       | None \<Rightarrow> map_of g (p, k, v))"
    by blast+
qed

text \<open>The operator from its start: the vocabulary is declared, and observations follow.\<close>

definition observed_all :: "(gomap \<times> instant) list \<Rightarrow> metrics" where
  "observed_all obs =
     fold (\<lambda>(state, now). observation_succeeded provider_unifi state now) obs
       (set_vocabulary provider_unifi state_vocabulary new_metrics)"

lemma vocabulary_wf: "gm_wf state_vocabulary"
  by code_simp

lemma observed_all_snoc:
  "observed_all (obs @ [(state, now)]) = observation_succeeded provider_unifi state now (observed_all obs)"
  by (simp add: observed_all_def)

lemma observed_all_declared:
  "map_of (mt_declared (observed_all obs)) provider_unifi = Some state_vocabulary"
proof (induction obs rule: rev_induct)
  case Nil
  show ?case by (simp add: observed_all_def set_vocabulary_def)
next
  case (snoc o1 obs)
  have "mt_declared (observation_succeeded p s t m) = mt_declared m" for p s t m
    by (simp add: observation_succeeded_def publish_state_def split: option.split prod.split)
  then show ?case using snoc by (cases o1) (simp add: observed_all_snoc)
qed

definition ever :: "(gomap \<times> instant) list \<Rightarrow> string \<Rightarrow> bool" where
  "ever obs k = list_ex (\<lambda>(state, now). map_of state k \<noteq> None) obs"

definition last_state :: "(gomap \<times> instant) list \<Rightarrow> gomap" where
  "last_state obs = (case rev obs of [] \<Rightarrow> [] | (state, now) # rest \<Rightarrow> state)"

text \<open>The keys seen, and the gauges, after any number of observations.\<close>

lemma gauges_spec:
  "(\<exists>seen. map_of (mt_seen (observed_all obs)) provider_unifi = Some seen \<and>
      set seen = {k \<in> fst ` set state_vocabulary. ever obs k}) \<and>
   (\<forall>k v. map_of (mt_state_info (observed_all obs)) (provider_unifi, k, v) =
     (case map_of state_vocabulary k of
        Some vs \<Rightarrow> if v \<in> set vs \<and> ever obs k
                   then Some (bool_value (map_of (last_state obs) k = Some v)) else None
      | None \<Rightarrow> None))"
proof (induction obs rule: rev_induct)
  case Nil
  show ?case
    by (simp add: observed_all_def set_vocabulary_def new_metrics_def ever_def split: option.split)
next
  case (snoc o1 obs)
  obtain state now where o1: "o1 = (state, now)" by fastforce
  let ?m = "observed_all obs"
  obtain seen where seen: "map_of (mt_seen ?m) provider_unifi = Some seen"
    "set seen = {k \<in> fst ` set state_vocabulary. ever obs k}"
    and gauges: "\<And>k v. map_of (mt_state_info ?m) (provider_unifi, k, v) =
     (case map_of state_vocabulary k of
        Some vs \<Rightarrow> if v \<in> set vs \<and> ever obs k
                   then Some (bool_value (map_of (last_state obs) k = Some v)) else None
      | None \<Rightarrow> None)"
    using snoc by blast
  let ?out = "publish_keys provider_unifi state state_vocabulary (seen, mt_state_info ?m)"
  have info: "mt_state_info (observed_all (obs @ [o1])) = snd ?out"
    and saw: "map_of (mt_seen (observed_all (obs @ [o1]))) provider_unifi = Some (fst ?out)"
    unfolding o1 observed_all_snoc using observed_all_declared [of obs] seen(1)
    by (simp_all add: observation_succeeded_def publish_state_def split_def)
  have ever: "ever (obs @ [o1]) k \<longleftrightarrow> ever obs k \<or> map_of state k \<noteq> None" for k
    by (auto simp: ever_def o1)
  have last: "last_state (obs @ [o1]) = state" by (simp add: last_state_def o1)
  have "k \<in> set seen \<longleftrightarrow> ever obs k" if "map_of state_vocabulary k = Some vs" for k vs
    using that seen(2) by (force dest: map_of_SomeD)
  then have "map_of (snd ?out) (provider_unifi, k, v) =
     (case map_of state_vocabulary k of
        Some vs \<Rightarrow> if v \<in> set vs \<and> ever (obs @ [o1]) k then Some (bool_value (map_of state k = Some v)) else None
      | None \<Rightarrow> None)" for k v
    unfolding publish_keys_at(2) [OF vocabulary_wf] gauges ever by (auto split: option.splits)
  moreover have "set (fst ?out) = {k \<in> fst ` set state_vocabulary. ever (obs @ [o1]) k}"
    unfolding publish_keys_at(1) [OF vocabulary_wf] ever seen(2) by auto
  ultimately show ?case unfolding info saw last by simp
qed

lemma filter_the_one: "distinct xs \<Longrightarrow> v \<in> set xs \<Longrightarrow> filter (\<lambda>x. v = x) xs = [v]"
  by (induction xs) (auto simp: filter_empty_conv)

lemma vocabulary_distinct: "(k, vs) \<in> set state_vocabulary \<Longrightarrow> distinct vs"
proof -
  have "list_all (\<lambda>(k, vs). distinct vs) state_vocabulary" by code_simp
  then show "(k, vs) \<in> set state_vocabulary \<Longrightarrow> distinct vs" by (auto simp: list_all_iff)
qed

lemma fine_value: "fine state \<Longrightarrow> map_of state k = Some v \<Longrightarrow> map_of state_vocabulary k = Some vs \<Longrightarrow> v \<in> set vs"
  by (fastforce simp: fine_def list_all_iff published_def dest: map_of_SomeD)

lemma last_seen: "map_of (last_state obs) k = Some v \<Longrightarrow> ever obs k"
proof (induction obs rule: rev_induct)
  case (snoc e obs)
  then show ?case by (cases e) (auto simp: last_state_def ever_def)
qed (simp add: last_state_def)

text \<open>Of the values declared for a key, the last observed one has gauge one and no other has.\<close>

lemma gauges_filter:
  assumes "fine (last_state obs)" and kv: "(k, vs) \<in> set state_vocabulary"
  shows "filter (\<lambda>v. map_of (mt_state_info (observed_all obs)) (provider_unifi, k, v) = Some 1) vs =
      (case map_of (last_state obs) k of None \<Rightarrow> [] | Some v \<Rightarrow> [v])"
    and "list_all (\<lambda>v. (map_of (mt_state_info (observed_all obs)) (provider_unifi, k, v) = None) = (\<not> ever obs k)) vs"
proof -
  have vs: "map_of state_vocabulary k = Some vs" using kv vocabulary_wf by (simp add: gm_wf_map_of)
  have gauge: "map_of (mt_state_info (observed_all obs)) (provider_unifi, k, v) =
      (if ever obs k then Some (bool_value (map_of (last_state obs) k = Some v)) else None)" if "v \<in> set vs" for v
    using gauges_spec [of obs] vs that by auto
  have "filter (\<lambda>v. map_of (mt_state_info (observed_all obs)) (provider_unifi, k, v) = Some 1) vs =
      filter (\<lambda>v. map_of (last_state obs) k = Some v) vs"
    using gauge last_seen [of obs k] by (intro filter_cong) (auto simp: bool_value_def)
  also have "\<dots> = (case map_of (last_state obs) k of None \<Rightarrow> [] | Some v \<Rightarrow> [v])"
    using filter_the_one [OF vocabulary_distinct [OF kv]] fine_value [OF assms(1) _ vs] by (auto split: option.splits)
  finally show "filter (\<lambda>v. map_of (mt_state_info (observed_all obs)) (provider_unifi, k, v) = Some 1) vs =
      (case map_of (last_state obs) k of None \<Rightarrow> [] | Some v \<Rightarrow> [v])" .
  show "list_all (\<lambda>v. (map_of (mt_state_info (observed_all obs)) (provider_unifi, k, v) = None) = (\<not> ever obs k)) vs"
    using gauge by (auto simp: list_all_iff)
qed

end
