(* ===== verification/StoreSpec.thy ===== *)
theory StoreSpec
  imports StateStore
begin

text \<open>
  What the controller and the poller rely on of the state store, as an interface: every
  key of every provider is a debouncing machine of its own, driven by the
  observations of its provider and by nothing else. The laws are discharged for
  the store of \<open>internal/engine/state.go\<close>, and the guarantees over runs of mixed
  observations follow from them.
\<close>

section \<open>The interface\<close>

locale debounced_store =
  fixes obs :: "'s \<Rightarrow> observation \<Rightarrow> 's"
    and view :: "'s \<Rightarrow> string \<Rightarrow> string \<Rightarrow> key_view"
    and samples :: "'s \<Rightarrow> string \<Rightarrow> string \<Rightarrow> int"
  assumes step: "gm_wf (ob_state ob) \<Longrightarrow> view (obs s ob) p k =
      (if p = ob_provider ob then key_step (samples s p k) (view s p k) (map_of (ob_state ob) k) else view s p k)"
    and config: "samples (obs s ob) p k = samples s p k"
begin

definition run where "run s obs_list = fold (\<lambda>ob s. obs s ob) obs_list s"

lemma run_simps [simp]: "run s [] = s" "run s (ob # obs_list) = run (obs s ob) obs_list"
  by (simp_all add: run_def)

lemma run_config [simp]: "samples (run s obs_list) p k = samples s p k"
  by (induction obs_list arbitrary: s) (simp_all add: config)

text \<open>Only the observations of the provider matter, in their order.\<close>

lemma run_view:
  "\<forall>ob \<in> set obs_list. gm_wf (ob_state ob) \<Longrightarrow> view (run s obs_list) p k =
     key_run (samples s p k) (view s p k)
       (map (\<lambda>ob. map_of (ob_state ob) k) (filter (\<lambda>ob. ob_provider ob = p) obs_list))"
  by (induction obs_list arbitrary: s) (auto simp: step config)

lemma run_backed:
  "\<forall>ob \<in> set obs_list. gm_wf (ob_state ob) \<Longrightarrow> kv_pending (view s p k) = None \<Longrightarrow>
     kv_pending (view (run s obs_list) p k) = Some c \<Longrightarrow>
     kv_stable (view (run s obs_list) p k) \<noteq> None \<and> kv_stable (view (run s obs_list) p k) \<noteq> Some (cand_value c) \<and>
     1 \<le> cand_count c \<and> cand_count c < samples s p k"
  using backed_run [of "view s p k" "samples s p k"] unfolding run_view by (auto simp: backed_def)

lemma undebounced:
  assumes "gm_wf (ob_state ob)" and "ob_provider ob = p" and "samples s p k \<le> 1"
  shows "kv_stable (view (obs s ob) p k) = map_of (ob_state ob) k"
  using assms by (cases "map_of (ob_state ob) k") (auto simp: step promotes_def split: option.splits)

end

interpretation store: debounced_store "\<lambda>s ob. fst (observe s ob)" provider_view samples_for
  by unfold_locales (simp_all add: observe_view)

lemma observe_all_run: "observe_all = store.run"
  by (simp add: observe_all_def store.run_def fun_eq_iff)

section \<open>A store in use\<close>

definition wan_poll :: "string \<Rightarrow> observation" where
  "wan_poll v = \<lparr>ob_provider = ''unifi'', ob_state = [(''wan'', v), (''isp'', ''a'')], ob_at = 0\<rparr>"

definition wan_store :: state_store where
  "wan_store = fst (observe (new_state_store [with_debounce ''unifi''
     \<lparr>db_default = 2, db_per_key = [(''wan*'', 3)]\<rparr>]) (wan_poll ''up''))"

lemma wan_store_facts:
  "reported wan_store ''unifi'' ''wan'' = Some ''up''"
  "kv_pending (provider_view wan_store ''unifi'' ''wan'') = None"
  "samples_for wan_store ''unifi'' ''wan'' = 3" "store_wf wan_store"
  "reported (observe_all wan_store [wan_poll ''down'', wan_poll ''down'']) ''unifi'' ''wan'' = Some ''up''"
  "reported (observe_all wan_store [wan_poll ''down'', wan_poll ''down'', wan_poll ''down'']) ''unifi'' ''wan'' = Some ''down''"
  by code_simp+

lemma wan_polls: "polls_of ''unifi'' (map wan_poll vs)" "gm_wf (ob_state (wan_poll v))"
  by (simp_all add: polls_of_def wan_poll_def list_all_iff)

theorem debounce_needs_evidence_witness:
  "\<exists>before held. [wan_poll ''down'', wan_poll ''down''] @ [wan_poll ''down''] = before @ held \<and>
     length held = nat (max 1 (samples_for wan_store ''unifi'' ''wan'')) \<and>
     (\<forall>x \<in> set held. map_of (ob_state x) ''wan'' = Some ''down'')"
  by (rule debounce_needs_evidence [where p = "''unifi''" and v = "''up''"])
    (use wan_store_facts wan_polls(1) [of "[''down'', ''down'', ''down'']"] in simp_all)


theorem observe_order_independent_witness:
  "mset (snd (observe wan_store ((wan_poll ''down'')\<lparr>ob_state := [(''isp'', ''a''), (''wan'', ''down'')]\<rparr>))) =
     mset (snd (observe wan_store (wan_poll ''down'')))"
  by (rule observe_order_independent [THEN conjunct2])
    (use wan_store_facts(4) wan_polls(2) in \<open>simp_all add: wan_poll_def\<close>)

section \<open>Runs of many providers\<close>

text \<open>C4: Keys are independent machines. After any sequence of observations, of any mix of
  providers, what the store reports of a key and what is still proving itself are
  what the one-key debouncing machine computes from that provider's observations
  of that key alone: another provider, another key, and an observation's other
  entries change neither.\<close>

theorem store_refines_key_machines:
  assumes "list_all (\<lambda>ob. gm_wf (ob_state ob)) obs"
  shows "provider_view (observe_all s obs) p k =
    key_run (samples_for s p k) (provider_view s p k)
      (map (\<lambda>ob. map_of (ob_state ob) k) (filter (\<lambda>ob. ob_provider ob = p) obs))"
  using assms unfolding observe_all_run by (simp add: store.run_view list_all_iff)

theorem store_refines_key_machines_witness:
  "provider_view (observe_all wan_store [wan_poll ''down'', (wan_poll ''up'')\<lparr>ob_provider := ''other''\<rparr>]) ''unifi'' ''wan'' =
     key_run 3 (provider_view wan_store ''unifi'' ''wan'') [Some ''down'']"
  by (subst store_refines_key_machines) (simp_all add: wan_poll_def wan_store_facts(3))

definition constructor_option :: "(state_store \<Rightarrow> state_store) \<Rightarrow> bool" where
  "constructor_option f = ((\<exists>p d. f = with_debounce p d) \<or> (\<exists>p b. f = with_stale_after p b))"

lemma new_store_empty:
  assumes "list_all constructor_option options"
  shows "ss_current (new_state_store options) = []"
proof -
  have "ss_current (fold (\<lambda>option s. option s) options s) = ss_current s" for s
    using assms
    by (induction options arbitrary: s)
      (auto simp: constructor_option_def with_debounce_def with_stale_after_def)
  then show ?thesis by (simp add: new_state_store_def)
qed

text \<open>The state of the store is well formed at every point of every run from an empty
  store, whatever its options: no map holds a key twice, a value on trial is for a
  key that has a reported value and is not that value, and it has been seen at
  least once and fewer times than the key's sample count.\<close>

theorem store_invariant:
  assumes "list_all (\<lambda>ob. gm_wf (ob_state ob)) obs" and "list_all constructor_option options"
    and "s = observe_all (new_state_store options) obs"
  shows "store_wf s \<and> (\<forall>p k c. kv_pending (provider_view s p k) = Some c \<longrightarrow>
      (\<exists>v. reported s p k = Some v \<and> v \<noteq> cand_value c) \<and>
      1 \<le> cand_count c \<and> cand_count c < samples_for s p k)"
proof -
  let ?s = "new_state_store options"
  have wf: "store_wf s \<Longrightarrow> store_wf (observe_all s obs)" for s
    by (induction obs arbitrary: s) (simp_all add: observe_all_def observe_wf)
  have start: "store_wf ?s" "kv_pending (provider_view ?s p k) = None" for p k
    using new_store_empty [OF assms(2)]
    by (simp_all add: store_wf_def provider_view_def provider_state_of_def new_provider_state_def view_of_def)
  have obs: "\<forall>ob \<in> set obs. gm_wf (ob_state ob)" using assms(1) by (simp add: list_all_iff)
  have "(\<exists>v. reported s p k = Some v \<and> v \<noteq> cand_value c) \<and> 1 \<le> cand_count c \<and> cand_count c < samples_for s p k"
    if "kv_pending (provider_view s p k) = Some c" for p k c
    using store.run_backed [OF obs start(2)] that
    unfolding assms(3) observe_all_run reported_def store.run_config by fastforce
  then show ?thesis using wf [OF start(1)] unfolding assms(3) by blast
qed

theorem store_invariant_witness:
  "store_wf (observe_all (new_state_store [with_stale_after ''unifi'' 60]) [wan_poll ''up'', wan_poll ''down''])"
  by (rule store_invariant [where options = "[with_stale_after ''unifi'' 60]", THEN conjunct1])
    (auto simp: wan_polls(2) constructor_option_def)

section \<open>The sample count of a key\<close>

definition matches_pattern :: "string \<Rightarrow> string \<times> int \<Rightarrow> nat option" where
  "matches_pattern key e = (case cut_suffix (fst e) ''*'' of
     None \<Rightarrow> None | Some prefix \<Rightarrow> if has_prefix key prefix then Some (length prefix) else None)"

lemma pattern_loop_spec:
  "pattern_loop key m (best, n) = (b, r) \<Longrightarrow> - 1 \<le> best \<Longrightarrow>
    best \<le> b \<and> (\<forall>e \<in> set m. \<forall>l. matches_pattern key e = Some l \<longrightarrow> int l \<le> b) \<and>
    ((b, r) = (best, n) \<or> (\<exists>e \<in> set m. \<exists>l. matches_pattern key e = Some l \<and> int l = b \<and> snd e = r))"
proof (induction key m "(best, n)" arbitrary: best n rule: pattern_loop.induct)
  case (2 key pattern configured rest best n)
  show ?case
  proof (cases "cut_suffix pattern ''*''")
    case None
    then show ?thesis using 2 by (auto simp: matches_pattern_def)
  next
    case (Some prefix)
    show ?thesis
    proof (cases "\<not> has_prefix key prefix \<or> int (length prefix) \<le> best")
      case True
      then have m: "matches_pattern key (pattern, configured) = Some l \<Longrightarrow> int l \<le> best" for l
        using Some by (auto simp: matches_pattern_def split: if_splits)
      have loop: "pattern_loop key rest (best, n) = (b, r)" using 2(4) Some True by auto
      show ?thesis using 2(2) [OF Some True loop 2(5)] m order_trans by auto
    next
      case False
      then have m: "matches_pattern key (pattern, configured) = Some (length prefix)" "best < int (length prefix)"
        using Some by (simp_all add: matches_pattern_def)
      have "pattern_loop key rest (int (length prefix), configured) = (b, r)" using 2(4) Some False by simp
      from 2(3) [OF Some False this] show ?thesis
        using m by auto
    qed
  qed
qed simp

text \<open>A key's sample count is its own entry when it has one, else that of a longest
  matching \<open>prefix*\<close> entry, in whichever order the configuration's map is visited;
  and without either it is the provider's default, at least 1, and 1 for a provider
  with no configuration.\<close>

theorem samples_longest_prefix:
  "case map_of (ss_debounce s) p of None \<Rightarrow> samples_for s p k = 1 | Some d \<Rightarrow>
     (case map_of (db_per_key d) k of Some n \<Rightarrow> samples_for s p k = n | None \<Rightarrow>
        if \<exists>e \<in> set (db_per_key d). matches_pattern k e \<noteq> None
        then \<exists>e \<in> set (db_per_key d). \<exists>l. matches_pattern k e = Some l \<and> snd e = samples_for s p k \<and>
          list_all (\<lambda>e'. case matches_pattern k e' of None \<Rightarrow> True | Some l' \<Rightarrow> l' \<le> l) (db_per_key d)
        else samples_for s p k = max 1 (db_default d))"
proof (cases "map_of (ss_debounce s) p")
  case None
  then show ?thesis by (simp add: samples_for_def)
next
  case (Some d)
  obtain b r where loop: "pattern_loop k (db_per_key d) (- 1, 0) = (b, r)"
    by (cases "pattern_loop k (db_per_key d) (- 1, 0)")
  note spec = pattern_loop_spec [OF loop]
  show ?thesis
  proof (cases "map_of (db_per_key d) k")
    case None
    show ?thesis
    proof (cases "\<exists>e \<in> set (db_per_key d). matches_pattern k e \<noteq> None")
      case True
      then have "0 \<le> b" using spec by fastforce
      then have "samples_for s p k = r" using Some None loop
        by (simp add: samples_for_def pattern_samples_def)
      then show ?thesis using spec Some None True \<open>0 \<le> b\<close>
        by (fastforce simp: list_all_iff split: option.splits)
    next
      case False
      then have "b = - 1" using spec by fastforce
      then show ?thesis using Some None False loop by (simp add: samples_for_def pattern_samples_def)
    qed
  qed (simp add: samples_for_def Some)
qed

end
