(* ===== verification/Pipeline.thy ===== *)
theory Pipeline
  imports StateMetrics StoreSpec
begin

text \<open>
  The way of a reading: the client that keeps what it last saw, the poller of
  \<open>internal/controller/unifi_poller.go\<close> that hands each reading to the store and what the
  store reports to the metrics, and the wake-ups that decide when the next reading is
  taken. The laws of the store are those of the locale \<open>debounced_store\<close>.
\<close>

section \<open>One round of the poller\<close>

text \<open>\<open>Store.Get\<close> of the provider; nothing observed is the empty state.\<close>

definition reported_state :: "state_store \<Rightarrow> gomap" where
  "reported_state s = (case store_get s provider_unifi of None \<Rightarrow> [] | Some ob \<Rightarrow> ob_state ob)"

definition count_transitions :: "transition list \<Rightarrow> metrics \<Rightarrow> metrics" where
  "count_transitions ts m = fold (\<lambda>t. transition_observed (tr_provider t) (tr_key t)) ts m"

text \<open>\<open>UniFiPoller.observe\<close> with the series it moves.\<close>

definition poll_round :: "(string + gomap) \<times> instant \<Rightarrow> state_store \<times> metrics \<Rightarrow> state_store \<times> metrics" where
  "poll_round r sm =
     (case poll_observe (fst sm) (fst r) (snd r) of
        (s', ts) \<Rightarrow> (s', case fst r of
            Inl e \<Rightarrow> observation_failed provider_unifi (snd sm)
          | Inr state \<Rightarrow>
              count_transitions ts (observation_succeeded provider_unifi (reported_state s') (snd r) (snd sm))))"

text \<open>The readings of a client: each sees what the one before it left in the client.\<close>

fun readings_of :: "unifi_client \<Rightarrow> previous \<Rightarrow>
    (((string + device_record list) \<times> (string + health_subsystem list)) \<times> instant) list \<Rightarrow> ((string + gomap) \<times> instant) list" where
  "readings_of c was [] = []"
| "readings_of c was (((devices, health), now) # rest) =
     (case observe_console c was devices health of
        (reading, was', counted) \<Rightarrow> (reading, now) # readings_of c was' rest)"

text \<open>From start-up: the store as configured, the vocabulary declared, and a client with no memory.\<close>

definition polled :: "debounce_config \<Rightarrow> duration \<Rightarrow> unifi_client \<Rightarrow>
    (((string + device_record list) \<times> (string + health_subsystem list)) \<times> instant) list \<Rightarrow> state_store \<times> metrics" where
  "polled debounce bound c answers =
     fold poll_round (readings_of c \<lparr>pv_wan = [], pv_isp = []\<rparr> answers)
       (new_state_store [with_debounce provider_unifi debounce, with_stale_after provider_unifi bound],
        set_vocabulary provider_unifi state_vocabulary new_metrics)"

section \<open>What the store reports\<close>

definition fine_reading :: "(string + gomap) \<times> instant \<Rightarrow> bool" where
  "fine_reading r = (case fst r of Inl e \<Rightarrow> True | Inr state \<Rightarrow> fine state)"

lemma readings_fine: "list_all fine_reading (readings_of c was answers)"
proof (induction c was answers rule: readings_of.induct)
  case (2 c was devices health now rest)
  obtain reading was' counted where o: "observe_console c was devices health = (reading, was', counted)"
    by (metis prod_cases3)
  have "fine_reading (reading, now)"
    using observe_console_fine [of c was devices health] by (auto simp: o fine_reading_def split: sum.splits)
  then show ?case using 2 [OF o [symmetric] refl] o by simp
qed simp

lemma reported_state_at: "map_of (reported_state s) k = reported s provider_unifi k"
  using store_get_reported [of s provider_unifi _ k]
  by (auto simp: reported_state_def reported_def provider_view_def provider_state_of_def view_of_def
      new_provider_state_def store_get_def split: option.splits)

lemma reported_state_wf: "store_wf s \<Longrightarrow> gm_wf (reported_state s)"
  by (auto simp: reported_state_def store_get_def store_wf_def dest!: map_of_SomeD split: option.splits)

lemma gm_wf_fine: "gm_wf m \<Longrightarrow> fine m \<longleftrightarrow> (\<forall>k v. map_of m k = Some v \<longrightarrow> published (k, v))"
  by (auto simp: fine_def list_all_iff gm_wf_map_of dest: map_of_SomeD)

lemma key_step_origin: "kv_stable (key_step n v w) = Some x \<Longrightarrow> kv_stable v = Some x \<or> w = Some x"
  by (cases w) (auto split: if_splits)

lemma observe_reported_fine:
  assumes "store_wf s" and "fine (reported_state s)" and "fine state"
  shows "store_wf (fst (observe s \<lparr>ob_provider = provider_unifi, ob_state = state, ob_at = now\<rparr>))"
    and "fine (reported_state (fst (observe s \<lparr>ob_provider = provider_unifi, ob_state = state, ob_at = now\<rparr>)))"
proof -
  let ?ob = "\<lparr>ob_provider = provider_unifi, ob_state = state, ob_at = now\<rparr>"
  show wf: "store_wf (fst (observe s ?ob))" using observe_wf [OF assms(1)] .
  have state: "gm_wf state" using assms(3) by (simp add: fine_def)
  have "published (k, v)" if "reported (fst (observe s ?ob)) provider_unifi k = Some v" for k v
  proof -
    have "reported s provider_unifi k = Some v \<or> map_of state k = Some v"
      using that store.step [of ?ob s provider_unifi k] key_step_origin state by (fastforce simp: reported_def)
    then show ?thesis
      using assms(2,3) gm_wf_fine [OF state] gm_wf_fine [OF reported_state_wf [OF assms(1)]]
      by (auto simp: reported_state_at)
  qed
  then show "fine (reported_state (fst (observe s ?ob)))"
    using gm_wf_fine [OF reported_state_wf [OF wf]] by (simp add: reported_state_at)
qed

section \<open>The gauges against the store\<close>

text \<open>The part of the series the state gauges are computed from.\<close>

definition gauge_part :: "metrics \<Rightarrow> (string \<times> (string \<times> string list) list) list \<times> (string \<times> string list) list \<times>
    ((string \<times> string \<times> string) \<times> nat) list" where
  "gauge_part m = (mt_declared m, mt_seen m, mt_state_info m)"

lemma gauge_part_others [simp]:
  "gauge_part (observation_failed p m) = gauge_part m"
  "gauge_part (count_transitions ts m) = gauge_part m"
proof -
  have "gauge_part (transition_observed p k m) = gauge_part m" for p k m
    by (simp add: gauge_part_def transition_observed_def)
  then show "gauge_part (count_transitions ts m) = gauge_part m"
    unfolding count_transitions_def by (induction ts arbitrary: m) simp_all
qed (simp add: gauge_part_def observation_failed_def)

lemma gauge_part_succeeded:
  "gauge_part m = gauge_part m' \<Longrightarrow>
     gauge_part (observation_succeeded p state t m) = gauge_part (observation_succeeded p state t m')"
  by (auto simp: gauge_part_def observation_succeeded_def publish_state_def split: option.splits prod.splits)

text \<open>What holds between rounds: the gauges are those of some observations that end in what is reported.\<close>

definition in_step :: "state_store \<times> metrics \<Rightarrow> bool" where
  "in_step sm = (store_wf (fst sm) \<and> fine (reported_state (fst sm)) \<and>
     (\<exists>obs. gauge_part (snd sm) = gauge_part (observed_all obs) \<and> last_state obs = reported_state (fst sm)))"

lemma poll_round_in_step:
  assumes "in_step sm" and "fine_reading r"
  shows "in_step (poll_round r sm)"
proof (cases "fst r")
  case (Inr state)
  let ?s = "fst (observe (fst sm) \<lparr>ob_provider = provider_unifi, ob_state = state, ob_at = snd r\<rparr>)"
  obtain obs where obs: "gauge_part (snd sm) = gauge_part (observed_all obs)" using assms(1) by (auto simp: in_step_def)
  have fine: "store_wf ?s" "fine (reported_state ?s)"
    using assms observe_reported_fine Inr by (auto simp: in_step_def fine_reading_def)
  obtain m where r: "poll_round r sm = (?s, m)"
    "gauge_part m = gauge_part (observation_succeeded provider_unifi (reported_state ?s) (snd r) (snd sm))"
    using Inr by (simp add: poll_round_def poll_observe_def split_def)
  have "gauge_part m = gauge_part (observed_all (obs @ [(reported_state ?s, snd r)]))"
    unfolding r(2) observed_all_snoc by (rule gauge_part_succeeded [OF obs])
  moreover have "last_state (obs @ [(reported_state ?s, snd r)]) = reported_state ?s" by (simp add: last_state_def)
  ultimately show ?thesis using fine unfolding in_step_def r(1) by auto
qed (use assms in \<open>simp add: poll_round_def poll_observe_def in_step_def\<close>)

lemma polled_in_step: "in_step (polled debounce bound c answers)"
proof -
  have start: "in_step (new_state_store [with_debounce provider_unifi debounce, with_stale_after provider_unifi bound],
      set_vocabulary provider_unifi state_vocabulary new_metrics)"
    by (auto simp: in_step_def new_state_store_def with_debounce_def with_stale_after_def store_wf_def reported_state_def
        store_get_def observed_all_def last_state_def intro!: exI [of _ "[]"])
  have "in_step (fold poll_round rs sm)" if "list_all fine_reading rs" "in_step sm" for rs sm
    using that by (induction rs arbitrary: sm) (simp_all add: poll_round_in_step)
  then show ?thesis unfolding polled_def using readings_fine start by blast
qed

text \<open>C27: What Automations are judged against is always of the published vocabulary. Whatever
  the console has answered since start-up, errors included, and however its keys are
  debounced, the state the store reports has no key twice, every key of the closed
  vocabulary has one of its own values, and every other entry is the carrier's slug, a
  device's \<open>online\<close> or \<open>offline\<close> under a slug, or an outlet's \<open>on\<close> or \<open>off\<close>.\<close>

theorem reported_state_is_in_vocabulary:
  "gm_wf (reported_state (fst (polled debounce bound c answers))) \<and>
   list_all published (reported_state (fst (polled debounce bound c answers)))"
  using polled_in_step [of debounce bound c answers] by (simp add: in_step_def fine_def)

text \<open>C37: The gauges say what Automations act on, never two values of one key. After any polls, of
  the values declared for a key exactly the one the store reports has gauge one, and none
  has when the store reports none; a value still proving itself shows nowhere.\<close>

theorem gauges_say_what_is_reported:
  "list_all (\<lambda>(k, values).
     filter (\<lambda>v. map_of (mt_state_info (snd (polled debounce bound c answers))) (provider_unifi, k, v) = Some 1) values =
       (case reported (fst (polled debounce bound c answers)) provider_unifi k of None \<Rightarrow> [] | Some v \<Rightarrow> [v])) state_vocabulary"
proof -
  let ?p = "polled debounce bound c answers"
  obtain obs where obs: "gauge_part (snd ?p) = gauge_part (observed_all obs)" "last_state obs = reported_state (fst ?p)"
    "fine (last_state obs)"
    using polled_in_step [of debounce bound c answers] by (auto simp: in_step_def)
  then have "mt_state_info (snd ?p) = mt_state_info (observed_all obs)" by (simp add: gauge_part_def)
  then show ?thesis
    using gauges_filter(1) [OF obs(3)] obs(2) by (auto simp: list_all_iff reported_state_at)
qed

end
