(* ===== verification/PollerFacts.thy ===== *)
theory PollerFacts
  imports Poller StoreSpec
begin

text \<open>
  What webhook deliveries can do to the poller: bring one observation forward, never
  closer to the last than the floor, and never while a value is settling. Time that
  passes on its own is a tick of the poll interval.
\<close>

section \<open>Ticks and pending values\<close>

definition is_tick :: "wake_up \<Rightarrow> bool" where
  "is_tick d = (case d of Tick t \<Rightarrow> True | _ \<Rightarrow> False)"

definition ticks :: "wake_up list \<Rightarrow> int" where
  "ticks ds = int (length (filter is_tick ds))"

lemma ticks_simps [simp]:
  "ticks [] = 0" "ticks (d # ds) = (if is_tick d then 1 else 0) + ticks ds"
  by (simp_all add: ticks_def)

lemma is_tick_simps [simp]: "\<not> is_tick (Done t)" "is_tick (Tick t)" "\<not> is_tick (Nudge t c)"
  by (simp_all add: is_tick_def)

lemma ticks_nonneg: "0 \<le> ticks ds"
  by (simp add: ticks_def)

lemma await_next_ticks:
  "await_next s mi at ds = Some ((True, t), rest) \<Longrightarrow>
     ticks rest + (if proving s provider_unifi then 1 else 0) \<le> ticks ds"
  by (induction s mi at ds rule: await_next.induct) (auto split: if_splits)

text \<open>The evidence a key has gathered for a value it does not report yet.\<close>

definition evidence :: "state_store \<Rightarrow> string \<Rightarrow> int" where
  "evidence s k = (case kv_pending (provider_view s provider_unifi k) of None \<Rightarrow> 0 | Some c \<Rightarrow> cand_count c)"

lemma pending_proves: "kv_pending (provider_view s provider_unifi k) \<noteq> None \<Longrightarrow> proving s provider_unifi"
  by (auto simp: provider_view_def provider_state_of_def view_of_def proving_def new_provider_state_def
      split: option.splits)

definition sees :: "string \<Rightarrow> string + gomap \<Rightarrow> bool" where
  "sees k reading = (case reading of Inl e \<Rightarrow> True | Inr state \<Rightarrow> gm_wf state \<and> map_of state k \<noteq> None)"

text \<open>One reading adds at most one to the evidence, and promotes nothing that has too little.\<close>

lemma key_step_short:
  assumes "kv_stable v = Some x" and "w \<noteq> None" and "0 \<le> (case kv_pending v of None \<Rightarrow> 0 | Some c \<Rightarrow> cand_count c)"
    and "(case kv_pending v of None \<Rightarrow> 0 | Some c \<Rightarrow> cand_count c) + 1 < n"
  shows "kv_stable (key_step n v w) = Some x"
    and "kv_pending (key_step n v w) = None \<or>
      (\<exists>c. kv_pending (key_step n v w) = Some c \<and> 0 \<le> cand_count c \<and>
         cand_count c \<le> (case kv_pending v of None \<Rightarrow> 0 | Some c \<Rightarrow> cand_count c) + 1)"
  using assms by (auto simp: promotes_def next_candidate_def split: option.splits if_splits)

lemma poll_observe_short:
  fixes now :: instant
  assumes "sees k reading" and "reported s provider_unifi k = Some v" and "0 \<le> evidence s k"
    and "evidence s k + 1 < samples_for s provider_unifi k"
  defines "s' \<equiv> fst (poll_observe s reading now)"
  shows "reported s' provider_unifi k = Some v" and "0 \<le> evidence s' k"
    and "evidence s' k \<le> evidence s k + 1" and "samples_for s' provider_unifi k = samples_for s provider_unifi k"
    and "evidence s' k = 0 \<or> proving s' provider_unifi"
proof -
  have all: "reported s' provider_unifi k = Some v \<and> 0 \<le> evidence s' k \<and> evidence s' k \<le> evidence s k + 1 \<and>
      samples_for s' provider_unifi k = samples_for s provider_unifi k"
  proof (cases reading)
    case (Inr state)
    let ?ob = "\<lparr>ob_provider = provider_unifi, ob_state = state, ob_at = now\<rparr>"
    have s': "s' = fst (observe s ?ob)" by (simp add: s'_def poll_observe_def Inr)
    have seen: "gm_wf state" "map_of state k \<noteq> None" using assms(1) by (simp_all add: sees_def Inr)
    have view: "provider_view s' provider_unifi k =
        key_step (samples_for s provider_unifi k) (provider_view s provider_unifi k) (map_of state k)"
      using store.step [of ?ob s provider_unifi k] seen by (simp add: s')
    have "samples_for s' provider_unifi k = samples_for s provider_unifi k"
      unfolding s' by (rule store.config)
    moreover have "reported s' provider_unifi k = Some v"
      using key_step_short(1) assms(2-4) seen(2) unfolding reported_def evidence_def view by blast
    moreover have "evidence s' k = 0 \<or> (0 \<le> evidence s' k \<and> evidence s' k \<le> evidence s k + 1)"
      using key_step_short(2) [of "provider_view s provider_unifi k" v "map_of state k" "samples_for s provider_unifi k"]
        assms(2-4) seen(2) unfolding reported_def evidence_def view by auto
    ultimately show ?thesis using assms(3) by auto
  qed (use assms in \<open>simp add: poll_observe_def\<close>)
  then show "reported s' provider_unifi k = Some v" "0 \<le> evidence s' k" "evidence s' k \<le> evidence s k + 1"
    "samples_for s' provider_unifi k = samples_for s provider_unifi k" by auto
  show "evidence s' k = 0 \<or> proving s' provider_unifi"
    using pending_proves [of s' k] by (cases "kv_pending (provider_view s' provider_unifi k)") (auto simp: evidence_def)
qed

lemma short_of_ticks:
  assumes "list_all (sees k) readings" and "reported s provider_unifi k = Some v" and "0 \<le> evidence s k"
    and "evidence s k + 1 + ticks ds < samples_for s provider_unifi k"
  shows "list_all (\<lambda>(t, s'). reported s' provider_unifi k = Some v) (poller_run mi s now readings ds)"
  using assms
proof (induction mi s now readings ds rule: poller_run.induct)
  case (2 mi s now reading readings ds)
  define s' where "s' = fst (poll_observe s reading now)"
  have "evidence s k + 1 < samples_for s provider_unifi k" using 2(5) ticks_nonneg [of ds] by linarith
  note short = poll_observe_short [of k reading s v now, folded s'_def, OF _ 2(3,4) this]
  have sees: "sees k reading" "list_all (sees k) readings" using 2(2) by simp_all
  note now = short [OF sees(1)]
  have "list_all (\<lambda>(t, s'). reported s' provider_unifi k = Some v) (poller_run mi s' t readings rest)"
    if nxt: "await_next s' mi now ds = Some ((True, t), rest)" for t rest
  proof (rule 2(1) [OF s'_def nxt refl refl refl sees(2) now(1,2)])
    show "evidence s' k + 1 + ticks rest < samples_for s' provider_unifi k"
      using now(3-5) 2(4,5) await_next_ticks [OF nxt] by (auto split: if_splits)
  qed
  then show ?case using now(1) by (auto simp: Let_def s'_def [symmetric] split: option.splits prod.splits bool.splits)
qed simp

section \<open>The floor\<close>

lemma await_next_floor:
  "await_next s mi at ds = Some ((True, t), rest) \<Longrightarrow> ticks ds = 0 \<Longrightarrow> at + mi \<le> t \<and> ticks rest = 0"
proof (induction s mi at ds rule: await_next.induct)
  case (4 s mi at u c rest)
  then show ?case by (auto simp: wait_for_def split: if_splits)
next
  case (3 s mi at u rest)
  then show ?case using ticks_nonneg [of rest] by simp
qed simp_all

lemma poller_run_starts: "poller_run mi s now readings ds = (t, s') # later \<Longrightarrow> t = now"
  by (cases readings) (auto simp: Let_def)

lemma floor_run:
  "ticks ds = 0 \<Longrightarrow> successively (\<lambda>(t, s) (u, s'). t + mi \<le> u) (poller_run mi s now readings ds)"
proof (induction mi s now readings ds rule: poller_run.induct)
  case (2 mi s now reading readings ds)
  define s' where "s' = fst (poll_observe s reading now)"
  have "successively (\<lambda>(t, s) (u, s'). t + mi \<le> u) ((now, s') # poller_run mi s' t readings rest)"
    if nxt: "await_next s' mi now ds = Some ((True, t), rest)" for t rest
  proof -
    have t: "now + mi \<le> t" "ticks rest = 0" using await_next_floor [OF nxt 2(2)] by auto
    have "successively (\<lambda>(t, s) (u, s'). t + mi \<le> u) (poller_run mi s' t readings rest)"
      using 2(1) [OF s'_def nxt refl refl refl t(2)] .
    then show ?thesis using poller_run_starts [of mi s' t readings rest] t(1)
      by (cases "poller_run mi s' t readings rest") auto
  qed
  then show ?case by (auto simp: Let_def s'_def [symmetric] split: option.splits prod.splits bool.splits)
qed simp

text \<open>The bound is met: a delivery that arrives while nothing is settling supplies the first sample.\<close>

lemma delivery_supplies_first_sample:
  "map (\<lambda>(t, s'). reported s' provider_unifi ''wan'')
     (poller_start 0 wan_store 0 [Inr [(''wan'', ''up'')], Inr [(''wan'', ''down'')], Inr [(''wan'', ''down'')], Inr [(''wan'', ''down'')]]
        [Nudge second False, Tick (30 * second), Tick (60 * second)]) =
   [Some ''up'', Some ''up'', Some ''up'', Some ''down'']"
  by code_simp



end
