(* ===== verification/MockState.thy ===== *)
theory MockState
  imports ConsoleOutlet Alarm Fleet
begin

text \<open>
  The state of the mock console, \<open>hack/mock-unifi/main.go\<close>: what it holds beside the
  captured documents, and the synthetic wireless networks and switch it starts with. A
  document is what its encoding says: a Go \<open>int\<close> the mock puts in one and the \<open>float64\<close>
  it is decoded as are the same number. The captures are files: part of the state, since
  nothing writes them.
\<close>

section \<open>Documents on the wire\<close>

text \<open>
  A map has no key twice; anything else is no document, and stands for what
  \<open>json.Marshal\<close> refuses: a number that is infinite or none.
\<close>

definition not_encodable :: jv where
  "not_encodable = JObj [([], JNull), ([], JNull)]"

definition float_doc :: "f64 \<Rightarrow> jv" where
  "float_doc x = (case x of Fin r \<Rightarrow> JNum r | _ \<Rightarrow> not_encodable)"

definition int_doc :: "int \<Rightarrow> jv" where
  "int_doc i = JNum (of_int i)"

fun all_objects :: "(jobj \<Rightarrow> bool) \<Rightarrow> jv \<Rightarrow> bool"
  and all_items :: "(jobj \<Rightarrow> bool) \<Rightarrow> jv list \<Rightarrow> bool"
  and all_entries :: "(jobj \<Rightarrow> bool) \<Rightarrow> jobj \<Rightarrow> bool" where
  "all_objects P (JArr xs) = all_items P xs"
| "all_objects P (JObj ps) = (P ps \<and> all_entries P ps)"
| "all_objects P JNull = True"
| "all_objects P (JBool b) = True"
| "all_objects P (JNum x) = True"
| "all_objects P (JStr s) = True"
| "all_items P [] = True"
| "all_items P (x # xs) = (all_objects P x \<and> all_items P xs)"
| "all_entries P [] = True"
| "all_entries P ((k, x) # ps) = (all_objects P x \<and> all_entries P ps)"

abbreviation encodes :: "jv \<Rightarrow> bool" where
  "encodes \<equiv> all_objects gm_wf"

text \<open>A document with the entries of every object in the order of their keys, as it is encoded.\<close>

fun canonical :: "jv \<Rightarrow> jv"
  and canonical_items :: "jv list \<Rightarrow> jv list"
  and canonical_entries :: "jobj \<Rightarrow> jobj" where
  "canonical (JArr xs) = JArr (canonical_items xs)"
| "canonical (JObj ps) = JObj (canonical_entries ps)"
| "canonical JNull = JNull"
| "canonical (JBool b) = JBool b"
| "canonical (JNum x) = JNum x"
| "canonical (JStr s) = JStr s"
| "canonical_items [] = []"
| "canonical_items (x # xs) = canonical x # canonical_items xs"
| "canonical_entries [] = []"
| "canonical_entries ((k, x) # ps) =
     insort_key fst (k, canonical x) (canonical_entries ps)"

text \<open>\<open>equalJSON\<close>: an absent value is \<open>nil\<close>, which encodes as null.\<close>

definition nil_or :: "jv option \<Rightarrow> jv" where
  "nil_or v = (case v of None \<Rightarrow> JNull | Some x \<Rightarrow> x)"

definition equal_json :: "jv option \<Rightarrow> jv option \<Rightarrow> bool" where
  "equal_json a b =
     (encodes (nil_or a) \<and> encodes (nil_or b) \<and> canonical (nil_or a) = canonical (nil_or b))"

text \<open>\<open>int(f)\<close> of a \<open>float64\<close> at 64 bits, \<open>toFloat\<close>, and the two readings of an outlet made with it.\<close>

definition float_int :: "(rat \<Rightarrow> int) \<Rightarrow> rat \<Rightarrow> int" where
  "float_int wild x =
     (if - (2 ^ 63) \<le> Json.truncate x \<and> Json.truncate x < 2 ^ 63 then Json.truncate x else int64 (wild x))"

definition to_float :: "jv option \<Rightarrow> rat option" where
  "to_float v = (case v of Some (JNum x) \<Rightarrow> Some x | _ \<Rightarrow> None)"

definition field_relay_group :: string where "field_relay_group = ''relay_group''"
definition field_cycle_enabled :: string where "field_cycle_enabled = ''cycle_enabled''"

definition mock_outlet_index :: "(rat \<Rightarrow> int) \<Rightarrow> jobj \<Rightarrow> int option" where
  "mock_outlet_index wild d = map_option (float_int wild) (to_float (map_of d field_outlet_index))"

definition mock_outlet_group :: "(rat \<Rightarrow> int) \<Rightarrow> jobj \<Rightarrow> int option" where
  "mock_outlet_group wild d = map_option (float_int wild) (to_float (map_of d field_relay_group))"

text \<open>\<open>slugifyName\<close>, the mock's own copy of the slug rule, as the loop it is.\<close>

definition slug_step :: "bool \<times> string \<Rightarrow> nat \<Rightarrow> bool \<times> string" where
  "slug_step s r =
     (case s of (pending, out) \<Rightarrow>
        if (97 \<le> r \<and> r \<le> 122) \<or> (48 \<le> r \<and> r \<le> 57)
        then (False, (if pending \<and> 0 < length out then out @ ''-'' else out) @ [char_of r])
        else (True, out))"

definition slugify_name :: "string \<Rightarrow> string" where
  "slugify_name name = snd (foldl slug_step (False, []) (map lower_rune (runes name)))"

section \<open>The state\<close>

definition mock_csrf :: string where "mock_csrf = ''mock-csrf-token''"
definition link_primary :: string where "link_primary = ''primary''"
definition link_backup :: string where "link_backup = ''backup''"
definition default_variant :: string where "default_variant = ''clean''"
definition default_backup_isp :: string where "default_backup_isp = ''Mock Backup Carrier''"
definition status_failed :: string where "status_failed = ''failed''"
definition status_online :: string where "status_online = ''online''"
definition status_health_ok :: string where "status_health_ok = ''ok''"
definition mock_upgrade_version :: string where "mock_upgrade_version = ''9.9.9.99999''"
definition mock_ups_id :: string where "mock_ups_id = ''000000000000000000000042''"
definition mock_switch_mac :: string where "mock_switch_mac = ''aa:bb:cc:00:11:33''"
definition mock_switch_name :: string where "mock_switch_name = ''mock-switch''"

definition outlet_caps_battery_backed :: int where "outlet_caps_battery_backed = 65549"
definition outlet_caps_surge_only :: int where "outlet_caps_surge_only = 65541"

datatype uplink_claim = UplinkMoves | UplinkPinned | UplinkBoth | UplinkNeither

record failover_variant =
  fv_is_uplink :: uplink_claim
  fv_context :: bool
  fv_why :: string

definition failover_variants :: "(string \<times> failover_variant) list" where
  "failover_variants =
     [(default_variant, \<lparr>fv_is_uplink = UplinkMoves, fv_context = True,
         fv_why = ''every signal moves together '' @ em_dash @ '' what the wan mapping assumes, ''
           @ ''and the only variant it gets right for the right reason''\<rparr>),
      (''is-uplink-only'', \<lparr>fv_is_uplink = UplinkMoves, fv_context = False,
         fv_why = ''is_uplink moves and nothing else does '' @ em_dash @ '' the mapping is right, ''
           @ ''but its cross-checks contradict it''\<rparr>),
      (''is-uplink-pinned'', \<lparr>fv_is_uplink = UplinkPinned, fv_context = True,
         fv_why = ''is_uplink means '' @ apostrophe @ ''the port configured as primary'' @ apostrophe @ '' and never moves ''
           @ em_dash @ '' '' @ ''the mapping reports primary right through a failover''\<rparr>),
      (''both-uplinks'', \<lparr>fv_is_uplink = UplinkBoth, fv_context = True,
         fv_why = ''is_uplink means '' @ apostrophe @ ''configured as an uplink'' @ apostrophe
           @ '', so both ports claim it whenever both are up''\<rparr>),
      (''no-uplink'', \<lparr>fv_is_uplink = UplinkNeither, fv_context = True,
         fv_why = ''the switchover window: the old uplink has dropped and the new one is not claimed yet''\<rparr>)]"

text \<open>What is rewritten on one device: absent, or empty, leaves the capture alone.\<close>

record device_override =
  ov_state :: "int option"
  ov_adopted :: "bool option"
  ov_rename :: string
  ov_absent :: bool
  ov_upgradable :: "bool option"
  ov_eol :: "bool option"
  ov_celsius :: "f64 option"
  ov_overheating :: "bool option"
  ov_general :: bool

definition no_override :: device_override where
  "no_override = \<lparr>ov_state = None, ov_adopted = None, ov_rename = [], ov_absent = False,
     ov_upgradable = None, ov_eol = None, ov_celsius = None, ov_overheating = None, ov_general = False\<rparr>"

record mock =
  mk_pristine :: "jv list"
  mk_pristine_health :: "jv list"
  mk_link :: string
  mk_variant :: string
  mk_backup_isp :: string
  mk_network_version :: string
  mk_on_batt :: bool
  mk_batt_level :: int
  mk_runtime :: "int option"
  mk_output :: "f64 option"
  mk_load_budget :: "f64 option"
  mk_www_status :: string
  mk_no_www :: bool
  mk_availability :: "f64 option"
  mk_latency :: "f64 option"
  mk_no_quality :: bool
  mk_ap_adopted :: "int option"
  mk_ap_disconnected :: "int option"
  mk_wlan_status :: string
  mk_no_wlan :: bool
  mk_poe_watts :: "f64 option"
  mk_poe_budget :: "f64 option"
  mk_poe_silent :: bool
  mk_no_ups :: bool
  mk_outlet_open :: "(int \<times> bool) list"
  mk_outlet_labels :: "(int \<times> string) list"
  mk_outlet_grouped :: bool
  mk_no_outlets :: bool
  mk_no_relay_groups :: bool
  mk_no_outlet_caps :: bool
  mk_no_outlet_overrides :: bool
  mk_outlet_writes :: "string list"
  mk_wlans :: "(string \<times> jobj) list"
  mk_switch :: jobj
  mk_cycles :: "string list"
  mk_device_overrides :: "(string \<times> device_override) list"
  mk_rules :: "(string \<times> jobj) list"

section \<open>What it starts with\<close>

text \<open>\<open>%012d\<close>.\<close>

definition pad12 :: "nat \<Rightarrow> string" where
  "pad12 n = replicate (12 - length (nat_dec n)) (CHR ''0'') @ nat_dec n"

definition mock_wlan :: "nat \<Rightarrow> string \<Rightarrow> bool \<Rightarrow> string \<times> jobj" where
  "mock_wlan n name enabled =
     (let wid = ''019ff10d-1111-0000-0000-'' @ pad12 n in
      (wid, [(field_wlan_id, JStr wid), (field_wlan_name, JStr name), (field_wlan_enabled, JBool enabled),
             (''security'', JStr ''wpapsk''), (''wpa_mode'', JStr ''wpa2''),
             (''usergroup_id'', JStr ''019ff10d-2222-0000-0000-000000000001'')]))"

definition mock_wlans :: "(string \<times> jobj) list" where
  "mock_wlans = [mock_wlan 1 ''mock-main'' True, mock_wlan 2 ''mock-guest'' True, mock_wlan 3 ''mock-iot'' False]"

definition mock_port :: "int \<Rightarrow> string \<Rightarrow> bool \<Rightarrow> bool \<Rightarrow> bool option \<Rightarrow> jv" where
  "mock_port i name uplink poe powered =
     JObj ([(field_port_index, int_doc i), (field_port_name, JStr name), (field_is_uplink, JBool uplink),
            (field_port_poe, JBool poe)]
           @ (case powered of None \<Rightarrow> [] | Some b \<Rightarrow> [(field_poe_enable, JBool b)]))"

definition mock_switch :: jobj where
  "mock_switch =
     [(field_mac, JStr mock_switch_mac), (''model'', JStr ''MOCKPOE''), (''type'', JStr ''usw''),
      (''name'', JStr mock_switch_name), (''state'', int_doc 1), (''adopted'', JBool True),
      (field_port_table, JArr
         [mock_port 1 ''mock-uplink'' True True (Some True), mock_port 7 ''mock-ap'' False True (Some True),
          mock_port 8 ''mock-desk'' False False None, mock_port 9 ''mock-spare'' False True (Some False)])]"

text \<open>The mock as \<open>main\<close> builds it from the captured devices, the captured health and a version.\<close>

definition initial_mock :: "jv list \<Rightarrow> jv list \<Rightarrow> string \<Rightarrow> mock" where
  "initial_mock devices health version =
     \<lparr>mk_pristine = devices, mk_pristine_health = health, mk_link = link_primary, mk_variant = default_variant,
      mk_backup_isp = default_backup_isp, mk_network_version = version, mk_on_batt = False, mk_batt_level = 100,
      mk_runtime = None, mk_output = None, mk_load_budget = None, mk_www_status = status_health_ok,
      mk_no_www = False, mk_availability = None, mk_latency = None, mk_no_quality = False,
      mk_ap_adopted = None, mk_ap_disconnected = None, mk_wlan_status = [], mk_no_wlan = False,
      mk_poe_watts = None, mk_poe_budget = None, mk_poe_silent = False, mk_no_ups = False,
      mk_outlet_open = [], mk_outlet_labels = [], mk_outlet_grouped = False, mk_no_outlets = False,
      mk_no_relay_groups = False, mk_no_outlet_caps = False, mk_no_outlet_overrides = False,
      mk_outlet_writes = [], mk_wlans = mock_wlans, mk_switch = mock_switch, mk_cycles = [],
      mk_device_overrides = [], mk_rules = []\<rparr>"

section \<open>The slug rule is the provider's\<close>

lemma slug_fold: "snd (foldl slug_step (pending, out) rs) = slug_from rs pending out"
  by (induction rs pending out rule: slug_from.induct) (auto simp: slug_step_def slug_rune_def)

lemma slugify_name_slugify: "slugify_name name = slugify name"
  unfolding slugify_name_def slugify_def by (rule slug_fold)

end
