(* ===== verification/MockFleet.thy ===== *)
theory MockFleet
  imports MockState
begin

text \<open>
  What the mock console serves, \<open>hack/mock-unifi/main.go\<close>: every response rebuilt from the
  capture and rewritten to the state of the mock (\<open>devices\<close>, \<open>health\<close> and the functions
  they call), the outlets as captured, and the devices as the fleet listing names them.
  A rewrite takes the record it changes and gives it back changed.
\<close>

section \<open>Rewriting one device\<close>

definition field_max_power :: string where "field_max_power = ''total_max_power''"
definition field_poe_power :: string where "field_poe_power = ''poe_power''"
definition zero_watts :: string where "zero_watts = ''0.00''"

text \<open>\<open>rewritePoE\<close>, the loop over the ports; \<open>fixed2\<close> is \<open>FormatFloat(watts, 'f', 2, 64)\<close>.\<close>

definition flag :: "jv option \<Rightarrow> bool" where
  "flag v = (case as_bool v of None \<Rightarrow> False | Some b \<Rightarrow> b)"

fun rewrite_ports :: "(f64 \<Rightarrow> string) \<Rightarrow> mock \<Rightarrow> bool \<Rightarrow> jv list \<Rightarrow> jv list" where
  "rewrite_ports fixed2 m assigned [] = []"
| "rewrite_ports fixed2 m assigned (x # xs) =
     (case as_object x of
        None \<Rightarrow> x # rewrite_ports fixed2 m assigned xs
      | Some port \<Rightarrow>
          if \<not> flag (map_of port field_poe_enable) \<or> flag (map_of port field_is_uplink) \<or> assigned
          then JObj (gm_set field_poe_power (JStr zero_watts) port) # rewrite_ports fixed2 m assigned xs
          else if mk_poe_silent m
          then JObj (gm_del field_poe_power port) # rewrite_ports fixed2 m True xs
          else JObj (gm_set field_poe_power
                 (JStr (fixed2 (case mk_poe_watts m of None \<Rightarrow> Fin 0 | Some w \<Rightarrow> w))) port)
               # rewrite_ports fixed2 m True xs)"

definition rewrite_poe :: "(f64 \<Rightarrow> string) \<Rightarrow> mock \<Rightarrow> jobj \<Rightarrow> jobj" where
  "rewrite_poe fixed2 m d =
     (case mk_poe_budget m of
        None \<Rightarrow> d
      | Some budget \<Rightarrow>
          if map_of d field_mac \<noteq> Some (JStr mock_switch_mac) then d
          else (let d' = gm_set field_max_power (float_doc budget) d in
                case as_array (map_of d' field_port_table) of
                  None \<Rightarrow> d'
                | Some ports \<Rightarrow> gm_set field_port_table (JArr (rewrite_ports fixed2 m False ports)) d'))"

text \<open>\<open>rewriteOutlets\<close>: one outlet of the table, and the override that goes with it.\<close>

definition outlet_is_open :: "mock \<Rightarrow> int \<Rightarrow> bool" where
  "outlet_is_open m i = (map_of (mk_outlet_open m) i = Some True)"

definition outlet_label :: "mock \<Rightarrow> int \<Rightarrow> string" where
  "outlet_label m i = (case map_of (mk_outlet_labels m) i of None \<Rightarrow> [] | Some l \<Rightarrow> l)"

definition served_outlet :: "(rat \<Rightarrow> int) \<Rightarrow> mock \<Rightarrow> int \<Rightarrow> jobj \<Rightarrow> jobj" where
  "served_outlet wild m i d =
     (let d1 = (if outlet_is_open m i then gm_set field_relay_state (JBool False) d else d);
          d2 = (if outlet_label m i \<noteq> [] then gm_set field_outlet_name (JStr (outlet_label m i)) d1 else d1);
          d3 = (if mk_no_outlet_caps m then d2
                else gm_set field_outlet_caps (int_doc
                  (if mock_outlet_group wild d2 = Some 1 then outlet_caps_battery_backed else outlet_caps_surge_only)) d2)
      in if mk_no_relay_groups m then gm_del field_relay_group d3 else d3)"

definition text_of :: "jv option \<Rightarrow> string" where
  "text_of v = (case as_string v of None \<Rightarrow> [] | Some s \<Rightarrow> s)"

definition outlet_override :: "int \<Rightarrow> jobj \<Rightarrow> jobj" where
  "outlet_override i outlet =
     [(field_outlet_index, int_doc i), (field_outlet_name, JStr (text_of (map_of outlet field_outlet_name))),
      (field_relay_state, JBool (flag (map_of outlet field_relay_state))), (field_cycle_enabled, JBool False)]"

fun rewrite_outlet_table :: "(rat \<Rightarrow> int) \<Rightarrow> mock \<Rightarrow> jv list \<Rightarrow> jv list \<times> jv list" where
  "rewrite_outlet_table wild m [] = ([], [])"
| "rewrite_outlet_table wild m (x # xs) =
     (case rewrite_outlet_table wild m xs of (table, overrides) \<Rightarrow>
        (case as_object x of
           None \<Rightarrow> (x # table, overrides)
         | Some d \<Rightarrow>
             (case mock_outlet_index wild d of
                None \<Rightarrow> (x # table, overrides)
              | Some i \<Rightarrow> (let d' = served_outlet wild m i d in
                  (JObj d' # table, JObj (outlet_override i d') # overrides)))))"

definition rewrite_outlets :: "(rat \<Rightarrow> int) \<Rightarrow> mock \<Rightarrow> jobj \<Rightarrow> jobj" where
  "rewrite_outlets wild m d =
     (case as_array (map_of d field_outlet_table) of
        None \<Rightarrow> d
      | Some outlets \<Rightarrow>
          if mk_no_outlets m then gm_del field_outlet_table d
          else if outlets = [] then d
          else (case rewrite_outlet_table wild m outlets of (table, overrides) \<Rightarrow>
                  let d' = gm_set field_outlet_table (JArr table) (gm_set field_device_id (JStr mock_ups_id) d)
                  in if mk_no_outlet_overrides m then d'
                     else gm_set field_outlet_overrides (JArr overrides) d'))"

definition rewrite_thermals :: "device_override \<Rightarrow> jobj \<Rightarrow> jobj" where
  "rewrite_thermals v d =
     (if ov_celsius v = None \<and> ov_overheating v = None then d
      else (let d1 = gm_set ''has_fan'' (JBool False) (gm_set ''has_temperature'' (JBool True) d);
                d2 = (case ov_overheating v of None \<Rightarrow> d1 | Some hot \<Rightarrow> gm_set ''overheating'' (JBool hot) d1)
            in case ov_celsius v of
                 None \<Rightarrow> d2
               | Some c \<Rightarrow>
                   if ov_general v then gm_set ''general_temperature'' (float_doc c) d2
                   else gm_set ''temperatures'' (JArr
                     [JObj [(''name'', JStr ''CPU''), (''type'', JStr ''cpu''), (''value'', float_doc c)],
                      JObj [(''name'', JStr ''System''), (''type'', JStr ''board''), (''value'', JNull)]]) d2))"

definition set_some :: "string \<Rightarrow> ('a \<Rightarrow> jv) \<Rightarrow> 'a option \<Rightarrow> jobj \<Rightarrow> jobj" where
  "set_some k f v d = (case v of None \<Rightarrow> d | Some x \<Rightarrow> gm_set k (f x) d)"

definition rewrite_override :: "device_override \<Rightarrow> jobj \<Rightarrow> jobj" where
  "rewrite_override v d =
     (let d1 = set_some ''state'' int_doc (ov_state v) d;
          d2 = set_some ''adopted'' JBool (ov_adopted v) d1;
          d3 = (if ov_rename v \<noteq> [] then gm_set ''name'' (JStr (ov_rename v)) d2 else d2);
          d4 = set_some ''upgradable'' JBool (ov_upgradable v) d3;
          d5 = (if ov_upgradable v = Some True then gm_set ''upgrade_to_firmware'' (JStr mock_upgrade_version) d4 else d4);
          d6 = set_some ''model_in_eol'' JBool (ov_eol v) d5
      in rewrite_thermals v d6)"

text \<open>\<open>rewriteFleet\<close>: nothing for a device that is not to appear.\<close>

definition rewrite_fleet :: "(rat \<Rightarrow> int) \<Rightarrow> (f64 \<Rightarrow> string) \<Rightarrow> mock \<Rightarrow> jobj \<Rightarrow> jobj option" where
  "rewrite_fleet wild fixed2 m d =
     (let set_here = rewrite_outlets wild m (rewrite_poe fixed2 m d) in
      case map_of (mk_device_overrides m) (slugify_name (text_of (map_of d ''name''))) of
        None \<Rightarrow> Some set_here
      | Some v \<Rightarrow> if ov_absent v then None else Some (rewrite_override v set_here))"

definition rewrite_batt_pool :: "mock \<Rightarrow> jobj \<Rightarrow> jobj" where
  "rewrite_batt_pool m pool =
     (let p1 = (case mk_runtime m of
                  None \<Rightarrow> pool
                | Some s \<Rightarrow> if s = 0 then gm_del ''timeToRemain'' pool else gm_set ''timeToRemain'' (int_doc s) pool)
      in set_some ''device_total_power_budget'' float_doc (mk_load_budget m)
           (set_some ''device_total_power_output'' float_doc (mk_output m) p1))"

definition rewrite_battery :: "mock \<Rightarrow> jobj \<Rightarrow> jobj" where
  "rewrite_battery m d =
     (case map_of d ''vbms_table'' of
        Some (JObj vbms) \<Rightarrow>
          (let v1 = gm_set ''is_battery_mode'' (JBool (mk_on_batt m)) vbms;
               v2 = (case map_of v1 ''battpool'' of
                       Some (JObj pool) \<Rightarrow>
                         gm_set ''battpool'' (JObj (rewrite_batt_pool m
                           (gm_set ''ischarging'' (JBool (\<not> mk_on_batt m))
                             (gm_set ''batteryLevel'' (int_doc (mk_batt_level m)) pool)))) v1
                     | _ \<Rightarrow> v1)
           in gm_set ''vbms_table'' (JObj v2) d)
      | _ \<Rightarrow> d)"

text \<open>\<open>failover\<close>: a gateway whose two ports are records, as the variant says it would report.\<close>

definition claim_ports :: "uplink_claim \<Rightarrow> jobj \<times> jobj \<Rightarrow> jobj \<times> jobj" where
  "claim_ports c p =
     (let claims = (\<lambda>a b. (gm_set field_is_uplink (JBool a) (fst p), gm_set field_is_uplink (JBool b) (snd p))) in
      case c of UplinkMoves \<Rightarrow> claims False True | UplinkPinned \<Rightarrow> p
              | UplinkBoth \<Rightarrow> claims True True | UplinkNeither \<Rightarrow> claims False False)"

definition unknown_variant :: failover_variant where
  "unknown_variant = \<lparr>fv_is_uplink = UplinkPinned, fv_context = False, fv_why = []\<rparr>"

definition variant_of :: "mock \<Rightarrow> failover_variant" where
  "variant_of m = (case map_of failover_variants (mk_variant m) of None \<Rightarrow> unknown_variant | Some v \<Rightarrow> v)"

definition failover :: "mock \<Rightarrow> jobj \<Rightarrow> jobj" where
  "failover m d =
     (case (map_of d ''wan1'', map_of d ''wan2'') of
        (Some (JObj wan1), Some (JObj wan2)) \<Rightarrow>
          (case claim_ports (fv_is_uplink (variant_of m)) (wan1, wan2) of (p1, p2) \<Rightarrow>
             let w1 = gm_set ''up'' (JBool False) p1;
                 w2 = gm_set ''up'' (JBool True) p2;
                 d1 = gm_set ''wan2'' (JObj w2) (gm_set ''wan1'' (JObj w1) d)
             in if \<not> fv_context (variant_of m) then d1
                else (let d2 = (case map_of d1 ''uplink'' of
                            Some (JObj uplink) \<Rightarrow> gm_set ''uplink''
                              (JObj (gm_set ''name'' (nil_or (map_of w2 ''ifname'')) uplink)) d1
                          | _ \<Rightarrow> d1)
                      in gm_set ''isp'' (JStr (mk_backup_isp m))
                           (gm_set ''last_wan_status''
                              (JObj [(''WAN'', JStr status_failed), (''WAN2'', JStr status_online)]) d2)))
      | _ \<Rightarrow> d)"

section \<open>The device list\<close>

text \<open>One captured device, as \<open>devices\<close> serves it, or not at all.\<close>

definition serve_device :: "(rat \<Rightarrow> int) \<Rightarrow> (f64 \<Rightarrow> string) \<Rightarrow> mock \<Rightarrow> jv \<Rightarrow> jv option" where
  "serve_device wild fixed2 m x =
     (case as_object x of
        None \<Rightarrow> Some x
      | Some d \<Rightarrow>
          if map_of d ''vbms_table'' \<noteq> None \<and> mk_no_ups m then None
          else (case rewrite_fleet wild fixed2 m d of
                  None \<Rightarrow> None
                | Some d' \<Rightarrow>
                    Some (JObj (rewrite_battery m
                      (if map_of d' ''wan1'' \<noteq> None \<and> mk_link m = link_backup then failover m d' else d')))))"

definition devices :: "(rat \<Rightarrow> int) \<Rightarrow> (f64 \<Rightarrow> string) \<Rightarrow> mock \<Rightarrow> jv list" where
  "devices wild fixed2 m =
     List.map_filter (serve_device wild fixed2 m) (mk_pristine m)
     @ (case rewrite_fleet wild fixed2 m (mk_switch m) of None \<Rightarrow> [] | Some d \<Rightarrow> [JObj d])"

section \<open>Health\<close>

text \<open>A count the mock was given is an \<open>int\<close>, converted; a captured one is a \<open>float64\<close> already.\<close>

definition float_of_int :: "int \<Rightarrow> rat" where
  "float_of_int i = (case round_f64 (of_int i) of Fin r \<Rightarrow> r | _ \<Rightarrow> 0)"

definition count_of :: "int option \<Rightarrow> jv option \<Rightarrow> rat option" where
  "count_of given v = (case given of Some i \<Rightarrow> Some (float_of_int i) | None \<Rightarrow> to_float v)"

definition rewrite_wlan :: "(rat \<Rightarrow> int) \<Rightarrow> mock \<Rightarrow> jobj \<Rightarrow> jobj" where
  "rewrite_wlan wild m s =
     (let s1 = set_some ''num_adopted'' int_doc (mk_ap_adopted m) s;
          s2 = set_some ''num_disconnected'' int_doc (mk_ap_disconnected m) s1;
          s3 = (if mk_wlan_status m \<noteq> [] then gm_set ''status'' (JStr (mk_wlan_status m)) s2 else s2)
      in case (count_of (mk_ap_adopted m) (map_of s3 ''num_adopted''),
              count_of (mk_ap_disconnected m) (map_of s3 ''num_disconnected'')) of
           (Some all, Some gone) \<Rightarrow>
             gm_set ''num_ap'' (int_doc (max 0 (int64 (float_int wild all - float_int wild gone)))) s3
         | _ \<Rightarrow> s3)"

text \<open>Two entries of a map exchanged; reading one that is not there gives \<open>nil\<close>.\<close>

definition swap_entries :: "string \<Rightarrow> string \<Rightarrow> jobj \<Rightarrow> jobj" where
  "swap_entries a b ps = gm_set b (nil_or (map_of ps a)) (gm_set a (nil_or (map_of ps b)) ps)"

definition rewrite_uptime_stats :: "mock \<Rightarrow> jobj \<Rightarrow> jobj" where
  "rewrite_uptime_stats m s =
     (case map_of s ''uptime_stats'' of
        Some (JObj stats) \<Rightarrow>
          (let backup = (mk_link m = link_backup);
               live = (if backup then ''WAN2'' else ''WAN'');
               stats' = (if backup then swap_entries ''WAN'' ''WAN2'' stats else stats);
               stats'' = (case map_of stats' live of
                   Some (JObj entry) \<Rightarrow>
                     gm_set live (JObj
                       (if mk_no_quality m
                        then foldl (\<lambda>e k. gm_del k e) entry
                               [''availability'', ''latency_average'', ''monitors'', ''alerting_monitors'']
                        else set_some ''latency_average'' float_doc (mk_latency m)
                               (set_some ''availability'' float_doc (mk_availability m) entry))) stats'
                 | _ \<Rightarrow> stats')
           in gm_set ''uptime_stats'' (JObj stats'') s)
      | _ \<Rightarrow> s)"

definition serve_subsystem :: "(rat \<Rightarrow> int) \<Rightarrow> mock \<Rightarrow> jv \<Rightarrow> jv option" where
  "serve_subsystem wild m x =
     (case as_object x of
        None \<Rightarrow> Some x
      | Some s \<Rightarrow>
          (let kind = as_string (map_of s ''subsystem'') in
           if kind = Some ''www''
           then if mk_no_www m then None else Some (JObj (gm_set ''status'' (JStr (mk_www_status m)) s))
           else if kind = Some ''wlan''
           then if mk_no_wlan m then None else Some (JObj (rewrite_wlan wild m s))
           else if kind = Some ''wan'' then Some (JObj (rewrite_uptime_stats m s))
           else Some (JObj s)))"

definition health :: "(rat \<Rightarrow> int) \<Rightarrow> mock \<Rightarrow> jv list" where
  "health wild m = List.map_filter (serve_subsystem wild m) (mk_pristine_health m)"

section \<open>What was captured\<close>

definition objects_of :: "jv list \<Rightarrow> jobj list" where
  "objects_of xs = List.map_filter as_object xs"

text \<open>\<open>capturedOutlets\<close>: the table of the first device that has outlets.\<close>

fun outlets_of :: "jobj list \<Rightarrow> jobj list" where
  "outlets_of [] = []"
| "outlets_of (d # ds) =
     (case as_array (map_of d field_outlet_table) of
        None \<Rightarrow> outlets_of ds
      | Some table \<Rightarrow> if table = [] then outlets_of ds else objects_of table)"

definition captured_outlets :: "mock \<Rightarrow> jobj list" where
  "captured_outlets m = outlets_of (objects_of (mk_pristine m))"

definition captured_slugs :: "mock \<Rightarrow> string list" where
  "captured_slugs m =
     sort (mock_switch_name #
       map slugify_name (List.map_filter (\<lambda>d. as_string (map_of d ''name'')) (objects_of (mk_pristine m))))"

definition describe_devices :: "(rat \<Rightarrow> int) \<Rightarrow> (f64 \<Rightarrow> string) \<Rightarrow> mock \<Rightarrow> jv" where
  "describe_devices wild fixed2 m =
     (case objects_of (devices wild fixed2 m) of
        [] \<Rightarrow> JNull
      | ds \<Rightarrow> JArr (map (\<lambda>d. let name = text_of (map_of d ''name'') in
          JObj [(''name'', JStr name), (''key'', JStr (''device.'' @ slugify_name name)),
                (''state'', nil_or (map_of d ''state'')), (''adopted'', nil_or (map_of d ''adopted''))]) ds))"

end
