(* ===== verification/MockServer.thy ===== *)
theory MockServer
  imports MockFleet
begin

text \<open>
  The endpoints of the mock console that Reactor talks to, \<open>hack/mock-unifi/main.go\<close>: the
  reads, the three writes it enforces, the session and the Alarm Manager; then the routes
  as \<open>main\<close> registers them, and a conversation held with the mock: a session starts with
  an empty cookie jar, and the state goes from one answer to the next. A handler holds
  the mock's lock from its first look at the state to its last, so it is one step.
\<close>

section \<open>Requests and answers\<close>

text \<open>\<open>ma_session\<close> is the session cookie the answer sets, or ends.\<close>

record mock_request =
  mr_cookie :: "string option"
  mr_csrf :: string
  mr_body :: "jv option"

record mock_answer =
  ma_status :: int
  ma_text :: string
  ma_doc :: "jv option"
  ma_session :: "string option option"
  ma_csrf :: string

definition http_error :: "int \<Rightarrow> string \<Rightarrow> mock_answer" where
  "http_error status text =
     \<lparr>ma_status = status, ma_text = text @ [CHR 0x0A], ma_doc = None, ma_session = None, ma_csrf = []\<rparr>"

definition write_json :: "jv \<Rightarrow> mock_answer" where
  "write_json doc = \<lparr>ma_status = 200, ma_text = [], ma_doc = Some doc, ma_session = None, ma_csrf = []\<rparr>"

definition write_response :: "jv list \<Rightarrow> mock_answer" where
  "write_response xs = write_json (JObj [(''meta'', JObj [(''rc'', JStr ''ok'')]), (''data'', JArr xs)])"

definition message :: "string \<Rightarrow> string" where
  "message text = ''{'' @ quoted ''message'' @ '':'' @ [CHR 0x22] @ text @ [CHR 0x22] @ ''}''"

definition session_cookie_present :: "mock_request \<Rightarrow> bool" where
  "session_cookie_present r = (case mr_cookie r of None \<Rightarrow> False | Some v \<Rightarrow> v \<noteq> [])"

text \<open>A body decoded into a map: null leaves it without entries, no body is the end of the input.\<close>

definition decode_object :: "jv option \<Rightarrow> jobj option" where
  "decode_object body = (case body of Some (JObj ps) \<Rightarrow> Some ps | Some JNull \<Rightarrow> Some [] | _ \<Rightarrow> None)"

text \<open>What the three writes ask of a request first: a session, the token, an object.\<close>

definition mock_guarded :: "mock_request \<Rightarrow> mock \<Rightarrow> (jobj \<Rightarrow> mock \<times> mock_answer) \<Rightarrow> mock \<times> mock_answer" where
  "mock_guarded r m handle =
     (if \<not> session_cookie_present r then (m, http_error 401 (message ''api.err.LoginRequired''))
      else if mr_csrf r \<noteq> mock_csrf then (m, http_error 403 (message ''csrf token mismatch''))
      else case decode_object (mr_body r) of
        None \<Rightarrow> (m, http_error 400 (message ''invalid json''))
      | Some submitted \<Rightarrow> handle submitted)"

section \<open>Wireless networks\<close>

definition wlan_record_name :: "jobj \<Rightarrow> string" where
  "wlan_record_name d = text_of (map_of d field_wlan_name)"

definition serve_wlan_conf :: "mock_request \<Rightarrow> mock \<Rightarrow> mock \<times> mock_answer" where
  "serve_wlan_conf r m =
     (if \<not> session_cookie_present r then (m, http_error 401 (message ''api.err.LoginRequired''))
      else (m, write_response (map JObj (sort_key wlan_record_name (map snd (mk_wlans m))))))"

definition changed_keys :: "jobj \<Rightarrow> jobj \<Rightarrow> string list" where
  "changed_keys stored submitted =
     remdups_adj (sort
       (filter (\<lambda>k. \<not> equal_json (map_of stored k) (map_of submitted k)) (gm_keys stored)
        @ filter (\<lambda>k. map_of stored k = None) (gm_keys submitted)))"

text \<open>\<open>%v\<close> of a list of strings.\<close>

definition bracketed :: "string list \<Rightarrow> string" where
  "bracketed xs = ''['' @ join '' '' xs @ '']''"

definition update_wlan_conf :: "string \<Rightarrow> mock_request \<Rightarrow> mock \<Rightarrow> mock \<times> mock_answer" where
  "update_wlan_conf wid r m =
     mock_guarded r m (\<lambda>submitted.
       case map_of (mk_wlans m) wid of
         None \<Rightarrow> (m, http_error 404 (message ''api.err.ObjectNotFound''))
       | Some stored \<Rightarrow>
           (let changed = changed_keys stored submitted in
            if changed \<noteq> [field_wlan_enabled]
            then (m, http_error 400 (message (''this mock only accepts a record read back with enabled changed; changed: ''
                   @ bracketed changed)))
            else let stored' = gm_set field_wlan_enabled (JBool (flag (map_of submitted field_wlan_enabled))) stored in
              (m\<lparr>mk_wlans := gm_set wid stored' (mk_wlans m)\<rparr>, write_response [JObj stored'])))"

section \<open>PoE ports\<close>

text \<open>The first port of the synthetic switch with the index, \<open>portByIndex\<close>.\<close>

definition port_by_index :: "mock \<Rightarrow> int \<Rightarrow> jobj option" where
  "port_by_index m i =
     (case as_array (map_of (mk_switch m) field_port_table) of
        None \<Rightarrow> None
      | Some table \<Rightarrow> find (\<lambda>p. map_of p field_port_index = Some (int_doc i)) (objects_of table))"

definition has_port :: "mock \<Rightarrow> int \<Rightarrow> bool" where
  "has_port m i = (port_by_index m i \<noteq> None)"

definition device_command :: "(rat \<Rightarrow> int) \<Rightarrow> mock_request \<Rightarrow> mock \<Rightarrow> mock \<times> mock_answer" where
  "device_command wild r m =
     mock_guarded r m (\<lambda>command.
       if map_of command ''cmd'' \<noteq> Some (JStr ''power-cycle'')
       then (m, http_error 400 (message ''api.err.InvalidCmd''))
       else if nil_or (map_of command field_mac) \<noteq> nil_or (map_of (mk_switch m) field_mac)
       then (m, http_error 400 (message ''api.err.UnknownDevice''))
       else case to_float (map_of command field_port_index) of
         None \<Rightarrow> (m, http_error 400 (message ''api.err.InvalidPort''))
       | Some x \<Rightarrow>
           (let i = float_int wild x in
            if \<not> has_port m i then (m, http_error 400 (message ''api.err.InvalidPort''))
            else (m\<lparr>mk_cycles := mk_cycles m @ [text_of (map_of command field_mac) @ ''/'' @ int_dec i]\<rparr>,
                  write_response [])))"

section \<open>Outlets\<close>

record outlet_move =
  om_index :: int
  om_name :: string
  om_on :: bool

text \<open>The overrides being served, by index: of two with one index the later stands.\<close>

definition served_overrides_of :: "(rat \<Rightarrow> int) \<Rightarrow> jv list \<Rightarrow> (int \<times> jobj) list" where
  "served_overrides_of wild xs =
     foldl (\<lambda>served d. case mock_outlet_index wild d of None \<Rightarrow> served | Some i \<Rightarrow> gm_set i d served)
       [] (objects_of xs)"

definition device_overrides :: "jobj \<Rightarrow> jv list" where
  "device_overrides d =
     (if map_of d field_device_id \<noteq> Some (JStr mock_ups_id) then []
      else case as_array (map_of d field_outlet_overrides) of None \<Rightarrow> [] | Some xs \<Rightarrow> xs)"

definition served_outlet_overrides :: "(rat \<Rightarrow> int) \<Rightarrow> (f64 \<Rightarrow> string) \<Rightarrow> mock \<Rightarrow> (int \<times> jobj) list" where
  "served_outlet_overrides wild fixed2 m =
     served_overrides_of wild (concat (map device_overrides (objects_of (devices wild fixed2 m))))"

fun outlet_moves :: "(rat \<Rightarrow> int) \<Rightarrow> (int \<times> jobj) list \<Rightarrow> jv list \<Rightarrow> string + outlet_move list" where
  "outlet_moves wild served [] = Inr []"
| "outlet_moves wild served (x # xs) =
     (case as_object x of
        None \<Rightarrow> Inl ''every outlet_overrides entry must be an object''
      | Some override \<Rightarrow>
          (case mock_outlet_index wild override of
             None \<Rightarrow> Inl ''every outlet_overrides entry must carry an index''
           | Some i \<Rightarrow>
               (case map_of served i of
                  None \<Rightarrow> Inl (''outlet_overrides carries outlet '' @ int_dec i @ '', which this ups does not have'')
                | Some stored \<Rightarrow>
                    (let changed = changed_keys stored override in
                     if changed = [] then outlet_moves wild served xs
                     else if changed = [field_relay_state]
                     then map_sum id (\<lambda>moves. \<lparr>om_index = i, om_name = text_of (map_of override field_outlet_name),
                            om_on = flag (map_of override field_relay_state)\<rparr> # moves) (outlet_moves wild served xs)
                     else Inl (''outlet '' @ int_dec i @ '' differs from the record just read in '' @ bracketed changed
                            @ ''; this mock only accepts a change to '' @ field_relay_state)))))"

definition outlet_move_in :: "(rat \<Rightarrow> int) \<Rightarrow> (int \<times> jobj) list \<Rightarrow> jv list \<Rightarrow> string + outlet_move" where
  "outlet_move_in wild served submitted =
     (if length submitted \<noteq> length served
      then Inl (''outlet_overrides must be the array just read back, all '' @ nat_dec (length served)
        @ '' outlets; got '' @ nat_dec (length submitted))
      else case outlet_moves wild served submitted of
        Inl e \<Rightarrow> Inl e
      | Inr moves \<Rightarrow>
          (case moves of
             [move] \<Rightarrow> Inr move
           | _ \<Rightarrow> Inl (''exactly one outlet may change per write; this body changes '' @ nat_dec (length moves))))"

definition outlet_position :: "bool \<Rightarrow> string" where
  "outlet_position b = (if b then ''on'' else ''off'')"

definition update_device :: "(rat \<Rightarrow> int) \<Rightarrow> (f64 \<Rightarrow> string) \<Rightarrow> string \<Rightarrow> mock_request \<Rightarrow> mock \<Rightarrow> mock \<times> mock_answer" where
  "update_device wild fixed2 did r m =
     mock_guarded r m (\<lambda>submitted.
       if did \<noteq> mock_ups_id then (m, http_error 404 (message ''api.err.ObjectNotFound''))
       else if length submitted \<noteq> 1
       then (m, http_error 400 (message (''this mock only accepts a body of exactly outlet_overrides; got ''
              @ nat_dec (length submitted) @ '' keys'')))
       else case as_array (map_of submitted field_outlet_overrides) of
         None \<Rightarrow> (m, http_error 400 (message ''this mock only accepts outlet_overrides, as an array''))
       | Some outlets \<Rightarrow>
           (case outlet_move_in wild (served_outlet_overrides wild fixed2 m) outlets of
              Inl e \<Rightarrow> (m, http_error 400 (''{'' @ quoted ''message'' @ '':'' @ quoted e @ ''}''))
            | Inr move \<Rightarrow>
                (m\<lparr>mk_outlet_open := gm_set (om_index move) (\<not> om_on move) (mk_outlet_open m),
                   mk_outlet_writes := mk_outlet_writes m @ [''outlet '' @ int_dec (om_index move) @ '' ('' @ om_name move
                     @ '') -> '' @ outlet_position (om_on move)]\<rparr>,
                 write_response [JObj [(field_device_id, JStr mock_ups_id), (field_outlet_overrides, JArr outlets)]])))"

section \<open>The session\<close>

text \<open>\<open>base64.RawURLEncoding.EncodeToString\<close>.\<close>

definition base64_char :: "nat \<Rightarrow> char" where
  "base64_char d = ''ABCDEFGHIJKLMNOPQRSTUVWXYZabcdefghijklmnopqrstuvwxyz0123456789-_'' ! d"

fun base64_digits :: "nat list \<Rightarrow> nat list" where
  "base64_digits [] = []"
| "base64_digits [a] = [a div 4, a mod 4 * 16]"
| "base64_digits [a, b] = [a div 4, a mod 4 * 16 + b div 16, b mod 16 * 4]"
| "base64_digits (a # b # c # rest) =
     [a div 4, a mod 4 * 16 + b div 16, b mod 16 * 4 + c div 64, c mod 64] @ base64_digits rest"

definition base64_encode :: "string \<Rightarrow> string" where
  "base64_encode s = map base64_char (base64_digits (map of_char s))"

definition mock_claims :: string where
  "mock_claims = ''{'' @ quoted ''csrfToken'' @ '':'' @ quoted mock_csrf @ ''}''"

definition mock_token :: string where
  "mock_token = ''header.'' @ base64_encode mock_claims @ ''.signature''"

definition mock_login :: mock_answer where
  "mock_login = (write_json (JObj [(''unique_id'', JStr ''00000000-0000-0000-0000-0000000000ff'')]))
     \<lparr>ma_session := Some (Some mock_token), ma_csrf := mock_csrf\<rparr>"

definition mock_logout :: mock_answer where
  "mock_logout = (write_json (JObj []))\<lparr>ma_session := Some None\<rparr>"

section \<open>The Alarm Manager\<close>

definition mock_manifest :: jv where
  "mock_manifest =
     JObj [(''triggers'', JArr [JObj [(''id'', JStr ''network:category_internet''),
              (''items'', JArr (map (\<lambda>i. JObj [(''id'', JStr i)])
                 [''network:internet_disconnected'', ''network:high_latency_detected'',
                  ''network:packet_loss_detected'', ''network:data_limit'']))]]),
           (''actions'', JArr [JObj [(''id'', JStr ''network:webhook'')], JObj [(''id'', JStr ''network:slack'')]])]"

definition listed_rule :: "string \<times> jobj \<Rightarrow> jv" where
  "listed_rule e = JObj (foldl (\<lambda>d p. gm_set (fst p) (snd p) d) [(''id'', JStr (fst e))] (snd e))"

definition serve_rules :: "mock \<Rightarrow> mock_answer" where
  "serve_rules m = write_json (JObj [(''data'', JArr (map listed_rule (mk_rules m)))])"

text \<open>A sequence of sequences, as far as its first member shows.\<close>

definition sequence_error :: "jobj \<Rightarrow> string \<Rightarrow> string option" where
  "sequence_error rule field =
     (case as_array (map_of rule field) of
        None \<Rightarrow> Some (field @ '': expected a sequence of sequences'')
      | Some xs \<Rightarrow>
          (case xs of
             [] \<Rightarrow> Some (field @ '': expected a sequence of sequences'')
           | x # _ \<Rightarrow> (case x of
                 JArr ys \<Rightarrow> None
               | _ \<Rightarrow> Some (field @ '': invalid type: sequence, expected a sequence of sequences''))))"

definition rule_id_at :: "nat \<Rightarrow> string" where
  "rule_id_at n = ''019ff10d-0000-0000-0000-'' @ pad12 n"

definition create_rule :: "mock_request \<Rightarrow> mock \<Rightarrow> mock \<times> mock_answer" where
  "create_rule r m =
     (if mr_csrf r \<noteq> mock_csrf then (m, http_error 403 (message ''csrf token mismatch''))
      else case decode_object (mr_body r) of
        None \<Rightarrow> (m, http_error 400 (message ''invalid json''))
      | Some rule \<Rightarrow>
          (case List.map_filter (sequence_error rule) [''triggers_data'', ''actions_data''] of
             e # _ \<Rightarrow> (m, http_error 400 (message e))
           | [] \<Rightarrow>
               (let rid = rule_id_at (length (mk_rules m) + 1);
                    kept = gm_set ''id'' (JStr rid) rule
                in (m\<lparr>mk_rules := gm_set rid kept (mk_rules m)\<rparr>, write_json (JObj kept)))))"

text \<open>\<open>webhookActionData\<close>: the first webhook action of the rule, if its data is an object.\<close>

definition webhook_action_data :: "jobj \<Rightarrow> jobj option" where
  "webhook_action_data rule =
     (case as_array (map_of rule ''actions_data'') of
        None \<Rightarrow> None
      | Some outer \<Rightarrow>
          (case find (\<lambda>d. map_of d ''id'' = Some (JStr ''network:webhook''))
             (objects_of (concat (List.map_filter (\<lambda>x. as_array (Some x)) outer))) of
             None \<Rightarrow> None
           | Some d \<Rightarrow> Option.bind (map_of d ''data'') as_object))"

definition rule_url :: "jobj \<Rightarrow> string" where
  "rule_url rule = (case webhook_action_data rule of None \<Rightarrow> [] | Some d \<Rightarrow> text_of (map_of d ''url''))"

definition rule_token :: "jobj \<Rightarrow> string" where
  "rule_token rule =
     (case webhook_action_data rule of
        None \<Rightarrow> []
      | Some d \<Rightarrow> (case Option.bind (map_of d ''auth'') as_object of
            None \<Rightarrow> []
          | Some auth \<Rightarrow> text_of (map_of auth ''token'')))"

text \<open>
  \<open>fireAlarm\<close>: what is posted, and where, with the \<open>Authorization\<close> header of each, empty
  when there is none. \<open>buildable\<close> says whether \<open>net/http\<close> makes a request for an address.
\<close>

definition fire_alarm :: "(string \<Rightarrow> bool) \<Rightarrow> mock \<Rightarrow> (string \<times> string) list" where
  "fire_alarm buildable m =
     map (\<lambda>rule. (rule_url rule, if rule_token rule = [] then [] else ''Bearer '' @ rule_token rule))
       (filter (\<lambda>rule. rule_url rule \<noteq> [] \<and> buildable (rule_url rule)) (map snd (mk_rules m)))"

section \<open>Routes\<close>

text \<open>\<open>url.PathUnescape\<close>.\<close>

definition hex_digit :: "char \<Rightarrow> nat option" where
  "hex_digit c = (let n = (of_char c :: nat) in
     if 48 \<le> n \<and> n \<le> 57 then Some (n - 48)
     else if 65 \<le> n \<and> n \<le> 70 then Some (n - 55)
     else if 97 \<le> n \<and> n \<le> 102 then Some (n - 87) else None)"

fun path_unescape :: "string \<Rightarrow> string option" where
  "path_unescape [] = Some []"
| "path_unescape (c # cs) =
     (if c \<noteq> CHR ''%'' then map_option (\<lambda>r. c # r) (path_unescape cs)
      else (case cs of
          a # b # rest \<Rightarrow>
            (case (hex_digit a, hex_digit b) of
               (Some x, Some y) \<Rightarrow> map_option (\<lambda>r. char_of (16 * x + y) # r) (path_unescape rest)
             | _ \<Rightarrow> None)
        | _ \<Rightarrow> None))"

text \<open>
  The segments \<open>ServeMux\<close> matches a pattern against: those of a path it would not clean,
  unescaped one by one.
\<close>

definition path_segments :: "string \<Rightarrow> string list option" where
  "path_segments path =
     (case split_on CHR ''/'' path of
        [] # segs \<Rightarrow>
          if list_ex (\<lambda>s. s \<in> {[], ''.'', ''..''}) segs \<or> list_ex (\<lambda>s. path_unescape s = None) segs then None
          else Some (map (\<lambda>s. the (path_unescape s)) segs)
      | _ \<Rightarrow> None)"

datatype mock_route =
    ServeDevices | ServeHealth | ServeInfo | ServeWLANConf | UpdateWLANConf string
  | DeviceCommand | UpdateDevice string | Login | Logout | ServeManifest | ServeRules | CreateRule

definition site_route :: "string \<Rightarrow> string list \<Rightarrow> mock_route option" where
  "site_route http_method rest =
     (if http_method = method_get \<and> rest = [''stat'', ''device''] then Some ServeDevices
      else if http_method = method_get \<and> rest = [''stat'', ''health''] then Some ServeHealth
      else if http_method = method_get \<and> rest = [''rest'', ''wlanconf''] then Some ServeWLANConf
      else if http_method = method_put \<and> length rest = 3 \<and> take 2 rest = [''rest'', ''wlanconf'']
      then Some (UpdateWLANConf (rest ! 2))
      else if http_method = method_post \<and> rest = [''cmd'', ''devmgr''] then Some DeviceCommand
      else if http_method = method_put \<and> length rest = 3 \<and> take 2 rest = [''rest'', ''device'']
      then Some (UpdateDevice (rest ! 2))
      else None)"

definition mock_routes :: "string \<Rightarrow> string list \<Rightarrow> mock_route option" where
  "mock_routes http_method segs =
     (if 5 \<le> length segs \<and> take 4 segs = [''proxy'', ''network'', ''api'', ''s'']
      then site_route http_method (drop 5 segs)
      else if http_method = method_get \<and> segs = [''proxy'', ''network'', ''integration'', ''v1'', ''info''] then Some ServeInfo
      else if http_method = method_post \<and> segs = [''api'', ''auth'', ''login''] then Some Login
      else if http_method = method_post \<and> segs = [''api'', ''auth'', ''logout''] then Some Logout
      else if http_method = method_get \<and> segs = [''api'', ''v2'', ''alarms'', ''network'', ''manifest''] then Some ServeManifest
      else if http_method = method_get \<and> segs = [''api'', ''v2'', ''alarms'', ''network''] then Some ServeRules
      else if http_method = method_post \<and> segs = [''api'', ''v2'', ''alarms'', ''network''] then Some CreateRule
      else None)"

text \<open>
  The library around the mock: conversions out of range, the printing of a wattage, the
  text of an encoded document, the decoding of an error's text, and what \<open>ServeMux\<close>
  answers when no pattern matches.
\<close>

record mock_lib =
  ml_wild :: "rat \<Rightarrow> int"
  ml_fixed2 :: "f64 \<Rightarrow> string"
  ml_text :: "jv \<Rightarrow> string"
  ml_decode :: "string \<Rightarrow> string + jv"
  ml_stray :: "console_request \<Rightarrow> console_answer"

definition mock_serve :: "mock_lib \<Rightarrow> mock_route \<Rightarrow> mock_request \<Rightarrow> mock \<Rightarrow> mock \<times> mock_answer" where
  "mock_serve lib route r m =
     (case route of
        ServeDevices \<Rightarrow> (m, write_response (devices (ml_wild lib) (ml_fixed2 lib) m))
      | ServeHealth \<Rightarrow> (m, write_response (health (ml_wild lib) m))
      | ServeInfo \<Rightarrow> (m, write_json (JObj [(''applicationVersion'', JStr (mk_network_version m))]))
      | ServeWLANConf \<Rightarrow> serve_wlan_conf r m
      | UpdateWLANConf wid \<Rightarrow> update_wlan_conf wid r m
      | DeviceCommand \<Rightarrow> device_command (ml_wild lib) r m
      | UpdateDevice did \<Rightarrow> update_device (ml_wild lib) (ml_fixed2 lib) did r m
      | Login \<Rightarrow> (m, mock_login)
      | Logout \<Rightarrow> (m, mock_logout)
      | ServeManifest \<Rightarrow> (m, write_json mock_manifest)
      | ServeRules \<Rightarrow> (m, serve_rules m)
      | CreateRule \<Rightarrow> create_rule r m)"

section \<open>A conversation with the mock\<close>

text \<open>
  What the client gets: a document that cannot be encoded leaves the body empty, and an
  empty body is the end of the input to the decoder.
\<close>

definition answer_of :: "mock_lib \<Rightarrow> mock_answer \<Rightarrow> console_answer" where
  "answer_of lib a =
     \<lparr>cs_status = ma_status a,
      cs_body = (case ma_doc a of None \<Rightarrow> ma_text a | Some d \<Rightarrow> if encodes d then ml_text lib d else []),
      cs_json = (case ma_doc a of None \<Rightarrow> ml_decode lib (ma_text a) | Some d \<Rightarrow> if encodes d then Inr d else Inl ''EOF''),
      cs_cookies = (case ma_session a of None \<Rightarrow> []
                    | Some c \<Rightarrow> [(session_cookie_name, case c of None \<Rightarrow> [] | Some v \<Rightarrow> v)]),
      cs_csrf_header = ma_csrf a\<rparr>"

definition mock_exchange :: "mock_lib \<Rightarrow> mock \<times> string option \<Rightarrow> console_request \<Rightarrow>
    (mock \<times> string option) \<times> exchange" where
  "mock_exchange lib s q =
     (case Option.bind (path_segments (cq_path q)) (mock_routes (cq_method q)) of
        None \<Rightarrow> (s, Answered (ml_stray lib q))
      | Some route \<Rightarrow>
          (case mock_serve lib route \<lparr>mr_cookie = snd s, mr_csrf = cq_csrf q, mr_body = cq_body q\<rparr> (fst s) of
             (m', a) \<Rightarrow> ((m', (case ma_session a of None \<Rightarrow> snd s | Some c \<Rightarrow> c)), Answered (answer_of lib a))))"

primrec mock_run :: "mock_lib \<Rightarrow> 'a console \<Rightarrow> mock \<times> string option \<Rightarrow> (mock \<times> string option) \<times> 'a" where
  "mock_run lib (CRet x) s = (s, x)"
| "mock_run lib (CSend q f) s =
     (case mock_exchange lib s q of (s', x) \<Rightarrow> mock_run lib (f x) s')"

definition mock_session :: "mock_lib \<Rightarrow> 'a console \<Rightarrow> mock \<Rightarrow> mock \<times> 'a" where
  "mock_session lib p m = (case mock_run lib p (m, None) of (s, x) \<Rightarrow> (fst s, x))"

end
