(* ===== verification/MockDocuments.thy ===== *)
theory MockDocuments
  imports MockServer
begin

text \<open>
  What rewriting leaves of the captured documents. A law of objects that survives new
  entries (the address \<open>mac\<close> apart) and deletions, and that the objects the mock makes
  itself satisfy, holds of every object served if it holds of every object captured: the
  locale \<open>served_law\<close>, interpreted as \<open>keyed\<close> (no map has a key twice, so the documents can be
  encoded) and as \<open>unaddressed\<close> (no object has a given address).
\<close>

section \<open>Objects of a document\<close>

lemma all_objects_iff:
  "all_objects P doc \<longleftrightarrow> (\<forall>ps. inside (JObj ps) doc \<longrightarrow> P ps)"
  "all_items P xs \<longleftrightarrow> (\<forall>x \<in> set xs. \<forall>ps. inside (JObj ps) x \<longrightarrow> P ps)"
  "all_entries P qs \<longleftrightarrow> (\<forall>k x. (k, x) \<in> set qs \<longrightarrow> (\<forall>ps. inside (JObj ps) x \<longrightarrow> P ps))"
  by (induction P doc and P xs and P qs rule: all_objects_all_items_all_entries.induct) auto

lemma all_items_def2: "all_items P xs \<longleftrightarrow> list_all (all_objects P) xs"
  by (induction xs) auto

lemma all_entries_def2: "all_entries P ps \<longleftrightarrow> list_all (\<lambda>e. all_objects P (snd e)) ps"
  by (induction ps) auto

lemma all_entries_set [simp]: "all_entries P ps \<Longrightarrow> all_objects P x \<Longrightarrow> all_entries P (gm_set k x ps)"
  by (induction k x ps rule: gm_set.induct) auto

lemma all_entries_del [simp]: "all_entries P ps \<Longrightarrow> all_entries P (gm_del k ps)"
  by (auto simp: all_entries_def2 gm_del_def list_all_iff)

lemma all_entries_get: "all_entries P ps \<Longrightarrow> map_of ps k = Some x \<Longrightarrow> all_objects P x"
  using map_of_SomeD [of ps k x] by (auto simp: all_entries_def2 list_all_iff dest: bspec)

lemma all_entries_append [simp]: "all_entries P (ps @ qs) \<longleftrightarrow> all_entries P ps \<and> all_entries P qs"
  by (auto simp: all_entries_def2)

lemma all_items_append [simp]: "all_items P (xs @ ys) \<longleftrightarrow> all_items P xs \<and> all_items P ys"
  by (auto simp: all_items_def2)

lemma all_entries_nil_or [simp]: "all_entries P ps \<Longrightarrow> all_objects P (nil_or (map_of ps k))"
  by (auto simp: nil_or_def all_entries_get split: option.splits)

section \<open>The law\<close>

definition finite_float :: "f64 option \<Rightarrow> bool" where
  "finite_float v = (case v of None \<Rightarrow> True | Some x \<Rightarrow> (case x of Fin r \<Rightarrow> True | _ \<Rightarrow> False))"

lemma float_doc_objects [simp]: "finite_float (Some x) \<Longrightarrow> all_objects P (float_doc x)"
  by (auto simp: finite_float_def float_doc_def split: f64.splits)

lemma int_doc_objects [simp]: "all_objects P (int_doc i)"
  by (simp add: int_doc_def)

definition finite_override :: "device_override \<Rightarrow> bool" where
  "finite_override v = finite_float (ov_celsius v)"

text \<open>Every number the mock was given is one: then everything it serves can be encoded.\<close>

definition finite_mock :: "mock \<Rightarrow> bool" where
  "finite_mock m =
     (finite_float (mk_poe_budget m) \<and> finite_float (mk_output m) \<and> finite_float (mk_load_budget m) \<and>
      finite_float (mk_availability m) \<and> finite_float (mk_latency m) \<and>
      list_all (\<lambda>e. finite_override (snd e)) (mk_device_overrides m))"

lemma set_some_objects [simp]:
  "all_entries P d \<Longrightarrow> (\<And>x. v = Some x \<Longrightarrow> all_objects P (f x)) \<Longrightarrow> all_entries P (set_some k f v d)"
  by (auto simp: set_some_def split: option.splits)

lemma set_some_float [simp]:
  "all_entries P d \<Longrightarrow> finite_float v \<Longrightarrow> all_entries P (set_some k float_doc v d)"
  by (rule set_some_objects) auto

locale served_law =
  fixes P :: "jobj \<Rightarrow> bool"
  assumes law_set: "P ps \<Longrightarrow> k \<noteq> field_mac \<Longrightarrow> P (gm_set k x ps)"
    and law_del: "P ps \<Longrightarrow> P (gm_del k ps)"
    and law_new: "gm_wf ps \<Longrightarrow> map_of ps field_mac = None \<Longrightarrow> P ps"
begin

lemma law_some: "P d \<Longrightarrow> k \<noteq> field_mac \<Longrightarrow> P (set_some k f v d)"
  by (auto simp: set_some_def intro: law_set split: option.splits)

lemma ports_good: "all_items P xs \<Longrightarrow> all_items P (rewrite_ports fixed2 m assigned xs)"
  by (induction fixed2 m assigned xs rule: rewrite_ports.induct)
    (auto simp: law_set law_del field_poe_power_def field_mac_def split: option.splits)

lemma poe_good:
  assumes "all_entries P d" and "finite_mock m"
  shows "all_entries P (rewrite_poe fixed2 m d)"
proof (cases "mk_poe_budget m")
  case (Some budget)
  then have budget: "all_objects P (float_doc budget)" using assms(2) by (simp add: finite_mock_def)
  show ?thesis
    unfolding rewrite_poe_def Some option.case Let_def
    using assms(1) budget ports_good all_entries_get [of P d field_port_table]
    by (auto simp: as_array_def field_port_table_def field_max_power_def split: option.splits jv.splits)
qed (simp add: assms rewrite_poe_def)

lemma poe_top: "P d \<Longrightarrow> P (rewrite_poe fixed2 m d)"
  by (auto simp: rewrite_poe_def Let_def field_max_power_def field_port_table_def field_mac_def
      intro!: law_set split: option.splits)

lemma served_outlet_good:
  "P d \<Longrightarrow> all_entries P d \<Longrightarrow> P (served_outlet wild m i d) \<and> all_entries P (served_outlet wild m i d)"
  by (auto simp: served_outlet_def Let_def law_set law_del field_relay_state_def field_outlet_name_def
      field_outlet_caps_def field_mac_def)

lemma outlet_override_good: "P (outlet_override i d) \<and> all_entries P (outlet_override i d)"
  by (auto simp: outlet_override_def field_outlet_index_def field_outlet_name_def field_relay_state_def
      field_cycle_enabled_def field_mac_def intro!: law_new)

lemma outlet_table_good:
  "all_items P xs \<Longrightarrow> rewrite_outlet_table wild m xs = (table, overrides) \<Longrightarrow>
     all_items P table \<and> all_items P overrides"
proof (induction xs arbitrary: table overrides)
  case (Cons x xs)
  obtain ts os where rest: "rewrite_outlet_table wild m xs = (ts, os)" by (cases "rewrite_outlet_table wild m xs")
  show ?case
    using Cons.IH [OF _ rest] Cons.prems served_outlet_good outlet_override_good
    by (auto simp: rest Let_def split: option.splits)
qed simp

lemma outlets_good:
  assumes "all_entries P d"
  shows "all_entries P (rewrite_outlets wild m d)"
proof (cases "as_array (map_of d field_outlet_table)")
  case (Some xs)
  then have items: "all_items P xs" using all_entries_get [OF assms, of field_outlet_table] by simp
  obtain ts os where table: "rewrite_outlet_table wild m xs = (ts, os)" by (cases "rewrite_outlet_table wild m xs")
  show ?thesis
    unfolding rewrite_outlets_def Some option.case table prod.case Let_def
    using assms outlet_table_good [OF items table] by simp
qed (simp add: rewrite_outlets_def assms)

lemma outlets_top: "P d \<Longrightarrow> P (rewrite_outlets wild m d)"
  by (auto simp: rewrite_outlets_def Let_def field_outlet_table_def field_device_id_def
      field_outlet_overrides_def field_mac_def intro!: law_set law_del split: option.splits prod.splits)

lemma thermals_good: "all_entries P d \<Longrightarrow> finite_override v \<Longrightarrow> all_entries P (rewrite_thermals v d)"
  by (auto simp: rewrite_thermals_def Let_def finite_override_def field_mac_def
      intro!: law_new all_entries_set split: option.splits)

lemma thermals_top: "P d \<Longrightarrow> P (rewrite_thermals v d)"
  by (auto simp: rewrite_thermals_def Let_def field_mac_def intro!: law_set split: option.splits)

lemma override_good: "all_entries P d \<Longrightarrow> finite_override v \<Longrightarrow> all_entries P (rewrite_override v d)"
  by (auto simp: rewrite_override_def Let_def intro!: thermals_good)

lemma override_top: "P d \<Longrightarrow> P (rewrite_override v d)"
  by (auto simp: rewrite_override_def Let_def field_mac_def intro!: thermals_top law_some law_set)

lemma fleet_good:
  assumes "all_entries P d" and "finite_mock m" and "rewrite_fleet wild fixed2 m d = Some d'"
  shows "all_entries P d'"
proof -
  have base: "all_entries P (rewrite_outlets wild m (rewrite_poe fixed2 m d))"
    using assms by (intro outlets_good poe_good)
  have "finite_override v" if "map_of (mk_device_overrides m) k = Some v" for k v
    using assms(2) map_of_SomeD [OF that] by (auto simp: finite_mock_def list_all_iff)
  then show ?thesis
    using assms(3) base by (auto simp: rewrite_fleet_def Let_def override_good split: option.splits if_splits)
qed

lemma fleet_top: "P d \<Longrightarrow> rewrite_fleet wild fixed2 m d = Some d' \<Longrightarrow> P d'"
  by (auto simp: rewrite_fleet_def Let_def override_top outlets_top poe_top split: option.splits if_splits)

lemma pool_good: "P d \<Longrightarrow> all_entries P d \<Longrightarrow> finite_mock m \<Longrightarrow>
    P (rewrite_batt_pool m d) \<and> all_entries P (rewrite_batt_pool m d)"
  by (auto simp: rewrite_batt_pool_def Let_def field_mac_def finite_mock_def intro!: law_some law_set law_del
      split: option.splits)

lemma battery_good:
  assumes "all_entries P d" and "finite_mock m"
  shows "all_entries P (rewrite_battery m d)"
proof (cases "\<exists>vbms. map_of d ''vbms_table'' = Some (JObj vbms)")
  case True
  then obtain vbms where vbms: "map_of d ''vbms_table'' = Some (JObj vbms)" by blast
  then have inner: "P vbms" "all_entries P vbms" using all_entries_get [OF assms(1) vbms] by simp_all
  let ?v1 = "gm_set ''is_battery_mode'' (JBool (mk_on_batt m)) vbms"
  have v1: "P ?v1" "all_entries P ?v1" using inner by (auto simp: field_mac_def intro: law_set)
  have pool: "P q \<and> all_entries P q"
    if "q = rewrite_batt_pool m (gm_set ''ischarging'' x (gm_set ''batteryLevel'' y pool))"
      "map_of ?v1 ''battpool'' = Some (JObj pool)" "all_objects P x" "all_objects P y" for q x y pool
    using all_entries_get [OF v1(2) that(2)] that assms(2)
    by (simp add: that(1)) (rule pool_good, auto simp: field_mac_def intro!: law_set)
  show ?thesis
    unfolding rewrite_battery_def vbms option.case jv.case Let_def
    using assms(1) v1 pool by (auto simp: field_mac_def intro!: law_set all_entries_set split: option.splits jv.splits)
qed (simp add: assms rewrite_battery_def split: option.splits jv.splits)

lemma battery_top: "P d \<Longrightarrow> P (rewrite_battery m d)"
  by (auto simp: rewrite_battery_def Let_def field_mac_def intro!: law_set split: option.splits jv.splits)

lemma claim_good:
  "P a \<Longrightarrow> all_entries P a \<Longrightarrow> P b \<Longrightarrow> all_entries P b \<Longrightarrow> claim_ports c (a, b) = (a', b') \<Longrightarrow>
     P a' \<and> all_entries P a' \<and> P b' \<and> all_entries P b'"
  by (cases c) (auto simp: claim_ports_def Let_def field_is_uplink_def field_mac_def law_set)

lemma failover_good:
  assumes "all_entries P d"
  shows "all_entries P (failover m d)"
proof (cases "\<exists>w1 w2. map_of d ''wan1'' = Some (JObj w1) \<and> map_of d ''wan2'' = Some (JObj w2)")
  case True
  then obtain w1 w2 where wans: "map_of d ''wan1'' = Some (JObj w1)" "map_of d ''wan2'' = Some (JObj w2)" by blast
  then have inner: "P w1" "all_entries P w1" "P w2" "all_entries P w2"
    using all_entries_get [OF assms wans(1)] all_entries_get [OF assms wans(2)] by simp_all
  obtain p1 p2 where ports: "claim_ports (fv_is_uplink (variant_of m)) (w1, w2) = (p1, p2)"
    by (cases "claim_ports (fv_is_uplink (variant_of m)) (w1, w2)")
  note claimed = claim_good [OF inner ports]
  let ?w1 = "gm_set ''up'' (JBool False) p1" and ?w2 = "gm_set ''up'' (JBool True) p2"
  have up: "P ?w1" "all_entries P ?w1" "P ?w2" "all_entries P ?w2"
    using claimed by (auto simp: field_mac_def intro!: law_set)
  let ?d1 = "gm_set ''wan2'' (JObj ?w2) (gm_set ''wan1'' (JObj ?w1) d)"
  have d1: "all_entries P ?d1" using assms up by simp
  have status: "P [(''WAN'', JStr status_failed), (''WAN2'', JStr status_online)]"
    by (rule law_new) (simp_all add: field_mac_def)
  let ?name = "nil_or (map_of p2 ''ifname'')"
  have name: "all_objects P ?name" using claimed by simp
  have link: "P (gm_set ''name'' ?name u)" "all_entries P (gm_set ''name'' ?name u)"
    if "map_of d ''uplink'' = Some (JObj u)" for u
    using all_entries_get [OF assms that] name by (auto simp: field_mac_def intro: law_set)
  show ?thesis
    unfolding failover_def wans option.case jv.case prod.case ports Let_def
    using d1 up status link by (auto split: option.splits jv.splits)
qed (auto simp: assms failover_def split: option.splits jv.splits)

lemma failover_top: "P d \<Longrightarrow> P (failover m d)"
  by (auto simp: failover_def Let_def field_mac_def intro!: law_set split: option.splits jv.splits prod.splits)

lemma served_device_good:
  assumes "all_objects P x" and "finite_mock m" and "serve_device wild fixed2 m x = Some y"
  shows "all_objects P y"
proof (cases "as_object x")
  case (Some d)
  then have d: "P d" "all_entries P d" using assms(1) by auto
  obtain d' where fleet: "rewrite_fleet wild fixed2 m d = Some d'"
    and y: "y = JObj (rewrite_battery m (if map_of d' ''wan1'' \<noteq> None \<and> mk_link m = link_backup then failover m d' else d'))"
    using assms(3) unfolding serve_device_def Some option.case by (auto split: if_splits option.splits)
  have "P d'" "all_entries P d'" using fleet_top [OF d(1) fleet] fleet_good [OF d(2) assms(2) fleet] by simp_all
  then show ?thesis
    using assms(2) by (auto simp: y intro!: battery_top battery_good failover_top failover_good)
qed (use assms in \<open>auto simp: serve_device_def\<close>)

text \<open>The same of what is inside a device whose own record the law does not cover.\<close>

lemma served_entries_good:
  assumes "all_entries P d" and "finite_mock m" and "serve_device wild fixed2 m (JObj d) = Some (JObj y)"
  shows "all_entries P y"
proof -
  obtain d' where fleet: "rewrite_fleet wild fixed2 m d = Some d'"
    and y: "y = rewrite_battery m (if map_of d' ''wan1'' \<noteq> None \<and> mk_link m = link_backup then failover m d' else d')"
    using assms(3) by (auto simp: serve_device_def split: if_splits option.splits)
  show ?thesis
    using fleet_good [OF assms(1,2) fleet] assms(2) by (auto simp: y intro!: battery_good failover_good)
qed

end

interpretation keyed: served_law gm_wf
  by unfold_locales auto

interpretation unaddressed: served_law "\<lambda>ps. map_of ps field_mac \<noteq> Some v" for v
  by unfold_locales auto

end
