(* ===== verification/MockSession.thy ===== *)
theory MockSession
  imports MockDocuments ConsoleSafety
begin

text \<open>
  The transport between Reactor and the mock: paths as \<open>url.PathEscape\<close> writes them and the
  router reads them back, the token of the login, and what a conversation of the client
  comes to when the mock answers it, from the login of a session to its end.
\<close>

section \<open>Paths\<close>

lemma hex_digit_upper [simp]: "n < 16 \<Longrightarrow> hex_digit (hex_upper n) = Some n"
  by (auto simp: hex_digit_def hex_upper_def Let_def)

lemma percent_not_safe [simp]: "\<not> path_safe CHR ''%''" "\<not> path_safe CHR ''/''"
  by (simp_all add: path_safe_def query_safe_def Let_def)

lemma unescape_escape: "path_unescape (path_escape s) = Some s"
proof (induction s)
  case (Cons c s)
  have n: "(of_char c :: nat) div 16 < 16" using nat_of_char_less_256 [of c] by linarith
  have rest: "path_unescape (concat (map (\<lambda>c. if path_safe c then [c]
      else let n = of_char c in [CHR ''%'', hex_upper (n div 16), hex_upper (n mod 16)]) s)) = Some s"
    using Cons.IH unfolding path_escape_def .
  show ?case
  proof (cases "path_safe c")
    case True
    moreover from this have "c \<noteq> CHR ''%''" by auto
    ultimately show ?thesis using rest by (simp add: path_escape_def)
  next
    case False
    then show ?thesis using rest n by (simp add: path_escape_def Let_def)
  qed
qed (simp add: path_escape_def)

lemma hex_upper_not_slash: "n < 16 \<Longrightarrow> hex_upper n \<noteq> CHR ''/''"
proof
  assume "n < 16" "hex_upper n = CHR ''/''"
  then have "hex_digit CHR ''/'' = Some n" using hex_digit_upper by metis
  then show False by (simp add: hex_digit_def Let_def)
qed

lemma escape_no_slash: "CHR ''/'' \<notin> set (path_escape s)"
proof (induction s)
  case (Cons c s)
  have n: "(of_char c :: nat) div 16 < 16" using nat_of_char_less_256 [of c] by linarith
  then show ?case
    using Cons.IH hex_upper_not_slash [OF n] hex_upper_not_slash [of "of_char c mod 16"]
    by (auto simp: path_escape_def Let_def)
qed (simp add: path_escape_def)

text \<open>A segment the router takes as it is: not empty, and not one of the two it cleans away.\<close>

definition plain_segment :: "string \<Rightarrow> bool" where
  "plain_segment s = (s \<notin> {[], ''.'', ''..''})"

lemma escape_dots: "path_escape s = t \<Longrightarrow> t \<in> {[], ''.'', ''..''} \<Longrightarrow> s = t"
  using unescape_escape [of s] by auto

lemma escape_plain: "plain_segment s \<Longrightarrow> plain_segment (path_escape s)"
  using escape_dots [of s "path_escape s"] by (auto simp: plain_segment_def)

lemma split_on_tail: "CHR ''/'' \<notin> set s \<Longrightarrow> split_on CHR ''/'' s = [s]"
  by (induction s) auto

lemma split_on_slash: "CHR ''/'' \<notin> set s \<Longrightarrow> split_on CHR ''/'' (s @ CHR ''/'' # r) = s # split_on CHR ''/'' r"
  by (induction s) auto

lemmas escaped_segment = split_on_tail [OF escape_no_slash] split_on_slash [OF escape_no_slash]

lemma unescaped_all:
  "(\<not> list_ex (\<lambda>s. path_unescape s = None) raw \<and> map (\<lambda>s. the (path_unescape s)) raw = segs) \<longleftrightarrow>
     map path_unescape raw = map Some segs"
proof (induction raw arbitrary: segs)
  case (Cons r raw)
  show ?case using Cons.IH [of "tl segs"] by (cases segs) auto
qed auto

lemma path_segments_iff:
  "path_segments path = Some segs \<longleftrightarrow>
     (\<exists>raw. split_on CHR ''/'' path = [] # raw \<and> list_all plain_segment raw \<and> map path_unescape raw = map Some segs)"
proof (cases "\<exists>raw. split_on CHR ''/'' path = [] # raw")
  case True
  then obtain raw where raw: "split_on CHR ''/'' path = [] # raw" by blast
  have "list_ex (\<lambda>s. s \<in> {[], ''.'', ''..''}) raw \<longleftrightarrow> \<not> list_all plain_segment raw"
    by (auto simp: list_ex_iff list_all_iff plain_segment_def)
  then show ?thesis
    unfolding path_segments_def raw unescaped_all [symmetric] by simp
next
  case False
  then have "path_segments path = None"
    unfolding path_segments_def by (cases "split_on CHR ''/'' path"; cases "hd (split_on CHR ''/'' path)") auto
  then show ?thesis using False by simp
qed

lemma network_segments:
  assumes "plain_segment (cw_site w)" and "split_on CHR ''/'' endpoint = raw"
    and "list_all plain_segment raw" and "map path_unescape raw = map Some segs"
  shows "path_segments (network_path w endpoint) = Some ([''proxy'', ''network'', ''api'', ''s'', cw_site w] @ segs)"
proof -
  have "split_on CHR ''/'' (network_path w endpoint) =
      [[], ''proxy'', ''network'', ''api'', ''s'', path_escape (cw_site w)] @ raw"
    by (simp add: network_path_def escaped_segment assms(2))
  then show ?thesis
    using assms(3,4) escape_plain [OF assms(1)]
    by (simp add: path_segments_iff unescape_escape) (simp add: plain_segment_def)
qed

text \<open>The six requests of a console action, as the mock routes them.\<close>

definition routed :: "string \<Rightarrow> string \<Rightarrow> mock_route \<Rightarrow> bool" where
  "routed http_method path route = (Option.bind (path_segments path) (mock_routes http_method) = Some route)"

lemma routedI: "path_segments path = Some segs \<Longrightarrow> mock_routes m segs = Some route \<Longrightarrow> routed m path route"
  by (simp add: routed_def)

lemma fixed_routes:
  "routed method_post alarm_login_path Login" "routed method_post logout_path Logout"
  "routed method_get alarm_manifest_path ServeManifest" "routed method_get alarm_rules_path ServeRules"
  "routed method_post alarm_rules_path CreateRule"
  unfolding routed_def by code_simp+

lemmas route_defs = mock_routes_def site_route_def method_get_def method_put_def method_post_def

lemma site_routes:
  assumes "plain_segment (cw_site w)"
  shows "routed method_get (network_path w wlan_conf_endpoint) ServeWLANConf"
    and "routed method_get (network_path w device_stat_endpoint) ServeDevices"
    and "routed method_post (network_path w dev_mgr_endpoint) DeviceCommand"
proof -
  note path = network_segments [OF assms refl]
  show "routed method_get (network_path w wlan_conf_endpoint) ServeWLANConf"
    by (rule routedI [OF path [where segs = "[''rest'', ''wlanconf'']"]])
      (simp_all add: wlan_conf_endpoint_def plain_segment_def route_defs)
  show "routed method_get (network_path w device_stat_endpoint) ServeDevices"
    by (rule routedI [OF path [where segs = "[''stat'', ''device'']"]])
      (simp_all add: device_stat_endpoint_def plain_segment_def route_defs)
  show "routed method_post (network_path w dev_mgr_endpoint) DeviceCommand"
    by (rule routedI [OF path [where segs = "[''cmd'', ''devmgr'']"]])
      (simp_all add: dev_mgr_endpoint_def plain_segment_def route_defs)
qed

lemma object_routes:
  assumes "plain_segment (cw_site w)" and "plain_segment i"
  shows "routed method_put (network_path w wlan_conf_endpoint @ ''/'' @ path_escape i) (UpdateWLANConf i)"
    and "routed method_put (network_path w rest_device_endpoint @ ''/'' @ path_escape i) (UpdateDevice i)"
proof -
  have split: "split_on CHR ''/'' (''rest/wlanconf'' @ ''/'' @ path_escape i) = [''rest'', ''wlanconf'', path_escape i]"
    "split_on CHR ''/'' (''rest/device'' @ ''/'' @ path_escape i) = [''rest'', ''device'', path_escape i]"
    by (simp_all add: escaped_segment)
  have plain: "list_all plain_segment [''rest'', ''wlanconf'', path_escape i]"
    "list_all plain_segment [''rest'', ''device'', path_escape i]"
    using escape_plain [OF assms(2)] by (simp_all add: plain_segment_def)
  have path: "network_path w endpoint @ ''/'' @ s = network_path w (endpoint @ ''/'' @ s)" for endpoint s
    by (simp add: network_path_def)
  show "routed method_put (network_path w wlan_conf_endpoint @ ''/'' @ path_escape i) (UpdateWLANConf i)"
    unfolding path wlan_conf_endpoint_def
    by (rule routedI [OF network_segments [OF assms(1) split(1) plain(1), where segs = "[''rest'', ''wlanconf'', i]"]])
      (simp_all add: unescape_escape route_defs)
  show "routed method_put (network_path w rest_device_endpoint @ ''/'' @ path_escape i) (UpdateDevice i)"
    unfolding path rest_device_endpoint_def
    by (rule routedI [OF network_segments [OF assms(1) split(2) plain(2), where segs = "[''rest'', ''device'', i]"]])
      (simp_all add: unescape_escape route_defs)
qed

section \<open>Base64\<close>

lemma base64_char_digit: "list_all (\<lambda>d. base64_digit (base64_char d) = Some d \<and>
    base64_char d \<noteq> CHR 0x0A \<and> base64_char d \<noteq> CHR 0x0D) [0..<64]"
  by code_simp

lemma base64_digit_char [simp]:
  assumes "d < 64"
  shows "base64_digit (base64_char d) = Some d" "base64_char d \<noteq> CHR 0x0A" "base64_char d \<noteq> CHR 0x0D"
  using base64_char_digit assms by (simp_all add: list_all_iff)

lemma base64_digits_small: "list_all (\<lambda>b. b < 256) bs \<Longrightarrow> list_all (\<lambda>d. d < 64) (base64_digits bs)"
  by (induction bs rule: base64_digits.induct) auto

lemma base64_bytes_digits:
  "list_all (\<lambda>b. b < 256) bs \<Longrightarrow> base64_bytes (base64_digits bs) = Some (map char_of bs)"
proof (induction bs rule: base64_digits.induct)
  case (2 a)
  have "a div 4 * 4 + a mod 4 * 16 div 16 = a" by simp
  then show ?case by simp
next
  case (3 a b)
  have small: "b div 16 < 16" using 3 by (simp_all add: less_mult_imp_div_less)
  have "a div 4 * 4 + (a mod 4 * 16 + b div 16) div 16 = a" using 3 by (simp add: div_mult2_eq [symmetric])
  moreover have "(a mod 4 * 16 + b div 16) mod 16 * 16 + b mod 16 * 4 div 4 = b" using small 3 by simp
  ultimately show ?case by simp
next
  case (4 a b c rest)
  have small: "b div 16 < 16" "c div 64 < 4" using 4 by (simp_all add: less_mult_imp_div_less)
  have "a div 4 * 4 + (a mod 4 * 16 + b div 16) div 16 = a" using small 4 by simp
  moreover have "(a mod 4 * 16 + b div 16) mod 16 * 16 + (b mod 16 * 4 + c div 64) div 4 = b" using small 4 by simp
  moreover have "(b mod 16 * 4 + c div 64) mod 4 * 64 + c mod 64 = c" using small 4 by simp
  ultimately show ?case using 4 by simp
qed simp

lemma base64_round: "base64_decode (base64_encode s) = Some s"
proof -
  let ?ds = "base64_digits (map of_char s)"
  have small: "list_all (\<lambda>d. d < 64) ?ds" by (rule base64_digits_small) (simp add: list_all_iff)
  then have kept: "filter (\<lambda>c. c \<noteq> CHR 0x0A \<and> c \<noteq> CHR 0x0D) (base64_encode s) = base64_encode s"
    unfolding base64_encode_def by (auto simp: list_all_iff intro!: filter_True)
  have digits: "map base64_digit (base64_encode s) = map Some ?ds"
    unfolding base64_encode_def using small by (simp add: list_all_iff)
  have "base64_bytes ?ds = Some (map char_of (map (of_char :: char \<Rightarrow> nat) s))"
    by (rule base64_bytes_digits) (simp add: list_all_iff)
  then show ?thesis unfolding base64_decode_def kept digits Let_def by (simp add: o_def)
qed

section \<open>One request\<close>

definition client_result :: "mock_lib \<Rightarrow> string \<Rightarrow> string \<Rightarrow> mock_answer \<Rightarrow> string + jv" where
  "client_result lib http_method path a = console_result http_method path (Answered (answer_of lib a))"

lemma client_json [simp]: "encodes d \<Longrightarrow> client_result lib h p (write_json d) = Inr d"
  by (simp add: client_result_def console_result_def answer_of_def write_json_def)

lemma client_response [simp]:
  "client_result lib h p (write_response xs) =
     (if all_items gm_wf xs then Inr (JObj [(''meta'', JObj [(''rc'', JStr ''ok'')]), (''data'', JArr xs)])
      else client_result lib h p (write_json (JObj [(''meta'', JObj [(''rc'', JStr ''ok'')]), (''data'', JArr xs)])))"
  by (simp add: write_response_def)

lemma client_refused:
  assumes "status < 200 \<or> 300 \<le> status"
  obtains e where "client_result lib h p (http_error status text) = Inl e"
  using assms by (auto simp: client_result_def console_result_def answer_of_def http_error_def)

lemma no_session [simp]:
  "ma_session (write_json d) = None" "ma_session (write_response xs) = None" "ma_session (http_error st text) = None"
  by (simp_all add: write_response_def write_json_def http_error_def)

definition asked :: "string option \<Rightarrow> string \<Rightarrow> jv option \<Rightarrow> mock_request" where
  "asked jar csrf body = \<lparr>mr_cookie = jar, mr_csrf = csrf, mr_body = body\<rparr>"

lemma asked_simps [simp]:
  "mr_cookie (asked jar csrf body) = jar" "mr_csrf (asked jar csrf body) = csrf" "mr_body (asked jar csrf body) = body"
  by (simp_all add: asked_def)

lemma run_cbind: "mock_run lib (cbind p g) s = (case mock_run lib p s of (s', x) \<Rightarrow> mock_run lib (g x) s')"
  by (induction p arbitrary: s) (auto split: prod.splits)

lemma run_do:
  assumes "routed h path route" and "mock_serve lib route (asked jar csrf body) m = (m', a)"
  shows "mock_run lib (console_do csrf h path body) (m, jar) =
    ((m', case ma_session a of None \<Rightarrow> jar | Some c \<Rightarrow> c), client_result lib h path a)"
  using assms by (simp add: console_do_def mock_exchange_def routed_def asked_def client_result_def split: option.split)

lemma run_do_then:
  assumes "routed h path route" and "mock_serve lib route (asked jar csrf body) m = (m', a)" and "ma_session a = None"
  shows "mock_run lib (cbindR (console_do csrf h path body) g) (m, jar) =
    (case client_result lib h path a of Inl e \<Rightarrow> ((m', jar), Inl e) | Inr doc \<Rightarrow> mock_run lib (g doc) (m', jar))"
  unfolding cbindR_def run_cbind run_do [OF assms(1,2)] using assms(3) by (simp split: sum.splits)

section \<open>A session\<close>

text \<open>
  What the client relies on of \<open>encoding/json\<close>: the payload of the mock's token, decoded,
  shows the token it carries, if it shows one. When it shows none the header has it.
\<close>

definition reads_claims :: "(string \<Rightarrow> string option) \<Rightarrow> bool" where
  "reads_claims claim = (claim mock_claims = Some mock_csrf \<or> claim mock_claims = None)"

lemma mock_token_parts: "split_on CHR ''.'' mock_token = [''header'', base64_encode mock_claims, ''signature'']"
  by code_simp

lemma mock_token_unpadded:
  "rev (dropWhile (\<lambda>c. c = CHR ''='') (rev (base64_encode mock_claims))) = base64_encode mock_claims"
  by code_simp

lemma mock_token_claims: "csrf_from_session_jwt claim mock_token =
    (case claim mock_claims of None \<Rightarrow> None | Some t \<Rightarrow> if t = [] then None else Some t)"
  by (simp add: csrf_from_session_jwt_def mock_token_parts mock_token_unpadded base64_round)

lemma mock_csrf_not_Nil [simp]: "mock_csrf \<noteq> []"
  by (simp add: mock_csrf_def)

lemma mock_token_not_Nil [simp]: "mock_token \<noteq> []"
  by (simp add: mock_token_def)

lemma login_csrf: "reads_claims claim \<Longrightarrow> csrf_of_login claim (answer_of lib mock_login) = Some mock_csrf"
  by (auto simp: csrf_of_login_def answer_of_def mock_login_def write_json_def mock_token_claims reads_claims_def
      map_filter_simps)

lemma run_login:
  assumes "reads_claims claim"
  shows "mock_run lib (console_login claim username password) (m, jar) = ((m, Some mock_token), Inr mock_csrf)"
proof -
  have route: "Option.bind (path_segments alarm_login_path) (mock_routes method_post) = Some Login"
    using fixed_routes(1) by (simp add: routed_def)
  have "cs_status (answer_of lib mock_login) = 200"
    by (simp add: answer_of_def mock_login_def write_json_def)
  then have "login_result claim (Answered (answer_of lib mock_login)) = Inr mock_csrf"
    using login_csrf [OF assms] by (simp add: login_result_def)
  moreover have "ma_session mock_login = Some (Some mock_token)" by (simp add: mock_login_def)
  ultimately show ?thesis
    by (simp add: console_login_def login_request_def mock_exchange_def route mock_serve_def)
qed

lemma run_logout: "mock_run lib (console_logout csrf) (m, jar) = ((m, None), ())"
proof -
  have "mock_serve lib Logout (asked jar csrf None) m = (m, mock_logout)" by (simp add: mock_serve_def)
  from run_do [OF fixed_routes(2) this] show ?thesis
    by (simp add: console_logout_def run_cbind mock_logout_def)
qed

text \<open>
  An action the install allows, with credentials, against the mock: the session frames
  what the kind of write does, and ends with the cookie gone.
\<close>

definition writable :: "console_writer \<Rightarrow> action \<Rightarrow> bool" where
  "writable w a = (\<not> write_policy_empty (cw_policy w) \<and> credentialed w \<and> console_check (cw_policy w) a = None \<and>
     plain_segment (cw_site w))"

lemma apply_session:
  assumes "describe_console_target a = Inr origin" and "writable w a" and "reads_claims claim"
    and "mock_run lib (console_dispatch wild w mock_csrf a) (m, Some mock_token) = ((m', jar), d)"
  shows "mock_session lib (console_apply wild claim w a) m =
    (m', \<lparr>ar_origin = origin, ar_status = 0, ar_attempts = 1\<rparr>, (case d of Inl e \<Rightarrow> Some e | Inr _ \<Rightarrow> None))"
  using assms(2) unfolding mock_session_def console_apply_def assms(1) sum.case Let_def writable_def
  by (simp add: run_cbind run_login [OF assms(3)] assms(4) run_logout)

end
