(* ===== verification/MockWlans.thy ===== *)
theory MockWlans
  imports MockSession
begin

text \<open>
  The write of a wireless network against the mock that enforces it: what the mock takes
  for a narrow write (\<open>changedKeys\<close>), the table it keeps, and the whole of a WLAN action
  from the login to the state it leaves behind.
\<close>

section \<open>What changed between two records\<close>

lemma filter_single: "distinct xs \<Longrightarrow> x \<in> set xs \<Longrightarrow> filter (\<lambda>y. y = x \<and> c) xs = (if c then [x] else [])"
  by (induction xs) (auto simp: filter_empty_conv)

lemma keys_of_set: "k \<in> set (gm_keys ps) \<Longrightarrow> gm_keys (gm_set k x ps) = gm_keys ps"
  unfolding gm_keys_def by (induction k x ps rule: gm_set.induct) auto

lemma equal_json_self [simp]: "encodes (nil_or v) \<Longrightarrow> equal_json v v"
  by (simp add: equal_json_def)

lemma changed_keys_set:
  assumes "encodes (JObj r)" and "map_of r k = Some v" and "encodes x"
  shows "changed_keys r (gm_set k x r) = (if canonical v = canonical x then [] else [k])"
proof -
  have wf: "distinct (gm_keys r)" and entries: "all_entries gm_wf r" using assms(1) by (auto simp: gm_wf_def gm_keys_def)
  have k: "k \<in> set (gm_keys r)" using assms(2) by (force simp: gm_keys_def dest: map_of_SomeD)
  have same: "(\<not> equal_json (map_of r j) (map_of (gm_set k x r) j)) = (j = k \<and> canonical v \<noteq> canonical x)" for j
    using all_entries_nil_or [OF entries, of j] all_entries_get [OF entries assms(2)] assms(2,3)
    by (auto simp: equal_json_def nil_or_def)
  have "filter (\<lambda>j. map_of r j = None) (gm_keys (gm_set k x r)) = []"
    unfolding keys_of_set [OF k] by (auto simp: filter_empty_conv gm_keys_def map_of_eq_None_iff)
  then show ?thesis
    unfolding changed_keys_def same using filter_single [OF wf k] by simp
qed

lemma changed_keys_self:
  assumes "encodes (JObj r)"
  shows "changed_keys r r = []"
proof -
  have "filter (\<lambda>k. \<not> equal_json (map_of r k) (map_of r k)) (gm_keys r) = []"
    using assms by (auto simp: filter_empty_conv)
  moreover have "filter (\<lambda>k. map_of r k = None) (gm_keys r) = []"
    by (auto simp: filter_empty_conv gm_keys_def map_of_eq_None_iff)
  ultimately show ?thesis by (simp add: changed_keys_def)
qed

text \<open>A record whose every changed key is one key is the other everywhere else.\<close>

lemma changed_keys_elsewhere:
  assumes "set (changed_keys stored submitted) \<subseteq> {k}" and "j \<noteq> k"
  shows "equal_json (map_of stored j) (map_of submitted j) \<or> (map_of stored j = None \<and> map_of submitted j = None)"
proof (cases "map_of stored j")
  case None
  have "j \<notin> set (gm_keys submitted)"
    using assms None by (auto simp: changed_keys_def)
  then show ?thesis using None by (auto simp: gm_keys_def map_of_eq_None_iff)
next
  case (Some v)
  then have "j \<in> set (gm_keys stored)" by (force simp: gm_keys_def dest: map_of_SomeD)
  then show ?thesis using assms by (auto simp: changed_keys_def)
qed

section \<open>Records without structure\<close>

definition atomic :: "jv \<Rightarrow> bool" where
  "atomic v = (case v of JArr xs \<Rightarrow> False | JObj ps \<Rightarrow> False | _ \<Rightarrow> True)"

definition flat :: "jobj \<Rightarrow> bool" where
  "flat r = (gm_wf r \<and> list_all (\<lambda>e. atomic (snd e)) r)"

lemma atomic_objects [simp]: "atomic v \<Longrightarrow> all_objects P v"
  by (cases v) (auto simp: atomic_def)

lemma flat_entries: "flat r \<Longrightarrow> all_entries P r"
  by (auto simp: flat_def all_entries_def2 list_all_iff)

lemma flat_encodes: "flat r \<Longrightarrow> encodes (JObj r)"
  using flat_entries [of r gm_wf] by (simp add: flat_def)

lemma flat_set: "flat r \<Longrightarrow> atomic x \<Longrightarrow> flat (gm_set k x r)"
proof -
  have "list_all (\<lambda>e. atomic (snd e)) r \<Longrightarrow> atomic x \<Longrightarrow> list_all (\<lambda>e. atomic (snd e)) (gm_set k x r)"
    by (induction k x r rule: gm_set.induct) auto
  then show "flat r \<Longrightarrow> atomic x \<Longrightarrow> flat (gm_set k x r)" by (auto simp: flat_def)
qed

lemma find_in_flat_entries: "list_all (\<lambda>e. atomic (snd e)) r \<Longrightarrow> find_in_entries key want required r = None"
proof (induction r)
  case (Cons e r)
  then show ?case by (cases e; cases "snd e") (auto simp: atomic_def)
qed simp

lemma find_in_flat_items:
  "list_all flat rs \<Longrightarrow> find_in_items key want required (map JObj rs) = find (carries key want required) rs"
  by (induction rs) (auto simp: carries_def flat_def find_in_flat_entries)

text \<open>A search in the envelope of an answer goes straight to its data.\<close>

lemma find_in_response:
  assumes "key \<notin> {''meta'', ''data'', ''rc''}"
  shows "find_object_with key want required (JObj [(''meta'', JObj [(''rc'', JStr ''ok'')]), (''data'', JArr xs)])
    = find_in_items key want required xs"
proof -
  have "map_of [(''meta'', m), (''data'', d)] key = None" "map_of [(''rc'', r)] key = None" for m d r :: jv
    using assms by simp_all
  then show ?thesis
    by (simp only: find_object_with.simps find_in_entries.simps as_simps option.case option.distinct if_False HOL.simp_thms)
      (simp split: option.split)
qed

lemma find_unique:
  assumes "r \<in> set rs" and "P r" and "\<forall>r' \<in> set rs. P r' \<longrightarrow> r' = r"
  shows "find P rs = Some r"
proof (cases "find P rs")
  case None
  then show ?thesis using assms(1,2) by (auto simp: find_None_iff)
next
  case (Some q)
  then have "q \<in> set rs" "P q" by (auto simp: find_Some_iff)
  then show ?thesis using assms(3) Some by blast
qed

section \<open>The table\<close>

definition wlan_ok :: "string \<times> jobj \<Rightarrow> bool" where
  "wlan_ok e =
     (flat (snd e) \<and> plain_segment (fst e) \<and> map_of (snd e) field_wlan_id = Some (JStr (fst e)) \<and>
      as_string (map_of (snd e) field_wlan_name) \<noteq> None \<and> as_bool (map_of (snd e) field_wlan_enabled) \<noteq> None)"

definition wlans_ok :: "(string \<times> jobj) list \<Rightarrow> bool" where
  "wlans_ok table =
     (gm_wf table \<and> list_all wlan_ok table \<and> distinct (map (\<lambda>e. wlan_record_name (snd e)) table))"

text \<open>The table with the network of one name switched, and everything else as it was.\<close>

definition switch_wlan :: "string \<Rightarrow> bool \<Rightarrow> (string \<times> jobj) list \<Rightarrow> (string \<times> jobj) list" where
  "switch_wlan n want table =
     map (\<lambda>(i, r). (i, if wlan_record_name r = n then gm_set field_wlan_enabled (JBool want) r else r)) table"

lemma wlan_fields [simp]:
  "field_wlan_id \<noteq> field_wlan_enabled" "field_wlan_name \<noteq> field_wlan_enabled" "field_wlan_enabled \<noteq> field_wlan_id"
  "field_wlan_enabled \<noteq> field_wlan_name"
  by (simp_all add: field_wlan_id_def field_wlan_name_def field_wlan_enabled_def)

lemma gm_set_same: "map_of ps k = Some v \<Longrightarrow> gm_set k v ps = ps"
  by (induction k v ps rule: gm_set.induct) (auto split: if_splits)

lemma gm_set_map:
  "gm_wf ps \<Longrightarrow> k \<in> fst ` set ps \<Longrightarrow> gm_set k v ps = map (\<lambda>e. if fst e = k then (k, v) else e) ps"
proof (induction k v ps rule: gm_set.induct)
  case (2 k v k' v' m)
  show ?case
  proof (cases "k = k'")
    case True
    then have "map (\<lambda>e. if fst e = k then (k, v) else e) m = m"
      using 2 by (intro map_idI) auto
    with True show ?thesis by simp
  qed (use 2 in auto)
qed simp

lemma wlan_named: "wlan_ok e \<Longrightarrow> map_of (snd e) field_wlan_name = Some (JStr (wlan_record_name (snd e)))"
  by (auto simp: wlan_ok_def wlan_record_name_def text_of_def)

lemma wlan_carries:
  "wlan_ok e \<Longrightarrow> carries field_wlan_name n [field_wlan_id, field_wlan_enabled] (snd e) \<longleftrightarrow> wlan_record_name (snd e) = n"
  using wlan_named [of e] by (auto simp: carries_def has_keys_def wlan_ok_def as_bool_def split: option.splits)

lemma unique_name:
  assumes "wlans_ok table" and "e \<in> set table" and "e' \<in> set table"
    and "wlan_record_name (snd e) = wlan_record_name (snd e')"
  shows "e = e'"
  using assms unfolding wlans_ok_def by (auto simp: distinct_map inj_on_def)

lemma switch_found:
  assumes ok: "wlans_ok table" and e: "(i, r) \<in> set table"
  shows "switch_wlan (wlan_record_name r) want table = gm_set i (gm_set field_wlan_enabled (JBool want) r) table"
proof -
  have wf: "gm_wf table" and i: "i \<in> fst ` set table" using ok e by (auto simp: wlans_ok_def image_iff intro: bexI [of _ "(i, r)"])
  have "(case e' of (j, q) \<Rightarrow> (j, if wlan_record_name q = wlan_record_name r then gm_set field_wlan_enabled (JBool want) q else q))
      = (if fst e' = i then (i, gm_set field_wlan_enabled (JBool want) r) else e')" if "e' \<in> set table" for e'
  proof (cases "e' = (i, r)")
    case False
    then have "wlan_record_name (snd e') \<noteq> wlan_record_name r" using unique_name [OF ok that e] by auto
    moreover have "fst e' \<noteq> i" using False that e wf gm_wf_map_of [OF wf] by (metis option.inject prod.collapse)
    ultimately show ?thesis by (cases e') simp
  qed simp
  then show ?thesis unfolding switch_wlan_def gm_set_map [OF wf i] by (intro map_cong) auto
qed

lemma switch_absent: "\<forall>e \<in> set table. wlan_record_name (snd e) \<noteq> n \<Longrightarrow> switch_wlan n want table = table"
  unfolding switch_wlan_def by (intro map_idI) auto

lemma switch_idle:
  assumes "wlans_ok table" and "(i, r) \<in> set table" and "map_of r field_wlan_enabled = Some (JBool want)"
  shows "switch_wlan (wlan_record_name r) want table = table"
  unfolding switch_found [OF assms(1,2)] gm_set_same [OF assms(3)]
  using assms by (auto simp: wlans_ok_def gm_wf_map_of intro: gm_set_same)

section \<open>The mock's half\<close>

lemma serve_list:
  "mock_serve lib ServeWLANConf (asked (Some mock_token) csrf None) m =
     (m, write_response (map JObj (sort_key wlan_record_name (map snd (mk_wlans m)))))"
  by (simp add: mock_serve_def serve_wlan_conf_def session_cookie_present_def)

text \<open>The record read, sent back with the one field changed, is accepted.\<close>

lemma serve_narrow:
  assumes "wlans_ok (mk_wlans m)" and "(i, r) \<in> set (mk_wlans m)" and "map_of r field_wlan_enabled = Some (JBool (\<not> want))"
  shows "mock_serve lib (UpdateWLANConf i) (asked (Some mock_token) mock_csrf
      (Some (JObj (gm_set field_wlan_enabled (JBool want) r)))) m =
    (m\<lparr>mk_wlans := switch_wlan (wlan_record_name r) want (mk_wlans m)\<rparr>,
     write_response [JObj (gm_set field_wlan_enabled (JBool want) r)])"
proof -
  have ok: "wlan_ok (i, r)" and wf: "gm_wf (mk_wlans m)" using assms by (auto simp: wlans_ok_def list_all_iff)
  have stored: "map_of (mk_wlans m) i = Some r" using assms(2) wf by (simp add: gm_wf_map_of)
  have "changed_keys r (gm_set field_wlan_enabled (JBool want) r) = [field_wlan_enabled]"
    using changed_keys_set [OF flat_encodes assms(3), of "JBool want"] ok by (simp add: wlan_ok_def)
  then show ?thesis
    unfolding switch_found [OF assms(1,2)]
    by (simp add: mock_serve_def update_wlan_conf_def mock_guarded_def session_cookie_present_def decode_object_def stored Let_def flag_def)
qed

section \<open>The whole action\<close>

lemma wlan_dispatch:
  assumes ok: "wlans_ok (mk_wlans m)" and site: "plain_segment (cw_site w)"
  shows "mock_run lib (set_wlan_enabled w mock_csrf n want) (m, Some mock_token) =
    ((m\<lparr>mk_wlans := switch_wlan n want (mk_wlans m)\<rparr>, Some mock_token),
     (if \<exists>e \<in> set (mk_wlans m). wlan_record_name (snd e) = n then Inr ()
      else Inl (''no wlan named '' @ quoted n @ '' on site '' @ quoted (cw_site w))))"
proof -
  let ?rs = "sort_key wlan_record_name (map snd (mk_wlans m))"
  have oks: "\<forall>e \<in> set (mk_wlans m). wlan_ok e" using ok by (simp add: wlans_ok_def list_all_iff)
  then have flats: "list_all flat ?rs" by (auto simp: list_all_iff wlan_ok_def)
  then have items: "all_items gm_wf (map JObj ?rs)" using flat_encodes by (auto simp: all_items_def2 list_all_iff)
  let ?found = "find (carries field_wlan_name n [field_wlan_id, field_wlan_enabled]) ?rs"
  obtain doc where answer: "client_result lib method_get (network_path w wlan_conf_endpoint) (write_response (map JObj ?rs)) = Inr doc"
    and found: "find_object_with field_wlan_name n [field_wlan_id, field_wlan_enabled] doc = ?found"
  proof (rule that)
    show "client_result lib method_get (network_path w wlan_conf_endpoint) (write_response (map JObj ?rs)) =
        Inr (JObj [(''meta'', JObj [(''rc'', JStr ''ok'')]), (''data'', JArr (map JObj ?rs))])" using items by simp
    show "find_object_with field_wlan_name n [field_wlan_id, field_wlan_enabled]
        (JObj [(''meta'', JObj [(''rc'', JStr ''ok'')]), (''data'', JArr (map JObj ?rs))]) = ?found"
      using find_in_flat_items [OF flats] by (subst find_in_response) (simp_all add: field_wlan_name_def)
  qed
  have read: "mock_run lib (cbindR (console_do mock_csrf method_get (network_path w wlan_conf_endpoint) None) g)
      (m, Some mock_token) = mock_run lib (g doc) (m, Some mock_token)"
    for g :: "jv \<Rightarrow> (string + unit) console"
    by (simp only: run_do_then [OF site_routes(1) [OF site] serve_list no_session(2)] answer sum.case)
  show ?thesis
  proof (cases "\<exists>e \<in> set (mk_wlans m). wlan_record_name (snd e) = n")
    case False
    then have "?found = None" using oks wlan_carries by (auto simp: find_None_iff)
    then show ?thesis
      using False switch_absent [of "mk_wlans m" n want] by (simp add: set_wlan_enabled_def read found)
  next
    case True
    then obtain i r where e: "(i, r) \<in> set (mk_wlans m)" and n: "wlan_record_name r = n" by force
    have this_ok: "wlan_ok (i, r)" using oks e by blast
    have "r' = r" if "r' \<in> set ?rs" "carries field_wlan_name n [field_wlan_id, field_wlan_enabled] r'" for r'
      using that oks wlan_carries unique_name [OF ok _ e] n by force
    then have some: "?found = Some r"
      using e wlan_carries [OF this_ok] n by (intro find_unique) (auto simp: image_iff intro: bexI [of _ "(i, r)"])
    obtain b where b: "map_of r field_wlan_enabled = Some (JBool b)" using this_ok by (auto simp: wlan_ok_def)
    have i: "map_of r field_wlan_id = Some (JStr i)" "plain_segment i" "i \<noteq> []"
      using this_ok by (auto simp: wlan_ok_def plain_segment_def)
    show ?thesis
    proof (cases "b = want")
      case True
      then show ?thesis
        using switch_idle [OF ok e] b n \<open>\<exists>e \<in> set (mk_wlans m). wlan_record_name (snd e) = n\<close>
        by (simp add: set_wlan_enabled_def read found some i)
    next
      case False
      then have flip: "map_of r field_wlan_enabled = Some (JBool (\<not> want))" using b by auto
      let ?new = "gm_set field_wlan_enabled (JBool want) r"
      have "encodes (JObj ?new)" using this_ok by (intro flat_encodes flat_set) (auto simp: wlan_ok_def atomic_def)
      then have answer: "client_result lib h p (write_response [JObj ?new]) =
          Inr (JObj [(''meta'', JObj [(''rc'', JStr ''ok'')]), (''data'', JArr [JObj ?new])])" for h p by simp
      have verified: "verify_wlan n i want (JObj [(''meta'', JObj [(''rc'', JStr ''ok'')]), (''data'', JArr [JObj ?new])]) = Inr ()"
        unfolding verify_wlan_def
        by (subst find_in_response) (simp_all add: i has_keys_def, simp_all add: field_wlan_id_def)
      have wrote: "mock_run lib (cbindR (console_do mock_csrf method_put (network_path w wlan_conf_endpoint @ ''/'' @ path_escape i)
            (Some (JObj ?new))) (\<lambda>updated. CRet (verify_wlan n i want updated))) (m, Some mock_token) =
          ((m\<lparr>mk_wlans := switch_wlan n want (mk_wlans m)\<rparr>, Some mock_token), Inr ())"
        by (simp only: run_do_then [OF object_routes(1) [OF site i(2)] serve_narrow [OF ok e flip] no_session(2)]
            answer verified sum.case mock_run.simps n)
      show ?thesis
        using False b n wrote \<open>\<exists>e \<in> set (mk_wlans m). wlan_record_name (snd e) = n\<close>
        by (simp add: set_wlan_enabled_def read found some i)
    qed
  qed
qed

lemma action_types [simp]:
  "type_wlan_enable \<noteq> type_wlan_disable" "type_wlan_disable \<noteq> type_wlan_enable"
  "type_poe_cycle \<noteq> type_wlan_enable" "type_poe_cycle \<noteq> type_wlan_disable"
  "type_outlet_cut \<noteq> type_wlan_enable" "type_outlet_cut \<noteq> type_wlan_disable" "type_outlet_cut \<noteq> type_poe_cycle"
  "type_outlet_restore \<noteq> type_wlan_enable" "type_outlet_restore \<noteq> type_wlan_disable"
  "type_outlet_restore \<noteq> type_poe_cycle" "type_outlet_restore \<noteq> type_outlet_cut" "type_outlet_cut \<noteq> type_outlet_restore"
  by code_simp+

text \<open>C21: A WLAN action against the console the mock describes, one that keeps a record per
  network and refuses any write wider than one field. The session leaves the table with
  the network of that name switched, every other field of it and every other network as
  they were, and nothing else of the console touched; and it reports success exactly when
  the console has a network of that name. An action whose network is switched already
  changes nothing and succeeds.\<close>

theorem wlan_action_switches_one_network:
  assumes "wlans_ok (mk_wlans m)" and "writable w a" and "reads_claims claim"
    and "ac_wlan a = Some n" and "ac_type a \<in> {type_wlan_enable, type_wlan_disable}"
  shows "mock_session lib (console_apply wild claim w a) m =
    (m\<lparr>mk_wlans := switch_wlan (wl_name n) (ac_type a = type_wlan_enable) (mk_wlans m)\<rparr>,
     \<lparr>ar_origin = ''unifi/wlan/'' @ wl_name n, ar_status = 0, ar_attempts = 1\<rparr>,
     (if \<exists>e \<in> set (mk_wlans m). wlan_record_name (snd e) = wl_name n then None
      else Some (''no wlan named '' @ quoted (wl_name n) @ '' on site '' @ quoted (cw_site w))))"
proof -
  have origin: "describe_console_target a = Inr (''unifi/wlan/'' @ wl_name n)"
    using assms(4,5) by (auto simp: describe_console_target_def)
  have dispatch: "console_dispatch wild w mock_csrf a =
      set_wlan_enabled w mock_csrf (wl_name n) (ac_type a = type_wlan_enable)"
    using assms(4,5) by (auto simp: console_dispatch_def)
  have site: "plain_segment (cw_site w)" using assms(2) by (simp add: writable_def)
  note run = wlan_dispatch [OF assms(1) site, where lib = lib and n = "wl_name n" and want = "ac_type a = type_wlan_enable"]
  show ?thesis
    unfolding apply_session [OF origin assms(2,3), of lib wild m, unfolded dispatch, OF run] by simp
qed

section \<open>A sample\<close>

definition rehearsal_lib :: mock_lib where
  "rehearsal_lib = \<lparr>ml_wild = (\<lambda>_. 0), ml_fixed2 = (\<lambda>_. ''0.00''), ml_text = (\<lambda>_. []), ml_decode = (\<lambda>_. Inr JNull),
     ml_stray = (\<lambda>_. \<lparr>cs_status = 404, cs_body = [], cs_json = Inr JNull, cs_cookies = [], cs_csrf_header = []\<rparr>)\<rparr>"

definition bare_mock :: mock where
  "bare_mock = initial_mock [] [] ''10.5.67''"

definition rehearsal_writer :: console_writer where
  "rehearsal_writer = sample_writer\<lparr>cw_policy := \<lparr>wp_wlans = [''mock-guest''],
     wp_ports = [\<lparr>pr_mac = mock_switch_mac, pr_port = 7\<rparr>],
     wp_outlets = [\<lparr>lr_mac = sample_mac, lr_index = 5, lr_name = ''nas''\<rparr>], wp_battery = False\<rparr>\<rparr>"

definition guest_off :: action where
  "guest_off = (plain_action type_wlan_disable)\<lparr>ac_wlan := Some \<lparr>wl_name = ''mock-guest''\<rparr>\<rparr>"

theorem wlan_action_switches_one_network_witness:
  "mk_wlans (fst (mock_session rehearsal_lib (console_apply (\<lambda>_. 0) (\<lambda>_. None) rehearsal_writer guest_off) bare_mock)) =
     [mock_wlan 1 ''mock-main'' True, mock_wlan 2 ''mock-guest'' False, mock_wlan 3 ''mock-iot'' False] \<and>
   snd (snd (mock_session rehearsal_lib (console_apply (\<lambda>_. 0) (\<lambda>_. None) rehearsal_writer guest_off) bare_mock)) = None"
proof -
  have table: "mk_wlans bare_mock = mock_wlans" by (simp add: bare_mock_def initial_mock_def)
  have ok: "wlans_ok (mk_wlans bare_mock)" unfolding table by code_simp
  have may: "writable rehearsal_writer guest_off" by code_simp
  have claims: "reads_claims (\<lambda>_. None)" by (simp add: reads_claims_def)
  have action: "ac_wlan guest_off = Some \<lparr>wl_name = ''mock-guest''\<rparr>" "ac_type guest_off = type_wlan_disable"
    by (simp_all add: guest_off_def plain_action_def)
  have after: "switch_wlan ''mock-guest'' False mock_wlans =
      [mock_wlan 1 ''mock-main'' True, mock_wlan 2 ''mock-guest'' False, mock_wlan 3 ''mock-iot'' False]" by code_simp
  have there: "list_ex (\<lambda>e. wlan_record_name (snd e) = ''mock-guest'') mock_wlans" by code_simp
  show ?thesis
    using wlan_action_switches_one_network [OF ok may claims action(1), of rehearsal_lib "\<lambda>_. 0"] action(2) after there
    by (simp add: table list_ex_iff)
qed

end
