(* ===== verification/MockPorts.thy ===== *)
theory MockPorts
  imports MockWlans
begin

text \<open>
  The power cycle of a port against the mock: what the device list it serves says of the
  synthetic switch, and the whole of a cycle, which is recorded exactly when the port is
  the one that was named.
\<close>

section \<open>What is served of a device\<close>

lemma outlets_keep: "k \<notin> {field_outlet_table, field_device_id, field_outlet_overrides} \<Longrightarrow>
    map_of (rewrite_outlets wild m d) k = map_of d k"
  by (auto simp: rewrite_outlets_def Let_def split: option.splits prod.splits)

lemma set_some_keep [simp]: "k \<noteq> j \<Longrightarrow> map_of (set_some j f v d) k = map_of d k"
  by (auto simp: set_some_def split: option.splits)

definition override_keys :: "string list" where
  "override_keys = [''state'', ''adopted'', ''name'', ''upgradable'', ''upgrade_to_firmware'', ''model_in_eol'',
     ''has_temperature'', ''has_fan'', ''overheating'', ''general_temperature'', ''temperatures'']"

lemma thermals_keep: "k \<notin> set override_keys \<Longrightarrow> map_of (rewrite_thermals v d) k = map_of d k"
  by (auto simp: rewrite_thermals_def override_keys_def Let_def split: option.splits)

lemma override_keep: "k \<notin> set override_keys \<Longrightarrow> map_of (rewrite_override v d) k = map_of d k"
  unfolding rewrite_override_def Let_def
  by (simp add: thermals_keep) (simp add: override_keys_def)

lemma poe_keep: "k \<notin> {field_max_power, field_port_table} \<Longrightarrow> map_of (rewrite_poe fixed2 m d) k = map_of d k"
  by (auto simp: rewrite_poe_def Let_def split: option.splits)

text \<open>The device is listed unless an override takes it away; then it is this.\<close>

definition fleet_listed :: "mock \<Rightarrow> jobj \<Rightarrow> bool" where
  "fleet_listed m d =
     (case map_of (mk_device_overrides m) (slugify_name (text_of (map_of d ''name''))) of
        None \<Rightarrow> True | Some v \<Rightarrow> \<not> ov_absent v)"

lemma fleet_iff: "rewrite_fleet wild fixed2 m d = None \<longleftrightarrow> \<not> fleet_listed m d"
  by (auto simp: rewrite_fleet_def fleet_listed_def Let_def split: option.splits)

lemma fleet_keep:
  assumes "rewrite_fleet wild fixed2 m d = Some d'" and "k \<notin> set override_keys"
  shows "map_of d' k = map_of (rewrite_outlets wild m (rewrite_poe fixed2 m d)) k"
  using assms override_keep [OF assms(2)] by (auto simp: rewrite_fleet_def Let_def split: option.splits if_splits)

section \<open>The ports\<close>

lemma to_float_iff [simp]: "to_float v = Some x \<longleftrightarrow> v = Some (JNum x)"
  by (auto simp: to_float_def split: option.splits jv.splits)

definition port_ok :: "jv \<Rightarrow> bool" where
  "port_ok x =
     (case x of
        JObj p \<Rightarrow> flat p \<and>
          (case to_float (map_of p field_port_index) of
             None \<Rightarrow> False
           | Some r \<Rightarrow> r = of_int \<lfloor>r\<rfloor> \<and> - (2 ^ 31) \<le> \<lfloor>r\<rfloor> \<and> \<lfloor>r\<rfloor> < 2 ^ 31)
      | _ \<Rightarrow> False)"

lemma port_okE:
  assumes "port_ok x"
  obtains p i where "x = JObj p" "flat p" "map_of p field_port_index = Some (int_doc i)" "- (2 ^ 31) \<le> i" "i < 2 ^ 31"
proof -
  obtain p where x: "x = JObj p" using assms by (cases x) (auto simp: port_ok_def)
  obtain r where r: "to_float (map_of p field_port_index) = Some r"
    using assms by (cases "to_float (map_of p field_port_index)") (auto simp: x port_ok_def)
  have v: "map_of p field_port_index = Some (JNum r)" using r by simp
  have p: "x = JObj p" "flat p" "map_of p field_port_index = Some (JNum r)" "r = of_int \<lfloor>r\<rfloor>"
    "- (2 ^ 31) \<le> \<lfloor>r\<rfloor>" "\<lfloor>r\<rfloor> < 2 ^ 31"
    using assms v unfolding port_ok_def x jv.case r option.case by auto
  have "map_of p field_port_index = Some (int_doc \<lfloor>r\<rfloor>)" using p(3,4) unfolding int_doc_def by simp
  then show ?thesis using that p by blast
qed

text \<open>A port as served: what it delivers apart, it is the port of the table.\<close>

definition served_as :: "jv \<Rightarrow> jv \<Rightarrow> bool" where
  "served_as x y = (x = y \<or> (\<exists>p q. x = JObj p \<and> y = JObj q \<and> (\<forall>k. k \<noteq> field_poe_power \<longrightarrow> map_of q k = map_of p k)))"

lemma served_as_refl [simp]: "served_as x x"
  by (simp add: served_as_def)

lemma served_as_objects: "(\<And>k. k \<noteq> field_poe_power \<Longrightarrow> map_of q k = map_of p k) \<Longrightarrow> served_as (JObj p) (JObj q)"
  by (auto simp: served_as_def)

lemma ports_served: "list_all2 served_as xs (rewrite_ports fixed2 m assigned xs)"
  by (induction fixed2 m assigned xs rule: rewrite_ports.induct)
    (auto intro!: served_as_objects split: option.splits)

lemma list_all2_same: "list_all2 served_as xs xs"
  by (induction xs) auto

lemma poe_ports:
  assumes "map_of d field_port_table = Some (JArr ports)"
  obtains ports' where "map_of (rewrite_poe fixed2 m d) field_port_table = Some (JArr ports')" "list_all2 served_as ports ports'"
proof (cases "mk_poe_budget m = None \<or> map_of d field_mac \<noteq> Some (JStr mock_switch_mac)")
  case True
  then show ?thesis using that [of ports] assms list_all2_same by (auto simp: rewrite_poe_def split: option.splits)
next
  case False
  then obtain budget where "mk_poe_budget m = Some budget" "map_of d field_mac = Some (JStr mock_switch_mac)" by auto
  moreover have "field_port_table \<noteq> field_max_power" by (simp add: field_port_table_def field_max_power_def)
  ultimately show ?thesis
    using that [of "rewrite_ports fixed2 m False ports"] assms ports_served by (simp add: rewrite_poe_def Let_def)
qed

lemma served_get:
  "served_as (JObj p) (JObj q) \<Longrightarrow> k \<noteq> field_poe_power \<Longrightarrow> map_of q k = map_of p k"
  by (auto simp: served_as_def)

lemma decode_int_doc: "- (2 ^ 31) \<le> i \<Longrightarrow> i < 2 ^ 31 \<Longrightarrow> decode_index wild (Some (int_doc i)) = Some i"
  by (simp add: decode_index_def int_doc_def float_int32_of_int)

lemma scan_served:
  "list_all2 served_as xs ys \<Longrightarrow> list_all port_ok xs \<Longrightarrow>
     (case find (\<lambda>p. map_of p field_port_index = Some (int_doc want)) (objects_of xs) of
        None \<Rightarrow> scan_index wild field_port_index want ys = None
      | Some p \<Rightarrow> \<exists>q. scan_index wild field_port_index want ys = Some q \<and> served_as (JObj p) (JObj q) \<and>
          - (2 ^ 31) \<le> want \<and> want < 2 ^ 31)"
proof (induction xs ys rule: list_all2_induct)
  case (Cons x xs y ys)
  obtain p i where p: "x = JObj p" "map_of p field_port_index = Some (int_doc i)" "- (2 ^ 31) \<le> i" "i < 2 ^ 31"
    by (rule port_okE [of x]) (use Cons.prems in auto)
  obtain q where q: "y = JObj q" "served_as (JObj p) (JObj q)" using Cons.hyps(1) p(1) by (auto simp: served_as_def)
  have "field_port_index \<noteq> field_poe_power" by (simp add: field_port_index_def field_poe_power_def)
  then have "map_of q field_port_index = Some (int_doc i)" using served_get [OF q(2)] p(2) by simp
  then have scan: "scan_index wild field_port_index want (y # ys) =
      (if i = want then Some q else scan_index wild field_port_index want ys)"
    using decode_int_doc [OF p(3,4), of wild] by (simp add: q(1))
  have "find (\<lambda>p. map_of p field_port_index = Some (int_doc want)) (objects_of (x # xs)) =
      (if i = want then Some p else find (\<lambda>p. map_of p field_port_index = Some (int_doc want)) (objects_of xs))"
    using p(1,2) by (simp add: objects_of_def map_filter_simps int_doc_def)
  note found = this
  have IH: "case find (\<lambda>p. map_of p field_port_index = Some (int_doc want)) (objects_of xs) of
        None \<Rightarrow> scan_index wild field_port_index want ys = None
      | Some p \<Rightarrow> \<exists>q. scan_index wild field_port_index want ys = Some q \<and> served_as (JObj p) (JObj q) \<and>
          - (2 ^ 31) \<le> want \<and> want < 2 ^ 31"
    using Cons.IH Cons.prems by simp
  show ?case
    unfolding found scan using IH q(2) p(3,4) by (cases "i = want") auto
qed (simp add: objects_of_def map_filter_simps)

section \<open>The switch in the device list\<close>

definition no_address :: "string \<Rightarrow> jobj \<Rightarrow> bool" where
  "no_address mac ps = (map_of ps field_mac \<noteq> Some (JStr mac))"

definition switch_ok :: "jobj \<Rightarrow> bool" where
  "switch_ok d =
     (map_of d field_mac = Some (JStr mock_switch_mac) \<and> gm_wf d \<and> all_entries gm_wf d \<and>
      all_entries (no_address mock_switch_mac) d \<and>
      (case as_array (map_of d field_port_table) of None \<Rightarrow> False | Some ports \<Rightarrow> list_all port_ok ports))"

text \<open>The captures are documents, in which no device has the address of the synthetic switch.\<close>

definition captured_ok :: "mock \<Rightarrow> bool" where
  "captured_ok m = list_all (\<lambda>x. encodes x \<and> all_objects (no_address mock_switch_mac) x) (mk_pristine m)"

definition served_switch :: "(rat \<Rightarrow> int) \<Rightarrow> (f64 \<Rightarrow> string) \<Rightarrow> mock \<Rightarrow> jv list" where
  "served_switch wild fixed2 m = (case rewrite_fleet wild fixed2 m (mk_switch m) of None \<Rightarrow> [] | Some d \<Rightarrow> [JObj d])"

lemma list_encodes:
  assumes "list_all encodes (mk_pristine m)" and "encodes (JObj (mk_switch m))" and "finite_mock m"
  shows "all_items gm_wf (devices wild fixed2 m)"
proof -
  have "all_items gm_wf (List.map_filter (serve_device wild fixed2 m) (mk_pristine m))"
    using assms keyed.served_device_good [OF _ assms(3)]
    by (auto simp: all_items_def2 list_all_iff List.map_filter_def)
  moreover have "all_objects gm_wf (JObj d)" if "rewrite_fleet wild fixed2 m (mk_switch m) = Some d" for d
    using that assms keyed.fleet_good [OF _ assms(3) that] keyed.fleet_top [OF _ that] by simp
  ultimately show ?thesis by (simp add: devices_def split: option.split)
qed

lemma devices_encode:
  assumes "captured_ok m" and "switch_ok (mk_switch m)" and "finite_mock m"
  shows "all_items gm_wf (devices wild fixed2 m)"
  using assms by (intro list_encodes) (auto simp: captured_ok_def switch_ok_def list_all_iff)

lemma no_address_law: "no_address mac = (\<lambda>ps. map_of ps field_mac \<noteq> Some (JStr mac))"
  by (simp add: no_address_def fun_eq_iff)

text \<open>An object of the served list with the switch's address is the switch itself.\<close>

lemma switch_alone:
  assumes "captured_ok m" and "switch_ok (mk_switch m)" and "finite_mock m"
    and "x \<in> set (devices wild fixed2 m)" and "inside (JObj ps) x" and "map_of ps field_mac = Some (JStr mock_switch_mac)"
  shows "rewrite_fleet wild fixed2 m (mk_switch m) = Some ps"
proof -
  have clean: "\<not> all_objects (no_address mock_switch_mac) x"
    using assms(5,6) unfolding all_objects_iff no_address_def by blast
  consider y where "y \<in> set (mk_pristine m)" "serve_device wild fixed2 m y = Some x"
    | d where "rewrite_fleet wild fixed2 m (mk_switch m) = Some d" "x = JObj d"
    using assms(4) by (cases "rewrite_fleet wild fixed2 m (mk_switch m)") (auto simp: devices_def List.map_filter_def)
  then show ?thesis
  proof cases
    case 1
    then have "all_objects (no_address mock_switch_mac) y" using assms(1) by (simp add: captured_ok_def list_all_iff)
    then have "all_objects (no_address mock_switch_mac) x"
      using unaddressed.served_device_good [OF _ assms(3) 1(2)] unfolding no_address_law by blast
    then show ?thesis using clean by simp
  next
    case 2
    have "all_entries (no_address mock_switch_mac) d"
      using unaddressed.fleet_good [OF _ assms(3) 2(1)] assms(2) unfolding no_address_law switch_ok_def by blast
    then have "ps = d" using assms(5,6) unfolding 2(2) all_objects_iff no_address_def by auto
    then show ?thesis using 2(1) by simp
  qed
qed

lemma switch_served:
  assumes "switch_ok (mk_switch m)" and "rewrite_fleet wild fixed2 m (mk_switch m) = Some d"
  obtains ports ports' where "map_of (mk_switch m) field_port_table = Some (JArr ports)"
    "map_of d field_port_table = Some (JArr ports')" "list_all2 served_as ports ports'" "list_all port_ok ports"
    "map_of d field_mac = Some (JStr mock_switch_mac)"
proof -
  obtain ports where ports: "map_of (mk_switch m) field_port_table = Some (JArr ports)" "list_all port_ok ports"
    using assms(1) by (auto simp: switch_ok_def split: option.splits)
  obtain ports' where served: "map_of (rewrite_poe fixed2 m (mk_switch m)) field_port_table = Some (JArr ports')"
    "list_all2 served_as ports ports'" by (rule poe_ports [OF ports(1)])
  have keys: "field_port_table \<notin> set override_keys" "field_mac \<notin> set override_keys"
    "field_port_table \<notin> {field_outlet_table, field_device_id, field_outlet_overrides}"
    "field_mac \<notin> {field_outlet_table, field_device_id, field_outlet_overrides}" "field_mac \<notin> {field_max_power, field_port_table}"
    by code_simp+
  have "map_of d field_port_table = Some (JArr ports')"
    using fleet_keep [OF assms(2) keys(1)] outlets_keep [OF keys(3)] served by simp
  moreover have "map_of d field_mac = Some (JStr mock_switch_mac)"
    using fleet_keep [OF assms(2) keys(2)] outlets_keep [OF keys(4)] poe_keep [OF keys(5)] assms(1)
    by (simp add: switch_ok_def)
  ultimately show ?thesis using that ports served by blast
qed

section \<open>The cycle\<close>

text \<open>The port as the Automation names it: the name, no uplink, and able to supply power.\<close>

definition port_confirmed :: "poe_port \<Rightarrow> jobj \<Rightarrow> bool" where
  "port_confirmed p port =
     (map_of port field_port_name = Some (JStr (pp_port_name p)) \<and> map_of port field_is_uplink = Some (JBool False) \<and>
      map_of port field_port_poe = Some (JBool True) \<and> map_of port field_poe_enable \<noteq> Some (JBool False))"

definition cyclable :: "mock \<Rightarrow> poe_port \<Rightarrow> bool" where
  "cyclable m p =
     (fleet_listed m (mk_switch m) \<and> normalize_mac (pp_device p) = mock_switch_mac \<and>
      (case port_by_index m (pp_port p) of None \<Rightarrow> False | Some port \<Rightarrow> port_confirmed p port))"

definition cycled :: "mock \<Rightarrow> poe_port \<Rightarrow> mock" where
  "cycled m p = m\<lparr>mk_cycles := mk_cycles m @ [mock_switch_mac @ ''/'' @ int_dec (pp_port p)]\<rparr>"

lemma served_confirmed: "served_as (JObj p) (JObj q) \<Longrightarrow> port_confirmed c q \<longleftrightarrow> port_confirmed c p"
  using served_get [of p q field_port_name] served_get [of p q field_is_uplink] served_get [of p q field_port_poe]
    served_get [of p q field_poe_enable]
  by (simp add: port_confirmed_def field_port_name_def field_is_uplink_def field_port_poe_def field_poe_enable_def
      field_poe_power_def)

text \<open>The body of the command, and the mock's answer to it.\<close>

definition cycle_body :: "poe_port \<Rightarrow> jv option" where
  "cycle_body p = Some (JObj [(''cmd'', JStr cmd_power_cycle), (field_mac, JStr (normalize_mac (pp_device p))),
     (field_port_index, JNum (of_int (pp_port p)))])"

lemma serve_cycle:
  assumes "switch_ok (mk_switch m)"
  shows "mock_serve lib DeviceCommand (asked (Some mock_token) mock_csrf (cycle_body p)) m =
    (if normalize_mac (pp_device p) \<noteq> mock_switch_mac then (m, http_error 400 (message ''api.err.UnknownDevice''))
     else (let i = float_int (ml_wild lib) (of_int (pp_port p)) in
       if port_by_index m i = None then (m, http_error 400 (message ''api.err.InvalidPort''))
       else (m\<lparr>mk_cycles := mk_cycles m @ [mock_switch_mac @ ''/'' @ int_dec i]\<rparr>, write_response [])))"
  using assms
  by (simp add: mock_serve_def device_command_def mock_guarded_def session_cookie_present_def decode_object_def cycle_body_def
      cmd_power_cycle_def switch_ok_def nil_or_def field_mac_def field_port_index_def to_float_def has_port_def text_of_def Let_def)

lemma float_int_small: "- (2 ^ 31) \<le> i \<Longrightarrow> i < 2 ^ 31 \<Longrightarrow> float_int wild (of_int i) = i"
  by (simp add: float_int_def)

text \<open>The port the client finds in the switch as served is the port the mock has, confirmed or not.\<close>

lemma found_port:
  assumes "switch_ok (mk_switch m)" and "rewrite_fleet wild' fixed2 m (mk_switch m) = Some d"
  shows "case object_by_index wild (map_of d field_port_table) field_port_index i of
      None \<Rightarrow> port_by_index m i = None
    | Some q \<Rightarrow> \<exists>p. port_by_index m i = Some p \<and> served_as (JObj p) (JObj q) \<and> - (2 ^ 31) \<le> i \<and> i < 2 ^ 31"
proof -
  obtain ports ports' where ports: "map_of (mk_switch m) field_port_table = Some (JArr ports)"
    "map_of d field_port_table = Some (JArr ports')" "list_all2 served_as ports ports'" "list_all port_ok ports"
    by (rule switch_served [OF assms])
  note scan = scan_served [OF ports(3,4), where want = i and wild = wild]
  show ?thesis
    using scan by (cases "port_by_index m i") (auto simp: object_by_index_def port_by_index_def ports(1,2))
qed

text \<open>What the client makes of the device list: the port to cycle, if it is to be cycled.\<close>

lemma cycle_choice:
  assumes ok: "captured_ok m" "switch_ok (mk_switch m)" "finite_mock m"
    and doc: "doc = JObj [(''meta'', JObj [(''rc'', JStr ''ok'')]), (''data'', JArr (devices wild' fixed2 m))]"
    and mac: "mac = normalize_mac (pp_device p)"
  shows "case find_object_with field_mac mac [field_port_table] doc of
      None \<Rightarrow> \<not> cyclable m p
    | Some device \<Rightarrow> (case object_by_index wild (map_of device field_port_table) field_port_index (pp_port p) of
          None \<Rightarrow> \<not> cyclable m p
        | Some port \<Rightarrow> (if check_port mac p port = None \<and> mac = mock_switch_mac
            then cyclable m p \<and> port_by_index m (pp_port p) \<noteq> None \<and> - (2 ^ 31) \<le> pp_port p \<and> pp_port p < 2 ^ 31
            else \<not> cyclable m p))"
proof (cases "mac = mock_switch_mac")
  case False
  then show ?thesis unfolding mac by (auto simp: cyclable_def split: option.splits)
next
  case True
  have here: "find_object_with field_mac mac [field_port_table] doc =
      find_in_items field_mac mac [field_port_table] (devices wild' fixed2 m)"
    unfolding doc by (rule find_in_response) (simp add: field_mac_def)
  show ?thesis
  proof (cases "find_object_with field_mac mac [field_port_table] doc")
    case None
    have "\<not> fleet_listed m (mk_switch m)"
    proof
      assume "fleet_listed m (mk_switch m)"
      then obtain d where d: "rewrite_fleet wild' fixed2 m (mk_switch m) = Some d"
        using fleet_iff [of wild' fixed2 m "mk_switch m"] by auto
      have served: "map_of d field_mac = Some (JStr mac)" "map_of d field_port_table \<noteq> None"
        by (rule switch_served [OF ok(2) d]; simp add: True)+
      moreover have "JObj d \<in> set (devices wild' fixed2 m)" by (simp add: devices_def d)
      ultimately show False
        using find_complete(2) [OF None [unfolded here], of "JObj d" d] by (simp add: carries_def has_keys_def)
    qed
    then show ?thesis using None by (simp add: cyclable_def)
  next
    case (Some device)
    obtain x where x: "x \<in> set (devices wild' fixed2 m)" "inside (JObj device) x" and
      at: "map_of device field_mac = Some (JStr mock_switch_mac)"
      using find_sound(2) [OF Some [unfolded here]] True by (auto simp: carries_def)
    have fleet: "rewrite_fleet wild' fixed2 m (mk_switch m) = Some device"
      by (rule switch_alone [OF ok x at])
    have listed: "fleet_listed m (mk_switch m)" using fleet fleet_iff [of wild' fixed2 m "mk_switch m"] by auto
    note port = found_port [OF ok(2) fleet, where wild = wild and i = "pp_port p"]
    show ?thesis
    proof (cases "object_by_index wild (map_of device field_port_table) field_port_index (pp_port p)")
      case None
      then show ?thesis using port Some by (simp add: cyclable_def)
    next
      case (Some q)
      then obtain r where r: "port_by_index m (pp_port p) = Some r" "served_as (JObj r) (JObj q)"
        "- (2 ^ 31) \<le> pp_port p" "pp_port p < 2 ^ 31" using port by auto
      have "check_port mac p q = None \<longleftrightarrow> port_confirmed p r"
        using served_confirmed [OF r(2), of p] unfolding check_port_None port_confirmed_def by simp
      then show ?thesis
        using \<open>find_object_with field_mac mac [field_port_table] doc = Some device\<close> Some r listed True mac
        by (simp add: cyclable_def)
    qed
  qed
qed

lemma poe_dispatch:
  assumes ok: "captured_ok m" "switch_ok (mk_switch m)" "finite_mock m" and site: "plain_segment (cw_site w)"
  shows "\<exists>d. mock_run lib (cycle_poe_port wild w mock_csrf p) (m, Some mock_token) =
      ((if cyclable m p then cycled m p else m, Some mock_token), d) \<and> (d = Inr () \<longleftrightarrow> cyclable m p)"
proof -
  let ?mac = "normalize_mac (pp_device p)"
  let ?list = "write_response (devices (ml_wild lib) (ml_fixed2 lib) m)"
  obtain doc where doc: "doc = JObj [(''meta'', JObj [(''rc'', JStr ''ok'')]),
      (''data'', JArr (devices (ml_wild lib) (ml_fixed2 lib) m))]" by blast
  have answer: "client_result lib method_get (network_path w device_stat_endpoint) ?list = Inr doc"
    using devices_encode [OF ok] by (simp add: doc)
  have listing: "mock_serve lib ServeDevices (asked (Some mock_token) mock_csrf None) m = (m, ?list)"
    by (simp add: mock_serve_def)
  have read: "mock_run lib (cbindR (console_do mock_csrf method_get (network_path w device_stat_endpoint) None) g)
      (m, Some mock_token) = mock_run lib (g doc) (m, Some mock_token)" for g :: "jv \<Rightarrow> (string + unit) console"
    by (simp only: run_do_then [OF site_routes(2) [OF site] listing no_session(2)] answer sum.case)
  note choice = cycle_choice [OF ok doc refl, where wild = wild and p = p]
  have send: "\<exists>d. mock_run lib (cbindR (console_do mock_csrf method_post (network_path w dev_mgr_endpoint) (cycle_body p))
      (\<lambda>_. CRet (Inr ()))) (m, Some mock_token) =
      ((if cyclable m p then cycled m p else m, Some mock_token), d) \<and> (d = Inr () \<longleftrightarrow> cyclable m p)"
    if "?mac = mock_switch_mac \<Longrightarrow> cyclable m p \<and> port_by_index m (pp_port p) \<noteq> None \<and> - (2 ^ 31) \<le> pp_port p \<and> pp_port p < 2 ^ 31"
  proof (cases "?mac = mock_switch_mac")
    case True
    have "mock_serve lib DeviceCommand (asked (Some mock_token) mock_csrf (cycle_body p)) m = (cycled m p, write_response [])"
      unfolding serve_cycle [OF ok(2)] using True that float_int_small by (auto simp: Let_def cycled_def)
    note run = run_do_then [OF site_routes(3) [OF site] this no_session(2)]
    have answer: "client_result lib method_post (network_path w dev_mgr_endpoint) (write_response []) =
        Inr (JObj [(''meta'', JObj [(''rc'', JStr ''ok'')]), (''data'', JArr [])])" by simp
    show ?thesis using that True by (simp only: run answer sum.case mock_run.simps) simp
  next
    case False
    then have no: "\<not> cyclable m p" by (simp add: cyclable_def)
    have "mock_serve lib DeviceCommand (asked (Some mock_token) mock_csrf (cycle_body p)) m =
        (m, http_error 400 (message ''api.err.UnknownDevice''))"
      unfolding serve_cycle [OF ok(2)] using False by simp
    note run = run_do_then [OF site_routes(3) [OF site] this no_session(3)]
    obtain e where "client_result lib method_post (network_path w dev_mgr_endpoint)
        (http_error 400 (message ''api.err.UnknownDevice'')) = Inl e" by (rule client_refused [of 400]) auto
    then show ?thesis using no by (simp only: run sum.case) simp
  qed
  show ?thesis
  proof (cases "find_object_with field_mac ?mac [field_port_table] doc")
    case None
    then show ?thesis using choice by (simp add: cycle_poe_port_def Let_def read)
  next
    case device: (Some device)
    show ?thesis
    proof (cases "object_by_index wild (map_of device field_port_table) field_port_index (pp_port p)")
      case None
      then show ?thesis using choice device by (simp add: cycle_poe_port_def Let_def read)
    next
      case port: (Some port)
      show ?thesis
      proof (cases "check_port ?mac p port")
        case None
        have run: "mock_run lib (cycle_poe_port wild w mock_csrf p) (m, Some mock_token) =
            mock_run lib (cbindR (console_do mock_csrf method_post (network_path w dev_mgr_endpoint) (cycle_body p))
              (\<lambda>_. CRet (Inr ()))) (m, Some mock_token)"
          using device port None by (simp add: cycle_poe_port_def Let_def read cycle_body_def)
        have "cyclable m p \<and> port_by_index m (pp_port p) \<noteq> None \<and> - (2 ^ 31) \<le> pp_port p \<and> pp_port p < 2 ^ 31"
          if "?mac = mock_switch_mac"
          using choice device port None that by simp
        then show ?thesis unfolding run by (rule send)
      next
        case (Some e)
        then show ?thesis using choice device port by (simp add: cycle_poe_port_def Let_def read)
      qed
    qed
  qed
qed


definition recycle :: action where
  "recycle = (plain_action type_poe_cycle)\<lparr>ac_poe := Some \<lparr>pp_device = ''AA-BB-CC-00-11-33'', pp_port = 7,
     pp_port_name = ''mock-ap''\<rparr>\<rparr>"


end
