(* ===== verification/MockOutlets.thy ===== *)
theory MockOutlets
  imports MockPorts
begin

text \<open>
  The switching of an outlet against the mock, whose handler accepts the overrides it has
  just served with one relay moved and nothing else. The UPS is whatever captured device
  has outlets.
\<close>

section \<open>What is kept of a device\<close>

lemma battery_keep: "k \<noteq> ''vbms_table'' \<Longrightarrow> map_of (rewrite_battery m d) k = map_of d k"
  by (auto simp: rewrite_battery_def Let_def split: option.splits jv.splits)

definition failover_keys :: "string list" where
  "failover_keys = [''wan1'', ''wan2'', ''uplink'', ''isp'', ''last_wan_status'']"

lemma failover_keep: "k \<notin> set failover_keys \<Longrightarrow> map_of (failover m d) k = map_of d k"
  by (auto simp: failover_def failover_keys_def Let_def split: option.splits jv.splits prod.splits)

definition stable_key :: "string \<Rightarrow> bool" where
  "stable_key k = (k \<notin> set override_keys \<and> k \<notin> set failover_keys \<and> k \<noteq> ''vbms_table'' \<and>
     k \<noteq> field_max_power \<and> k \<noteq> field_port_table)"

lemma stable_keys:
  "stable_key field_mac" "stable_key field_device_id" "stable_key field_outlet_table" "stable_key field_outlet_overrides"
  by code_simp+

text \<open>The device as served, when it is served, has what \<open>rewrite_outlets\<close> made of it.\<close>

lemma device_keep:
  assumes "serve_device wild fixed2 m (JObj d) = Some y"
  obtains d' where "y = JObj d'"
    "\<And>k. stable_key k \<Longrightarrow> map_of d' k = map_of (rewrite_outlets wild m (rewrite_poe fixed2 m d)) k"
proof -
  obtain f where fleet: "rewrite_fleet wild fixed2 m d = Some f" and
    y: "y = JObj (rewrite_battery m (if map_of f ''wan1'' \<noteq> None \<and> mk_link m = link_backup then failover m f else f))"
    using assms by (auto simp: serve_device_def split: option.splits if_splits)
  show ?thesis
  proof (rule that [OF y])
    fix k assume k: "stable_key k"
    then show "map_of (rewrite_battery m (if map_of f ''wan1'' \<noteq> None \<and> mk_link m = link_backup then failover m f else f)) k
        = map_of (rewrite_outlets wild m (rewrite_poe fixed2 m d)) k"
      using fleet_keep [OF fleet, of k] by (simp add: stable_key_def battery_keep failover_keep)
  qed
qed

text \<open>Whether a captured device is served at all.\<close>

definition device_listed :: "mock \<Rightarrow> jobj \<Rightarrow> bool" where
  "device_listed m d = (fleet_listed m d \<and> \<not> (map_of d ''vbms_table'' \<noteq> None \<and> mk_no_ups m))"

lemma device_served: "device_listed m d \<Longrightarrow> \<exists>y. serve_device wild fixed2 m (JObj d) = Some y"
  using fleet_iff [of wild fixed2 m d] by (auto simp: serve_device_def device_listed_def split: option.split)

section \<open>The outlets\<close>

definition outlet_index_of :: "jobj \<Rightarrow> int" where
  "outlet_index_of r = (case to_float (map_of r field_outlet_index) of None \<Rightarrow> 0 | Some x \<Rightarrow> \<lfloor>x\<rfloor>)"

definition outlet_record_ok :: "jobj \<Rightarrow> bool" where
  "outlet_record_ok r =
     (flat r \<and> map_of r field_outlet_index = Some (int_doc (outlet_index_of r)) \<and>
      - (2 ^ 31) \<le> outlet_index_of r \<and> outlet_index_of r < 2 ^ 31 \<and> as_bool (map_of r field_relay_state) \<noteq> None)"

definition outlet_records :: "jobj \<Rightarrow> jobj list" where
  "outlet_records d = (case as_array (map_of d field_outlet_table) of None \<Rightarrow> [] | Some xs \<Rightarrow> objects_of xs)"

definition ups_ok :: "string \<Rightarrow> jobj \<Rightarrow> bool" where
  "ups_ok mac d =
     (map_of d field_mac = Some (JStr mac) \<and> gm_wf d \<and> all_entries gm_wf d \<and> all_entries (no_address mac) d \<and>
      map_of d field_outlet_table = Some (JArr (map JObj (outlet_records d))) \<and> outlet_records d \<noteq> [] \<and>
      list_all outlet_record_ok (outlet_records d) \<and> distinct (map outlet_index_of (outlet_records d)))"

text \<open>A device that is not the UPS: no outlets, not its address, not the id the mock gives it.\<close>

definition other_ok :: "string \<Rightarrow> jv \<Rightarrow> bool" where
  "other_ok mac x =
     (encodes x \<and> all_objects (no_address mac) x \<and>
      (case as_object x of
         None \<Rightarrow> True
       | Some d \<Rightarrow> as_array (map_of d field_outlet_table) \<in> {None, Some []} \<and> map_of d field_device_id \<noteq> Some (JStr mock_ups_id)))"

text \<open>Nothing the write needs has been taken out of what is served.\<close>

definition ups_whole :: "mock \<Rightarrow> jobj \<Rightarrow> bool" where
  "ups_whole m d =
     (device_listed m d \<and> \<not> mk_no_outlets m \<and> \<not> mk_no_outlet_caps m \<and> \<not> mk_no_outlet_overrides m)"

definition served_record :: "(rat \<Rightarrow> int) \<Rightarrow> mock \<Rightarrow> jobj \<Rightarrow> jobj" where
  "served_record wild m r = served_outlet wild m (outlet_index_of r) r"

definition override_record :: "(rat \<Rightarrow> int) \<Rightarrow> mock \<Rightarrow> jobj \<Rightarrow> jobj" where
  "override_record wild m r = outlet_override (outlet_index_of r) (served_record wild m r)"

text \<open>The name and the position the mock shows of an outlet.\<close>

definition shown_name :: "mock \<Rightarrow> jobj \<Rightarrow> jv option" where
  "shown_name m r =
     (if outlet_label m (outlet_index_of r) \<noteq> [] then Some (JStr (outlet_label m (outlet_index_of r)))
      else map_of r field_outlet_name)"

definition relay_on :: "mock \<Rightarrow> jobj \<Rightarrow> bool" where
  "relay_on m r = (\<not> outlet_is_open m (outlet_index_of r) \<and> map_of r field_relay_state = Some (JBool True))"

lemma outlet_fields [simp]:
  "field_outlet_index \<noteq> field_relay_state" "field_outlet_index \<noteq> field_outlet_name" "field_outlet_index \<noteq> field_outlet_caps"
  "field_outlet_index \<noteq> field_relay_group" "field_outlet_name \<noteq> field_relay_state" "field_outlet_name \<noteq> field_outlet_caps"
  "field_outlet_name \<noteq> field_relay_group" "field_relay_state \<noteq> field_outlet_caps" "field_relay_state \<noteq> field_relay_group"
  "field_relay_state \<noteq> field_outlet_name" "field_outlet_caps \<noteq> field_relay_group" "field_relay_group \<noteq> field_outlet_name"
  "field_relay_group \<noteq> field_relay_state" "field_cycle_enabled \<noteq> field_relay_state" "field_relay_state \<noteq> field_outlet_index"
  "field_outlet_name \<noteq> field_outlet_index" "field_outlet_caps \<noteq> field_outlet_name" "field_outlet_caps \<noteq> field_relay_state"
  by code_simp+

lemma served_index [simp]: "map_of (served_outlet wild m i r) field_outlet_index = map_of r field_outlet_index"
  by (simp add: served_outlet_def Let_def)

lemma served_name: "map_of (served_record wild m r) field_outlet_name = shown_name m r"
  by (simp add: served_record_def served_outlet_def shown_name_def Let_def)

lemma served_relay:
  assumes "outlet_record_ok r"
  shows "map_of (served_record wild m r) field_relay_state = Some (JBool (relay_on m r))"
proof -
  obtain b where "map_of r field_relay_state = Some (JBool b)" using assms by (auto simp: outlet_record_ok_def)
  then show ?thesis by (simp add: served_record_def served_outlet_def relay_on_def Let_def)
qed

lemma served_caps:
  "\<not> mk_no_outlet_caps m \<Longrightarrow> map_of (served_record wild m r) field_outlet_caps =
     Some (int_doc (if mock_outlet_group wild r = Some 1 then outlet_caps_battery_backed else outlet_caps_surge_only))"
  by (auto simp: served_record_def served_outlet_def mock_outlet_group_def Let_def)

lemma index_read:
  assumes "outlet_record_ok r"
  shows "mock_outlet_index wild r = Some (outlet_index_of r)"
  using assms float_int_small by (simp add: outlet_record_ok_def mock_outlet_index_def to_float_def int_doc_def)

lemma table_served:
  "list_all outlet_record_ok rs \<Longrightarrow> rewrite_outlet_table wild m (map JObj rs) =
     (map (\<lambda>r. JObj (served_record wild m r)) rs, map (\<lambda>r. JObj (override_record wild m r)) rs)"
  by (induction rs) (auto simp: index_read served_record_def override_record_def Let_def)

lemma record_decodes:
  assumes "outlet_record_ok r"
  shows "decode_index wild' (map_of (served_record wild m r) field_outlet_index) = Some (outlet_index_of r)"
    and "decode_index wild' (map_of (override_record wild m r) field_outlet_index) = Some (outlet_index_of r)"
    and "mock_outlet_index wild' (override_record wild m r) = Some (outlet_index_of r)"
  using assms float_int_small
  by (simp_all add: outlet_record_ok_def served_record_def decode_int_doc override_record_def outlet_override_def
      mock_outlet_index_def to_float_def int_doc_def decode_index_def float_int32_of_int)

lemma override_fields:
  assumes "outlet_record_ok r"
  shows "map_of (override_record wild m r) field_relay_state = Some (JBool (relay_on m r))"
    and "map_of (override_record wild m r) field_outlet_name = Some (JStr (text_of (shown_name m r)))"
  using served_relay [OF assms, of wild m]
  by (simp_all add: override_record_def outlet_override_def flag_def served_name)

lemma override_flat: "flat (override_record wild m r)"
  by (simp add: override_record_def outlet_override_def flat_def atomic_def int_doc_def) code_simp

section \<open>The UPS in the device list\<close>

text \<open>The UPS as served: its table, the overrides and the id the mock gives it.\<close>

definition served_ups :: "(rat \<Rightarrow> int) \<Rightarrow> mock \<Rightarrow> string \<Rightarrow> jobj \<Rightarrow> jobj \<Rightarrow> bool" where
  "served_ups wild m mac d d' =
     (map_of d' field_mac = Some (JStr mac) \<and> map_of d' field_device_id = Some (JStr mock_ups_id) \<and>
      map_of d' field_outlet_table = Some (JArr (map (\<lambda>r. JObj (served_record wild m r)) (outlet_records d))) \<and>
      map_of d' field_outlet_overrides = Some (JArr (map (\<lambda>r. JObj (override_record wild m r)) (outlet_records d))))"

lemma ups_serve:
  assumes "ups_ok mac d" and "ups_whole m d"
  obtains d' where "serve_device wild fixed2 m (JObj d) = Some (JObj d')" "served_ups wild m mac d d'"
proof -
  obtain y where y: "serve_device wild fixed2 m (JObj d) = Some y"
    using device_served assms(2) unfolding ups_whole_def by blast
  obtain d' where d': "y = JObj d'"
    "\<And>k. stable_key k \<Longrightarrow> map_of d' k = map_of (rewrite_outlets wild m (rewrite_poe fixed2 m d)) k"
    using device_keep [OF y] by blast
  have keys: "field_mac \<notin> {field_max_power, field_port_table}" "field_outlet_table \<notin> {field_max_power, field_port_table}"
    "field_mac \<notin> {field_outlet_table, field_device_id, field_outlet_overrides}"
    "field_device_id \<notin> {field_outlet_table, field_outlet_overrides}" "field_outlet_table \<noteq> field_outlet_overrides"
    by code_simp+
  let ?p = "rewrite_poe fixed2 m d"
  have table: "map_of ?p field_outlet_table = Some (JArr (map JObj (outlet_records d)))"
    using poe_keep [OF keys(2)] assms(1) by (simp add: ups_ok_def)
  have ok: "list_all outlet_record_ok (outlet_records d)" "outlet_records d \<noteq> []" using assms(1) by (simp_all add: ups_ok_def)
  have made: "rewrite_outlets wild m ?p = gm_set field_outlet_overrides
      (JArr (map (\<lambda>r. JObj (override_record wild m r)) (outlet_records d)))
      (gm_set field_outlet_table (JArr (map (\<lambda>r. JObj (served_record wild m r)) (outlet_records d)))
        (gm_set field_device_id (JStr mock_ups_id) ?p))"
    using assms(2) ok(2) by (simp add: rewrite_outlets_def table table_served [OF ok(1)] ups_whole_def Let_def)
  have "map_of ?p field_mac = Some (JStr mac)" using poe_keep [OF keys(1)] assms(1) by (simp add: ups_ok_def)
  then have "served_ups wild m mac d d'"
    unfolding served_ups_def d'(2) [OF stable_keys(1)] d'(2) [OF stable_keys(2)] d'(2) [OF stable_keys(3)]
      d'(2) [OF stable_keys(4)] made using keys by simp
  then show ?thesis using that y d'(1) by blast
qed

text \<open>Another device keeps an id that is not the mock's.\<close>

lemma other_id:
  assumes "other_ok mac (JObj d)"
  shows "map_of (rewrite_outlets wild m (rewrite_poe fixed2 m d)) field_device_id \<noteq> Some (JStr mock_ups_id)"
proof -
  have keys: "field_device_id \<notin> {field_max_power, field_port_table}" "field_outlet_table \<notin> {field_max_power, field_port_table}"
    "field_device_id \<noteq> field_outlet_table"
    by code_simp+
  have "as_array (map_of (rewrite_poe fixed2 m d) field_outlet_table) \<in> {None, Some []}"
    "map_of (rewrite_poe fixed2 m d) field_device_id \<noteq> Some (JStr mock_ups_id)"
    using assms poe_keep [OF keys(1)] poe_keep [OF keys(2)] by (simp_all add: other_ok_def)
  then show ?thesis using keys(3) by (auto simp: rewrite_outlets_def split: if_splits)
qed

section \<open>The overrides the mock compares with\<close>

lemma gm_set_new: "k \<notin> fst ` set ps \<Longrightarrow> gm_set k v ps = ps @ [(k, v)]"
  by (induction k v ps rule: gm_set.induct) auto

lemma objects_of_map [simp]: "objects_of (map (\<lambda>r. JObj (f r)) rs) = map f rs"
  by (induction rs) (simp_all add: objects_of_def map_filter_simps)

text \<open>Entries of distinct indexes, read into the map by index, in their order.\<close>

lemma overrides_by_index:
  assumes "list_all outlet_record_ok rs" and "distinct (map outlet_index_of rs)"
    and "fst ` set acc \<inter> outlet_index_of ` set rs = {}"
  shows "foldl (\<lambda>served d. case mock_outlet_index wild d of None \<Rightarrow> served | Some i \<Rightarrow> gm_set i d served) acc
      (map (override_record wild' m) rs) = acc @ map (\<lambda>r. (outlet_index_of r, override_record wild' m r)) rs"
  using assms
proof (induction rs arbitrary: acc)
  case (Cons r rs)
  have ok: "outlet_record_ok r" using Cons.prems by simp
  have "fst ` set (acc @ [(outlet_index_of r, override_record wild' m r)]) \<inter> outlet_index_of ` set rs = {}"
    using Cons.prems by auto
  with Cons show ?case by (simp add: record_decodes(3) [OF ok] gm_set_new)
qed simp

lemma others_no_overrides:
  assumes "list_all (other_ok mac) xs"
  shows "concat (map device_overrides (objects_of (List.map_filter (serve_device wild fixed2 m) xs))) = []"
  using assms
proof (induction xs)
  case (Cons x xs)
  have here: "map_of d' field_device_id \<noteq> Some (JStr mock_ups_id)" if sv: "serve_device wild fixed2 m x = Some (JObj d')" for d'
  proof -
    obtain d where x: "x = JObj d" using sv by (cases x) (auto simp: serve_device_def as_object_def)
    obtain d'' where "JObj d' = JObj d''"
      "\<And>k. stable_key k \<Longrightarrow> map_of d'' k = map_of (rewrite_outlets wild m (rewrite_poe fixed2 m d)) k"
      using device_keep [OF sv [unfolded x]] by blast
    then show ?thesis using other_id [of mac d wild m fixed2] Cons.prems stable_keys(2) by (simp add: x)
  qed
  have rest: "concat (map device_overrides (objects_of (List.map_filter (serve_device wild fixed2 m) xs))) = []"
    using Cons by simp
  show ?case
  proof (cases "serve_device wild fixed2 m x")
    case None
    then show ?thesis using rest by (simp add: map_filter_simps)
  next
    case (Some y)
    show ?thesis
    proof (cases "as_object y")
      case None
      then show ?thesis using rest Some by (simp add: map_filter_simps objects_of_def)
    next
      case (Some d')
      then show ?thesis
        using rest here [of d'] \<open>serve_device wild fixed2 m x = Some y\<close>
        by (simp add: map_filter_simps objects_of_def device_overrides_def)
    qed
  qed
qed (simp add: map_filter_simps objects_of_def)

lemma map_filter_append [simp]: "List.map_filter f (xs @ ys) = List.map_filter f xs @ List.map_filter f ys"
  by (simp add: List.map_filter_def)

lemma objects_of_append [simp]: "objects_of (xs @ ys) = objects_of xs @ objects_of ys"
  by (simp add: objects_of_def)

text \<open>The mock with one UPS among the captures, whole.\<close>

definition one_ups :: "mock \<Rightarrow> string \<Rightarrow> jv list \<Rightarrow> jobj \<Rightarrow> jv list \<Rightarrow> bool" where
  "one_ups m mac before d after =
     (mk_pristine m = before @ JObj d # after \<and> ups_ok mac d \<and> ups_whole m d \<and> finite_mock m \<and>
      list_all (other_ok mac) (before @ after) \<and> other_ok mac (JObj (mk_switch m)))"

lemma switch_id:
  assumes "other_ok mac (JObj (mk_switch m))" and "rewrite_fleet wild fixed2 m (mk_switch m) = Some d"
  shows "map_of d field_device_id \<noteq> Some (JStr mock_ups_id)"
proof -
  have "field_device_id \<notin> set override_keys" by code_simp
  then show ?thesis using fleet_keep [OF assms(2)] other_id [OF assms(1)] by simp
qed

lemma served_overrides:
  assumes "one_ups m mac before d after"
  shows "served_outlet_overrides wild fixed2 m =
    map (\<lambda>r. (outlet_index_of r, override_record wild m r)) (outlet_records d)"
proof -
  have ups: "ups_ok mac d" "ups_whole m d" and others: "list_all (other_ok mac) before" "list_all (other_ok mac) after"
    and switch: "other_ok mac (JObj (mk_switch m))" and pristine: "mk_pristine m = before @ JObj d # after"
    using assms by (simp_all add: one_ups_def)
  obtain d' where d': "serve_device wild fixed2 m (JObj d) = Some (JObj d')" "served_ups wild m mac d d'"
    by (rule ups_serve [OF ups])
  have last: "concat (map device_overrides
      (objects_of (case rewrite_fleet wild fixed2 m (mk_switch m) of None \<Rightarrow> [] | Some d \<Rightarrow> [JObj d]))) = []"
    using switch_id [OF switch] by (auto simp: objects_of_def map_filter_simps device_overrides_def split: option.split)
  have ok: "list_all outlet_record_ok (outlet_records d)" "distinct (map outlet_index_of (outlet_records d))"
    using ups(1) by (simp_all add: ups_ok_def)
  have list: "devices wild fixed2 m = List.map_filter (serve_device wild fixed2 m) before @ [JObj d']
      @ List.map_filter (serve_device wild fixed2 m) after
      @ (case rewrite_fleet wild fixed2 m (mk_switch m) of None \<Rightarrow> [] | Some d \<Rightarrow> [JObj d])"
    by (simp add: devices_def pristine d'(1) map_filter_simps)
  have this_one: "concat (map device_overrides (objects_of [JObj d'])) =
      map (\<lambda>r. JObj (override_record wild m r)) (outlet_records d)"
    using d'(2) by (simp add: objects_of_def map_filter_simps device_overrides_def served_ups_def)
  have "concat (map device_overrides (objects_of (devices wild fixed2 m))) =
      map (\<lambda>r. JObj (override_record wild m r)) (outlet_records d)"
    unfolding list objects_of_append map_append concat_append this_one last
      others_no_overrides [OF others(1)] others_no_overrides [OF others(2)] by simp
  then show ?thesis
    using overrides_by_index [OF ok, of "[]" wild wild m]
    by (simp add: served_outlet_overrides_def served_overrides_of_def)
qed

section \<open>The one move\<close>

text \<open>The overrides sent back with the relay of one index set.\<close>

definition moved_overrides :: "(rat \<Rightarrow> int) \<Rightarrow> mock \<Rightarrow> int \<Rightarrow> bool \<Rightarrow> jobj list \<Rightarrow> jobj list" where
  "moved_overrides wild m i want rs =
     map (\<lambda>r. if outlet_index_of r = i then gm_set field_relay_state (JBool want) (override_record wild m r)
              else override_record wild m r) rs"

lemma length_moved [simp]: "length (moved_overrides wild m i want rs) = length rs"
  by (simp add: moved_overrides_def)

lemma moves_single:
  assumes "list_all outlet_record_ok rs" and "\<forall>r \<in> set rs. map_of served (outlet_index_of r) = Some (override_record wild m r)"
    and "\<forall>r \<in> set rs. outlet_index_of r = i \<longrightarrow> relay_on m r = (\<not> want)"
  shows "outlet_moves wild served (map JObj (moved_overrides wild m i want rs)) =
    Inr (map (\<lambda>r. \<lparr>om_index = i, om_name = text_of (shown_name m r), om_on = want\<rparr>)
      (filter (\<lambda>r. outlet_index_of r = i) rs))"
  using assms
proof (induction rs)
  case (Cons r rs)
  have ok: "outlet_record_ok r" and at: "map_of served (outlet_index_of r) = Some (override_record wild m r)"
    using Cons.prems by simp_all
  have rest: "outlet_moves wild served (map JObj (moved_overrides wild m i want rs)) =
      Inr (map (\<lambda>r. \<lparr>om_index = i, om_name = text_of (shown_name m r), om_on = want\<rparr>)
        (filter (\<lambda>r. outlet_index_of r = i) rs))" using Cons by simp
  note enc = flat_encodes [OF override_flat, of wild m r]
  show ?case
  proof (cases "outlet_index_of r = i")
    case False
    then show ?thesis
      using rest at changed_keys_self [OF enc] by (simp add: moved_overrides_def record_decodes(3) [OF ok])
  next
    case True
    let ?new = "gm_set field_relay_state (JBool want) (override_record wild m r)"
    have "relay_on m r = (\<not> want)" using Cons.prems True by simp
    then have "changed_keys (override_record wild m r) ?new = [field_relay_state]"
      using changed_keys_set [OF enc override_fields(1) [OF ok], of "JBool want"] by simp
    moreover have "mock_outlet_index wild ?new = Some (outlet_index_of r)"
      using record_decodes(3) [OF ok] by (simp add: mock_outlet_index_def)
    ultimately show ?thesis
      using rest at True override_fields(2) [OF ok] by (simp add: moved_overrides_def text_of_def flag_def)
  qed
qed (simp add: moved_overrides_def)

lemma filter_index: "distinct (map outlet_index_of rs) \<Longrightarrow> r \<in> set rs \<Longrightarrow>
    filter (\<lambda>q. outlet_index_of q = outlet_index_of r) rs = [r]"
  by (induction rs) (auto simp: filter_empty_conv image_iff)

text \<open>The state after the write, and the answer.\<close>

definition outlet_moved :: "mock \<Rightarrow> int \<Rightarrow> string \<Rightarrow> bool \<Rightarrow> mock" where
  "outlet_moved m i name want =
     m\<lparr>mk_outlet_open := gm_set i (\<not> want) (mk_outlet_open m),
       mk_outlet_writes := mk_outlet_writes m @ [''outlet '' @ int_dec i @ '' ('' @ name @ '') -> '' @ outlet_position want]\<rparr>"

lemma serve_move:
  assumes ups: "one_ups m mac before d after" and r: "r \<in> set (outlet_records d)" and flip: "relay_on m r = (\<not> want)"
  shows "mock_serve lib (UpdateDevice mock_ups_id) (asked (Some mock_token) mock_csrf (Some (JObj [(field_outlet_overrides,
      JArr (map JObj (moved_overrides (ml_wild lib) m (outlet_index_of r) want (outlet_records d))))]))) m =
    (outlet_moved m (outlet_index_of r) (text_of (shown_name m r)) want,
     write_response [JObj [(field_device_id, JStr mock_ups_id), (field_outlet_overrides,
       JArr (map JObj (moved_overrides (ml_wild lib) m (outlet_index_of r) want (outlet_records d))))]])"
proof -
  let ?rs = "outlet_records d"
  let ?served = "map (\<lambda>r. (outlet_index_of r, override_record (ml_wild lib) m r)) ?rs"
  have ok: "list_all outlet_record_ok ?rs" "distinct (map outlet_index_of ?rs)" using ups by (simp_all add: one_ups_def ups_ok_def)
  have "distinct (map fst ?served)" using ok(2) by (simp add: o_def)
  then have at: "\<forall>q \<in> set ?rs. map_of ?served (outlet_index_of q) = Some (override_record (ml_wild lib) m q)"
    by (auto intro!: map_of_is_SomeI)
  have "\<forall>q \<in> set ?rs. outlet_index_of q = outlet_index_of r \<longrightarrow> relay_on m q = (\<not> want)"
    using ok(2) r flip by (auto simp: distinct_map inj_on_def)
  note moves = moves_single [OF ok(1) at this, unfolded filter_index [OF ok(2) r]]
  have "outlet_move_in (ml_wild lib) ?served (map JObj (moved_overrides (ml_wild lib) m (outlet_index_of r) want ?rs)) =
      Inr \<lparr>om_index = outlet_index_of r, om_name = text_of (shown_name m r), om_on = want\<rparr>"
    by (simp add: outlet_move_in_def moves)
  then show ?thesis
    by (simp add: mock_serve_def update_device_def mock_guarded_def session_cookie_present_def decode_object_def
        served_overrides [OF ups] outlet_moved_def)
qed

section \<open>The client's half\<close>

lemma ups_encodes:
  assumes "one_ups m mac before d after"
  shows "all_items gm_wf (devices wild fixed2 m)"
  using assms by (intro list_encodes) (auto simp: one_ups_def ups_ok_def other_ok_def list_all_iff)

text \<open>The object of the list with the UPS's address is the UPS as served.\<close>

lemma ups_alone:
  assumes ups: "one_ups m mac before d after" and d': "serve_device wild fixed2 m (JObj d) = Some (JObj d')"
    and x: "x \<in> set (devices wild fixed2 m)" "inside (JObj ps) x" "map_of ps field_mac = Some (JStr mac)"
  shows "ps = d'"
proof -
  have finite: "finite_mock m" using ups by (simp add: one_ups_def)
  have clean: "\<not> all_objects (no_address mac) x"
    using x(2,3) unfolding all_objects_iff no_address_def by blast
  have other: "all_objects (no_address mac) z" if "other_ok mac y" "serve_device wild fixed2 m y = Some z" for y z
    using unaddressed.served_device_good [OF _ finite that(2)] that(1) unfolding no_address_law other_ok_def by blast
  have switch: "all_objects (no_address mac) (JObj s)" if "rewrite_fleet wild fixed2 m (mk_switch m) = Some s" for s
    using unaddressed.fleet_good [OF _ finite that] unaddressed.fleet_top [OF _ that] ups
    unfolding no_address_law one_ups_def other_ok_def by simp
  have "x = JObj d'"
  proof (rule ccontr)
    assume "x \<noteq> JObj d'"
    then have "(\<exists>y \<in> set (before @ after). serve_device wild fixed2 m y = Some x) \<or>
        (\<exists>s. rewrite_fleet wild fixed2 m (mk_switch m) = Some s \<and> x = JObj s)"
      using x(1) ups d' by (cases "rewrite_fleet wild fixed2 m (mk_switch m)")
        (auto simp: devices_def List.map_filter_def one_ups_def)
    then show False using clean other switch ups by (auto simp: one_ups_def list_all_iff)
  qed
  moreover have "all_entries (no_address mac) d'"
    using unaddressed.served_entries_good [OF _ finite d'] ups unfolding no_address_law one_ups_def ups_ok_def by blast
  ultimately show ?thesis using x(2,3) unfolding all_objects_iff no_address_def by auto
qed

lemma ups_found:
  assumes ups: "one_ups m mac before d after" and d': "serve_device wild fixed2 m (JObj d) = Some (JObj d')"
    and served: "served_ups wild m mac d d'"
  shows "find_in_items field_mac mac [field_outlet_table, field_outlet_overrides] (devices wild fixed2 m) = Some d'"
proof (cases "find_in_items field_mac mac [field_outlet_table, field_outlet_overrides] (devices wild fixed2 m)")
  case None
  have "JObj d' \<in> set (devices wild fixed2 m)"
    using ups d' by (simp add: devices_def one_ups_def map_filter_simps)
  then have "\<not> carries field_mac mac [field_outlet_table, field_outlet_overrides] d'"
    using find_complete(2) [OF None] by simp
  then show ?thesis using served by (simp add: carries_def has_keys_def served_ups_def)
next
  case (Some device)
  then obtain x where "x \<in> set (devices wild fixed2 m)" "inside (JObj device) x" "map_of device field_mac = Some (JStr mac)"
    using find_sound(2) [OF Some] by (auto simp: carries_def)
  then show ?thesis using Some ups_alone [OF ups d'] by simp
qed

text \<open>Looking an outlet up by its index, in either table.\<close>

lemma scan_records:
  assumes "distinct (map outlet_index_of rs)" and "r \<in> set rs"
    and "\<forall>q \<in> set rs. decode_index wild (map_of (f q) field_outlet_index) = Some (outlet_index_of q)"
  shows "scan_index wild field_outlet_index (outlet_index_of r) (map (\<lambda>q. JObj (f q)) rs) = Some (f r)"
  using assms by (induction rs) (auto simp: image_iff)

text \<open>What the operator, the Automation and the mock agree on: the outlet, its name and its bank.\<close>

definition outlet_confirmed :: "(rat \<Rightarrow> int) \<Rightarrow> write_policy \<Rightarrow> mock \<Rightarrow> outlet \<Rightarrow> jobj \<Rightarrow> bool" where
  "outlet_confirmed wild policy m u r =
     (outlet_index_of r = ou_index u \<and> shown_name m r = Some (JStr (ou_name u)) \<and>
      (mock_outlet_group wild r \<noteq> Some 1 \<or> wp_battery policy))"

lemma check_served:
  assumes "outlet_confirmed wild policy m u r" and "\<not> mk_no_outlet_caps m"
  shows "check_outlet wild' mac u (served_record wild m r) (wp_battery policy) = None"
proof -
  have "outlet_caps_surge_only AND outlet_cap_battery_backed = 0" by code_simp
  moreover have "- (2 ^ 31) \<le> outlet_caps_surge_only" "outlet_caps_surge_only < 2 ^ 31"
    "- (2 ^ 31) \<le> outlet_caps_battery_backed" "outlet_caps_battery_backed < 2 ^ 31" by code_simp+
  ultimately show ?thesis
    using assms by (auto simp: check_outlet_None served_name served_caps outlet_confirmed_def decode_int_doc)
qed

lemma overrides_written:
  assumes ok: "list_all outlet_record_ok rs" and r: "r \<in> set rs" "distinct (map outlet_index_of rs)"
    and u: "outlet_confirmed wild policy m u r"
  shows "rewrite_outlet_overrides wild' (Some (JArr (map (\<lambda>q. JObj (override_record wild m q)) rs))) u want =
    Inr (map JObj (moved_overrides wild m (outlet_index_of r) want rs))"
proof -
  have index: "outlet_index_of r = ou_index u" using u by (simp add: outlet_confirmed_def)
  have at: "addresses wild' u (JObj (override_record wild m q)) \<longleftrightarrow> outlet_index_of q = outlet_index_of r" if "q \<in> set rs" for q
    using that ok by (simp add: addresses_def record_decodes(2) list_all_iff index)
  have same: "q = r" if "q \<in> set rs" "outlet_index_of q = outlet_index_of r" for q
    using that r by (auto simp: distinct_map inj_on_def)
  have sound: "sound_entry wild' u (JObj (override_record wild m q))" if "q \<in> set rs" for q
  proof -
    have q: "outlet_record_ok q" using that ok by (simp add: list_all_iff)
    show ?thesis
      using that same [OF that] at [OF that] u record_decodes(2) [OF q] override_fields(2) [OF q, of wild m]
      by (auto simp: sound_entry_def outlet_confirmed_def text_of_def)
  qed
  show ?thesis
    unfolding rewrite_outlet_overrides_iff
    using sound at r(1) by (auto simp: list_all_iff list_ex_iff moved_overrides_def switched_def intro!: bexI [of _ r])
qed

lemma moved_flat: "all_items gm_wf (map JObj (moved_overrides wild m i want rs))"
  using flat_encodes [OF flat_set [OF override_flat]] flat_encodes [OF override_flat]
  by (auto simp: all_items_def2 list_all_iff moved_overrides_def atomic_def)

lemma moved_verified:
  assumes ok: "list_all outlet_record_ok rs" and r: "r \<in> set rs" "distinct (map outlet_index_of rs)"
    and index: "outlet_index_of r = ou_index u"
    and doc: "doc = JObj [(''meta'', JObj [(''rc'', JStr ''ok'')]), (''data'', JArr [JObj [(field_device_id, JStr mock_ups_id),
      (field_outlet_overrides, JArr (map JObj (moved_overrides wild m (outlet_index_of r) want rs)))]])]"
  shows "verify_outlet wild' mac u mock_ups_id want doc = Inr ()"
proof -
  let ?moved = "map JObj (moved_overrides wild m (outlet_index_of r) want rs)"
  let ?stored = "[(field_device_id, JStr mock_ups_id), (field_outlet_overrides, JArr ?moved)]"
  have keys: "field_outlet_overrides \<noteq> field_device_id" "field_device_id \<notin> {''meta'', ''data'', ''rc''}" by code_simp+
  have "find_object_with field_device_id mock_ups_id [field_outlet_overrides] doc = Some ?stored"
    unfolding doc find_in_response [OF keys(2)] using keys(1) by (simp add: has_keys_def)
  moreover have "map_of ?stored field_outlet_overrides = Some (JArr ?moved)" using keys(1) by simp
  moreover have "object_by_index wild' (Some (JArr ?moved)) field_outlet_index (ou_index u) =
      Some (gm_set field_relay_state (JBool want) (override_record wild m r))"
  proof -
    let ?f = "\<lambda>q. if outlet_index_of q = outlet_index_of r
      then gm_set field_relay_state (JBool want) (override_record wild m q) else override_record wild m q"
    have "\<forall>q \<in> set rs. decode_index wild' (map_of (?f q) field_outlet_index) = Some (outlet_index_of q)"
      using ok record_decodes(2) by (auto simp: list_all_iff)
    from scan_records [OF r(2,1) this] show ?thesis
      by (simp add: object_by_index_def moved_overrides_def o_def index)
  qed
  ultimately show ?thesis unfolding verify_outlet_def by simp
qed

section \<open>The whole action\<close>

lemma outlet_dispatch:
  assumes ups: "one_ups m mac before d after" and site: "plain_segment (cw_site w)"
    and r: "r \<in> set (outlet_records d)" and u: "outlet_confirmed (ml_wild lib) (cw_policy w) m u r"
    and mac: "normalize_mac (ou_device u) = mac"
  shows "mock_run lib (set_outlet_relay wild w mock_csrf u want) (m, Some mock_token) =
    ((if relay_on m r = want then m else outlet_moved m (ou_index u) (ou_name u) want, Some mock_token), Inr ())"
proof -
  let ?rs = "outlet_records d"
  let ?list = "write_response (devices (ml_wild lib) (ml_fixed2 lib) m)"
  have ok: "list_all outlet_record_ok ?rs" "distinct (map outlet_index_of ?rs)" and whole: "ups_whole m d" "ups_ok mac d"
    using ups by (simp_all add: one_ups_def ups_ok_def)
  have index: "outlet_index_of r = ou_index u" and name: "text_of (shown_name m r) = ou_name u"
    using u by (simp_all add: outlet_confirmed_def text_of_def)
  have this_ok: "outlet_record_ok r" using ok(1) r by (simp add: list_all_iff)
  obtain d' where d': "serve_device (ml_wild lib) (ml_fixed2 lib) m (JObj d) = Some (JObj d')"
    "served_ups (ml_wild lib) m mac d d'" by (rule ups_serve [OF whole(2,1)])
  obtain doc where doc: "doc = JObj [(''meta'', JObj [(''rc'', JStr ''ok'')]),
      (''data'', JArr (devices (ml_wild lib) (ml_fixed2 lib) m))]" by blast
  have answer: "client_result lib method_get (network_path w device_stat_endpoint) ?list = Inr doc"
    using ups_encodes [OF ups] by (simp add: doc)
  have listing: "mock_serve lib ServeDevices (asked (Some mock_token) mock_csrf None) m = (m, ?list)" by (simp add: mock_serve_def)
  have read: "mock_run lib (cbindR (console_do mock_csrf method_get (network_path w device_stat_endpoint) None) g)
      (m, Some mock_token) = mock_run lib (g doc) (m, Some mock_token)" for g :: "jv \<Rightarrow> (string + unit) console"
    by (simp only: run_do_then [OF site_routes(2) [OF site] listing no_session(2)] answer sum.case)
  have device: "find_object_with field_mac mac [field_outlet_table, field_outlet_overrides] doc = Some d'"
    unfolding doc using ups_found [OF ups d'] by (subst find_in_response) (simp_all add: field_mac_def)
  have at: "map_of d' field_outlet_table = Some (JArr (map (\<lambda>r. JObj (served_record (ml_wild lib) m r)) ?rs))"
    "map_of d' field_outlet_overrides = Some (JArr (map (\<lambda>r. JObj (override_record (ml_wild lib) m r)) ?rs))"
    "map_of d' field_device_id = Some (JStr mock_ups_id)"
    using d'(2) by (simp_all add: served_ups_def)
  have "\<forall>q \<in> set ?rs. decode_index wild (map_of (served_record (ml_wild lib) m q) field_outlet_index) = Some (outlet_index_of q)"
    using ok(1) record_decodes(1) by (simp add: list_all_iff)
  from scan_records [OF ok(2) r this]
  have found: "object_by_index wild (map_of d' field_outlet_table) field_outlet_index (ou_index u) =
      Some (served_record (ml_wild lib) m r)"
    by (simp add: object_by_index_def at(1) index)
  have checked: "check_outlet wild mac u (served_record (ml_wild lib) m r) (wp_battery (cw_policy w)) = None"
    using check_served [OF u] whole(1) by (simp add: ups_whole_def)
  have id_ok: "mock_ups_id \<noteq> []" "plain_segment mock_ups_id" by code_simp+
  have start: "mock_run lib (set_outlet_relay wild w mock_csrf u want) (m, Some mock_token) =
      mock_run lib (write_outlet wild w mock_csrf mac u want d' (served_record (ml_wild lib) m r)) (m, Some mock_token)"
    by (simp add: set_outlet_relay_def Let_def mac read device found checked)
  show ?thesis
  proof (cases "relay_on m r = want")
    case True
    then show ?thesis
      unfolding start by (simp add: write_outlet_def Let_def at(3) id_ok(1) served_relay [OF this_ok])
  next
    case False
    then have flip: "relay_on m r = (\<not> want)" by simp
    let ?moved = "JArr (map JObj (moved_overrides (ml_wild lib) m (outlet_index_of r) want ?rs))"
    let ?stored = "[JObj [(field_device_id, JStr mock_ups_id), (field_outlet_overrides, ?moved)]]"
    obtain updated where updated: "updated = JObj [(''meta'', JObj [(''rc'', JStr ''ok'')]), (''data'', JArr ?stored)]" by blast
    have "field_device_id \<noteq> field_outlet_overrides" by code_simp
    then have accepted: "client_result lib method_put (network_path w rest_device_endpoint @ ''/'' @ path_escape mock_ups_id)
        (write_response ?stored) = Inr updated"
      using moved_flat by (simp add: updated)
    have verified: "verify_outlet wild mac u mock_ups_id want updated = Inr ()"
      by (rule moved_verified [OF ok(1) r ok(2) index updated])
    note sent = run_do_then [OF object_routes(2) [OF site id_ok(2)] serve_move [OF ups r flip] no_session(2)]
    have wrote: "mock_run lib (cbindR (console_do mock_csrf method_put (network_path w rest_device_endpoint @ ''/'' @ path_escape mock_ups_id)
          (Some (JObj [(field_outlet_overrides, ?moved)]))) (\<lambda>updated. CRet (verify_outlet wild mac u mock_ups_id want updated)))
        (m, Some mock_token) = ((outlet_moved m (ou_index u) (ou_name u) want, Some mock_token), Inr ())"
      by (simp only: sent accepted sum.case mock_run.simps verified) (simp only: index name)
    have overrides: "rewrite_outlet_overrides wild (map_of d' field_outlet_overrides) u want =
        Inr (map JObj (moved_overrides (ml_wild lib) m (outlet_index_of r) want ?rs))"
      unfolding at(2) by (rule overrides_written [OF ok(1) r ok(2) u])
    have "write_outlet wild w mock_csrf mac u want d' (served_record (ml_wild lib) m r) =
        cbindR (console_do mock_csrf method_put (network_path w rest_device_endpoint @ ''/'' @ path_escape mock_ups_id)
          (Some (JObj [(field_outlet_overrides, ?moved)]))) (\<lambda>updated. CRet (verify_outlet wild mac u mock_ups_id want updated))"
      using False by (simp add: write_outlet_def Let_def at(3) id_ok(1) served_relay [OF this_ok] overrides)
    then show ?thesis using False wrote unfolding start by simp
  qed
qed


section \<open>A sample\<close>

definition rehearsal_ups :: jobj where
  "rehearsal_ups =
     [(''name'', JStr ''UPS 2U''), (field_mac, JStr sample_mac), (''vbms_table'', JObj [(''is_battery_mode'', JBool False)]),
      (field_outlet_table, JArr
        [JObj [(field_outlet_index, JNum 4), (field_outlet_name, JStr ''router''), (field_relay_state, JBool True),
               (field_relay_group, JNum 1)],
         JObj [(field_outlet_index, JNum 5), (field_outlet_name, JStr ''nas''), (field_relay_state, JBool True),
               (field_relay_group, JNum 2)]])]"

definition rehearsal_gateway :: jv where
  "rehearsal_gateway = JObj [(''name'', JStr ''Dream Machine Pro''), (field_outlet_table, JArr [])]"

definition rehearsal_mock :: mock where
  "rehearsal_mock = initial_mock [rehearsal_gateway, JObj rehearsal_ups] [] ''10.5.67''"


end
