(* ===== verification/MockAlarms.thy ===== *)
theory MockAlarms
  imports MockOutlets AlarmFacts Receiver
begin

text \<open>
  The registration of Reactor's rule against the mock's Alarm Manager, which keeps what it
  is given, and the delivery the mock makes from that rule, as the receiver sees it.
\<close>

section \<open>The rules kept\<close>

lemma pad12_digits: "digits_val 0 (pad12 n) = Some n"
proof -
  have "digits_val 0 (replicate k (CHR ''0'') @ s) = digits_val 0 s" for k s
    by (induction k) (simp_all add: digit_val_def)
  then show ?thesis by (simp add: pad12_def digits_val_nat_dec)
qed

lemma rule_id_inj: "rule_id_at n = rule_id_at k \<longleftrightarrow> n = k"
proof
  assume "rule_id_at n = rule_id_at k"
  then have "pad12 n = pad12 k" unfolding rule_id_at_def by (rule same_append_eq [THEN iffD1])
  then show "n = k" using pad12_digits [of n] pad12_digits [of k] by (metis option.inject)
qed (rule arg_cong)

text \<open>Rules are numbered as they come, and are documents.\<close>

definition rules_ok :: "(string \<times> jobj) list \<Rightarrow> bool" where
  "rules_ok rules =
     (map fst rules = map rule_id_at [1..<Suc (length rules)] \<and> list_all (\<lambda>e. encodes (JObj (snd e))) rules)"

lemma rule_fresh: "rules_ok rules \<Longrightarrow> rule_id_at (length rules + 1) \<notin> fst ` set rules"
proof
  assume ok: "rules_ok rules" and "rule_id_at (length rules + 1) \<in> fst ` set rules"
  then have "rule_id_at (length rules + 1) \<in> set (map rule_id_at [1..<Suc (length rules)])"
    unfolding rules_ok_def by (metis set_map)
  then show False by (auto simp: rule_id_inj)
qed

lemma maps_copy:
  "gm_wf ps \<Longrightarrow> map_of (foldl (\<lambda>d p. gm_set (fst p) (snd p) d) acc ps) k =
     (case map_of ps k of Some v \<Rightarrow> Some v | None \<Rightarrow> map_of acc k)"
proof (induction ps arbitrary: acc)
  case (Cons p ps)
  have "map_of ps (fst p) = None" using Cons.prems by (cases p) (simp add: map_of_eq_None_iff)
  with Cons show ?case by (cases p) (auto split: option.splits)
qed simp

lemma copy_encodes:
  "gm_wf acc \<Longrightarrow> all_entries gm_wf acc \<Longrightarrow> all_entries gm_wf ps \<Longrightarrow>
     encodes (JObj (foldl (\<lambda>d p. gm_set (fst p) (snd p) d) acc ps))"
  by (induction ps arbitrary: acc) auto

lemma listed_encodes: "all_entries gm_wf (snd e) \<Longrightarrow> encodes (listed_rule e)"
  unfolding listed_rule_def by (rule copy_encodes) simp_all

definition rules_doc :: "(string \<times> jobj) list \<Rightarrow> jv" where
  "rules_doc rules = JObj [(''data'', JArr (map listed_rule rules))]"

lemma rules_encode: "rules_ok rules \<Longrightarrow> encodes (rules_doc rules)"
  using listed_encodes by (auto simp: rules_ok_def rules_doc_def all_items_def2 list_all_iff)

section \<open>The rule the mock keeps\<close>

definition rule_entries :: "alarm_registrar \<Rightarrow> string list \<Rightarrow> jobj" where
  "rule_entries a triggers = (case rule_body a triggers of JObj ps \<Rightarrow> ps | _ \<Rightarrow> [])"

lemma rule_body_entries: "rule_body a triggers = JObj (rule_entries a triggers)"
  by (simp add: rule_entries_def rule_body_def)

definition kept_rule :: "alarm_registrar \<Rightarrow> string list \<Rightarrow> nat \<Rightarrow> jobj" where
  "kept_rule a triggers n = gm_set ''id'' (JStr (rule_id_at n)) (rule_entries a triggers)"

lemma members_encode: "all_items gm_wf (map (\<lambda>i. alarm_member i (JObj [])) triggers)"
  by (induction triggers) (simp_all add: alarm_member_def)

lemma kept_encodes: "encodes (JObj (kept_rule a triggers n))"
  using members_encode [of triggers]
  by (simp add: kept_rule_def rule_entries_def rule_body_def alarm_member_def)

lemma kept_title: "map_of (kept_rule a triggers n) ''title'' = Some (JStr (alarm_title a))"
  by (simp add: kept_rule_def rule_entries_def rule_body_def)

lemma kept_webhook:
  "rule_url (kept_rule a triggers n) = al_callback_url a" "rule_token (kept_rule a triggers n) = al_token a"
  by (simp_all add: rule_url_def rule_token_def webhook_action_data_def kept_rule_def rule_entries_def rule_body_def
      objects_of_def map_filter_simps alarm_member_def alarm_webhook_action_id_def text_of_def)

lemma rules_kept:
  assumes "rules_ok rules"
  shows "rules_ok (rules @ [(rule_id_at (length rules + 1), kept_rule a triggers (length rules + 1))])"
  using assms kept_encodes [of a triggers "length rules + 1"] by (simp add: rules_ok_def)

lemma serve_create:
  assumes "rules_ok (mk_rules m)"
  shows "mock_serve lib CreateRule (asked jar mock_csrf (Some (rule_body a triggers))) m =
    (m\<lparr>mk_rules := mk_rules m @ [(rule_id_at (length (mk_rules m) + 1), kept_rule a triggers (length (mk_rules m) + 1))]\<rparr>,
     write_json (JObj (kept_rule a triggers (length (mk_rules m) + 1))))"
proof -
  have "map_of (rule_entries a triggers) ''triggers_data'' = Some (JArr [JArr (map (\<lambda>i. alarm_member i (JObj [])) triggers)])"
    "\<exists>xs. map_of (rule_entries a triggers) ''actions_data'' = Some (JArr [JArr xs])"
    by (simp_all add: rule_entries_def rule_body_def)
  then have "List.map_filter (sequence_error (rule_entries a triggers)) [''triggers_data'', ''actions_data''] = []"
    by (auto simp: map_filter_simps sequence_error_def)
  then show ?thesis
    using gm_set_new [OF rule_fresh [OF assms]]
    by (simp add: mock_serve_def create_rule_def decode_object_def rule_body_entries Let_def kept_rule_def)
qed

section \<open>A registration\<close>

lemma manifest_encodes: "encodes mock_manifest"
  by code_simp

lemma registration:
  assumes "registration_refused urls parse show a = None" and "reads_claims claim"
    and "choose_triggers a mock_manifest = Inr triggers" and ok: "rules_ok (mk_rules m)"
  shows "mock_session lib (register urls parse show claim a) m =
    (if rule_listed (alarm_title a) (rules_doc (mk_rules m)) then (m, Inr ())
     else (m\<lparr>mk_rules := mk_rules m @ [(rule_id_at (length (mk_rules m) + 1), kept_rule a triggers (length (mk_rules m) + 1))]\<rparr>,
           Inr ()))"
proof -
  have manifest: "mock_serve lib ServeManifest (asked (Some mock_token) mock_csrf None) m = (m, write_json mock_manifest)"
    by (simp add: mock_serve_def)
  have rules: "mock_serve lib ServeRules (asked (Some mock_token) mock_csrf None) m = (m, write_json (rules_doc (mk_rules m)))"
    by (simp add: mock_serve_def serve_rules_def rules_doc_def)
  have opened: "mock_run lib (register_open a mock_csrf) (m, Some mock_token) =
      mock_run lib (create_unless_present a mock_csrf triggers (rules_doc (mk_rules m))) (m, Some mock_token)"
    unfolding register_open_def
    by (simp only: run_do_then [OF fixed_routes(3) manifest no_session(1)] client_json [OF manifest_encodes] sum.case assms(3)
        run_do_then [OF fixed_routes(4) rules no_session(1)] client_json [OF rules_encode [OF ok]])
  have start: "mock_run lib (register urls parse show claim a) (m, None) =
      mock_run lib (register_open a mock_csrf) (m, Some mock_token)"
    by (simp add: register_def assms(1) cbindR_def run_cbind run_login [OF assms(2)])
  show ?thesis
  proof (cases "rule_listed (alarm_title a) (rules_doc (mk_rules m))")
    case True
    then obtain i where "find_rule_id (alarm_title a) (rules_doc (mk_rules m)) = Some i"
      using find_rule_id_None [of "alarm_title a" "rules_doc (mk_rules m)"] by auto
    then show ?thesis using True by (simp add: mock_session_def start opened create_unless_present_def)
  next
    case False
    then have none: "find_rule_id (alarm_title a) (rules_doc (mk_rules m)) = None" by (simp add: find_rule_id_None)
    have created: "mock_run lib (create_unless_present a mock_csrf triggers (rules_doc (mk_rules m))) (m, Some mock_token) =
        ((m\<lparr>mk_rules := mk_rules m @ [(rule_id_at (length (mk_rules m) + 1), kept_rule a triggers (length (mk_rules m) + 1))]\<rparr>,
          Some mock_token), Inr ())"
      unfolding create_unless_present_def none option.case
      by (simp only: run_do_then [OF fixed_routes(5) serve_create [OF ok] no_session(1)] client_json [OF kept_encodes]
          sum.case mock_run.simps)
    show ?thesis using False by (simp add: mock_session_def start opened created)
  qed
qed

lemma kept_listed:
  "(i, kept_rule a triggers n) \<in> set rules \<Longrightarrow> rule_listed (alarm_title a) (rules_doc rules)"
proof -
  assume rule: "(i, kept_rule a triggers n) \<in> set rules"
  obtain ps where ps: "listed_rule (i, kept_rule a triggers n) = JObj ps" by (simp add: listed_rule_def)
  have "map_of ps ''title'' = Some (JStr (alarm_title a))"
    using ps maps_copy [of "kept_rule a triggers n" "[(''id'', JStr i)]" "''title''"] kept_encodes [of a triggers n]
    by (simp add: listed_rule_def kept_title)
  moreover have "inside (JObj ps) (rules_doc rules)"
    using rule ps inside_refl by (auto simp: rules_doc_def intro!: bexI [of _ "(i, kept_rule a triggers n)"])
  ultimately show ?thesis unfolding rule_listed_def by blast
qed

text \<open>C24: Self-registration against an Alarm Manager that keeps the rules it is given. When the
  registrar has a secret and an address the console may use, and the manifest offers
  something it asks for, the first registration leaves exactly one rule more; a second
  one, with the same registrar, leaves the console as it is and succeeds; and the console
  noticing something then posts to the callback address a request that a receiver with
  the same secret accepts.\<close>

theorem registered_rule_reaches_receiver:
  assumes "registration_refused urls parse show a = None" and "reads_claims claim"
    and "choose_triggers a mock_manifest = Inr triggers" and "rules_ok (mk_rules m)"
    and "\<not> rule_listed (alarm_title a) (rules_doc (mk_rules m))"
    and "wh_token hook = al_token a" and "buildable (al_callback_url a)"
  shows "\<exists>rule m'. m' = m\<lparr>mk_rules := mk_rules m @ [rule]\<rparr> \<and>
    mock_session lib (register urls parse show claim a) m = (m', Inr ()) \<and>
    mock_session lib (register urls parse show claim a) m' = (m', Inr ()) \<and>
    (\<exists>post \<in> set (fire_alarm buildable m'). fst post = al_callback_url a \<and>
       snd (handle_delivery (new_receiver hook) \<lparr>dl_authorization = snd post, dl_token = []\<rparr>) = DeliveryAccepted)"
proof -
  let ?rule = "(rule_id_at (length (mk_rules m) + 1), kept_rule a triggers (length (mk_rules m) + 1))"
  let ?m = "m\<lparr>mk_rules := mk_rules m @ [?rule]\<rparr>"
  have first: "mock_session lib (register urls parse show claim a) m = (?m, Inr ())"
    using registration [OF assms(1-4)] assms(5) by simp
  have "rule_listed (alarm_title a) (rules_doc (mk_rules ?m))"
    by (rule kept_listed [of "fst ?rule" a triggers "length (mk_rules m) + 1"]) simp
  then have again: "mock_session lib (register urls parse show claim a) ?m = (?m, Inr ())"
    using registration [OF assms(1-3), of ?m] rules_kept [OF assms(4)] by simp
  have set_up: "al_token a \<noteq> []" "al_callback_url a \<noteq> []"
    using assms(1) by (auto simp: registration_refused_def validate_callback_url_def split: if_splits)
  then have posted: "(al_callback_url a, ''Bearer '' @ al_token a) \<in> set (fire_alarm buildable ?m)"
    using assms(7) by (simp add: fire_alarm_def kept_webhook)
  have "authorized (new_receiver hook) \<lparr>dl_authorization = ''Bearer '' @ al_token a, dl_token = []\<rparr>"
    using set_up assms(6) cut_prefix_Some [of "''Bearer '' @ al_token a" "''Bearer ''" "al_token a"]
    by (simp add: authorized_def new_receiver_def bearer_prefix_def Let_def)
  then have "snd (handle_delivery (new_receiver hook) \<lparr>dl_authorization = ''Bearer '' @ al_token a, dl_token = []\<rparr>)
      = DeliveryAccepted"
    by (simp add: handle_delivery_def receiver_request_def new_receiver_def)
  then show ?thesis using first again posted by (intro exI conjI) (rule refl, assumption, assumption, rule bexI, simp_all)
qed

definition sample_hook :: webhook_config where
  "sample_hook = \<lparr>wh_enabled = True, wh_bind_address = [], wh_path = [], wh_token = ''s3cret'', wh_min_observe_interval = 0, wh_register = True,
     wh_public_url = ''http://10.0.0.9/webhooks/unifi'', wh_rule_title = [], wh_username = ''reactor'', wh_password = ''secret''\<rparr>"

theorem registered_rule_reaches_receiver_witness:
  "\<exists>rule. fst (mock_session rehearsal_lib
      (register sample_urls (\<lambda>s. Some (V4 0x0A000009)) (\<lambda>a. []) (\<lambda>_. None) sample_registrar) bare_mock) =
    bare_mock\<lparr>mk_rules := [rule]\<rparr>"
proof -
  have free: "registration_refused sample_urls (\<lambda>s. Some (V4 0x0A000009)) (\<lambda>a. []) sample_registrar = None" by code_simp
  have claims: "reads_claims (\<lambda>_. None)" by (simp add: reads_claims_def)
  have triggers: "choose_triggers sample_registrar mock_manifest = Inr default_alarm_triggers" by code_simp
  have none: "mk_rules bare_mock = []" by (simp add: bare_mock_def initial_mock_def)
  then have rules: "rules_ok (mk_rules bare_mock)" "\<not> rule_listed (alarm_title sample_registrar) (rules_doc (mk_rules bare_mock))"
    by (simp_all add: rules_ok_def rules_doc_def rule_listed_def)
  have secret: "wh_token sample_hook = al_token sample_registrar" by (simp add: sample_hook_def sample_registrar_def)
  show ?thesis
    using registered_rule_reaches_receiver [OF free claims triggers rules secret, of "\<lambda>_. True" rehearsal_lib] none by force
qed

end
