(* ===== verification/MockDev.thy ===== *)
theory MockDev
  imports MockServer
begin

text \<open>
  The development endpoints of the mock console, \<open>hack/mock-unifi/main.go\<close>: each reads the
  parameters of its query in the order the code does, and a parameter that cannot be read
  ends the request where it stands, with what was set before it kept. Log lines are left
  out; \<open>floats\<close> is \<open>strconv.ParseFloat\<close>.
\<close>

section \<open>Parameters\<close>

text \<open>A query is the values of each key; \<open>Get\<close> is the first of them.\<close>

type_synonym query = "string \<Rightarrow> string list"

definition qget :: "query \<Rightarrow> string \<Rightarrow> string" where
  "qget q k = (case q k of [] \<Rightarrow> [] | v # _ \<Rightarrow> v)"

text \<open>A step of a handler: the state, and the answer if the request ends there.\<close>

type_synonym dev_step = "mock \<Rightarrow> mock \<times> mock_answer option"

fun dev_steps :: "dev_step list \<Rightarrow> (mock \<Rightarrow> mock_answer) \<Rightarrow> mock \<Rightarrow> mock \<times> mock_answer" where
  "dev_steps [] answer m = (m, answer m)"
| "dev_steps (s # ss) answer m =
     (case s m of (m', r) \<Rightarrow> (case r of Some a \<Rightarrow> (m', a) | None \<Rightarrow> dev_steps ss answer m'))"

definition bad_request :: "string \<Rightarrow> mock_answer" where
  "bad_request text = http_error 400 text"

definition param_step :: "query \<Rightarrow> string \<Rightarrow> (string \<Rightarrow> string + 'a) \<Rightarrow> string \<Rightarrow> ('a \<Rightarrow> mock \<Rightarrow> mock) \<Rightarrow> dev_step" where
  "param_step q k read refusal put m =
     (if qget q k = [] then (m, None)
      else case read (qget q k) of Inl e \<Rightarrow> (m, Some (bad_request refusal)) | Inr v \<Rightarrow> (put v m, None))"

definition bool_step :: "query \<Rightarrow> string \<Rightarrow> (bool \<Rightarrow> mock \<Rightarrow> mock) \<Rightarrow> dev_step" where
  "bool_step q k put = param_step q k parse_bool (k @ '' must be a boolean'') put"

definition text_step :: "query \<Rightarrow> string \<Rightarrow> (string \<Rightarrow> mock \<Rightarrow> mock) \<Rightarrow> dev_step" where
  "text_step q k put m = (if qget q k = [] then (m, None) else (put (qget q k) m, None))"

definition atoi_where :: "(int \<Rightarrow> bool) \<Rightarrow> string \<Rightarrow> string + int" where
  "atoi_where ok raw = (case atoi raw of Inl e \<Rightarrow> Inl e | Inr i \<Rightarrow> if ok i then Inr i else Inl [])"

definition opt_doc :: "('a \<Rightarrow> jv) \<Rightarrow> 'a option \<Rightarrow> jv" where
  "opt_doc f v = (case v of None \<Rightarrow> JNull | Some x \<Rightarrow> f x)"

text \<open>The sentence every answer carries on what it is evidence of.\<close>

definition say :: "string \<Rightarrow> string \<times> jv" where
  "say text = (''note'', JStr text)"

section \<open>Uplinks, internet, quality\<close>

definition variant_names :: "string list" where
  "variant_names = sort (map fst failover_variants)"

definition unknown_variant_answer :: "string \<Rightarrow> mock_answer" where
  "unknown_variant_answer name =
     bad_request (''unknown variant '' @ quoted name @ ''; try one of: '' @ join '', '' variant_names @ [CHR 0x0A])"

definition variant_step :: "query \<Rightarrow> dev_step" where
  "variant_step q m =
     (let name = qget q ''variant'' in
      if name = [] then (m, None)
      else if map_of failover_variants name = None then (m, Some (unknown_variant_answer name))
      else (m\<lparr>mk_variant := name\<rparr>, None))"

definition flip_wan :: "query \<Rightarrow> mock \<Rightarrow> mock \<times> mock_answer" where
  "flip_wan q =
     dev_steps [variant_step q,
       (\<lambda>m. (m\<lparr>mk_link := (if mk_link m = link_backup then link_primary else link_backup)\<rparr>, None))]
       (\<lambda>m. \<lparr>ma_status = 200,
          ma_text = ''{'' @ quoted ''wan'' @ '':'' @ quoted (mk_link m) @ '','' @ quoted ''variant'' @ '':''
            @ quoted (mk_variant m) @ ''}'' @ [CHR 0x0A],
          ma_doc = None, ma_session = None, ma_csrf = []\<rparr>)"

definition link_step :: "query \<Rightarrow> dev_step" where
  "link_step q m =
     (let link = qget q ''link'' in
      if link = link_primary \<or> link = link_backup then (m\<lparr>mk_link := link\<rparr>, None)
      else if link = [] then (m, None)
      else (m, Some (bad_request (''link must be '' @ quoted ''primary'' @ '' or '' @ quoted ''backup''))))"

definition set_wan :: "query \<Rightarrow> mock \<Rightarrow> mock \<times> mock_answer" where
  "set_wan q =
     dev_steps [variant_step q, link_step q, text_step q ''isp'' (\<lambda>v m. m\<lparr>mk_backup_isp := v\<rparr>)]
       (\<lambda>m. write_json (JObj [(''wan'', JStr (mk_link m)), (''variant'', JStr (mk_variant m)),
                              (''backupISP'', JStr (mk_backup_isp m))]))"

definition set_internet :: "query \<Rightarrow> mock \<Rightarrow> mock \<times> mock_answer" where
  "set_internet q =
     dev_steps [text_step q ''status'' (\<lambda>v m. m\<lparr>mk_www_status := v\<rparr>),
                bool_step q ''present'' (\<lambda>b m. m\<lparr>mk_no_www := \<not> b\<rparr>)]
       (\<lambda>m. write_json (JObj [(''status'', JStr (mk_www_status m)), (''present'', JBool (\<not> mk_no_www m))]))"

definition set_quality :: "(string \<Rightarrow> string + f64) \<Rightarrow> query \<Rightarrow> mock \<Rightarrow> mock \<times> mock_answer" where
  "set_quality floats q =
     dev_steps
       [text_step q ''reset'' (\<lambda>v m. m\<lparr>mk_availability := None, mk_latency := None, mk_no_quality := False\<rparr>),
        param_step q ''availability'' floats ''availability must be a number'' (\<lambda>x m. m\<lparr>mk_availability := Some x\<rparr>),
        param_step q ''latency'' floats ''latency must be a number'' (\<lambda>x m. m\<lparr>mk_latency := Some x\<rparr>),
        bool_step q ''present'' (\<lambda>b m. m\<lparr>mk_no_quality := \<not> b\<rparr>)]
       (\<lambda>m. write_json (JObj [(''availability'', opt_doc float_doc (mk_availability m)),
          (''latency'', opt_doc float_doc (mk_latency m)), (''present'', JBool (\<not> mk_no_quality m)),
          say (''both are averages over the console'' @ apostrophe @ ''s uptime window (time_period, 86400s in the capture)'')]))"

definition set_wifi :: "query \<Rightarrow> mock \<Rightarrow> mock \<times> mock_answer" where
  "set_wifi q m =
     (if qget q ''reset'' \<noteq> []
      then (m\<lparr>mk_ap_adopted := None, mk_ap_disconnected := None, mk_wlan_status := [], mk_no_wlan := False\<rparr>,
            write_json (JObj [(''wlan'', JStr ''captured'')]))
      else dev_steps
        [param_step q ''adopted'' (atoi_where (\<lambda>i. 0 \<le> i)) ''adopted must be a non-negative integer''
           (\<lambda>i m. m\<lparr>mk_ap_adopted := Some i\<rparr>),
         param_step q ''disconnected'' (atoi_where (\<lambda>i. 0 \<le> i)) ''disconnected must be a non-negative integer''
           (\<lambda>i m. m\<lparr>mk_ap_disconnected := Some i\<rparr>),
         text_step q ''status'' (\<lambda>v m. m\<lparr>mk_wlan_status := v\<rparr>),
         bool_step q ''present'' (\<lambda>b m. m\<lparr>mk_no_wlan := \<not> b\<rparr>)]
        (\<lambda>m. write_json (JObj [(''adopted'', opt_doc int_doc (mk_ap_adopted m)),
           (''disconnected'', opt_doc int_doc (mk_ap_disconnected m)), (''status'', JStr (mk_wlan_status m)),
           (''present'', JBool (\<not> mk_no_wlan m)),
           say (''wifi is derived from the counts, not from status; setting only status makes ''
             @ ''Reactor report a disagreement, which is the point of it'')])) m)"

definition mode_step :: "query \<Rightarrow> dev_step" where
  "mode_step q m =
     (let mode = qget q ''mode'' in
      if mode = ''battery'' then (m\<lparr>mk_on_batt := True\<rparr>, None)
      else if mode = ''mains'' then (m\<lparr>mk_on_batt := False\<rparr>, None)
      else if mode = [] then (m, None)
      else (m, Some (bad_request (''mode must be '' @ quoted ''battery'' @ '' or '' @ quoted ''mains''))))"

definition set_ups :: "(string \<Rightarrow> string + f64) \<Rightarrow> query \<Rightarrow> mock \<Rightarrow> mock \<times> mock_answer" where
  "set_ups floats q =
     dev_steps
       [mode_step q,
        param_step q ''level'' (atoi_where (\<lambda>i. 0 \<le> i \<and> i \<le> 100)) ''level must be an integer between 0 and 100''
          (\<lambda>i m. m\<lparr>mk_batt_level := i\<rparr>),
        bool_step q ''present'' (\<lambda>b m. m\<lparr>mk_no_ups := \<not> b\<rparr>),
        param_step q ''runtime'' atoi ''runtime must be an integer number of seconds'' (\<lambda>i m. m\<lparr>mk_runtime := Some i\<rparr>),
        param_step q ''output'' floats ''output must be a number of watts'' (\<lambda>x m. m\<lparr>mk_output := Some x\<rparr>),
        param_step q ''budget'' floats ''budget must be a number of watts'' (\<lambda>x m. m\<lparr>mk_load_budget := Some x\<rparr>)]
       (\<lambda>m. write_json (JObj
          [(''ups'', JStr (if mk_no_ups m then ''absent'' else if mk_on_batt m then ''on-battery'' else ''online'')),
           (''battery'', int_doc (mk_batt_level m)), (''runtime'', opt_doc int_doc (mk_runtime m)),
           (''output'', opt_doc float_doc (mk_output m)), (''budget'', opt_doc float_doc (mk_load_budget m))]))"

section \<open>Wireless networks and ports\<close>

text \<open>\<open>setWLAN\<close>: of two networks with the name, which none has, the first in the table.\<close>

definition set_wlan :: "query \<Rightarrow> mock \<Rightarrow> mock \<times> mock_answer" where
  "set_wlan q m =
     (let name = qget q ''name'' in
      case parse_bool (qget q field_wlan_enabled) of
        Inl e \<Rightarrow> (m, bad_request ''name and enabled are both required, e.g. ?name=mock-guest&enabled=false'')
      | Inr enabled \<Rightarrow>
          if name = [] then (m, bad_request ''name and enabled are both required, e.g. ?name=mock-guest&enabled=false'')
          else (case find (\<lambda>e. map_of (snd e) field_wlan_name = Some (JStr name)) (mk_wlans m) of
                  None \<Rightarrow> (m, http_error 404 (''no wlan named '' @ quoted name))
                | Some (wid, stored) \<Rightarrow>
                    (m\<lparr>mk_wlans := gm_set wid (gm_set field_wlan_enabled (JBool enabled) stored) (mk_wlans m)\<rparr>,
                     write_json (JObj [(''wlan'', JStr name), (field_wlan_enabled, JBool enabled)]))))"

definition default_mock_poe_budget :: f64 where "default_mock_poe_budget = Fin 60"

text \<open>\<open>setPoEBudget\<close>: \<open>None\<close> when the request is not one of its own.\<close>

definition set_poe_budget :: "(string \<Rightarrow> string + f64) \<Rightarrow> query \<Rightarrow> mock \<Rightarrow> (mock \<times> mock_answer) option" where
  "set_poe_budget floats q m =
     (if list_all (\<lambda>k. qget q k = []) [''watts'', ''budget'', ''silent'', ''present'', ''reset''] then None
      else Some
       (let absent = (m\<lparr>mk_poe_watts := None, mk_poe_budget := None, mk_poe_silent := False\<rparr>,
              write_json (JObj [(''poe'', JStr ''absent'')]));
            serve = dev_steps
              [param_step q ''watts'' floats ''watts must be a number of watts'' (\<lambda>x m. m\<lparr>mk_poe_watts := Some x\<rparr>),
               param_step q ''budget'' floats ''budget must be a number of watts'' (\<lambda>x m. m\<lparr>mk_poe_budget := Some x\<rparr>),
               bool_step q ''silent'' (\<lambda>b m. m\<lparr>mk_poe_silent := b\<rparr>),
               (\<lambda>m. (if mk_poe_budget m = None \<and> mk_poe_watts m \<noteq> None
                      then m\<lparr>mk_poe_budget := Some default_mock_poe_budget\<rparr> else m, None))]
              (\<lambda>m. write_json (JObj [(''watts'', opt_doc float_doc (mk_poe_watts m)),
                 (''budget'', opt_doc float_doc (mk_poe_budget m)), (''silent'', JBool (mk_poe_silent m)),
                 say (''no capture carries a port_table or a PoE budget; this serves the shape UniFi ''
                   @ ''documents, with poe_power as the string that firmware is documented to use'')])) m
        in if qget q ''present'' = [] then (if qget q ''reset'' \<noteq> [] then absent else serve)
           else case parse_bool (qget q ''present'') of
             Inl e \<Rightarrow> (m, bad_request ''present must be a boolean'')
           | Inr present \<Rightarrow> if qget q ''reset'' \<noteq> [] \<or> \<not> present then absent else serve))"

text \<open>A change to the port with the index, in the table of the switch.\<close>

fun change_port :: "int \<Rightarrow> (jobj \<Rightarrow> jobj) \<Rightarrow> jv list \<Rightarrow> jv list" where
  "change_port i f [] = []"
| "change_port i f (x # xs) =
     (case as_object x of
        None \<Rightarrow> x # change_port i f xs
      | Some p \<Rightarrow> if map_of p field_port_index = Some (int_doc i) then JObj (f p) # xs else x # change_port i f xs)"

definition put_port :: "int \<Rightarrow> string \<Rightarrow> jv \<Rightarrow> mock \<Rightarrow> mock" where
  "put_port i k v m =
     (case as_array (map_of (mk_switch m) field_port_table) of
        None \<Rightarrow> m
      | Some ports \<Rightarrow> m\<lparr>mk_switch := gm_set field_port_table (JArr (change_port i (gm_set k v) ports)) (mk_switch m)\<rparr>)"

definition port_flag_step :: "query \<Rightarrow> int \<Rightarrow> string \<Rightarrow> string \<Rightarrow> dev_step" where
  "port_flag_step q i param key = bool_step q param (\<lambda>b. put_port i key (JBool b))"

definition set_poe_port :: "(string \<Rightarrow> string + f64) \<Rightarrow> query \<Rightarrow> mock \<Rightarrow> mock \<times> mock_answer" where
  "set_poe_port floats q m =
     (case set_poe_budget floats q m of
        Some r \<Rightarrow> r
      | None \<Rightarrow>
          (case atoi (qget q ''port'') of
             Inl e \<Rightarrow> (m, bad_request (''name a port to change its identity (?port=7&name=re-patched), ''
               @ ''or watts/budget to change what the switch is delivering (?watts=55&budget=60)''))
           | Inr i \<Rightarrow>
               if port_by_index m i = None then (m, http_error 404 (''no port '' @ int_dec i @ '' on the mock switch''))
               else dev_steps
                 [text_step q ''name'' (\<lambda>v. put_port i field_port_name (JStr v)),
                  port_flag_step q i ''uplink'' field_is_uplink, port_flag_step q i ''poe'' field_port_poe,
                  port_flag_step q i ''powered'' field_poe_enable]
                 (\<lambda>m. write_json (case port_by_index m i of None \<Rightarrow> JNull | Some p \<Rightarrow> JObj p)) m))"

section \<open>Outlets\<close>

definition mock_outlet_off :: string where "mock_outlet_off = ''off''"
definition mock_outlet_on :: string where "mock_outlet_on = ''on''"

definition parse_outlet_state :: "string \<Rightarrow> bool option" where
  "parse_outlet_state s = (if s = mock_outlet_off then Some True else if s = mock_outlet_on then Some False else None)"

definition indexes_in_group :: "(rat \<Rightarrow> int) \<Rightarrow> int \<Rightarrow> jobj list \<Rightarrow> int list" where
  "indexes_in_group wild g outlets =
     List.map_filter (\<lambda>d. if mock_outlet_group wild d = Some g then mock_outlet_index wild d else None) outlets"

text \<open>\<open>addressOutlet\<close>: what a request for one outlet moves; \<open>None\<close> when there is none.\<close>

definition address_outlet :: "(rat \<Rightarrow> int) \<Rightarrow> mock \<Rightarrow> int \<Rightarrow> jobj list \<Rightarrow> int list option" where
  "address_outlet wild m wanted outlets =
     (case rev (filter (\<lambda>d. mock_outlet_index wild d = Some wanted) outlets) of
        [] \<Rightarrow> None
      | d # _ \<Rightarrow>
          (case mock_outlet_group wild d of
             None \<Rightarrow> Some [wanted]
           | Some g \<Rightarrow> Some (if mk_outlet_grouped m then wanted # indexes_in_group wild g outlets else [wanted])))"

definition open_outlets :: "bool \<Rightarrow> int list \<Rightarrow> mock \<Rightarrow> mock" where
  "open_outlets opened is m = m\<lparr>mk_outlet_open := foldl (\<lambda>t i. gm_set i opened t) (mk_outlet_open m) is\<rparr>"

definition apply_outlet_move :: "(rat \<Rightarrow> int) \<Rightarrow> query \<Rightarrow> jobj list \<Rightarrow> dev_step" where
  "apply_outlet_move wild q outlets m =
     (let outlet = qget q ''outlet''; grp = qget q ''group'' in
      if outlet = [] \<and> grp = [] then (m, None)
      else if qget q ''state'' = []
      then if q ''label'' \<noteq> [] \<and> grp = [] then (m, None)
           else (m, Some (bad_request ''an addressed outlet or group needs a state: ?outlet=5&state=off''))
      else case parse_outlet_state (qget q ''state'') of
        None \<Rightarrow> (m, Some (bad_request (''state must be '' @ quoted ''on'' @ '' or '' @ quoted ''off'')))
      | Some opened \<Rightarrow>
          (case (if grp = [] then Inr []
                 else case atoi grp of
                   Inl e \<Rightarrow> Inl ''group must be a relay group number''
                 | Inr g \<Rightarrow> if indexes_in_group wild g outlets = [] then Inl (''no captured outlet is in relay group '' @ grp)
                            else Inr (indexes_in_group wild g outlets)) of
             Inl e \<Rightarrow> (m, Some (bad_request e))
           | Inr moved \<Rightarrow>
               (case (if outlet = [] then Inr []
                      else case atoi outlet of
                        Inl e \<Rightarrow> Inl ''outlet must be an outlet index''
                      | Inr wanted \<Rightarrow>
                          (case address_outlet wild m wanted outlets of
                             None \<Rightarrow> if wanted \<in> set moved then Inr []
                                     else Inl (''no captured outlet has index '' @ int_dec wanted)
                           | Some also \<Rightarrow> Inr also)) of
                  Inl e \<Rightarrow> (m, Some (bad_request e))
                | Inr also \<Rightarrow> (open_outlets opened (moved @ also) m, None))))"

definition apply_outlet_label :: "(rat \<Rightarrow> int) \<Rightarrow> query \<Rightarrow> jobj list \<Rightarrow> dev_step" where
  "apply_outlet_label wild q outlets m =
     (case q ''label'' of
        [] \<Rightarrow> (m, None)
      | label # _ \<Rightarrow>
          if qget q ''outlet'' = [] then (m, Some (bad_request ''label needs an outlet to name: ?outlet=5&label=nas''))
          else case atoi (qget q ''outlet'') of
            Inl e \<Rightarrow> (m, Some (bad_request ''outlet must be an outlet index''))
          | Inr wanted \<Rightarrow>
              if list_ex (\<lambda>d. mock_outlet_index wild d = Some wanted) outlets
              then (m\<lparr>mk_outlet_labels := gm_set wanted label (mk_outlet_labels m)\<rparr>, None)
              else (m, Some (bad_request (''no captured outlet has index '' @ qget q ''outlet''))))"

definition switching_step :: "query \<Rightarrow> dev_step" where
  "switching_step q m =
     (let s = qget q ''switching'' in
      if s = ''group'' then (m\<lparr>mk_outlet_grouped := True\<rparr>, None)
      else if s = ''individual'' then (m\<lparr>mk_outlet_grouped := False\<rparr>, None)
      else if s = [] then (m, None)
      else (m, Some (bad_request (''switching must be '' @ quoted ''individual'' @ '' or '' @ quoted ''group''))))"

definition switching_mode :: "mock \<Rightarrow> string" where
  "switching_mode m = (if mk_outlet_grouped m then ''group'' else ''individual'')"

definition outlet_report :: "(rat \<Rightarrow> int) \<Rightarrow> mock \<Rightarrow> jobj \<Rightarrow> jv option" where
  "outlet_report wild m d =
     (case mock_outlet_index wild d of
        None \<Rightarrow> None
      | Some i \<Rightarrow>
          (let name = (if outlet_label m i \<noteq> [] then outlet_label m i else text_of (map_of d field_outlet_name)) in
           Some (JObj ([(field_outlet_index, int_doc i), (field_outlet_name, JStr name),
              (''state'', JStr (if outlet_is_open m i then mock_outlet_off else mock_outlet_on))]
             @ (case mock_outlet_group wild d of None \<Rightarrow> []
                | Some g \<Rightarrow> if mk_no_relay_groups m then [] else [(field_relay_group, int_doc g)])
             @ (if mk_no_outlet_caps m then []
                else [(''batteryBacked'', JBool (mock_outlet_group wild d = Some 1))])))))"

definition relay_groups :: "(rat \<Rightarrow> int) \<Rightarrow> mock \<Rightarrow> (string \<times> string list) list" where
  "relay_groups wild m =
     foldl (\<lambda>groups d. case (mock_outlet_index wild d, mock_outlet_group wild d) of
         (Some i, Some g) \<Rightarrow>
           if mk_no_relay_groups m then groups
           else gm_set (int_dec g) ((case map_of groups (int_dec g) of None \<Rightarrow> [] | Some xs \<Rightarrow> xs) @ [''outlet.'' @ int_dec i]) groups
       | _ \<Rightarrow> groups)
       [] (captured_outlets m)"

definition strings_doc :: "string list \<Rightarrow> jv" where
  "strings_doc xs = (if xs = [] then JNull else JArr (map JStr xs))"

definition write_outlets :: "(rat \<Rightarrow> int) \<Rightarrow> mock \<Rightarrow> mock_answer" where
  "write_outlets wild m =
     write_json (JObj
       [(''outlets'', if mk_no_outlets m then JNull
          else JArr (List.map_filter (outlet_report wild m) (captured_outlets m))),
        (''relayGroups'', if mk_no_outlets m then JNull
          else JObj (map (\<lambda>(g, xs). (g, JArr (map JStr xs))) (relay_groups wild m))),
        (''switching'', JStr (switching_mode m)), (''writes'', strings_doc (mk_outlet_writes m)),
        (''caps'', JBool (\<not> mk_no_outlet_caps m)), (''overrides'', JBool (\<not> mk_no_outlet_overrides m)),
        say (''the outlet table IS captured; _id, outlet_caps and outlet_overrides are NOT in the ''
          @ ''committed capture, and are what a real UPS reported on 2026-08-15 when a PUT to ''
          @ ''rest/device carrying a modified outlet_overrides moved outlet 8 and left 5, 6 and 7 on. ''
          @ ''A write recorded here means the console accepted it and now reports the new position '' @ em_dash @ '' ''
          @ ''NOT that a relay opened. Nothing but something plugged in can tell you that. See #23'')])"

definition set_outlets :: "(rat \<Rightarrow> int) \<Rightarrow> query \<Rightarrow> mock \<Rightarrow> mock \<times> mock_answer" where
  "set_outlets wild q m =
     (if qget q ''reset'' \<noteq> []
      then (let m' = m\<lparr>mk_outlet_open := [], mk_outlet_labels := [], mk_outlet_grouped := False, mk_no_outlets := False,
              mk_no_relay_groups := False, mk_no_outlet_caps := False, mk_no_outlet_overrides := False,
              mk_outlet_writes := []\<rparr> in (m', write_outlets wild m'))
      else dev_steps
        [bool_step q ''caps'' (\<lambda>b m. m\<lparr>mk_no_outlet_caps := \<not> b\<rparr>),
         bool_step q ''overrides'' (\<lambda>b m. m\<lparr>mk_no_outlet_overrides := \<not> b\<rparr>),
         bool_step q ''present'' (\<lambda>b m. m\<lparr>mk_no_outlets := \<not> b\<rparr>),
         bool_step q ''groups'' (\<lambda>b m. m\<lparr>mk_no_relay_groups := \<not> b\<rparr>),
         switching_step q, apply_outlet_move wild q (captured_outlets m), apply_outlet_label wild q (captured_outlets m)]
        (write_outlets wild) m)"

section \<open>Devices\<close>

text \<open>A change to the override of each device named, made when there is none.\<close>

definition override_for :: "mock \<Rightarrow> string \<Rightarrow> device_override" where
  "override_for m slug = (case map_of (mk_device_overrides m) slug of None \<Rightarrow> no_override | Some v \<Rightarrow> v)"

definition put_override :: "(device_override \<Rightarrow> device_override) \<Rightarrow> mock \<Rightarrow> string \<Rightarrow> mock" where
  "put_override f m slug =
     m\<lparr>mk_device_overrides := gm_set slug (f (override_for m slug)) (mk_device_overrides m)\<rparr>"

definition put_overrides :: "string list \<Rightarrow> (device_override \<Rightarrow> device_override) \<Rightarrow> mock \<Rightarrow> mock" where
  "put_overrides slugs f m = foldl (put_override f) m slugs"

definition no_device_answer :: "mock \<Rightarrow> string \<Rightarrow> mock_answer" where
  "no_device_answer m name =
     bad_request (''no captured device named '' @ quoted name @ ''; try one of: '' @ join '', '' (captured_slugs m) @ [CHR 0x0A])"

definition fleet_answer :: "(rat \<Rightarrow> int) \<Rightarrow> (f64 \<Rightarrow> string) \<Rightarrow> jobj \<Rightarrow> mock \<Rightarrow> mock_answer" where
  "fleet_answer wild fixed2 extra m = write_json (JObj ((''devices'', describe_devices wild fixed2 m) # extra))"

text \<open>The devices a request is about: the one it names, or all of them.\<close>

definition targets_of_query :: "query \<Rightarrow> mock \<Rightarrow> string list option" where
  "targets_of_query q m =
     (let name = slugify_name (qget q ''name'') in
      if name = [] then Some (captured_slugs m)
      else if name \<in> set (captured_slugs m) then Some [name] else None)"

definition set_firmware :: "(rat \<Rightarrow> int) \<Rightarrow> (f64 \<Rightarrow> string) \<Rightarrow> query \<Rightarrow> mock \<Rightarrow> mock \<times> mock_answer" where
  "set_firmware wild fixed2 q m =
     (case targets_of_query q m of
        None \<Rightarrow> (m, no_device_answer m (slugify_name (qget q ''name'')))
      | Some slugs \<Rightarrow>
          if qget q ''reset'' \<noteq> []
          then (let m' = put_overrides slugs (\<lambda>v. v\<lparr>ov_upgradable := None, ov_eol := None\<rparr>) m
                in (m', fleet_answer wild fixed2 [] m'))
          else dev_steps
            [bool_step q ''upgradable'' (\<lambda>b. put_overrides slugs (\<lambda>v. v\<lparr>ov_upgradable := Some b\<rparr>)),
             bool_step q ''eol'' (\<lambda>b. put_overrides slugs (\<lambda>v. v\<lparr>ov_eol := Some b\<rparr>)),
             bool_step q ''present'' (\<lambda>b. put_overrides slugs (\<lambda>v. if b then v else v\<lparr>ov_upgradable := None\<rparr>))]
            (fleet_answer wild fixed2 [say (''the upgrade fields are NOT in any capture; this serves the shape UniFi documents, ''
               @ ''which is enough to drive the parser and not evidence that a console reports it'')]) m)"

definition set_temperature :: "(string \<Rightarrow> string + f64) \<Rightarrow> (rat \<Rightarrow> int) \<Rightarrow> (f64 \<Rightarrow> string) \<Rightarrow> query \<Rightarrow> mock \<Rightarrow> mock \<times> mock_answer" where
  "set_temperature floats wild fixed2 q m =
     (case targets_of_query q m of
        None \<Rightarrow> (m, no_device_answer m (slugify_name (qget q ''name'')))
      | Some slugs \<Rightarrow>
          (let cleared = (let m' = put_overrides slugs
                 (\<lambda>v. v\<lparr>ov_celsius := None, ov_overheating := None, ov_general := False\<rparr>) m in (m', fleet_answer wild fixed2 [] m'));
               general = (qget q ''general'' = ''true'');
               served = dev_steps
                 [param_step q ''celsius'' floats ''celsius must be a number'' (\<lambda>c m. m),
                  param_step q ''overheating'' parse_bool ''overheating must be a boolean'' (\<lambda>b m. m),
                  param_step q ''celsius'' floats []
                    (\<lambda>c. put_overrides slugs (\<lambda>v. v\<lparr>ov_celsius := Some c, ov_general := general\<rparr>)),
                  param_step q ''overheating'' parse_bool []
                    (\<lambda>b. put_overrides slugs (\<lambda>v. v\<lparr>ov_overheating := Some b\<rparr>)),
                  (\<lambda>m. (put_overrides slugs id m, None))]
                 (fleet_answer wild fixed2 [say (''no capture carries any thermal field; this serves the shape UniFi documents, ''
                    @ ''which is enough to drive the parser and not evidence that a console reports it'')]) m
           in if qget q ''present'' = [] then (if qget q ''reset'' \<noteq> [] then cleared else served)
              else case parse_bool (qget q ''present'') of
                Inl e \<Rightarrow> (m, bad_request ''present must be a boolean'')
              | Inr present \<Rightarrow> if qget q ''reset'' \<noteq> [] \<or> \<not> present then cleared else served))"

definition read_state :: "string \<Rightarrow> string + int" where
  "read_state raw = (if raw = ''online'' then Inr 1 else if raw = ''offline'' then Inr 0 else atoi raw)"

definition set_device :: "(rat \<Rightarrow> int) \<Rightarrow> (f64 \<Rightarrow> string) \<Rightarrow> query \<Rightarrow> mock \<Rightarrow> mock \<times> mock_answer" where
  "set_device wild fixed2 q m =
     (if qget q ''reset'' \<noteq> []
      then (let m' = m\<lparr>mk_device_overrides := map (\<lambda>(s, v).
              (s, v\<lparr>ov_state := None, ov_adopted := None, ov_rename := [], ov_absent := False\<rparr>)) (mk_device_overrides m)\<rparr>
            in (m', fleet_answer wild fixed2 [] m'))
      else (let slug = slugify_name (qget q ''name'') in
        if slug = [] then (m, bad_request ''name is required; GET /device lists what the capture holds'')
        else if slug \<notin> set (captured_slugs m) then (m, no_device_answer m slug)
        else (let put = (\<lambda>f m. put_override f m slug) in
          dev_steps
            [(\<lambda>m. (put id m, None)),
             param_step q ''state'' read_state (''state must be '' @ quoted ''online'' @ '', '' @ quoted ''offline'' @ '', or an integer'')
               (\<lambda>i. put (\<lambda>v. v\<lparr>ov_state := Some i\<rparr>)),
             bool_step q ''adopted'' (\<lambda>b. put (\<lambda>v. v\<lparr>ov_adopted := Some b\<rparr>)),
             text_step q ''rename'' (\<lambda>s. put (\<lambda>v. v\<lparr>ov_rename := s\<rparr>)),
             bool_step q ''present'' (\<lambda>b. put (\<lambda>v. v\<lparr>ov_absent := \<not> b\<rparr>))]
            (fleet_answer wild fixed2 []) m)))"

section \<open>Descriptions\<close>

definition claim_text :: "uplink_claim \<Rightarrow> string" where
  "claim_text c = (case c of UplinkMoves \<Rightarrow> ''moves'' | UplinkPinned \<Rightarrow> ''pinned'' | UplinkBoth \<Rightarrow> ''both''
     | UplinkNeither \<Rightarrow> ''neither'')"

definition write_notes :: string where
  "write_notes = ''https://reactor.robbeverhelst.com/contributing/unifi-write-api/''"

definition describe_wan :: "mock \<Rightarrow> mock_answer" where
  "describe_wan m =
     write_json (JObj [(''wan'', JStr (mk_link m)), (''variant'', JStr (mk_variant m)), (''backupISP'', JStr (mk_backup_isp m)),
       (''variants'', JObj (map (\<lambda>(name, v). (name, JObj [(field_is_uplink, JStr (claim_text (fv_is_uplink v))),
          (''contextMoves'', JBool (fv_context v)), (''hypothesis'', JStr (fv_why v))])) failover_variants)),
       say (''no real failover has ever been observed (issue #34); ''
         @ ''every variant here is a hypothesis, and the capture runbook in testdata/unifi/README.md settles it'')])"

definition describe_wlans :: "mock \<Rightarrow> mock_answer" where
  "describe_wlans m =
     write_json (JObj [(''wlans'', JObj (foldl (\<lambda>d e. gm_set (text_of (map_of (snd e) field_wlan_name))
         (nil_or (map_of (snd e) field_wlan_enabled)) d) [] (mk_wlans m))),
       say (''synthetic, not a capture: no wlanconf response has ever been recorded from a console. ''
         @ ''See '' @ write_notes @ '' for what is known and what is assumed.'')])"

definition describe_poe :: "(f64 \<Rightarrow> string) \<Rightarrow> mock \<Rightarrow> mock_answer" where
  "describe_poe fixed2 m =
     write_json (JObj [(''switch'', JObj (rewrite_poe fixed2 m (mk_switch m))), (''cycles'', strings_doc (mk_cycles m)),
       (''watts'', opt_doc float_doc (mk_poe_watts m)), (''budget'', opt_doc float_doc (mk_poe_budget m)),
       (''silent'', JBool (mk_poe_silent m)),
       say (''synthetic, not a capture: no switch record has ever been recorded from a console, ''
         @ ''no power-cycle command has ever been sent to one, and no capture carries a PoE budget. ''
         @ ''See '' @ write_notes @ '' and testdata/unifi/README.md.'')])"

definition describe_fleet :: "(rat \<Rightarrow> int) \<Rightarrow> (f64 \<Rightarrow> string) \<Rightarrow> mock \<Rightarrow> mock_answer" where
  "describe_fleet wild fixed2 m =
     write_json (JObj [(''devices'', describe_devices wild fixed2 m), (''handles'', JArr (map JStr (captured_slugs m))),
       (''note'', JStr ''address a device by the slug of the name it was captured under, even after a rename''),
       (''perKeys'', JStr ''device.<name> keys are opt-in in Reactor (unifi.devices.perDeviceKeys)''),
       (''aggregate'', JStr ''devices is published either way'')])"

section \<open>The endpoints\<close>

datatype dev_endpoint =
    FlipWAN | SetWAN | SetUPS | SetInternet | SetQuality | SetDevice | SetFirmware | SetTemperature
  | SetWiFi | SetOutlets | SetWLAN | SetPoEPort

definition dev_request :: "mock_lib \<Rightarrow> (string \<Rightarrow> string + f64) \<Rightarrow> dev_endpoint \<Rightarrow> query \<Rightarrow> mock \<Rightarrow> mock \<times> mock_answer" where
  "dev_request lib floats e q =
     (case e of
        FlipWAN \<Rightarrow> flip_wan q
      | SetWAN \<Rightarrow> set_wan q
      | SetUPS \<Rightarrow> set_ups floats q
      | SetInternet \<Rightarrow> set_internet q
      | SetQuality \<Rightarrow> set_quality floats q
      | SetDevice \<Rightarrow> set_device (ml_wild lib) (ml_fixed2 lib) q
      | SetFirmware \<Rightarrow> set_firmware (ml_wild lib) (ml_fixed2 lib) q
      | SetTemperature \<Rightarrow> set_temperature floats (ml_wild lib) (ml_fixed2 lib) q
      | SetWiFi \<Rightarrow> set_wifi q
      | SetOutlets \<Rightarrow> set_outlets (ml_wild lib) q
      | SetWLAN \<Rightarrow> set_wlan q
      | SetPoEPort \<Rightarrow> set_poe_port floats q)"

end
