(* ===== verification/MockInvariant.thy ===== *)
theory MockInvariant
  imports MockAlarms MockDev
begin

text \<open>
  What holds of the mock console through any history of requests, a client's and a
  developer's: its tables stay of the shape the rest of the development relies on, and no
  client's request changes more than one thing of it.
\<close>

section \<open>The invariant\<close>

definition mock_ok :: "mock \<Rightarrow> bool" where
  "mock_ok m =
     (wlans_ok (mk_wlans m) \<and> switch_ok (mk_switch m) \<and> captured_ok m \<and> finite_mock m \<and> rules_ok (mk_rules m))"

lemma mock_ok_frame [simp]:
  "mock_ok (m\<lparr>mk_link := l\<rparr>) = mock_ok m" "mock_ok (m\<lparr>mk_variant := s\<rparr>) = mock_ok m"
  "mock_ok (m\<lparr>mk_backup_isp := s\<rparr>) = mock_ok m" "mock_ok (m\<lparr>mk_on_batt := b\<rparr>) = mock_ok m"
  "mock_ok (m\<lparr>mk_batt_level := i\<rparr>) = mock_ok m" "mock_ok (m\<lparr>mk_runtime := oi\<rparr>) = mock_ok m"
  "mock_ok (m\<lparr>mk_www_status := s\<rparr>) = mock_ok m" "mock_ok (m\<lparr>mk_no_www := b\<rparr>) = mock_ok m"
  "mock_ok (m\<lparr>mk_no_quality := b\<rparr>) = mock_ok m" "mock_ok (m\<lparr>mk_ap_adopted := oi\<rparr>) = mock_ok m"
  "mock_ok (m\<lparr>mk_ap_disconnected := oi\<rparr>) = mock_ok m" "mock_ok (m\<lparr>mk_wlan_status := s\<rparr>) = mock_ok m"
  "mock_ok (m\<lparr>mk_no_wlan := b\<rparr>) = mock_ok m" "mock_ok (m\<lparr>mk_poe_watts := w\<rparr>) = mock_ok m"
  "mock_ok (m\<lparr>mk_poe_silent := b\<rparr>) = mock_ok m" "mock_ok (m\<lparr>mk_no_ups := b\<rparr>) = mock_ok m"
  "mock_ok (m\<lparr>mk_outlet_open := t\<rparr>) = mock_ok m" "mock_ok (m\<lparr>mk_outlet_labels := ls\<rparr>) = mock_ok m"
  "mock_ok (m\<lparr>mk_outlet_grouped := b\<rparr>) = mock_ok m" "mock_ok (m\<lparr>mk_no_outlets := b\<rparr>) = mock_ok m"
  "mock_ok (m\<lparr>mk_no_relay_groups := b\<rparr>) = mock_ok m" "mock_ok (m\<lparr>mk_no_outlet_caps := b\<rparr>) = mock_ok m"
  "mock_ok (m\<lparr>mk_no_outlet_overrides := b\<rparr>) = mock_ok m" "mock_ok (m\<lparr>mk_outlet_writes := ws\<rparr>) = mock_ok m"
  "mock_ok (m\<lparr>mk_cycles := ws\<rparr>) = mock_ok m"
  by (simp_all add: mock_ok_def captured_ok_def finite_mock_def)

lemma mock_ok_floats [simp]:
  "mock_ok m \<Longrightarrow> finite_float x \<Longrightarrow> mock_ok (m\<lparr>mk_output := x\<rparr>)"
  "mock_ok m \<Longrightarrow> finite_float x \<Longrightarrow> mock_ok (m\<lparr>mk_load_budget := x\<rparr>)"
  "mock_ok m \<Longrightarrow> finite_float x \<Longrightarrow> mock_ok (m\<lparr>mk_availability := x\<rparr>)"
  "mock_ok m \<Longrightarrow> finite_float x \<Longrightarrow> mock_ok (m\<lparr>mk_latency := x\<rparr>)"
  "mock_ok m \<Longrightarrow> finite_float x \<Longrightarrow> mock_ok (m\<lparr>mk_poe_budget := x\<rparr>)"
  by (simp_all add: mock_ok_def captured_ok_def finite_mock_def)

lemma finite_None [simp]: "finite_float None"
  by (simp add: finite_float_def)

section \<open>Requests of a client\<close>

text \<open>The mock as a request leaves it.\<close>

definition after_request :: "mock_lib \<Rightarrow> string option \<Rightarrow> console_request \<Rightarrow> mock \<Rightarrow> mock" where
  "after_request lib jar q m = fst (fst (mock_exchange lib (m, jar) q))"

definition in_session :: "string option \<Rightarrow> bool" where
  "in_session jar = (jar \<noteq> None \<and> jar \<noteq> Some [])"

text \<open>What one request may do: nothing, or one of four things, each to one object.\<close>

definition wlan_narrowed :: "mock \<Rightarrow> jobj \<Rightarrow> mock \<Rightarrow> bool" where
  "wlan_narrowed m submitted m' =
     (\<exists>i stored b. map_of (mk_wlans m) i = Some stored \<and>
        m' = m\<lparr>mk_wlans := gm_set i (gm_set field_wlan_enabled (JBool b) stored) (mk_wlans m)\<rparr> \<and>
        (\<forall>k. k = field_wlan_enabled \<or> equal_json (map_of stored k) (map_of submitted k)))"

definition cycle_recorded :: "mock \<Rightarrow> mock \<Rightarrow> bool" where
  "cycle_recorded m m' =
     (\<exists>i. port_by_index m i \<noteq> None \<and>
        m' = m\<lparr>mk_cycles := mk_cycles m @ [text_of (map_of (mk_switch m) field_mac) @ ''/'' @ int_dec i]\<rparr>)"

definition outlet_switched :: "mock_lib \<Rightarrow> mock \<Rightarrow> mock \<Rightarrow> bool" where
  "outlet_switched lib m m' =
     (\<exists>outlets move. outlet_move_in (ml_wild lib) (served_outlet_overrides (ml_wild lib) (ml_fixed2 lib) m) outlets = Inr move \<and>
        m' = outlet_moved m (om_index move) (om_name move) (om_on move))"

definition rule_added :: "mock \<Rightarrow> jobj \<Rightarrow> mock \<Rightarrow> bool" where
  "rule_added m rule m' =
     (let i = rule_id_at (length (mk_rules m) + 1) in
      m' = m\<lparr>mk_rules := gm_set i (gm_set ''id'' (JStr i) rule) (mk_rules m)\<rparr>)"

lemma wlan_update:
  "fst (update_wlan_conf i r m) = m \<or>
     (mr_csrf r = mock_csrf \<and> in_session (mr_cookie r) \<and>
      (\<exists>submitted. decode_object (mr_body r) = Some submitted \<and> wlan_narrowed m submitted (fst (update_wlan_conf i r m))))"
proof (cases "mr_csrf r = mock_csrf \<and> session_cookie_present r")
  case True
  then have session: "mr_csrf r = mock_csrf" "in_session (mr_cookie r)"
    by (auto simp: session_cookie_present_def in_session_def split: option.splits)
  show ?thesis
  proof (cases "decode_object (mr_body r)")
    case body: (Some submitted)
    show ?thesis
    proof (cases "map_of (mk_wlans m) i")
      case (Some stored)
      show ?thesis
      proof (cases "changed_keys stored submitted = [field_wlan_enabled]")
        case changed: True
        have "k = field_wlan_enabled \<or> equal_json (map_of stored k) (map_of submitted k)" for k
          using changed_keys_elsewhere [of stored submitted field_wlan_enabled k] changed
          by (auto simp: equal_json_def nil_or_def)
        then have "wlan_narrowed m submitted (fst (update_wlan_conf i r m))"
          unfolding wlan_narrowed_def using True body Some changed
          by (intro exI [of _ i] exI [of _ stored]) (auto simp: update_wlan_conf_def mock_guarded_def Let_def)
        then show ?thesis using session body by blast
      qed (use True body Some in \<open>simp add: update_wlan_conf_def mock_guarded_def Let_def\<close>)
    qed (use True body in \<open>simp add: update_wlan_conf_def mock_guarded_def\<close>)
  qed (use True in \<open>simp add: update_wlan_conf_def mock_guarded_def\<close>)
qed (auto simp: update_wlan_conf_def mock_guarded_def)

lemma cycle_update:
  "fst (device_command wild r m) = m \<or>
     (mr_csrf r = mock_csrf \<and> in_session (mr_cookie r) \<and> cycle_recorded m (fst (device_command wild r m)))"
proof (cases "mr_csrf r = mock_csrf \<and> session_cookie_present r")
  case True
  then have session: "mr_csrf r = mock_csrf" "in_session (mr_cookie r)"
    by (auto simp: session_cookie_present_def in_session_def split: option.splits)
  show ?thesis
  proof (cases "\<exists>command x. decode_object (mr_body r) = Some command \<and> map_of command ''cmd'' = Some (JStr ''power-cycle'') \<and>
      nil_or (map_of command field_mac) = nil_or (map_of (mk_switch m) field_mac) \<and>
      to_float (map_of command field_port_index) = Some x \<and> port_by_index m (float_int wild x) \<noteq> None")
    case cycled: True
    then obtain command x where command: "decode_object (mr_body r) = Some command"
      "map_of command ''cmd'' = Some (JStr ''power-cycle'')"
      "nil_or (map_of command field_mac) = nil_or (map_of (mk_switch m) field_mac)"
      "to_float (map_of command field_port_index) = Some x" "port_by_index m (float_int wild x) \<noteq> None" by blast
    have "text_of (map_of command field_mac) = text_of (map_of (mk_switch m) field_mac)"
      using command(3) by (auto simp: nil_or_def text_of_def as_string_def split: option.splits)
    then have "cycle_recorded m (fst (device_command wild r m))"
      unfolding cycle_recorded_def using True command
      by (intro exI [of _ "float_int wild x"]) (simp add: device_command_def mock_guarded_def Let_def has_port_def to_float_def)
    then show ?thesis using session by simp
  next
    case False
    then have "fst (device_command wild r m) = m"
      using True by (auto simp: device_command_def mock_guarded_def Let_def has_port_def split: option.split)
    then show ?thesis ..
  qed
qed (auto simp: device_command_def mock_guarded_def)

lemma outlet_update:
  "fst (update_device (ml_wild lib) (ml_fixed2 lib) did r m) = m \<or>
     (mr_csrf r = mock_csrf \<and> in_session (mr_cookie r) \<and>
      outlet_switched lib m (fst (update_device (ml_wild lib) (ml_fixed2 lib) did r m)))"
proof (cases "mr_csrf r = mock_csrf \<and> session_cookie_present r")
  case True
  then have session: "mr_csrf r = mock_csrf" "in_session (mr_cookie r)"
    by (auto simp: session_cookie_present_def in_session_def split: option.splits)
  show ?thesis
    using True session unfolding update_device_def mock_guarded_def
    by (auto simp: outlet_moved_def outlet_switched_def split: option.split sum.split)
qed (auto simp: update_device_def mock_guarded_def)

lemma rule_update:
  "fst (create_rule r m) = m \<or>
     (mr_csrf r = mock_csrf \<and>
      (\<exists>rule. decode_object (mr_body r) = Some rule \<and> rule_added m rule (fst (create_rule r m))))"
  by (auto simp: create_rule_def rule_added_def Let_def split: option.split list.split)

lemma after_cases:
  "after_request lib jar q m = m \<or>
     (\<exists>route. after_request lib jar q m = fst (mock_serve lib route \<lparr>mr_cookie = jar, mr_csrf = cq_csrf q, mr_body = cq_body q\<rparr> m))"
  by (auto simp: after_request_def mock_exchange_def split: option.split prod.split) (metis fst_conv)

lemma request_effect:
  "after_request lib jar q m = m \<or>
   (cq_csrf q = mock_csrf \<and>
    ((in_session jar \<and>
      ((\<exists>submitted. decode_object (cq_body q) = Some submitted \<and> wlan_narrowed m submitted (after_request lib jar q m)) \<or>
       cycle_recorded m (after_request lib jar q m) \<or> outlet_switched lib m (after_request lib jar q m))) \<or>
     (\<exists>rule. decode_object (cq_body q) = Some rule \<and> rule_added m rule (after_request lib jar q m))))"
proof -
  let ?r = "\<lparr>mr_cookie = jar, mr_csrf = cq_csrf q, mr_body = cq_body q\<rparr>"
  consider "after_request lib jar q m = m" | route where "after_request lib jar q m = fst (mock_serve lib route ?r m)"
    using after_cases [of lib jar q m] by blast
  then show ?thesis
  proof cases
    case (2 route)
    show ?thesis
    proof (cases route)
      case (UpdateWLANConf i)
      then show ?thesis using wlan_update [of i ?r m] unfolding 2 by (simp add: mock_serve_def) blast
    next
      case DeviceCommand
      then show ?thesis using cycle_update [of "ml_wild lib" ?r m] unfolding 2 by (simp add: mock_serve_def) blast
    next
      case (UpdateDevice did)
      then show ?thesis
        using outlet_update [of lib did ?r m] unfolding 2 by (simp add: mock_serve_def) blast
    next
      case CreateRule
      then show ?thesis using rule_update [of ?r m] unfolding 2 by (simp add: mock_serve_def) blast
    qed (simp_all add: 2 mock_serve_def serve_wlan_conf_def)
  qed simp
qed


section \<open>The invariant kept\<close>

lemma wlans_ok_switch:
  assumes "wlans_ok table"
  shows "wlans_ok (switch_wlan n want table)"
proof -
  let ?f = "\<lambda>(i, r). (i, if wlan_record_name r = n then gm_set field_wlan_enabled (JBool want) r else r)"
  have name: "wlan_record_name (gm_set field_wlan_enabled (JBool want) r) = wlan_record_name r" for r
    by (simp add: wlan_record_name_def)
  have "wlan_ok (i, gm_set field_wlan_enabled (JBool want) r)" if "wlan_ok (i, r)" for i r
    using that flat_set [of r "JBool want" field_wlan_enabled] by (simp add: wlan_ok_def atomic_def)
  then have "list_all wlan_ok (map ?f table)" using assms by (auto simp: wlans_ok_def list_all_iff)
  moreover have "map fst (map ?f table) = map fst table" by auto
  moreover have "map (\<lambda>e. wlan_record_name (snd e)) (map ?f table) = map (\<lambda>e. wlan_record_name (snd e)) table"
    by (auto simp: name)
  ultimately show ?thesis using assms unfolding wlans_ok_def switch_wlan_def gm_wf_def by metis
qed

lemma wlans_ok_set:
  assumes "wlans_ok table" and "map_of table i = Some r"
  shows "wlans_ok (gm_set i (gm_set field_wlan_enabled (JBool b) r) table)"
  using wlans_ok_switch [OF assms(1)] switch_found [OF assms(1) map_of_SomeD [OF assms(2)], of b] by metis

lemma mock_ok_wlan:
  "mock_ok m \<Longrightarrow> map_of (mk_wlans m) i = Some r \<Longrightarrow>
     mock_ok (m\<lparr>mk_wlans := gm_set i (gm_set field_wlan_enabled (JBool b) r) (mk_wlans m)\<rparr>)"
  using wlans_ok_set [of "mk_wlans m" i r b] by (simp add: mock_ok_def captured_ok_def finite_mock_def)

lemma mock_ok_rule:
  assumes "mock_ok m" and "encodes (JObj rule)" and "rule_added m rule m'"
  shows "mock_ok m'"
proof -
  let ?i = "rule_id_at (length (mk_rules m) + 1)"
  have rules: "rules_ok (mk_rules m)" using assms(1) by (simp add: mock_ok_def)
  have m': "m' = m\<lparr>mk_rules := mk_rules m @ [(?i, gm_set ''id'' (JStr ?i) rule)]\<rparr>"
    using assms(3) gm_set_new [OF rule_fresh [OF rules]] by (simp add: rule_added_def Let_def)
  have "rules_ok (mk_rules m @ [(?i, gm_set ''id'' (JStr ?i) rule)])" using rules assms(2) by (simp add: rules_ok_def)
  then show ?thesis using assms(1) unfolding m' by (simp add: mock_ok_def captured_ok_def finite_mock_def)
qed

text \<open>A body as it comes off the wire.\<close>

definition decoded_body :: "console_request \<Rightarrow> bool" where
  "decoded_body q = (case cq_body q of None \<Rightarrow> True | Some b \<Rightarrow> encodes b)"

lemma decoded_object: "decoded_body q \<Longrightarrow> decode_object (cq_body q) = Some ps \<Longrightarrow> encodes (JObj ps)"
  by (auto simp: decoded_body_def decode_object_def split: option.splits jv.splits)

lemma request_keeps:
  assumes "mock_ok m" and "decoded_body q"
  shows "mock_ok (after_request lib jar q m)"
  using request_effect [of lib jar q m] assms mock_ok_wlan mock_ok_rule [OF assms(1) decoded_object [OF assms(2)]]
  by (auto simp: wlan_narrowed_def cycle_recorded_def outlet_switched_def outlet_moved_def)

text \<open>The development endpoints, step by step.\<close>

lemma dev_steps_keep:
  "(\<And>s m. s \<in> set ss \<Longrightarrow> mock_ok m \<Longrightarrow> mock_ok (fst (s m))) \<Longrightarrow> mock_ok m \<Longrightarrow> mock_ok (fst (dev_steps ss answer m))"
proof (induction ss arbitrary: m)
  case (Cons s ss)
  obtain m' r where step: "s m = (m', r)" by (cases "s m")
  then have kept: "mock_ok m'" using Cons.prems(1) [of s m] Cons.prems(2) by simp
  then have "mock_ok (fst (dev_steps ss answer m'))" using Cons by simp
  then show ?case using step kept by (simp split: option.split)
qed simp

declare dev_steps.simps [simp del]

lemma param_keep: "mock_ok m \<Longrightarrow> (\<And>v. read raw = Inr v \<Longrightarrow> mock_ok (put v m)) \<Longrightarrow> raw = qget q k \<Longrightarrow>
    mock_ok (fst (param_step q k read refusal put m))"
  by (simp add: param_step_def split: sum.split)

lemma bool_keep: "mock_ok m \<Longrightarrow> (\<And>v. mock_ok (put v m)) \<Longrightarrow> mock_ok (fst (bool_step q k put m))"
  by (simp add: bool_step_def param_step_def split: sum.split)

lemma text_keep: "mock_ok m \<Longrightarrow> (\<And>v. mock_ok (put v m)) \<Longrightarrow> mock_ok (fst (text_step q k put m))"
  by (simp add: text_step_def)

definition finite_reader :: "(string \<Rightarrow> string + f64) \<Rightarrow> bool" where
  "finite_reader floats = (\<forall>raw x. floats raw = Inr x \<longrightarrow> finite_float (Some x))"

lemma put_override_keep:
  assumes "mock_ok m" and "\<And>v. finite_override v \<Longrightarrow> finite_override (f v)"
  shows "mock_ok (put_override f m slug)"
proof -
  have all: "list_all (\<lambda>e. finite_override (snd e)) (mk_device_overrides m)" using assms(1) by (simp add: mock_ok_def finite_mock_def)
  have "finite_override (override_for m slug)"
    using all by (auto simp: override_for_def no_override_def finite_override_def list_all_iff split: option.split dest!: map_of_SomeD)
  then have new: "finite_override (f (override_for m slug))" by (rule assms(2))
  have "list_all (\<lambda>e. finite_override (snd e)) (gm_set slug x t)"
    if "list_all (\<lambda>e. finite_override (snd e)) t" "finite_override x" for x t
    using that by (induction slug x t rule: gm_set.induct) auto
  then show ?thesis using assms(1) all new by (simp add: put_override_def mock_ok_def captured_ok_def finite_mock_def)
qed

lemma put_overrides_keep:
  "mock_ok m \<Longrightarrow> (\<And>v. finite_override v \<Longrightarrow> finite_override (f v)) \<Longrightarrow> mock_ok (put_overrides slugs f m)"
  unfolding put_overrides_def by (induction slugs arbitrary: m) (auto intro: put_override_keep)

lemma change_port_ok:
  assumes "list_all port_ok xs" and "k \<noteq> field_port_index" and "atomic v"
  shows "list_all port_ok (change_port i (gm_set k v) xs)"
  using assms(1)
proof (induction xs)
  case (Cons x xs)
  obtain p j where p: "x = JObj p" "flat p" "map_of p field_port_index = Some (int_doc j)" "- (2 ^ 31) \<le> j" "j < 2 ^ 31"
    by (rule port_okE [of x]) (use Cons.prems in auto)
  have "port_ok (JObj (gm_set k v p))"
    using p flat_set [OF p(2) assms(3)] assms(2) by (simp add: port_ok_def to_float_def int_doc_def)
  then show ?case using Cons p(1) by simp
qed simp

lemma change_port_objects:
  assumes "all_items P xs" and "\<And>p. P p \<Longrightarrow> P (gm_set k v p)" and "all_objects P v"
  shows "all_items P (change_port i (gm_set k v) xs)"
  using assms(1) by (induction xs) (auto simp: assms(2,3) split: option.split)

lemma put_port_keep:
  assumes "mock_ok m" and "k \<noteq> field_port_index" and "k \<noteq> field_mac" and "atomic v"
  shows "mock_ok (put_port i k v m)"
proof (cases "as_array (map_of (mk_switch m) field_port_table)")
  case (Some ports)
  then have at: "map_of (mk_switch m) field_port_table = Some (JArr ports)" by simp
  have switch: "switch_ok (mk_switch m)" using assms(1) by (simp add: mock_ok_def)
  then have parts: "list_all port_ok ports" "all_items gm_wf ports" "all_items (no_address mock_switch_mac) ports"
    using all_entries_get [OF _ at] Some by (auto simp: switch_ok_def)
  let ?ports = "change_port i (gm_set k v) ports"
  have "list_all port_ok ?ports" by (rule change_port_ok [OF parts(1) assms(2,4)])
  moreover have "all_items gm_wf ?ports" by (rule change_port_objects [OF parts(2)]) (simp_all add: assms(4))
  moreover have "all_items (no_address mock_switch_mac) ?ports"
    by (rule change_port_objects [OF parts(3)]) (use assms(3,4) in \<open>simp_all add: no_address_def\<close>)
  moreover have "field_mac \<noteq> field_port_table" by (simp add: field_mac_def field_port_table_def)
  ultimately have "switch_ok (gm_set field_port_table (JArr ?ports) (mk_switch m))"
    using switch by (simp add: switch_ok_def)
  then show ?thesis using assms(1) Some by (simp add: put_port_def mock_ok_def captured_ok_def finite_mock_def)
qed (simp add: put_port_def assms(1))

lemmas keep = param_keep [OF _ _ refl] bool_keep text_keep put_overrides_keep put_override_keep

lemma override_finite [simp]:
  "finite_override (v\<lparr>ov_state := i\<rparr>) = finite_override v" "finite_override (v\<lparr>ov_adopted := b\<rparr>) = finite_override v"
  "finite_override (v\<lparr>ov_rename := s\<rparr>) = finite_override v" "finite_override (v\<lparr>ov_absent := c\<rparr>) = finite_override v"
  "finite_override (v\<lparr>ov_upgradable := b\<rparr>) = finite_override v" "finite_override (v\<lparr>ov_eol := b\<rparr>) = finite_override v"
  "finite_override (v\<lparr>ov_overheating := b\<rparr>) = finite_override v" "finite_override (v\<lparr>ov_general := c\<rparr>) = finite_override v"
  "finite_override (v\<lparr>ov_celsius := x\<rparr>) = finite_float x"
  by (simp_all add: finite_override_def)

lemma uplink_keep:
  "mock_ok m \<Longrightarrow> mock_ok (fst (flip_wan q m))" "mock_ok m \<Longrightarrow> mock_ok (fst (set_wan q m))"
  "mock_ok m \<Longrightarrow> mock_ok (fst (set_internet q m))" "mock_ok m \<Longrightarrow> mock_ok (fst (set_wifi q m))"
  unfolding flip_wan_def set_wan_def set_internet_def set_wifi_def
  by (auto simp: variant_step_def link_step_def Let_def intro!: dev_steps_keep keep)

lemma number_keep:
  assumes "finite_reader floats" and "mock_ok m"
  shows "mock_ok (fst (set_quality floats q m))" "mock_ok (fst (set_ups floats q m))"
  using assms unfolding set_quality_def set_ups_def
  by (auto simp: mode_step_def Let_def finite_reader_def intro!: dev_steps_keep keep)

lemma overrides_keep:
  assumes "mock_ok m"
  shows "mock_ok (fst (set_firmware wild fixed2 q m))" "mock_ok (fst (set_device wild fixed2 q m))"
proof -
  show "mock_ok (fst (set_firmware wild fixed2 q m))"
    using assms unfolding set_firmware_def
    by (auto simp: Let_def split: option.split intro!: dev_steps_keep keep)
  have "list_all (\<lambda>e. finite_override (snd e)) (map (\<lambda>(s, v).
      (s, v\<lparr>ov_state := None, ov_adopted := None, ov_rename := [], ov_absent := False\<rparr>)) (mk_device_overrides m))"
    using assms by (auto simp: mock_ok_def finite_mock_def list_all_iff)
  then have "mock_ok (m\<lparr>mk_device_overrides := map (\<lambda>(s, v).
      (s, v\<lparr>ov_state := None, ov_adopted := None, ov_rename := [], ov_absent := False\<rparr>)) (mk_device_overrides m)\<rparr>)"
    using assms by (simp add: mock_ok_def captured_ok_def finite_mock_def)
  then show "mock_ok (fst (set_device wild fixed2 q m))"
    using assms unfolding set_device_def Let_def by (auto intro!: dev_steps_keep keep)
qed

lemma temperature_keep:
  assumes "finite_reader floats" and "mock_ok m"
  shows "mock_ok (fst (set_temperature floats wild fixed2 q m))"
  using assms unfolding set_temperature_def Let_def
  by (auto simp: finite_reader_def split: option.split sum.split intro!: dev_steps_keep keep)

lemma outlets_keep_ok: "mock_ok m \<Longrightarrow> mock_ok (fst (set_outlets wild q m))"
proof -
  have move: "mock_ok (fst (apply_outlet_move wild q os m))" if "mock_ok m" for os m
    using that by (auto simp: apply_outlet_move_def Let_def open_outlets_def split: option.split sum.split)
  have label: "mock_ok (fst (apply_outlet_label wild q os m))" if "mock_ok m" for os m
    using that by (auto simp: apply_outlet_label_def split: list.split sum.split)
  show "mock_ok m \<Longrightarrow> mock_ok (fst (set_outlets wild q m))"
    unfolding set_outlets_def Let_def
    by (auto simp: switching_step_def Let_def intro!: dev_steps_keep keep move label)
qed

lemma wlan_keep: "mock_ok m \<Longrightarrow> mock_ok (fst (set_wlan q m))"
proof -
  assume ok: "mock_ok m"
  have "map_of (mk_wlans m) i = Some r" if "find P (mk_wlans m) = Some (i, r)" for P i r
    using that ok by (auto simp: find_Some_iff mock_ok_def wlans_ok_def gm_wf_map_of in_set_conv_nth)
  then show ?thesis
    using ok by (auto simp: set_wlan_def Let_def mock_ok_wlan split: sum.split option.split)
qed

lemma port_keep:
  assumes "finite_reader floats" and "mock_ok m"
  shows "mock_ok (fst (set_poe_port floats q m))"
proof -
  have budget: "mock_ok (fst r)" if "set_poe_budget floats q m = Some r" for r
    using that assms unfolding set_poe_budget_def Let_def
    by (auto simp: finite_reader_def default_mock_poe_budget_def finite_float_def
        split: if_splits sum.splits intro!: dev_steps_keep keep)
  have keys: "field_port_name \<noteq> field_port_index" "field_port_name \<noteq> field_mac" "field_is_uplink \<noteq> field_port_index"
    "field_is_uplink \<noteq> field_mac" "field_port_poe \<noteq> field_port_index" "field_port_poe \<noteq> field_mac"
    "field_poe_enable \<noteq> field_port_index" "field_poe_enable \<noteq> field_mac" by code_simp+
  show ?thesis
    using assms budget unfolding set_poe_port_def port_flag_step_def
    by (auto simp: keys atomic_def split: option.split sum.split intro!: dev_steps_keep keep put_port_keep)
qed

lemma dev_keep:
  assumes "finite_reader floats" and "mock_ok m"
  shows "mock_ok (fst (dev_request lib floats e q m))"
  using assms by (cases e) (simp_all add: dev_request_def uplink_keep number_keep overrides_keep temperature_keep
      outlets_keep_ok wlan_keep port_keep)

section \<open>Histories\<close>

datatype mock_event = ClientAsks "string option" console_request | DeveloperAsks dev_endpoint query

definition mock_event_step :: "mock_lib \<Rightarrow> (string \<Rightarrow> string + f64) \<Rightarrow> mock \<Rightarrow> mock_event \<Rightarrow> mock" where
  "mock_event_step lib floats m e =
     (case e of ClientAsks jar q \<Rightarrow> after_request lib jar q m | DeveloperAsks p q \<Rightarrow> fst (dev_request lib floats p q m))"

definition readable_event :: "mock_event \<Rightarrow> bool" where
  "readable_event e = (case e of ClientAsks jar q \<Rightarrow> decoded_body q | DeveloperAsks p q \<Rightarrow> True)"


definition sample_history :: "mock_event list" where
  "sample_history =
     [DeveloperAsks SetWLAN (\<lambda>k. if k = ''name'' then [''mock-guest''] else if k = ''enabled'' then [''false''] else []),
      ClientAsks (Some mock_token) (request_of mock_csrf method_post ''/api/v2/alarms/network'' (Some (JObj [])))]"


section \<open>A number that is none\<close>

text \<open>
  A budget read as no number, which \<open>strconv.ParseFloat\<close> has one spelling of, is kept; from
  then on the list of the devices cannot be encoded, and its answer is a 200 without a body.
\<close>

definition budget_query :: "string \<Rightarrow> query" where
  "budget_query raw k = (if k = ''budget'' then [raw] else [])"

theorem nan_budget_empties_the_device_list:
  assumes "floats raw = Inr NaN" and "raw \<noteq> []" and "mock_ok m" and "fleet_listed m (mk_switch m)"
  shows "client_result lib method_get path
      (snd (mock_serve lib ServeDevices r (fst (set_poe_port floats (budget_query raw) m)))) =
    Inl (''decoding the response to '' @ method_get @ '' '' @ path @ '': EOF'')"
proof -
  let ?m = "m\<lparr>mk_poe_budget := Some NaN\<rparr>"
  have "fst (set_poe_port floats (budget_query raw) m) = ?m"
    using assms(1,2) by (simp add: set_poe_port_def set_poe_budget_def budget_query_def qget_def param_step_def
        bool_step_def dev_steps.simps Let_def)
  moreover have "\<not> all_items gm_wf (devices (ml_wild lib) (ml_fixed2 lib) ?m)"
  proof -
    have "fleet_listed ?m (mk_switch ?m)" using assms(4) by (simp add: fleet_listed_def)
    then obtain d where d: "rewrite_fleet (ml_wild lib) (ml_fixed2 lib) ?m (mk_switch m) = Some d"
      using fleet_iff [of "ml_wild lib" "ml_fixed2 lib" ?m "mk_switch m"] by auto
    have keys: "field_max_power \<notin> set override_keys"
      "field_max_power \<notin> {field_outlet_table, field_device_id, field_outlet_overrides}" "field_max_power \<noteq> field_port_table"
      by code_simp+
    have "map_of (rewrite_poe (ml_fixed2 lib) ?m (mk_switch m)) field_max_power = Some not_encodable"
      using assms(3) keys(3) by (auto simp: rewrite_poe_def mock_ok_def switch_ok_def float_doc_def Let_def split: option.split)
    then have "map_of d field_max_power = Some not_encodable"
      using fleet_keep [OF d keys(1)] outlets_keep [OF keys(2)] by simp
    then have "\<not> all_entries gm_wf d" using all_entries_get [of gm_wf d field_max_power] by (auto simp: not_encodable_def)
    moreover have "JObj d \<in> set (devices (ml_wild lib) (ml_fixed2 lib) ?m)" using d by (simp add: devices_def)
    ultimately show ?thesis unfolding all_items_def2 list_all_iff by (intro notI) (drule (1) bspec, simp)
  qed
  ultimately show ?thesis
    by (simp add: mock_serve_def client_result_def console_result_def answer_of_def write_response_def write_json_def)
qed

theorem nan_budget_empties_the_device_list_witness:
  "client_result rehearsal_lib method_get ''/proxy/network/api/s/default/stat/device'' (snd (mock_serve rehearsal_lib ServeDevices
      (asked None [] None) (fst (set_poe_port (\<lambda>_. Inr NaN) (budget_query ''nan'') bare_mock)))) =
    Inl ''decoding the response to GET /proxy/network/api/s/default/stat/device: EOF''"
proof -
  have "mock_ok bare_mock" "fleet_listed bare_mock (mk_switch bare_mock)" by code_simp+
  from nan_budget_empties_the_device_list [OF refl _ this, of "''nan''"] show ?thesis by (simp add: method_get_def)
qed

end
