(* ===== verification/Decode.thy ===== *)
theory Decode
  imports Health ConsoleSession
begin

text \<open>
  How a response becomes records: \<open>Client.get\<close> of \<open>internal/providers/unifi/client.go\<close> and the
  structs it decodes into, with their tags (\<open>client.go\<close>, \<open>devices.go\<close>, \<open>firmware.go\<close>,
  \<open>temperature.go\<close>, \<open>poe.go\<close>, \<open>outlets.go\<close>, \<open>datausage.go\<close>, \<open>health.go\<close>). A struct is a type
  \<open>encoding/json\<close> checks a document against, and one value of another type anywhere loses the
  whole response; then every field is read. A field is found by its name, or by one that
  folds to it; of several entries the last stands, which is what decoding gives when they
  are not objects or lists to be merged.
\<close>

section \<open>Types\<close>

datatype jtype =
    TBool | TInt | TFloat | TText | TAny
  | TList jtype | TMap jtype | TStruct "(string \<times> jtype) list"

text \<open>
  \<open>foldName\<close> of \<open>encoding/json\<close>, as far as a name of ASCII letters can tell: upper case, and
  the two other characters that fold to a letter. No two fields of a struct fold to one
  name, so a field of that very name needs no preference.
\<close>

definition fold_rune :: "nat \<Rightarrow> nat" where
  "fold_rune r = (if 65 \<le> r \<and> r \<le> 90 then r + 32 else if int r = 0x212A then 107 else if int r = 0x17F then 115 else r)"

definition fold_name :: "string \<Rightarrow> nat list" where
  "fold_name s = map fold_rune (runes s)"

definition schema_field :: "(string \<times> jtype) list \<Rightarrow> string \<Rightarrow> jtype option" where
  "schema_field fs k = map_option snd (find (\<lambda>f. fold_name (fst f) = fold_name k) fs)"

text \<open>Whether a value decodes into the type. Null decodes into every type and changes nothing.\<close>

definition fits_int :: "rat \<Rightarrow> bool" where
  "fits_int x = (x = of_int (Json.truncate x) \<and> - (2 ^ 63) \<le> Json.truncate x \<and> Json.truncate x < 2 ^ 63)"

fun fits :: "jtype \<Rightarrow> jv \<Rightarrow> bool"
  and fits_items :: "jtype \<Rightarrow> jv list \<Rightarrow> bool"
  and fits_entries :: "(string \<Rightarrow> jtype option) \<Rightarrow> jobj \<Rightarrow> bool" where
  "fits t JNull = True"
| "fits t (JBool b) = (t \<in> {TBool, TAny})"
| "fits t (JNum x) = (t \<in> {TFloat, TAny} \<or> t = TInt \<and> fits_int x)"
| "fits t (JStr s) = (t \<in> {TText, TAny})"
| "fits t (JArr xs) = (case t of TAny \<Rightarrow> True | TList e \<Rightarrow> fits_items e xs | _ \<Rightarrow> False)"
| "fits t (JObj ps) =
     (case t of
        TAny \<Rightarrow> True
      | TMap e \<Rightarrow> fits_entries (\<lambda>k. Some e) ps
      | TStruct fs \<Rightarrow> fits_entries (schema_field fs) ps
      | _ \<Rightarrow> False)"
| "fits_items e [] = True"
| "fits_items e (x # xs) = (fits e x \<and> fits_items e xs)"
| "fits_entries field [] = True"
| "fits_entries field ((k, x) # ps) = ((case field k of None \<Rightarrow> True | Some t \<Rightarrow> fits t x) \<and> fits_entries field ps)"

section \<open>Fields\<close>

definition member :: "string \<Rightarrow> jobj \<Rightarrow> jv" where
  "member f ps = (case find (\<lambda>e. fold_name (fst e) = fold_name f) (rev ps) of None \<Rightarrow> JNull | Some e \<Rightarrow> snd e)"

definition object_in :: "jv \<Rightarrow> jobj" where
  "object_in v = (case v of JObj ps \<Rightarrow> ps | _ \<Rightarrow> [])"

definition list_in :: "jv \<Rightarrow> jv list" where
  "list_in v = (case v of JArr xs \<Rightarrow> xs | _ \<Rightarrow> [])"

definition text_in :: "jv \<Rightarrow> string" where
  "text_in v = (case v of JStr s \<Rightarrow> s | _ \<Rightarrow> [])"

text \<open>A pointer, which null and absence leave at \<open>nil\<close>; a plain field has the zero value then.\<close>

definition bool_ptr :: "jv \<Rightarrow> bool option" where
  "bool_ptr v = (case v of JBool b \<Rightarrow> Some b | _ \<Rightarrow> None)"

definition int_ptr :: "jv \<Rightarrow> int option" where
  "int_ptr v = (case v of JNum x \<Rightarrow> Some (Json.truncate x) | _ \<Rightarrow> None)"

definition float_ptr :: "jv \<Rightarrow> f64 option" where
  "float_ptr v = (case v of JNum x \<Rightarrow> Some (Fin x) | _ \<Rightarrow> None)"

definition bool_in :: "jv \<Rightarrow> bool" where
  "bool_in v = (bool_ptr v = Some True)"

definition int_in :: "jv \<Rightarrow> int" where
  "int_in v = (case int_ptr v of None \<Rightarrow> 0 | Some i \<Rightarrow> i)"

definition struct_ptr :: "(jobj \<Rightarrow> 'a) \<Rightarrow> jv \<Rightarrow> 'a option" where
  "struct_ptr read v = (if v = JNull then None else Some (read (object_in v)))"

section \<open>Devices\<close>

definition wan_port_type :: jtype where
  "wan_port_type = TStruct [(''is_uplink'', TBool), (''up'', TBool), (''ifname'', TText), (''name'', TText), (''ip'', TText)]"

definition uplink_ref_type :: jtype where
  "uplink_ref_type = TStruct [(''name'', TText), (''type'', TText)]"

definition vbms_table_type :: jtype where
  "vbms_table_type = TStruct [(''is_battery_mode'', TBool),
     (''battpool'', TStruct [(''batteryLevel'', TInt), (''ischarging'', TBool), (''batt_available_cnt'', TInt),
        (''timeToRemain'', TInt), (''device_total_power_output'', TFloat), (''device_total_power_budget'', TFloat)])]"

definition device_health_fields :: "(string \<times> jtype) list" where
  "device_health_fields = [(''state'', TInt), (''adopted'', TBool), (''disconnection_reason'', TText)]"

definition firmware_fields :: "(string \<times> jtype) list" where
  "firmware_fields = [(''version'', TText), (''upgradable'', TBool), (''upgrade_to_firmware'', TText),
     (''required_version'', TText), (''safe_for_autoupgrade'', TBool), (''model_in_eol'', TBool), (''model_in_lts'', TBool)]"

definition temperature_fields :: "(string \<times> jtype) list" where
  "temperature_fields = [(''has_temperature'', TBool), (''overheating'', TBool), (''has_fan'', TBool),
     (''temperatures'', TList (TStruct [(''name'', TText), (''type'', TText), (''value'', TFloat)])),
     (''general_temperature'', TFloat)]"

text \<open>A flexible number is decoded by itself, and takes any value.\<close>

definition poe_fields :: "(string \<times> jtype) list" where
  "poe_fields = [(''total_max_power'', TFloat),
     (''port_table'', TList (TStruct [(''port_idx'', TInt), (''poe_enable'', TBool), (''poe_power'', TAny), (''poe_class'', TText)]))]"

definition outlet_fields :: "(string \<times> jtype) list" where
  "outlet_fields = [(''outlet_table'',
     TList (TStruct [(''index'', TInt), (''name'', TText), (''relay_state'', TBool), (''relay_group'', TInt)]))]"

definition data_usage_fields :: "(string \<times> jtype) list" where
  "data_usage_fields = [(''mbb'', TStruct [(''sim'', TList (TStruct
     [(''active'', TBool), (''slot'', TInt), (''card_present'', TBool), (''has_data_plan'', TBool),
      (''data_warning'', TBool), (''data_limited'', TBool)]))])]"

definition device_fields :: "(string \<times> jtype) list" where
  "device_fields =
     [(''model'', TText), (''type'', TText), (''name'', TText), (''uplink'', uplink_ref_type), (''isp'', TText),
      (''last_wan_status'', TMap TAny), (''vbms_table'', vbms_table_type)]
     @ device_health_fields @ firmware_fields @ temperature_fields @ poe_fields @ outlet_fields @ data_usage_fields"

text \<open>\<open>deviceRecord.UnmarshalJSON\<close>: the named fields, then every \<open>wanN\<close> of the raw object.\<close>

definition fits_device :: "jv \<Rightarrow> bool" where
  "fits_device x =
     (fits (TStruct device_fields) x \<and>
      list_all (\<lambda>e. wan_index_of (fst e) = None \<or> fits wan_port_type (snd e)) (object_in x))"

definition wan_port_of :: "jobj \<Rightarrow> wan_port" where
  "wan_port_of ps = \<lparr>wn_is_uplink = bool_in (member ''is_uplink'' ps), wn_if_name = text_in (member ''ifname'' ps),
     wn_name = text_in (member ''name'' ps)\<rparr>"

definition wans_of :: "jobj \<Rightarrow> wan_entry list" where
  "wans_of ps = collect_wans (map (\<lambda>e. (fst e, struct_ptr wan_port_of (snd e))) ps)"

definition vbms_table_of :: "jobj \<Rightarrow> vbms_table" where
  "vbms_table_of ps =
     (let pool = object_in (member ''battpool'' ps) in
      \<lparr>vb_is_battery_mode = bool_in (member ''is_battery_mode'' ps), vb_battery_level = int_in (member ''batteryLevel'' pool),
       vb_time_to_remain = int_in (member ''timeToRemain'' pool),
       vb_total_power_output = float_ptr (member ''device_total_power_output'' pool),
       vb_total_power_budget = float_ptr (member ''device_total_power_budget'' pool)\<rparr>)"

definition device_port_of :: "(string \<Rightarrow> f64 option) \<Rightarrow> jobj \<Rightarrow> device_port" where
  "device_port_of parse_float ps = \<lparr>dp_idx = int_ptr (member ''port_idx'' ps), dp_poe_enable = bool_ptr (member ''poe_enable'' ps),
     dp_poe_power = flexible_number parse_float (member ''poe_power'' ps)\<rparr>"

definition outlet_record_of :: "jobj \<Rightarrow> outlet_record" where
  "outlet_record_of ps = \<lparr>or_index = int_ptr (member ''index'' ps), or_name = text_in (member ''name'' ps),
     or_relay_state = bool_ptr (member ''relay_state'' ps), or_relay_group = int_ptr (member ''relay_group'' ps)\<rparr>"

definition sim_slot_of :: "jobj \<Rightarrow> sim_slot" where
  "sim_slot_of ps = \<lparr>sm_active = bool_in (member ''active'' ps), sm_slot = int_in (member ''slot'' ps),
     sm_card_present = bool_in (member ''card_present'' ps), sm_has_data_plan = bool_in (member ''has_data_plan'' ps),
     sm_data_warning = bool_in (member ''data_warning'' ps), sm_data_limited = bool_in (member ''data_limited'' ps)\<rparr>"

definition structs_in :: "(jobj \<Rightarrow> 'a) \<Rightarrow> jv \<Rightarrow> 'a list" where
  "structs_in read v = map (\<lambda>x. read (object_in x)) (list_in v)"

definition device_of :: "(string \<Rightarrow> f64 option) \<Rightarrow> jv \<Rightarrow> device_record" where
  "device_of parse_float x =
     (let ps = object_in x in
      \<lparr>dr_model = text_in (member ''model'' ps), dr_name = text_in (member ''name'' ps), dr_wans = wans_of ps,
       dr_uplink = struct_ptr (\<lambda>u. text_in (member ''name'' u)) (member ''uplink'' ps),
       dr_isp = text_in (member ''isp'' ps), dr_last_wan_status = object_in (member ''last_wan_status'' ps),
       dr_vbms = struct_ptr vbms_table_of (member ''vbms_table'' ps),
       dr_state = int_ptr (member ''state'' ps), dr_adopted = bool_ptr (member ''adopted'' ps),
       dr_upgradable = bool_ptr (member ''upgradable'' ps),
       dr_has_temperature = bool_ptr (member ''has_temperature'' ps), dr_overheating = bool_ptr (member ''overheating'' ps),
       dr_temperatures = structs_in (\<lambda>t. float_ptr (member ''value'' t)) (member ''temperatures'' ps),
       dr_general_temperature = float_ptr (member ''general_temperature'' ps),
       dr_total_max_power = float_ptr (member ''total_max_power'' ps),
       dr_port_table = structs_in (device_port_of parse_float) (member ''port_table'' ps),
       dr_outlet_table = structs_in outlet_record_of (member ''outlet_table'' ps),
       dr_mbb = struct_ptr (\<lambda>b. structs_in sim_slot_of (member ''sim'' b)) (member ''mbb'' ps)\<rparr>)"

section \<open>Health\<close>

definition health_monitor_type :: jtype where
  "health_monitor_type = TStruct [(''availability'', TFloat), (''latency_average'', TFloat), (''target'', TText), (''type'', TText)]"

definition uplink_health_type :: jtype where
  "uplink_health_type = TStruct [(''availability'', TFloat), (''latency_average'', TFloat), (''time_period'', TInt),
     (''uptime'', TInt), (''downtime'', TInt), (''monitors'', TList health_monitor_type),
     (''alerting_monitors'', TList health_monitor_type)]"

definition health_subsystem_type :: jtype where
  "health_subsystem_type = TStruct [(''subsystem'', TText), (''status'', TText), (''uptime_stats'', TMap uplink_health_type),
     (''num_ap'', TInt), (''num_adopted'', TInt), (''num_disconnected'', TInt)]"

definition health_monitor_of :: "jobj \<Rightarrow> health_monitor" where
  "health_monitor_of ps = \<lparr>hm_availability = float_ptr (member ''availability'' ps),
     hm_latency = float_ptr (member ''latency_average'' ps)\<rparr>"

definition uplink_health_of :: "jobj \<Rightarrow> uplink_health" where
  "uplink_health_of ps = \<lparr>uh_availability = float_ptr (member ''availability'' ps),
     uh_latency = float_ptr (member ''latency_average'' ps), uh_uptime = int_ptr (member ''uptime'' ps),
     uh_monitors = structs_in health_monitor_of (member ''monitors'' ps),
     uh_alerting = structs_in health_monitor_of (member ''alerting_monitors'' ps)\<rparr>"

definition health_subsystem_of :: "jv \<Rightarrow> health_subsystem" where
  "health_subsystem_of x =
     (let ps = object_in x in
      \<lparr>hs_subsystem = text_in (member ''subsystem'' ps), hs_status = text_in (member ''status'' ps),
       hs_uptime_stats = map (\<lambda>e. (fst e, uplink_health_of (object_in (snd e)))) (object_in (member ''uptime_stats'' ps)),
       hs_num_adopted = int_ptr (member ''num_adopted'' ps), hs_num_disconnected = int_ptr (member ''num_disconnected'' ps)\<rparr>)"

section \<open>Responses\<close>

text \<open>\<open>deviceStatResponse\<close> and \<open>healthResponse\<close>: a list under \<open>data\<close>.\<close>

definition response_fits :: "(jv \<Rightarrow> bool) \<Rightarrow> jv \<Rightarrow> bool" where
  "response_fits ok doc =
     (case doc of
        JNull \<Rightarrow> True
      | JObj ps \<Rightarrow>
          list_all (\<lambda>e. fold_name (fst e) \<noteq> fold_name ''data'' \<or>
            (case snd e of JNull \<Rightarrow> True | JArr xs \<Rightarrow> list_all ok xs | _ \<Rightarrow> False)) ps
      | _ \<Rightarrow> False)"

definition decode_response :: "(jv \<Rightarrow> bool) \<Rightarrow> (jv \<Rightarrow> 'a) \<Rightarrow> jv \<Rightarrow> 'a list option" where
  "decode_response ok read doc =
     (if response_fits ok doc then Some (map read (list_in (member ''data'' (object_in doc)))) else None)"

definition decode_devices :: "(string \<Rightarrow> f64 option) \<Rightarrow> jv \<Rightarrow> device_record list option" where
  "decode_devices parse_float = decode_response fits_device (device_of parse_float)"

definition decode_health :: "jv \<Rightarrow> health_subsystem list option" where
  "decode_health = decode_response (fits health_subsystem_type) health_subsystem_of"

text \<open>
  \<open>Client.get\<close>: the request, the key, the answer, its status, its document, its type. What
  stands in for the library is \<open>ul_unbuilt\<close>, the error of a request that cannot be built,
  \<open>ul_send\<close>, the transport, given the request and the key, and \<open>ul_explain\<close>, the text of a
  decoding error.
\<close>

record unifi_lib =
  ul_unbuilt :: "string \<Rightarrow> string option"
  ul_send :: "console_request \<Rightarrow> string \<Rightarrow> exchange"
  ul_explain :: "jv \<Rightarrow> string"
  ul_float :: "string \<Rightarrow> f64 option"

definition site_path :: "string \<Rightarrow> string \<Rightarrow> string" where
  "site_path site endpoint = ''/proxy/network/api/s/'' @ site @ ''/'' @ endpoint"

definition client_get :: "unifi_lib \<Rightarrow> string + string \<Rightarrow> string \<Rightarrow> (jv \<Rightarrow> 'a option) \<Rightarrow> string \<Rightarrow> string + 'a" where
  "client_get lib key site decode endpoint =
     (case ul_unbuilt lib (site_path site endpoint) of
        Some e \<Rightarrow> Inl e
      | None \<Rightarrow>
          (case key of
             Inl e \<Rightarrow> Inl e
           | Inr k \<Rightarrow>
               (case ul_send lib \<lparr>cq_method = method_get, cq_path = site_path site endpoint, cq_body = None, cq_csrf = []\<rparr> k of
                  Answered a \<Rightarrow>
                    if cs_status a \<noteq> 200
                    then Inl (''polling unifi '' @ endpoint @ '': unexpected status '' @ int_dec (cs_status a))
                    else (case cs_json a of
                            Inl e \<Rightarrow> Inl (''decoding unifi '' @ endpoint @ '': '' @ e)
                          | Inr doc \<Rightarrow>
                              (case decode doc of
                                 None \<Rightarrow> Inl (''decoding unifi '' @ endpoint @ '': '' @ ul_explain lib doc)
                               | Some x \<Rightarrow> Inr x))
                | NotSent e \<Rightarrow> Inl (''polling unifi '' @ endpoint @ '': '' @ e)
                | NoAnswer e \<Rightarrow> Inl (''polling unifi '' @ endpoint @ '': '' @ e))))"

definition observe_unifi :: "unifi_lib \<Rightarrow> string + string \<Rightarrow> string \<Rightarrow> unifi_client \<Rightarrow> previous \<Rightarrow>
    (string + gomap) \<times> previous \<times> string list" where
  "observe_unifi lib key site c was =
     observe_console c was (client_get lib key site (decode_devices (ul_float lib)) ''stat/device'')
       (client_get lib key site decode_health ''stat/health'')"

end
