(* ===== verification/MockDecode.thy ===== *)
theory MockDecode
  imports Decode MockPorts
begin

text \<open>
  What the mock console serves decodes: every rewriting of a captured device
  (\<open>hack/mock-unifi/main.go\<close>) leaves a record of the type the poll decodes into
  (\<open>internal/providers/unifi/client.go\<close>), as long as the numbers it was given are numbers.
\<close>

section \<open>Documents that decode\<close>

lemma fits_typed [simp]:
  "fits (TStruct fs) (JObj ps) = fits_entries (schema_field fs) ps" "fits (TMap e) (JObj ps) = fits_entries (\<lambda>k. Some e) ps"
  "fits (TList e) (JArr xs) = fits_items e xs" "fits TAny x"
  by (cases x, simp_all)+

declare fits.simps(5,6) [simp del]

lemma fits_items_iff: "fits_items e xs \<longleftrightarrow> (\<forall>x \<in> set xs. fits e x)"
  by (induction xs) auto

lemma fits_entries_iff:
  "fits_entries field ps \<longleftrightarrow> (\<forall>e \<in> set ps. \<forall>t. field (fst e) = Some t \<longrightarrow> fits t (snd e))"
  by (induction ps) (auto split: option.splits)

definition fits_at :: "(string \<Rightarrow> jtype option) \<Rightarrow> string \<Rightarrow> jv \<Rightarrow> bool" where
  "fits_at field k x = (case field k of None \<Rightarrow> True | Some t \<Rightarrow> fits t x)"

lemma fits_set [simp]: "fits_entries field ps \<Longrightarrow> fits_at field k x \<Longrightarrow> fits_entries field (gm_set k x ps)"
  by (induction k x ps rule: gm_set.induct) (auto simp: fits_at_def)

lemma fits_del [simp]: "fits_entries field ps \<Longrightarrow> fits_entries field (gm_del k ps)"
  by (auto simp: fits_entries_iff gm_del_def)

lemma fits_get: "fits_entries field ps \<Longrightarrow> map_of ps k = Some x \<Longrightarrow> fits_at field k x"
  using map_of_SomeD [of ps k x] by (fastforce simp: fits_entries_iff fits_at_def split: option.splits)

lemma fits_some [simp]:
  "fits_entries field ps \<Longrightarrow> (\<And>y. v = Some y \<Longrightarrow> fits_at field k (f y)) \<Longrightarrow> fits_entries field (set_some k f v ps)"
  by (auto simp: set_some_def split: option.splits)

text \<open>The numbers the mock was given: integers of 64 bits, and floats that are numbers.\<close>

definition int_ok :: "int \<Rightarrow> bool" where
  "int_ok i = (- (2 ^ 63) \<le> i \<and> i < 2 ^ 63)"

lemma fits_int_doc: "fits t (int_doc i) \<longleftrightarrow> t \<in> {TFloat, TAny} \<or> t = TInt \<and> int_ok i"
  by (auto simp: int_doc_def fits_int_def int_ok_def)

lemma fits_float_doc: "finite_float (Some x) \<Longrightarrow> fits TFloat (float_doc x)"
  by (auto simp: finite_float_def float_doc_def split: f64.splits)

definition numbers_ok :: "mock \<Rightarrow> bool" where
  "numbers_ok m =
     (finite_mock m \<and> int_ok (mk_batt_level m) \<and> (case mk_runtime m of None \<Rightarrow> True | Some s \<Rightarrow> int_ok s) \<and>
      list_all (\<lambda>e. case ov_state (snd e) of None \<Rightarrow> True | Some i \<Rightarrow> int_ok i) (mk_device_overrides m))"

text \<open>The type of every field that is rewritten.\<close>

abbreviation device_field :: "string \<Rightarrow> jtype option" where
  "device_field \<equiv> schema_field device_fields"

lemma device_field_types:
  "device_field ''state'' = Some TInt" "device_field ''adopted'' = Some TBool" "device_field ''name'' = Some TText"
  "device_field ''upgradable'' = Some TBool" "device_field ''upgrade_to_firmware'' = Some TText"
  "device_field ''model_in_eol'' = Some TBool" "device_field ''has_temperature'' = Some TBool"
  "device_field ''has_fan'' = Some TBool" "device_field ''overheating'' = Some TBool"
  "device_field ''general_temperature'' = Some TFloat" "device_field ''isp'' = Some TText"
  "device_field ''last_wan_status'' = Some (TMap TAny)" "device_field ''wan1'' = None" "device_field ''wan2'' = None"
  "device_field field_device_id = None" "device_field field_outlet_overrides = None" "device_field field_max_power = Some TFloat"
  "device_field ''uplink'' = Some uplink_ref_type" "device_field ''vbms_table'' = Some vbms_table_type"
  by code_simp+


definition port_type :: jtype where
  "port_type = TStruct [(''port_idx'', TInt), (''poe_enable'', TBool), (''poe_power'', TAny), (''poe_class'', TText)]"

definition outlet_struct :: "(string \<times> jtype) list" where
  "outlet_struct = [(''index'', TInt), (''name'', TText), (''relay_state'', TBool), (''relay_group'', TInt)]"

definition thermal_type :: jtype where
  "thermal_type = TStruct [(''name'', TText), (''type'', TText), (''value'', TFloat)]"

definition pool_struct :: "(string \<times> jtype) list" where
  "pool_struct = [(''batteryLevel'', TInt), (''ischarging'', TBool), (''batt_available_cnt'', TInt),
     (''timeToRemain'', TInt), (''device_total_power_output'', TFloat), (''device_total_power_budget'', TFloat)]"

definition vbms_struct :: "(string \<times> jtype) list" where
  "vbms_struct = [(''is_battery_mode'', TBool), (''battpool'', TStruct pool_struct)]"

definition port_struct :: "(string \<times> jtype) list" where
  "port_struct = [(''is_uplink'', TBool), (''up'', TBool), (''ifname'', TText), (''name'', TText), (''ip'', TText)]"

lemma struct_types:
  "device_field field_port_table = Some (TList port_type)"
  "device_field field_outlet_table = Some (TList (TStruct outlet_struct))"
  "device_field ''temperatures'' = Some (TList thermal_type)"
  "vbms_table_type = TStruct vbms_struct" "wan_port_type = TStruct port_struct"
  by code_simp+

lemma inner_types:
  "schema_field outlet_struct field_relay_state = Some TBool" "schema_field outlet_struct field_outlet_name = Some TText"
  "schema_field outlet_struct field_outlet_caps = None"
  "schema_field pool_struct ''batteryLevel'' = Some TInt" "schema_field pool_struct ''ischarging'' = Some TBool"
  "schema_field pool_struct ''timeToRemain'' = Some TInt" "schema_field pool_struct ''device_total_power_output'' = Some TFloat"
  "schema_field pool_struct ''device_total_power_budget'' = Some TFloat"
  "schema_field vbms_struct ''is_battery_mode'' = Some TBool" "schema_field vbms_struct ''battpool'' = Some (TStruct pool_struct)"
  "schema_field port_struct field_is_uplink = Some TBool" "schema_field port_struct ''up'' = Some TBool"
  "schema_field port_struct ''ifname'' = Some TText"
  by code_simp+

lemma thermal_entries:
  "fits thermal_type (JObj [(''name'', JStr ''CPU''), (''type'', JStr ''cpu''), (''value'', JNum x)])"
  "fits thermal_type (JObj [(''name'', JStr ''System''), (''type'', JStr ''board''), (''value'', JNull)])"
proof -
  have "schema_field [(''name'', TText), (''type'', TText), (''value'', TFloat)] ''name'' = Some TText"
    "schema_field [(''name'', TText), (''type'', TText), (''value'', TFloat)] ''type'' = Some TText"
    "schema_field [(''name'', TText), (''type'', TText), (''value'', TFloat)] ''value'' = Some TFloat"
    by code_simp+
  then show "fits thermal_type (JObj [(''name'', JStr ''CPU''), (''type'', JStr ''cpu''), (''value'', JNum x)])"
    "fits thermal_type (JObj [(''name'', JStr ''System''), (''type'', JStr ''board''), (''value'', JNull)])"
    by (simp_all add: thermal_type_def)
qed

section \<open>Every rewriting keeps it\<close>

lemma ports_fit: "fits_items port_type xs \<Longrightarrow> fits_items port_type (rewrite_ports fixed2 m assigned xs)"
proof -
  have power: "schema_field [(''port_idx'', TInt), (''poe_enable'', TBool), (''poe_power'', TAny), (''poe_class'', TText)]
      field_poe_power = Some TAny" by code_simp
  show "fits_items port_type xs \<Longrightarrow> ?thesis"
    by (induction fixed2 m assigned xs rule: rewrite_ports.induct)
      (auto simp: port_type_def fits_at_def power split: option.splits)
qed

lemma poe_fits:
  assumes "fits_entries device_field d" and "numbers_ok m"
  shows "fits_entries device_field (rewrite_poe fixed2 m d)"
proof (cases "mk_poe_budget m")
  case (Some budget)
  then have budget: "fits_at device_field field_max_power (float_doc budget)"
    using assms(2) by (simp add: numbers_ok_def finite_mock_def fits_at_def device_field_types fits_float_doc)
  have "fits_at device_field field_port_table (JArr (rewrite_ports fixed2 m False ports))"
    if "map_of d field_port_table = Some (JArr ports)" for ports
    using fits_get [OF assms(1) that] ports_fit by (simp add: fits_at_def struct_types)
  then show ?thesis
    unfolding rewrite_poe_def Some option.case Let_def
    using assms(1) budget by (auto simp: field_port_table_def field_max_power_def split: option.splits)
qed (simp add: assms rewrite_poe_def)

lemma served_outlet_fits:
  "fits_entries (schema_field outlet_struct) d \<Longrightarrow> fits_entries (schema_field outlet_struct) (served_outlet wild m i d)"
  by (auto simp: served_outlet_def Let_def fits_at_def inner_types)

lemma outlet_table_fits:
  "fits_items (TStruct outlet_struct) xs \<Longrightarrow>
     fits_items (TStruct outlet_struct) (fst (rewrite_outlet_table wild m xs))"
  by (induction wild m xs rule: rewrite_outlet_table.induct)
    (auto simp: Let_def served_outlet_fits split: option.splits prod.splits)

lemma outlets_fit:
  assumes "fits_entries device_field d"
  shows "fits_entries device_field (rewrite_outlets wild m d)"
proof (cases "as_array (map_of d field_outlet_table)")
  case (Some xs)
  obtain table overrides where new: "rewrite_outlet_table wild m xs = (table, overrides)"
    by (cases "rewrite_outlet_table wild m xs")
  then have "fits_at device_field field_outlet_table (JArr table)"
    using fits_get [OF assms, of field_outlet_table] outlet_table_fits [of xs wild m] Some
    by (simp add: fits_at_def struct_types)
  then show ?thesis
    unfolding rewrite_outlets_def Some option.case Let_def new prod.case
    using assms by (simp add: fits_at_def device_field_types)
qed (simp add: rewrite_outlets_def assms)

lemma thermals_fit:
  assumes "fits_entries device_field d" and "finite_override v"
  shows "fits_entries device_field (rewrite_thermals v d)"
proof -
  obtain x where x: "ov_celsius v = None \<or> (ov_celsius v = Some (Fin x) \<and> float_doc (Fin x) = JNum x)"
    using assms(2) by (auto simp: finite_override_def finite_float_def float_doc_def split: option.splits f64.splits)
  then show ?thesis
    using assms(1)
    by (auto simp: rewrite_thermals_def Let_def fits_at_def device_field_types struct_types thermal_entries split: option.splits)
qed

lemma override_fits:
  assumes "fits_entries device_field d" and "finite_override v"
    and "case ov_state v of None \<Rightarrow> True | Some i \<Rightarrow> int_ok i"
  shows "fits_entries device_field (rewrite_override v d)"
proof -
  have "int_ok i" if "ov_state v = Some i" for i using assms(3) that by simp
  then show ?thesis
    unfolding rewrite_override_def Let_def
    using assms(1,2) by (intro thermals_fit) (simp_all add: fits_at_def device_field_types fits_int_doc)
qed

lemma fleet_fits:
  assumes "fits_entries device_field d" and "numbers_ok m" and "rewrite_fleet wild fixed2 m d = Some d'"
  shows "fits_entries device_field d'"
proof -
  have base: "fits_entries device_field (rewrite_outlets wild m (rewrite_poe fixed2 m d))"
    by (intro outlets_fit poe_fits assms)
  have "finite_override v \<and> (case ov_state v of None \<Rightarrow> True | Some i \<Rightarrow> int_ok i)"
    if "map_of (mk_device_overrides m) k = Some v" for k v
    using assms(2) map_of_SomeD [OF that] by (auto simp: numbers_ok_def finite_mock_def list_all_iff)
  then show ?thesis
    using assms(3) base override_fits
    by (auto simp: rewrite_fleet_def Let_def split: option.splits if_splits)
qed

lemma pool_fits:
  assumes "fits_entries (schema_field pool_struct) pool" and "numbers_ok m"
  shows "fits_entries (schema_field pool_struct) (rewrite_batt_pool m pool)"
  using assms
  by (auto simp: rewrite_batt_pool_def Let_def fits_at_def inner_types fits_int_doc fits_float_doc numbers_ok_def finite_mock_def
      split: option.splits intro!: fits_some)

lemma battery_fits:
  assumes "fits_entries device_field d" and "numbers_ok m"
  shows "fits_entries device_field (rewrite_battery m d)"
proof (cases "\<exists>vbms. map_of d ''vbms_table'' = Some (JObj vbms)")
  case True
  then obtain vbms where vbms: "map_of d ''vbms_table'' = Some (JObj vbms)" by blast
  let ?v = "gm_set ''is_battery_mode'' (JBool (mk_on_batt m)) vbms"
  let ?p = "\<lambda>pool. rewrite_batt_pool m (gm_set ''ischarging'' (JBool (\<not> mk_on_batt m))
      (gm_set ''batteryLevel'' (int_doc (mk_batt_level m)) pool))"
  have v: "fits_entries (schema_field vbms_struct) ?v"
    using fits_get [OF assms(1) vbms] by (simp add: fits_at_def device_field_types struct_types inner_types)
  have "fits_entries (schema_field vbms_struct) (gm_set ''battpool'' (JObj (?p pool)) ?v)"
    if "map_of ?v ''battpool'' = Some (JObj pool)" for pool
  proof -
    have pool: "fits_entries (schema_field pool_struct) pool"
      using fits_get [OF v that] by (simp add: fits_at_def inner_types)
    have "fits_entries (schema_field pool_struct) (?p pool)"
      using pool assms(2)
      by (intro pool_fits) (auto simp: fits_at_def inner_types fits_int_doc numbers_ok_def)
    then show ?thesis using v by (simp add: fits_at_def inner_types)
  qed
  then show ?thesis
    unfolding rewrite_battery_def vbms option.case jv.case Let_def
    using assms(1) v by (auto simp: fits_at_def device_field_types struct_types split: option.splits jv.splits)
qed (simp add: assms rewrite_battery_def split: option.splits jv.splits)

text \<open>The ports of a gateway: each is checked by itself, under whatever \<open>wanN\<close> it stands.\<close>

definition wans_fit :: "jobj \<Rightarrow> bool" where
  "wans_fit d = (\<forall>k x. wan_index_of k \<noteq> None \<longrightarrow> map_of d k = Some x \<longrightarrow> fits wan_port_type x)"

lemma fits_device_iff:
  "gm_wf d \<Longrightarrow> fits_device (JObj d) \<longleftrightarrow> fits_entries device_field d \<and> wans_fit d"
  by (auto simp: fits_device_def object_in_def wans_fit_def list_all_iff gm_wf_map_of)

lemma not_wan:
  "list_all (\<lambda>k. wan_index_of k = None)
     (override_keys @ [field_max_power, field_port_table, field_outlet_table, field_device_id, field_outlet_overrides,
       ''vbms_table'', ''uplink'', ''last_wan_status'', ''isp''])"
  by code_simp

lemma wan_key_other:
  assumes "wan_index_of k \<noteq> None"
  shows "k \<notin> set override_keys" "k \<notin> {field_max_power, field_port_table}"
    "k \<notin> {field_outlet_table, field_device_id, field_outlet_overrides}"
    "k \<notin> {''vbms_table'', ''uplink'', ''last_wan_status'', ''isp''}"
  using not_wan assms by (auto simp: list_all_iff)

lemma fleet_wans:
  assumes "rewrite_fleet wild fixed2 m d = Some d'" and "wan_index_of k \<noteq> None"
  shows "map_of d' k = map_of d k"
  using fleet_keep [OF assms(1) wan_key_other(1) [OF assms(2)]] outlets_keep [OF wan_key_other(3) [OF assms(2)]]
    poe_keep [OF wan_key_other(2) [OF assms(2)]] by simp

lemma battery_other: "k \<noteq> ''vbms_table'' \<Longrightarrow> map_of (rewrite_battery m d) k = map_of d k"
  by (auto simp: rewrite_battery_def Let_def split: option.splits jv.splits)

lemma claim_fits:
  assumes "fits_entries (schema_field port_struct) a" and "fits_entries (schema_field port_struct) b"
    and "claim_ports c (a, b) = (a', b')"
  shows "fits_entries (schema_field port_struct) a'" "fits_entries (schema_field port_struct) b'"
  using assms by (cases c; auto simp: claim_ports_def Let_def fits_at_def inner_types)+

lemma failover_fits:
  assumes "fits_entries device_field d" and "wans_fit d"
  shows "fits_entries device_field (failover m d) \<and> wans_fit (failover m d)"
proof (cases "\<exists>w1 w2. map_of d ''wan1'' = Some (JObj w1) \<and> map_of d ''wan2'' = Some (JObj w2)")
  case True
  then obtain w1 w2 where wans: "map_of d ''wan1'' = Some (JObj w1)" "map_of d ''wan2'' = Some (JObj w2)" by blast
  have index: "wan_index_of ''wan1'' = Some 1" "wan_index_of ''wan2'' = Some 2" by code_simp+
  have ports: "fits_entries (schema_field port_struct) w1" "fits_entries (schema_field port_struct) w2"
    using assms(2) wans index by (auto simp: wans_fit_def struct_types)
  obtain p1 p2 where claimed: "claim_ports (fv_is_uplink (variant_of m)) (w1, w2) = (p1, p2)"
    by (cases "claim_ports (fv_is_uplink (variant_of m)) (w1, w2)")
  let ?w1 = "gm_set ''up'' (JBool False) p1" and ?w2 = "gm_set ''up'' (JBool True) p2"
  have up: "fits_entries (schema_field port_struct) ?w1" "fits_entries (schema_field port_struct) ?w2"
    using claim_fits [OF ports claimed] by (simp_all add: fits_at_def inner_types)
  let ?d1 = "gm_set ''wan2'' (JObj ?w2) (gm_set ''wan1'' (JObj ?w1) d)"
  let ?name = "nil_or (map_of p2 ''ifname'')"
  have name: "fits TText ?name"
    using fits_get [OF claim_fits(2) [OF ports claimed], of "''ifname''"]
    by (auto simp: nil_or_def fits_at_def inner_types split: option.split)
  have link: "fits_at device_field ''uplink'' (JObj (gm_set ''name'' ?name u))" if "map_of d ''uplink'' = Some (JObj u)" for u
  proof -
    have "schema_field [(''name'', TText), (''type'', TText)] ''name'' = Some TText" by code_simp
    then show ?thesis
      using fits_get [OF assms(1) that] name by (simp add: fits_at_def device_field_types uplink_ref_type_def)
  qed
  have d1: "fits_entries device_field ?d1" using assms(1) by (simp add: fits_at_def device_field_types)
  have other: "''uplink'' \<noteq> ''wan1''" "''uplink'' \<noteq> ''wan2''" by simp_all
  have fits: "fits_entries device_field (failover m d)"
    unfolding failover_def wans option.case jv.case prod.case claimed Let_def
    using d1 link by (auto simp: fits_at_def device_field_types split: option.splits jv.splits)
  have "map_of (failover m d) k = map_of ?d1 k" if "wan_index_of k \<noteq> None" for k
    unfolding failover_def wans option.case jv.case prod.case claimed Let_def
    using wan_key_other(4) [OF that] by (auto split: option.splits jv.splits)
  moreover have "wans_fit ?d1"
    using assms(2) up by (auto simp: wans_fit_def struct_types)
  ultimately show ?thesis using fits by (auto simp: wans_fit_def)
qed (auto simp: assms failover_def split: option.splits jv.splits)

lemma served_device_fits:
  assumes "fits_device (JObj d)" and "gm_wf d" and "numbers_ok m" and "serve_device wild fixed2 m (JObj d) = Some y"
  shows "fits_device y"
proof -
  obtain d' where fleet: "rewrite_fleet wild fixed2 m d = Some d'"
    and y: "y = JObj (rewrite_battery m (if map_of d' ''wan1'' \<noteq> None \<and> mk_link m = link_backup then failover m d' else d'))"
    using assms(4) by (auto simp: serve_device_def split: if_splits option.splits)
  let ?r = "if map_of d' ''wan1'' \<noteq> None \<and> mk_link m = link_backup then failover m d' else d'"
  have d: "fits_entries device_field d" "wans_fit d" using assms(1,2) by (simp_all add: fits_device_iff)
  have d': "fits_entries device_field d'" "wans_fit d'"
    using fleet_fits [OF d(1) assms(3) fleet] fleet_wans [OF fleet] d(2) by (auto simp: wans_fit_def)
  have r: "fits_entries device_field ?r" "wans_fit ?r" using d' failover_fits by auto
  have "gm_wf d'" using keyed.fleet_top [OF assms(2) fleet] .
  then have wf: "gm_wf (rewrite_battery m ?r)" by (intro keyed.battery_top) (auto intro: keyed.failover_top)
  have "wans_fit (rewrite_battery m ?r)"
    using r(2) wan_key_other(4) battery_other by (auto simp: wans_fit_def)
  then show ?thesis
    unfolding y fits_device_iff [OF wf] using battery_fits [OF r(1) assms(3)] by simp
qed

end
