(* ===== verification/MockRehearsal.thy ===== *)
theory MockRehearsal
  imports MockDecode FleetFacts
begin

text \<open>
  What Reactor reads of the mock console: its poll (\<open>Decode\<close>) run against what the mock
  serves, for a captured gateway with two uplinks and any fleet beside it. The live WAN is
  read as each hypothesis on a failover says it would be.
\<close>

section \<open>The ports read\<close>

text \<open>A field no entry spells in another case is found under its own name.\<close>

definition spelled :: "string list \<Rightarrow> jobj \<Rightarrow> bool" where
  "spelled names ps =
     list_all (\<lambda>e. list_all (\<lambda>f. fold_name (fst e) = fold_name f \<longrightarrow> fst e = f) names) ps"

lemma member_spelled:
  assumes "spelled names ps" and "f \<in> set names" and "gm_wf ps"
  shows "member f ps = nil_or (map_of ps f)"
proof (cases "map_of ps f")
  case None
  then have "\<not> (\<exists>e \<in> set ps. fold_name (fst e) = fold_name f)"
    using assms(1,2) by (auto simp: spelled_def list_all_iff map_of_eq_None_iff)
  then have "find (\<lambda>e. fold_name (fst e) = fold_name f) (rev ps) = None" by (auto simp: find_None_iff)
  then show ?thesis using None by (simp add: member_def nil_or_def)
next
  case (Some x)
  then have "\<exists>e \<in> set ps. fold_name (fst e) = fold_name f" using map_of_SomeD [OF Some] by force
  then obtain e where e: "find (\<lambda>e. fold_name (fst e) = fold_name f) (rev ps) = Some e"
    by (cases "find (\<lambda>e. fold_name (fst e) = fold_name f) (rev ps)") (auto simp: find_None_iff)
  from e have found: "e \<in> set (rev ps)" "fold_name (fst e) = fold_name f"
    unfolding find_Some_iff using nth_mem by blast+
  then have "fst e = f" using assms(1,2) by (auto simp: spelled_def list_all_iff)
  then have "map_of ps f = Some (snd e)" using found(1) assms(3) by (auto simp: gm_wf_map_of)
  then show ?thesis using Some e by (simp add: member_def nil_or_def)
qed

lemma spelled_set: "spelled names ps \<Longrightarrow> k \<in> set names \<Longrightarrow> list_all (\<lambda>f. fold_name k = fold_name f \<longrightarrow> k = f) names \<Longrightarrow>
    spelled names (gm_set k x ps)"
  by (induction k x ps rule: gm_set.induct) (auto simp: spelled_def)

definition wan_entry_of :: "string \<times> jv \<Rightarrow> wan_entry option" where
  "wan_entry_of e =
     (case (wan_index_of (fst e), struct_ptr wan_port_of (snd e)) of
        (Some n, Some p) \<Rightarrow> Some \<lparr>we_index = n, we_port = p\<rparr>
      | _ \<Rightarrow> None)"

lemma wans_of_entries: "wans_of ps = sort_key we_index (List.map_filter wan_entry_of ps)"
  by (simp add: wans_of_def collect_wans_def map_filter_def filter_map o_def wan_entry_of_def [abs_def])

text \<open>A device without ports, and one with the two ports of a gateway.\<close>

definition no_wans :: "jobj \<Rightarrow> bool" where
  "no_wans ps = list_all (\<lambda>e. wan_index_of (fst e) = None \<or> snd e = JNull) ps"

lemma wan_entry_None: "wan_entry_of e = None \<longleftrightarrow> wan_index_of (fst e) = None \<or> snd e = JNull"
  by (auto simp: wan_entry_of_def struct_ptr_def split: option.splits)

lemma wans_none: "no_wans ps \<Longrightarrow> wans_of ps = []"
proof -
  assume "no_wans ps"
  then have "List.map_filter wan_entry_of ps = []"
    by (induction ps) (auto simp: no_wans_def map_filter_simps wan_entry_None split: option.splits)
  then show ?thesis by (simp add: wans_of_entries)
qed

lemma two_members:
  assumes "distinct xs" and "set xs = {a, b}" and "a \<noteq> b"
  shows "xs = [a, b] \<or> xs = [b, a]"
proof -
  have "length xs = 2" using distinct_card [OF assms(1)] assms(2,3) by simp
  then obtain x y where "xs = [x, y]" by (cases xs; cases "tl xs") auto
  then show ?thesis using assms(2,3) by (auto simp: doubleton_eq_iff)
qed

lemma wans_two:
  assumes "gm_wf ps" and "map_of ps ''wan1'' = Some (JObj a)" and "map_of ps ''wan2'' = Some (JObj b)"
    and "\<And>k x. map_of ps k = Some x \<Longrightarrow> wan_index_of k \<noteq> None \<Longrightarrow> x \<noteq> JNull \<Longrightarrow> k \<in> {''wan1'', ''wan2''}"
  shows "wans_of ps = [\<lparr>we_index = 1, we_port = wan_port_of a\<rparr>, \<lparr>we_index = 2, we_port = wan_port_of b\<rparr>]"
proof -
  let ?xs = "filter (\<lambda>e. wan_entry_of e \<noteq> None) ps"
  have index: "wan_index_of ''wan1'' = Some 1" "wan_index_of ''wan2'' = Some 2" by code_simp+
  have "e \<in> {(''wan1'', JObj a), (''wan2'', JObj b)}" if "e \<in> set ?xs" for e
  proof -
    have e: "e \<in> set ps" "wan_entry_of e \<noteq> None" using that unfolding set_filter mem_Collect_eq by blast+
    have "map_of ps (fst e) = Some (snd e)" using e(1) assms(1) by (simp add: gm_wf_map_of)
    moreover from this have "fst e \<in> {''wan1'', ''wan2''}"
      using e(2) assms(4) [of "fst e" "snd e"] by (simp add: wan_entry_None)
    ultimately show ?thesis using assms(2,3) by (cases e) auto
  qed
  moreover have "{(''wan1'', JObj a), (''wan2'', JObj b)} \<subseteq> set ?xs"
    using map_of_SomeD [OF assms(2)] map_of_SomeD [OF assms(3)] index by (auto simp: wan_entry_None)
  ultimately have "set ?xs = {(''wan1'', JObj a), (''wan2'', JObj b)}" by blast
  moreover have "distinct ?xs" using assms(1) by (auto simp: gm_wf_def distinct_map)
  ultimately have "?xs = [(''wan1'', JObj a), (''wan2'', JObj b)] \<or> ?xs = [(''wan2'', JObj b), (''wan1'', JObj a)]"
    by (intro two_members) simp_all
  moreover have "wan_entry_of (''wan1'', JObj a) = Some \<lparr>we_index = 1, we_port = wan_port_of a\<rparr>"
    "wan_entry_of (''wan2'', JObj b) = Some \<lparr>we_index = 2, we_port = wan_port_of b\<rparr>"
    using index by (simp_all add: wan_entry_of_def struct_ptr_def object_in_def)
  moreover have "List.map_filter wan_entry_of ps = map (the \<circ> wan_entry_of) ?xs" by (simp add: map_filter_def)
  ultimately have "List.map_filter wan_entry_of ps \<in>
      {[\<lparr>we_index = 1, we_port = wan_port_of a\<rparr>, \<lparr>we_index = 2, we_port = wan_port_of b\<rparr>],
       [\<lparr>we_index = 2, we_port = wan_port_of b\<rparr>, \<lparr>we_index = 1, we_port = wan_port_of a\<rparr>]}"
    by (elim disjE) (simp_all del: filter.simps)
  then show ?thesis by (auto simp: wans_of_entries)
qed

section \<open>A gateway with two uplinks\<close>

text \<open>
  A captured gateway: the first port is the uplink, and the console names it by the name of
  its interface; the second has an interface of another name. Nothing else is reported as a
  WAN, and the record carries no battery.
\<close>

definition gateway :: "jobj \<Rightarrow> jobj \<Rightarrow> jobj \<Rightarrow> jobj \<Rightarrow> string \<Rightarrow> string \<Rightarrow> bool" where
  "gateway d w1 w2 u n1 n2 =
     (gm_wf d \<and> map_of d ''wan1'' = Some (JObj w1) \<and> map_of d ''wan2'' = Some (JObj w2) \<and> map_of d ''uplink'' = Some (JObj u) \<and>
      list_all (\<lambda>e. wan_index_of (fst e) = None \<or> snd e = JNull \<or> fst e \<in> {''wan1'', ''wan2''}) d \<and>
      map_of d ''vbms_table'' = None \<and> spelled [''uplink''] d \<and>
      spelled [''is_uplink'', ''ifname'', ''name''] w1 \<and> spelled [''is_uplink'', ''ifname'', ''name''] w2 \<and> spelled [''name''] u \<and>
      gm_wf w1 \<and> gm_wf w2 \<and> gm_wf u \<and>
      map_of w1 field_is_uplink = Some (JBool True) \<and> map_of w2 field_is_uplink \<noteq> Some (JBool True) \<and>
      map_of u ''name'' = Some (JStr n1) \<and> map_of w1 ''ifname'' = Some (JStr n1) \<and> map_of w2 ''ifname'' = Some (JStr n2) \<and>
      n1 \<noteq> [] \<and> n2 \<noteq> [] \<and> n1 \<noteq> n2 \<and> map_of w1 ''name'' \<noteq> Some (JStr n2) \<and> map_of w2 ''name'' \<noteq> Some (JStr n1))"

text \<open>What the poll makes of such a record, whatever a port claims and whichever is named.\<close>

lemma port_read:
  assumes "spelled [''is_uplink'', ''ifname'', ''name''] w" and "gm_wf w"
  shows "wan_port_of w = \<lparr>wn_is_uplink = (map_of w field_is_uplink = Some (JBool True)),
     wn_if_name = text_in (nil_or (map_of w ''ifname'')), wn_name = text_in (nil_or (map_of w ''name''))\<rparr>"
  using member_spelled [OF assms(1) _ assms(2), of "''is_uplink''"] member_spelled [OF assms(1) _ assms(2), of "''ifname''"]
    member_spelled [OF assms(1) _ assms(2), of "''name''"]
  by (auto simp: wan_port_of_def bool_in_def bool_ptr_def nil_or_def field_is_uplink_def split: option.split jv.split)

lemma claims_spelled:
  "list_all (\<lambda>k. list_all (\<lambda>f. fold_name k = fold_name f \<longrightarrow> k = f) [''is_uplink'', ''ifname'', ''name''])
     [''is_uplink'', ''up'']"
  by code_simp

lemma up_spelled: "spelled [''is_uplink'', ''ifname'', ''name''] w \<Longrightarrow> spelled [''is_uplink'', ''ifname'', ''name''] (gm_set ''up'' x w)"
  using claims_spelled by (induction w rule: gm_set.induct) (auto simp: spelled_def)

lemma claim_spelled: "spelled [''is_uplink'', ''ifname'', ''name''] w \<Longrightarrow>
    spelled [''is_uplink'', ''ifname'', ''name''] (gm_set field_is_uplink x w)"
  using claims_spelled by (intro spelled_set) (auto simp: field_is_uplink_def)

text \<open>The two ports and the named interface, in the record as it is served.\<close>

lemma failover_at:
  assumes "map_of d ''wan1'' = Some (JObj w1)" and "map_of d ''wan2'' = Some (JObj w2)" and "map_of d ''uplink'' = Some (JObj u)"
    and "claim_ports (fv_is_uplink (variant_of m)) (w1, w2) = (p1, p2)"
  shows "map_of (failover m d) ''wan1'' = Some (JObj (gm_set ''up'' (JBool False) p1))"
    and "map_of (failover m d) ''wan2'' = Some (JObj (gm_set ''up'' (JBool True) p2))"
    and "map_of (failover m d) ''uplink'' = Some (JObj (if fv_context (variant_of m)
       then gm_set ''name'' (nil_or (map_of p2 ''ifname'')) u else u))"
  unfolding failover_def assms option.case jv.case prod.case Let_def by (simp_all add: assms)

lemma failover_other:
  assumes "wan_index_of k \<noteq> None" and "k \<notin> {''wan1'', ''wan2''}"
  shows "map_of (failover m d) k = map_of d k"
  using assms(2) wan_key_other(4) [OF assms(1)]
  by (auto simp: failover_def Let_def split: option.splits jv.splits prod.splits)

section \<open>What is served\<close>

definition rewritten_keys :: "string list" where
  "rewritten_keys = override_keys @ [field_max_power, field_port_table, field_outlet_table, field_device_id, field_outlet_overrides]"

lemma fleet_frame: "rewrite_fleet wild fixed2 m d = Some d' \<Longrightarrow> k \<notin> set rewritten_keys \<Longrightarrow> map_of d' k = map_of d k"
  using fleet_keep [of wild fixed2 m d d' k] outlets_keep [of k wild m "rewrite_poe fixed2 m d"] poe_keep [of k fixed2 m d]
  by (simp add: rewritten_keys_def)

lemma no_wans_iff: "gm_wf ps \<Longrightarrow> no_wans ps \<longleftrightarrow> (\<forall>k x. wan_index_of k \<noteq> None \<longrightarrow> map_of ps k = Some x \<longrightarrow> x = JNull)"
  by (auto simp: no_wans_def list_all_iff gm_wf_map_of)

lemma spelled_iff: "spelled names ps \<longleftrightarrow> (\<forall>k. map_of ps k \<noteq> None \<longrightarrow> (\<forall>f \<in> set names. fold_name k = fold_name f \<longrightarrow> k = f))"
  by (auto simp: spelled_def list_all_iff map_of_eq_None_iff)

lemma serve_without_wans:
  assumes "no_wans d" and "gm_wf d" and "serve_device wild fixed2 m (JObj d) = Some y"
  shows "wans_of (object_in y) = []"
proof -
  obtain d' where fleet: "rewrite_fleet wild fixed2 m d = Some d'"
    and y: "y = JObj (rewrite_battery m (if map_of d' ''wan1'' \<noteq> None \<and> mk_link m = link_backup then failover m d' else d'))"
    using assms(3) by (auto simp: serve_device_def split: if_splits option.splits)
  have index: "wan_index_of ''wan1'' = Some 1" by code_simp
  have "map_of d' ''wan1'' \<in> {None, Some JNull}"
    using fleet_wans [OF fleet, of "''wan1''"] assms(1,2) index by (cases "map_of d ''wan1''") (auto simp: no_wans_iff)
  then have "failover m d' = d'" by (auto simp: failover_def)
  then have y': "y = JObj (rewrite_battery m d')" using y by simp
  have wf: "gm_wf d'" using keyed.fleet_top [OF assms(2) fleet] .
  have "no_wans (rewrite_battery m d')"
    using assms(1,2) fleet_wans [OF fleet] wan_key_other(4) battery_other
    by (auto simp: no_wans_iff [OF keyed.battery_top [OF wf]] no_wans_iff [OF assms(2)])
  then show ?thesis by (simp add: y' object_in_def wans_none)
qed

text \<open>
  A mock whose one gateway is \<open>d\<close>: everything captured decodes and can be encoded, nothing
  else reports a WAN, and the gateway is listed.
\<close>

definition one_gateway :: "mock \<Rightarrow> jv list \<Rightarrow> jobj \<Rightarrow> jv list \<Rightarrow> bool" where
  "one_gateway m before d after =
     (mk_pristine m = before @ JObj d # after \<and> fleet_listed m d \<and> no_wans (mk_switch m) \<and>
      list_all (\<lambda>x. no_wans (object_in x)) (before @ after) \<and>
      list_all (\<lambda>x. encodes x \<and> fits_device x) (JObj (mk_switch m) # mk_pristine m) \<and> numbers_ok m)"

lemma served_fits:
  assumes "encodes x" and "fits_device x" and "numbers_ok m" and "serve_device wild fixed2 m x = Some y"
  shows "fits_device y"
proof (cases x)
  case (JObj d)
  then show ?thesis using assms served_device_fits [of d m wild fixed2 y] by simp
qed (use assms in \<open>auto simp: serve_device_def as_object_def\<close>)

lemma switch_served_fits:
  assumes "encodes (JObj d)" and "fits_device (JObj d)" and "numbers_ok m" and "rewrite_fleet wild fixed2 m d = Some d'"
  shows "fits_device (JObj d')"
proof -
  have wf: "gm_wf d" "gm_wf d'" using assms(1) keyed.fleet_top [OF _ assms(4)] by simp_all
  then show ?thesis
    using assms fleet_fits [OF _ assms(3,4)] fleet_wans [OF assms(4)]
    by (auto simp: fits_device_iff wans_fit_def)
qed

lemma one_gatewayD:
  assumes "one_gateway m before d after"
  shows "mk_pristine m = before @ JObj d # after" "fleet_listed m d" "numbers_ok m" "no_wans (mk_switch m)"
    "\<And>x. x \<in> set before \<union> set after \<Longrightarrow> no_wans (object_in x)"
    "\<And>x. x \<in> insert (JObj (mk_switch m)) (set (mk_pristine m)) \<Longrightarrow> encodes x"
    "\<And>x. x \<in> insert (JObj (mk_switch m)) (set (mk_pristine m)) \<Longrightarrow> fits_device x"
proof -
  show "mk_pristine m = before @ JObj d # after" "fleet_listed m d" "numbers_ok m" "no_wans (mk_switch m)"
    using assms by (simp_all add: one_gateway_def)
  show "\<And>x. x \<in> set before \<union> set after \<Longrightarrow> no_wans (object_in x)"
    using assms unfolding one_gateway_def list_all_iff by simp
  show "\<And>x. x \<in> insert (JObj (mk_switch m)) (set (mk_pristine m)) \<Longrightarrow> encodes x"
    "\<And>x. x \<in> insert (JObj (mk_switch m)) (set (mk_pristine m)) \<Longrightarrow> fits_device x"
    using assms unfolding one_gateway_def list_all_iff list.set by blast+
qed

lemma devices_fit:
  assumes "one_gateway m before d after"
  shows "list_all fits_device (devices wild fixed2 m)" and "all_items gm_wf (devices wild fixed2 m)"
proof -
  note mock = one_gatewayD [OF assms]
  have served: "fits_device y" if "x \<in> set (mk_pristine m)" "serve_device wild fixed2 m x = Some y" for x y
    using served_fits [OF mock(6) mock(7) mock(3) that(2)] that(1) by simp
  have "fits_device (JObj d')" if "rewrite_fleet wild fixed2 m (mk_switch m) = Some d'" for d'
    using switch_served_fits [OF mock(6) mock(7) mock(3) that] by simp
  then show "list_all fits_device (devices wild fixed2 m)"
    using served by (auto simp: devices_def list_all_iff map_filter_def split: option.split)
  have "list_all encodes (mk_pristine m)" using mock(6) unfolding list_all_iff by blast
  moreover have "finite_mock m" using mock(3) by (simp add: numbers_ok_def)
  moreover have "encodes (JObj (mk_switch m))" by (rule mock(6)) simp
  ultimately show "all_items gm_wf (devices wild fixed2 m)" by (intro list_encodes)
qed

text \<open>The gateway's own record, as it is served: both ports, and the interface the console names.\<close>

lemma spelled_frame:
  assumes "spelled [f] d" and "\<And>k. k \<notin> set keys \<Longrightarrow> map_of d' k = map_of d k"
    and "list_all (\<lambda>k. fold_name k = fold_name f \<longrightarrow> k = f) keys"
  shows "spelled [f] d'"
  unfolding spelled_iff
proof (intro allI impI ballI)
  fix k g
  assume k: "map_of d' k \<noteq> None" "g \<in> set [f]" "fold_name k = fold_name g"
  show "k = g"
  proof (cases "k \<in> set keys")
    case True
    then show ?thesis using assms(3) k by (auto simp: list_all_iff)
  next
    case False
    then have "map_of d k \<noteq> None" using k(1) assms(2) by simp
    then show ?thesis using assms(1) k(2,3) unfolding spelled_iff by blast
  qed
qed

lemma gateway_frame:
  "list_all (\<lambda>k. fold_name k = fold_name ''uplink'' \<longrightarrow> k = ''uplink'')
     rewritten_keys"
  "list_all (\<lambda>k. fold_name k = fold_name ''uplink'' \<longrightarrow> k = ''uplink'')
     [''wan1'', ''wan2'', ''uplink'', ''last_wan_status'', ''isp'']"
  "''uplink'' \<notin> set rewritten_keys" "''vbms_table'' \<notin> set rewritten_keys" "''wan1'' \<notin> set rewritten_keys"
  "''wan2'' \<notin> set rewritten_keys"
  by code_simp+

lemma failover_frame: "k \<notin> set [''wan1'', ''wan2'', ''uplink'', ''last_wan_status'', ''isp''] \<Longrightarrow> map_of (failover m d) k = map_of d k"
  by (auto simp: failover_def Let_def split: option.splits jv.splits prod.splits)

abbreviation port_names :: "string list" where
  "port_names \<equiv> [''is_uplink'', ''ifname'', ''name'']"

definition claims_uplink :: "jobj \<Rightarrow> bool" where
  "claims_uplink w = (map_of w field_is_uplink = Some (JBool True))"

definition is_called :: "string \<Rightarrow> jobj \<Rightarrow> bool" where
  "is_called n w = (map_of w ''ifname'' = Some (JStr n) \<or> map_of w ''name'' = Some (JStr n))"

lemma called_port:
  assumes "spelled port_names w" and "gm_wf w" and "n \<noteq> []"
  shows "port_named (wan_port_of w) n \<longleftrightarrow> is_called n w" and "wn_is_uplink (wan_port_of w) \<longleftrightarrow> claims_uplink w"
  using assms(3) unfolding port_read [OF assms(1,2)]
  by (auto simp: port_named_def is_called_def claims_uplink_def text_in_def nil_or_def split: option.splits jv.splits)

lemma gateway_read:
  assumes "gm_wf y" and "map_of y ''wan1'' = Some (JObj a)" and "map_of y ''wan2'' = Some (JObj b)"
    and "map_of y ''uplink'' = Some (JObj u)" and "map_of u ''name'' = Some (JStr n)" and "n \<noteq> []"
    and "\<And>k x. map_of y k = Some x \<Longrightarrow> wan_index_of k \<noteq> None \<Longrightarrow> x \<noteq> JNull \<Longrightarrow> k \<in> {''wan1'', ''wan2''}"
    and "spelled [''uplink''] y" and "spelled port_names a" and "spelled port_names b" and "spelled [''name''] u"
    and "gm_wf a" and "gm_wf b" and "gm_wf u"
  shows "dr_wans (device_of pf (JObj y)) \<noteq> []"
    and "claimants (device_of pf (JObj y)) = (if claims_uplink a then [1] else []) @ (if claims_uplink b then [2] else [])"
    and "namesakes (device_of pf (JObj y)) = (if is_called n a then [1] else []) @ (if is_called n b then [2] else [])"
proof -
  have wans: "dr_wans (device_of pf (JObj y)) =
      [\<lparr>we_index = 1, we_port = wan_port_of a\<rparr>, \<lparr>we_index = 2, we_port = wan_port_of b\<rparr>]"
    using wans_two [OF assms(1-3,7)] by (simp add: device_of_def object_in_def Let_def)
  have link: "dr_uplink (device_of pf (JObj y)) = Some n"
    using member_spelled [OF assms(8) _ assms(1)] member_spelled [OF assms(11) _ assms(14)] assms(4,5)
    by (simp add: device_of_def object_in_def Let_def struct_ptr_def nil_or_def text_in_def)
  show "dr_wans (device_of pf (JObj y)) \<noteq> []" using wans by simp
  show "claimants (device_of pf (JObj y)) = (if claims_uplink a then [1] else []) @ (if claims_uplink b then [2] else [])"
    using called_port(2) [OF assms(9,12,6)] called_port(2) [OF assms(10,13,6)] by (simp add: claimants_def wans)
  show "namesakes (device_of pf (JObj y)) = (if is_called n a then [1] else []) @ (if is_called n b then [2] else [])"
    using called_port(1) [OF assms(9,12,6)] called_port(1) [OF assms(10,13,6)] by (simp add: namesakes_def wans link)
qed

lemma claimed_ports:
  assumes "claim_ports c (w1, w2) = (p1, p2)" and "claims_uplink w1" and "\<not> claims_uplink w2"
  shows "claims_uplink (gm_set ''up'' x p1) \<longleftrightarrow> c \<in> {UplinkPinned, UplinkBoth}"
    and "claims_uplink (gm_set ''up'' x p2) \<longleftrightarrow> c \<in> {UplinkMoves, UplinkBoth}"
  using assms by (cases c; auto simp: claim_ports_def Let_def claims_uplink_def field_is_uplink_def)+

lemma claimed_ports_keep:
  assumes "claim_ports c (w1, w2) = (p1, p2)"
  shows "is_called n (gm_set ''up'' x p1) = is_called n w1" "is_called n (gm_set ''up'' x p2) = is_called n w2"
    "map_of p2 ''ifname'' = map_of w2 ''ifname''"
    "gm_wf w1 \<Longrightarrow> gm_wf (gm_set ''up'' x p1)" "gm_wf w2 \<Longrightarrow> gm_wf (gm_set ''up'' x p2)"
    "spelled port_names w1 \<Longrightarrow> spelled port_names (gm_set ''up'' x p1)"
    "spelled port_names w2 \<Longrightarrow> spelled port_names (gm_set ''up'' x p2)"
  using assms
  by (cases c; auto simp: claim_ports_def Let_def is_called_def field_is_uplink_def
      intro!: up_spelled claim_spelled [unfolded field_is_uplink_def])+

lemma gatewayD:
  assumes "gateway d w1 w2 u n1 n2"
  shows "gm_wf d" "map_of d ''wan1'' = Some (JObj w1)" "map_of d ''wan2'' = Some (JObj w2)" "map_of d ''uplink'' = Some (JObj u)"
    "map_of d ''vbms_table'' = None" "spelled [''uplink''] d" "spelled port_names w1" "spelled port_names w2"
    "spelled [''name''] u" "gm_wf w1" "gm_wf w2" "gm_wf u" "claims_uplink w1" "\<not> claims_uplink w2"
    "map_of u ''name'' = Some (JStr n1)" "map_of w2 ''ifname'' = Some (JStr n2)" "n1 \<noteq> []" "n2 \<noteq> []"
    "is_called n1 w1" "\<not> is_called n1 w2" "is_called n2 w2" "\<not> is_called n2 w1"
    "\<And>k x. map_of d k = Some x \<Longrightarrow> wan_index_of k \<noteq> None \<Longrightarrow> x \<noteq> JNull \<Longrightarrow> k \<in> {''wan1'', ''wan2''}"
  using assms
  by (simp_all add: gateway_def claims_uplink_def is_called_def) (use assms in \<open>auto simp: gateway_def list_all_iff gm_wf_map_of\<close>)

lemma served_gateway:
  assumes gw: "gateway d w1 w2 u n1 n2" and listed: "fleet_listed m d"
  obtains y where "serve_device wild fixed2 m (JObj d) = Some (JObj y)" and "dr_wans (device_of pf (JObj y)) \<noteq> []"
    and "claimants (device_of pf (JObj y)) =
      (if mk_link m \<noteq> link_backup then [1]
       else (if fv_is_uplink (variant_of m) \<in> {UplinkPinned, UplinkBoth} then [1] else [])
         @ (if fv_is_uplink (variant_of m) \<in> {UplinkMoves, UplinkBoth} then [2] else []))"
    and "namesakes (device_of pf (JObj y)) = (if mk_link m = link_backup \<and> fv_context (variant_of m) then [2] else [1])"
proof -
  note g = gatewayD [OF gw]
  obtain d' where fleet: "rewrite_fleet wild fixed2 m d = Some d'"
    using fleet_iff [of wild fixed2 m d] listed by auto
  have keep: "map_of d' k = map_of d k" if "k \<notin> set rewritten_keys" for k using fleet_frame [OF fleet that] .
  have d': "map_of d' ''wan1'' = Some (JObj w1)" "map_of d' ''wan2'' = Some (JObj w2)" "map_of d' ''uplink'' = Some (JObj u)"
    "map_of d' ''vbms_table'' = None"
    using keep [OF gateway_frame(5)] keep [OF gateway_frame(6)] keep [OF gateway_frame(3)] keep [OF gateway_frame(4)] g(2-5)
    by simp_all
  have wf: "gm_wf d'" by (rule keyed.fleet_top [OF g(1) fleet])
  have wans: "\<And>k x. map_of d' k = Some x \<Longrightarrow> wan_index_of k \<noteq> None \<Longrightarrow> x \<noteq> JNull \<Longrightarrow> k \<in> {''wan1'', ''wan2''}"
    using fleet_wans [OF fleet] g(23) by simp
  have frame: "spelled [''uplink''] d'"
    by (rule spelled_frame [OF g(6) keep gateway_frame(1)])
  let ?y = "if mk_link m = link_backup then failover m d' else d'"
  have "map_of ?y ''vbms_table'' = None" using d'(4) failover_frame [of "''vbms_table''" m d'] by simp
  then have served: "serve_device wild fixed2 m (JObj d) = Some (JObj ?y)"
    using g(5) fleet d'(1) by (simp add: serve_device_def as_object_def rewrite_battery_def)
  show ?thesis
  proof (cases "mk_link m = link_backup")
    case False
    note read = gateway_read [OF wf d'(1-3) g(15,17) wans frame g(7-12), where pf = pf]
    show ?thesis using that [of d'] served read False g(13,14,19,20) by simp
  next
    case True
    obtain p1 p2 where ports: "claim_ports (fv_is_uplink (variant_of m)) (w1, w2) = (p1, p2)"
      by (cases "claim_ports (fv_is_uplink (variant_of m)) (w1, w2)")
    let ?a = "gm_set ''up'' (JBool False) p1" and ?b = "gm_set ''up'' (JBool True) p2"
    let ?n = "if fv_context (variant_of m) then n2 else n1"
    let ?u = "if fv_context (variant_of m) then gm_set ''name'' (nil_or (map_of p2 ''ifname'')) u else u"
    note at = failover_at [OF d'(1-3) ports] and after = claimed_ports_keep [OF ports]
    have u: "map_of ?u ''name'' = Some (JStr ?n)" "?n \<noteq> []" "gm_wf ?u"
      using g(12,15-18) after(3) by (simp_all add: nil_or_def)
    have u': "spelled [''name''] ?u" using g(9) by (auto intro: spelled_set)
    have f: "gm_wf (failover m d')" by (rule keyed.failover_top [OF wf])
    have fw: "\<And>k x. map_of (failover m d') k = Some x \<Longrightarrow> wan_index_of k \<noteq> None \<Longrightarrow> x \<noteq> JNull \<Longrightarrow> k \<in> {''wan1'', ''wan2''}"
      using wans failover_other by metis
    have fs: "spelled [''uplink''] (failover m d')"
      by (rule spelled_frame [OF frame failover_frame gateway_frame(2)])
    note read = gateway_read [OF f at u(1,2) fw fs after(6) [OF g(7)] after(7) [OF g(8)] u' after(4) [OF g(10)]
        after(5) [OF g(11)] u(3), where pf = pf]
    have called: "is_called ?n ?a \<longleftrightarrow> \<not> fv_context (variant_of m)" "is_called ?n ?b \<longleftrightarrow> fv_context (variant_of m)"
      using g(19-22) after(1,2) by simp_all
    show ?thesis
      using that [of "failover m d'"] served read True called claimed_ports [OF ports g(13,14)] by simp
  qed
qed

section \<open>The poll\<close>

lemma merge_keeps_wan: "map_of (fst (merge_health c wan index hs acc)) state_key_wan = map_of (fst acc) state_key_wan"
proof -
  have step: "map_of (fst (merge_subsystem c wan index h acc)) state_key_wan = map_of (fst acc) state_key_wan" for h acc
    by (auto simp: merge_subsystem_def Let_def split_def set_unless_empty_def state_key_defs split: option.splits)
  show ?thesis unfolding merge_health_def by (induction hs arbitrary: acc) (simp_all add: step)
qed

lemma observed_wan:
  assumes "observed_key c was ds state_key_wan = Some v"
  shows "\<exists>state. fst (observe_console c was (Inr ds) h) = Inr state \<and> map_of state state_key_wan = Some v"
proof -
  obtain state index where found: "fst (state_from_devices c was ds) = Inr (state, index)" "map_of state state_key_wan = Some v"
    using assms by (auto simp: observed_key_def split: sum.splits)
  obtain after counted where all: "state_from_devices c was ds = (Inr (state, index), after, counted)"
    using found(1) by (cases "state_from_devices c was ds") auto
  show ?thesis
  proof (cases h)
    case (Inl e)
    then show ?thesis using found(2) by (auto simp: observe_console_def all)
  next
    case (Inr hs)
    have "map_of (fst (merge_health c (gm_get state state_key_wan) index hs (state, counted))) state_key_wan = Some v"
      using merge_keeps_wan [of c _ index hs "(state, counted)"] found(2) by simp
    then show ?thesis
      by (cases "merge_health c (gm_get state state_key_wan) index hs (state, counted)")
        (auto simp: observe_console_def all Inr)
  qed
qed

text \<open>The transport to the mock: the key of the API is not looked at, and no session is held.\<close>

definition mock_transport :: "mock_lib \<Rightarrow> mock \<Rightarrow> console_request \<Rightarrow> string \<Rightarrow> exchange" where
  "mock_transport lib m q key = snd (mock_exchange lib (m, None) q)"

text \<open>A site whose name needs no escape in a path.\<close>

definition plain_site :: "string \<Rightarrow> bool" where
  "plain_site site = (plain_segment site \<and> path_escape site = site)"

lemma devices_polled:
  assumes "one_gateway m before d after" and "plain_site site" and "ul_unbuilt ul (site_path site ''stat/device'') = None"
    and "ul_send ul = mock_transport lib m"
  shows "client_get ul (Inr key) site (decode_devices (ul_float ul)) ''stat/device'' =
    Inr (map (device_of (ul_float ul)) (devices (ml_wild lib) (ml_fixed2 lib) m))"
proof -
  let ?q = "\<lparr>cq_method = method_get, cq_path = site_path site ''stat/device'', cq_body = None, cq_csrf = []\<rparr>"
  let ?xs = "devices (ml_wild lib) (ml_fixed2 lib) m"
  have path: "site_path site ''stat/device'' = network_path (rehearsal_writer\<lparr>cw_site := site\<rparr>) device_stat_endpoint"
    using assms(2) by (simp add: site_path_def network_path_def plain_site_def device_stat_endpoint_def)
  have "plain_segment (cw_site (rehearsal_writer\<lparr>cw_site := site\<rparr>))" using assms(2) by (simp add: plain_site_def)
  from site_routes(2) [OF this] have route: "routed method_get (site_path site ''stat/device'') ServeDevices" by (simp add: path)
  have served: "snd (mock_exchange lib (m, None) ?q) = Answered (answer_of lib (write_response ?xs))"
    using route by (simp add: mock_exchange_def routed_def mock_serve_def)
  have json: "cs_json (answer_of lib (write_response ?xs)) = Inr (JObj [(''meta'', JObj [(''rc'', JStr ''ok'')]), (''data'', JArr ?xs)])"
    using devices_fit(2) [OF assms(1)] by (simp add: answer_of_def write_response_def write_json_def)
  have fold: "fold_name ''meta'' \<noteq> fold_name ''data''" by code_simp
  have "decode_devices (ul_float ul) (JObj [(''meta'', JObj [(''rc'', JStr ''ok'')]), (''data'', JArr ?xs)]) =
      Some (map (device_of (ul_float ul)) ?xs)"
    using devices_fit(1) [OF assms(1)] fold
    by (simp add: decode_devices_def decode_response_def response_fits_def member_def object_in_def list_in_def)
  then show ?thesis
    using served json by (simp add: client_get_def assms(3,4) mock_transport_def answer_of_def write_response_def write_json_def)
qed

lemma device_wans: "dr_wans (device_of pf x) = wans_of (object_in x)"
  by (simp add: device_of_def Let_def)

lemma others_without_wans:
  assumes "no_wans (object_in x)" and "encodes x" and "serve_device wild fixed2 m x = Some y"
  shows "wans_of (object_in y) = []"
proof (cases x)
  case (JObj e)
  then show ?thesis using assms serve_without_wans [of e wild fixed2 m y] by (simp add: object_in_def)
qed (use assms in \<open>auto simp: serve_device_def as_object_def object_in_def wans_none no_wans_def\<close>)

lemma switch_without_wans:
  assumes "no_wans d" and "gm_wf d" and "rewrite_fleet wild fixed2 m d = Some d'"
  shows "wans_of d' = []"
  using assms fleet_wans [OF assms(3)] keyed.fleet_top [OF assms(2,3)] by (intro wans_none) (auto simp: no_wans_iff)

text \<open>Among the devices listed, the gateway alone reports WANs.\<close>

lemma gateway_alone:
  assumes "one_gateway m before d after" and "serve_device wild fixed2 m (JObj d) = Some (JObj y)"
    and "dr_wans (device_of pf (JObj y)) \<noteq> []"
  shows "filter (\<lambda>r. dr_wans r \<noteq> []) (map (device_of pf) (devices wild fixed2 m)) = [device_of pf (JObj y)]"
proof -
  note mock = one_gatewayD [OF assms(1)]
  let ?f = "filter (\<lambda>r. dr_wans r \<noteq> [])" and ?served = "List.map_filter (serve_device wild fixed2 m)"
  have others: "?f (map (device_of pf) (?served xs)) = []" if "set xs \<subseteq> set before \<union> set after" for xs
  proof -
    have "wans_of (object_in z) = []" if "x \<in> set xs" "serve_device wild fixed2 m x = Some z" for x z
    proof (rule others_without_wans)
      show "no_wans (object_in x)" using \<open>set xs \<subseteq> _\<close> that(1) by (intro mock(5)) blast
      show "encodes x" using \<open>set xs \<subseteq> _\<close> that(1) mock(1) by (intro mock(6)) auto
    qed (rule that(2))
    then show ?thesis by (auto simp: filter_empty_conv map_filter_def device_wans)
  qed
  have list: "devices wild fixed2 m = ?served before @ JObj y # ?served after @
      (case rewrite_fleet wild fixed2 m (mk_switch m) of None \<Rightarrow> [] | Some d \<Rightarrow> [JObj d])"
    using assms(2) mock(1) by (simp add: devices_def map_filter_def)
  have "encodes (JObj (mk_switch m))" by (rule mock(6)) simp
  then have "wans_of s = []" if "rewrite_fleet wild fixed2 m (mk_switch m) = Some s" for s
    using switch_without_wans [OF mock(4) _ that] by simp
  then have "?f (map (device_of pf) (case rewrite_fleet wild fixed2 m (mk_switch m) of None \<Rightarrow> [] | Some d \<Rightarrow> [JObj d])) = []"
    by (auto simp: device_wans object_in_def split: option.split)
  then show ?thesis using others [of before] others [of after] assms(3) by (simp add: list)
qed

lemma variants_claim: "(fv_is_uplink (variant_of m), fv_context (variant_of m)) \<in>
    {(UplinkMoves, True), (UplinkMoves, False), (UplinkPinned, True), (UplinkPinned, False), (UplinkBoth, True), (UplinkNeither, True)}"
  by (auto simp: variant_of_def failover_variants_def unknown_variant_def)

text \<open>C30: A failover rehearsed on the mock console is read as one. For a captured gateway of
  two uplinks, in any fleet, the poll decodes what the mock serves and publishes \<open>wan\<close>: the
  backup when the mock has failed over, under each hypothesis on what a console would then
  report (all signals move, only the claim moves, both ports claim, none does), except the
  one under which the claim never moves: that one is read as the primary, as a mock that
  has not failed over is. What the health endpoint answers makes no difference.\<close>

theorem rehearsed_failover_is_read:
  assumes "one_gateway m before d after" and "gateway d w1 w2 u n1 n2"
    and "plain_site site" and "ul_unbuilt ul (site_path site ''stat/device'') = None"
    and "ul_send ul = mock_transport lib m"
  shows "\<exists>state. fst (observe_unifi ul (Inr key) site c was) = Inr state \<and>
    map_of state state_key_wan =
      Some (if mk_link m = link_backup \<and> fv_is_uplink (variant_of m) \<noteq> UplinkPinned then wan_backup else wan_primary)"
proof -
  let ?ds = "map (device_of (ul_float ul)) (devices (ml_wild lib) (ml_fixed2 lib) m)"
  obtain y where y: "serve_device (ml_wild lib) (ml_fixed2 lib) m (JObj d) = Some (JObj y)"
      "dr_wans (device_of (ul_float ul) (JObj y)) \<noteq> []"
    and claims: "claimants (device_of (ul_float ul) (JObj y)) =
      (if mk_link m \<noteq> link_backup then [1]
       else (if fv_is_uplink (variant_of m) \<in> {UplinkPinned, UplinkBoth} then [1] else [])
         @ (if fv_is_uplink (variant_of m) \<in> {UplinkMoves, UplinkBoth} then [2] else []))"
    and named: "namesakes (device_of (ul_float ul) (JObj y)) =
      (if mk_link m = link_backup \<and> fv_context (variant_of m) then [2] else [1])"
    using served_gateway [OF assms(2) one_gatewayD(2) [OF assms(1)]] by blast
  have "observed_key c was ?ds state_key_wan =
      Some (if mk_link m = link_backup \<and> fv_is_uplink (variant_of m) \<noteq> UplinkPinned then wan_backup else wan_primary)"
    using variants_claim [of m]
    by (auto simp: wan_key_exact gateway_alone [OF assms(1) y] claims named side_def)
  then show ?thesis
    unfolding observe_unifi_def devices_polled [OF assms(1,3-5)] by (rule observed_wan)
qed

section \<open>A sample\<close>

definition rehearsal_port :: "string \<Rightarrow> bool \<Rightarrow> jobj" where
  "rehearsal_port n claimed = [(field_is_uplink, JBool claimed), (''up'', JBool claimed), (''ifname'', JStr n), (''name'', JStr n)]"

definition two_uplinks :: jobj where
  "two_uplinks =
     [(''model'', JStr ''UDMPRO''), (''name'', JStr ''Dream Machine Pro''), (''state'', JNum 1), (''adopted'', JBool True),
      (''wan1'', JObj (rehearsal_port ''eth8'' True)), (''wan2'', JObj (rehearsal_port ''eth9'' False)),
      (''uplink'', JObj [(''name'', JStr ''eth8'')]), (''isp'', JStr ''Example Telecom''), (field_outlet_table, JArr [])]"

definition failed_over :: mock where
  "failed_over = (initial_mock [JObj two_uplinks] [] ''10.5.67'')\<lparr>mk_link := link_backup, mk_variant := ''no-uplink''\<rparr>"

definition rehearsal_transport :: unifi_lib where
  "rehearsal_transport = \<lparr>ul_unbuilt = (\<lambda>_. None), ul_send = mock_transport rehearsal_lib failed_over, ul_explain = (\<lambda>_. []),
     ul_float = (\<lambda>_. None)\<rparr>"

theorem rehearsed_failover_is_read_witness:
  "\<forall>c was. \<exists>state. fst (observe_unifi rehearsal_transport (Inr ''key'') ''default'' c was) = Inr state \<and>
     map_of state state_key_wan = Some wan_backup"
proof -
  have mock: "one_gateway failed_over [] two_uplinks []" by code_simp
  have gateway: "gateway two_uplinks (rehearsal_port ''eth8'' True) (rehearsal_port ''eth9'' False) [(''name'', JStr ''eth8'')]
      ''eth8'' ''eth9''" by code_simp
  have site: "plain_site ''default''" by code_simp
  have state: "mk_link failed_over = link_backup" "fv_is_uplink (variant_of failed_over) \<noteq> UplinkPinned" by code_simp+
  show ?thesis
    using rehearsed_failover_is_read [OF mock gateway site, of rehearsal_transport rehearsal_lib "''key''"] state
    by (simp add: rehearsal_transport_def)
qed

end
