(* ===== verification/Spec2Isabelle.thy ===== *)
theory Spec2Isabelle
  imports Peers Handback Outbound WiringFacts Pipeline PollerFacts MockInvariant MockRehearsal
begin

text \<open>
  A model of unifi-reactor, the Kubernetes operator that watches the state of a UniFi
  console and puts workloads into the levels its Automations ask for while a state
  holds, and back where they were when it no longer does.

  HOW THE PROGRAM IS PUT TOGETHER. A poller (\<open>internal/controller/unifi_poller.go\<close>) reads
  the console, hands the readings to the state store (\<open>internal/engine/state.go\<close>), which
  debounces them per key, and wakes the Automations that watch the provider. One pass of
  the reconciler (\<open>Reconcile\<close> in \<open>internal/controller/automation_controller.go\<close>) assesses
  the condition of one Automation against the store, settles each target it names by
  arbitrating between all the Automations that name the same target
  (\<open>arbitration.go\<close>, \<open>internal/engine/arbiter.go\<close>), commits the decision in the status,
  reports it in conditions and Events, and only then fires the edge actions
  (\<open>edge_actions.go\<close>, \<open>internal/actions\<close>). The uninstall sweep (\<open>release.go\<close>) hands every
  claimed target back. The provider (\<open>internal/providers/unifi\<close>) is what turns the
  console's device and health records into those readings, and what writes to the console
  when an action asks for it; \<open>cmd/main.go\<close> builds all of it from the environment. The
  repository carries a mock of the console (\<open>hack/mock-unifi/main.go\<close>) that the operator is
  developed against: it serves captured records rewritten to a state a developer sets, and
  it enforces what a console would of the writes Reactor makes.

  HOW IT IS MODELLED. Everything that acts on the outside is a program of type
  \<open>('q, 'a) prog\<close> (theory Cluster): a tree whose nodes are the calls the code makes, one
  constructor per call of the API server, the state store, the clock, the event recorder,
  the outbound client and the console, and whose branches are every answer these may give.
  A \<open>server\<close> answers the calls from a state of its own (\<open>run\<close>, \<open>play\<close>), an execution of
  a program (\<open>exec\<close>, theory Traces) is any list of calls with any answers, so a property
  of all executions holds for every server, failing and conflicting ones included; workers
  that interleave (\<open>reaches\<close>, theory Race) share one server's state and take turns call by
  call. What the provider sends to the console is a conversation (\<open>console\<close>, theory
  ConsoleSession): a tree of requests and of the continuation on each answer, with \<open>held\<close>
  its executions and \<open>converse\<close> the one against a given console; \<open>mock_session\<close> (theory
  MockServer) is the one against the mock console, whose state goes from one answer to the
  next. Errors are the left of a sum, absent values are \<open>None\<close>, strings are lists of bytes,
  a Go map is an association list whose order stands for one order of iteration, and
  integers are \<open>int\<close> with the wrap-around written out (\<open>int32\<close>, \<open>int64\<close>) where the code
  computes at a width, words where it works on bits.

  THE PARTS, AND THE THEORY OF EACH.
  \<^item> Prelude, GoText: Go maps, sorting, and the string and number routines of Go's library
    the code uses.
  \<^item> Arbiter (\<open>internal/engine/arbiter.go\<close>): \<open>resolve\<close>, the meet over competing intents; the
    locale \<open>arbiter\<close> is what the reconciler relies on, interpreted as \<open>arb\<close>.
  \<^item> StateStore, StoreSpec (\<open>internal/engine/state.go\<close>): \<open>observe\<close> and its kin as functions on
    the store record; StoreSpec states the abstract machine of one key and that the store
    is a family of them.
  \<^item> Api (\<open>api/v1alpha1/automation_types.go\<close>): the Automation and its status.
  \<^item> Cluster: the calls, programs and servers. Targets (\<open>targets.go\<close>): the kinds and their
    handlers; the locale \<open>level_codec\<close> is the baseline annotation's contract.
  \<^item> Evaluate, Arbitration (\<open>evaluate\<close>, \<open>arbitration.go\<close>, \<open>hpa.go\<close>): conditions, claims,
    reversals, the claim and release writes.
  \<^item> Templates (\<open>internal/actions/template_check.go\<close>), Conditions (\<open>events.go\<close>,
    \<open>templates.go\<close>, the condition writers), Reconciler (one pass), EdgeActions
    (\<open>edge_actions.go\<close>, \<open>console_actions.go\<close>, \<open>restart.go\<close>), Release (\<open>release.go\<close>), Poller
    (\<open>unifi_poller.go\<close>).
  \<^item> Utf8, Destination, Payloads, Client (\<open>internal/actions\<close>): bytes and characters, the
    destination policy with the dialer's address floor, credentials and payloads, and the
    client's tries over the wire.
  \<^item> Json, Float64: decoded JSON documents with the structural searches the provider makes,
    and IEEE doubles as the rationals they hold, with rounding, infinities and NaN.
  \<^item> ConsolePolicy, ConsoleSession, ConsoleWrite, ConsoleOutlet (\<open>write.go\<close>, the session of
    \<open>alarm.go\<close>, \<open>internal/actions/console.go\<close>): the allowlists, the cookie session, and the
    WLAN, PoE and outlet writes with the checks made on what the console reports first.
  \<^item> Alarm (\<open>alarm.go\<close>): the registration of the rule that calls the webhook.
  \<^item> Vocabulary (\<open>state.go\<close>), Readings, Fleet, Health (\<open>client.go\<close>, \<open>devices.go\<close>, \<open>firmware.go\<close>,
    \<open>temperature.go\<close>, \<open>poe.go\<close>, \<open>outlets.go\<close>, \<open>datausage.go\<close>, \<open>health.go\<close>, \<open>wifi.go\<close>): the keys
    and values published, and the derivation of each from the decoded records, up to
    \<open>observe_console\<close>, which is \<open>Observe\<close> on decoded records. Decode (\<open>Client.get\<close> and the struct
    tags of those files): the request, and the types \<open>encoding/json\<close> checks an answer against
    before its fields are read.
  \<^item> Config (\<open>config.go\<close>), Receiver (\<open>receiver.go\<close>), Version (\<open>version.go\<close>): the environment, the
    webhook endpoint with its channel of one slot, the version check.
  \<^item> StateMetrics (\<open>internal/metrics/metrics.go\<close>): the series. Adopt (\<open>internal/adopt/crd.go\<close>): the
    hand-over of the CRD. Wiring (\<open>cmd/main.go\<close>): the three modes and what start-up builds.
  \<^item> MockState, MockFleet, MockServer, MockDev (\<open>hack/mock-unifi/main.go\<close>): the state of the
    mock console, the records it serves, the endpoints Reactor talks to with their routes,
    and the endpoints a developer sets the state with.

  WHAT THE GROUPS OF THEOREMS SHOW.
  \<^item> Quiet, Monitor, Claims, Passes: properties of every execution of a pass: what a dry
    run may call, that no level is written before the baseline is recorded, that unseen
    state is held, that a failed pass commits nothing and that edge actions follow the
    status write. Monitor gives the calculus: a predicate on calls that depends on what has
    been answered so far, checked along the program.
  \<^item> Peers: arbitration across Automations: the meet, independence of listing order, previews.
  \<^item> Race: any number of workers on one target under rely and guarantee (the locale
    \<open>interference\<close>); and the one interleaving of a claim with a release that strands a target.
  \<^item> Handback: claim and release as inverses, deletion, the uninstall sweep, the backoff.
  \<^item> StoreSpec, Evaluate, Targets, Templates, Outbound: the functional properties of their
    component.
  \<^item> ConsoleSafety, AlarmFacts: for every console, truthful or not: what a conversation may
    send, how much of it, and that each changing request is agreed by the allowlist, the
    action and what was read in the same session; the locale \<open>console_action\<close> is what the
    three kinds of write share, interpreted as \<open>outlets\<close>, \<open>ports\<close> and \<open>wlans\<close>.
  \<^item> Observed: every entry an observation publishes is of the declared vocabulary. FleetFacts:
    each key as a function of the device records, and where a NaN decides it.
  \<^item> ConfigFacts, WiringFacts: the environment read exactly, the debounce counts carried from
    its text to the store, and that neither an unlisted install writes nor the webhook
    variables decide anything. Receiver and Adopt carry their own theorems.
  \<^item> Pipeline: the poller's round with the client before it and the series after it: what the
    store reports is always of the vocabulary, and the gauges say it. PollerFacts: what
    webhook deliveries can and cannot do to a value that is settling.
  \<^item> MockDocuments, MockSession, MockWlans, MockPorts, MockOutlets, MockAlarms: Reactor's
    writes and its registration run against the mock console, to the state they leave it
    in: a WLAN action, a power cycle, an outlet action, and a rule whose delivery the
    receiver accepts. MockDocuments proves once, in the locale \<open>served_law\<close>, what every rewriting
    of a served record keeps, interpreted as \<open>keyed\<close> and \<open>unaddressed\<close>. MockInvariant: what one
    request can change, and the tables kept through any history of requests. MockDecode,
    MockRehearsal: the other direction, the poll run against what the mock serves: every
    rewriting leaves a document that decodes, and a rehearsed failover is read as one.
  \<^item> Samples: one concrete Automation, target and server, which the witnesses run on.

  BOUNDS AND TERMINATION. Almost all loops of the code are over lists or carry a count and
  are structural recursions; the trimming of white space and the printing of a number
  recurse on a measure. No fuel is used: a program or a conversation is finite along every
  branch because the code's loops are.

  DOCUMENTS. A number of a document is the double it holds, so a whole number spelled with a
  fraction or an exponent, which a field of an integer type refuses, is taken for the
  number. Of two entries of one object whose names fold to the same field the last is read;
  that \<open>encoding/json\<close> would merge two objects or lists given so is not modelled.

  PARAMETERS. Code outside the repository is a parameter: the API server, clock and recorder
  (the answers of an execution), the console (the answers of a conversation), the parsers
  of net/url, net and net/netip (\<open>url_lib\<close> and the address parsers), the parser and executor
  of text/template (\<open>edge_lib\<close>), the transport of net/http (the wire of Client),
  \<open>time.ParseDuration\<close>, \<open>strconv.ParseFloat\<close> and the reading of a file (\<open>env_lib\<close>,
  \<open>start_lib\<close>), the decoding of a token's payload (\<open>claim\<close>), and what a conversion of a double out
  of range gives (\<open>wild\<close>), which Go leaves to the machine. For the
  mock console: the text of an encoded document, the answer of \<open>ServeMux\<close> to a path no
  pattern matches and the printing of a wattage (\<open>mock_lib\<close>), the decoder of a token's
  payload (\<open>reads_claims\<close> is all that is asked of it: that it finds the token in the
  payload the mock gives, or nothing), and whether \<open>net/http\<close> can make a request for an address.

  NOT MODELLED. Log lines, with the outlet snapshot and the version text that only they read;
  the manager, its caches, servers, certificates and flags of addresses; the routing of the
  webhook's ServeMux; the generated deepcopy code; the documentation generator, which
  prints pages from parsed Go and YAML sources and keeps no state; of the mock console its
  flags, the reading of the captured files, and the answer of \<open>/alarm-fire\<close>.
\<close>

end
